(* ===== verification/Prelude.thy ===== *)
theory Prelude
  imports Main "HOL-Library.AList" "HOL-Library.Char_ord" "HOL-Library.List_Lexorder"
    "HOL-Library.Product_Lexorder"
begin

section \<open>Shared notions of the development\<close>

text \<open>
  The computation type every stateful operation of the model has: it takes the state and returns
  an error or a value, together with the state it leaves behind. Go's
  \<^verbatim>\<open>if err != nil { return nil, err }\<close> is the failing branch of \<open>and_then\<close>. Association lists
  stand for Go's \<^verbatim>\<open>map[string]string\<close>: a map is read with \<open>map_of\<close> and written with
  \<open>AList.update\<close>, and its keys are distinct. The zero value of a string is \<open>[]\<close>.
\<close>

named_theorems run_simps

type_synonym ('s, 'e, 'a) prog = "'s \<Rightarrow> ('e + 'a) \<times> 's"

definition ret :: "'a \<Rightarrow> ('s, 'e, 'a) prog" where
  "ret x s = (Inr x, s)"

definition throw :: "'e \<Rightarrow> ('s, 'e, 'a) prog" where
  "throw e s = (Inl e, s)"

definition and_then :: "('s, 'e, 'a) prog \<Rightarrow> ('a \<Rightarrow> ('s, 'e, 'b) prog) \<Rightarrow> ('s, 'e, 'b) prog" where
  "and_then m f s = (case m s of (Inl e, s') \<Rightarrow> (Inl e, s') | (Inr x, s') \<Rightarrow> f x s')"

definition of_result :: "'e + 'a \<Rightarrow> ('s, 'e, 'a) prog" where
  "of_result r s = (r, s)"

text \<open>A statement that reads the state it runs in.\<close>

definition with_state :: "('s \<Rightarrow> ('s, 'e, 'a) prog) \<Rightarrow> ('s, 'e, 'a) prog" where
  "with_state f s = f s s"

lemma with_state_simp [run_simps]: "with_state f s = f s s"
  by (simp add: with_state_def)

lemma ret_simp [run_simps]: "ret x s = (Inr x, s)"
  by (simp add: ret_def)

lemma throw_simp [run_simps]: "throw e s = (Inl e, s)"
  by (simp add: throw_def)

lemma of_result_simp [run_simps]: "of_result r s = (r, s)"
  by (simp add: of_result_def)

lemma and_then_Inr: "m s = (Inr x, s') \<Longrightarrow> and_then m f s = f x s'"
  by (simp add: and_then_def)

lemma and_then_Inl: "m s = (Inl e, s') \<Longrightarrow> and_then m f s = (Inl e, s')"
  by (simp add: and_then_def)

lemma and_then_InrE:
  assumes "and_then m f s = (Inr y, s'')"
  obtains x s' where "m s = (Inr x, s')" and "f x s' = (Inr y, s'')"
  using assms by (auto simp: and_then_def split: prod.splits sum.splits)

lemma and_then_InlE:
  assumes "and_then m f s = (Inl e, s'')"
  obtains "m s = (Inl e, s'')" | x s' where "m s = (Inr x, s')" and "f x s' = (Inl e, s'')"
  using assms by (auto simp: and_then_def split: prod.splits sum.splits)

subsection \<open>Association lists as Go maps\<close>

type_synonym tag_map = "(string \<times> string) list"

text \<open>Go's \<^verbatim>\<open>m[k]\<close> on a map of strings: the zero value when the key is absent.\<close>

definition tag_get :: "tag_map \<Rightarrow> string \<Rightarrow> string" where
  "tag_get m k = (case map_of m k of None \<Rightarrow> [] | Some v \<Rightarrow> v)"

definition tag_has :: "tag_map \<Rightarrow> string \<Rightarrow> bool" where
  "tag_has m k = (map_of m k \<noteq> None)"

lemma map_of_update [simp]: "map_of (AList.update k v m) = (map_of m)(k \<mapsto> v)"
  by (rule update_conv')

lemma distinct_update_keys: "distinct (map fst m) \<Longrightarrow> distinct (map fst (AList.update k v m))"
  by (rule distinct_update)

lemma tag_get_update [simp]: "tag_get (AList.update k v m) j = (if j = k then v else tag_get m j)"
  by (simp add: tag_get_def)

lemma tag_has_update [simp]: "tag_has (AList.update k v m) j = (j = k \<or> tag_has m j)"
  by (simp add: tag_has_def)

lemma update_fresh_append: "k \<notin> fst ` set m \<Longrightarrow> AList.update k v m = m @ [(k, v)]"
  by (induction m) auto

subsection \<open>Lists\<close>

lemma find_append: "find P (xs @ ys) = (case find P xs of None \<Rightarrow> find P ys | Some x \<Rightarrow> Some x)"
  by (induction xs) auto

lemma find_map: "find P (map f xs) = map_option f (find (P \<circ> f) xs)"
  by (induction xs) auto

lemma find_SomeD: "find P xs = Some x \<Longrightarrow> x \<in> set xs \<and> P x"
  by (induction xs) (auto split: if_splits)

lemma find_unique:
  "\<lbrakk>distinct (map f xs); x \<in> set xs\<rbrakk> \<Longrightarrow> find (\<lambda>y. f y = f x) xs = Some x"
  by (induction xs) (auto simp: image_iff)

end
