(* ===== verification/GoStrings.thy ===== *)
theory GoStrings
  imports Unicode
begin

section \<open>Go strings: bytes, runes and the functions of package strings\<close>

text \<open>
  A Go string is a sequence of bytes, here a \<open>char list\<close>. Ranging over it decodes UTF-8: a byte
  that starts no valid encoding is the rune \<open>rune_error\<close> of width one. This theory models that
  decoding and the functions of packages strings and strconv the program calls.
\<close>

abbreviation byte_of :: "char \<Rightarrow> nat" where
  "byte_of c \<equiv> of_char c"

definition cont_byte :: "nat \<Rightarrow> bool" where
  "cont_byte b = (128 \<le> b \<and> b \<le> 191)"

text \<open>
  \<^verbatim>\<open>utf8.DecodeRuneInString\<close> on a non-empty string: the rune and the bytes after it. The
  continuation bytes of a lead byte are read by \<open>decode2\<close>, \<open>decode3\<close> and \<open>decode4\<close>, which
  refuse overlong forms, surrogates and values above U+10FFFF.
\<close>

definition decode2 :: "nat \<Rightarrow> string \<Rightarrow> (rune \<times> string) option" where
  "decode2 b0 cs = (case cs of
      c1 # rest \<Rightarrow> (if cont_byte (byte_of c1)
                    then Some ((b0 - 192) * 64 + (byte_of c1 - 128), rest) else None)
    | _ \<Rightarrow> None)"

definition decode3 :: "nat \<Rightarrow> string \<Rightarrow> (rune \<times> string) option" where
  "decode3 b0 cs = (case cs of
      c1 # c2 # rest \<Rightarrow>
        (if cont_byte (byte_of c1) \<and> cont_byte (byte_of c2)
            \<and> (b0 = 224 \<longrightarrow> 160 \<le> (byte_of c1 :: nat)) \<and> (b0 = 237 \<longrightarrow> byte_of c1 < (160 :: nat))
         then Some ((b0 - 224) * 4096 + (byte_of c1 - 128) * 64 + (byte_of c2 - 128), rest)
         else None)
    | _ \<Rightarrow> None)"

definition decode4 :: "nat \<Rightarrow> string \<Rightarrow> (rune \<times> string) option" where
  "decode4 b0 cs = (case cs of
      c1 # c2 # c3 # rest \<Rightarrow>
        (if cont_byte (byte_of c1) \<and> cont_byte (byte_of c2) \<and> cont_byte (byte_of c3)
            \<and> (b0 = 240 \<longrightarrow> 144 \<le> (byte_of c1 :: nat)) \<and> (b0 = 244 \<longrightarrow> byte_of c1 < (144 :: nat))
         then Some ((b0 - 240) * 262144 + (byte_of c1 - 128) * 4096 + (byte_of c2 - 128) * 64
                      + (byte_of c3 - 128), rest)
         else None)
    | _ \<Rightarrow> None)"

definition decode_multi :: "nat \<Rightarrow> string \<Rightarrow> (rune \<times> string) option" where
  "decode_multi b0 cs =
     (if b0 < 194 then None else if b0 < 224 then decode2 b0 cs
      else if b0 < 240 then decode3 b0 cs else if b0 < 245 then decode4 b0 cs else None)"

definition decode_rune :: "char \<Rightarrow> string \<Rightarrow> rune \<times> string" where
  "decode_rune c cs =
     (if byte_of c < (128 :: nat) then (byte_of c, cs)
      else case decode_multi (byte_of c) cs of None \<Rightarrow> (rune_error, cs) | Some rr \<Rightarrow> rr)"

lemma decode_multi_shorter: "decode_multi b cs = Some (r, rest) \<Longrightarrow> length rest \<le> length cs"
  by (auto simp: decode_multi_def decode2_def decode3_def decode4_def split: list.splits if_splits)

lemma decode_multi_append:
  "decode_multi b cs = Some (r, rest) \<Longrightarrow> decode_multi b (cs @ q) = Some (r, rest @ q)"
  by (auto simp: decode_multi_def decode2_def decode3_def decode4_def split: list.splits if_splits)

lemma decode_rune_shorter: "length (snd (decode_rune c cs)) \<le> length cs"
  by (auto simp: decode_rune_def dest: decode_multi_shorter split: option.splits)

lemma decode_rune_ascii [simp]: "byte_of c < (128::nat) \<Longrightarrow> decode_rune c cs = (byte_of c, cs)"
  by (simp add: decode_rune_def)

text \<open>\<^verbatim>\<open>for _, r := range s\<close>.\<close>

function runes :: "string \<Rightarrow> rune list" where
  "runes [] = []"
| "runes (c # cs) = (case decode_rune c cs of (r, rest) \<Rightarrow> r # runes rest)"
  by pat_completeness auto
termination
proof (relation "measure length", simp)
  fix c cs r rest
  assume eq: "(r, rest) = decode_rune c cs"
  have "length (snd (decode_rune c cs)) \<le> length cs" by (rule decode_rune_shorter)
  then show "(rest, c # cs) \<in> measure length" by (simp flip: eq)
qed

definition ascii_string :: "string \<Rightarrow> bool" where
  "ascii_string s = list_all (\<lambda>c. byte_of c < (128::nat)) s"

lemma runes_ascii: "ascii_string s \<Longrightarrow> runes s = map byte_of s"
  by (induction s) (simp_all add: ascii_string_def)

text \<open>\<^verbatim>\<open>utf8.AppendRune\<close>.\<close>

definition encode_rune :: "rune \<Rightarrow> string" where
  "encode_rune r0 =
     (let r = (if (55296 \<le> r0 \<and> r0 \<le> 57343) \<or> 1114111 < r0 then rune_error else r0) in
      map char_of
       (if r < 128 then [r]
        else if r < 2048 then [192 + r div 64, 128 + r mod 64]
        else if r < 65536 then [224 + r div 4096, 128 + r div 64 mod 64, 128 + r mod 64]
        else [240 + r div 262144, 128 + r div 4096 mod 64, 128 + r div 64 mod 64, 128 + r mod 64]))"

lemma encode_rune_ascii: "byte_of c < (128::nat) \<Longrightarrow> encode_rune (byte_of c) = [c]"
  by (simp add: encode_rune_def)

text \<open>\<^verbatim>\<open>strings.ToLower\<close>.\<close>

definition to_lower :: "string \<Rightarrow> string" where
  "to_lower s = concat (map (\<lambda>r. encode_rune (to_lower_rune r)) (runes s))"

definition lower_char :: "char \<Rightarrow> char" where
  "lower_char c = (if 65 \<le> (byte_of c :: nat) \<and> byte_of c \<le> (90::nat) then char_of ((byte_of c :: nat) + 32) else c)"

lemma of_char_char_of_small [simp]: "n < 256 \<Longrightarrow> of_char (char_of (n::nat) :: char) = (n::nat)"
  by simp

lemma to_lower_ascii: "ascii_string s \<Longrightarrow> to_lower s = map lower_char s"
proof (induction s)
  case Nil
  then show ?case by (simp add: to_lower_def)
next
  case (Cons c cs)
  then have c: "byte_of c < (128::nat)" and IH: "to_lower cs = map lower_char cs"
    by (simp_all add: ascii_string_def)
  have "encode_rune (to_lower_rune (byte_of c)) = [lower_char c]"
    using c by (auto simp: to_lower_rune_ascii encode_rune_def lower_char_def)
  with c IH show ?case by (simp add: to_lower_def)
qed

text \<open>
  \<^verbatim>\<open>strings.EqualFold\<close> with a second argument that is an ASCII literal, as at every call: under
  simple folding an ASCII letter equals its other case, \<open>s\<close> equals the long s (U+017F) and
  \<open>k\<close> the Kelvin sign (U+212A).
\<close>

definition fold_rune :: "rune \<Rightarrow> rune" where
  "fold_rune r = (if 65 \<le> r \<and> r \<le> 90 then r + 32 else if r = 383 then 115 else if r = 8490 then 107 else r)"

definition equal_fold_ascii :: "string \<Rightarrow> string \<Rightarrow> bool" where
  "equal_fold_ascii s literal = (map fold_rune (runes s) = map fold_rune (runes literal))"

text \<open>\<^verbatim>\<open>strings.IndexFunc(s, f) >= 0\<close>.\<close>

definition has_rune :: "(rune \<Rightarrow> bool) \<Rightarrow> string \<Rightarrow> bool" where
  "has_rune f s = list_ex f (runes s)"

subsection \<open>Decoding a prefix, and decoding what was encoded\<close>

text \<open>A rune decoded from a string does not change when bytes are appended.\<close>

lemma decode_rune_append:
  assumes "fst (decode_rune c cs) \<noteq> rune_error"
  shows "decode_rune c (cs @ q) = (fst (decode_rune c cs), snd (decode_rune c cs) @ q)"
  using assms by (auto simp: decode_rune_def decode_multi_append split: option.splits)

definition scalar :: "rune \<Rightarrow> bool" where
  "scalar r = (r \<le> 1114111 \<and> \<not> (55296 \<le> r \<and> r \<le> 57343))"

lemma decode_2:
  assumes "2 \<le> a" "a < 32" "b < 64"
  shows "decode_rune (char_of (192 + a)) (char_of (128 + b) # rest) = (a * 64 + b, rest)"
  using assms by (simp add: decode_rune_def decode_multi_def decode2_def cont_byte_def)

lemma decode_3:
  assumes "a < 16" "b < 64" "c < 64" "a = 0 \<longrightarrow> 32 \<le> b" "a = 13 \<longrightarrow> b < 32"
  shows "decode_rune (char_of (224 + a)) (char_of (128 + b) # char_of (128 + c) # rest)
     = (a * 4096 + b * 64 + c, rest)"
  using assms by (auto simp: decode_rune_def decode_multi_def decode3_def cont_byte_def)

lemma decode_4:
  assumes "a < 5" "b < 64" "c < 64" "d < 64" "a = 0 \<longrightarrow> 16 \<le> b" "a = 4 \<longrightarrow> b < 16"
  shows "decode_rune (char_of (240 + a))
     (char_of (128 + b) # char_of (128 + c) # char_of (128 + d) # rest)
     = (a * 262144 + b * 4096 + c * 64 + d, rest)"
  using assms by (auto simp: decode_rune_def decode_multi_def decode4_def cont_byte_def)

lemma decode_encode_2:
  assumes "128 \<le> r" "r < 2048"
  shows "decode_rune (char_of (192 + r div 64)) (char_of (128 + r mod 64) # rest) = (r, rest)"
proof -
  have "2 \<le> r div 64" "r div 64 < 32" "r mod 64 < 64" using assms by auto
  from decode_2 [OF this] show ?thesis by simp
qed

lemma split_base64:
  fixes r :: nat
  shows "r = r div 4096 * 4096 + r div 64 mod 64 * 64 + r mod 64"
proof -
  have "r div 4096 = r div 64 div 64" by (simp add: div_mult2_eq [symmetric])
  moreover have "r div 64 = r div 64 div 64 * 64 + r div 64 mod 64" by (rule div_mult_mod_eq [symmetric])
  moreover have "r = r div 64 * 64 + r mod 64" by (rule div_mult_mod_eq [symmetric])
  ultimately show ?thesis by linarith
qed

lemma decode_encode_3:
  assumes "2048 \<le> r" "r < 65536" "\<not> (55296 \<le> r \<and> r \<le> 57343)"
  shows "decode_rune (char_of (224 + r div 4096))
     (char_of (128 + r div 64 mod 64) # char_of (128 + r mod 64) # rest) = (r, rest)"
proof -
  define a b c where abc: "a = r div 4096" "b = r div 64 mod 64" "c = r mod 64"
  have sum: "r = a * 4096 + b * 64 + c" unfolding abc by (rule split_base64)
  have bnd: "b < 64" "c < 64" by (simp_all add: abc)
  moreover from sum bnd assms have "a < 16" "a = 0 \<longrightarrow> 32 \<le> b" "a = 13 \<longrightarrow> b < 32" by auto
  ultimately have "decode_rune (char_of (224 + a)) (char_of (128 + b) # char_of (128 + c) # rest)
     = (a * 4096 + b * 64 + c, rest)" by (intro decode_3)
  with sum show ?thesis by (simp add: abc)
qed

lemma decode_encode_4:
  assumes "65536 \<le> r" "r \<le> 1114111"
  shows "decode_rune (char_of (240 + r div 262144))
     (char_of (128 + r div 4096 mod 64) # char_of (128 + r div 64 mod 64) # char_of (128 + r mod 64) # rest)
     = (r, rest)"
proof -
  define a b c d where abc: "a = r div 262144" "b = r div 4096 mod 64" "c = r div 64 mod 64" "d = r mod 64"
  have "r div 4096 = r div 4096 div 64 * 64 + r div 4096 mod 64" by (rule div_mult_mod_eq [symmetric])
  moreover have "r div 4096 div 64 = r div 262144" by (simp add: div_mult2_eq [symmetric])
  moreover have "r = r div 4096 * 4096 + r div 64 mod 64 * 64 + r mod 64" by (rule split_base64)
  ultimately have sum: "r = a * 262144 + b * 4096 + c * 64 + d" unfolding abc by linarith
  have bnd: "b < 64" "c < 64" "d < 64" by (simp_all add: abc)
  moreover from sum bnd assms have "a < 5" "a = 0 \<longrightarrow> 16 \<le> b" "a = 4 \<longrightarrow> b < 16" by auto
  ultimately have "decode_rune (char_of (240 + a))
       (char_of (128 + b) # char_of (128 + c) # char_of (128 + d) # rest)
     = (a * 262144 + b * 4096 + c * 64 + d, rest)" by (intro decode_4)
  with sum show ?thesis by (simp add: abc)
qed

lemma runes_encode_rune: "scalar r \<Longrightarrow> runes (encode_rune r @ rest) = r # runes rest"
  by (auto simp: encode_rune_def scalar_def Let_def decode_encode_2 decode_encode_3 decode_encode_4)

lemma runes_encode: "list_all scalar rs \<Longrightarrow> runes (concat (map encode_rune rs)) = rs"
  by (induction rs) (simp_all add: runes_encode_rune)

lemma scalar_3:
  assumes "a < 16" "b < 64" "c < 64" "a = 13 \<longrightarrow> b < 32"
  shows "scalar (a * 4096 + b * 64 + c)"
proof -
  consider "a < 13" | "a = 13" | "13 < a" by linarith
  then show ?thesis using assms by cases (auto simp: scalar_def)
qed

lemma decode3_scalar:
  assumes "decode3 b cs = Some (r, rest)" "224 \<le> b" "b < 240"
  shows "scalar r"
proof -
  from assms obtain c1 c2 :: char where c: "cont_byte (byte_of c1)" "cont_byte (byte_of c2)"
      "b = 237 \<longrightarrow> byte_of c1 < (160 :: nat)"
      and r: "r = (b - 224) * 4096 + (byte_of c1 - 128) * 64 + (byte_of c2 - 128)"
    by (auto simp: decode3_def split: list.splits if_splits)
  have "scalar ((b - 224) * 4096 + (byte_of c1 - 128) * 64 + (byte_of c2 - 128))"
    using c assms(2,3) by (intro scalar_3) (auto simp: cont_byte_def)
  with r show ?thesis by simp
qed

lemma decode_multi_scalar: "decode_multi b cs = Some (r, rest) \<Longrightarrow> scalar r"
  by (auto simp: decode_multi_def dest: decode3_scalar split: if_splits)
    (auto simp: decode2_def decode4_def scalar_def cont_byte_def split: list.splits if_splits)

lemma decode_rune_scalar: "scalar (fst (decode_rune c cs))"
  by (auto simp: decode_rune_def scalar_def rune_error_def dest: decode_multi_scalar [unfolded scalar_def]
      split: option.splits)

lemma runes_scalar: "list_all scalar (runes s)"
proof (induction s rule: runes.induct)
  case 1
  then show ?case by simp
next
  case (2 c cs)
  obtain r rest where d: "decode_rune c cs = (r, rest)" by fastforce
  with decode_rune_scalar [of c cs] 2 show ?case by simp
qed

end
