(* ===== verification/GoText.thy ===== *)
theory GoText
  imports GoStrings
begin

section \<open>Trimming, cutting, splitting and number parsing\<close>

text \<open>
  The functions of packages strings and strconv that take strings apart: \<^verbatim>\<open>TrimSpace\<close> (runes with
  the white-space property, from both ends), \<^verbatim>\<open>Cut\<close>, \<^verbatim>\<open>Split\<close> and \<^verbatim>\<open>Join\<close> on a one-byte
  separator, \<^verbatim>\<open>HasPrefix\<close>, \<^verbatim>\<open>CutPrefix\<close>, \<^verbatim>\<open>TrimSuffix\<close>, \<^verbatim>\<open>Atoi\<close> and \<^verbatim>\<open>ParseInt\<close>, and the
  lemmas the components share: trimming is idempotent, cutting and splitting lose nothing.
\<close>

subsection \<open>TrimSpace\<close>

definition strip_space :: "string \<Rightarrow> string option" where
  "strip_space s = (case s of [] \<Rightarrow> None
     | c # cs \<Rightarrow> (case decode_rune c cs of (r, rest) \<Rightarrow> if is_space r then Some rest else None))"

lemma strip_space_shorter: "strip_space s = Some t \<Longrightarrow> length t < length s"
proof (cases s)
  case (Cons c cs)
  assume "strip_space s = Some t"
  with Cons have "t = snd (decode_rune c cs)"
    by (auto simp: strip_space_def split: prod.splits if_splits)
  with decode_rune_shorter [of c cs] Cons show ?thesis by simp
qed (simp add: strip_space_def)

function trim_left :: "string \<Rightarrow> string" where
  "trim_left s = (case strip_space s of None \<Rightarrow> s | Some t \<Rightarrow> trim_left t)"
  by pat_completeness auto
termination
  by (relation "measure length") (auto dest: strip_space_shorter)

declare trim_left.simps [simp del]

text \<open>
  \<^verbatim>\<open>utf8.DecodeLastRuneInString\<close>, on the reversed string: the last rune and the reversed rest.
  It looks back over at most three continuation bytes for the byte that starts the rune.
\<close>

definition decode_last_rune :: "char \<Rightarrow> string \<Rightarrow> rune \<times> string" where
  "decode_last_rune c cs =
     (if byte_of c < (128 :: nat) then (byte_of c, cs)
      else case find (\<lambda>k. k \<le> length cs \<and> \<not> cont_byte (byte_of (cs ! (k - 1)))) [1, 2, 3] of
        None \<Rightarrow> (rune_error, cs)
      | Some k \<Rightarrow>
          (case decode_rune (cs ! (k - 1)) (rev (c # take (k - 1) cs)) of
             (r, rest) \<Rightarrow> if rest = [] then (r, drop k cs) else (rune_error, cs)))"

definition strip_space_right :: "string \<Rightarrow> string option" where
  "strip_space_right rs = (case rs of [] \<Rightarrow> None
     | c # cs \<Rightarrow> (case decode_last_rune c cs of (r, rest) \<Rightarrow> if is_space r then Some rest else None))"

lemma decode_last_rune_suffix: "\<exists>p. cs = p @ snd (decode_last_rune c cs)"
proof -
  have "\<exists>p. cs = p @ drop k cs" for k by (metis append_take_drop_id)
  then show ?thesis by (auto simp: decode_last_rune_def split: option.splits prod.splits if_splits)
qed

lemma strip_space_right_suffix:
  assumes "strip_space_right rs = Some t"
  shows "\<exists>p. p \<noteq> [] \<and> rs = p @ t"
proof (cases rs)
  case (Cons c cs)
  with assms have t: "t = snd (decode_last_rune c cs)"
    by (auto simp: strip_space_right_def split: prod.splits if_splits)
  obtain p where "cs = p @ t" using decode_last_rune_suffix [of cs c] t by auto
  with Cons have "c # p \<noteq> [] \<and> rs = (c # p) @ t" by simp
  then show ?thesis by blast
qed (use assms in \<open>simp add: strip_space_right_def\<close>)

function trim_right_rev :: "string \<Rightarrow> string" where
  "trim_right_rev rs = (case strip_space_right rs of None \<Rightarrow> rs | Some t \<Rightarrow> trim_right_rev t)"
  by pat_completeness auto
termination
  by (relation "measure length") (auto dest: strip_space_right_suffix)

declare trim_right_rev.simps [simp del]

definition trim_right :: "string \<Rightarrow> string" where
  "trim_right s = rev (trim_right_rev (rev s))"

definition trim_space :: "string \<Rightarrow> string" where
  "trim_space s = trim_right (trim_left s)"

subsection \<open>Trimming is idempotent\<close>

lemma strip_space_trim_left: "strip_space (trim_left s) = None"
proof (induction s rule: trim_left.induct)
  case (1 s)
  then show ?case by (cases "strip_space s") (simp_all add: trim_left.simps [of s])
qed

lemma trim_left_fix: "strip_space s = None \<Longrightarrow> trim_left s = s"
  by (simp add: trim_left.simps)

lemma strip_right_trim_right_rev: "strip_space_right (trim_right_rev rs) = None"
proof (induction rs rule: trim_right_rev.induct)
  case (1 rs)
  then show ?case by (cases "strip_space_right rs") (simp_all add: trim_right_rev.simps [of rs])
qed

lemma trim_right_rev_suffix: "\<exists>p. rs = p @ trim_right_rev rs"
proof (induction rs rule: trim_right_rev.induct)
  case (1 rs)
  show ?case
  proof (cases "strip_space_right rs")
    case None
    then show ?thesis by (simp add: trim_right_rev.simps [of rs])
  next
    case (Some t)
    with 1 obtain p where "t = p @ trim_right_rev t" by blast
    moreover from Some obtain q where "rs = q @ t" using strip_space_right_suffix by blast
    ultimately show ?thesis using Some
      by (metis append.assoc option.simps(5) trim_right_rev.simps)
  qed
qed

lemma trim_right_prefix: "\<exists>q. s = trim_right s @ q"
proof -
  obtain p where "rev s = p @ trim_right_rev (rev s)" using trim_right_rev_suffix by blast
  then have "s = rev (trim_right_rev (rev s)) @ rev p" by (metis rev_append rev_rev_ident)
  then show ?thesis by (auto simp: trim_right_def)
qed

lemma is_space_not_error: "is_space r \<Longrightarrow> r \<noteq> rune_error"
  by (auto simp: is_space_def in_ranges_def rune_error_def)

lemma strip_space_append:
  assumes "strip_space s = Some t"
  shows "strip_space (s @ q) = Some (t @ q)"
proof (cases s)
  case (Cons c cs)
  with assms have sp: "is_space (fst (decode_rune c cs))" and t: "t = snd (decode_rune c cs)"
    by (auto simp: strip_space_def split: prod.splits if_splits)
  from decode_rune_append [OF is_space_not_error [OF sp]] sp t Cons show ?thesis
    by (simp add: strip_space_def split: prod.splits)
qed (use assms in \<open>simp add: strip_space_def\<close>)

lemma strip_space_trim_right:
  assumes "strip_space s = None"
  shows "strip_space (trim_right s) = None"
proof (cases "strip_space (trim_right s)")
  case (Some t)
  obtain q where "s = trim_right s @ q" using trim_right_prefix by blast
  with strip_space_append [OF Some, of q] assms show ?thesis by simp
qed simp

lemma trim_right_fix: "strip_space_right (rev s) = None \<Longrightarrow> trim_right s = s"
  by (simp add: trim_right_def trim_right_rev.simps)

lemma strip_right_trim_right: "strip_space_right (rev (trim_right s)) = None"
  by (simp add: trim_right_def strip_right_trim_right_rev)

lemma trim_space_idem [simp]: "trim_space (trim_space s) = trim_space s"
  unfolding trim_space_def
  using strip_space_trim_right [OF strip_space_trim_left] strip_right_trim_right
  by (simp add: trim_left_fix trim_right_fix)

lemma trim_left_Nil [simp]: "trim_left [] = []"
  by (simp add: trim_left.simps strip_space_def)

lemma trim_right_rev_Nil [simp]: "trim_right_rev [] = []"
  by (simp add: trim_right_rev.simps strip_space_right_def)

lemma trim_space_Nil [simp]: "trim_space [] = []"
  by (simp add: trim_space_def trim_right_def)

text \<open>Unfolding on ASCII text, for evaluation.\<close>

lemma trim_left_Cons [run_simps]:
  "byte_of c < (128 :: nat) \<Longrightarrow> trim_left (c # cs) = (if is_space (byte_of c) then trim_left cs else c # cs)"
  by (simp add: trim_left.simps strip_space_def)

lemma trim_right_rev_Cons [run_simps]:
  "byte_of c < (128 :: nat) \<Longrightarrow>
    trim_right_rev (c # cs) = (if is_space (byte_of c) then trim_right_rev cs else c # cs)"
  by (simp add: trim_right_rev.simps [of "c # cs"] strip_space_right_def decode_last_rune_def)

lemmas trim_simps = trim_space_def trim_right_def trim_left_Cons trim_right_rev_Cons is_space_def
  in_ranges_def

subsection \<open>Prefixes, suffixes, cutting and splitting\<close>

definition has_prefix :: "string \<Rightarrow> string \<Rightarrow> bool" where
  "has_prefix s p = (take (length p) s = p)"

definition has_suffix :: "string \<Rightarrow> string \<Rightarrow> bool" where
  "has_suffix s p = has_prefix (rev s) (rev p)"

definition trim_prefix :: "string \<Rightarrow> string \<Rightarrow> string" where
  "trim_prefix s p = (if has_prefix s p then drop (length p) s else s)"

definition trim_suffix :: "string \<Rightarrow> string \<Rightarrow> string" where
  "trim_suffix s p = (if has_suffix s p then take (length s - length p) s else s)"

text \<open>\<^verbatim>\<open>strings.Cut\<close> with a one-byte separator: text before, text after, found.\<close>

fun cut :: "char \<Rightarrow> string \<Rightarrow> string \<times> string \<times> bool" where
  "cut sep [] = ([], [], False)"
| "cut sep (c # cs) =
     (if c = sep then ([], cs, True)
      else case cut sep cs of (before, after, found) \<Rightarrow> (c # before, after, found))"

lemma cut_found: "cut sep s = (a, b, True) \<Longrightarrow> s = a @ sep # b \<and> sep \<notin> set a"
  by (induction s arbitrary: a b) (auto split: if_splits prod.splits)

lemma cut_not_found: "cut sep s = (a, b, False) \<Longrightarrow> s = a \<and> b = [] \<and> sep \<notin> set s"
  by (induction s arbitrary: a b) (auto split: if_splits prod.splits)

lemma cut_append: "sep \<notin> set a \<Longrightarrow> cut sep (a @ sep # b) = (a, b, True)"
  by (induction a) auto

text \<open>\<^verbatim>\<open>strings.Split\<close> and \<^verbatim>\<open>strings.Join\<close> with a one-byte separator.\<close>

fun split_on :: "char \<Rightarrow> string \<Rightarrow> string list" where
  "split_on sep [] = [[]]"
| "split_on sep (c # cs) =
     (if c = sep then [] # split_on sep cs
      else case split_on sep cs of [] \<Rightarrow> [[c]] | p # ps \<Rightarrow> (c # p) # ps)"

fun join_with :: "char \<Rightarrow> string list \<Rightarrow> string" where
  "join_with sep [] = []"
| "join_with sep [p] = p"
| "join_with sep (p # q # ps) = p @ sep # join_with sep (q # ps)"

lemma split_on_not_Nil [simp]: "split_on sep s \<noteq> []"
  by (induction s) (auto split: list.splits)

lemma join_split: "join_with sep (split_on sep s) = s"
proof (induction s)
  case (Cons c cs)
  obtain p ps where eq: "split_on sep cs = p # ps" by (cases "split_on sep cs") auto
  with Cons show ?case by (cases ps) auto
qed simp

lemma split_on_no_sep: "p \<in> set (split_on sep s) \<Longrightarrow> sep \<notin> set p"
  by (induction s arbitrary: p) (fastforce split: if_splits list.splits)+

lemma split_on_plain: "sep \<notin> set s \<Longrightarrow> split_on sep s = [s]"
  by (induction s) auto

lemma split_on_append: "sep \<notin> set a \<Longrightarrow> split_on sep (a @ sep # b) = a # split_on sep b"
  by (induction a) auto

text \<open>\<^verbatim>\<open>strings.SplitN(s, sep, 3)\<close>.\<close>

definition split3 :: "char \<Rightarrow> string \<Rightarrow> string list" where
  "split3 sep s = (case cut sep s of
      (a, r, False) \<Rightarrow> [a]
    | (a, r, True) \<Rightarrow> (case cut sep r of (b, c, False) \<Rightarrow> [a, b] | (b, c, True) \<Rightarrow> [a, b, c]))"

subsection \<open>Decimal integers\<close>

definition max_int64 :: int where "max_int64 = 9223372036854775807"
definition min_int64 :: int where "min_int64 = -9223372036854775808"

definition is_digit :: "char \<Rightarrow> bool" where
  "is_digit c = (48 \<le> (byte_of c :: nat) \<and> byte_of c \<le> (57 :: nat))"

fun digits_value :: "int \<Rightarrow> string \<Rightarrow> int option" where
  "digits_value acc [] = Some acc"
| "digits_value acc (c # cs) =
     (if is_digit c then digits_value (acc * 10 + int (byte_of c - 48)) cs else None)"

text \<open>\<^verbatim>\<open>strconv.Atoi\<close> and \<^verbatim>\<open>strconv.ParseInt(s, 10, 64)\<close>: one optional sign, digits, in the range of int64.\<close>

definition atoi :: "string \<Rightarrow> int option" where
  "atoi s =
     (let (neg, ds) = (case s of [] \<Rightarrow> (False, [])
        | c # cs \<Rightarrow> if c = CHR ''-'' then (True, cs) else if c = CHR ''+'' then (False, cs) else (False, s))
      in if ds = [] then None
         else case digits_value 0 ds of None \<Rightarrow> None
           | Some n \<Rightarrow> (let v = (if neg then - n else n) in
               if min_int64 \<le> v \<and> v \<le> max_int64 then Some v else None))"

lemma atoi_range: "atoi s = Some n \<Longrightarrow> min_int64 \<le> n \<and> n \<le> max_int64"
  by (auto simp: atoi_def Let_def split: option.splits if_splits prod.splits)

text \<open>\<^verbatim>\<open>strconv.Itoa\<close>.\<close>

fun nat_digits :: "nat \<Rightarrow> string" where
  "nat_digits n = (if n < 10 then [char_of (48 + n)] else nat_digits (n div 10) @ [char_of (48 + n mod 10)])"

declare nat_digits.simps [simp del]

definition itoa :: "int \<Rightarrow> string" where
  "itoa n = (if n < 0 then CHR ''-'' # nat_digits (nat (- n)) else nat_digits (nat n))"

lemma digits_value_append:
  "digits_value acc (s @ t) = (case digits_value acc s of None \<Rightarrow> None | Some a \<Rightarrow> digits_value a t)"
  by (induction s arbitrary: acc) auto

lemma digit_char: "d < 10 \<Longrightarrow> is_digit (char_of (48 + d)) \<and> byte_of (char_of (48 + d) :: char) = 48 + d"
  by (simp add: is_digit_def)

lemma digits_value_nat_digits: "digits_value 0 (nat_digits n) = Some (int n)"
proof (induction n rule: nat_digits.induct)
  case (1 n)
  show ?case
  proof (cases "n < 10")
    case True
    then show ?thesis using digit_char [of n] by (simp add: nat_digits.simps [of n])
  next
    case False
    have d: "n mod 10 < 10" by simp
    have "int (n div 10) * 10 + int (n mod 10) = int n"
      by (metis div_mult_mod_eq of_nat_add of_nat_mult of_nat_numeral)
    with False 1 digit_char [OF d] show ?thesis
      by (simp add: nat_digits.simps [of n] digits_value_append)
  qed
qed

lemma nat_digits_digits: "list_all is_digit (nat_digits n) \<and> nat_digits n \<noteq> []"
proof (induction n rule: nat_digits.induct)
  case (1 n)
  have "n mod 10 < 10" by simp
  with 1 digit_char [of n] digit_char [of "n mod 10"] show ?case
    by (cases "n < 10") (simp_all add: nat_digits.simps [of n])
qed

lemma atoi_itoa: "min_int64 \<le> n \<Longrightarrow> n \<le> max_int64 \<Longrightarrow> atoi (itoa n) = Some n"
proof -
  assume r: "min_int64 \<le> n" "n \<le> max_int64"
  obtain c cs where nd: "nat_digits (nat n) = c # cs" using nat_digits_digits by (cases "nat_digits (nat n)") auto
  then have "is_digit c" using nat_digits_digits [of "nat n"] by simp
  then have "c \<noteq> CHR ''-''" "c \<noteq> CHR ''+''" by (auto simp: is_digit_def)
  with nd r show ?thesis
    using digits_value_nat_digits [of "nat n"] digits_value_nat_digits [of "nat (- n)"] nat_digits_digits [of "nat (- n)"]
    by (auto simp: atoi_def itoa_def)
qed

end
