(* ===== verification/Model.thy ===== *)
theory Model
  imports GoText
begin

section \<open>The domain model: internal/model/change.go and internal/store/store.go\<close>

text \<open>
  Events, links, filters and results as records, with the fields of the Go structs. An instant is
  an \<open>int\<close> of nanoseconds since the Unix epoch (its location is presentation only), a duration an
  \<open>int\<close> of nanoseconds; \<^verbatim>\<open>canonicalTime\<close> keeps whole seconds. A Go string that may be empty stays a
  string; a pointer that may be nil is an option. Errors of the service and of the store are one
  type, because the service returns the store's errors unchanged; \<open>ErrDuplicate\<close> carries the event
  Go returns alongside that sentinel, and \<open>ErrOther\<close> is any error without a sentinel, by its message.
\<close>

type_synonym instant = int
type_synonym duration = int

record user_identity =
  ui_name :: string
  ui_provider :: string
  ui_subject :: string

record event_link =
  el_label :: string
  el_url :: string

record change_event =
  ev_id :: string
  ev_external_id :: string
  ev_parent_id :: string
  ev_user_name :: string
  ev_user_provider :: string
  ev_user_subject :: string
  ev_timestamp :: instant
  ev_event_type :: string
  ev_description :: string
  ev_long_description :: string
  ev_links :: "event_link list"
  ev_tags :: tag_map
  ev_created_at :: instant

definition event_type_maintenance :: string where "event_type_maintenance = ''maintenance''"
definition event_type_star :: string where "event_type_star = ''star''"
definition event_type_unstar :: string where "event_type_unstar = ''unstar''"
definition event_type_alert :: string where "event_type_alert = ''alert''"
definition event_type_clear_alert :: string where "event_type_clear_alert = ''clear-alert''"
definition event_type_link :: string where "event_type_link = ''link''"

lemmas event_type_defs = event_type_maintenance_def event_type_star_def event_type_unstar_def
  event_type_alert_def event_type_clear_alert_def event_type_link_def

lemma event_types_distinct [simp]:
  "event_type_star \<noteq> event_type_unstar" "event_type_star \<noteq> event_type_alert"
  "event_type_star \<noteq> event_type_clear_alert" "event_type_unstar \<noteq> event_type_star"
  "event_type_unstar \<noteq> event_type_alert" "event_type_unstar \<noteq> event_type_clear_alert"
  "event_type_alert \<noteq> event_type_star" "event_type_alert \<noteq> event_type_unstar"
  "event_type_alert \<noteq> event_type_clear_alert" "event_type_clear_alert \<noteq> event_type_star"
  "event_type_clear_alert \<noteq> event_type_unstar" "event_type_clear_alert \<noteq> event_type_alert"
  by (simp_all add: event_type_defs)

definition operation_state_open :: string where "operation_state_open = ''open''"
definition operation_state_closed :: string where "operation_state_closed = ''closed''"

definition is_meta_event :: "change_event \<Rightarrow> bool" where
  "is_meta_event e = (ev_parent_id e \<noteq> [])"

record list_params =
  lp_parent_id :: string
  lp_start_after :: "instant option"
  lp_start_before :: "instant option"
  lp_around :: "instant option"
  lp_window :: "duration option"
  lp_user_name :: string
  lp_event_type :: string
  lp_top_level :: bool
  lp_alerted_only :: bool
  lp_tags :: tag_map
  lp_limit :: int
  lp_offset :: int

definition zero_list_params :: list_params where
  "zero_list_params = \<lparr>lp_parent_id = [], lp_start_after = None, lp_start_before = None,
     lp_around = None, lp_window = None, lp_user_name = [], lp_event_type = [], lp_top_level = False,
     lp_alerted_only = False, lp_tags = [], lp_limit = 0, lp_offset = 0\<rparr>"

record current_params =
  cp_for_team :: string
  cp_scopes :: "string list"
  cp_severities :: "string list"
  cp_event_type :: string
  cp_correlation_key :: string
  cp_correlation_value :: string
  cp_limit :: int
  cp_offset :: int

definition zero_current_params :: current_params where
  "zero_current_params = \<lparr>cp_for_team = [], cp_scopes = [], cp_severities = [], cp_event_type = [],
     cp_correlation_key = [], cp_correlation_value = [], cp_limit = 0, cp_offset = 0\<rparr>"

definition default_limit :: int where "default_limit = 50"
definition dashboard_limit :: int where "dashboard_limit = 40"
definition max_limit :: int where "max_limit = 200"

definition effective_limit :: "int \<Rightarrow> int" where
  "effective_limit limit =
     (if limit \<le> 0 then default_limit else if limit > max_limit then max_limit else limit)"

record list_result =
  lr_events :: "change_event list"
  lr_total_count :: int
  lr_limit :: int
  lr_offset :: int

record create_request =
  cr_parent_id :: string
  cr_external_id :: string
  cr_user_name :: string
  cr_user_provider :: string
  cr_user_subject :: string
  cr_timestamp :: "instant option"
  cr_event_type :: string
  cr_description :: string
  cr_long_description :: string
  cr_links :: "event_link list"
  cr_tags :: tag_map

definition zero_create_request :: create_request where
  "zero_create_request = \<lparr>cr_parent_id = [], cr_external_id = [], cr_user_name = [],
     cr_user_provider = [], cr_user_subject = [], cr_timestamp = None, cr_event_type = [],
     cr_description = [], cr_long_description = [], cr_links = [], cr_tags = []\<rparr>"

record event_annotations =
  an_starred :: bool
  an_alerted :: bool

definition no_annotations :: event_annotations where
  "no_annotations = \<lparr>an_starred = False, an_alerted = False\<rparr>"

datatype go_error =
    ErrNotFound
  | ErrDuplicate "change_event option"
  | ErrUserNameRequired
  | ErrEventTypeRequired
  | ErrInvalidTags string
  | ErrInvalidLink
  | ErrLinksRequired
  | ErrEventNotFound
  | ErrParentNotFound
  | ErrOperationNotClosable
  | ErrOperationClosed
  | ErrOther string

type_synonym ('s, 'a) op = "('s, go_error, 'a) prog"

text \<open>
  \<^verbatim>\<open>store.ChangeStore\<close>, the interface the service calls: a record of operations on a store of
  type \<open>'s\<close>. Reading the clock and generating an identifier happen inside two of them; their
  values are the environment \<open>env\<close> of the call. \<open>env_uuid\<close> is None when \<^verbatim>\<open>uuid.NewV7\<close> fails.
\<close>

record env =
  env_now :: instant
  env_uuid :: "string option"

record 's change_store =
  st_create :: "change_event \<Rightarrow> ('s, change_event) op"
  st_toggle_star :: "env \<Rightarrow> string \<Rightarrow> user_identity \<Rightarrow> ('s, change_event) op"
  st_toggle_alert :: "env \<Rightarrow> string \<Rightarrow> user_identity \<Rightarrow> ('s, change_event) op"
  st_get_by_id :: "string \<Rightarrow> ('s, change_event option) op"
  st_get_by_external_id :: "string \<Rightarrow> ('s, change_event option) op"
  st_list :: "list_params \<Rightarrow> ('s, list_result) op"
  st_list_current :: "current_params \<Rightarrow> ('s, list_result) op"
  st_get_annotations :: "string \<Rightarrow> ('s, event_annotations) op"
  st_get_annotations_batch :: "string list \<Rightarrow> ('s, string \<rightharpoonup> event_annotations) op"

text \<open>\<^verbatim>\<open>canonicalTime\<close> of the store: truncation to whole seconds, rounding down.\<close>

definition second :: int where "second = 1000000000"

definition canonical_time :: "instant \<Rightarrow> instant" where
  "canonical_time t = t div second * second"

lemma canonical_time_idem [simp]: "canonical_time (canonical_time t) = canonical_time t"
  by (simp add: canonical_time_def second_def)

lemma canonical_time_bounds: "canonical_time t \<le> t \<and> t < canonical_time t + second"
  unfolding canonical_time_def second_def by presburger

lemma effective_limit_bounds: "1 \<le> effective_limit n \<and> effective_limit n \<le> max_limit"
  by (simp add: effective_limit_def default_limit_def max_limit_def)

lemma effective_limit_idem [simp]: "effective_limit (effective_limit n) = effective_limit n"
  by (simp add: effective_limit_def default_limit_def max_limit_def)

end
