(* ===== verification/PgTables.thy ===== *)
theory PgTables
  imports Model
begin

section \<open>The PostgreSQL tables and the statements on them\<close>

text \<open>
  The three tables of migrations/001_create_change_events.up.sql, and the statements of
  internal/store/postgres/postgres.go on them. A table is the list of its rows in insertion order.
  An INSERT checks the constraints the migration declares: the primary keys, the unique indexes
  and the foreign keys. Every statement is a round trip to the server that may fail: \<open>pg_faults\<close> is
  the schedule of the round trips to come (True fails; an empty schedule fails no more), so error
  paths are ordinary branches. A rolled back transaction restores the tables but not the identity
  sequence, as PostgreSQL does.
\<close>

record event_row =
  er_seq :: nat
  er_id :: string
  er_external_id :: "string option"
  er_parent_id :: "string option"
  er_user_name :: string
  er_user_provider :: "string option"
  er_user_subject :: "string option"
  er_timestamp :: instant
  er_event_type :: string
  er_description :: string
  er_long_description :: string
  er_created_at :: instant

record tag_row =
  tr_event_id :: string
  tr_key :: string
  tr_value :: string

record link_row =
  kr_event_id :: string
  kr_position :: nat
  kr_label :: string
  kr_url :: string

record pg =
  pg_events :: "event_row list"
  pg_tags :: "tag_row list"
  pg_links :: "link_row list"
  pg_seq :: nat
  pg_faults :: "bool list"

definition empty_pg :: pg where
  "empty_pg = \<lparr>pg_events = [], pg_tags = [], pg_links = [], pg_seq = 1, pg_faults = []\<rparr>"

datatype pg_error = UniqueViolation string | ForeignKeyViolation string | ConnectionFailure

text \<open>One round trip: consume the next entry of the fault schedule.\<close>

definition round_trip :: "'e \<Rightarrow> (pg, 'e, unit) prog" where
  "round_trip e s = (case pg_faults s of
      [] \<Rightarrow> (Inr (), s)
    | f # fs \<Rightarrow> (if f then Inl e else Inr (), s\<lparr>pg_faults := fs\<rparr>))"

definition rollback :: "pg \<Rightarrow> pg \<Rightarrow> pg" where
  "rollback before after =
     after\<lparr>pg_events := pg_events before, pg_tags := pg_tags before, pg_links := pg_links before\<rparr>"

text \<open>\<^verbatim>\<open>nullableString\<close>: the empty string is stored as NULL.\<close>

definition nullable_string :: "string \<Rightarrow> string option" where
  "nullable_string s = (if s = [] then None else Some s)"

definition from_nullable :: "string option \<Rightarrow> string" where
  "from_nullable x = (case x of None \<Rightarrow> [] | Some s \<Rightarrow> s)"

lemma from_nullable_string [simp]: "from_nullable (nullable_string s) = s"
  by (simp add: from_nullable_def nullable_string_def)

lemma from_nullable_simps [simp]: "from_nullable None = []" "from_nullable (Some x) = x"
  by (simp_all add: from_nullable_def)

text \<open>The arguments of the INSERT of \<^verbatim>\<open>Create\<close>; the sequence number is set by the insert.\<close>

definition row_of_event :: "change_event \<Rightarrow> event_row" where
  "row_of_event e = \<lparr>er_seq = 0, er_id = ev_id e, er_external_id = nullable_string (ev_external_id e),
     er_parent_id = nullable_string (ev_parent_id e), er_user_name = ev_user_name e,
     er_user_provider = nullable_string (ev_user_provider e),
     er_user_subject = nullable_string (ev_user_subject e),
     er_timestamp = canonical_time (ev_timestamp e), er_event_type = ev_event_type e,
     er_description = ev_description e, er_long_description = ev_long_description e,
     er_created_at = canonical_time (ev_created_at e)\<rparr>"

definition event_constraint_error :: "event_row \<Rightarrow> pg \<Rightarrow> pg_error option" where
  "event_constraint_error r s =
     (if er_id r \<in> er_id ` set (pg_events s) then Some (UniqueViolation ''change_events_pkey'')
      else if er_external_id r \<noteq> None \<and> er_external_id r \<in> er_external_id ` set (pg_events s)
        then Some (UniqueViolation ''idx_change_events_external_id'')
      else case er_parent_id r of
          None \<Rightarrow> None
        | Some p \<Rightarrow> (if p = er_id r \<or> p \<in> er_id ` set (pg_events s) then None
                    else Some (ForeignKeyViolation ''change_events_parent_id_fkey'')))"

definition insert_event_row :: "event_row \<Rightarrow> (pg, pg_error, unit) prog" where
  "insert_event_row r = and_then (round_trip ConnectionFailure) (\<lambda>_ s.
     (case event_constraint_error r s of
        Some err \<Rightarrow> (Inl err, s\<lparr>pg_seq := Suc (pg_seq s)\<rparr>)
      | None \<Rightarrow> (Inr (), s\<lparr>pg_events := pg_events s @ [r\<lparr>er_seq := pg_seq s\<rparr>],
                           pg_seq := Suc (pg_seq s)\<rparr>)))"

text \<open>\<^verbatim>\<open>isUniqueViolation\<close>.\<close>

definition is_unique_violation :: "pg_error \<Rightarrow> bool" where
  "is_unique_violation err = (err = UniqueViolation ''idx_change_events_external_id'')"

definition insert_tag_row :: "string \<Rightarrow> string \<Rightarrow> string \<Rightarrow> (pg, unit) op" where
  "insert_tag_row event_id key val = and_then (round_trip (ErrOther ''insert tag'')) (\<lambda>_ s.
     (if event_id \<notin> er_id ` set (pg_events s)
         \<or> (event_id, key) \<in> (\<lambda>t. (tr_event_id t, tr_key t)) ` set (pg_tags s)
      then (Inl (ErrOther ''insert tag''), s)
      else (Inr (), s\<lparr>pg_tags := pg_tags s @
              [\<lparr>tr_event_id = event_id, tr_key = key, tr_value = val\<rparr>]\<rparr>)))"

fun insert_tags :: "string \<Rightarrow> tag_map \<Rightarrow> (pg, unit) op" where
  "insert_tags event_id [] = ret ()"
| "insert_tags event_id ((k, v) # tags) =
     and_then (insert_tag_row event_id k v) (\<lambda>_. insert_tags event_id tags)"

definition insert_link_row :: "string \<Rightarrow> nat \<Rightarrow> event_link \<Rightarrow> (pg, unit) op" where
  "insert_link_row event_id position l = and_then (round_trip (ErrOther ''insert link'')) (\<lambda>_ s.
     (if event_id \<notin> er_id ` set (pg_events s)
         \<or> (event_id, position) \<in> (\<lambda>k. (kr_event_id k, kr_position k)) ` set (pg_links s)
      then (Inl (ErrOther ''insert link''), s)
      else (Inr (), s\<lparr>pg_links := pg_links s @
              [\<lparr>kr_event_id = event_id, kr_position = position, kr_label = el_label l, kr_url = el_url l\<rparr>]\<rparr>)))"

fun insert_links :: "string \<Rightarrow> nat \<Rightarrow> event_link list \<Rightarrow> (pg, unit) op" where
  "insert_links event_id position [] = ret ()"
| "insert_links event_id position (l # links) =
     and_then (insert_link_row event_id position l) (\<lambda>_. insert_links event_id (Suc position) links)"

subsection \<open>Reading rows back\<close>

text \<open>\<^verbatim>\<open>scanEventFields\<close>: a row as an event, its tags and links not loaded yet.\<close>

definition scan_event :: "event_row \<Rightarrow> change_event" where
  "scan_event r = \<lparr>ev_id = er_id r, ev_external_id = from_nullable (er_external_id r),
     ev_parent_id = from_nullable (er_parent_id r), ev_user_name = er_user_name r,
     ev_user_provider = from_nullable (er_user_provider r),
     ev_user_subject = from_nullable (er_user_subject r),
     ev_timestamp = canonical_time (er_timestamp r), ev_event_type = er_event_type r,
     ev_description = er_description r, ev_long_description = er_long_description r,
     ev_links = [], ev_tags = [], ev_created_at = canonical_time (er_created_at r)\<rparr>"

text \<open>The row loops of \<^verbatim>\<open>loadTagsForEvents\<close> and \<^verbatim>\<open>loadLinksForEvents\<close>; an absent event id has a nil map or slice.\<close>

fun collect_tags :: "tag_row list \<Rightarrow> (string \<Rightarrow> tag_map) \<Rightarrow> string \<Rightarrow> tag_map" where
  "collect_tags [] m = m"
| "collect_tags (t # ts) m =
     collect_tags ts (m(tr_event_id t := AList.update (tr_key t) (tr_value t) (m (tr_event_id t))))"

fun collect_links :: "link_row list \<Rightarrow> (string \<Rightarrow> event_link list) \<Rightarrow> string \<Rightarrow> event_link list" where
  "collect_links [] m = m"
| "collect_links (k # ks) m =
     collect_links ks (m(kr_event_id k := m (kr_event_id k) @ [\<lparr>el_label = kr_label k, el_url = kr_url k\<rparr>]))"

definition load_tags_for_events :: "string list \<Rightarrow> (pg, string \<Rightarrow> tag_map) op" where
  "load_tags_for_events ids =
     (if ids = [] then ret (\<lambda>_. [])
      else and_then (round_trip (ErrOther ''load tags'')) (\<lambda>_. with_state (\<lambda>s.
        ret (collect_tags (filter (\<lambda>t. tr_event_id t \<in> set ids) (pg_tags s)) (\<lambda>_. [])))))"

definition load_links_for_events :: "string list \<Rightarrow> (pg, string \<Rightarrow> event_link list) op" where
  "load_links_for_events ids =
     (if ids = [] then ret (\<lambda>_. [])
      else and_then (round_trip (ErrOther ''load links'')) (\<lambda>_. with_state (\<lambda>s.
        ret (collect_links (sort_key (\<lambda>k. (kr_event_id k, kr_position k))
               (filter (\<lambda>k. kr_event_id k \<in> set ids) (pg_links s))) (\<lambda>_. [])))))"

text \<open>The part \<^verbatim>\<open>List\<close> and \<^verbatim>\<open>ListCurrent\<close> share: the related records of a page in two bounded queries.\<close>

definition load_related :: "event_row list \<Rightarrow> (pg, change_event list) op" where
  "load_related rows =
     (if rows = [] then ret []
      else and_then (load_tags_for_events (map er_id rows)) (\<lambda>tag_map.
           and_then (load_links_for_events (map er_id rows)) (\<lambda>link_map.
             ret (map (\<lambda>r. (scan_event r)\<lparr>ev_tags := tag_map (er_id r), ev_links := link_map (er_id r)\<rparr>) rows))))"

end
