(* ===== verification/PgInvariant.thy ===== *)
theory PgInvariant
  imports PgTables
begin

section \<open>The integrity of the tables and the registry they hold\<close>

text \<open>
  \<open>pg_inv\<close> states what the schema's constraints and the INSERT order keep true of the tables:
  unique identifiers, unique external identifiers, parents that exist, one tag per event and key,
  strictly increasing ingest sequence numbers. Every statement of \<open>PgTables\<close> preserves it.
  \<open>pg_registry\<close> abstracts the three tables to what the callers see: the list of events, each with
  its tags and links, in ingest order.
\<close>

definition tag_id :: "tag_row \<Rightarrow> string \<times> string" where
  "tag_id t = (tr_event_id t, tr_key t)"

definition row_ok :: "event_row \<Rightarrow> bool" where
  "row_ok r = (er_id r \<noteq> [] \<and> er_external_id r \<noteq> Some [] \<and> er_parent_id r \<noteq> Some []
     \<and> canonical_time (er_timestamp r) = er_timestamp r \<and> canonical_time (er_created_at r) = er_created_at r)"

definition row_ids :: "pg \<Rightarrow> string set" where
  "row_ids s = er_id ` set (pg_events s)"

definition pg_inv :: "pg \<Rightarrow> bool" where
  "pg_inv s =
     (distinct (map er_id (pg_events s))
      \<and> distinct (filter (\<lambda>x. x \<noteq> None) (map er_external_id (pg_events s)))
      \<and> (\<forall>r \<in> set (pg_events s). row_ok r \<and> er_seq r < pg_seq s
           \<and> (\<forall>p. er_parent_id r = Some p \<longrightarrow> p \<in> row_ids s))
      \<and> sorted_wrt (<) (map er_seq (pg_events s))
      \<and> distinct (map tag_id (pg_tags s))
      \<and> (\<forall>t \<in> set (pg_tags s). tr_event_id t \<in> row_ids s)
      \<and> (\<forall>k \<in> set (pg_links s). kr_event_id k \<in> row_ids s))"

lemma pg_inv_empty: "pg_inv empty_pg"
  by (simp add: pg_inv_def empty_pg_def)

subsection \<open>Every statement preserves the invariant\<close>

definition preserves :: "('s \<Rightarrow> bool) \<Rightarrow> ('s, 'e, 'a) prog \<Rightarrow> bool" where
  "preserves I m = (\<forall>s. I s \<longrightarrow> I (snd (m s)))"

lemma preservesI: "(\<And>s. I s \<Longrightarrow> I (snd (m s))) \<Longrightarrow> preserves I m"
  by (simp add: preserves_def)

lemma preservesD: "preserves I m \<Longrightarrow> I s \<Longrightarrow> m s = (r, s') \<Longrightarrow> I s'"
  unfolding preserves_def by (metis snd_conv)

lemma preserves_ret [intro]: "preserves I (ret x)"
  by (simp add: preserves_def ret_def)

lemma preserves_and_then [intro]:
  assumes "preserves I m" and "\<And>x. preserves I (f x)"
  shows "preserves I (and_then m f)"
  using assms unfolding preserves_def and_then_def
  by (fastforce split: prod.splits sum.splits)

lemma pg_inv_faults [simp]: "pg_inv (s\<lparr>pg_faults := fs\<rparr>) = pg_inv s"
  by (simp add: pg_inv_def row_ids_def)

text \<open>A statement that only reads leaves the tables as they are; it consumes fault schedule entries.\<close>

definition only_reads :: "pg \<Rightarrow> pg \<Rightarrow> bool" where
  "only_reads s s' = (s' = s\<lparr>pg_faults := pg_faults s'\<rparr>)"

lemma only_reads_refl [simp]: "only_reads s s"
  by (simp add: only_reads_def)

lemma only_reads_faults [simp]: "only_reads s (s\<lparr>pg_faults := fs\<rparr>)"
  by (simp add: only_reads_def)

lemma only_readsE:
  assumes "only_reads s s'"
  obtains fs where "s' = s\<lparr>pg_faults := fs\<rparr>"
  using assms unfolding only_reads_def by blast

lemma only_reads_trans [trans]: "only_reads s t \<Longrightarrow> only_reads t u \<Longrightarrow> only_reads s u"
  by (auto elim!: only_readsE)

lemma only_reads_inv: "only_reads s s' \<Longrightarrow> pg_inv s' = pg_inv s"
  by (auto elim: only_readsE)

lemma round_trip_state: "round_trip e s = (r, s') \<Longrightarrow> only_reads s s'"
  by (auto simp: round_trip_def split: list.splits)

lemma preserves_round_trip [intro]: "preserves pg_inv (round_trip e)"
  by (rule preservesI) (auto simp: round_trip_def split: list.splits)

lemma pg_inv_seq: "pg_inv s \<Longrightarrow> pg_seq s \<le> n \<Longrightarrow> pg_inv (s\<lparr>pg_seq := n\<rparr>)"
  by (fastforce simp: pg_inv_def row_ids_def)

lemma pg_inv_rollback: "pg_inv s \<Longrightarrow> pg_seq s \<le> pg_seq s' \<Longrightarrow> pg_inv (rollback s s')"
  by (fastforce simp: pg_inv_def row_ids_def rollback_def)

lemma pg_inv_insert_event:
  assumes inv: "pg_inv s" and ok: "row_ok r" and free: "event_constraint_error r s = None"
  shows "pg_inv (s\<lparr>pg_events := pg_events s @ [r\<lparr>er_seq := pg_seq s\<rparr>], pg_seq := Suc (pg_seq s)\<rparr>)"
proof -
  have id: "er_id r \<notin> er_id ` set (pg_events s)"
    and ext: "er_external_id r \<noteq> None \<longrightarrow> er_external_id r \<notin> er_external_id ` set (pg_events s)"
    and par: "\<forall>p. er_parent_id r = Some p \<longrightarrow> p = er_id r \<or> p \<in> er_id ` set (pg_events s)"
    using free by (auto simp: event_constraint_error_def split: if_splits option.splits)
  have ok': "row_ok (r\<lparr>er_seq := pg_seq s\<rparr>)" using ok by (simp add: row_ok_def)
  show ?thesis
    using inv ok' id ext par
    by (auto simp: pg_inv_def row_ids_def sorted_wrt_append less_Suc_eq)
qed

lemma preserves_insert_event_row: "row_ok r \<Longrightarrow> preserves pg_inv (insert_event_row r)"
  unfolding insert_event_row_def
  by (intro preserves_and_then preserves_round_trip preservesI)
    (auto simp: pg_inv_seq pg_inv_insert_event split: option.splits)

lemma preserves_insert_tag_row [intro]: "preserves pg_inv (insert_tag_row event_id k v)"
  unfolding insert_tag_row_def
  by (intro preserves_and_then preserves_round_trip preservesI)
    (auto simp: pg_inv_def row_ids_def tag_id_def image_iff)

lemma preserves_insert_tags: "preserves pg_inv (insert_tags event_id tags)"
  by (induction event_id tags rule: insert_tags.induct) auto

lemma preserves_insert_link_row [intro]: "preserves pg_inv (insert_link_row event_id pos l)"
  unfolding insert_link_row_def
  by (intro preserves_and_then preserves_round_trip preservesI)
    (auto simp: pg_inv_def row_ids_def image_iff)

lemma preserves_insert_links: "preserves pg_inv (insert_links event_id pos links)"
  by (induction event_id pos links rule: insert_links.induct) auto

subsection \<open>The events the tables hold\<close>

definition tags_of :: "pg \<Rightarrow> string \<Rightarrow> tag_map" where
  "tags_of s i = map (\<lambda>t. (tr_key t, tr_value t)) (filter (\<lambda>t. tr_event_id t = i) (pg_tags s))"

definition link_of_row :: "link_row \<Rightarrow> event_link" where
  "link_of_row k = \<lparr>el_label = kr_label k, el_url = kr_url k\<rparr>"

definition links_of :: "pg \<Rightarrow> string \<Rightarrow> event_link list" where
  "links_of s i = map link_of_row (sort_key kr_position (filter (\<lambda>k. kr_event_id k = i) (pg_links s)))"

definition event_of :: "pg \<Rightarrow> event_row \<Rightarrow> change_event" where
  "event_of s r = (scan_event r)\<lparr>ev_tags := tags_of s (er_id r), ev_links := links_of s (er_id r)\<rparr>"

definition pg_registry :: "pg \<Rightarrow> change_event list" where
  "pg_registry s = map (event_of s) (pg_events s)"

lemma pg_registry_faults [simp]: "pg_registry (s\<lparr>pg_faults := fs\<rparr>) = pg_registry s"
  by (simp add: pg_registry_def event_of_def tags_of_def links_of_def)

lemma pg_registry_seq [simp]: "pg_registry (s\<lparr>pg_seq := n\<rparr>) = pg_registry s"
  by (simp add: pg_registry_def event_of_def tags_of_def links_of_def)

lemma pg_registry_rollback [simp]: "pg_registry (rollback s s') = pg_registry s"
  by (simp add: pg_registry_def event_of_def tags_of_def links_of_def rollback_def)

lemma only_reads_registry: "only_reads s s' \<Longrightarrow> pg_registry s' = pg_registry s"
  by (auto elim: only_readsE)

lemma event_of_fields [simp]:
  "ev_id (event_of s r) = er_id r" "ev_tags (event_of s r) = tags_of s (er_id r)"
  "ev_event_type (event_of s r) = er_event_type r" "ev_parent_id (event_of s r) = from_nullable (er_parent_id r)"
  "ev_external_id (event_of s r) = from_nullable (er_external_id r)" "ev_user_name (event_of s r) = er_user_name r"
  "ev_timestamp (event_of s r) = canonical_time (er_timestamp r)"
  by (simp_all add: event_of_def scan_event_def)

lemma registry_ids: "map ev_id (pg_registry s) = map er_id (pg_events s)"
  by (simp add: pg_registry_def)

subsection \<open>The row loops compute the tags and the links of each event\<close>

lemma collect_tags_eq:
  assumes "distinct (map tag_id ts)"
    and "\<forall>t \<in> set ts. tr_key t \<notin> fst ` set (m (tr_event_id t))"
  shows "collect_tags ts m i = m i @ map (\<lambda>t. (tr_key t, tr_value t)) (filter (\<lambda>t. tr_event_id t = i) ts)"
  using assms
proof (induction ts arbitrary: m)
  case (Cons t ts)
  let ?m = "m(tr_event_id t := AList.update (tr_key t) (tr_value t) (m (tr_event_id t)))"
  have upd: "AList.update (tr_key t) (tr_value t) (m (tr_event_id t)) = m (tr_event_id t) @ [(tr_key t, tr_value t)]"
    using Cons.prems by (simp add: update_fresh_append)
  have "\<forall>u \<in> set ts. tr_key u \<notin> fst ` set (?m (tr_event_id u))"
    using Cons.prems by (auto simp: upd tag_id_def image_iff)
  with Cons.prems have "collect_tags ts ?m i
      = ?m i @ map (\<lambda>t. (tr_key t, tr_value t)) (filter (\<lambda>t. tr_event_id t = i) ts)"
    by (intro Cons.IH) auto
  then show ?case by (auto simp: upd)
qed simp

lemma collect_links_eq:
  "collect_links ks m i = m i @ map link_of_row (filter (\<lambda>k. kr_event_id k = i) ks)"
  by (induction ks arbitrary: m) (auto simp: link_of_row_def)

lemma insort_key_cong:
  "(\<forall>y \<in> set ys. f x \<le> f y \<longleftrightarrow> g x \<le> g y) \<Longrightarrow> insort_key f x ys = insort_key g x ys"
  by (induction ys) auto

lemma sort_key_cong:
  "(\<forall>x \<in> set xs. \<forall>y \<in> set xs. f x \<le> f y \<longleftrightarrow> g x \<le> g y) \<Longrightarrow> sort_key f xs = sort_key g xs"
proof (induction xs)
  case (Cons x xs)
  then have "sort_key f xs = sort_key g xs" by simp
  moreover have "insort_key f x (sort_key g xs) = insort_key g x (sort_key g xs)"
    using Cons.prems by (intro insort_key_cong) simp
  ultimately show ?case by simp
qed simp

lemma collected_tags:
  assumes "pg_inv s" "i \<in> set ids"
  shows "collect_tags (filter (\<lambda>t. tr_event_id t \<in> set ids) (pg_tags s)) (\<lambda>_. []) i = tags_of s i"
proof -
  have "distinct (map tag_id (filter (\<lambda>t. tr_event_id t \<in> set ids) (pg_tags s)))"
    using assms(1) by (simp add: pg_inv_def distinct_map_filter)
  moreover have "filter (\<lambda>t. tr_event_id t = i \<and> tr_event_id t \<in> set ids) (pg_tags s)
      = filter (\<lambda>t. tr_event_id t = i) (pg_tags s)"
    using assms(2) by (intro filter_cong) auto
  ultimately show ?thesis by (simp add: collect_tags_eq tags_of_def conj_commute)
qed

lemma collected_links:
  assumes "i \<in> set ids"
  shows "collect_links (sort_key (\<lambda>k. (kr_event_id k, kr_position k))
     (filter (\<lambda>k. kr_event_id k \<in> set ids) (pg_links s))) (\<lambda>_. []) i = links_of s i"
proof -
  have "filter (\<lambda>k. kr_event_id k = i \<and> kr_event_id k \<in> set ids) (pg_links s)
      = filter (\<lambda>k. kr_event_id k = i) (pg_links s)"
    using assms by (intro filter_cong) auto
  moreover have "sort_key (\<lambda>k. (kr_event_id k, kr_position k)) (filter (\<lambda>k. kr_event_id k = i) (pg_links s))
      = sort_key kr_position (filter (\<lambda>k. kr_event_id k = i) (pg_links s))"
    by (intro sort_key_cong) auto
  ultimately show ?thesis by (simp add: collect_links_eq links_of_def filter_sort conj_commute)
qed

subsection \<open>Loading related records\<close>

lemma queryE:
  assumes "and_then (round_trip e) (\<lambda>_. with_state f) s = (Inr x, s')"
  obtains s1 where "only_reads s s1" "f s1 s1 = (Inr x, s')"
  using assms by (auto simp: with_state_def elim!: and_then_InrE dest: round_trip_state)

lemma load_tags_Inr:
  assumes "load_tags_for_events ids s = (Inr m, s')" "pg_inv s"
  shows "(\<forall>i \<in> set ids. m i = tags_of s i) \<and> only_reads s s'"
proof (cases "ids = []")
  case True
  with assms show ?thesis by (simp add: load_tags_for_events_def run_simps)
next
  case False
  with assms(1) have run: "and_then (round_trip (ErrOther ''load tags'')) (\<lambda>_. with_state (\<lambda>s.
      ret (collect_tags (filter (\<lambda>t. tr_event_id t \<in> set ids) (pg_tags s)) (\<lambda>_. [])))) s = (Inr m, s')"
    by (simp only: load_tags_for_events_def if_False)
  then show ?thesis
  proof (rule queryE)
    fix s1 assume rd: "only_reads s s1"
      and m: "ret (collect_tags (filter (\<lambda>t. tr_event_id t \<in> set ids) (pg_tags s1)) (\<lambda>_. [])) s1 = (Inr m, s')"
    from rd obtain fs where "s1 = s\<lparr>pg_faults := fs\<rparr>" by (rule only_readsE)
    with m rd collected_tags [OF assms(2), of _ ids] show ?thesis by (auto simp: ret_def)
  qed
qed

lemma load_links_Inr:
  assumes "load_links_for_events ids s = (Inr m, s')"
  shows "(\<forall>i \<in> set ids. m i = links_of s i) \<and> only_reads s s'"
proof (cases "ids = []")
  case True
  with assms show ?thesis by (simp add: load_links_for_events_def run_simps)
next
  case False
  with assms(1) have run: "and_then (round_trip (ErrOther ''load links'')) (\<lambda>_. with_state (\<lambda>s.
      ret (collect_links (sort_key (\<lambda>k. (kr_event_id k, kr_position k))
        (filter (\<lambda>k. kr_event_id k \<in> set ids) (pg_links s))) (\<lambda>_. [])))) s = (Inr m, s')"
    by (simp only: load_links_for_events_def if_False)
  then show ?thesis
  proof (rule queryE)
    fix s1 assume rd: "only_reads s s1"
      and m: "ret (collect_links (sort_key (\<lambda>k. (kr_event_id k, kr_position k))
        (filter (\<lambda>k. kr_event_id k \<in> set ids) (pg_links s1))) (\<lambda>_. [])) s1 = (Inr m, s')"
    from rd obtain fs where "s1 = s\<lparr>pg_faults := fs\<rparr>" by (rule only_readsE)
    with m rd collected_links [of _ ids s] show ?thesis by (auto simp: ret_def)
  qed
qed

lemma tags_of_faults [simp]: "tags_of (s\<lparr>pg_faults := fs\<rparr>) = tags_of s"
  by (simp add: tags_of_def fun_eq_iff)

lemma links_of_faults [simp]: "links_of (s\<lparr>pg_faults := fs\<rparr>) = links_of s"
  by (simp add: links_of_def fun_eq_iff)

lemma load_related_Inr:
  assumes "load_related rows s = (Inr es, s')" "pg_inv s"
  shows "es = map (event_of s) rows \<and> only_reads s s'"
proof (cases "rows = []")
  case True
  with assms show ?thesis by (auto simp: load_related_def run_simps)
next
  case False
  with assms(1) obtain tm lm s1 where lt: "load_tags_for_events (map er_id rows) s = (Inr tm, s1)"
      and ll: "load_links_for_events (map er_id rows) s1 = (Inr lm, s')"
      and es: "es = map (\<lambda>r. (scan_event r)\<lparr>ev_tags := tm (er_id r), ev_links := lm (er_id r)\<rparr>) rows"
    by (auto simp: load_related_def run_simps elim!: and_then_InrE)
  have rd: "only_reads s s1" using load_tags_Inr [OF lt assms(2)] by blast
  then obtain fs where s1: "s1 = s\<lparr>pg_faults := fs\<rparr>" by (rule only_readsE)
  have "\<forall>r \<in> set rows. tm (er_id r) = tags_of s (er_id r) \<and> lm (er_id r) = links_of s (er_id r)"
    using load_tags_Inr [OF lt assms(2)] load_links_Inr [OF ll] s1 by auto
  then have "es = map (event_of s) rows" unfolding es event_of_def by (intro map_cong) auto
  moreover have "only_reads s s'" using rd load_links_Inr [OF ll] by (blast intro: only_reads_trans)
  ultimately show ?thesis by blast
qed

text \<open>With no failing round trip left, a load succeeds.\<close>

lemma round_trip_ready: "pg_faults s = [] \<Longrightarrow> round_trip e s = (Inr (), s)"
  by (simp add: round_trip_def)

lemma load_related_ready: "pg_faults s = [] \<Longrightarrow> \<exists>es. load_related rows s = (Inr es, s)"
  by (simp add: load_related_def load_tags_for_events_def load_links_for_events_def and_then_def
      ret_def with_state_def round_trip_ready)

end
