(* ===== verification/PgStore.thy ===== *)
theory PgStore
  imports PgInvariant
begin

section \<open>The operations of the PostgreSQL store\<close>

text \<open>
  \<^verbatim>\<open>Store.Create\<close>, \<^verbatim>\<open>ToggleStar\<close>, \<^verbatim>\<open>ToggleAlert\<close>, \<^verbatim>\<open>GetByID\<close>, \<^verbatim>\<open>GetByExternalID\<close> and \<^verbatim>\<open>List\<close> of
  internal/store/postgres/postgres.go, statement by statement over the tables of \<open>PgTables\<close>:
  a transaction that fails at any point is rolled back, an external identifier that already
  exists returns the stored event, a toggle reads the latest transition by ingest sequence. The
  WHERE clause of \<^verbatim>\<open>List\<close> is the list of clauses \<^verbatim>\<open>buildWhereClause\<close> emits, in its order.
\<close>

subsection \<open>Single events\<close>

definition load_one :: "event_row option \<Rightarrow> (pg, change_event option) op" where
  "load_one row = (case row of
      None \<Rightarrow> ret None
    | Some r \<Rightarrow> and_then (load_tags_for_events [er_id r]) (\<lambda>tm.
        and_then (load_links_for_events [er_id r]) (\<lambda>lm.
          ret (Some ((scan_event r)\<lparr>ev_tags := tm (er_id r), ev_links := lm (er_id r)\<rparr>)))))"

definition pg_get_by_id :: "string \<Rightarrow> (pg, change_event option) op" where
  "pg_get_by_id i = and_then (round_trip (ErrOther ''scan event'')) (\<lambda>_. with_state (\<lambda>s.
     load_one (find (\<lambda>r. er_id r = i) (pg_events s))))"

definition pg_get_by_external_id :: "string \<Rightarrow> (pg, change_event option) op" where
  "pg_get_by_external_id x = and_then (round_trip (ErrOther ''scan event'')) (\<lambda>_. with_state (\<lambda>s.
     load_one (find (\<lambda>r. er_external_id r = Some x) (pg_events s))))"

subsection \<open>Create\<close>

definition canonical_event :: "change_event \<Rightarrow> change_event" where
  "canonical_event e = e\<lparr>ev_timestamp := canonical_time (ev_timestamp e),
     ev_created_at := canonical_time (ev_created_at e)\<rparr>"

text \<open>\<^verbatim>\<open>fmt.Errorf("...: %w", err)\<close> around a database error: only the operation's name is kept.\<close>

definition replace_error :: "'f \<Rightarrow> ('s, 'e, 'a) prog \<Rightarrow> ('s, 'f, 'a) prog" where
  "replace_error f m s = (case m s of (Inl _, s') \<Rightarrow> (Inl f, s') | (Inr x, s') \<Rightarrow> (Inr x, s'))"

definition pg_create :: "change_event \<Rightarrow> (pg, change_event) op" where
  "pg_create e s =
     (case round_trip (ErrOther ''begin tx'') s of
        (Inl err, s1) \<Rightarrow> (Inl err, s1)
      | (Inr _, s1) \<Rightarrow>
          (case insert_event_row (row_of_event e) s1 of
             (Inl err, s2) \<Rightarrow>
               (if ev_external_id e \<noteq> [] \<and> is_unique_violation err
                then (case pg_get_by_external_id (ev_external_id e) (rollback s1 s2) of
                        (Inl lookup_err, s3) \<Rightarrow> (Inl lookup_err, s3)
                      | (Inr existing, s3) \<Rightarrow> (Inl (ErrDuplicate existing), s3))
                else (Inl (ErrOther ''insert event''), rollback s1 s2))
           | (Inr _, s2) \<Rightarrow>
               (case and_then (insert_tags (ev_id e) (ev_tags e)) (\<lambda>_.
                       and_then (insert_links (ev_id e) 0 (ev_links e)) (\<lambda>_.
                         round_trip (ErrOther ''commit tx''))) s2 of
                  (Inl err, s3) \<Rightarrow> (Inl err, rollback s1 s3)
                | (Inr _, s3) \<Rightarrow> (Inr (canonical_event e), s3))))"

subsection \<open>Toggles\<close>

text \<open>The latest transition of an event: ORDER BY ingest_sequence DESC LIMIT 1.\<close>

definition latest_transition :: "string \<Rightarrow> string \<Rightarrow> string \<Rightarrow> pg \<Rightarrow> string option" where
  "latest_transition event_id active_type inactive_type s =
     (case rev (sort_key er_seq (filter (\<lambda>r. er_parent_id r = Some event_id
                \<and> er_event_type r \<in> {active_type, inactive_type}) (pg_events s))) of
        [] \<Rightarrow> None | r # _ \<Rightarrow> Some (er_event_type r))"

definition transition_row :: "change_event \<Rightarrow> event_row" where
  "transition_row e = \<lparr>er_seq = 0, er_id = ev_id e, er_external_id = None,
     er_parent_id = Some (ev_parent_id e), er_user_name = ev_user_name e,
     er_user_provider = nullable_string (ev_user_provider e),
     er_user_subject = nullable_string (ev_user_subject e), er_timestamp = ev_timestamp e,
     er_event_type = ev_event_type e, er_description = ev_description e, er_long_description = [],
     er_created_at = ev_created_at e\<rparr>"

definition transition_event :: "env \<Rightarrow> string \<Rightarrow> string \<Rightarrow> user_identity \<Rightarrow> string \<Rightarrow> string \<Rightarrow> change_event" where
  "transition_event en new_id event_id user event_type description =
     \<lparr>ev_id = new_id, ev_external_id = [], ev_parent_id = event_id, ev_user_name = ui_name user,
      ev_user_provider = ui_provider user, ev_user_subject = ui_subject user,
      ev_timestamp = canonical_time (env_now en), ev_event_type = event_type,
      ev_description = description, ev_long_description = [], ev_links = [], ev_tags = [],
      ev_created_at = canonical_time (env_now en)\<rparr>"

text \<open>The transaction body: lock the parent, read the state, insert the opposite transition.\<close>

definition transition_body ::
  "env \<Rightarrow> string \<Rightarrow> user_identity \<Rightarrow> string \<Rightarrow> string \<Rightarrow> string \<Rightarrow> string \<Rightarrow> (pg, change_event) op" where
  "transition_body en event_id user active_type inactive_type active_description inactive_description =
     and_then (round_trip (ErrOther ''check parent event'')) (\<lambda>_. with_state (\<lambda>s1.
       if event_id \<notin> er_id ` set (pg_events s1) then throw ErrNotFound
       else and_then (round_trip (ErrOther ''read transition state'')) (\<lambda>_. with_state (\<lambda>s2.
         (let active = (latest_transition event_id active_type inactive_type s2 = Some active_type);
              event_type = (if active then inactive_type else active_type);
              description = (if active then inactive_description else active_description)
          in case env_uuid en of
               None \<Rightarrow> throw (ErrOther ''generate event ID'')
             | Some new_id \<Rightarrow>
                 (let result = transition_event en new_id event_id user event_type description
                  in and_then (replace_error (ErrOther ''insert transition'')
                        (insert_event_row (transition_row result))) (\<lambda>_. ret result)))))))"

definition toggle_transition ::
  "env \<Rightarrow> string \<Rightarrow> user_identity \<Rightarrow> string \<Rightarrow> string \<Rightarrow> string \<Rightarrow> string \<Rightarrow> (pg, change_event) op" where
  "toggle_transition en event_id user active_type inactive_type active_description inactive_description s =
     (case round_trip (ErrOther ''begin tx'') s of
        (Inl err, s1) \<Rightarrow> (Inl err, s1)
      | (Inr _, s1) \<Rightarrow>
          (case and_then (transition_body en event_id user active_type inactive_type
                   active_description inactive_description)
                 (\<lambda>e. and_then (round_trip (ErrOther ''commit tx'')) (\<lambda>_. ret e)) s1 of
             (Inl err, s2) \<Rightarrow> (Inl err, rollback s1 s2)
           | (Inr e, s2) \<Rightarrow> (Inr e, s2)))"

definition pg_toggle_star :: "env \<Rightarrow> string \<Rightarrow> user_identity \<Rightarrow> (pg, change_event) op" where
  "pg_toggle_star en event_id user =
     toggle_transition en event_id user event_type_star event_type_unstar ''starred'' ''unstarred''"

definition pg_toggle_alert :: "env \<Rightarrow> string \<Rightarrow> user_identity \<Rightarrow> (pg, change_event) op" where
  "pg_toggle_alert en event_id user =
     toggle_transition en event_id user event_type_alert event_type_clear_alert
       ''alert opened'' ''alert cleared''"

subsection \<open>The WHERE clause of List\<close>

datatype where_clause =
    ParentIs string
  | TimestampFrom instant
  | TimestampBefore instant
  | UserNameIs string
  | EventTypeIs string
  | ParentIsNull
  | HasActiveAlert
  | HasTags tag_map nat

definition build_where_clause :: "list_params \<Rightarrow> where_clause list" where
  "build_where_clause p =
     (if lp_parent_id p \<noteq> [] then [ParentIs (lp_parent_id p)] else [])
   @ (case (lp_around p, lp_window p) of
        (Some around, Some window) \<Rightarrow>
          (if 0 < window
           then [TimestampFrom (canonical_time (around - window)), TimestampBefore (canonical_time (around + window))]
           else (case lp_start_after p of None \<Rightarrow> [] | Some t \<Rightarrow> [TimestampFrom (canonical_time t)])
              @ (case lp_start_before p of None \<Rightarrow> [] | Some t \<Rightarrow> [TimestampBefore (canonical_time t)]))
      | _ \<Rightarrow> (case lp_start_after p of None \<Rightarrow> [] | Some t \<Rightarrow> [TimestampFrom (canonical_time t)])
           @ (case lp_start_before p of None \<Rightarrow> [] | Some t \<Rightarrow> [TimestampBefore (canonical_time t)]))
   @ (if lp_user_name p \<noteq> [] then [UserNameIs (lp_user_name p)] else [])
   @ (if lp_event_type p \<noteq> [] then [EventTypeIs (lp_event_type p)] else [])
   @ (if lp_top_level p then [ParentIsNull] else [])
   @ (if lp_alerted_only p then [HasActiveAlert] else [])
   @ (if lp_tags p \<noteq> [] then [HasTags (lp_tags p) (length (lp_tags p))] else [])"

text \<open>
  What a clause selects. \<open>HasActiveAlert\<close> is the subquery on the newest alert or clear-alert row of
  each parent; \<open>HasTags\<close> is \<^verbatim>\<open>GROUP BY event_id HAVING COUNT(DISTINCT key) = n\<close> over the tag rows
  that match one of the pairs.
\<close>

definition is_alert_row :: "event_row \<Rightarrow> bool" where
  "is_alert_row r = (er_event_type r \<in> {event_type_alert, event_type_clear_alert})"

definition has_active_alert :: "pg \<Rightarrow> string \<Rightarrow> bool" where
  "has_active_alert s i = list_ex (\<lambda>m. is_alert_row m \<and> er_parent_id m = Some i
     \<and> \<not> list_ex (\<lambda>newer. er_parent_id newer = er_parent_id m \<and> is_alert_row newer
            \<and> er_seq m < er_seq newer) (pg_events s)
     \<and> er_event_type m = event_type_alert) (pg_events s)"

definition matching_tag_keys :: "pg \<Rightarrow> string \<Rightarrow> tag_map \<Rightarrow> string list" where
  "matching_tag_keys s i tags = map tr_key (filter (\<lambda>t. tr_event_id t = i
     \<and> (tr_key t, tr_value t) \<in> set tags) (pg_tags s))"

fun clause_selects :: "pg \<Rightarrow> event_row \<Rightarrow> where_clause \<Rightarrow> bool" where
  "clause_selects s r (ParentIs p) = (er_parent_id r = Some p)"
| "clause_selects s r (TimestampFrom t) = (t \<le> er_timestamp r)"
| "clause_selects s r (TimestampBefore t) = (er_timestamp r < t)"
| "clause_selects s r (UserNameIs u) = (er_user_name r = u)"
| "clause_selects s r (EventTypeIs t) = (er_event_type r = t)"
| "clause_selects s r ParentIsNull = (er_parent_id r = None)"
| "clause_selects s r HasActiveAlert = has_active_alert s (er_id r)"
| "clause_selects s r (HasTags tags n) =
     (matching_tag_keys s (er_id r) tags \<noteq> [] \<and> length (remdups (matching_tag_keys s (er_id r) tags)) = n)"

definition where_selects :: "pg \<Rightarrow> where_clause list \<Rightarrow> event_row \<Rightarrow> bool" where
  "where_selects s clauses r = list_all (clause_selects s r) clauses"

text \<open>ORDER BY timestamp DESC, id ASC and LIMIT / OFFSET; PostgreSQL refuses a negative OFFSET.\<close>

definition newest_first :: "event_row list \<Rightarrow> event_row list" where
  "newest_first = sort_key (\<lambda>r. (- er_timestamp r, er_id r))"

definition page :: "int \<Rightarrow> int \<Rightarrow> 'a list \<Rightarrow> 'a list" where
  "page limit offset xs = take (nat limit) (drop (nat offset) xs)"

definition pg_list :: "list_params \<Rightarrow> (pg, list_result) op" where
  "pg_list p =
     (let clauses = build_where_clause p; limit = effective_limit (lp_limit p) in
      and_then (round_trip (ErrOther ''count events'')) (\<lambda>_. with_state (\<lambda>s1.
        (let total_count = length (filter (where_selects s1 clauses) (pg_events s1)) in
         and_then (round_trip (ErrOther ''list events'')) (\<lambda>_. with_state (\<lambda>s2.
           if lp_offset p < 0 then throw (ErrOther ''list events'')
           else and_then (load_related (page limit (lp_offset p)
                    (newest_first (filter (where_selects s2 clauses) (pg_events s2)))))
                  (\<lambda>events. ret \<lparr>lr_events = events, lr_total_count = int total_count,
                               lr_limit = limit, lr_offset = lp_offset p\<rparr>)))))))"

end
