(* ===== verification/PgAnnotations.thy ===== *)
theory PgAnnotations
  imports PgStore
begin

section \<open>Derived annotations: GetAnnotations and GetAnnotationsBatch\<close>

text \<open>
  The state machines that derive starred and alerted from the meta-events, newest first, of
  internal/store/postgres/postgres.go: one walk per event with an early exit, and the batch walk
  over the rows of many parents with a resolved flag per parent.
\<close>

definition annotation_types :: "string list" where
  "annotation_types = [event_type_star, event_type_unstar, event_type_alert, event_type_clear_alert]"

fun resolve_annotations :: "bool \<Rightarrow> bool \<Rightarrow> event_annotations \<Rightarrow> string list \<Rightarrow> event_annotations" where
  "resolve_annotations star_resolved alert_resolved a [] = a"
| "resolve_annotations star_resolved alert_resolved a (t # ts) =
     (if star_resolved \<and> alert_resolved then a
      else if t = event_type_star then
        (if \<not> star_resolved then resolve_annotations True alert_resolved (a\<lparr>an_starred := True\<rparr>) ts
         else resolve_annotations star_resolved alert_resolved a ts)
      else if t = event_type_unstar then
        (if \<not> star_resolved then resolve_annotations True alert_resolved (a\<lparr>an_starred := False\<rparr>) ts
         else resolve_annotations star_resolved alert_resolved a ts)
      else if t = event_type_alert then
        (if \<not> alert_resolved then resolve_annotations star_resolved True (a\<lparr>an_alerted := True\<rparr>) ts
         else resolve_annotations star_resolved alert_resolved a ts)
      else if t = event_type_clear_alert then
        (if \<not> alert_resolved then resolve_annotations star_resolved True (a\<lparr>an_alerted := False\<rparr>) ts
         else resolve_annotations star_resolved alert_resolved a ts)
      else resolve_annotations star_resolved alert_resolved a ts)"

definition annotation_rows :: "string list \<Rightarrow> pg \<Rightarrow> event_row list" where
  "annotation_rows ids s = rev (sort_key er_seq (filter (\<lambda>r. er_parent_id r \<in> Some ` set ids
     \<and> er_event_type r \<in> set annotation_types) (pg_events s)))"

definition pg_get_annotations :: "string \<Rightarrow> (pg, event_annotations) op" where
  "pg_get_annotations event_id = and_then (round_trip (ErrOther ''query annotations'')) (\<lambda>_. with_state (\<lambda>s.
     ret (resolve_annotations False False no_annotations (map er_event_type (annotation_rows [event_id] s)))))"

text \<open>The batch: the resolved flags and the annotations of each requested parent.\<close>

record resolved_state =
  rs_star :: bool
  rs_alert :: bool

type_synonym batch = "string \<rightharpoonup> resolved_state \<times> event_annotations"

definition batch_step :: "resolved_state \<times> event_annotations \<Rightarrow> string \<Rightarrow> resolved_state \<times> event_annotations" where
  "batch_step sa t = (case sa of (state, a) \<Rightarrow>
     if t = event_type_star then
       (if \<not> rs_star state then (state\<lparr>rs_star := True\<rparr>, a\<lparr>an_starred := True\<rparr>) else (state, a))
     else if t = event_type_unstar then
       (if \<not> rs_star state then (state\<lparr>rs_star := True\<rparr>, a\<lparr>an_starred := False\<rparr>) else (state, a))
     else if t = event_type_alert then
       (if \<not> rs_alert state then (state\<lparr>rs_alert := True\<rparr>, a\<lparr>an_alerted := True\<rparr>) else (state, a))
     else if t = event_type_clear_alert then
       (if \<not> rs_alert state then (state\<lparr>rs_alert := True\<rparr>, a\<lparr>an_alerted := False\<rparr>) else (state, a))
     else (state, a))"

fun batch_walk :: "batch \<Rightarrow> event_row list \<Rightarrow> batch" where
  "batch_walk m [] = m"
| "batch_walk m (r # rs) =
     (case m (from_nullable (er_parent_id r)) of
        None \<Rightarrow> batch_walk m rs
      | Some sa \<Rightarrow> batch_walk (m(from_nullable (er_parent_id r) \<mapsto> batch_step sa (er_event_type r))) rs)"

fun init_batch :: "string list \<Rightarrow> batch" where
  "init_batch [] = Map.empty"
| "init_batch (i # ids) = (init_batch ids)(i \<mapsto> (\<lparr>rs_star = False, rs_alert = False\<rparr>, no_annotations))"

definition pg_get_annotations_batch :: "string list \<Rightarrow> (pg, string \<rightharpoonup> event_annotations) op" where
  "pg_get_annotations_batch ids =
     (if ids = [] then ret Map.empty
      else and_then (round_trip (ErrOther ''query annotations batch'')) (\<lambda>_. with_state (\<lambda>s.
        ret (map_option snd \<circ> batch_walk (init_batch ids) (annotation_rows ids s)))))"

subsection \<open>What the walks compute\<close>

text \<open>The first entry of a group of types decides; every later one is ignored.\<close>

definition first_in :: "string set \<Rightarrow> string list \<Rightarrow> string option" where
  "first_in T ts = find (\<lambda>t. t \<in> T) ts"

definition derive_annotations :: "string list \<Rightarrow> event_annotations" where
  "derive_annotations ts = \<lparr>an_starred = (first_in {event_type_star, event_type_unstar} ts = Some event_type_star),
     an_alerted = (first_in {event_type_alert, event_type_clear_alert} ts = Some event_type_alert)\<rparr>"

lemma first_in_simps [simp]:
  "first_in T [] = None" "first_in T (t # ts) = (if t \<in> T then Some t else first_in T ts)"
  by (simp_all add: first_in_def)

lemma resolve_annotations_eq:
  "resolve_annotations sr ar a ts =
     \<lparr>an_starred = (if sr \<or> first_in {event_type_star, event_type_unstar} ts = None then an_starred a
                     else first_in {event_type_star, event_type_unstar} ts = Some event_type_star),
      an_alerted = (if ar \<or> first_in {event_type_alert, event_type_clear_alert} ts = None then an_alerted a
                     else first_in {event_type_alert, event_type_clear_alert} ts = Some event_type_alert)\<rparr>"
  by (induction ts arbitrary: sr ar a) auto

lemma resolve_derive: "resolve_annotations False False no_annotations ts = derive_annotations ts"
  by (simp add: resolve_annotations_eq derive_annotations_def no_annotations_def)

lemma fold_batch_step_resolve:
  "snd (foldl batch_step (state, a) ts) = resolve_annotations (rs_star state) (rs_alert state) a ts"
proof (induction ts arbitrary: state a)
  case (Cons t ts)
  show ?case
  proof (cases "rs_star state \<and> rs_alert state")
    case True
    then have "batch_step (state, a) t = (state, a)" by (simp add: batch_step_def)
    with True Cons show ?thesis by (simp add: resolve_annotations_eq)
  next
    case False
    with Cons show ?thesis by (auto simp: batch_step_def)
  qed
qed simp

lemma batch_walk_eq:
  "batch_walk m rs i = map_option (\<lambda>sa. foldl batch_step sa
     (map er_event_type (filter (\<lambda>r. from_nullable (er_parent_id r) = i) rs))) (m i)"
proof (induction rs arbitrary: m)
  case Nil
  then show ?case by (simp add: option.map_ident)
qed (auto split: option.splits)

lemma init_batch_eq:
  "init_batch ids i = (if i \<in> set ids
     then Some (\<lparr>rs_star = False, rs_alert = False\<rparr>, no_annotations) else None)"
  by (induction ids) auto

lemma batch_eq_derive:
  "(map_option snd \<circ> batch_walk (init_batch ids) rows) i = (if i \<in> set ids
     then Some (derive_annotations (map er_event_type (filter (\<lambda>r. from_nullable (er_parent_id r) = i) rows)))
     else None)"
  by (simp add: batch_walk_eq init_batch_eq fold_batch_step_resolve resolve_derive)

end
