(* ===== verification/PgCurrent.thy ===== *)
theory PgCurrent
  imports PgStore
begin

section \<open>Active operations: ListCurrent\<close>

text \<open>
  The common table expressions of \<^verbatim>\<open>currentCTEs\<close> and \<^verbatim>\<open>currentFrom\<close> in
  internal/store/postgres/postgres.go as functions on row lists, one per CTE: the phase events,
  their correlation (change_id before deploy_id, an empty value counting as NULL), the operations
  that ended, the active candidates with their ROW_NUMBER, and the filters of
  \<^verbatim>\<open>buildCurrentWhereClause\<close>. A comparison with NULL is unknown, and the WHERE clause uses neither
  NOT nor a negated comparison on a nullable column, so unknown is modelled as false.
\<close>

definition left_join :: "('a \<Rightarrow> 'b \<Rightarrow> bool) \<Rightarrow> 'a list \<Rightarrow> 'b list \<Rightarrow> ('a \<times> 'b option) list" where
  "left_join on as bs = concat (map (\<lambda>a. case filter (on a) bs of
       [] \<Rightarrow> [(a, None)] | ms \<Rightarrow> map (\<lambda>b. (a, Some b)) ms) as)"

definition nullif_empty :: "string option \<Rightarrow> string option" where
  "nullif_empty x = (if x = Some [] then None else x)"

definition coalesce :: "'a option \<Rightarrow> 'a option \<Rightarrow> 'a option" where
  "coalesce x y = (case x of None \<Rightarrow> y | Some v \<Rightarrow> Some v)"

record phase_row =
  ph_id :: string
  ph_event_type :: string
  ph_timestamp :: instant
  ph_phase :: string

definition phase_event :: "pg \<Rightarrow> phase_row list" where
  "phase_event s = [\<lparr>ph_id = tr_event_id t, ph_event_type = er_event_type e,
       ph_timestamp = er_timestamp e, ph_phase = tr_value t\<rparr>.
     t \<leftarrow> pg_tags s, tr_key t = ''phase'' \<and> tr_value t \<in> {''start'', ''end''},
     e \<leftarrow> pg_events s, er_id e = tr_event_id t \<and> er_parent_id e = None]"

record corr_row =
  co_id :: string
  co_event_type :: string
  co_timestamp :: instant
  co_phase :: string
  co_key :: string
  co_value :: "string option"

definition join_tag :: "('a \<Rightarrow> string) \<Rightarrow> string \<Rightarrow> pg \<Rightarrow> 'a list \<Rightarrow> ('a \<times> tag_row option) list" where
  "join_tag event_id key s rows = left_join (\<lambda>a t. tr_event_id t = event_id a \<and> tr_key t = key) rows (pg_tags s)"

definition correlate :: "(phase_row \<times> tag_row option) \<times> tag_row option \<Rightarrow> corr_row" where
  "correlate row = (case row of ((p, change_tag), deploy_tag) \<Rightarrow>
     \<lparr>co_id = ph_id p, co_event_type = ph_event_type p, co_timestamp = ph_timestamp p, co_phase = ph_phase p,
      co_key = (if nullif_empty (map_option tr_value change_tag) \<noteq> None then ''change_id'' else ''deploy_id''),
      co_value = coalesce (nullif_empty (map_option tr_value change_tag))
                          (nullif_empty (map_option tr_value deploy_tag))\<rparr>)"

definition correlated :: "pg \<Rightarrow> corr_row list" where
  "correlated s = map correlate
     (join_tag (\<lambda>row. ph_id (fst row)) ''deploy_id'' s (join_tag ph_id ''change_id'' s (phase_event s)))"

definition operation_of :: "corr_row \<Rightarrow> string \<times> string \<times> string option" where
  "operation_of c = (co_event_type c, co_key c, co_value c)"

definition ended :: "pg \<Rightarrow> (string \<times> string \<times> string option) list" where
  "ended s = remdups (map operation_of
     (filter (\<lambda>c. co_phase c = ''end'' \<and> co_value c \<noteq> None) (correlated s)))"

text \<open>The candidates that pass the WHERE of \<^verbatim>\<open>active\<close>: LEFT JOIN ended ... WHERE ended IS NULL.\<close>

definition active_candidates :: "pg \<Rightarrow> corr_row list" where
  "active_candidates s = map fst (filter (\<lambda>(c, e). co_phase c = ''start'' \<and> co_value c \<noteq> None \<and> e = None)
     (left_join (\<lambda>c e. e = operation_of c) (correlated s) (ended s)))"

definition representative_rank :: "corr_row list \<Rightarrow> corr_row \<Rightarrow> nat" where
  "representative_rank cs c = Suc (length (filter (\<lambda>d. operation_of d = operation_of c
     \<and> (co_timestamp d, co_id d) < (co_timestamp c, co_id c)) cs))"

record current_row =
  cu_corr :: corr_row
  cu_rank :: nat
  cu_event :: event_row

definition current_from :: "pg \<Rightarrow> current_row list" where
  "current_from s = [\<lparr>cu_corr = c, cu_rank = representative_rank (active_candidates s) c, cu_event = e\<rparr>.
     c \<leftarrow> active_candidates s, e \<leftarrow> pg_events s, er_id e = co_id c]"

text \<open>The value of the one tag row a LEFT JOIN on (event_id, key) finds.\<close>

definition tag_column :: "pg \<Rightarrow> string \<Rightarrow> string \<Rightarrow> string option" where
  "tag_column s event_id key =
     map_option tr_value (find (\<lambda>t. tr_event_id t = event_id \<and> tr_key t = key) (pg_tags s))"

definition current_where :: "current_params \<Rightarrow> pg \<Rightarrow> current_row \<Rightarrow> bool" where
  "current_where p s row =
     (let i = co_id (cu_corr row);
          team = tag_column s i ''team''; scope = tag_column s i ''scope'';
          severity = tag_column s i ''severity'' in
      cu_rank row = 1
      \<and> (cp_for_team p \<noteq> [] \<longrightarrow>
           team = Some (cp_for_team p) \<or> nullif_empty team = None \<or> scope = Some ''site'')
      \<and> (cp_scopes p \<noteq> [] \<longrightarrow> scope \<in> Some ` set (cp_scopes p))
      \<and> (cp_severities p \<noteq> [] \<longrightarrow>
           map_option to_lower severity \<in> Some ` to_lower ` set (cp_severities p))
      \<and> (cp_event_type p \<noteq> [] \<longrightarrow> er_event_type (cu_event row) = cp_event_type p)
      \<and> (cp_correlation_key p \<noteq> [] \<longrightarrow> co_key (cu_corr row) = cp_correlation_key p)
      \<and> (cp_correlation_value p \<noteq> [] \<longrightarrow> co_value (cu_corr row) = Some (cp_correlation_value p)))"

definition current_rows :: "current_params \<Rightarrow> pg \<Rightarrow> event_row list" where
  "current_rows p s = map cu_event (filter (current_where p s) (current_from s))"

definition pg_list_current :: "current_params \<Rightarrow> (pg, list_result) op" where
  "pg_list_current p =
     (let limit = effective_limit (cp_limit p) in
      and_then (round_trip (ErrOther ''count current events'')) (\<lambda>_. with_state (\<lambda>s1.
        (let total_count = length (current_rows p s1) in
         and_then (round_trip (ErrOther ''list current events'')) (\<lambda>_. with_state (\<lambda>s2.
           if cp_offset p < 0 then throw (ErrOther ''list current events'')
           else and_then (load_related (page limit (cp_offset p) (newest_first (current_rows p s2))))
                  (\<lambda>events. ret \<lparr>lr_events = events, lr_total_count = int total_count,
                               lr_limit = limit, lr_offset = cp_offset p\<rparr>)))))))"


end
