(* ===== verification/StoreSpec.thy ===== *)
theory StoreSpec
  imports Model
begin

section \<open>What a change store promises\<close>

text \<open>
  The contract of \<^verbatim>\<open>store.ChangeStore\<close> (internal/store/store.go) over an abstract registry: the
  append-only list of events in ingest order. Reads are functions of the registry, a successful
  write appends exactly one event, a failed one changes nothing. The locale \<open>change_store\<close> states
  this of any implementation; \<open>live_store\<close> adds that an implementation none of whose calls is
  failing answers.
\<close>

type_synonym registry = "change_event list"

definition find_by_id :: "registry \<Rightarrow> string \<Rightarrow> change_event option" where
  "find_by_id reg i = find (\<lambda>e. ev_id e = i) reg"

definition find_by_external_id :: "registry \<Rightarrow> string \<Rightarrow> change_event option" where
  "find_by_external_id reg x = find (\<lambda>e. ev_external_id e = x) reg"

definition registry_ids :: "registry \<Rightarrow> string set" where
  "registry_ids reg = ev_id ` set reg"

text \<open>What append-only storage keeps true of the events.\<close>

definition registry_ok :: "registry \<Rightarrow> bool" where
  "registry_ok reg =
     (distinct (map ev_id reg)
      \<and> distinct (filter (\<lambda>x. x \<noteq> []) (map ev_external_id reg))
      \<and> (\<forall>e \<in> set reg. ev_id e \<noteq> [] \<and> distinct (map fst (ev_tags e))
           \<and> (ev_parent_id e \<noteq> [] \<longrightarrow> ev_parent_id e \<in> registry_ids reg)
           \<and> canonical_time (ev_timestamp e) = ev_timestamp e))"

subsection \<open>Derived annotations\<close>

definition is_child :: "string \<Rightarrow> change_event \<Rightarrow> bool" where
  "is_child i e = (i \<noteq> [] \<and> ev_parent_id e = i)"

definition latest_of :: "string \<Rightarrow> string \<Rightarrow> string \<Rightarrow> registry \<Rightarrow> string option" where
  "latest_of a b i reg = (case rev (filter (\<lambda>e. is_child i e \<and> ev_event_type e \<in> {a, b}) reg) of
      [] \<Rightarrow> None | e # _ \<Rightarrow> Some (ev_event_type e))"

definition starred :: "registry \<Rightarrow> string \<Rightarrow> bool" where
  "starred reg i = (latest_of event_type_star event_type_unstar i reg = Some event_type_star)"

definition alerted :: "registry \<Rightarrow> string \<Rightarrow> bool" where
  "alerted reg i = (latest_of event_type_alert event_type_clear_alert i reg = Some event_type_alert)"

definition annotations_of :: "registry \<Rightarrow> string \<Rightarrow> event_annotations" where
  "annotations_of reg i = \<lparr>an_starred = starred reg i, an_alerted = alerted reg i\<rparr>"

lemma latest_of_append:
  "latest_of a b i (reg @ [e]) = (if is_child i e \<and> ev_event_type e \<in> {a, b}
     then Some (ev_event_type e) else latest_of a b i reg)"
  by (auto simp: latest_of_def)

lemma starred_append: "starred (reg @ [e]) i =
    (if is_child i e \<and> ev_event_type e \<in> {event_type_star, event_type_unstar}
     then ev_event_type e = event_type_star else starred reg i)"
  by (auto simp: starred_def latest_of_append)

lemma alerted_append: "alerted (reg @ [e]) i =
    (if is_child i e \<and> ev_event_type e \<in> {event_type_alert, event_type_clear_alert}
     then ev_event_type e = event_type_alert else alerted reg i)"
  by (auto simp: alerted_def latest_of_append)

subsection \<open>Filtered pages\<close>

definition in_time_window :: "list_params \<Rightarrow> instant \<Rightarrow> bool" where
  "in_time_window p t =
     (case (lp_around p, lp_window p) of
        (Some around, Some window) \<Rightarrow>
          if 0 < window
          then canonical_time (around - window) \<le> t \<and> t < canonical_time (around + window)
          else (\<forall>a \<in> set_option (lp_start_after p). canonical_time a \<le> t)
             \<and> (\<forall>b \<in> set_option (lp_start_before p). t < canonical_time b)
      | _ \<Rightarrow> (\<forall>a \<in> set_option (lp_start_after p). canonical_time a \<le> t)
           \<and> (\<forall>b \<in> set_option (lp_start_before p). t < canonical_time b))"

definition event_selected :: "registry \<Rightarrow> list_params \<Rightarrow> change_event \<Rightarrow> bool" where
  "event_selected reg p e =
     ((lp_parent_id p = [] \<or> ev_parent_id e = lp_parent_id p)
      \<and> in_time_window p (ev_timestamp e)
      \<and> (lp_user_name p = [] \<or> ev_user_name e = lp_user_name p)
      \<and> (lp_event_type p = [] \<or> ev_event_type e = lp_event_type p)
      \<and> (lp_top_level p \<longrightarrow> ev_parent_id e = [])
      \<and> (lp_alerted_only p \<longrightarrow> alerted reg (ev_id e))
      \<and> list_all (\<lambda>(k, v). map_of (ev_tags e) k = Some v) (lp_tags p))"

definition by_newest :: "registry \<Rightarrow> registry" where
  "by_newest = sort_key (\<lambda>e. (- ev_timestamp e, ev_id e))"

definition page_of :: "int \<Rightarrow> int \<Rightarrow> 'a list \<Rightarrow> 'a list" where
  "page_of limit offset xs = take (nat limit) (drop (nat offset) xs)"

definition result_page :: "int \<Rightarrow> int \<Rightarrow> registry \<Rightarrow> list_result" where
  "result_page limit offset es = \<lparr>lr_events = page_of (effective_limit limit) offset (by_newest es),
     lr_total_count = int (length es), lr_limit = effective_limit limit, lr_offset = offset\<rparr>"

definition list_spec :: "registry \<Rightarrow> list_params \<Rightarrow> list_result" where
  "list_spec reg p = result_page (lp_limit p) (lp_offset p) (filter (event_selected reg p) reg)"

subsection \<open>Active operations\<close>

text \<open>
  An operation is a correlated pair of phases: a start event and an end event with the same event
  type and the same change_id, or the same deploy_id when no change_id is given. It is active
  while no end event exists; the earliest start represents it.
\<close>

definition correlation :: "tag_map \<Rightarrow> (string \<times> string) option" where
  "correlation tags =
     (if tag_get tags ''change_id'' \<noteq> [] then Some (''change_id'', tag_get tags ''change_id'')
      else if tag_get tags ''deploy_id'' \<noteq> [] then Some (''deploy_id'', tag_get tags ''deploy_id'')
      else None)"

definition operation_in_phase :: "string \<Rightarrow> change_event \<Rightarrow> (string \<times> string \<times> string) option" where
  "operation_in_phase phase e =
     (if ev_parent_id e = [] \<and> map_of (ev_tags e) ''phase'' = Some phase
      then map_option (\<lambda>(k, v). (ev_event_type e, k, v)) (correlation (ev_tags e)) else None)"

definition operation_ended :: "registry \<Rightarrow> string \<times> string \<times> string \<Rightarrow> bool" where
  "operation_ended reg op = list_ex (\<lambda>e. operation_in_phase ''end'' e = Some op) reg"

definition represents_active :: "registry \<Rightarrow> change_event \<Rightarrow> bool" where
  "represents_active reg e = (case operation_in_phase ''start'' e of
      None \<Rightarrow> False
    | Some op \<Rightarrow> \<not> operation_ended reg op
        \<and> list_all (\<lambda>d. operation_in_phase ''start'' d = Some op \<longrightarrow>
             (ev_timestamp e, ev_id e) \<le> (ev_timestamp d, ev_id d)) reg)"

definition visible_in :: "current_params \<Rightarrow> change_event \<Rightarrow> bool" where
  "visible_in p e =
     ((cp_for_team p \<noteq> [] \<longrightarrow> tag_get (ev_tags e) ''team'' \<in> {[], cp_for_team p}
         \<or> map_of (ev_tags e) ''scope'' = Some ''site'')
      \<and> (cp_scopes p \<noteq> [] \<longrightarrow> map_of (ev_tags e) ''scope'' \<in> Some ` set (cp_scopes p))
      \<and> (cp_severities p \<noteq> [] \<longrightarrow>
           map_option to_lower (map_of (ev_tags e) ''severity'') \<in> Some ` to_lower ` set (cp_severities p))
      \<and> (cp_event_type p \<noteq> [] \<longrightarrow> ev_event_type e = cp_event_type p)
      \<and> (cp_correlation_key p \<noteq> [] \<longrightarrow>
           map_option fst (correlation (ev_tags e)) = Some (cp_correlation_key p))
      \<and> (cp_correlation_value p \<noteq> [] \<longrightarrow>
           map_option snd (correlation (ev_tags e)) = Some (cp_correlation_value p)))"

definition current_spec :: "registry \<Rightarrow> current_params \<Rightarrow> list_result" where
  "current_spec reg p = result_page (cp_limit p) (cp_offset p)
     (filter (\<lambda>e. represents_active reg e \<and> visible_in p e) reg)"

subsection \<open>The contract\<close>

definition event_ok :: "change_event \<Rightarrow> bool" where
  "event_ok e = (ev_id e \<noteq> [] \<and> distinct (map fst (ev_tags e)))"

definition stored_event :: "change_event \<Rightarrow> change_event" where
  "stored_event e = e\<lparr>ev_timestamp := canonical_time (ev_timestamp e),
     ev_created_at := canonical_time (ev_created_at e)\<rparr>"

text \<open>A toggle appends the opposite of the state the registry shows.\<close>

definition toggled :: "(registry \<Rightarrow> string \<Rightarrow> bool) \<Rightarrow> string \<Rightarrow> string \<Rightarrow> registry \<Rightarrow> string \<Rightarrow> user_identity
    \<Rightarrow> change_event \<Rightarrow> bool" where
  "toggled state on off reg i user e =
     (ev_parent_id e = i \<and> ev_event_type e = (if state reg i then off else on)
      \<and> ev_user_name e = ui_name user \<and> ev_user_provider e = ui_provider user
      \<and> ev_user_subject e = ui_subject user \<and> ev_external_id e = [] \<and> ev_tags e = [] \<and> ev_links e = [])"

locale change_store =
  fixes S :: "'s change_store" and inv :: "'s \<Rightarrow> bool" and reg :: "'s \<Rightarrow> registry"
  assumes reg_ok: "\<And>s. inv s \<Longrightarrow> registry_ok (reg s)"
    and get_by_id: "\<And>s i r s'. inv s \<Longrightarrow> st_get_by_id S i s = (r, s') \<Longrightarrow>
      inv s' \<and> reg s' = reg s \<and> (\<forall>x. r = Inr x \<longrightarrow> x = find_by_id (reg s) i)
        \<and> (\<forall>err. r = Inl err \<longrightarrow> (\<exists>m. err = ErrOther m))"
    and get_by_external_id: "\<And>s x r s'. inv s \<Longrightarrow> x \<noteq> [] \<Longrightarrow> st_get_by_external_id S x s = (r, s') \<Longrightarrow>
      inv s' \<and> reg s' = reg s \<and> (\<forall>y. r = Inr y \<longrightarrow> y = find_by_external_id (reg s) x)
        \<and> (\<forall>err. r = Inl err \<longrightarrow> (\<exists>m. err = ErrOther m))"
    and create_Inr: "\<And>s e e' s'. inv s \<Longrightarrow> event_ok e \<Longrightarrow> st_create S e s = (Inr e', s') \<Longrightarrow>
      inv s' \<and> e' = stored_event e \<and> reg s' = reg s @ [e']"
    and create_Inl: "\<And>s e err s'. inv s \<Longrightarrow> event_ok e \<Longrightarrow> st_create S e s = (Inl err, s') \<Longrightarrow>
      inv s' \<and> reg s' = reg s \<and> (\<forall>x. err = ErrDuplicate x \<longrightarrow>
        ev_external_id e \<noteq> [] \<and> x \<noteq> None \<and> x = find_by_external_id (reg s) (ev_external_id e))"
    and toggle_star_Inr: "\<And>s en i user e s'. inv s \<Longrightarrow> env_uuid en \<noteq> Some [] \<Longrightarrow> st_toggle_star S en i user s = (Inr e, s') \<Longrightarrow>
      inv s' \<and> i \<in> registry_ids (reg s) \<and> reg s' = reg s @ [e]
        \<and> toggled starred event_type_star event_type_unstar (reg s) i user e \<and> env_uuid en = Some (ev_id e)"
    and toggle_star_Inl: "\<And>s en i user err s'. inv s \<Longrightarrow> env_uuid en \<noteq> Some [] \<Longrightarrow> st_toggle_star S en i user s = (Inl err, s') \<Longrightarrow>
      inv s' \<and> reg s' = reg s \<and> (err = ErrNotFound \<longrightarrow> i \<notin> registry_ids (reg s))"
    and toggle_alert_Inr: "\<And>s en i user e s'. inv s \<Longrightarrow> env_uuid en \<noteq> Some [] \<Longrightarrow> st_toggle_alert S en i user s = (Inr e, s') \<Longrightarrow>
      inv s' \<and> i \<in> registry_ids (reg s) \<and> reg s' = reg s @ [e]
        \<and> toggled alerted event_type_alert event_type_clear_alert (reg s) i user e \<and> env_uuid en = Some (ev_id e)"
    and toggle_alert_Inl: "\<And>s en i user err s'. inv s \<Longrightarrow> env_uuid en \<noteq> Some [] \<Longrightarrow> st_toggle_alert S en i user s = (Inl err, s') \<Longrightarrow>
      inv s' \<and> reg s' = reg s \<and> (err = ErrNotFound \<longrightarrow> i \<notin> registry_ids (reg s))"
    and list: "\<And>s p r s'. inv s \<Longrightarrow> distinct (map fst (lp_tags p)) \<Longrightarrow> st_list S p s = (r, s') \<Longrightarrow>
      inv s' \<and> reg s' = reg s \<and> (\<forall>x. r = Inr x \<longrightarrow> x = list_spec (reg s) p)
        \<and> (\<forall>err. r = Inl err \<longrightarrow> (\<exists>m. err = ErrOther m))"
    and list_current: "\<And>s q r s'. inv s \<Longrightarrow> st_list_current S q s = (r, s') \<Longrightarrow>
      inv s' \<and> reg s' = reg s \<and> (\<forall>x. r = Inr x \<longrightarrow> x = current_spec (reg s) q)
        \<and> (\<forall>err. r = Inl err \<longrightarrow> (\<exists>m. err = ErrOther m))"
    and get_annotations: "\<And>s i r s'. inv s \<Longrightarrow> st_get_annotations S i s = (r, s') \<Longrightarrow>
      inv s' \<and> reg s' = reg s \<and> (\<forall>x. r = Inr x \<longrightarrow> i \<noteq> [] \<longrightarrow> x = annotations_of (reg s) i)"
    and get_annotations_batch: "\<And>s ids r s'. inv s \<Longrightarrow> st_get_annotations_batch S ids s = (r, s') \<Longrightarrow>
      inv s' \<and> reg s' = reg s \<and> (\<forall>m. r = Inr m \<longrightarrow> [] \<notin> set ids \<longrightarrow>
        m = (\<lambda>i. if i \<in> set ids then Some (annotations_of (reg s) i) else None))"

text \<open>A store whose calls answer: no fault is pending.\<close>

locale live_store = change_store S inv reg
  for S :: "'s change_store" and inv :: "'s \<Rightarrow> bool" and reg :: "'s \<Rightarrow> registry" +
  fixes ready :: "'s \<Rightarrow> bool"
  assumes live_get_by_id: "\<And>s i. inv s \<Longrightarrow> ready s \<Longrightarrow> \<exists>x. st_get_by_id S i s = (Inr x, s)"
    and live_get_by_external_id: "\<And>s x. inv s \<Longrightarrow> ready s \<Longrightarrow> \<exists>y. st_get_by_external_id S x s = (Inr y, s)"
    and live_create: "\<And>s e. inv s \<Longrightarrow> ready s \<Longrightarrow> event_ok e \<Longrightarrow> ev_id e \<notin> registry_ids (reg s) \<Longrightarrow>
      (ev_parent_id e \<noteq> [] \<longrightarrow> ev_parent_id e \<in> registry_ids (reg s)) \<Longrightarrow>
      (ev_external_id e \<noteq> [] \<longrightarrow> find_by_external_id (reg s) (ev_external_id e) = None) \<Longrightarrow>
      \<exists>s'. st_create S e s = (Inr (stored_event e), s') \<and> ready s'"
    and live_toggle_star: "\<And>s en u i user. inv s \<Longrightarrow> ready s \<Longrightarrow> env_uuid en = Some u \<Longrightarrow> u \<noteq> [] \<Longrightarrow>
      u \<notin> registry_ids (reg s) \<Longrightarrow> i \<in> registry_ids (reg s) \<Longrightarrow>
      \<exists>e s'. st_toggle_star S en i user s = (Inr e, s') \<and> ready s'"
    and live_toggle_alert: "\<And>s en u i user. inv s \<Longrightarrow> ready s \<Longrightarrow> env_uuid en = Some u \<Longrightarrow> u \<noteq> [] \<Longrightarrow>
      u \<notin> registry_ids (reg s) \<Longrightarrow> i \<in> registry_ids (reg s) \<Longrightarrow>
      \<exists>e s'. st_toggle_alert S en i user s = (Inr e, s') \<and> ready s'"
    and live_list: "\<And>s p. inv s \<Longrightarrow> ready s \<Longrightarrow> 0 \<le> lp_offset p \<Longrightarrow> \<exists>x. st_list S p s = (Inr x, s)"
    and live_list_current: "\<And>s q. inv s \<Longrightarrow> ready s \<Longrightarrow> 0 \<le> cp_offset q \<Longrightarrow> \<exists>x. st_list_current S q s = (Inr x, s)"
    and live_get_annotations: "\<And>s i. inv s \<Longrightarrow> ready s \<Longrightarrow> \<exists>x. st_get_annotations S i s = (Inr x, s)"
    and live_get_annotations_batch: "\<And>s ids. inv s \<Longrightarrow> ready s \<Longrightarrow> \<exists>m. st_get_annotations_batch S ids s = (Inr m, s)"

end
