(* ===== verification/PgWrites.thy ===== *)
theory PgWrites
  imports PgAnnotations PgCurrent StoreSpec
begin

section \<open>The writes of the PostgreSQL store refine the contract\<close>

text \<open>
  Every operation of the store reads or writes the tables so that, seen as a registry, a read
  changes nothing, a successful write appends one event and a failed one is rolled back
  completely, whatever round trip fails.
\<close>

subsection \<open>Reading operations\<close>

definition reads :: "(pg, 'a) op \<Rightarrow> bool" where
  "reads m = (\<forall>s r s'. m s = (r, s') \<longrightarrow>
     only_reads s s' \<and> (\<forall>err. r = Inl err \<longrightarrow> (\<exists>msg. err = ErrOther msg)))"

lemma reads_ret [intro]: "reads (ret x)"
  by (auto simp: reads_def ret_def)

lemma reads_throw [intro]: "reads (throw (ErrOther msg))"
  by (auto simp: reads_def throw_def)

lemma reads_round_trip [intro]: "reads (round_trip (ErrOther msg))"
  by (auto simp: reads_def round_trip_def split: list.splits)

lemma reads_and_then [intro]:
  assumes "reads m" and "\<And>x. reads (f x)"
  shows "reads (and_then m f)"
  unfolding reads_def
proof (intro allI impI)
  fix s r s'' assume run: "and_then m f s = (r, s'')"
  show "only_reads s s'' \<and> (\<forall>err. r = Inl err \<longrightarrow> (\<exists>msg. err = ErrOther msg))"
  proof (cases "m s")
    case (Pair q s')
    then show ?thesis using run assms unfolding reads_def and_then_def
      by (cases q) (fastforce intro: only_reads_trans)+
  qed
qed

lemma reads_with_state [intro]: "(\<And>a. reads (f a)) \<Longrightarrow> reads (with_state f)"
  by (auto simp: reads_def with_state_def)

lemma reads_if [intro]: "reads m \<Longrightarrow> reads n \<Longrightarrow> reads (if b then m else n)"
  by simp

lemma reads_load_tags [intro]: "reads (load_tags_for_events ids)"
  unfolding load_tags_for_events_def by auto

lemma reads_load_links [intro]: "reads (load_links_for_events ids)"
  unfolding load_links_for_events_def by auto

lemma reads_load_related [intro]: "reads (load_related rows)"
  unfolding load_related_def by auto

lemma reads_load_one [intro]: "reads (load_one row)"
  unfolding load_one_def by (auto split: option.splits)

lemma reads_get_by_id: "reads (pg_get_by_id i)"
  unfolding pg_get_by_id_def by auto

lemma reads_get_by_external_id: "reads (pg_get_by_external_id x)"
  unfolding pg_get_by_external_id_def by auto

lemma reads_get_annotations: "reads (pg_get_annotations i)"
  unfolding pg_get_annotations_def by auto

lemma reads_get_annotations_batch: "reads (pg_get_annotations_batch ids)"
  unfolding pg_get_annotations_batch_def by auto

lemma reads_list: "reads (pg_list p)"
  unfolding pg_list_def Let_def
  by (intro reads_and_then reads_with_state reads_if reads_round_trip reads_throw reads_load_related reads_ret)

lemma reads_list_current: "reads (pg_list_current p)"
  unfolding pg_list_current_def Let_def
  by (intro reads_and_then reads_with_state reads_if reads_round_trip reads_throw reads_load_related reads_ret)

lemma readsD:
  assumes "reads m" "pg_inv s" "m s = (r, s')"
  shows "pg_inv s' \<and> pg_registry s' = pg_registry s \<and> (\<forall>err. r = Inl err \<longrightarrow> (\<exists>msg. err = ErrOther msg))"
  using assms unfolding reads_def by (metis only_reads_inv only_reads_registry)

subsection \<open>Single events\<close>

lemma load_one_Inr:
  assumes "load_one row s = (Inr x, s')" "pg_inv s"
  shows "x = map_option (event_of s) row"
proof (cases row)
  case None
  with assms show ?thesis by (simp add: load_one_def run_simps)
next
  case (Some r)
  with assms(1) obtain tm lm s1 where lt: "load_tags_for_events [er_id r] s = (Inr tm, s1)"
      and ll: "load_links_for_events [er_id r] s1 = (Inr lm, s')"
      and x: "x = Some ((scan_event r)\<lparr>ev_tags := tm (er_id r), ev_links := lm (er_id r)\<rparr>)"
    by (auto simp: load_one_def run_simps elim!: and_then_InrE)
  have "only_reads s s1" using load_tags_Inr [OF lt assms(2)] by blast
  then have "links_of s1 = links_of s" by (auto elim: only_readsE)
  with load_tags_Inr [OF lt assms(2)] load_links_Inr [OF ll] x Some show ?thesis
    by (simp add: event_of_def)
qed

lemma find_row_by_id: "find_by_id (pg_registry s) i = map_option (event_of s) (find (\<lambda>r. er_id r = i) (pg_events s))"
  by (simp add: find_by_id_def pg_registry_def find_map comp_def)

lemma from_nullable_eq: "x \<noteq> [] \<Longrightarrow> (from_nullable y = x) = (y = Some x)"
  by (auto simp: from_nullable_def split: option.splits)

lemma find_row_by_external_id:
  "x \<noteq> [] \<Longrightarrow> find_by_external_id (pg_registry s) x
     = map_option (event_of s) (find (\<lambda>r. er_external_id r = Some x) (pg_events s))"
  by (simp add: find_by_external_id_def pg_registry_def find_map comp_def from_nullable_eq)

lemma pg_get_by_id_Inr:
  assumes "pg_inv s" "pg_get_by_id i s = (Inr x, s')"
  shows "x = find_by_id (pg_registry s) i"
proof -
  from assms(2) obtain s1 where rt: "round_trip (ErrOther ''scan event'') s = (Inr (), s1)"
      and l: "load_one (find (\<lambda>r. er_id r = i) (pg_events s1)) s1 = (Inr x, s')"
    by (auto simp: pg_get_by_id_def run_simps elim!: and_then_InrE)
  have "only_reads s s1" using rt by (rule round_trip_state)
  then have "pg_inv s1" "pg_registry s1 = pg_registry s" using assms(1)
    by (auto simp: only_reads_inv only_reads_registry)
  with load_one_Inr [OF l] find_row_by_id [of s1 i] show ?thesis by simp
qed

lemma pg_get_by_external_id_Inr:
  assumes "pg_inv s" "x \<noteq> []" "pg_get_by_external_id x s = (Inr y, s')"
  shows "y = find_by_external_id (pg_registry s) x"
proof -
  from assms(3) obtain s1 where rt: "round_trip (ErrOther ''scan event'') s = (Inr (), s1)"
      and l: "load_one (find (\<lambda>r. er_external_id r = Some x) (pg_events s1)) s1 = (Inr y, s')"
    by (auto simp: pg_get_by_external_id_def run_simps elim!: and_then_InrE)
  have "only_reads s s1" using rt by (rule round_trip_state)
  then have "pg_inv s1" "pg_registry s1 = pg_registry s" using assms(1)
    by (auto simp: only_reads_inv only_reads_registry)
  with load_one_Inr [OF l] find_row_by_external_id [OF assms(2), of s1] show ?thesis by simp
qed

subsection \<open>The registry of well-formed tables is well-formed\<close>

lemma distinct_tags_of: "pg_inv s \<Longrightarrow> distinct (map fst (tags_of s i))"
proof -
  assume "pg_inv s"
  then have "distinct (map tag_id (filter (\<lambda>t. tr_event_id t = i) (pg_tags s)))"
    by (simp add: pg_inv_def distinct_map_filter)
  moreover have "map tag_id (filter (\<lambda>t. tr_event_id t = i) (pg_tags s))
      = map (\<lambda>t. (i, tr_key t)) (filter (\<lambda>t. tr_event_id t = i) (pg_tags s))"
    by (intro map_cong) (auto simp: tag_id_def)
  ultimately have "distinct (map (\<lambda>t. (i, tr_key t)) (filter (\<lambda>t. tr_event_id t = i) (pg_tags s)))"
    by simp
  then show ?thesis by (simp add: tags_of_def comp_def distinct_map inj_on_def)
qed

lemma filter_nonempty_external:
  "filter (\<lambda>x. x \<noteq> []) (map (\<lambda>r. from_nullable (er_external_id r)) rs)
     = map the (filter (\<lambda>x. x \<noteq> None \<and> x \<noteq> Some []) (map er_external_id rs))"
  by (induction rs) (auto simp: from_nullable_def split: option.splits)

lemma pg_registry_ok:
  assumes "pg_inv s"
  shows "registry_ok (pg_registry s)"
proof -
  have "filter (\<lambda>x. x \<noteq> None \<and> x \<noteq> Some []) (map er_external_id (pg_events s))
      = filter (\<lambda>x. x \<noteq> None) (map er_external_id (pg_events s))"
    using assms by (intro filter_cong) (auto simp: pg_inv_def row_ok_def)
  moreover have "inj_on the (set (filter (\<lambda>x. x \<noteq> None) (map er_external_id (pg_events s))))"
    by (auto simp: inj_on_def)
  ultimately have "distinct (filter (\<lambda>x. x \<noteq> []) (map ev_external_id (pg_registry s)))"
    using assms by (simp add: pg_registry_def comp_def filter_nonempty_external distinct_map pg_inv_def)
  moreover have "registry_ids (pg_registry s) = row_ids s"
    by (simp add: registry_ids_def pg_registry_def row_ids_def image_image)
  moreover have "\<forall>r \<in> set (pg_events s). row_ok r \<and> (\<forall>p. er_parent_id r = Some p \<longrightarrow> p \<in> row_ids s)"
    using assms by (simp add: pg_inv_def)
  moreover have "distinct (map er_id (pg_events s))" using assms by (simp add: pg_inv_def)
  ultimately show ?thesis
    using distinct_tags_of [OF assms]
    by (auto simp: registry_ok_def pg_registry_def comp_def row_ok_def from_nullable_def split: option.splits)
qed

end
