(* ===== verification/PgTransactions.thy ===== *)
theory PgTransactions
  imports PgWrites
begin

section \<open>Transactions: Create and the toggles are all or nothing\<close>

text \<open>
  What a committed transaction leaves behind, and that a failed one leaves the registry as it was.
  The statements inside a transaction only add rows; \<open>rollback\<close> restores the tables, and the
  identity sequence never goes back.
\<close>

subsection \<open>The sequence never goes back\<close>

lemma seq_round_trip: "preserves (\<lambda>s. n \<le> pg_seq s) (round_trip e)"
  by (rule preservesI) (auto simp: round_trip_def split: list.splits)

lemma seq_insert_event_row: "preserves (\<lambda>s. n \<le> pg_seq s) (insert_event_row r)"
  unfolding insert_event_row_def
  by (intro preserves_and_then seq_round_trip preservesI) (auto split: option.splits)

lemma seq_insert_tag_row: "preserves (\<lambda>s. n \<le> pg_seq s) (insert_tag_row i k v)"
  unfolding insert_tag_row_def by (intro preserves_and_then seq_round_trip preservesI) auto

lemma seq_insert_tags: "preserves (\<lambda>s. n \<le> pg_seq s) (insert_tags i tags)"
  by (induction i tags rule: insert_tags.induct) (auto intro: seq_insert_tag_row)

lemma seq_insert_link_row: "preserves (\<lambda>s. n \<le> pg_seq s) (insert_link_row i k l)"
  unfolding insert_link_row_def by (intro preserves_and_then seq_round_trip preservesI) auto

lemma seq_insert_links: "preserves (\<lambda>s. n \<le> pg_seq s) (insert_links i k links)"
  by (induction i k links rule: insert_links.induct) (auto intro: seq_insert_link_row)

definition create_children :: "change_event \<Rightarrow> (pg, unit) op" where
  "create_children e = and_then (insert_tags (ev_id e) (ev_tags e)) (\<lambda>_.
     and_then (insert_links (ev_id e) 0 (ev_links e)) (\<lambda>_. round_trip (ErrOther ''commit tx'')))"

lemma seq_create_children: "preserves (\<lambda>s. n \<le> pg_seq s) (create_children e)"
  unfolding create_children_def
  by (intro preserves_and_then seq_insert_tags seq_insert_links seq_round_trip)

lemma inv_create_children: "preserves pg_inv (create_children e)"
  unfolding create_children_def
  by (intro preserves_and_then preserves_insert_tags preserves_insert_links preserves_round_trip)

lemma insert_tags_error: "insert_tags i tags s = (Inl err, s') \<Longrightarrow> \<exists>msg. err = ErrOther msg"
  by (induction i tags arbitrary: s rule: insert_tags.induct)
    (auto simp: insert_tag_row_def round_trip_def run_simps split: list.splits if_splits elim!: and_then_InlE)

lemma insert_links_error: "insert_links i n links s = (Inl err, s') \<Longrightarrow> \<exists>msg. err = ErrOther msg"
  by (induction i n links arbitrary: s rule: insert_links.induct)
    (auto simp: insert_link_row_def round_trip_def run_simps split: list.splits if_splits elim!: and_then_InlE)

lemma create_children_error: "create_children e s = (Inl err, s') \<Longrightarrow> \<exists>msg. err = ErrOther msg"
  unfolding create_children_def
  by (auto simp: round_trip_def split: list.splits if_splits elim!: and_then_InlE
      dest: insert_tags_error insert_links_error)

subsection \<open>The rows the statements add\<close>

lemma insert_event_row_Inr:
  assumes "insert_event_row r s = (Inr u, s')"
  shows "event_constraint_error r s = None \<and> (\<exists>fs. s' = s\<lparr>pg_events := pg_events s @ [r\<lparr>er_seq := pg_seq s\<rparr>],
     pg_seq := Suc (pg_seq s), pg_faults := fs\<rparr>)"
proof -
  from assms obtain v s1 where rt: "round_trip ConnectionFailure s = (Inr v, s1)"
      and ok: "event_constraint_error r s1 = None" and
      s': "s' = s1\<lparr>pg_events := pg_events s1 @ [r\<lparr>er_seq := pg_seq s1\<rparr>], pg_seq := Suc (pg_seq s1)\<rparr>"
    by (auto simp: insert_event_row_def split: option.splits elim!: and_then_InrE)
  from round_trip_state [OF rt] obtain fs where s1: "s1 = s\<lparr>pg_faults := fs\<rparr>" by (rule only_readsE)
  have "pg_events s1 = pg_events s" using s1 by simp
  with ok have "event_constraint_error r s = None" by (simp only: event_constraint_error_def)
  moreover have "s' = s\<lparr>pg_events := pg_events s @ [r\<lparr>er_seq := pg_seq s\<rparr>],
     pg_seq := Suc (pg_seq s), pg_faults := fs\<rparr>"
    using s' s1 by (intro pg.equality) simp_all
  ultimately show ?thesis by blast
qed

lemma insert_tags_Inr:
  "insert_tags i tags s = (Inr u, s') \<Longrightarrow> \<exists>fs. s' = s\<lparr>pg_tags := pg_tags s @
     map (\<lambda>(k, v). \<lparr>tr_event_id = i, tr_key = k, tr_value = v\<rparr>) tags, pg_faults := fs\<rparr>"
proof (induction i tags arbitrary: s rule: insert_tags.induct)
  case (1 i)
  then have "s' = s\<lparr>pg_faults := pg_faults s\<rparr>" by (simp add: run_simps)
  then show ?case by (auto simp: run_simps intro: exI [of _ "pg_faults s"])
next
  case (2 i k v tags)
  from 2(2) obtain w s1 where row: "insert_tag_row i k v s = (Inr w, s1)"
      and rest: "insert_tags i tags s1 = (Inr u, s')" by (auto elim: and_then_InrE)
  from row obtain w' s0 where rt: "round_trip (ErrOther ''insert tag'') s = (Inr w', s0)"
      and s1: "s1 = s0\<lparr>pg_tags := pg_tags s0 @ [\<lparr>tr_event_id = i, tr_key = k, tr_value = v\<rparr>]\<rparr>"
    by (auto simp: insert_tag_row_def split: if_splits elim!: and_then_InrE)
  from round_trip_state [OF rt] obtain gs where "s0 = s\<lparr>pg_faults := gs\<rparr>" by (rule only_readsE)
  with s1 2(1) [OF rest] show ?case by auto
qed

lemma insert_links_Inr:
  "insert_links i n links s = (Inr u, s') \<Longrightarrow> \<exists>fs. s' = s\<lparr>pg_links := pg_links s @
     map (\<lambda>(k, l). \<lparr>kr_event_id = i, kr_position = k, kr_label = el_label l, kr_url = el_url l\<rparr>)
       (enumerate n links), pg_faults := fs\<rparr>"
proof (induction i n links arbitrary: s rule: insert_links.induct)
  case (1 i n)
  then have "s' = s\<lparr>pg_faults := pg_faults s\<rparr>" by (simp add: run_simps)
  then show ?case by (auto simp: run_simps intro: exI [of _ "pg_faults s"])
next
  case (2 i n l links)
  from 2(2) obtain w s1 where row: "insert_link_row i n l s = (Inr w, s1)"
      and rest: "insert_links i (Suc n) links s1 = (Inr u, s')" by (auto elim: and_then_InrE)
  from row obtain w' s0 where rt: "round_trip (ErrOther ''insert link'') s = (Inr w', s0)"
      and s1: "s1 = s0\<lparr>pg_links := pg_links s0 @
        [\<lparr>kr_event_id = i, kr_position = n, kr_label = el_label l, kr_url = el_url l\<rparr>]\<rparr>"
    by (auto simp: insert_link_row_def split: if_splits elim!: and_then_InrE)
  from round_trip_state [OF rt] obtain gs where "s0 = s\<lparr>pg_faults := gs\<rparr>" by (rule only_readsE)
  with s1 2(1) [OF rest] show ?case by (auto simp: enumerate_simps)
qed

subsection \<open>The registry after a committed Create\<close>

lemma tags_of_append:
  "tags_of (s\<lparr>pg_tags := pg_tags s @ map (\<lambda>(k, v). \<lparr>tr_event_id = i, tr_key = k, tr_value = v\<rparr>) tags\<rparr>) j
     = tags_of s j @ (if i = j then tags else [])"
  by (induction tags) (auto simp: tags_of_def split: if_splits)

lemma link_eta: "\<lparr>el_label = el_label l, el_url = el_url l\<rparr> = (l :: event_link)"
  by simp

lemma links_of_fresh:
  assumes "\<forall>k \<in> set (pg_links s). kr_event_id k \<noteq> i"
  shows "links_of (s\<lparr>pg_links := pg_links s @
     map (\<lambda>(k, l). \<lparr>kr_event_id = i, kr_position = k, kr_label = el_label l, kr_url = el_url l\<rparr>)
       (enumerate n links)\<rparr>) i = links"
proof -
  let ?rows = "map (\<lambda>(k, l). \<lparr>kr_event_id = i, kr_position = k, kr_label = el_label l, kr_url = el_url l\<rparr>)
       (enumerate n links)"
  have "filter (\<lambda>k. kr_event_id k = i) (pg_links s) = []" using assms by (simp add: filter_empty_conv)
  moreover have "filter (\<lambda>k. kr_event_id k = i) ?rows = ?rows"
    by (auto simp: filter_id_conv)
  moreover have "sort_key kr_position ?rows = ?rows"
    by (rule sort_key_id_if_sorted) (simp add: comp_def case_prod_unfold enumerate_eq_zip)
  moreover have "map link_of_row ?rows = links"
  proof -
    have "map link_of_row ?rows = map snd (enumerate n links)"
      by (simp add: link_of_row_def comp_def case_prod_unfold link_eta)
    then show ?thesis by simp
  qed
  ultimately show ?thesis by (simp add: links_of_def)
qed

lemma links_of_other:
  "i \<noteq> j \<Longrightarrow> links_of (s\<lparr>pg_links := pg_links s @
     map (\<lambda>(k, l). \<lparr>kr_event_id = i, kr_position = k, kr_label = el_label l, kr_url = el_url l\<rparr>)
       (enumerate n links)\<rparr>) j = links_of s j"
  by (simp add: links_of_def filter_empty_conv [THEN iffD2] case_prod_unfold)

text \<open>The tables after the three groups of INSERTs of a committed Create.\<close>

definition with_event :: "event_row \<Rightarrow> tag_map \<Rightarrow> event_link list \<Rightarrow> pg \<Rightarrow> pg" where
  "with_event r tags links s =
     s\<lparr>pg_events := pg_events s @ [r\<lparr>er_seq := pg_seq s\<rparr>], pg_seq := Suc (pg_seq s),
       pg_tags := pg_tags s @ map (\<lambda>(k, v). \<lparr>tr_event_id = er_id r, tr_key = k, tr_value = v\<rparr>) tags,
       pg_links := pg_links s @ map (\<lambda>(k, l). \<lparr>kr_event_id = er_id r, kr_position = k,
         kr_label = el_label l, kr_url = el_url l\<rparr>) (enumerate 0 links)\<rparr>"

lemma tags_of_with_event:
  "tags_of (with_event r tags links s) j = tags_of s j @ (if er_id r = j then tags else [])"
  using tags_of_append [of s "er_id r" tags j] by (simp add: with_event_def tags_of_def)

lemma links_of_with_event:
  assumes "pg_inv s" "er_id r \<notin> row_ids s"
  shows "links_of (with_event r tags links s) j = (if er_id r = j then links else links_of s j)"
proof -
  have "\<forall>k \<in> set (pg_links s). kr_event_id k \<noteq> er_id r" using assms by (auto simp: pg_inv_def)
  note fresh = links_of_fresh [OF this, of 0 links]
  show ?thesis
  proof (cases "er_id r = j")
    case True
    with fresh show ?thesis by (simp add: with_event_def links_of_def)
  next
    case False
    with links_of_other [of "er_id r" j s 0 links] show ?thesis by (simp add: with_event_def links_of_def)
  qed
qed

lemma tags_of_fresh: "pg_inv s \<Longrightarrow> i \<notin> row_ids s \<Longrightarrow> tags_of s i = []"
  by (auto simp: tags_of_def pg_inv_def filter_empty_conv)

lemma registry_with_event:
  assumes "pg_inv s" "er_id r \<notin> row_ids s"
  shows "pg_registry (with_event r tags links s) = pg_registry s @ [(scan_event r)\<lparr>ev_tags := tags, ev_links := links\<rparr>]"
proof -
  let ?t = "with_event r tags links s"
  have "event_of ?t q = event_of s q" if "q \<in> set (pg_events s)" for q
  proof -
    have "er_id q \<in> row_ids s" using that by (simp add: row_ids_def)
    with assms(2) have "er_id r \<noteq> er_id q" by auto
    then show ?thesis
      by (simp add: event_of_def tags_of_with_event links_of_with_event [OF assms])
  qed
  moreover have "event_of ?t (r\<lparr>er_seq := pg_seq s\<rparr>) = (scan_event r)\<lparr>ev_tags := tags, ev_links := links\<rparr>"
    by (simp add: event_of_def scan_event_def tags_of_with_event links_of_with_event [OF assms]
        tags_of_fresh [OF assms])
  moreover have "pg_events ?t = pg_events s @ [r\<lparr>er_seq := pg_seq s\<rparr>]" by (simp add: with_event_def)
  ultimately show ?thesis by (simp add: pg_registry_def)
qed

lemma create_children_Inr:
  assumes "create_children e s = (Inr u, s')"
  shows "\<exists>fs. s' = s\<lparr>pg_tags := pg_tags s @ map (\<lambda>(k, v). \<lparr>tr_event_id = ev_id e, tr_key = k, tr_value = v\<rparr>) (ev_tags e),
     pg_links := pg_links s @ map (\<lambda>(k, l). \<lparr>kr_event_id = ev_id e, kr_position = k,
         kr_label = el_label l, kr_url = el_url l\<rparr>) (enumerate 0 (ev_links e)), pg_faults := fs\<rparr>"
proof -
  from assms obtain a s1 b s2 where t: "insert_tags (ev_id e) (ev_tags e) s = (Inr a, s1)"
      and l: "insert_links (ev_id e) 0 (ev_links e) s1 = (Inr b, s2)"
      and c: "round_trip (ErrOther ''commit tx'') s2 = (Inr u, s')"
    unfolding create_children_def by (elim and_then_InrE)
  from insert_tags_Inr [OF t] insert_links_Inr [OF l] round_trip_state [OF c] show ?thesis
    by (auto elim!: only_readsE)
qed

subsection \<open>Create\<close>

lemma pg_create_eq:
  "pg_create e s = (case round_trip (ErrOther ''begin tx'') s of
     (Inl err, s1) \<Rightarrow> (Inl err, s1)
   | (Inr _, s1) \<Rightarrow> (case insert_event_row (row_of_event e) s1 of
        (Inl err, s2) \<Rightarrow>
          (if ev_external_id e \<noteq> [] \<and> is_unique_violation err
           then (case pg_get_by_external_id (ev_external_id e) (rollback s1 s2) of
                   (Inl lookup_err, s3) \<Rightarrow> (Inl lookup_err, s3)
                 | (Inr existing, s3) \<Rightarrow> (Inl (ErrDuplicate existing), s3))
           else (Inl (ErrOther ''insert event''), rollback s1 s2))
      | (Inr _, s2) \<Rightarrow> (case create_children e s2 of
           (Inl err, s3) \<Rightarrow> (Inl err, rollback s1 s3)
         | (Inr _, s3) \<Rightarrow> (Inr (canonical_event e), s3))))"
  unfolding pg_create_def create_children_def by (rule refl)

lemma row_ok_row_of_event: "event_ok e \<Longrightarrow> row_ok (row_of_event e)"
  by (simp add: event_ok_def row_ok_def row_of_event_def nullable_string_def)

lemma scan_row_of_event: "(scan_event (row_of_event e))\<lparr>ev_tags := ev_tags e, ev_links := ev_links e\<rparr> = stored_event e"
  by (simp add: scan_event_def row_of_event_def stored_event_def)

lemma pg_create_Inr:
  assumes "pg_inv s" "event_ok e" "pg_create e s = (Inr e', s')"
  shows "pg_inv s' \<and> e' = stored_event e \<and> pg_registry s' = pg_registry s @ [e']"
proof -
  from assms(3) obtain u1 s1 u2 s2 u3 where b: "round_trip (ErrOther ''begin tx'') s = (Inr u1, s1)"
      and i: "insert_event_row (row_of_event e) s1 = (Inr u2, s2)"
      and c: "create_children e s2 = (Inr u3, s')" and e': "e' = canonical_event e"
    by (auto simp: pg_create_eq split: prod.splits sum.splits if_splits)
  have inv1: "pg_inv s1" using round_trip_state [OF b] assms(1) by (simp add: only_reads_inv)
  have inv2: "pg_inv s2"
    by (rule preservesD [OF preserves_insert_event_row [OF row_ok_row_of_event [OF assms(2)]] inv1 i])
  have inv3: "pg_inv s'" by (rule preservesD [OF inv_create_children inv2 c])
  from insert_event_row_Inr [OF i] obtain fs where free: "event_constraint_error (row_of_event e) s1 = None"
    and s2: "s2 = s1\<lparr>pg_events := pg_events s1 @ [(row_of_event e)\<lparr>er_seq := pg_seq s1\<rparr>],
     pg_seq := Suc (pg_seq s1), pg_faults := fs\<rparr>" by blast
  have id: "er_id (row_of_event e) = ev_id e" by (simp add: row_of_event_def)
  from create_children_Inr [OF c] obtain gs where "s' = (with_event (row_of_event e) (ev_tags e) (ev_links e) s1)\<lparr>pg_faults := gs\<rparr>"
    using s2 id by (auto simp: with_event_def)
  moreover have "er_id (row_of_event e) \<notin> row_ids s1"
    using free by (auto simp: event_constraint_error_def row_ids_def split: if_splits)
  ultimately have "pg_registry s' = pg_registry s1 @ [stored_event e]"
    using registry_with_event [OF inv1] by (simp add: scan_row_of_event)
  moreover have "pg_registry s1 = pg_registry s" by (rule only_reads_registry [OF round_trip_state [OF b]])
  ultimately show ?thesis using inv3 e' by (simp add: canonical_event_def stored_event_def)
qed

lemma insert_event_row_Inl:
  assumes "insert_event_row r s = (Inl err, s')"
  shows "pg_seq s \<le> pg_seq s' \<and> (err = ConnectionFailure \<or> event_constraint_error r s = Some err)"
proof -
  have "pg_seq s \<le> pg_seq s'"
    by (rule preservesD [OF seq_insert_event_row _ assms]) simp
  moreover have "err = ConnectionFailure \<or> event_constraint_error r s = Some err"
    using assms by (auto simp: insert_event_row_def event_constraint_error_def round_trip_def and_then_def
        split: option.splits list.splits if_splits)
  ultimately show ?thesis by blast
qed

lemma unique_violation_exists:
  assumes "event_constraint_error (row_of_event e) s = Some err" "is_unique_violation err" "ev_external_id e \<noteq> []"
  shows "find_by_external_id (pg_registry s) (ev_external_id e) \<noteq> None"
proof -
  have "nullable_string (ev_external_id e) \<in> er_external_id ` set (pg_events s)"
    using assms(1,2) by (auto simp: event_constraint_error_def is_unique_violation_def row_of_event_def
        split: if_splits option.splits)
  with assms(3) have "\<exists>r \<in> set (pg_events s). er_external_id r = Some (ev_external_id e)"
    by (auto simp: nullable_string_def image_iff)
  then show ?thesis
    unfolding find_row_by_external_id [OF assms(3)] by (auto simp: find_None_iff)
qed

text \<open>A refused INSERT: the transaction is rolled back; on a taken external id the stored event is read.\<close>

lemma create_refused:
  assumes inv: "pg_inv s" and failed: "insert_event_row (row_of_event e) s = (Inl ierr, s2)"
    and run: "(if ev_external_id e \<noteq> [] \<and> is_unique_violation ierr
           then (case pg_get_by_external_id (ev_external_id e) (rollback s s2) of
                   (Inl lookup_err, s3) \<Rightarrow> (Inl lookup_err, s3)
                 | (Inr existing, s3) \<Rightarrow> (Inl (ErrDuplicate existing), s3))
           else (Inl (ErrOther ''insert event''), rollback s s2)) = (Inl err, s')"
  shows "pg_inv s' \<and> pg_registry s' = pg_registry s \<and> (\<forall>x. err = ErrDuplicate x \<longrightarrow>
     ev_external_id e \<noteq> [] \<and> x \<noteq> None \<and> x = find_by_external_id (pg_registry s) (ev_external_id e))"
proof -
  note facts = insert_event_row_Inl [OF failed]
  have rb: "pg_inv (rollback s s2)" using facts by (intro pg_inv_rollback inv) simp
  show ?thesis
  proof (cases "ev_external_id e \<noteq> [] \<and> is_unique_violation ierr")
    case True
    then have "event_constraint_error (row_of_event e) s = Some ierr"
      using facts by (auto simp: is_unique_violation_def)
    with True have known: "find_by_external_id (pg_registry s) (ev_external_id e) \<noteq> None"
      using unique_violation_exists by blast
    show ?thesis
    proof (cases "pg_get_by_external_id (ev_external_id e) (rollback s s2)")
      case (Pair q s3)
      note r = readsD [OF reads_get_by_external_id rb Pair]
      show ?thesis
      proof (cases q)
        case (Inl lerr)
        then have "err = lerr" "s' = s3" using run True Pair by auto
        with r Inl show ?thesis by auto
      next
        case (Inr y)
        then have "err = ErrDuplicate y" "s' = s3" using run True Pair by auto
        moreover have "y = find_by_external_id (pg_registry s) (ev_external_id e)"
          using pg_get_by_external_id_Inr [OF rb _ Pair [unfolded Inr]] True by simp
        ultimately show ?thesis using r known True by auto
      qed
    qed
  next
    case False
    then have "err = ErrOther ''insert event''" "s' = rollback s s2" using run by auto
    with rb show ?thesis by simp
  qed
qed

lemma pg_create_Inl:
  assumes "pg_inv s" "event_ok e" "pg_create e s = (Inl err, s')"
  shows "pg_inv s' \<and> pg_registry s' = pg_registry s \<and> (\<forall>x. err = ErrDuplicate x \<longrightarrow>
     ev_external_id e \<noteq> [] \<and> x \<noteq> None \<and> x = find_by_external_id (pg_registry s) (ev_external_id e))"
proof (cases "round_trip (ErrOther ''begin tx'') s")
  case (Pair q s1)
  have rd: "only_reads s s1" by (rule round_trip_state [OF Pair])
  have inv1: "pg_inv s1" and reg1: "pg_registry s1 = pg_registry s"
    using only_reads_inv [OF rd] only_reads_registry [OF rd] assms(1) by simp_all
  show ?thesis
  proof (cases q)
    case (Inl err')
    then have "s' = s1" "err = ErrOther ''begin tx''"
      using assms(3) Pair by (auto simp: pg_create_eq round_trip_def split: list.splits if_splits)
    then show ?thesis using inv1 reg1 by simp
  next
    case (Inr u)
    note begun = Pair [unfolded Inr]
    show ?thesis
    proof (cases "insert_event_row (row_of_event e) s1")
      case (Pair q2 s2)
      show ?thesis
      proof (cases q2)
        case (Inl ierr)
        note failed = Pair [unfolded Inl]
        from create_refused [OF inv1 failed, of err s'] assms(3) begun failed reg1 show ?thesis
          by (simp add: pg_create_eq)
      next
        case (Inr u2)
        note inserted = Pair [unfolded Inr]
        have seq2: "pg_seq s1 \<le> pg_seq s2" by (rule preservesD [OF seq_insert_event_row _ inserted]) simp
        from assms(3) begun inserted obtain s3 where c: "create_children e s2 = (Inl err, s3)"
            and s': "s' = rollback s1 s3"
          by (auto simp: pg_create_eq split: prod.splits sum.splits)
        have "pg_seq s1 \<le> pg_seq s3" by (rule preservesD [OF seq_create_children seq2 c])
        then have "pg_inv s'" unfolding s' by (rule pg_inv_rollback [OF inv1])
        then show ?thesis using create_children_error [OF c] s' reg1 by auto
      qed
    qed
  qed
qed

end
