(* ===== verification/PgToggles.thy ===== *)
theory PgToggles
  imports PgTransactions
begin

section \<open>The toggles of the PostgreSQL store\<close>

text \<open>
  The state a toggle reads inside its transaction, \<open>latest_transition\<close> on the rows, is the state
  the registry shows; the committed transaction appends exactly the opposite transition, and a
  failed one appends nothing.
\<close>

lemma sorted_seq_filter: "pg_inv s \<Longrightarrow> sort_key er_seq (filter P (pg_events s)) = filter P (pg_events s)"
proof (rule sort_key_id_if_sorted)
  assume "pg_inv s"
  then have "sorted_wrt (\<lambda>x y. er_seq x < er_seq y) (pg_events s)"
    by (simp add: pg_inv_def sorted_wrt_map)
  then have "sorted_wrt (\<lambda>x y. er_seq x \<le> er_seq y) (filter P (pg_events s))"
    by (rule sorted_wrt_mono_rel [rotated, OF sorted_wrt_filter]) simp
  then show "sorted (map er_seq (filter P (pg_events s)))" by (simp add: sorted_wrt_map)
qed

lemma row_child: "pg_inv s \<Longrightarrow> r \<in> set (pg_events s) \<Longrightarrow>
    (is_child i (event_of s r)) = (er_parent_id r = Some i)"
  by (auto simp: is_child_def pg_inv_def row_ok_def from_nullable_def split: option.splits)

lemma latest_transition_registry:
  assumes "pg_inv s"
  shows "latest_transition i a b s = latest_of a b i (pg_registry s)"
proof -
  let ?P = "\<lambda>r. er_parent_id r = Some i \<and> er_event_type r \<in> {a, b}"
  have "filter (\<lambda>e. is_child i e \<and> ev_event_type e \<in> {a, b}) (pg_registry s)
      = map (event_of s) (filter ?P (pg_events s))"
    unfolding pg_registry_def filter_map comp_def
    by (rule arg_cong [where f = "map (event_of s)"], rule filter_cong) (simp_all add: row_child [OF assms])
  then show ?thesis
    by (simp add: latest_transition_def latest_of_def sorted_seq_filter [OF assms] rev_map [symmetric]
        split: list.splits)
qed

subsection \<open>The transaction body\<close>

lemma event_constraint_error_cong:
  "pg_events s = pg_events t \<Longrightarrow> event_constraint_error r s = event_constraint_error r t"
  by (simp only: event_constraint_error_def)

lemma preserves_with_state: "(\<And>a. preserves I (f a)) \<Longrightarrow> preserves I (with_state f)"
  by (simp add: preserves_def with_state_def)

lemma preserves_if: "preserves I m \<Longrightarrow> preserves I n \<Longrightarrow> preserves I (if c then m else n)"
  by simp

lemma preserves_throw: "preserves I (throw e)"
  by (simp add: preserves_def throw_def)

lemma preserves_replace_error: "preserves I m \<Longrightarrow> preserves I (replace_error f m)"
  by (auto simp: preserves_def replace_error_def split: prod.splits sum.splits)

lemma replace_error_Inr: "(replace_error f m s = (Inr x, s')) = (m s = (Inr x, s'))"
  by (auto simp: replace_error_def split: prod.splits sum.splits)

lemma replace_error_Inl: "replace_error f m s = (Inl e, s') \<Longrightarrow> e = f"
  by (auto simp: replace_error_def split: prod.splits sum.splits)

lemma seq_transition_body: "preserves (\<lambda>s. n \<le> pg_seq s) (transition_body en i user a b da db)"
  unfolding transition_body_def Let_def
  by (intro preserves_and_then preserves_with_state seq_round_trip preserves_if preserves_throw)
    (auto intro!: preserves_and_then preserves_throw preserves_replace_error
      seq_insert_event_row split: option.split)

lemma transition_body_Inr:
  assumes "transition_body en i user a b da db s = (Inr e, s')"
  obtains u fs where "env_uuid en = Some u" "i \<in> row_ids s"
    "e = transition_event en u i user (if latest_transition i a b s = Some a then b else a)
           (if latest_transition i a b s = Some a then db else da)"
    "event_constraint_error (transition_row e) s = None"
    "s' = (with_event (transition_row e) [] [] s)\<lparr>pg_faults := fs\<rparr>"
proof -
  let ?active = "latest_transition i a b s = Some a"
  from assms obtain s1 s2 u where r1: "round_trip (ErrOther ''check parent event'') s = (Inr (), s1)"
      and i1: "i \<in> er_id ` set (pg_events s1)"
      and r2: "round_trip (ErrOther ''read transition state'') s1 = (Inr (), s2)"
      and u: "env_uuid en = Some u"
      and e: "e = transition_event en u i user (if latest_transition i a b s2 = Some a then b else a)
                    (if latest_transition i a b s2 = Some a then db else da)"
      and ins: "insert_event_row (transition_row e) s2 = (Inr (), s')"
    by (auto simp: transition_body_def Let_def run_simps replace_error_Inr split: if_splits option.splits
        elim!: and_then_InrE)
  from only_reads_trans [OF round_trip_state [OF r1] round_trip_state [OF r2]] obtain fs where
    s2: "s2 = s\<lparr>pg_faults := fs\<rparr>" by (rule only_readsE)
  from round_trip_state [OF r1] obtain gs where s1: "s1 = s\<lparr>pg_faults := gs\<rparr>" by (rule only_readsE)
  have latest: "latest_transition i a b s2 = latest_transition i a b s"
    by (simp add: latest_transition_def s2)
  from insert_event_row_Inr [OF ins] obtain hs where
    free: "event_constraint_error (transition_row e) s2 = None"
    and s': "s' = s2\<lparr>pg_events := pg_events s2 @ [(transition_row e)\<lparr>er_seq := pg_seq s2\<rparr>],
     pg_seq := Suc (pg_seq s2), pg_faults := hs\<rparr>" by blast
  have "s' = (with_event (transition_row e) [] [] s)\<lparr>pg_faults := hs\<rparr>"
    unfolding s' s2 with_event_def by (intro pg.equality) (simp_all add: enumerate_simps)
  moreover have "event_constraint_error (transition_row e) s = None"
    using free event_constraint_error_cong [of s2 s] by (simp add: s2)
  moreover have "i \<in> row_ids s" using i1 by (simp add: row_ids_def s1)
  ultimately show thesis using that u e latest by simp
qed

lemma transition_body_not_found:
  assumes "transition_body en i user a b da db s = (Inl ErrNotFound, s')"
  shows "i \<notin> row_ids s"
proof -
  from assms obtain s1 where "round_trip (ErrOther ''check parent event'') s = (Inr (), s1)"
      and i1: "i \<notin> er_id ` set (pg_events s1)"
    by (auto simp: transition_body_def Let_def run_simps round_trip_def
        split: if_splits option.splits list.splits elim!: and_then_InlE and_then_InrE dest!: replace_error_Inl)
  then obtain gs where s1: "s1 = s\<lparr>pg_faults := gs\<rparr>" by (auto dest!: round_trip_state elim: only_readsE)
  with i1 show ?thesis by (simp add: row_ids_def)
qed

subsection \<open>The whole toggle\<close>

lemma transition_row_event: "(scan_event (transition_row (transition_event en u i user t d)))
    \<lparr>ev_tags := [], ev_links := []\<rparr> = transition_event en u i user t d"
  by (simp add: scan_event_def transition_row_def transition_event_def)

lemma toggle_transition_Inr:
  assumes inv: "pg_inv s" and uuid: "env_uuid en \<noteq> Some []"
    and run: "toggle_transition en i user a b da db s = (Inr e, s')"
  shows "pg_inv s' \<and> i \<in> row_ids s \<and> pg_registry s' = pg_registry s @ [e]
    \<and> toggled (\<lambda>reg i. latest_of a b i reg = Some a) a b (pg_registry s) i user e \<and> env_uuid en = Some (ev_id e)"
proof -
  from run obtain s1 s2 where b: "round_trip (ErrOther ''begin tx'') s = (Inr (), s1)"
      and body: "transition_body en i user a b da db s1 = (Inr e, s2)"
      and c: "round_trip (ErrOther ''commit tx'') s2 = (Inr (), s')"
    by (auto simp: toggle_transition_def run_simps split: prod.splits sum.splits elim!: and_then_InrE)
  note rd = round_trip_state [OF b]
  have inv1: "pg_inv s1" and reg1: "pg_registry s1 = pg_registry s"
    using only_reads_inv [OF rd] only_reads_registry [OF rd] inv by simp_all
  from body obtain u fs where u: "env_uuid en = Some u" and i1: "i \<in> row_ids s1"
    and e: "e = transition_event en u i user (if latest_transition i a b s1 = Some a then b else a)
           (if latest_transition i a b s1 = Some a then db else da)"
    and free: "event_constraint_error (transition_row e) s1 = None"
    and s2: "s2 = (with_event (transition_row e) [] [] s1)\<lparr>pg_faults := fs\<rparr>"
    by (rule transition_body_Inr)
  have "i \<noteq> []" using i1 inv1 by (auto simp: row_ids_def pg_inv_def row_ok_def)
  then have ok: "row_ok (transition_row e)"
    using u uuid unfolding e by (auto simp: row_ok_def transition_row_def transition_event_def)
  have fresh: "er_id (transition_row e) \<notin> row_ids s1"
    using free by (auto simp: event_constraint_error_def row_ids_def split: if_splits)
  have "pg_inv (with_event (transition_row e) [] [] s1)"
    using pg_inv_insert_event [OF inv1 ok free] by (simp add: with_event_def enumerate_simps)
  then have "pg_inv s2" by (simp add: s2)
  moreover have "pg_registry s2 = pg_registry s1 @ [e]"
    using registry_with_event [OF inv1 fresh, of "[]" "[]"] by (simp add: s2) (simp add: e transition_row_event)
  moreover have "i \<in> row_ids s"
    using i1 rd by (auto simp: row_ids_def elim: only_readsE)
  moreover have "toggled (\<lambda>reg i. latest_of a b i reg = Some a) a b (pg_registry s1) i user e"
    unfolding e by (simp add: toggled_def transition_event_def latest_transition_registry [OF inv1])
  moreover have "env_uuid en = Some (ev_id e)" unfolding e by (simp add: u transition_event_def)
  ultimately show ?thesis
    using only_reads_inv [OF round_trip_state [OF c]] only_reads_registry [OF round_trip_state [OF c]] reg1
    by simp
qed

lemma toggle_transition_Inl:
  assumes inv: "pg_inv s" and run: "toggle_transition en i user a b da db s = (Inl err, s')"
  shows "pg_inv s' \<and> pg_registry s' = pg_registry s \<and> (err = ErrNotFound \<longrightarrow> i \<notin> row_ids s)"
proof (cases "round_trip (ErrOther ''begin tx'') s")
  case (Pair q s1)
  note rd = round_trip_state [OF Pair]
  have inv1: "pg_inv s1" and reg1: "pg_registry s1 = pg_registry s"
    using only_reads_inv [OF rd] only_reads_registry [OF rd] inv by simp_all
  show ?thesis
  proof (cases q)
    case (Inl e)
    then have "s' = s1" "err = ErrOther ''begin tx''" using run Pair
      by (auto simp: toggle_transition_def round_trip_def split: list.splits if_splits)
    then show ?thesis using inv1 reg1 by simp
  next
    case (Inr x)
    let ?tx = "and_then (transition_body en i user a b da db)
                 (\<lambda>e. and_then (round_trip (ErrOther ''commit tx'')) (\<lambda>_. ret e))"
    from run Pair Inr obtain s2 where tx: "?tx s1 = (Inl err, s2)" and s': "s' = rollback s1 s2"
      by (auto simp: toggle_transition_def split: prod.splits sum.splits)
    have "preserves (\<lambda>s. pg_seq s1 \<le> pg_seq s) ?tx"
      by (intro preserves_and_then seq_transition_body seq_round_trip preserves_ret)
    then have "pg_seq s1 \<le> pg_seq s2" using tx unfolding preserves_def by (metis order_refl snd_conv)
    then have "pg_inv s'" unfolding s' by (rule pg_inv_rollback [OF inv1])
    moreover have "i \<notin> row_ids s1" if "err = ErrNotFound"
      using tx that by (auto simp: round_trip_def run_simps split: list.splits if_splits
          elim!: and_then_InlE and_then_InrE dest: transition_body_not_found)
    moreover have "row_ids s1 = row_ids s" using rd by (auto simp: row_ids_def elim: only_readsE)
    ultimately show ?thesis using s' reg1 by simp
  qed
qed

end
