(* ===== verification/PgReads.thy ===== *)
theory PgReads
  imports PgToggles
begin

section \<open>The reads of the PostgreSQL store refine the contract\<close>

text \<open>
  The annotation walks compute the latest transition of each kind; the SQL of \<^verbatim>\<open>List\<close> (its WHERE
  clauses, the COUNT over matching tag rows, the newest-alert subquery, ORDER BY and LIMIT) selects
  the events \<open>event_selected\<close> describes, in the order and page \<open>list_spec\<close> gives.
\<close>

subsection \<open>Annotations\<close>

lemma find_filter_head: "find P xs = (case filter P xs of [] \<Rightarrow> None | x # _ \<Rightarrow> Some x)"
  by (induction xs) auto

lemma latest_of_rows:
  assumes "pg_inv s" "{a, b} \<subseteq> T"
  shows "first_in {a, b} (map er_event_type (rev (filter (\<lambda>r. er_parent_id r = Some i \<and> er_event_type r \<in> T)
      (pg_events s)))) = latest_of a b i (pg_registry s)"
proof -
  have "filter (\<lambda>r. er_event_type r \<in> {a, b}) (filter (\<lambda>r. er_parent_id r = Some i \<and> er_event_type r \<in> T) (pg_events s))
      = filter (\<lambda>r. er_parent_id r = Some i \<and> er_event_type r \<in> {a, b}) (pg_events s)"
    unfolding filter_filter using assms(2) by (intro filter_cong) auto
  then have "find ((\<lambda>t. t \<in> {a, b}) \<circ> er_event_type) (rev (filter (\<lambda>r. er_parent_id r = Some i \<and> er_event_type r \<in> T)
      (pg_events s))) = (case rev (filter (\<lambda>r. er_parent_id r = Some i \<and> er_event_type r \<in> {a, b}) (pg_events s)) of
         [] \<Rightarrow> None | r # _ \<Rightarrow> Some r)"
    unfolding find_filter_head rev_filter [symmetric] comp_def by (simp only:)
  then have "first_in {a, b} (map er_event_type (rev (filter (\<lambda>r. er_parent_id r = Some i \<and> er_event_type r \<in> T)
      (pg_events s)))) = latest_transition i a b s"
    unfolding first_in_def find_map latest_transition_def sorted_seq_filter [OF assms(1)]
    by (simp split: list.splits)
  then show ?thesis by (simp add: latest_transition_registry [OF assms(1)])
qed

lemma derive_annotations_of:
  assumes "pg_inv s"
  shows "derive_annotations (map er_event_type (rev (filter (\<lambda>r. er_parent_id r = Some i
      \<and> er_event_type r \<in> set annotation_types) (pg_events s)))) = annotations_of (pg_registry s) i"
  using latest_of_rows [OF assms, of event_type_star event_type_unstar "set annotation_types" i]
    latest_of_rows [OF assms, of event_type_alert event_type_clear_alert "set annotation_types" i]
  by (simp add: derive_annotations_def annotations_of_def starred_def alerted_def annotation_types_def)

lemma annotation_rows_eq:
  "pg_inv s \<Longrightarrow> annotation_rows ids s = rev (filter (\<lambda>r. er_parent_id r \<in> Some ` set ids
     \<and> er_event_type r \<in> set annotation_types) (pg_events s))"
  by (simp add: annotation_rows_def sorted_seq_filter)

lemma pg_get_annotations_Inr:
  assumes "pg_inv s" "pg_get_annotations i s = (Inr x, s')"
  shows "x = annotations_of (pg_registry s) i"
proof -
  from assms(2) obtain s1 where r: "round_trip (ErrOther ''query annotations'') s = (Inr (), s1)"
    and x: "x = resolve_annotations False False no_annotations (map er_event_type (annotation_rows [i] s1))"
    by (auto simp: pg_get_annotations_def run_simps elim!: and_then_InrE)
  have inv1: "pg_inv s1" "pg_registry s1 = pg_registry s"
    using only_reads_inv only_reads_registry round_trip_state [OF r] assms(1) by blast+
  show ?thesis
    using derive_annotations_of [OF inv1(1), of i]
    by (simp add: x resolve_derive annotation_rows_eq [OF inv1(1)] inv1(2))
qed

lemma pg_get_annotations_batch_Inr:
  assumes "pg_inv s" "pg_get_annotations_batch ids s = (Inr m, s')" "[] \<notin> set ids"
  shows "m = (\<lambda>i. if i \<in> set ids then Some (annotations_of (pg_registry s) i) else None)"
proof (cases "ids = []")
  case True
  with assms(2) show ?thesis by (auto simp: pg_get_annotations_batch_def run_simps)
next
  case False
  with assms(2) obtain s1 where r: "round_trip (ErrOther ''query annotations batch'') s = (Inr (), s1)"
    and m: "m = map_option snd \<circ> batch_walk (init_batch ids) (annotation_rows ids s1)"
    by (auto simp: pg_get_annotations_batch_def run_simps elim!: and_then_InrE)
  have inv1: "pg_inv s1" "pg_registry s1 = pg_registry s"
    using only_reads_inv only_reads_registry round_trip_state [OF r] assms(1) by blast+
  show ?thesis
  proof
    fix i
    have "filter (\<lambda>r. from_nullable (er_parent_id r) = i) (annotation_rows ids s1)
        = rev (filter (\<lambda>r. er_parent_id r = Some i \<and> er_event_type r \<in> set annotation_types) (pg_events s1))"
      if "i \<in> set ids"
    proof -
      have "i \<noteq> []" using that assms(3) by auto
      then have "filter (\<lambda>r. (er_parent_id r \<in> Some ` set ids \<and> er_event_type r \<in> set annotation_types)
            \<and> from_nullable (er_parent_id r) = i) (pg_events s1)
          = filter (\<lambda>r. er_parent_id r = Some i \<and> er_event_type r \<in> set annotation_types) (pg_events s1)"
        using that by (intro filter_cong) (auto simp: from_nullable_eq)
      then show ?thesis by (simp add: annotation_rows_eq [OF inv1(1)] rev_filter [symmetric] conj_ac)
    qed
    then show "m i = (if i \<in> set ids then Some (annotations_of (pg_registry s) i) else None)"
      using derive_annotations_of [OF inv1(1), of i]
      by (simp add: m batch_eq_derive inv1(2) del: comp_apply)
  qed
qed

subsection \<open>The clauses of List\<close>

lemma matching_tag_keys_eq:
  "matching_tag_keys s i tags = map fst (filter (\<lambda>kv. kv \<in> set tags) (tags_of s i))"
  by (simp add: matching_tag_keys_def tags_of_def filter_map comp_def conj_commute)

text \<open>COUNT(DISTINCT key) over the matching rows is the number of pairs asked for when all are there.\<close>

lemma has_tags_iff:
  assumes inv: "pg_inv s" and d: "distinct (map fst tags)" and ne: "tags \<noteq> []"
  shows "(matching_tag_keys s i tags \<noteq> [] \<and> length (remdups (matching_tag_keys s i tags)) = length tags)
     = list_all (\<lambda>(k, v). map_of (tags_of s i) k = Some v) tags"
proof -
  let ?hits = "filter (\<lambda>kv. kv \<in> set tags) (tags_of s i)"
  have dk: "distinct (map fst (tags_of s i))" by (rule distinct_tags_of [OF inv])
  then have dh: "distinct (map fst ?hits)" by (simp add: distinct_map_filter)
  have "length (remdups (matching_tag_keys s i tags)) = length ?hits"
    using dh by (simp add: matching_tag_keys_eq distinct_remdups_id)
  also have "\<dots> = card (set tags \<inter> set (tags_of s i))"
  proof -
    have "distinct ?hits" using dh by (simp add: distinct_map)
    then have "length ?hits = card (set ?hits)" by (rule distinct_card [symmetric])
    also have "set ?hits = set tags \<inter> set (tags_of s i)" by auto
    finally show ?thesis .
  qed
  finally have len: "length (remdups (matching_tag_keys s i tags)) = card (set tags \<inter> set (tags_of s i))" .
  have card: "card (set tags) = length tags" using d by (simp add: distinct_card distinct_map)
  have "(card (set tags \<inter> set (tags_of s i)) = card (set tags)) = (set tags \<subseteq> set (tags_of s i))"
    by (metis Int_absorb2 card_subset_eq finite_set inf_le1 inf.orderI)
  also have "\<dots> = list_all (\<lambda>(k, v). map_of (tags_of s i) k = Some v) tags"
    using map_of_eq_Some_iff [OF dk] by (auto simp: list_all_iff)
  finally have "(card (set tags \<inter> set (tags_of s i)) = length tags)
     = list_all (\<lambda>(k, v). map_of (tags_of s i) k = Some v) tags" by (simp add: card)
  moreover have "matching_tag_keys s i tags \<noteq> []" if "length (remdups (matching_tag_keys s i tags)) = length tags"
    using that ne by auto
  ultimately show ?thesis using len by auto
qed

lemma newest_is_last:
  assumes "sorted_wrt (\<lambda>x y. f x < (f y :: nat)) xs"
  shows "(\<exists>m \<in> set xs. (\<forall>n \<in> set xs. \<not> f m < f n) \<and> Q m) = (case rev xs of [] \<Rightarrow> False | x # _ \<Rightarrow> Q x)"
proof (cases xs rule: rev_cases)
  case (snoc ys y)
  then have "\<forall>x \<in> set ys. f x < f y" using assms by (simp add: sorted_wrt_append)
  then show ?thesis using snoc by (auto dest: less_asym)
qed simp

lemma has_active_alert_iff:
  assumes "pg_inv s"
  shows "has_active_alert s i = alerted (pg_registry s) i"
proof -
  let ?F = "filter (\<lambda>r. er_parent_id r = Some i \<and> is_alert_row r) (pg_events s)"
  have "sorted_wrt (\<lambda>x y. er_seq x < er_seq y) ?F"
    using assms by (simp add: pg_inv_def sorted_wrt_map sorted_wrt_filter)
  note last = newest_is_last [OF this, of "\<lambda>r. er_event_type r = event_type_alert"]
  have "has_active_alert s i = (\<exists>m \<in> set ?F. (\<forall>n \<in> set ?F. \<not> er_seq m < er_seq n) \<and> er_event_type m = event_type_alert)"
    unfolding has_active_alert_def list_ex_iff set_filter by (rule iffI; elim bexE conjE) (fastforce, fastforce)
  also have "\<dots> = (case rev ?F of [] \<Rightarrow> False | r # _ \<Rightarrow> er_event_type r = event_type_alert)"
    by (rule last)
  also have "\<dots> = (latest_transition i event_type_alert event_type_clear_alert s = Some event_type_alert)"
    unfolding latest_transition_def sorted_seq_filter [OF assms] is_alert_row_def by (simp split: list.splits)
  finally show ?thesis by (simp add: latest_transition_registry [OF assms] alerted_def)
qed

lemma where_selects_append [simp]:
  "where_selects s (xs @ ys) r = (where_selects s xs r \<and> where_selects s ys r)"
  by (simp add: where_selects_def)

lemma where_selects_simps [simp]:
  "where_selects s [] r" "where_selects s (c # cs) r = (clause_selects s r c \<and> where_selects s cs r)"
  by (simp_all add: where_selects_def)

lemma where_selects_one: "where_selects s [c] r = clause_selects s r c"
  by simp

lemma where_selects_if [simp]: "where_selects s (if b then cs else []) r = (b \<longrightarrow> where_selects s cs r)"
  by simp

lemma where_time_window:
  "where_selects s (case (lp_around p, lp_window p) of
        (Some around, Some window) \<Rightarrow>
          (if 0 < window
           then [TimestampFrom (canonical_time (around - window)), TimestampBefore (canonical_time (around + window))]
           else (case lp_start_after p of None \<Rightarrow> [] | Some t \<Rightarrow> [TimestampFrom (canonical_time t)])
              @ (case lp_start_before p of None \<Rightarrow> [] | Some t \<Rightarrow> [TimestampBefore (canonical_time t)]))
      | _ \<Rightarrow> (case lp_start_after p of None \<Rightarrow> [] | Some t \<Rightarrow> [TimestampFrom (canonical_time t)])
           @ (case lp_start_before p of None \<Rightarrow> [] | Some t \<Rightarrow> [TimestampBefore (canonical_time t)])) r
     = in_time_window p (er_timestamp r)"
  by (simp add: in_time_window_def split: option.splits)

lemma where_selects_event:
  assumes inv: "pg_inv s" and r: "r \<in> set (pg_events s)" and d: "distinct (map fst (lp_tags p))"
  shows "where_selects s (build_where_clause p) r = event_selected (pg_registry s) p (event_of s r)"
proof -
  have ok: "row_ok r" using inv r by (simp add: pg_inv_def)
  have ts: "canonical_time (er_timestamp r) = er_timestamp r" using ok by (simp add: row_ok_def)
  have par: "(from_nullable (er_parent_id r) = q) = (er_parent_id r = nullable_string q)" for q
    using ok by (auto simp: row_ok_def nullable_string_def from_nullable_def split: option.splits)
  have parent: "(lp_parent_id p \<noteq> [] \<longrightarrow> er_parent_id r = Some (lp_parent_id p))
      = (lp_parent_id p = [] \<or> er_parent_id r = nullable_string (lp_parent_id p))"
    by (auto simp: nullable_string_def)
  have top: "(er_parent_id r = None) = (er_parent_id r = nullable_string [])" by (simp add: nullable_string_def)
  have tags: "(lp_tags p \<noteq> [] \<longrightarrow> matching_tag_keys s (er_id r) (lp_tags p) \<noteq> [] \<and>
        length (remdups (matching_tag_keys s (er_id r) (lp_tags p))) = length (lp_tags p))
      = list_all (\<lambda>(k, v). map_of (tags_of s (er_id r)) k = Some v) (lp_tags p)"
    using has_tags_iff [OF inv d, of "er_id r"] by (cases "lp_tags p = []") simp_all
  show ?thesis
    unfolding build_where_clause_def where_selects_append where_time_window where_selects_if
      where_selects_one clause_selects.simps event_selected_def event_of_fields par ts
      has_active_alert_iff [OF inv] simp_thms parent top tags
    by (simp only: imp_conv_disj not_not)
qed

lemma inv_canonical: "pg_inv s \<Longrightarrow> r \<in> set (pg_events s) \<Longrightarrow> canonical_time (er_timestamp r) = er_timestamp r"
  by (simp add: pg_inv_def row_ok_def)

lemma map_sort_key: "map f (sort_key (\<lambda>x. k (f x)) xs) = sort_key k (map f xs)"
proof (induction xs)
  case (Cons x xs)
  have "map f (insort_key (\<lambda>x. k (f x)) x ys) = insort_key k (f x) (map f ys)" for ys
    by (induction ys) auto
  with Cons show ?case by simp
qed simp

lemma newest_first_registry:
  assumes "pg_inv s" "set rows \<subseteq> set (pg_events s)"
  shows "map (event_of s) (newest_first rows) = by_newest (map (event_of s) rows)"
proof -
  have "\<forall>r \<in> set rows. canonical_time (er_timestamp r) = er_timestamp r"
    using inv_canonical [OF assms(1)] assms(2) by blast
  then have "newest_first rows = sort_key (\<lambda>r. (\<lambda>e. (- ev_timestamp e, ev_id e)) (event_of s r)) rows"
    unfolding newest_first_def by (intro sort_key_cong) simp
  then show ?thesis unfolding by_newest_def map_sort_key [symmetric] by simp
qed

lemma page_map: "map f (page l n xs) = page_of l n (map f xs)"
  by (simp add: page_def page_of_def take_map drop_map)

text \<open>The part \<^verbatim>\<open>List\<close> and \<^verbatim>\<open>ListCurrent\<close> share: count the selected rows, then load a page of them.\<close>

lemma counted_page_Inr:
  assumes inv: "pg_inv s" and sub: "\<And>t. set (rows t) \<subseteq> set (pg_events t)"
    and faults: "\<And>fs. rows (s\<lparr>pg_faults := fs\<rparr>) = rows s"
    and run: "and_then (round_trip e1) (\<lambda>_. with_state (\<lambda>s1.
        and_then (round_trip e2) (\<lambda>_. with_state (\<lambda>s2.
           if offset < 0 then throw e3
           else and_then (load_related (page (effective_limit limit) offset (newest_first (rows s2))))
                  (\<lambda>events. ret \<lparr>lr_events = events, lr_total_count = int (length (rows s1)),
                               lr_limit = effective_limit limit, lr_offset = offset\<rparr>))))) s = (Inr x, s')"
  shows "x = result_page limit offset (map (event_of s) (rows s))"
proof -
  from run obtain s1 s2 events where r1: "round_trip e1 s = (Inr (), s1)" and r2: "round_trip e2 s1 = (Inr (), s2)"
    and l: "load_related (page (effective_limit limit) offset (newest_first (rows s2))) s2 = (Inr events, s')"
    and x: "x = \<lparr>lr_events = events, lr_total_count = int (length (rows s1)),
                lr_limit = effective_limit limit, lr_offset = offset\<rparr>"
    by (auto simp: run_simps split: if_splits elim!: and_then_InrE)
  from round_trip_state [OF r1] obtain fs where s1: "s1 = s\<lparr>pg_faults := fs\<rparr>" by (rule only_readsE)
  from only_reads_trans [OF round_trip_state [OF r1] round_trip_state [OF r2]] obtain gs where
    s2: "s2 = s\<lparr>pg_faults := gs\<rparr>" by (rule only_readsE)
  have "events = map (event_of s) (page (effective_limit limit) offset (newest_first (rows s)))"
    using load_related_Inr [OF l] inv by (simp add: s2 faults event_of_def [abs_def])
  then have "events = page_of (effective_limit limit) offset (by_newest (map (event_of s) (rows s)))"
    by (simp add: page_map newest_first_registry [OF inv sub])
  then show ?thesis by (simp add: x s1 faults result_page_def)
qed

lemma pg_list_Inr:
  assumes inv: "pg_inv s" and d: "distinct (map fst (lp_tags p))" and run: "pg_list p s = (Inr x, s')"
  shows "x = list_spec (pg_registry s) p"
proof -
  let ?rows = "\<lambda>s. filter (where_selects s (build_where_clause p)) (pg_events s)"
  have faults: "?rows (s\<lparr>pg_faults := fs\<rparr>) = ?rows s" for fs
  proof -
    have "where_selects (s\<lparr>pg_faults := fs\<rparr>) (build_where_clause p) r = where_selects s (build_where_clause p) r"
      if "r \<in> set (pg_events s)" for r
      using where_selects_event [OF inv that d] where_selects_event [of "s\<lparr>pg_faults := fs\<rparr>" r p] inv that d
      by (simp add: event_of_def)
    then show ?thesis by (auto intro: filter_cong)
  qed
  have "x = result_page (lp_limit p) (lp_offset p) (map (event_of s) (?rows s))"
    using run by (intro counted_page_Inr [where rows = ?rows, OF inv _ faults]) (auto simp: pg_list_def Let_def)
  moreover have "map (event_of s) (?rows s) = filter (event_selected (pg_registry s) p) (pg_registry s)"
    unfolding pg_registry_def [of s] filter_map comp_def
    using where_selects_event [OF inv _ d] by (auto simp: pg_registry_def intro: arg_cong [OF filter_cong])
  ultimately show ?thesis by (simp add: list_spec_def)
qed

end
