(* ===== verification/PgCurrentSpec.thy ===== *)
theory PgCurrentSpec
  imports PgReads
begin

section \<open>ListCurrent refines the contract\<close>

text \<open>
  The joins of \<^verbatim>\<open>ListCurrent\<close> find at most one tag row per event and key, so each CTE is a
  plain function of the events: \<open>correlated\<close> has one row per phase event, \<open>ended\<close> holds the operations
  with an end event, and the row ranked first among the active candidates of an operation is the
  event \<open>represents_active\<close> selects. The rows come out in the order of the tag table; ORDER BY
  on distinct keys makes that order irrelevant.
\<close>

subsection \<open>Joins on a key\<close>

lemma filter_at_most_one:
  "distinct (map f xs) \<Longrightarrow> (\<And>x y. P x \<Longrightarrow> P y \<Longrightarrow> f x = f y) \<Longrightarrow>
    filter P xs = (case find P xs of None \<Rightarrow> [] | Some x \<Rightarrow> [x])"
proof (induction xs)
  case (Cons x xs)
  show ?case
  proof (cases "P x")
    case True
    have "\<not> P y" if "y \<in> set xs" for y
      using Cons.prems(1) Cons.prems(2) [OF True, of y] that by (auto simp: image_iff)
    then have "filter P xs = []" by (simp add: filter_empty_conv)
    then show ?thesis using True by simp
  next
    case False
    have "distinct (map f xs)" using Cons.prems(1) by simp
    from Cons.IH [OF this Cons.prems(2)] False show ?thesis by simp
  qed
qed simp

definition tag_row :: "pg \<Rightarrow> string \<Rightarrow> string \<Rightarrow> tag_row option" where
  "tag_row s i key = find (\<lambda>t. tr_event_id t = i \<and> tr_key t = key) (pg_tags s)"

lemma filter_tag_row:
  assumes "pg_inv s"
  shows "filter (\<lambda>t. tr_event_id t = i \<and> tr_key t = key) (pg_tags s)
    = (case tag_row s i key of None \<Rightarrow> [] | Some t \<Rightarrow> [t])"
proof -
  have "distinct (map tag_id (pg_tags s))" using assms by (simp add: pg_inv_def)
  then show ?thesis unfolding tag_row_def by (rule filter_at_most_one) (simp add: tag_id_def)
qed

lemma tag_row_value: "map_option tr_value (tag_row s i key) = map_of (tags_of s i) key"
proof -
  have "map_option tr_value (find (\<lambda>t. tr_event_id t = i \<and> tr_key t = key) ts)
      = map_of (map (\<lambda>t. (tr_key t, tr_value t)) (filter (\<lambda>t. tr_event_id t = i) ts)) key" for ts
    by (induction ts) auto
  then show ?thesis by (simp add: tag_row_def tags_of_def)
qed

lemma tag_column_eq: "tag_column s i key = map_of (tags_of s i) key"
  by (simp add: tag_column_def tag_row_value [symmetric] tag_row_def)

lemma join_tag_eq:
  assumes "pg_inv s"
  shows "join_tag f key s rows = map (\<lambda>a. (a, tag_row s (f a) key)) rows"
  unfolding join_tag_def left_join_def filter_tag_row [OF assms]
  by (induction rows) (auto split: option.splits)

subsection \<open>The phase events\<close>

definition phases :: "string set" where
  "phases = {''start'', ''end''}"

definition phase_of :: "pg \<Rightarrow> event_row \<Rightarrow> string option" where
  "phase_of s r = (if er_parent_id r = None then
     (case map_of (tags_of s (er_id r)) ''phase'' of
        None \<Rightarrow> None | Some ph \<Rightarrow> if ph \<in> phases then Some ph else None) else None)"

definition phase_row_of :: "event_row \<Rightarrow> string \<Rightarrow> phase_row" where
  "phase_row_of r ph = \<lparr>ph_id = er_id r, ph_event_type = er_event_type r, ph_timestamp = er_timestamp r, ph_phase = ph\<rparr>"

lemma phase_of_Some: "(phase_of s r = Some ph) = (er_parent_id r = None \<and> ph \<in> phases
    \<and> map_of (tags_of s (er_id r)) ''phase'' = Some ph)"
  unfolding phase_of_def by (cases "map_of (tags_of s (er_id r)) ''phase''") auto

lemma tag_in_tags_of: "t \<in> set (pg_tags s) \<Longrightarrow> pg_inv s \<Longrightarrow> map_of (tags_of s (tr_event_id t)) (tr_key t) = Some (tr_value t)"
  using distinct_tags_of [of s "tr_event_id t"] by (auto simp: tags_of_def intro!: map_of_is_SomeI image_eqI)

lemma tags_of_in_tags: "map_of (tags_of s i) key = Some v \<Longrightarrow>
    \<exists>t \<in> set (pg_tags s). tr_event_id t = i \<and> tr_key t = key \<and> tr_value t = v"
  by (auto simp: tags_of_def dest!: map_of_SomeD)

lemma in_phase_event: "p \<in> set (phase_event s) \<longleftrightarrow> (\<exists>t \<in> set (pg_tags s). \<exists>r \<in> set (pg_events s).
    tr_key t = ''phase'' \<and> tr_value t \<in> phases \<and> er_id r = tr_event_id t \<and> er_parent_id r = None
    \<and> p = phase_row_of r (tr_value t))"
proof -
  have "p \<in> set (phase_event s) \<longleftrightarrow> (\<exists>t \<in> set (pg_tags s). \<exists>r \<in> set (pg_events s).
    tr_key t = ''phase'' \<and> tr_value t \<in> phases \<and> er_id r = tr_event_id t \<and> er_parent_id r = None
    \<and> p = \<lparr>ph_id = tr_event_id t, ph_event_type = er_event_type r, ph_timestamp = er_timestamp r, ph_phase = tr_value t\<rparr>)"
    unfolding phase_event_def phases_def [symmetric] by auto
  then show ?thesis unfolding phase_row_of_def by (simp cong: conj_cong)
qed

lemma set_phase_event:
  assumes "pg_inv s"
  shows "set (phase_event s) = {phase_row_of r ph | r ph. r \<in> set (pg_events s) \<and> phase_of s r = Some ph}"
proof (intro set_eqI iffI)
  fix p assume "p \<in> set (phase_event s)"
  then obtain t r where t: "t \<in> set (pg_tags s)" "tr_key t = ''phase''" "tr_value t \<in> phases"
      and r: "r \<in> set (pg_events s)" "er_id r = tr_event_id t" "er_parent_id r = None"
      and p: "p = phase_row_of r (tr_value t)"
    unfolding in_phase_event by blast
  have "phase_of s r = Some (tr_value t)"
    unfolding phase_of_Some using t r tag_in_tags_of [OF t(1) assms] by (simp only:)
  with r(1) p show "p \<in> {phase_row_of r ph | r ph. r \<in> set (pg_events s) \<and> phase_of s r = Some ph}" by blast
next
  fix p assume "p \<in> {phase_row_of r ph | r ph. r \<in> set (pg_events s) \<and> phase_of s r = Some ph}"
  then obtain r ph where r: "r \<in> set (pg_events s)" "er_parent_id r = None" "ph \<in> phases"
      "map_of (tags_of s (er_id r)) ''phase'' = Some ph" and p: "p = phase_row_of r ph"
    unfolding phase_of_Some by blast
  from tags_of_in_tags [OF r(4)] obtain t where t: "t \<in> set (pg_tags s)" "tr_event_id t = er_id r"
      "tr_key t = ''phase''" "tr_value t = ph" by blast
  show "p \<in> set (phase_event s)"
    unfolding in_phase_event by (intro bexI [OF _ t(1)] bexI [OF _ r(1)]) (simp add: r t p)
qed

lemma distinct_concat_keys:
  "\<lbrakk>distinct (map f xs); \<And>x y. x \<in> set xs \<Longrightarrow> y \<in> set (h x) \<Longrightarrow> k y = f x;
    \<And>x. x \<in> set xs \<Longrightarrow> length (h x) \<le> 1\<rbrakk> \<Longrightarrow> distinct (map k (concat (map h xs)))"
proof (induction xs)
  case (Cons x xs)
  have "distinct (map k (concat (map h xs)))"
    using Cons.prems by (intro Cons.IH) auto
  moreover have "distinct (map k (h x))"
    using Cons.prems(3) [of x] by (cases "h x") auto
  moreover have "k y \<noteq> k z" if y: "y \<in> set (h x)" and z: "z \<in> set (concat (map h xs))" for y z
  proof -
    from z obtain x' where x': "x' \<in> set xs" "z \<in> set (h x')" by auto
    have "k y = f x" "k z = f x'" using Cons.prems(2) y x' by auto
    moreover have "f x \<notin> f ` set xs" using Cons.prems(1) by simp
    moreover have "f x' \<in> f ` set xs" using x'(1) by simp
    ultimately show ?thesis by metis
  qed
  ultimately show ?case by force
qed simp

lemma one_event:
  assumes "pg_inv s"
  shows "length (filter (\<lambda>e. er_id e = i \<and> P e) (pg_events s)) \<le> 1"
proof -
  have d: "distinct (map er_id (pg_events s))" using assms by (simp add: pg_inv_def)
  have "length (filter (\<lambda>e. er_id e = i) (pg_events s)) \<le> 1"
    by (subst filter_at_most_one [OF d]) (simp_all split: option.splits)
  moreover have "filter (\<lambda>e. er_id e = i \<and> P e) (pg_events s) = filter P (filter (\<lambda>e. er_id e = i) (pg_events s))"
    by (simp add: conj_commute)
  ultimately show ?thesis using length_filter_le order_trans by metis
qed

lemma concat_if: "concat (map (\<lambda>x. if P x then [g x] else []) xs) = map g (filter P xs)"
  by (induction xs) auto

lemma distinct_pair_fst: "distinct (map (\<lambda>x. (f x, c)) xs) \<Longrightarrow> distinct (map f xs)"
  by (induction xs) auto

lemma distinct_phase_event:
  assumes "pg_inv s"
  shows "distinct (map ph_id (phase_event s))"
proof -
  let ?row = "\<lambda>t e. \<lparr>ph_id = tr_event_id t, ph_event_type = er_event_type e,
       ph_timestamp = er_timestamp e, ph_phase = tr_value t\<rparr>"
  let ?h = "\<lambda>t. if tr_key t = ''phase'' \<and> tr_value t \<in> phases
     then map (?row t) (filter (\<lambda>e. er_id e = tr_event_id t \<and> er_parent_id e = None) (pg_events s)) else []"
  have eq: "phase_event s = concat (map ?h (pg_tags s))"
    unfolding phase_event_def concat_if phases_def by simp
  have "distinct (map (\<lambda>p. (ph_id p, ''phase'')) (concat (map ?h (pg_tags s))))"
  proof (rule distinct_concat_keys [where f = tag_id])
    show "distinct (map tag_id (pg_tags s))" using assms by (simp add: pg_inv_def)
    show "(ph_id y, ''phase'') = tag_id t" if "y \<in> set (?h t)" for t y
      using that by (auto simp: tag_id_def split: if_splits)
    show "length (?h t) \<le> 1" for t using one_event [OF assms] by simp
  qed
  then show ?thesis unfolding eq by (rule distinct_pair_fst)
qed

subsection \<open>Correlation\<close>

definition corr_of :: "pg \<Rightarrow> event_row \<Rightarrow> string \<Rightarrow> corr_row" where
  "corr_of s r ph = (let tags = tags_of s (er_id r) in
     \<lparr>co_id = er_id r, co_event_type = er_event_type r, co_timestamp = er_timestamp r, co_phase = ph,
      co_key = (if tag_get tags ''change_id'' \<noteq> [] then ''change_id'' else ''deploy_id''),
      co_value = map_option snd (correlation tags)\<rparr>)"

definition op_of :: "pg \<Rightarrow> event_row \<Rightarrow> (string \<times> string \<times> string) option" where
  "op_of s r = map_option (\<lambda>(k, v). (er_event_type r, k, v)) (correlation (tags_of s (er_id r)))"

lemma nullif_tag: "nullif_empty (map_of m k) = (if tag_get m k = [] then None else Some (tag_get m k))"
  by (simp add: nullif_empty_def tag_get_def split: option.splits)

lemma correlate_eq:
  "correlate ((phase_row_of r ph, tag_row s (er_id r) ''change_id''), tag_row s (er_id r) ''deploy_id'') = corr_of s r ph"
  unfolding correlate_def prod.case tag_row_value nullif_tag corr_of_def correlation_def Let_def phase_row_of_def
  by (cases "tag_get (tags_of s (er_id r)) ''change_id'' = []";
      cases "tag_get (tags_of s (er_id r)) ''deploy_id'' = []") (simp_all add: coalesce_def)

lemma correlated_eq:
  assumes "pg_inv s"
  shows "correlated s = map (\<lambda>p. correlate ((p, tag_row s (ph_id p) ''change_id''), tag_row s (ph_id p) ''deploy_id''))
     (phase_event s)"
  by (simp add: correlated_def join_tag_eq [OF assms] comp_def)

lemma co_id_correlate: "co_id (correlate ((p, a), b)) = ph_id p"
  by (simp add: correlate_def)

lemma distinct_correlated: "pg_inv s \<Longrightarrow> distinct (map co_id (correlated s))"
  by (simp add: correlated_eq comp_def co_id_correlate distinct_phase_event)

lemma set_correlated:
  assumes "pg_inv s"
  shows "set (correlated s) = {corr_of s r ph | r ph. r \<in> set (pg_events s) \<and> phase_of s r = Some ph}"
proof -
  let ?F = "\<lambda>p. correlate ((p, tag_row s (ph_id p) ''change_id''), tag_row s (ph_id p) ''deploy_id'')"
  have F: "?F (phase_row_of r ph) = corr_of s r ph" for r ph
    using correlate_eq [of r ph s] by (simp add: phase_row_of_def)
  have "set (correlated s) = {?F (phase_row_of r ph) | r ph. r \<in> set (pg_events s) \<and> phase_of s r = Some ph}"
    unfolding correlated_eq [OF assms] set_map set_phase_event [OF assms] by blast
  then show ?thesis unfolding F .
qed

lemma operation_of_corr:
  "co_value (corr_of s r ph) \<noteq> None \<longleftrightarrow> op_of s r \<noteq> None"
  "op_of s r = Some (t, k, v) \<Longrightarrow> operation_of (corr_of s r ph) = (t, k, Some v)"
  "operation_of (corr_of s r ph) = (t, k, Some v) \<Longrightarrow> op_of s r = Some (t, k, v)"
  unfolding operation_of_def corr_of_def op_of_def correlation_def Let_def by (auto split: if_splits)

lemma operation_in_phase_row:
  assumes "pg_inv s" "r \<in> set (pg_events s)" "ph \<in> phases"
  shows "operation_in_phase ph (event_of s r) = (if phase_of s r = Some ph then op_of s r else None)"
proof -
  have "er_parent_id r \<noteq> Some []" using assms by (simp add: pg_inv_def row_ok_def)
  then have "(from_nullable (er_parent_id r) = []) = (er_parent_id r = None)"
    by (auto simp: from_nullable_def split: option.splits)
  then show ?thesis
    unfolding operation_in_phase_def op_of_def phase_of_Some event_of_fields using assms(3) by simp
qed

subsection \<open>Ended and active operations\<close>

definition phase_start :: string where "phase_start = ''start''"
definition phase_end :: string where "phase_end = ''end''"

lemmas phase_folds = phase_start_def [symmetric] phase_end_def [symmetric]

lemma phases_mem: "phase_start \<in> phases" "phase_end \<in> phases"
  by (simp_all add: phases_def phase_start_def phase_end_def)

lemma ended_rows: "ended s = remdups (map operation_of
     (filter (\<lambda>c. co_phase c = phase_end \<and> co_value c \<noteq> None) (correlated s)))"
  by (simp add: ended_def phase_end_def)

lemma operation_ended_alt: "operation_ended reg op = list_ex (\<lambda>e. operation_in_phase phase_end e = Some op) reg"
  by (simp add: operation_ended_def phase_end_def)

lemma represents_active_alt: "represents_active reg e = (case operation_in_phase phase_start e of
      None \<Rightarrow> False
    | Some op \<Rightarrow> \<not> operation_ended reg op
        \<and> list_all (\<lambda>d. operation_in_phase phase_start d = Some op \<longrightarrow>
             (ev_timestamp e, ev_id e) \<le> (ev_timestamp d, ev_id d)) reg)"
  unfolding represents_active_def phase_folds by (rule refl)

definition lift_op :: "string \<times> string \<times> string \<Rightarrow> string \<times> string \<times> string option" where
  "lift_op op = (case op of (t, k, v) \<Rightarrow> (t, k, Some v))"

lemma lift_op_inject [simp]: "(lift_op a = lift_op b) = (a = b)"
  by (auto simp: lift_op_def split: prod.splits)

lemma operation_of_lift: "op_of s r = Some op \<Longrightarrow> operation_of (corr_of s r ph) = lift_op op"
  by (cases op) (simp add: lift_op_def operation_of_corr(2))

lemma in_correlated:
  "pg_inv s \<Longrightarrow> (c \<in> set (correlated s)) = (\<exists>r \<in> set (pg_events s). \<exists>ph. phase_of s r = Some ph \<and> c = corr_of s r ph)"
  by (auto simp: set_correlated)

lemma corr_of_phase [simp]: "co_phase (corr_of s r ph) = ph" "co_id (corr_of s r ph) = er_id r"
  "co_timestamp (corr_of s r ph) = er_timestamp r"
  by (simp_all add: corr_of_def Let_def)

lemma ended_iff:
  assumes "pg_inv s"
  shows "lift_op op \<in> set (ended s) \<longleftrightarrow> operation_ended (pg_registry s) op"
proof -
  have "lift_op op \<in> set (ended s) \<longleftrightarrow>
      (\<exists>c \<in> set (correlated s). co_phase c = phase_end \<and> co_value c \<noteq> None \<and> operation_of c = lift_op op)"
    by (auto simp: ended_rows image_iff eq_commute [of "lift_op op"])
  also have "\<dots> \<longleftrightarrow> (\<exists>r \<in> set (pg_events s). phase_of s r = Some phase_end \<and> op_of s r = Some op)"
  proof
    assume "\<exists>c \<in> set (correlated s). co_phase c = phase_end \<and> co_value c \<noteq> None \<and> operation_of c = lift_op op"
    then obtain d where d: "d \<in> set (correlated s)" "co_phase d = phase_end" "co_value d \<noteq> None"
        "operation_of d = lift_op op" by blast
    from d(1) obtain r ph where r: "r \<in> set (pg_events s)" "phase_of s r = Some ph" and dr: "d = corr_of s r ph"
      unfolding in_correlated [OF assms] by blast
    have c: "co_value (corr_of s r ph) \<noteq> None" "operation_of (corr_of s r ph) = lift_op op" and ph: "ph = phase_end"
      using d dr by simp_all
    from c(1) obtain op' where op': "op_of s r = Some op'" using operation_of_corr(1) [of s r ph] by blast
    with operation_of_lift [OF op', of ph] c(2) have "op' = op" by simp
    with op' r ph show "\<exists>r \<in> set (pg_events s). phase_of s r = Some phase_end \<and> op_of s r = Some op" by blast
  next
    assume "\<exists>r \<in> set (pg_events s). phase_of s r = Some phase_end \<and> op_of s r = Some op"
    then obtain r where r: "r \<in> set (pg_events s)" "phase_of s r = Some phase_end" "op_of s r = Some op" by blast
    have "corr_of s r phase_end \<in> set (correlated s)" unfolding in_correlated [OF assms] using r(1,2) by blast
    moreover have "co_value (corr_of s r phase_end) \<noteq> None" using operation_of_corr(1) [of s r] r(3) by blast
    ultimately show "\<exists>c \<in> set (correlated s). co_phase c = phase_end \<and> co_value c \<noteq> None \<and> operation_of c = lift_op op"
      using operation_of_lift [OF r(3)] corr_of_phase(1) by blast
  qed
  also have "\<dots> \<longleftrightarrow> operation_ended (pg_registry s) op"
  proof -
    from operation_in_phase_row [OF assms _ phases_mem(2)] show ?thesis
      unfolding operation_ended_alt list_ex_iff pg_registry_def set_map by (auto split: if_splits)
  qed
  finally show ?thesis .
qed

lemma left_join_none:
  "map fst (filter (\<lambda>(c, e). P c \<and> Q c \<and> e = None) (left_join on as bs)) = filter (\<lambda>c. P c \<and> Q c \<and> filter (on c) bs = []) as"
proof -
  have "filter (\<lambda>(c, e). P c \<and> Q c \<and> e = None) (map (\<lambda>b. (a, Some b)) ms) = []" for a :: 'a and ms :: "'b list"
    by (simp add: filter_empty_conv)
  then show ?thesis unfolding left_join_def by (induction as) (auto split: list.splits)
qed

lemma active_candidates_eq:
  "active_candidates s = filter (\<lambda>c. co_phase c = phase_start \<and> co_value c \<noteq> None \<and> operation_of c \<notin> set (ended s)) (correlated s)"
  unfolding active_candidates_def phase_folds left_join_none filter_empty_conv by (intro filter_cong) auto

lemma in_active_candidates:
  assumes "pg_inv s"
  shows "c \<in> set (active_candidates s) \<longleftrightarrow> (\<exists>r \<in> set (pg_events s). \<exists>op. phase_of s r = Some phase_start
     \<and> op_of s r = Some op \<and> \<not> operation_ended (pg_registry s) op \<and> c = corr_of s r phase_start)"
proof
  assume "c \<in> set (active_candidates s)"
  then obtain r where r: "r \<in> set (pg_events s)" "phase_of s r = Some phase_start" "c = corr_of s r phase_start"
      and c: "co_value c \<noteq> None" "operation_of c \<notin> set (ended s)"
    unfolding active_candidates_eq set_filter mem_Collect_eq in_correlated [OF assms] by (metis corr_of_phase(1))
  from c(1) r(3) obtain op where op: "op_of s r = Some op" using operation_of_corr(1) [of s r] by blast
  have "\<not> operation_ended (pg_registry s) op"
    using c(2) operation_of_lift [OF op] ended_iff [OF assms, of op] r(3) by simp
  with r op show "\<exists>r \<in> set (pg_events s). \<exists>op. phase_of s r = Some phase_start
     \<and> op_of s r = Some op \<and> \<not> operation_ended (pg_registry s) op \<and> c = corr_of s r phase_start" by blast
next
  assume "\<exists>r \<in> set (pg_events s). \<exists>op. phase_of s r = Some phase_start
     \<and> op_of s r = Some op \<and> \<not> operation_ended (pg_registry s) op \<and> c = corr_of s r phase_start"
  then obtain r op where r: "r \<in> set (pg_events s)" "phase_of s r = Some phase_start" "op_of s r = Some op"
      and live: "\<not> operation_ended (pg_registry s) op" and c: "c = corr_of s r phase_start" by blast
  have "c \<in> set (correlated s)" unfolding in_correlated [OF assms] c using r(1,2) by blast
  moreover have "co_value c \<noteq> None" unfolding c using operation_of_corr(1) [of s r] r(3) by blast
  moreover have "operation_of c \<notin> set (ended s)"
    unfolding c operation_of_lift [OF r(3)] ended_iff [OF assms] by (rule live)
  ultimately show "c \<in> set (active_candidates s)"
    unfolding active_candidates_eq using c corr_of_phase(1) by simp
qed

lemma distinct_active: "pg_inv s \<Longrightarrow> distinct (map co_id (active_candidates s))"
  unfolding active_candidates_eq by (rule distinct_map_filter [OF distinct_correlated])

lemma rank_generic: "Suc (length (filter (\<lambda>d. A d \<and> f d < f c) cs)) = 1 \<longleftrightarrow>
    (\<forall>d \<in> set cs. A d \<longrightarrow> f c \<le> (f d :: 'b :: linorder))"
  by (auto simp: filter_empty_conv not_less)

lemma rank_one: "representative_rank cs c = 1 \<longleftrightarrow>
    (\<forall>d \<in> set cs. operation_of d = operation_of c \<longrightarrow> (co_timestamp c, co_id c) \<le> (co_timestamp d, co_id d))"
  unfolding representative_rank_def by (rule rank_generic)

text \<open>Rank one among the candidates of its operation is being the earliest start of it.\<close>

lemma represents_active_row:
  assumes inv: "pg_inv s" and r: "r \<in> set (pg_events s)"
  shows "represents_active (pg_registry s) (event_of s r) \<longleftrightarrow>
    corr_of s r phase_start \<in> set (active_candidates s) \<and>
    representative_rank (active_candidates s) (corr_of s r phase_start) = 1 \<and> phase_of s r = Some phase_start"
proof (cases "phase_of s r = Some phase_start \<and> op_of s r \<noteq> None")
  case False
  note start = phases_mem(1)
  have "operation_in_phase phase_start (event_of s r) = None"
  proof -
    have "op_of s r = None \<or> phase_of s r \<noteq> Some phase_start" using False by blast
    then show ?thesis unfolding operation_in_phase_row [OF inv r start] by (elim disjE) simp_all
  qed
  then have "\<not> represents_active (pg_registry s) (event_of s r)" by (simp add: represents_active_alt)
  moreover have "corr_of s r phase_start \<notin> set (active_candidates s)" if "phase_of s r = Some phase_start"
  proof -
    have "op_of s r = None" using that False by blast
    then have "co_value (corr_of s r phase_start) = None" using operation_of_corr(1) [of s r phase_start] by blast
    then show ?thesis unfolding active_candidates_eq by simp
  qed
  ultimately show ?thesis by blast
next
  case True
  then obtain op where op: "op_of s r = Some op" by blast
  note start = phases_mem(1)
  have this_op: "operation_in_phase phase_start (event_of s r) = Some op"
    using True op by (simp add: operation_in_phase_row [OF inv r start])
  have cand: "corr_of s r phase_start \<in> set (active_candidates s) \<longleftrightarrow> \<not> operation_ended (pg_registry s) op"
  proof -
    have "operation_of (corr_of s r phase_start) \<in> set (ended s) \<longleftrightarrow> operation_ended (pg_registry s) op"
      using operation_of_lift [OF op] ended_iff [OF inv] by simp
    moreover have "corr_of s r phase_start \<in> set (correlated s)"
      unfolding in_correlated [OF inv] using r True by blast
    moreover have "co_value (corr_of s r phase_start) \<noteq> None" using operation_of_corr(1) [of s r] op by blast
    ultimately show ?thesis unfolding active_candidates_eq by simp
  qed
  have earliest: "representative_rank (active_candidates s) (corr_of s r phase_start) = 1 \<longleftrightarrow>
      list_all (\<lambda>d. operation_in_phase phase_start d = Some op \<longrightarrow>
             (ev_timestamp (event_of s r), ev_id (event_of s r)) \<le> (ev_timestamp d, ev_id d)) (pg_registry s)"
    if live: "\<not> operation_ended (pg_registry s) op"
  proof -
    have "representative_rank (active_candidates s) (corr_of s r phase_start) = 1 \<longleftrightarrow>
        (\<forall>q \<in> set (pg_events s). phase_of s q = Some phase_start \<and> op_of s q = Some op \<longrightarrow>
           (er_timestamp r, er_id r) \<le> (er_timestamp q, er_id q))"
      unfolding rank_one operation_of_lift [OF op] corr_of_phase
    proof (intro iffI ballI impI)
      fix q assume all: "\<forall>d \<in> set (active_candidates s). operation_of d = lift_op op \<longrightarrow>
            (er_timestamp r, er_id r) \<le> (co_timestamp d, co_id d)"
        and q: "q \<in> set (pg_events s)" "phase_of s q = Some phase_start \<and> op_of s q = Some op"
      have "corr_of s q phase_start \<in> set (active_candidates s)"
        unfolding in_active_candidates [OF inv] using q live by blast
      with all operation_of_lift [of s q op "phase_start"] q(2)
      show "(er_timestamp r, er_id r) \<le> (er_timestamp q, er_id q)" by (metis corr_of_phase(2,3))
    next
      fix d assume all: "\<forall>q \<in> set (pg_events s). phase_of s q = Some phase_start \<and> op_of s q = Some op \<longrightarrow>
            (er_timestamp r, er_id r) \<le> (er_timestamp q, er_id q)"
        and d: "d \<in> set (active_candidates s)" "operation_of d = lift_op op"
      from d(1) obtain q op' where q: "q \<in> set (pg_events s)" "phase_of s q = Some phase_start" "op_of s q = Some op'"
          and dq: "d = corr_of s q phase_start" unfolding in_active_candidates [OF inv] by blast
      have "op' = op" using operation_of_lift [OF q(3), of "phase_start"] d(2) dq by simp
      with all q dq show "(er_timestamp r, er_id r) \<le> (co_timestamp d, co_id d)" by simp
    qed
    also have "\<dots> \<longleftrightarrow> (\<forall>q \<in> set (pg_events s). operation_in_phase phase_start (event_of s q) = Some op \<longrightarrow>
           (er_timestamp r, er_id r) \<le> (er_timestamp q, er_id q))"
      using operation_in_phase_row [OF inv _ start] by (intro ball_cong refl) (simp split: if_splits)
    finally show ?thesis
      using inv_canonical [OF inv] r by (simp add: list_all_iff pg_registry_def)
  qed
  show ?thesis
    using cand earliest True by (auto simp: represents_active_alt this_op)
qed

subsection \<open>The selected rows\<close>

lemma co_tags: "map_option fst (correlation (tags_of s (er_id r))) = Some k \<Longrightarrow> co_key (corr_of s r ph) = k"
  "co_value (corr_of s r ph) = map_option snd (correlation (tags_of s (er_id r)))"
  unfolding corr_of_def correlation_def Let_def by (auto split: if_splits)

lemma co_key_tags: "correlation (tags_of s (er_id r)) \<noteq> None \<Longrightarrow>
    (co_key (corr_of s r ph) = k) = (map_option fst (correlation (tags_of s (er_id r))) = Some k)"
  unfolding corr_of_def correlation_def Let_def by (auto split: if_splits)

lemma nullif_None: "(nullif_empty (map_of m k) = None) = (tag_get m k = [])"
  by (simp add: nullif_tag)

lemma map_of_tag_get: "x \<noteq> [] \<Longrightarrow> (map_of m k = Some x) = (tag_get m k = x)"
  by (auto simp: tag_get_def split: option.splits)

lemma current_where_event:
  assumes "correlation (tags_of s (er_id r)) \<noteq> None"
  shows "current_where p s \<lparr>cu_corr = corr_of s r ph, cu_rank = n, cu_event = r\<rparr> \<longleftrightarrow>
    n = 1 \<and> visible_in p (event_of s r)"
proof -
  have team: "cp_for_team p \<noteq> [] \<Longrightarrow> (tag_column s (er_id r) ''team'' = Some (cp_for_team p)
        \<or> nullif_empty (tag_column s (er_id r) ''team'') = None
        \<or> tag_column s (er_id r) ''scope'' = Some ''site'')
      = (tag_get (tags_of s (er_id r)) ''team'' \<in> {[], cp_for_team p}
        \<or> map_of (tags_of s (er_id r)) ''scope'' = Some ''site'')"
    unfolding tag_column_eq nullif_None by (simp add: map_of_tag_get) blast
  show ?thesis
    unfolding current_where_def visible_in_def Let_def current_row.select_convs corr_of_phase event_of_fields
      co_key_tags [OF assms] co_tags(2)
    by (intro conj_cong imp_cong refl team) (simp_all only: tag_column_eq simp_thms)
qed

lemma in_current_from:
  assumes inv: "pg_inv s"
  shows "row \<in> set (current_from s) \<longleftrightarrow> (\<exists>r \<in> set (pg_events s). phase_of s r = Some phase_start
    \<and> corr_of s r phase_start \<in> set (active_candidates s)
    \<and> row = \<lparr>cu_corr = corr_of s r phase_start,
         cu_rank = representative_rank (active_candidates s) (corr_of s r phase_start), cu_event = r\<rparr>)"
proof
  assume "row \<in> set (current_from s)"
  then obtain c e where c: "c \<in> set (active_candidates s)" and e: "e \<in> set (pg_events s)" "er_id e = co_id c"
    and row: "row = \<lparr>cu_corr = c, cu_rank = representative_rank (active_candidates s) c, cu_event = e\<rparr>"
    unfolding current_from_def by auto
  from c obtain r where r: "r \<in> set (pg_events s)" "phase_of s r = Some phase_start" "c = corr_of s r phase_start"
    unfolding in_active_candidates [OF inv] by blast
  have "distinct (map er_id (pg_events s))" using inv by (simp add: pg_inv_def)
  then have "e = r" using e r by (auto simp: distinct_map dest: inj_onD)
  with r c row show "\<exists>r \<in> set (pg_events s). phase_of s r = Some phase_start
    \<and> corr_of s r phase_start \<in> set (active_candidates s)
    \<and> row = \<lparr>cu_corr = corr_of s r phase_start,
         cu_rank = representative_rank (active_candidates s) (corr_of s r phase_start), cu_event = r\<rparr>" by blast
next
  assume "\<exists>r \<in> set (pg_events s). phase_of s r = Some phase_start
    \<and> corr_of s r phase_start \<in> set (active_candidates s)
    \<and> row = \<lparr>cu_corr = corr_of s r phase_start,
         cu_rank = representative_rank (active_candidates s) (corr_of s r phase_start), cu_event = r\<rparr>"
  then show "row \<in> set (current_from s)" unfolding current_from_def by auto
qed

lemma distinct_current_from:
  assumes inv: "pg_inv s"
  shows "distinct (map (\<lambda>row. er_id (cu_event row)) (current_from s))"
proof -
  let ?h = "\<lambda>c. map (\<lambda>e. \<lparr>cu_corr = c, cu_rank = representative_rank (active_candidates s) c, cu_event = e\<rparr>)
      (filter (\<lambda>e. er_id e = co_id c) (pg_events s))"
  have "current_from s = concat (map ?h (active_candidates s))"
    unfolding current_from_def concat_if by (rule refl)
  moreover have "distinct (map (\<lambda>row. er_id (cu_event row)) (concat (map ?h (active_candidates s))))"
  proof (rule distinct_concat_keys [where f = co_id])
    show "distinct (map co_id (active_candidates s))" by (rule distinct_active [OF inv])
    show "er_id (cu_event y) = co_id c" if "y \<in> set (?h c)" for c y using that by auto
    show "length (?h c) \<le> 1" for c using one_event [OF inv, of "co_id c" "\<lambda>_. True"] by simp
  qed
  ultimately show ?thesis by simp
qed

lemma current_rows_set:
  assumes inv: "pg_inv s"
  shows "set (current_rows p s) = set (filter (\<lambda>r. represents_active (pg_registry s) (event_of s r)
      \<and> visible_in p (event_of s r)) (pg_events s))"
proof (intro set_eqI iffI)
  fix r assume "r \<in> set (current_rows p s)"
  then obtain row where row: "row \<in> set (current_from s)" "current_where p s row" "r = cu_event row"
    by (auto simp: current_rows_def)
  from row(1) obtain q where q: "q \<in> set (pg_events s)" "phase_of s q = Some phase_start"
      "corr_of s q phase_start \<in> set (active_candidates s)"
    and eq: "row = \<lparr>cu_corr = corr_of s q phase_start,
         cu_rank = representative_rank (active_candidates s) (corr_of s q phase_start), cu_event = q\<rparr>"
    unfolding in_current_from [OF inv] by blast
  have "correlation (tags_of s (er_id q)) \<noteq> None"
    using q(3) co_tags(2) [of s q phase_start] by (auto simp: active_candidates_eq)
  from current_where_event [OF this] row(2,3) q eq
  show "r \<in> set (filter (\<lambda>r. represents_active (pg_registry s) (event_of s r) \<and> visible_in p (event_of s r)) (pg_events s))"
    by (simp add: represents_active_row [OF inv])
next
  fix r assume "r \<in> set (filter (\<lambda>r. represents_active (pg_registry s) (event_of s r) \<and> visible_in p (event_of s r)) (pg_events s))"
  then have r: "r \<in> set (pg_events s)" and vis: "visible_in p (event_of s r)"
    and cand: "corr_of s r phase_start \<in> set (active_candidates s)" "phase_of s r = Some phase_start"
    and rank: "representative_rank (active_candidates s) (corr_of s r phase_start) = 1"
    by (auto simp: represents_active_row [OF inv])
  let ?row = "\<lparr>cu_corr = corr_of s r phase_start,
         cu_rank = representative_rank (active_candidates s) (corr_of s r phase_start), cu_event = r\<rparr>"
  have "correlation (tags_of s (er_id r)) \<noteq> None"
    using cand(1) co_tags(2) [of s r phase_start] by (auto simp: active_candidates_eq)
  from current_where_event [OF this] vis rank have "current_where p s ?row" by simp
  moreover have "?row \<in> set (current_from s)" unfolding in_current_from [OF inv] using r cand by blast
  ultimately have "cu_event ?row \<in> set (current_rows p s)" unfolding current_rows_def set_map set_filter by blast
  then show "r \<in> set (current_rows p s)" by simp
qed

lemma current_rows_distinct:
  assumes "pg_inv s"
  shows "distinct (map er_id (current_rows p s))"
  using distinct_map_filter [OF distinct_current_from [OF assms], of "current_where p s"]
  by (simp add: current_rows_def comp_def)

lemma sort_key_set_eq:
  assumes "set xs = set ys" "distinct (map f xs)" "distinct (map f ys)"
  shows "sort_key f xs = sort_key f ys"
proof (rule map_sorted_distinct_set_unique)
  show "inj_on f (set (sort_key f xs) \<union> set (sort_key f ys))" using assms by (simp add: distinct_map)
  show "distinct (map f (sort_key f xs))" "distinct (map f (sort_key f ys))"
    using assms by (simp_all add: distinct_map)
qed (use assms in simp_all)

lemma by_newest_same_set:
  assumes "set xs = set ys" "distinct (map ev_id xs)" "distinct (map ev_id ys)"
  shows "by_newest xs = by_newest ys" "length xs = length ys"
proof -
  have "distinct (map (\<lambda>e. (- ev_timestamp e, ev_id e)) zs)" if "distinct (map ev_id zs)" for zs
    using that by (auto simp: distinct_map inj_on_def)
  with assms show "by_newest xs = by_newest ys" unfolding by_newest_def by (intro sort_key_set_eq) auto
  show "length xs = length ys" using assms by (metis distinct_card distinct_map)
qed

text \<open>The query reads the tables only.\<close>

lemma faults_tables: "pg_events (s\<lparr>pg_faults := fs\<rparr>) = pg_events s" "pg_tags (s\<lparr>pg_faults := fs\<rparr>) = pg_tags s"
  by simp_all

lemma phase_event_faults: "phase_event (s\<lparr>pg_faults := fs\<rparr>) = phase_event s"
  by (simp only: phase_event_def faults_tables)

lemma correlated_faults: "correlated (s\<lparr>pg_faults := fs\<rparr>) = correlated s"
  by (simp only: correlated_def join_tag_def phase_event_faults faults_tables)

lemma active_candidates_faults: "active_candidates (s\<lparr>pg_faults := fs\<rparr>) = active_candidates s"
  by (simp only: active_candidates_def ended_def correlated_faults)

lemma current_rows_faults: "current_rows p (s\<lparr>pg_faults := fs\<rparr>) = current_rows p s"
proof -
  have "current_from (s\<lparr>pg_faults := fs\<rparr>) = current_from s"
    by (simp only: current_from_def active_candidates_faults faults_tables)
  moreover have "current_where p (s\<lparr>pg_faults := fs\<rparr>) = current_where p s"
    by (simp only: current_where_def [abs_def] tag_column_def faults_tables)
  ultimately show ?thesis by (simp only: current_rows_def)
qed

lemma pg_list_current_Inr:
  assumes inv: "pg_inv s" and run: "pg_list_current p s = (Inr x, s')"
  shows "x = current_spec (pg_registry s) p"
proof -
  note faults = current_rows_faults
  have sub: "set (current_rows p t) \<subseteq> set (pg_events t)" for t
    by (auto simp: current_rows_def current_from_def)
  have "x = result_page (cp_limit p) (cp_offset p) (map (event_of s) (current_rows p s))"
    using run by (intro counted_page_Inr [where rows = "current_rows p", OF inv sub faults])
      (simp add: pg_list_current_def Let_def)
  moreover have "result_page (cp_limit p) (cp_offset p) (map (event_of s) (current_rows p s))
      = current_spec (pg_registry s) p"
  proof -
    let ?sel = "filter (\<lambda>e. represents_active (pg_registry s) e \<and> visible_in p e) (pg_registry s)"
    have eq: "set (map (event_of s) (current_rows p s)) = set ?sel"
      unfolding set_map current_rows_set [OF inv] by (auto simp: pg_registry_def)
    have ids: "distinct (map ev_id (map (event_of s) (current_rows p s)))"
      using current_rows_distinct [OF inv] by (simp add: comp_def)
    have reg: "distinct (map ev_id ?sel)"
      using pg_registry_ok [OF inv] by (intro distinct_map_filter) (simp add: registry_ok_def)
    show ?thesis unfolding current_spec_def result_page_def by_newest_same_set [OF eq ids reg] by (rule refl)
  qed
  ultimately show ?thesis by simp
qed

end
