(* ===== verification/LowerCase.thy ===== *)
theory LowerCase
  imports GoText
begin

section \<open>Facts about lower-casing\<close>

text \<open>
  What \<^verbatim>\<open>strings.ToLower\<close> does to runes above ASCII, read off the table once: it yields scalar
  values, only the dotted capital I and the Kelvin sign become ASCII, and nothing becomes one of
  those two. A string that lower-cases to a plain ASCII word after being lower-cased already was
  that word.
\<close>

lemma lower_ranges_scalar:
  "list_all (\<lambda>(lo, hi, stride, delta). lo \<le> hi \<and>
     ((0 \<le> int lo + delta \<and> int hi + delta < 55296) \<or> (57344 \<le> int lo + delta \<and> int hi + delta \<le> 1114111))) lower_ranges"
  by (simp add: lower_ranges_def)

lemma lower_ranges_ascii:
  "list_all (\<lambda>(lo, hi, stride, delta). 128 \<le> int lo + delta \<or> (lo = 304 \<and> hi = 304) \<or> (lo = 8490 \<and> hi = 8490)) lower_ranges"
  by (simp add: lower_ranges_def)

lemma lower_ranges_avoid:
  "list_all (\<lambda>(lo, hi, stride, delta). (304 < int lo + delta \<or> int hi + delta < 304)
     \<and> (8490 < int lo + delta \<or> int hi + delta < 8490)) lower_ranges"
  by (simp add: lower_ranges_def)

lemma find_NoneD: "find P xs = None \<Longrightarrow> \<forall>x \<in> set xs. \<not> P x"
  by (auto simp: find_None_iff)

text \<open>The rune either stays, or a row of the table moves it.\<close>

lemma to_lower_rune_cases:
  assumes "128 \<le> r"
  obtains "to_lower_rune r = r" "\<And>lo hi stride delta. (lo, hi, stride, delta) \<in> set lower_ranges \<Longrightarrow>
      \<not> (lo \<le> r \<and> r \<le> hi \<and> (r - lo) mod stride = 0)"
    | lo hi stride delta where "(lo, hi, stride, delta) \<in> set lower_ranges" "lo \<le> r" "r \<le> hi"
        "to_lower_rune r = nat (int r + delta)"
proof (cases "find (\<lambda>(lo, hi, stride, delta). lo \<le> r \<and> r \<le> hi \<and> (r - lo) mod stride = 0) lower_ranges")
  case None
  then have no: "\<forall>x \<in> set lower_ranges. \<not> (case x of (lo, hi, stride, delta) \<Rightarrow> lo \<le> r \<and> r \<le> hi \<and> (r - lo) mod stride = 0)"
    by (rule find_NoneD)
  from None assms have "to_lower_rune r = r" by (simp add: to_lower_rune_def)
  moreover have "\<not> (lo \<le> r \<and> r \<le> hi \<and> (r - lo) mod stride = 0)"
    if "(lo, hi, stride, delta) \<in> set lower_ranges" for lo hi stride delta
    using bspec [OF no that] by simp
  ultimately show thesis by (rule that(1))
next
  case (Some row)
  obtain lo hi stride delta where row: "row = (lo, hi, stride, delta)" by (metis prod_cases4)
  from find_SomeD [OF Some] have "row \<in> set lower_ranges" "case row of (lo, hi, stride, delta) \<Rightarrow> lo \<le> r \<and> r \<le> hi \<and> (r - lo) mod stride = 0"
    by (rule conjunct1, rule conjunct2)
  then have "(lo, hi, stride, delta) \<in> set lower_ranges" "lo \<le> r" "r \<le> hi" by (simp_all add: row)
  moreover from Some assms row have "to_lower_rune r = nat (int r + delta)"
    by (simp add: to_lower_rune_def)
  ultimately show thesis by (rule that(2))
qed

lemma to_lower_rune_scalar: "scalar r \<Longrightarrow> scalar (to_lower_rune r)"
proof (cases "r < 128")
  case True
  then show ?thesis by (auto simp: to_lower_rune_ascii scalar_def)
next
  case False
  assume s: "scalar r"
  from False have "128 \<le> r" by simp
  then show ?thesis
  proof (cases rule: to_lower_rune_cases)
    case 1
    with s show ?thesis by simp
  next
    case (2 lo hi stride delta)
    from lower_ranges_scalar 2(1) have "(0 \<le> int lo + delta \<and> int hi + delta < 55296)
        \<or> (57344 \<le> int lo + delta \<and> int hi + delta \<le> 1114111)" unfolding list_all_iff by fast
    with 2(2,3,4) show ?thesis by (auto simp: scalar_def)
  qed
qed

lemma runes_to_lower: "runes (to_lower s) = map to_lower_rune (runes s)"
proof -
  have "list_all scalar (map to_lower_rune (runes s))"
    using runes_scalar [of s] to_lower_rune_scalar by (simp add: list_all_iff)
  from runes_encode [OF this] show ?thesis by (simp add: to_lower_def comp_def)
qed

lemma to_lower_rune_not:
  "to_lower_rune r \<noteq> 304" "to_lower_rune r \<noteq> 8490" "\<not> (65 \<le> to_lower_rune r \<and> to_lower_rune r \<le> 90)"
proof -
  have *: "to_lower_rune r \<noteq> 304 \<and> to_lower_rune r \<noteq> 8490 \<and> \<not> (65 \<le> to_lower_rune r \<and> to_lower_rune r \<le> 90)"
  proof (cases "r < 128")
    case True
    then show ?thesis by (auto simp: to_lower_rune_ascii)
  next
    case False
    then have ge: "128 \<le> r" by simp
    then show ?thesis
    proof (cases rule: to_lower_rune_cases)
      case 1
      have "(304, 304, 1, -199) \<in> set lower_ranges" "(8490, 8490, 1, -8383) \<in> set lower_ranges"
        by (simp_all add: lower_ranges_def)
      with 1(2) have "r \<noteq> 304" "r \<noteq> 8490" by force+
      with 1(1) ge show ?thesis by simp
    next
      case (2 lo hi stride delta)
      from lower_ranges_avoid 2(1) have a: "(304 < int lo + delta \<or> int hi + delta < 304)
         \<and> (8490 < int lo + delta \<or> int hi + delta < 8490)" unfolding list_all_iff by fast
      from lower_ranges_ascii 2(1) have b: "128 \<le> int lo + delta \<or> (lo = 304 \<and> hi = 304) \<or> (lo = 8490 \<and> hi = 8490)"
        unfolding list_all_iff by fast
      show ?thesis
      proof (cases "128 \<le> int lo + delta")
        case True
        with a 2(2,3,4) show ?thesis by auto
      next
        case False
        with b 2(2,3) have "r = 304 \<or> r = 8490" by auto
        then have "to_lower_rune r = 105 \<or> to_lower_rune r = 107"
          by (elim disjE) (simp_all add: to_lower_rune_def lower_ranges_def)
        then show ?thesis by auto
      qed
    qed
  qed
  then show "to_lower_rune r \<noteq> 304" "to_lower_rune r \<noteq> 8490" "\<not> (65 \<le> to_lower_rune r \<and> to_lower_rune r \<le> 90)"
    by simp_all
qed

lemma to_lower_rune_ascii_fix:
  assumes "to_lower_rune (to_lower_rune r) < 128"
  shows "to_lower_rune (to_lower_rune r) = to_lower_rune r"
proof (cases "to_lower_rune r < 128")
  case True
  then show ?thesis using to_lower_rune_not(3) [of r] by (auto simp: to_lower_rune_ascii)
next
  case False
  let ?x = "to_lower_rune r"
  from False have "128 \<le> ?x" by simp
  then show ?thesis
  proof (cases rule: to_lower_rune_cases)
    case 1
    then show ?thesis by simp
  next
    case (2 lo hi stride delta)
    from lower_ranges_ascii 2(1) have "128 \<le> int lo + delta \<or> (lo = 304 \<and> hi = 304) \<or> (lo = 8490 \<and> hi = 8490)"
      unfolding list_all_iff by fast
    with 2(2,3,4) assms to_lower_rune_not(1,2) [of r] show ?thesis by auto
  qed
qed

lemma to_lower_twice_word:
  assumes "to_lower (to_lower s) = w" "ascii_string w"
  shows "to_lower s = w"
proof -
  have "map to_lower_rune (map to_lower_rune (runes s)) = runes w"
    using assms(1) by (simp add: runes_to_lower flip: assms(1))
  moreover have "\<forall>r \<in> set (runes w). r < 128"
    using assms(2) by (auto simp: runes_ascii ascii_string_def list_all_iff)
  ultimately have "\<forall>r \<in> set (runes s). to_lower_rune (to_lower_rune r) < 128"
    by (metis (no_types, lifting) image_eqI list.set_map)
  then have "map (\<lambda>r. encode_rune (to_lower_rune (to_lower_rune r))) (runes s) = map (\<lambda>r. encode_rune (to_lower_rune r)) (runes s)"
    by (intro map_cong refl) (metis to_lower_rune_ascii_fix)
  then have "to_lower (to_lower s) = to_lower s"
    unfolding to_lower_def [of "to_lower s"] runes_to_lower map_map comp_def by (simp only: to_lower_def)
  with assms(1) show ?thesis by simp
qed

end
