(* ===== verification/TagPolicy.thy ===== *)
theory TagPolicy
  imports Model LowerCase
begin

section \<open>The tag policy of new events: internal/service/change.go\<close>

text \<open>
  \<^verbatim>\<open>normalizeEventTags\<close> trims the well-known tags and lower-cases severity and scope;
  \<^verbatim>\<open>validatePhaseTags\<close> and \<^verbatim>\<open>validateClassificationTags\<close> accept or reject the result. The lemmas state
  the policy as a predicate on the tags, show the validation decides exactly that predicate, and
  that what it accepts after normalization is canonical: the exact words ListCurrent and its filters
  compare with.
\<close>

definition invalid_tags :: "string \<Rightarrow> go_error" where
  "invalid_tags message = ErrInvalidTags message"

definition well_known_tags :: "string list" where
  "well_known_tags = [''phase'', ''change_id'', ''deploy_id'', ''team'', ''severity'', ''scope'']"

text \<open>\<^verbatim>\<open>if value, ok := tags[key]; ok { tags[key] = f(value) }\<close>.\<close>

definition update_present :: "(string \<Rightarrow> string) \<Rightarrow> string \<Rightarrow> tag_map \<Rightarrow> tag_map" where
  "update_present f key tags = (case map_of tags key of None \<Rightarrow> tags | Some v \<Rightarrow> AList.update key (f v) tags)"

definition normalize_event_tags :: "tag_map \<Rightarrow> tag_map" where
  "normalize_event_tags input =
     (let trimmed = fold (update_present trim_space) well_known_tags input;
          lowered = update_present to_lower ''severity'' trimmed
      in update_present to_lower ''scope'' lowered)"

definition validate_phase_tags :: "string \<Rightarrow> tag_map \<Rightarrow> go_error option" where
  "validate_phase_tags event_type tags =
     (let phase = tag_get tags ''phase''; has_phase = tag_has tags ''phase'';
          change_id = tag_get tags ''change_id''; has_change_id = tag_has tags ''change_id'';
          deploy_id = tag_get tags ''deploy_id''; has_deploy_id = tag_has tags ''deploy_id'';
          has_identifier = (change_id \<noteq> [] \<or> deploy_id \<noteq> []);
          has_identifier_tag = (has_change_id \<or> has_deploy_id);
          valid_phase = (phase = ''start'' \<or> phase = ''end'') in
      if event_type = event_type_maintenance \<and> (\<not> has_phase \<or> \<not> valid_phase \<or> \<not> has_identifier)
      then Some (invalid_tags ''maintenance events require phase=start or phase=end and a non-empty change_id or deploy_id'')
      else if has_phase \<and> \<not> valid_phase then Some (invalid_tags ''phase must be exactly start or end'')
      else if has_phase \<and> \<not> has_identifier
      then Some (invalid_tags ''phase requires a non-empty change_id or deploy_id'')
      else if \<not> has_phase \<and> has_identifier_tag
      then Some (invalid_tags ''change_id and deploy_id require phase=start or phase=end'')
      else None)"

definition severities :: "string list" where
  "severities = [''sev0'', ''sev1'', ''sev2'', ''sev3'']"

definition scopes :: "string list" where
  "scopes = [''service'', ''system'', ''site'']"

definition validate_classification_tags :: "tag_map \<Rightarrow> go_error option" where
  "validate_classification_tags tags =
     (case map_of tags ''severity'' of
        Some severity \<Rightarrow>
          (if to_lower severity \<in> set severities
           then (case map_of tags ''scope'' of
                   Some scope \<Rightarrow> (if to_lower scope \<in> set scopes then None
                                   else Some (invalid_tags ''scope must be service, system, or site''))
                 | None \<Rightarrow> None)
           else Some (invalid_tags ''severity must be sev0, sev1, sev2, or sev3''))
      | None \<Rightarrow>
          (case map_of tags ''scope'' of
             Some scope \<Rightarrow> (if to_lower scope \<in> set scopes then None
                             else Some (invalid_tags ''scope must be service, system, or site''))
           | None \<Rightarrow> None))"

definition validate_event_tags :: "string \<Rightarrow> tag_map \<Rightarrow> go_error option" where
  "validate_event_tags event_type tags =
     (case validate_phase_tags event_type tags of
        Some err \<Rightarrow> Some err
      | None \<Rightarrow> validate_classification_tags tags)"

subsection \<open>What normalization does to each tag\<close>

lemma map_of_update_present:
  "map_of (update_present f key tags) k = (if k = key then map_option f (map_of tags key) else map_of tags k)"
  by (auto simp: update_present_def split: option.splits)

lemma update_present_keys: "map fst (update_present f key tags) = map fst tags"
proof (cases "map_of tags key")
  case None
  then show ?thesis by (simp add: update_present_def)
next
  case (Some v)
  then have "key \<in> fst ` set tags" by (metis domI dom_map_of_conv_image_fst)
  then have "map fst (AList.update key (f v) tags) = map fst tags" by (induction tags) auto
  with Some show ?thesis by (simp add: update_present_def)
qed

lemma map_of_fold_update_present:
  "distinct keys \<Longrightarrow> map_of (fold (update_present f) keys tags) k
     = (if k \<in> set keys then map_option f (map_of tags k) else map_of tags k)"
  by (induction keys arbitrary: tags) (auto simp: map_of_update_present)

lemma fold_update_present_keys: "map fst (fold (update_present f) keys tags) = map fst tags"
  by (induction keys arbitrary: tags) (simp_all add: update_present_keys)

lemma normalize_keys: "map fst (normalize_event_tags tags) = map fst tags"
  by (simp add: normalize_event_tags_def update_present_keys fold_update_present_keys Let_def)

definition normal_value :: "string \<Rightarrow> string \<Rightarrow> string" where
  "normal_value key v =
     (if key \<in> {''severity'', ''scope''} then to_lower (trim_space v)
      else if key \<in> set well_known_tags then trim_space v else v)"

lemma map_of_normalize: "map_of (normalize_event_tags tags) k = map_option (normal_value k) (map_of tags k)"
proof -
  have d: "distinct well_known_tags" by (simp add: well_known_tags_def)
  have s: "''severity'' \<in> set well_known_tags" "''scope'' \<in> set well_known_tags" "''severity'' \<noteq> ''scope''"
    by (simp_all add: well_known_tags_def)
  show ?thesis
    by (cases "map_of tags k") (auto simp: normalize_event_tags_def Let_def map_of_update_present
        map_of_fold_update_present [OF d] normal_value_def s)
qed

subsection \<open>The policy\<close>

definition identified :: "tag_map \<Rightarrow> bool" where
  "identified tags = (tag_get tags ''change_id'' \<noteq> [] \<or> tag_get tags ''deploy_id'' \<noteq> [])"

definition tag_policy :: "string \<Rightarrow> tag_map \<Rightarrow> bool" where
  "tag_policy event_type tags =
     ((case map_of tags ''phase'' of
         None \<Rightarrow> event_type \<noteq> event_type_maintenance \<and> \<not> tag_has tags ''change_id'' \<and> \<not> tag_has tags ''deploy_id''
       | Some phase \<Rightarrow> phase \<in> {''start'', ''end''} \<and> identified tags)
      \<and> (\<forall>v \<in> set_option (map_of tags ''severity''). to_lower v \<in> set severities)
      \<and> (\<forall>v \<in> set_option (map_of tags ''scope''). to_lower v \<in> set scopes))"

lemma validate_phase_tags_iff:
  "validate_phase_tags event_type tags = None \<longleftrightarrow>
     (case map_of tags ''phase'' of
         None \<Rightarrow> event_type \<noteq> event_type_maintenance \<and> \<not> tag_has tags ''change_id'' \<and> \<not> tag_has tags ''deploy_id''
       | Some phase \<Rightarrow> phase \<in> {''start'', ''end''} \<and> identified tags)"
proof (cases "map_of tags ''phase''")
  case None
  then have "\<not> tag_has tags ''phase''" by (simp add: tag_has_def)
  with None show ?thesis by (simp add: validate_phase_tags_def Let_def)
next
  case (Some phase)
  then have "tag_has tags ''phase''" "tag_get tags ''phase'' = phase" by (simp_all add: tag_has_def tag_get_def)
  with Some show ?thesis unfolding validate_phase_tags_def Let_def identified_def by (simp only: split: if_splits option.splits) blast
qed

lemma validate_classification_tags_iff:
  "validate_classification_tags tags = None \<longleftrightarrow>
     (\<forall>v \<in> set_option (map_of tags ''severity''). to_lower v \<in> set severities)
   \<and> (\<forall>v \<in> set_option (map_of tags ''scope''). to_lower v \<in> set scopes)"
  by (cases "map_of tags ''severity''"; cases "map_of tags ''scope''")
    (simp_all add: validate_classification_tags_def)

lemma validate_event_tags_iff: "validate_event_tags event_type tags = None \<longleftrightarrow> tag_policy event_type tags"
  unfolding validate_event_tags_def tag_policy_def validate_phase_tags_iff [symmetric]
    validate_classification_tags_iff [symmetric]
  by (simp split: option.split)

lemma validate_event_tags_error: "validate_event_tags event_type tags = Some err \<Longrightarrow> \<exists>msg. err = ErrInvalidTags msg"
  by (auto simp: validate_event_tags_def validate_phase_tags_def validate_classification_tags_def Let_def
      invalid_tags_def split: if_splits option.splits)

subsection \<open>Accepted tags are canonical\<close>

lemma ascii_words: "w \<in> set severities \<union> set scopes \<Longrightarrow> ascii_string w"
  by (auto simp: severities_def scopes_def ascii_string_def)

lemma accepted_word:
  assumes "map_of (normalize_event_tags tags) key = Some v" "key \<in> {''severity'', ''scope''}"
    and "to_lower v \<in> set severities \<union> set scopes"
  shows "to_lower v = v"
proof -
  from assms(1,2) obtain u where "v = to_lower u" by (auto simp: map_of_normalize normal_value_def)
  with to_lower_twice_word [of u "to_lower v", OF _ ascii_words [OF assms(3)]] show ?thesis by simp
qed

lemma accepted_tags_canonical:
  assumes "validate_event_tags event_type (normalize_event_tags tags) = None"
  defines "t \<equiv> normalize_event_tags tags"
  shows "map_of t ''severity'' \<in> {None} \<union> Some ` set severities"
    and "map_of t ''scope'' \<in> {None} \<union> Some ` set scopes"
    and "map_of t ''phase'' \<in> {None, Some ''start'', Some ''end''}"
    and "map_of t ''phase'' \<noteq> None \<longrightarrow> identified t"
proof -
  have p: "tag_policy event_type t" using assms by (simp add: validate_event_tags_iff)
  have word: "v \<in> set ws" if "map_of t key = Some v" "key \<in> {''severity'', ''scope''}"
      "to_lower v \<in> set ws" "set ws \<subseteq> set severities \<union> set scopes" for key v ws
    using accepted_word [of tags key v] that unfolding t_def by auto
  show "map_of t ''severity'' \<in> {None} \<union> Some ` set severities"
    using p word [of "''severity''" _ severities] by (cases "map_of t ''severity''") (auto simp: tag_policy_def)
  show "map_of t ''scope'' \<in> {None} \<union> Some ` set scopes"
    using p word [of "''scope''" _ scopes] by (cases "map_of t ''scope''") (auto simp: tag_policy_def)
  show "map_of t ''phase'' \<in> {None, Some ''start'', Some ''end''}"
    using p by (cases "map_of t ''phase''") (simp_all add: tag_policy_def)
  show "map_of t ''phase'' \<noteq> None \<longrightarrow> identified t"
    using p by (cases "map_of t ''phase''") (simp_all add: tag_policy_def)
qed

end
