(* ===== verification/LinkPolicy.thy ===== *)
theory LinkPolicy
  imports Model LowerCase
begin

section \<open>The link policy of new events: validateLinks of internal/service/change.go\<close>

text \<open>
  A link must have a short label without control or format runes and an absolute http or https URL
  without credentials, white space, backslashes or hidden runes, also after percent-decoding.
  \<^verbatim>\<open>url.PathUnescape\<close> is modelled; the URL parser of package net/url is a parameter, the function from
  the raw URL to the fields of \<^verbatim>\<open>url.URL\<close> the program reads, None when it returns an error.
\<close>

record parsed_url =
  pu_scheme :: string
  pu_opaque :: string
  pu_has_user :: bool
  pu_host :: string
  pu_hostname :: string
  pu_path :: string
  pu_raw_query :: string
  pu_fragment :: string

type_synonym url_parser = "string \<Rightarrow> parsed_url option"

definition hex_value :: "char \<Rightarrow> nat option" where
  "hex_value c = (let b = byte_of c in
     if 48 \<le> b \<and> b \<le> 57 then Some (b - 48)
     else if 97 \<le> b \<and> b \<le> 102 then Some (b - 97 + 10)
     else if 65 \<le> b \<and> b \<le> 70 then Some (b - 65 + 10) else None)"

text \<open>\<^verbatim>\<open>url.PathUnescape\<close>: None is the escape error.\<close>

fun path_unescape :: "string \<Rightarrow> string option" where
  "path_unescape [] = Some []"
| "path_unescape (c # cs) =
     (if c = CHR ''%'' then
        (case cs of
           a # b # rest \<Rightarrow>
             (case (hex_value a, hex_value b) of
                (Some x, Some y) \<Rightarrow> map_option (\<lambda>s. char_of (x * 16 + y) # s) (path_unescape rest)
              | _ \<Rightarrow> None)
         | _ \<Rightarrow> None)
      else map_option (\<lambda>s. c # s) (path_unescape cs))"

definition max_link_label_bytes :: nat where "max_link_label_bytes = 256"
definition max_link_url_bytes :: nat where "max_link_url_bytes = 2048"

definition backslash :: char where "backslash = CHR 0x5C"

definition is_unsafe_link_rune :: "rune \<Rightarrow> bool" where
  "is_unsafe_link_rune r = (is_control r \<or> is_format r)"

definition valid_link :: "url_parser \<Rightarrow> event_link \<Rightarrow> bool" where
  "valid_link parse l =
     (if length (el_label l) > max_link_label_bytes \<or> has_rune is_unsafe_link_rune (el_label l) then False
      else if el_url l = [] \<or> length (el_url l) > max_link_url_bytes \<or> el_url l \<noteq> trim_space (el_url l)
              \<or> backslash \<in> set (el_url l) \<or> has_rune is_space (el_url l) then False
      else case parse (el_url l) of
          None \<Rightarrow> False
        | Some parsed \<Rightarrow>
            if pu_hostname parsed = [] \<or> pu_has_user parsed
               \<or> (pu_scheme parsed \<noteq> ''http'' \<and> pu_scheme parsed \<noteq> ''https'') then False
            else (case path_unescape (el_url l) of
                    None \<Rightarrow> False
                  | Some unescaped \<Rightarrow>
                      \<not> (backslash \<in> set unescaped \<or> has_rune is_unsafe_link_rune unescaped)))"

fun validate_links :: "url_parser \<Rightarrow> event_link list \<Rightarrow> go_error option" where
  "validate_links parse [] = None"
| "validate_links parse (l # links) =
     (if valid_link parse l then validate_links parse links else Some ErrInvalidLink)"

lemma validate_links_iff: "validate_links parse links = None \<longleftrightarrow> list_all (valid_link parse) links"
  by (induction links) auto

lemma validate_links_error: "validate_links parse links = Some err \<Longrightarrow> err = ErrInvalidLink"
  by (induction links) (auto split: if_splits)

subsection \<open>Percent-decoding\<close>

text \<open>A string with no percent sign decodes to itself; escaping a byte and decoding gives it back.\<close>

lemma path_unescape_plain: "CHR ''%'' \<notin> set s \<Longrightarrow> path_unescape s = Some s"
  by (induction s) auto

definition hex_digit :: "nat \<Rightarrow> char" where
  "hex_digit n = (if n < 10 then char_of (48 + n) else char_of (55 + n))"

lemma hex_value_digit: "n < 16 \<Longrightarrow> hex_value (hex_digit n) = Some n"
  by (simp add: hex_value_def hex_digit_def Let_def)

definition percent_encode :: "char \<Rightarrow> string" where
  "percent_encode c = [CHR ''%'', hex_digit (byte_of c div 16), hex_digit (byte_of c mod 16)]"

lemma path_unescape_encoded: "path_unescape (percent_encode c @ s) = map_option (Cons c) (path_unescape s)"
proof -
  have "(of_char c :: nat) div 16 < 16" using nat_of_char_less_256 [of c] by (simp add: less_mult_imp_div_less)
  then show ?thesis by (simp add: percent_encode_def hex_value_digit)
qed

lemma path_unescape_all_encoded: "path_unescape (concat (map percent_encode s)) = Some s"
  by (induction s) (simp_all add: path_unescape_encoded)

end
