(* ===== verification/Sha256.thy ===== *)
theory Sha256
  imports GoStrings "HOL-Library.Word"
begin

section \<open>crypto/sha256 and crypto/hmac\<close>

text \<open>
  The hash the program identifies closing events, API tokens and sessions with, as FIPS 180-4 gives
  it: 32-bit words with wrap-around, padding to 64-byte blocks, the message schedule and the
  compression function; HMAC as RFC 2104 gives it; and the hexadecimal digits of \<^verbatim>\<open>%x\<close>.
\<close>

unbundle bit_operations_syntax

type_synonym word32 = "32 word"

definition rotr :: "nat \<Rightarrow> word32 \<Rightarrow> word32" where
  "rotr n x = (drop_bit n x) OR (push_bit (32 - n) x)"

text \<open>
  The constants of the rounds are the first 32 fractional bits of the cube roots of the first 64
  primes, and the initial state those of the square roots of the first eight. \<open>root_bits e k n r\<close>
  finds the largest number whose \<open>e\<close>-th power is at most \<open>n\<close>, one bit at a time from bit \<open>k - 1\<close>
  down; \<open>root_fraction\<close> takes that root of \<open>p\<close> scaled by \<open>2 ^ 32\<close>, and the conversion to a word
  drops its integer part.
\<close>

fun root_bits :: "nat \<Rightarrow> nat \<Rightarrow> nat \<Rightarrow> nat \<Rightarrow> nat" where
  "root_bits e 0 n r = r"
| "root_bits e (Suc k) n r = root_bits e k n (if (r + 2 ^ k) ^ e \<le> n then r + 2 ^ k else r)"

definition root_fraction :: "nat \<Rightarrow> nat \<Rightarrow> word32" where
  "root_fraction e p = of_nat (root_bits e 40 (p * 2 ^ (32 * e)) 0)"

definition first_primes :: "nat \<Rightarrow> nat list" where
  "first_primes bound = filter (\<lambda>p. 2 \<le> p \<and> list_all (\<lambda>d. d dvd p \<longrightarrow> d = 1 \<or> d = p) [1..<Suc p]) [0..<bound]"

text \<open>There are 64 primes below 312 and eight below 20.\<close>

definition sha_k :: "word32 list" where
  "sha_k = map (root_fraction 3) (first_primes 312)"

type_synonym sha_state = "word32 \<times> word32 \<times> word32 \<times> word32 \<times> word32 \<times> word32 \<times> word32 \<times> word32"

definition sha_init :: sha_state where
  "sha_init = (case map (root_fraction 2) (first_primes 20) of
     [a, b, c, d, e, f, g, h] \<Rightarrow> (a, b, c, d, e, f, g, h) | _ \<Rightarrow> (0, 0, 0, 0, 0, 0, 0, 0))"

text \<open>Padding: a one bit, zeros up to 56 modulo 64, the length in bits as eight bytes.\<close>

fun big_endian :: "nat \<Rightarrow> nat \<Rightarrow> nat list" where
  "big_endian 0 n = []"
| "big_endian (Suc k) n = big_endian k (n div 256) @ [n mod 256]"

definition sha_pad :: "nat list \<Rightarrow> nat list" where
  "sha_pad bs = bs @ [128] @ replicate ((119 - length bs mod 64) mod 64) 0 @ big_endian 8 (length bs * 8)"

fun be_words :: "nat list \<Rightarrow> word32 list" where
  "be_words (a # b # c # d # rest) = of_nat (((a * 256 + b) * 256 + c) * 256 + d) # be_words rest"
| "be_words _ = []"

fun sha_schedule :: "nat \<Rightarrow> word32 list \<Rightarrow> word32 list" where
  "sha_schedule 0 ws = ws"
| "sha_schedule (Suc n) ws =
     (let t = length ws; w2 = ws ! (t - 2); w15 = ws ! (t - 15);
          s0 = rotr 7 w15 XOR rotr 18 w15 XOR drop_bit 3 w15;
          s1 = rotr 17 w2 XOR rotr 19 w2 XOR drop_bit 10 w2
      in sha_schedule n (ws @ [ws ! (t - 16) + s0 + ws ! (t - 7) + s1]))"

definition sha_round :: "word32 \<times> word32 \<Rightarrow> sha_state \<Rightarrow> sha_state" where
  "sha_round kw st = (case (kw, st) of ((k, w), (a, b, c, d, e, f, g, h)) \<Rightarrow>
     let s1 = rotr 6 e XOR rotr 11 e XOR rotr 25 e;
         ch = (e AND f) XOR ((NOT e) AND g);
         t1 = h + s1 + ch + k + w;
         s0 = rotr 2 a XOR rotr 13 a XOR rotr 22 a;
         maj = (a AND b) XOR (a AND c) XOR (b AND c)
     in (t1 + s0 + maj, a, b, c, d + t1, e, f, g))"

definition sha_add :: "sha_state \<Rightarrow> sha_state \<Rightarrow> sha_state" where
  "sha_add x y = (case (x, y) of ((a, b, c, d, e, f, g, h), (a', b', c', d', e', f', g', h')) \<Rightarrow>
     (a + a', b + b', c + c', d + d', e + e', f + f', g + g', h + h'))"

definition sha_block :: "sha_state \<Rightarrow> nat list \<Rightarrow> sha_state" where
  "sha_block st block = sha_add st (fold sha_round (zip sha_k (sha_schedule 48 (be_words block))) st)"

function sha_blocks :: "sha_state \<Rightarrow> nat list \<Rightarrow> sha_state" where
  "sha_blocks st bs = (if bs = [] then st else sha_blocks (sha_block st (take 64 bs)) (drop 64 bs))"
  by pat_completeness auto
termination by (relation "measure (length \<circ> snd)") auto

declare sha_blocks.simps [simp del]

definition sha_bytes :: "sha_state \<Rightarrow> nat list" where
  "sha_bytes st = (case st of (a, b, c, d, e, f, g, h) \<Rightarrow>
     concat (map (\<lambda>w. big_endian 4 (unat w)) [a, b, c, d, e, f, g, h]))"

definition sha256 :: "string \<Rightarrow> string" where
  "sha256 s = map char_of (sha_bytes (sha_blocks sha_init (sha_pad (map byte_of s))))"

text \<open>The digest of a string is thirty-two bytes, whatever its length.\<close>

lemma length_big_endian [simp]: "length (big_endian k n) = k"
  by (induction k arbitrary: n) simp_all

lemma sha_bytes_length: "length (sha_bytes st) = 32"
  by (simp add: sha_bytes_def split: prod.split)

lemma sha256_length: "length (sha256 s) = 32"
  by (simp add: sha256_def sha_bytes_length)

lemma sha_pad_length: "length (sha_pad bs) mod 64 = 0"
proof -
  define r where "r = length bs mod 64"
  have r: "r < 64" by (simp add: r_def)
  have "(r + 9 + (119 - r) mod 64) mod 64 = 0"
  proof (cases "r \<le> 55")
    case True
    then have "(119 - r) mod 64 = 55 - r" by (simp add: mod_if)
    with True show ?thesis by simp
  next
    case False
    with r have "(119 - r) mod 64 = 119 - r" by simp
    with False r show ?thesis by simp
  qed
  moreover have "length (sha_pad bs) mod 64 = (r + 9 + (119 - r) mod 64) mod 64"
    by (simp add: sha_pad_def r_def algebra_simps mod_add_left_eq [symmetric, of "length bs"])
  ultimately show ?thesis by simp
qed

subsection \<open>HMAC-SHA256\<close>

definition xor_byte :: "nat \<Rightarrow> char \<Rightarrow> char" where
  "xor_byte m c = char_of ((byte_of c :: nat) XOR m)"

definition hmac_key :: "string \<Rightarrow> string" where
  "hmac_key key = (let k = (if length key > 64 then sha256 key else key) in k @ replicate (64 - length k) (char_of (0 :: nat)))"

definition hmac_sha256 :: "string \<Rightarrow> string \<Rightarrow> string" where
  "hmac_sha256 key msg = (let k = hmac_key key in
     sha256 (map (xor_byte 0x5c) k @ sha256 (map (xor_byte 0x36) k @ msg)))"

lemma hmac_length: "length (hmac_sha256 key msg) = 32"
  by (simp add: hmac_sha256_def sha256_length Let_def)

subsection \<open>Hexadecimal\<close>

definition lower_hex_digit :: "nat \<Rightarrow> char" where
  "lower_hex_digit n = (if n < 10 then char_of (48 + n) else char_of (87 + n))"

definition hex_encode :: "string \<Rightarrow> string" where
  "hex_encode s = concat (map (\<lambda>c. [lower_hex_digit (byte_of c div 16), lower_hex_digit (byte_of c mod 16)]) s)"

lemma hex_encode_length: "length (hex_encode s) = 2 * length s"
  by (induction s) (simp_all add: hex_encode_def)

lemma lower_hex_digit_inj: "m < 16 \<Longrightarrow> n < 16 \<Longrightarrow> lower_hex_digit m = lower_hex_digit n \<Longrightarrow> m = n"
  by (auto simp: lower_hex_digit_def split: if_splits dest!: arg_cong [where f = "of_char :: char \<Rightarrow> nat"])

lemma hex_encode_inj: "hex_encode s = hex_encode t \<Longrightarrow> s = t"
proof (induction s arbitrary: t)
  case Nil
  then show ?case by (cases t) (simp_all add: hex_encode_def)
next
  case (Cons c cs)
  then obtain d ds where t: "t = d # ds" by (cases t) (simp_all add: hex_encode_def)
  have "lower_hex_digit (byte_of c div 16) = lower_hex_digit (byte_of d div 16)"
    "lower_hex_digit (byte_of c mod 16) = lower_hex_digit (byte_of d mod 16)" "hex_encode cs = hex_encode ds"
    using Cons.prems unfolding t by (simp_all add: hex_encode_def)
  moreover have "(of_char c :: nat) div 16 < 16" "(of_char d :: nat) div 16 < 16"
    using nat_of_char_less_256 [of c] nat_of_char_less_256 [of d] by (simp_all add: less_mult_imp_div_less)
  moreover have "(of_char c :: nat) mod 16 < 16" "(of_char d :: nat) mod 16 < 16" by simp_all
  ultimately have "(of_char c :: nat) div 16 = of_char d div 16" "(of_char c :: nat) mod 16 = of_char d mod 16"
    using lower_hex_digit_inj by blast+
  then have "(of_char c :: nat) = of_char d" by (metis div_mult_mod_eq)
  with Cons.IH \<open>hex_encode cs = hex_encode ds\<close> t show ?case by simp
qed

end
