(* ===== verification/Service.thy ===== *)
theory Service
  imports StoreSpec TagPolicy LinkPolicy Sha256
begin

section \<open>The change service: internal/service/change.go\<close>

text \<open>
  Every method of \<^verbatim>\<open>ChangeService\<close> over an arbitrary \<^verbatim>\<open>store.ChangeStore\<close> \<open>S\<close>. The clock and the
  generated identifier of one call are its \<open>env\<close>; \<open>parse\<close> is the URL parser of \<open>LinkPolicy\<close>.
  \<^verbatim>\<open>uuid.Must\<close> panics when no identifier can be generated; the panic is the error \<open>uuid_panic\<close>.
  \<^verbatim>\<open>listAll\<close> loops until a page is empty or the total is reached: against a store that misreports
  totals it need not end, so the loop is a partial function whose value None means it runs on.
\<close>

definition uuid_panic :: go_error where
  "uuid_panic = ErrOther ''panic: uuid''"

subsection \<open>Create\<close>

definition validate_create_request ::
  "url_parser \<Rightarrow> create_request \<Rightarrow> bool \<Rightarrow> go_error + (string \<times> tag_map)" where
  "validate_create_request parse req enforce_tag_policy =
     (if cr_user_name req = [] then Inl ErrUserNameRequired
      else if cr_event_type req = [] then Inl ErrEventTypeRequired
      else
        (let event_type = (if enforce_tag_policy
                \<and> equal_fold_ascii (trim_space (cr_event_type req)) event_type_maintenance
              then event_type_maintenance else cr_event_type req);
             tags = (if enforce_tag_policy then normalize_event_tags (cr_tags req) else cr_tags req) in
         case (if enforce_tag_policy then validate_event_tags event_type tags else None) of
           Some err \<Rightarrow> Inl err
         | None \<Rightarrow>
             (case validate_links parse (cr_links req) of
                Some err \<Rightarrow> Inl err
              | None \<Rightarrow> Inr (event_type, tags))))"

definition require_parent :: "'s change_store \<Rightarrow> string \<Rightarrow> ('s, unit) op" where
  "require_parent S parent_id =
     (if parent_id = [] then ret ()
      else and_then (st_get_by_id S parent_id) (\<lambda>parent.
        case parent of None \<Rightarrow> throw ErrParentNotFound | Some _ \<Rightarrow> ret ()))"

definition lookup_duplicate :: "'s change_store \<Rightarrow> string \<Rightarrow> ('s, unit) op" where
  "lookup_duplicate S external_id =
     (if external_id = [] then ret ()
      else and_then (st_get_by_external_id S external_id) (\<lambda>existing.
        case existing of None \<Rightarrow> ret () | Some e \<Rightarrow> throw (ErrDuplicate (Some e))))"

definition new_event :: "env \<Rightarrow> string \<Rightarrow> create_request \<Rightarrow> string \<Rightarrow> tag_map \<Rightarrow> change_event" where
  "new_event en new_id req event_type tags =
     \<lparr>ev_id = new_id, ev_external_id = cr_external_id req, ev_parent_id = cr_parent_id req,
      ev_user_name = cr_user_name req, ev_user_provider = cr_user_provider req,
      ev_user_subject = cr_user_subject req,
      ev_timestamp = (case cr_timestamp req of None \<Rightarrow> env_now en | Some t \<Rightarrow> t),
      ev_event_type = event_type, ev_description = cr_description req,
      ev_long_description = cr_long_description req, ev_links = cr_links req, ev_tags = tags,
      ev_created_at = env_now en\<rparr>"

definition svc_create_with ::
  "url_parser \<Rightarrow> 's change_store \<Rightarrow> bool \<Rightarrow> env \<Rightarrow> create_request \<Rightarrow> ('s, change_event) op" where
  "svc_create_with parse S enforce_tag_policy en req =
     and_then (lookup_duplicate S (cr_external_id req)) (\<lambda>_.
       case validate_create_request parse req enforce_tag_policy of
         Inl err \<Rightarrow> throw err
       | Inr (event_type, tags) \<Rightarrow>
           and_then (require_parent S (cr_parent_id req)) (\<lambda>_.
             case env_uuid en of
               None \<Rightarrow> throw uuid_panic
             | Some new_id \<Rightarrow> st_create S (new_event en new_id req event_type tags)))"

definition svc_create :: "url_parser \<Rightarrow> 's change_store \<Rightarrow> env \<Rightarrow> create_request \<Rightarrow> ('s, change_event) op" where
  "svc_create parse S en req = svc_create_with parse S True en req"

subsection \<open>Reads\<close>

definition svc_get_by_id :: "'s change_store \<Rightarrow> string \<Rightarrow> ('s, change_event) op" where
  "svc_get_by_id S i = and_then (st_get_by_id S i) (\<lambda>event.
     case event of None \<Rightarrow> throw ErrEventNotFound | Some e \<Rightarrow> ret e)"

definition svc_list :: "'s change_store \<Rightarrow> list_params \<Rightarrow> ('s, list_result) op" where
  "svc_list S p = st_list S (p\<lparr>lp_limit := effective_limit (lp_limit p)\<rparr>)"

definition svc_list_current :: "'s change_store \<Rightarrow> current_params \<Rightarrow> ('s, list_result) op" where
  "svc_list_current S q = st_list_current S (q\<lparr>cp_limit := effective_limit (cp_limit q)\<rparr>)"

definition svc_get_annotations :: "'s change_store \<Rightarrow> string \<Rightarrow> ('s, event_annotations) op" where
  "svc_get_annotations S i = st_get_annotations S i"

definition svc_get_annotations_batch :: "'s change_store \<Rightarrow> string list \<Rightarrow> ('s, string \<rightharpoonup> event_annotations) op" where
  "svc_get_annotations_batch S ids = st_get_annotations_batch S ids"

definition svc_add_links_as ::
  "url_parser \<Rightarrow> 's change_store \<Rightarrow> env \<Rightarrow> string \<Rightarrow> user_identity \<Rightarrow> event_link list \<Rightarrow> ('s, change_event) op" where
  "svc_add_links_as parse S en event_id user links =
     (if links = [] then throw ErrLinksRequired
      else svc_create parse S en (zero_create_request\<lparr>cr_parent_id := event_id,
        cr_user_name := ui_name user, cr_user_provider := ui_provider user,
        cr_user_subject := ui_subject user, cr_event_type := event_type_link,
        cr_description := ''added external links'', cr_links := links\<rparr>))"

definition svc_add_links ::
  "url_parser \<Rightarrow> 's change_store \<Rightarrow> env \<Rightarrow> string \<Rightarrow> string \<Rightarrow> event_link list \<Rightarrow> ('s, change_event) op" where
  "svc_add_links parse S en event_id user_name links =
     svc_add_links_as parse S en event_id \<lparr>ui_name = user_name, ui_provider = [], ui_subject = []\<rparr> links"

text \<open>The loop of \<^verbatim>\<open>listAll\<close>; \<open>events\<close> is what the earlier pages gave.\<close>

partial_function (option) list_all_loop ::
  "'s change_store \<Rightarrow> list_params \<Rightarrow> change_event list \<Rightarrow> 's \<Rightarrow> ((go_error + change_event list) \<times> 's) option" where
  "list_all_loop S p events s =
     (case svc_list S p s of (r, s') \<Rightarrow>
        (case r of
           Inl err \<Rightarrow> Some (Inl err, s')
         | Inr result \<Rightarrow>
             if lr_events result = []
                \<or> lr_total_count result \<le> lp_offset p + int (length (lr_events result))
             then Some (Inr (events @ lr_events result), s')
             else list_all_loop S (p\<lparr>lp_offset := lp_offset p + int (length (lr_events result))\<rparr>)
                    (events @ lr_events result) s'))"

definition svc_list_all ::
  "'s change_store \<Rightarrow> list_params \<Rightarrow> 's \<Rightarrow> ((go_error + change_event list) \<times> 's) option" where
  "svc_list_all S p s = list_all_loop S (p\<lparr>lp_limit := max_limit\<rparr>) [] s"

subsection \<open>Operations\<close>

definition operation_identity :: "change_event option \<Rightarrow> (string \<times> string) option" where
  "operation_identity event =
     (case event of
        None \<Rightarrow> None
      | Some e \<Rightarrow>
          (if ev_parent_id e \<noteq> [] \<or> tag_get (ev_tags e) ''phase'' \<noteq> ''start'' then None
           else if tag_get (ev_tags e) ''change_id'' \<noteq> [] then Some (''change_id'', tag_get (ev_tags e) ''change_id'')
           else if tag_get (ev_tags e) ''deploy_id'' \<noteq> [] then Some (''deploy_id'', tag_get (ev_tags e) ''deploy_id'')
           else None))"

definition by_oldest :: "change_event list \<Rightarrow> change_event list" where
  "by_oldest = sort_key (\<lambda>e. (ev_timestamp e, ev_id e))"

definition closure_params :: "change_event \<Rightarrow> string \<Rightarrow> string \<Rightarrow> list_params" where
  "closure_params parent key val = zero_list_params\<lparr>lp_event_type := ev_event_type parent, lp_top_level := True,
     lp_tags := [(key, val), (''phase'', ''end'')]\<rparr>"

definition svc_get_activity ::
  "'s change_store \<Rightarrow> string \<Rightarrow> 's \<Rightarrow> ((go_error + change_event list) \<times> 's) option" where
  "svc_get_activity S event_id s =
     (case svc_get_by_id S event_id s of
        (Inl err, s1) \<Rightarrow> Some (Inl err, s1)
      | (Inr parent, s1) \<Rightarrow>
          (case svc_list_all S (zero_list_params\<lparr>lp_parent_id := event_id\<rparr>) s1 of
             None \<Rightarrow> None
           | Some (Inl err, s2) \<Rightarrow> Some (Inl err, s2)
           | Some (Inr activity, s2) \<Rightarrow>
               (case operation_identity (Some parent) of
                  None \<Rightarrow> Some (Inr (by_oldest activity), s2)
                | Some (key, val) \<Rightarrow>
                    (case svc_list_all S (closure_params parent key val) s2 of
                       None \<Rightarrow> None
                     | Some (Inl err, s3) \<Rightarrow> Some (Inl err, s3)
                     | Some (Inr closures, s3) \<Rightarrow> Some (Inr (by_oldest (activity @ closures)), s3)))))"

definition svc_operation_state :: "'s change_store \<Rightarrow> change_event option \<Rightarrow> ('s, string) op" where
  "svc_operation_state S event =
     (case (operation_identity event, event) of
        (Some (key, val), Some e) \<Rightarrow>
          and_then (svc_list_current S (zero_current_params\<lparr>cp_event_type := ev_event_type e,
              cp_correlation_key := key, cp_correlation_value := val, cp_limit := 1\<rparr>)) (\<lambda>result.
            ret (if 0 < lr_total_count result then operation_state_open else operation_state_closed))
      | _ \<Rightarrow> ret [])"

definition operation_close_external_id :: "string \<Rightarrow> string \<Rightarrow> string \<Rightarrow> string" where
  "operation_close_external_id event_type correlation_key correlation_value =
     ''pcr:close:'' @ hex_encode (sha256 (event_type @ [CHR 0x00] @ correlation_key @ [CHR 0x00] @ correlation_value))"

definition close_description :: "change_event \<Rightarrow> string \<Rightarrow> string" where
  "close_description start description =
     (if trim_space description = [] then ev_description start @ '' completed'' else trim_space description)"

definition close_request :: "change_event \<Rightarrow> string \<Rightarrow> string \<Rightarrow> user_identity \<Rightarrow> string \<Rightarrow> create_request" where
  "close_request start key val user description = zero_create_request\<lparr>
     cr_external_id := operation_close_external_id (ev_event_type start) key val,
     cr_user_name := ui_name user, cr_user_provider := ui_provider user, cr_user_subject := ui_subject user,
     cr_event_type := ev_event_type start, cr_description := close_description start description,
     cr_tags := AList.update ''phase'' ''end'' (AList.update key val (ev_tags start))\<rparr>"

text \<open>\<^verbatim>\<open>if errors.Is(err, store.ErrDuplicate) { return created, nil }\<close>: the event may be nil.\<close>

definition accept_duplicate :: "('s, change_event) op \<Rightarrow> ('s, change_event option) op" where
  "accept_duplicate m s =
     (case m s of
        (Inl (ErrDuplicate existing), s') \<Rightarrow> (Inr existing, s')
      | (Inl err, s') \<Rightarrow> (Inl err, s')
      | (Inr e, s') \<Rightarrow> (Inr (Some e), s'))"

definition svc_close_operation_as ::
  "url_parser \<Rightarrow> 's change_store \<Rightarrow> env \<Rightarrow> string \<Rightarrow> user_identity \<Rightarrow> string \<Rightarrow> ('s, change_event option) op" where
  "svc_close_operation_as parse S en event_id user description =
     (if ui_name user = [] then throw ErrUserNameRequired
      else and_then (svc_get_by_id S event_id) (\<lambda>start.
        case operation_identity (Some start) of
          None \<Rightarrow> throw ErrOperationNotClosable
        | Some (key, val) \<Rightarrow>
            and_then (svc_operation_state S (Some start)) (\<lambda>state.
              if state \<noteq> operation_state_open then throw ErrOperationClosed
              else accept_duplicate (svc_create_with parse S False en (close_request start key val user description)))))"

definition svc_close_operation ::
  "url_parser \<Rightarrow> 's change_store \<Rightarrow> env \<Rightarrow> string \<Rightarrow> string \<Rightarrow> string \<Rightarrow> ('s, change_event option) op" where
  "svc_close_operation parse S en event_id user_name description =
     svc_close_operation_as parse S en event_id \<lparr>ui_name = user_name, ui_provider = [], ui_subject = []\<rparr> description"

subsection \<open>Toggles\<close>

definition missing_event :: "('s, 'a) op \<Rightarrow> ('s, 'a) op" where
  "missing_event m s = (case m s of (Inl ErrNotFound, s') \<Rightarrow> (Inl ErrEventNotFound, s') | r \<Rightarrow> r)"

definition svc_toggle_star_as :: "'s change_store \<Rightarrow> env \<Rightarrow> string \<Rightarrow> user_identity \<Rightarrow> ('s, change_event) op" where
  "svc_toggle_star_as S en event_id user = missing_event (st_toggle_star S en event_id user)"

definition svc_toggle_star :: "'s change_store \<Rightarrow> env \<Rightarrow> string \<Rightarrow> string \<Rightarrow> ('s, change_event) op" where
  "svc_toggle_star S en event_id user_name =
     svc_toggle_star_as S en event_id \<lparr>ui_name = user_name, ui_provider = [], ui_subject = []\<rparr>"

definition svc_toggle_alert_as :: "'s change_store \<Rightarrow> env \<Rightarrow> string \<Rightarrow> user_identity \<Rightarrow> ('s, change_event) op" where
  "svc_toggle_alert_as S en event_id user = missing_event (st_toggle_alert S en event_id user)"

definition svc_toggle_alert :: "'s change_store \<Rightarrow> env \<Rightarrow> string \<Rightarrow> string \<Rightarrow> ('s, change_event) op" where
  "svc_toggle_alert S en event_id user_name =
     svc_toggle_alert_as S en event_id \<lparr>ui_name = user_name, ui_provider = [], ui_subject = []\<rparr>"

end
