(* ===== verification/ServiceWrites.thy ===== *)
theory ServiceWrites
  imports Service
begin

section \<open>The service writes through any change store\<close>

text \<open>
  The lemmas of \<^verbatim>\<open>Create\<close>, \<^verbatim>\<open>AddLinks\<close> and the toggles, proved once for every implementation of the
  contract \<open>change_store\<close>: what a successful call appends, and that a failing one appends nothing.
\<close>

lemma find_by_id_Some: "find_by_id reg i = Some e \<Longrightarrow> e \<in> set reg \<and> ev_id e = i"
  by (auto simp: find_by_id_def dest!: find_SomeD)

lemma find_by_id_ids: "(find_by_id reg i \<noteq> None) = (i \<in> registry_ids reg)"
  by (auto simp: find_by_id_def registry_ids_def find_None_iff)

lemma find_by_external_id_Some: "find_by_external_id reg x = Some e \<Longrightarrow> e \<in> set reg \<and> ev_external_id e = x"
  by (auto simp: find_by_external_id_def dest!: find_SomeD)

lemma find_by_external_id_append:
  "find_by_external_id (reg @ [e]) x = (case find_by_external_id reg x of
      None \<Rightarrow> if ev_external_id e = x then Some e else None | Some y \<Rightarrow> Some y)"
  by (simp add: find_by_external_id_def find_append split: option.split)

lemma validate_tags_distinct:
  "validate_create_request parse req b = Inr (event_type, tags) \<Longrightarrow> distinct (map fst (cr_tags req)) \<Longrightarrow>
     distinct (map fst tags)"
  by (auto simp: validate_create_request_def Let_def normalize_keys split: if_splits option.splits)

lemma validate_create_request_error:
  "validate_create_request parse req b = Inl err \<Longrightarrow>
     err \<in> {ErrUserNameRequired, ErrEventTypeRequired, ErrInvalidLink} \<union> range ErrInvalidTags"
  by (auto simp: validate_create_request_def Let_def dest: validate_links_error validate_event_tags_error
      split: if_splits option.splits)

context change_store
begin

lemma lookup_duplicate_Inr:
  assumes "inv s" "lookup_duplicate S x s = (Inr u, s')"
  shows "inv s' \<and> reg s' = reg s \<and> (x \<noteq> [] \<longrightarrow> find_by_external_id (reg s) x = None)"
proof (cases "x = []")
  case True
  with assms show ?thesis by (simp add: lookup_duplicate_def run_simps)
next
  case False
  with assms(2) obtain y where "st_get_by_external_id S x s = (Inr y, s')" "y = None"
    by (auto simp: lookup_duplicate_def run_simps split: option.splits elim!: and_then_InrE)
  with get_by_external_id [OF assms(1) False] show ?thesis by auto
qed

lemma lookup_duplicate_Inl:
  assumes "inv s" "lookup_duplicate S x s = (Inl err, s')"
  shows "inv s' \<and> reg s' = reg s \<and>
    (\<forall>y. err = ErrDuplicate y \<longrightarrow> x \<noteq> [] \<and> y \<noteq> None \<and> y = find_by_external_id (reg s) x)"
proof (cases "x = []")
  case True
  with assms show ?thesis by (simp add: lookup_duplicate_def run_simps)
next
  case False
  from assms(2) False consider "st_get_by_external_id S x s = (Inl err, s')"
    | y where "st_get_by_external_id S x s = (Inr (Some y), s')" "err = ErrDuplicate (Some y)"
    by (auto simp: lookup_duplicate_def run_simps split: option.splits elim!: and_then_InlE)
  then show ?thesis
  proof cases
    case 1
    from get_by_external_id [OF assms(1) False 1] show ?thesis by auto
  next
    case 2
    from get_by_external_id [OF assms(1) False 2(1)] have "inv s'" "reg s' = reg s"
      "find_by_external_id (reg s) x = Some y" by simp_all
    with 2(2) False show ?thesis by simp
  qed
qed

lemma require_parent_Inr:
  assumes "inv s" "require_parent S p s = (Inr u, s')"
  shows "inv s' \<and> reg s' = reg s \<and> (p \<noteq> [] \<longrightarrow> p \<in> registry_ids (reg s))"
proof (cases "p = []")
  case True
  with assms show ?thesis by (simp add: require_parent_def run_simps)
next
  case False
  with assms(2) obtain y where "st_get_by_id S p s = (Inr (Some y), s')"
    by (auto simp: require_parent_def run_simps split: option.splits elim!: and_then_InrE)
  with get_by_id [OF assms(1)] show ?thesis by (auto simp flip: find_by_id_ids)
qed

lemma require_parent_Inl:
  assumes "inv s" "require_parent S p s = (Inl err, s')"
  shows "inv s' \<and> reg s' = reg s \<and> (err = ErrParentNotFound \<longrightarrow> p \<noteq> [] \<and> p \<notin> registry_ids (reg s))
    \<and> (\<forall>y. err \<noteq> ErrDuplicate y)"
proof (cases "p = []")
  case True
  with assms show ?thesis by (simp add: require_parent_def run_simps)
next
  case False
  from assms(2) False consider "st_get_by_id S p s = (Inl err, s')"
    | "st_get_by_id S p s = (Inr None, s')" "err = ErrParentNotFound"
    by (auto simp: require_parent_def run_simps split: option.splits elim!: and_then_InlE)
  then show ?thesis
  proof cases
    case 1
    from get_by_id [OF assms(1) 1] show ?thesis by auto
  next
    case 2
    from get_by_id [OF assms(1) 2(1)] have "inv s'" "reg s' = reg s" "find_by_id (reg s) p = None" by simp_all
    with 2(2) False find_by_id_ids [of "reg s" p] show ?thesis by simp
  qed
qed

lemma create_with_Inr:
  assumes inv: "inv s" and d: "distinct (map fst (cr_tags req))" and u: "env_uuid en \<noteq> Some []"
    and run: "svc_create_with parse S b en req s = (Inr e, s')"
  obtains i event_type tags where "validate_create_request parse req b = Inr (event_type, tags)"
    "env_uuid en = Some i" "inv s'" "e = stored_event (new_event en i req event_type tags)"
    "reg s' = reg s @ [e]" "cr_external_id req \<noteq> [] \<Longrightarrow> find_by_external_id (reg s) (cr_external_id req) = None"
    "cr_parent_id req \<noteq> [] \<Longrightarrow> cr_parent_id req \<in> registry_ids (reg s)"
proof -
  from run obtain s1 s2 event_type tags i where l: "lookup_duplicate S (cr_external_id req) s = (Inr (), s1)"
      and v: "validate_create_request parse req b = Inr (event_type, tags)"
      and p: "require_parent S (cr_parent_id req) s1 = (Inr (), s2)" and i: "env_uuid en = Some i"
      and c: "st_create S (new_event en i req event_type tags) s2 = (Inr e, s')"
    by (auto simp: svc_create_with_def run_simps split: sum.splits option.splits prod.splits elim!: and_then_InrE)
  note L = lookup_duplicate_Inr [OF inv l]
  note P = require_parent_Inr [OF conjunct1 [OF L] p]
  have "event_ok (new_event en i req event_type tags)"
    using u i validate_tags_distinct [OF v d] by (simp add: event_ok_def new_event_def)
  from create_Inr [OF conjunct1 [OF P] this c] L P that [OF v i] show thesis by simp
qed

lemma create_with_Inl:
  assumes inv: "inv s" and d: "distinct (map fst (cr_tags req))" and u: "env_uuid en \<noteq> Some []"
    and run: "svc_create_with parse S b en req s = (Inl err, s')"
  shows "inv s' \<and> reg s' = reg s \<and> (\<forall>y. err = ErrDuplicate y \<longrightarrow> cr_external_id req \<noteq> [] \<and>
     y \<noteq> None \<and> y = find_by_external_id (reg s) (cr_external_id req))"
proof -
  let ?rest = "\<lambda>_. case validate_create_request parse req b of
         Inl err \<Rightarrow> throw err
       | Inr (event_type, tags) \<Rightarrow>
           and_then (require_parent S (cr_parent_id req)) (\<lambda>_.
             case env_uuid en of
               None \<Rightarrow> throw uuid_panic
             | Some new_id \<Rightarrow> st_create S (new_event en new_id req event_type tags))"
  from run consider "lookup_duplicate S (cr_external_id req) s = (Inl err, s')"
    | s1 where "lookup_duplicate S (cr_external_id req) s = (Inr (), s1)" "?rest () s1 = (Inl err, s')"
    by (auto simp: svc_create_with_def elim!: and_then_InlE)
  then show ?thesis
  proof cases
    case 1
    then show ?thesis using lookup_duplicate_Inl [OF inv] by blast
  next
    case 2
    note L = lookup_duplicate_Inr [OF inv 2(1)]
    show ?thesis
    proof (cases "validate_create_request parse req b")
      case (Inl verr)
      then show ?thesis using L 2(2) validate_create_request_error [OF Inl] by (auto simp: run_simps)
    next
      case (Inr et)
      obtain event_type tags where et: "et = (event_type, tags)" by fastforce
      from 2(2) Inr et consider "require_parent S (cr_parent_id req) s1 = (Inl err, s')"
        | s2 where "require_parent S (cr_parent_id req) s1 = (Inr (), s2)" "env_uuid en = None" "err = uuid_panic" "s' = s2"
        | s2 i where "require_parent S (cr_parent_id req) s1 = (Inr (), s2)" "env_uuid en = Some i"
            "st_create S (new_event en i req event_type tags) s2 = (Inl err, s')"
        by (auto simp: run_simps split: option.splits elim!: and_then_InlE)
      then show ?thesis
      proof cases
        case 1
        then show ?thesis using require_parent_Inl [of s1] L by auto
      next
        case 2
        then show ?thesis using require_parent_Inr [of s1] L by (auto simp: uuid_panic_def)
      next
        case 3
        note P = require_parent_Inr [OF conjunct1 [OF L] 3(1)]
        have "event_ok (new_event en i req event_type tags)"
          using u 3(2) validate_tags_distinct [OF Inr [unfolded et] d] by (simp add: event_ok_def new_event_def)
        from create_Inl [OF conjunct1 [OF P] this 3(3)] L P show ?thesis by (simp add: new_event_def)
      qed
    qed
  qed
qed

text \<open>Retrying with the same external identifier finds the stored event and stores nothing.\<close>

lemma create_again:
  assumes inv: "inv s" and known: "find_by_external_id (reg s) (cr_external_id req) = Some e" "cr_external_id req \<noteq> []"
    and run: "svc_create_with parse S b en req s = (r, s')"
  shows "inv s' \<and> reg s' = reg s \<and> (r = Inl (ErrDuplicate (Some e)) \<or> (\<exists>msg. r = Inl (ErrOther msg)))"
proof (cases "st_get_by_external_id S (cr_external_id req) s")
  case (Pair q s1)
  note G = get_by_external_id [OF inv known(2) Pair]
  show ?thesis
  proof (cases q)
    case (Inl err)
    then have "r = Inl err" "s' = s1" using run Pair known(2)
      by (simp_all add: svc_create_with_def lookup_duplicate_def and_then_def)
    with G Inl show ?thesis by auto
  next
    case (Inr y)
    then have "y = Some e" using G known(1) by simp
    then have "r = Inl (ErrDuplicate (Some e))" "s' = s1" using run Pair known(2) Inr
      by (simp_all add: svc_create_with_def lookup_duplicate_def and_then_def throw_def)
    with G show ?thesis by auto
  qed
qed

subsection \<open>Toggles\<close>

lemma missing_event_Inr: "missing_event m s = (Inr e, s') \<longleftrightarrow> m s = (Inr e, s')"
  by (auto simp: missing_event_def split: prod.splits sum.splits go_error.splits)

lemma missing_event_Inl: "missing_event m s = (Inl err, s') \<Longrightarrow>
    \<exists>err'. m s = (Inl err', s') \<and> err = (if err' = ErrNotFound then ErrEventNotFound else err')"
  by (auto simp: missing_event_def split: prod.splits sum.splits go_error.splits)

lemma toggle_star_as_Inr:
  assumes "inv s" "env_uuid en \<noteq> Some []" "svc_toggle_star_as S en i user s = (Inr e, s')"
  shows "inv s' \<and> i \<in> registry_ids (reg s) \<and> reg s' = reg s @ [e]
    \<and> toggled starred event_type_star event_type_unstar (reg s) i user e"
  using toggle_star_Inr [OF assms(1,2)] assms(3) by (simp add: svc_toggle_star_as_def missing_event_Inr)

lemma toggle_alert_as_Inr:
  assumes "inv s" "env_uuid en \<noteq> Some []" "svc_toggle_alert_as S en i user s = (Inr e, s')"
  shows "inv s' \<and> i \<in> registry_ids (reg s) \<and> reg s' = reg s @ [e]
    \<and> toggled alerted event_type_alert event_type_clear_alert (reg s) i user e"
  using toggle_alert_Inr [OF assms(1,2)] assms(3) by (simp add: svc_toggle_alert_as_def missing_event_Inr)

lemma ids_nonempty: "inv s \<Longrightarrow> i \<in> registry_ids (reg s) \<Longrightarrow> i \<noteq> []"
  using reg_ok [of s] by (auto simp: registry_ok_def registry_ids_def)

text \<open>A star toggle flips the star of that event and changes no other derived annotation.\<close>

lemma star_flips:
  assumes "inv s" "env_uuid en \<noteq> Some []" "svc_toggle_star_as S en i user s = (Inr e, s')"
  shows "starred (reg s') j = (if j = i then \<not> starred (reg s) i else starred (reg s) j)
    \<and> alerted (reg s') j = alerted (reg s) j"
proof -
  note T = toggle_star_as_Inr [OF assms]
  then have "i \<noteq> []" using ids_nonempty [OF assms(1)] by blast
  with T show ?thesis by (auto simp: toggled_def starred_append alerted_append is_child_def)
qed

lemma alert_flips:
  assumes "inv s" "env_uuid en \<noteq> Some []" "svc_toggle_alert_as S en i user s = (Inr e, s')"
  shows "alerted (reg s') j = (if j = i then \<not> alerted (reg s) i else alerted (reg s) j)
    \<and> starred (reg s') j = starred (reg s) j"
proof -
  note T = toggle_alert_as_Inr [OF assms]
  then have "i \<noteq> []" using ids_nonempty [OF assms(1)] by blast
  with T show ?thesis by (auto simp: toggled_def starred_append alerted_append is_child_def)
qed

lemma toggle_star_as_Inl:
  assumes "inv s" "env_uuid en \<noteq> Some []" "svc_toggle_star_as S en i user s = (Inl err, s')"
  shows "inv s' \<and> reg s' = reg s \<and> err \<noteq> ErrNotFound"
proof -
  obtain err' where m: "st_toggle_star S en i user s = (Inl err', s')"
      and err: "err = (if err' = ErrNotFound then ErrEventNotFound else err')"
    using missing_event_Inl [OF assms(3) [unfolded svc_toggle_star_as_def]] by blast
  from toggle_star_Inl [OF assms(1,2) m] err show ?thesis by auto
qed

lemma toggle_alert_as_Inl:
  assumes "inv s" "env_uuid en \<noteq> Some []" "svc_toggle_alert_as S en i user s = (Inl err, s')"
  shows "inv s' \<and> reg s' = reg s \<and> err \<noteq> ErrNotFound"
proof -
  obtain err' where m: "st_toggle_alert S en i user s = (Inl err', s')"
      and err: "err = (if err' = ErrNotFound then ErrEventNotFound else err')"
    using missing_event_Inl [OF assms(3) [unfolded svc_toggle_alert_as_def]] by blast
  from toggle_alert_Inl [OF assms(1,2) m] err show ?thesis by auto
qed

end

end
