(* ===== verification/ServiceOperations.thy ===== *)
theory ServiceOperations
  imports ServiceWrites
begin

section \<open>Operations, their lifecycle and the activity of an event, through any change store\<close>

text \<open>
  \<^verbatim>\<open>OperationState\<close> answers open exactly while no end event of the operation exists;
  \<^verbatim>\<open>CloseOperationAs\<close> appends that end event once; \<^verbatim>\<open>listAll\<close> ends and collects every page, and
  \<^verbatim>\<open>GetActivity\<close> returns the children and closures in chronological order.
\<close>

subsection \<open>Operations in the registry\<close>

lemma tag_get_Some: "x \<noteq> [] \<Longrightarrow> (tag_get m k = x) = (map_of m k = Some x)"
  by (auto simp: tag_get_def split: option.splits)

lemma identity_in_phase:
  "operation_identity (Some e) = map_option (\<lambda>(t, k, v). (k, v)) (operation_in_phase ''start'' e)"
proof -
  have "(tag_get (ev_tags e) ''phase'' = ''start'') = (map_of (ev_tags e) ''phase'' = Some ''start'')"
    by (rule tag_get_Some) simp
  then show ?thesis
    by (simp add: operation_identity_def operation_in_phase_def correlation_def)
qed

lemma in_phase_type: "operation_in_phase ph e = Some (t, k, v) \<Longrightarrow>
    t = ev_event_type e \<and> correlation (ev_tags e) = Some (k, v) \<and> ev_parent_id e = []"
  by (auto simp: operation_in_phase_def split: if_splits)

lemma correlation_nonempty: "correlation tags = Some (k, v) \<Longrightarrow> k \<noteq> [] \<and> v \<noteq> []"
  by (auto simp: correlation_def split: if_splits)

definition operation_query :: "string \<Rightarrow> string \<Rightarrow> string \<Rightarrow> current_params" where
  "operation_query t k v = zero_current_params\<lparr>cp_event_type := t, cp_correlation_key := k,
     cp_correlation_value := v, cp_limit := 1\<rparr>"

lemma visible_in_query:
  assumes "t \<noteq> []" "k \<noteq> []" "v \<noteq> []"
  shows "visible_in ((operation_query t k v)\<lparr>cp_limit := n\<rparr>) d \<longleftrightarrow>
    ev_event_type d = t \<and> correlation (ev_tags d) = Some (k, v)"
  using assms by (auto simp: visible_in_def operation_query_def zero_current_params_def)

lemma earliest_exists:
  fixes f :: "'a \<Rightarrow> 'b :: linorder"
  assumes "x \<in> set xs" "P x"
  shows "\<exists>y \<in> set xs. P y \<and> (\<forall>z \<in> set xs. P z \<longrightarrow> f y \<le> f z)"
proof -
  let ?A = "f ` {z \<in> set xs. P z}"
  have "finite ?A" "?A \<noteq> {}" using assms by auto
  then have "Min ?A \<in> ?A" by (rule Min_in)
  then obtain y where y: "y \<in> set xs" "P y" "f y = Min ?A" by auto
  have "f y \<le> f z" if "z \<in> set xs" "P z" for z unfolding y(3) using that by (intro Min_le) auto
  with y show ?thesis by blast
qed

text \<open>An operation with a start has an active representative exactly while it has not ended.\<close>

lemma active_iff_not_ended:
  assumes e: "e \<in> set reg" and op: "operation_in_phase ''start'' e = Some (t, k, v)" and t: "t \<noteq> []"
  shows "(\<exists>d \<in> set reg. represents_active reg d \<and> visible_in ((operation_query t k v)\<lparr>cp_limit := n\<rparr>) d)
    \<longleftrightarrow> \<not> operation_ended reg (t, k, v)"
proof -
  have kv: "k \<noteq> []" "v \<noteq> []" using in_phase_type [OF op] correlation_nonempty by blast+
  note vis = visible_in_query [OF t kv, of n]
  show ?thesis
  proof
    assume "\<exists>d \<in> set reg. represents_active reg d \<and> visible_in ((operation_query t k v)\<lparr>cp_limit := n\<rparr>) d"
    then obtain d where act: "represents_active reg d" and d: "ev_event_type d = t" "correlation (ev_tags d) = Some (k, v)"
      unfolding vis by blast
    from act obtain o' where o': "operation_in_phase ''start'' d = Some o'" and live: "\<not> operation_ended reg o'"
      unfolding represents_active_def by (cases "operation_in_phase ''start'' d") simp_all
    obtain t' k' v' where "o' = (t', k', v')" by (metis prod_cases3)
    with in_phase_type [OF o' [unfolded this]] d have "o' = (t, k, v)" by simp
    with live show "\<not> operation_ended reg (t, k, v)" by simp
  next
    assume live: "\<not> operation_ended reg (t, k, v)"
    obtain d where d: "d \<in> set reg" "operation_in_phase ''start'' d = Some (t, k, v)"
      and first: "\<forall>z \<in> set reg. operation_in_phase ''start'' z = Some (t, k, v) \<longrightarrow>
        (ev_timestamp d, ev_id d) \<le> (ev_timestamp z, ev_id z)"
      using earliest_exists [where P = "\<lambda>z. operation_in_phase ''start'' z = Some (t, k, v)"
          and f = "\<lambda>d. (ev_timestamp d, ev_id d)", OF e op] by blast
    have "represents_active reg d"
      unfolding represents_active_def d(2) option.case list_all_iff using live first by blast
    moreover have "visible_in ((operation_query t k v)\<lparr>cp_limit := n\<rparr>) d"
      unfolding vis using in_phase_type [OF d(2)] by simp
    ultimately show "\<exists>d \<in> set reg. represents_active reg d
        \<and> visible_in ((operation_query t k v)\<lparr>cp_limit := n\<rparr>) d" using d(1) by blast
  qed
qed

text \<open>The event a close appends ends the operation of its start.\<close>

lemma close_tags_correlation:
  assumes "correlation tags = Some (k, v)"
  shows "correlation (AList.update ''phase'' ''end'' (AList.update k v tags)) = Some (k, v)"
  using assms by (auto simp: correlation_def split: if_splits)

lemma close_event_in_phase:
  assumes op: "operation_in_phase ''start'' start = Some (t, k, v)"
  shows "operation_in_phase ''end'' (stored_event (new_event en i (close_request start k v user d) (ev_event_type start)
     (cr_tags (close_request start k v user d)))) = Some (t, k, v)"
proof -
  note T = in_phase_type [OF op]
  have c: "correlation (AList.update ''phase'' ''end'' (AList.update k v (ev_tags start))) = Some (k, v)"
    using T by (intro close_tags_correlation) simp
  have p: "map_of (AList.update ''phase'' ''end'' (AList.update k v (ev_tags start))) ''phase'' = Some ''end''"
    by simp
  show ?thesis
    using T c p by (simp add: operation_in_phase_def stored_event_def new_event_def close_request_def
        zero_create_request_def del: map_of_update)
qed

lemma operation_ended_append:
  "operation_ended (reg @ [e]) op = (operation_ended reg op \<or> operation_in_phase ''end'' e = Some op)"
  by (auto simp: operation_ended_def)

lemma close_request_valid:
  assumes "ui_name user \<noteq> []" "ev_event_type start \<noteq> []"
  shows "validate_create_request parse (close_request start k v user d) False
    = Inr (ev_event_type start, cr_tags (close_request start k v user d))"
  using assms by (simp add: validate_create_request_def close_request_def zero_create_request_def)

text \<open>Only the end event of an operation holds its closing identifier.\<close>

definition close_id_ok :: "registry \<Rightarrow> string \<times> string \<times> string \<Rightarrow> bool" where
  "close_id_ok reg op = (case op of (t, k, v) \<Rightarrow> list_all (\<lambda>e.
     ev_external_id e = operation_close_external_id t k v \<longrightarrow> operation_in_phase ''end'' e = Some (t, k, v)) reg)"

lemma close_id_nonempty [simp]: "operation_close_external_id t k v \<noteq> []"
  by (simp add: operation_close_external_id_def)

lemma close_request_sel [simp]:
  "cr_external_id (close_request start k v user d) = operation_close_external_id (ev_event_type start) k v"
  "cr_parent_id (close_request start k v user d) = []"
  "cr_tags (close_request start k v user d) = AList.update ''phase'' ''end'' (AList.update k v (ev_tags start))"
  by (simp_all add: close_request_def zero_create_request_def)

context change_store
begin

lemma get_event_Inr:
  assumes "inv s" "svc_get_by_id S i s = (Inr e, s')"
  shows "inv s' \<and> reg s' = reg s \<and> find_by_id (reg s) i = Some e"
proof -
  from assms(2) have "st_get_by_id S i s = (Inr (Some e), s')"
    by (auto simp: svc_get_by_id_def run_simps split: option.splits elim!: and_then_InrE)
  from get_by_id [OF assms(1) this] show ?thesis by simp
qed

lemma get_event_Inl:
  assumes "inv s" "svc_get_by_id S i s = (Inl err, s')"
  shows "inv s' \<and> reg s' = reg s \<and> (err = ErrEventNotFound \<and> i \<notin> registry_ids (reg s) \<or> (\<exists>m. err = ErrOther m))"
proof -
  from assms(2) consider "st_get_by_id S i s = (Inl err, s')" | "st_get_by_id S i s = (Inr None, s')" "err = ErrEventNotFound"
    by (auto simp: svc_get_by_id_def run_simps split: option.splits elim!: and_then_InlE)
  then show ?thesis
  proof cases
    case 1
    from get_by_id [OF assms(1) 1] show ?thesis by auto
  next
    case 2
    from get_by_id [OF assms(1) 2(1)] have "inv s'" "reg s' = reg s" "find_by_id (reg s) i = None" by simp_all
    with 2(2) find_by_id_ids [of "reg s" i] show ?thesis by simp
  qed
qed

lemma operation_state_run:
  assumes inv: "inv s" and op: "operation_in_phase ''start'' e = Some (t, k, v)"
    and run: "svc_operation_state S (Some e) s = (r, s')"
  shows "inv s' \<and> reg s' = reg s \<and> (\<forall>err. r = Inl err \<longrightarrow> (\<exists>m. err = ErrOther m))
    \<and> (\<forall>st. r = Inr st \<longrightarrow> e \<in> set (reg s) \<longrightarrow> t \<noteq> [] \<longrightarrow>
         st = (if operation_ended (reg s) (t, k, v) then operation_state_closed else operation_state_open))"
proof -
  have ident: "operation_identity (Some e) = Some (k, v)" and t: "ev_event_type e = t"
    using in_phase_type [OF op] by (simp_all add: identity_in_phase op)
  let ?q = "(operation_query t k v)\<lparr>cp_limit := effective_limit 1\<rparr>"
  have q: "svc_operation_state S (Some e) = and_then (st_list_current S ?q) (\<lambda>result.
            ret (if 0 < lr_total_count result then operation_state_open else operation_state_closed))"
    by (simp add: svc_operation_state_def ident t svc_list_current_def operation_query_def)
  show ?thesis
  proof (cases "st_list_current S ?q s")
    case (Pair a s1)
    note L = list_current [OF inv Pair]
    show ?thesis
    proof (cases a)
      case (Inl err)
      with run Pair q L show ?thesis by (auto simp: and_then_def)
    next
      case (Inr result)
      with L have res: "result = current_spec (reg s) ?q" by simp
      have "0 < lr_total_count result \<longleftrightarrow> \<not> operation_ended (reg s) (t, k, v)" if "e \<in> set (reg s)" "t \<noteq> []"
      proof -
        have "0 < lr_total_count result \<longleftrightarrow>
            filter (\<lambda>d. represents_active (reg s) d \<and> visible_in ?q d) (reg s) \<noteq> []"
          by (simp add: res current_spec_def result_page_def)
        also have "\<dots> \<longleftrightarrow> (\<exists>d \<in> set (reg s). represents_active (reg s) d \<and> visible_in ?q d)"
          by (simp add: filter_empty_conv)
        finally show ?thesis using active_iff_not_ended [OF that(1) op that(2)] by simp
      qed
      with run Pair q L Inr show ?thesis by (auto simp: and_then_def ret_def)
    qed
  qed
qed

subsection \<open>Closing\<close>

lemma close_run:
  assumes inv: "inv s" and u: "env_uuid en \<noteq> Some []" and user: "ui_name user \<noteq> []"
    and start: "find_by_id (reg s) i = Some start" and op: "operation_in_phase ''start'' start = Some (t, k, v)" and t: "t \<noteq> []"
    and run: "svc_close_operation_as parse S en i user d s = (r, s')"
  obtains m where "r = Inl (ErrOther m)" "inv s'" "reg s' = reg s"
    | "operation_ended (reg s) (t, k, v)" "r = Inl ErrOperationClosed" "inv s'" "reg s' = reg s"
    | s1 where "\<not> operation_ended (reg s) (t, k, v)" "inv s1" "reg s1 = reg s"
        "accept_duplicate (svc_create_with parse S False en (close_request start k v user d)) s1 = (r, s')"
proof -
  have ident: "operation_identity (Some start) = Some (k, v)" by (simp add: identity_in_phase op)
  have mem: "start \<in> set (reg s)" using find_by_id_Some [OF start] by simp
  show thesis
  proof (cases "svc_get_by_id S i s")
    case (Pair a s1)
    show ?thesis
    proof (cases a)
      case (Inl err)
      note G = get_event_Inl [OF inv Pair [unfolded Inl]]
      have "i \<in> registry_ids (reg s)" using start by (simp flip: find_by_id_ids)
      with G run Pair Inl user that(1) show ?thesis by (auto simp: svc_close_operation_as_def and_then_def)
    next
      case (Inr start')
      note G = get_event_Inr [OF inv Pair [unfolded Inr]]
      then have eq: "start' = start" using start by simp
      show ?thesis
      proof (cases "svc_operation_state S (Some start) s1")
        case (Pair b s2)
        note O = operation_state_run [OF _ op Pair]
        have O': "inv s2 \<and> reg s2 = reg s" using O G by simp
        have run': "(case b of Inl err \<Rightarrow> (Inl err, s2) | Inr state \<Rightarrow>
            (if state \<noteq> operation_state_open then throw ErrOperationClosed
             else accept_duplicate (svc_create_with parse S False en (close_request start k v user d))) s2) = (r, s')"
          using run \<open>svc_get_by_id S i s = (a, s1)\<close> Inr eq Pair user ident
          by (simp add: svc_close_operation_as_def and_then_def split: sum.splits)
        show ?thesis
        proof (cases b)
          case (Inl err)
          with O G obtain m where "err = ErrOther m" by blast
          with run' Inl have "r = Inl (ErrOther m)" "s' = s2" by simp_all
          with O' that(1) [of m] show ?thesis by simp
        next
          case (Inr state)
          with O G mem t have st: "state = (if operation_ended (reg s) (t, k, v) then operation_state_closed else operation_state_open)"
            by simp
          show ?thesis
          proof (cases "operation_ended (reg s) (t, k, v)")
            case True
            then have "state \<noteq> operation_state_open" using st by (simp add: operation_state_closed_def operation_state_open_def)
            with run' Inr O' True that(2) show ?thesis by (simp add: throw_def)
          next
            case False
            then have "state = operation_state_open" using st by simp
            with run' Inr O' False that(3) [of s2] show ?thesis by simp
          qed
        qed
      qed
    qed
  qed
qed

lemma close_succeeds:
  assumes inv: "inv s" and u: "env_uuid en \<noteq> Some []" and user: "ui_name user \<noteq> []"
    and start: "find_by_id (reg s) i = Some start" and op: "operation_in_phase ''start'' start = Some (t, k, v)" and t: "t \<noteq> []"
    and ids: "close_id_ok (reg s) (t, k, v)"
    and run: "svc_close_operation_as parse S en i user d s = (Inr e, s')"
  shows "inv s' \<and> \<not> operation_ended (reg s) (t, k, v) \<and> (\<exists>end. e = Some end \<and> reg s' = reg s @ [end]
    \<and> operation_in_phase ''end'' end = Some (t, k, v) \<and> ev_user_name end = ui_name user)"
  using run
proof (rule close_run [OF inv u user start op t])
  fix s1 assume live: "\<not> operation_ended (reg s) (t, k, v)" and inv1: "inv s1" and reg1: "reg s1 = reg s"
    and acc: "accept_duplicate (svc_create_with parse S False en (close_request start k v user d)) s1 = (Inr e, s')"
  have type: "t = ev_event_type start" using in_phase_type [OF op] by simp
  have d: "distinct (map fst (cr_tags (close_request start k v user d)))"
    using reg_ok [OF inv] find_by_id_Some [OF start] by (simp add: registry_ok_def distinct_update_keys)
  from acc consider x where "svc_create_with parse S False en (close_request start k v user d) s1 = (Inr x, s')" "e = Some x"
    | y where "svc_create_with parse S False en (close_request start k v user d) s1 = (Inl (ErrDuplicate y), s')"
    by (auto simp: accept_duplicate_def split: prod.splits sum.splits go_error.splits)
  then show ?thesis
  proof cases
    case (1 x)
    from create_with_Inr [OF inv1 d u 1(1)] obtain i' et tags where
      v: "validate_create_request parse (close_request start k v user d) False = Inr (et, tags)"
      and x: "inv s'" "x = stored_event (new_event en i' (close_request start k v user d) et tags)" "reg s' = reg s1 @ [x]"
      by metis
    have "et = ev_event_type start" "tags = cr_tags (close_request start k v user d)"
      using v close_request_valid [OF user t [unfolded type]] by simp_all
    with x have x': "x = stored_event (new_event en i' (close_request start k v user d) (ev_event_type start)
        (cr_tags (close_request start k v user d)))" by simp
    have "operation_in_phase ''end'' x = Some (t, k, v)" unfolding x' by (rule close_event_in_phase [OF op])
    moreover have "ev_user_name x = ui_name user" by (simp add: x' stored_event_def new_event_def close_request_def)
    ultimately show ?thesis using x(1,3) 1(2) live reg1 by auto
  next
    case (2 y)
    from create_with_Inl [OF inv1 d u 2] have "find_by_external_id (reg s1) (operation_close_external_id t k v) \<noteq> None"
      by (auto simp: type)
    then obtain z where "z \<in> set (reg s)" "ev_external_id z = operation_close_external_id t k v"
      using find_by_external_id_Some [of "reg s1"] reg1 by auto
    with ids have "operation_ended (reg s) (t, k, v)"
      by (auto simp: close_id_ok_def list_all_iff operation_ended_def list_ex_iff)
    with live show ?thesis by blast
  qed
qed auto

lemma close_fails:
  assumes inv: "inv s" and u: "env_uuid en \<noteq> Some []" and user: "ui_name user \<noteq> []"
    and start: "find_by_id (reg s) i = Some start" and op: "operation_in_phase ''start'' start = Some (t, k, v)" and t: "t \<noteq> []"
    and run: "svc_close_operation_as parse S en i user d s = (Inl err, s')"
  shows "inv s' \<and> reg s' = reg s"
  using run
proof (rule close_run [OF inv u user start op t])
  fix s1 assume inv1: "inv s1" and reg1: "reg s1 = reg s"
    and acc: "accept_duplicate (svc_create_with parse S False en (close_request start k v user d)) s1 = (Inl err, s')"
  have d: "distinct (map fst (cr_tags (close_request start k v user d)))"
    using reg_ok [OF inv] find_by_id_Some [OF start] by (simp add: registry_ok_def distinct_update_keys)
  from acc have "svc_create_with parse S False en (close_request start k v user d) s1 = (Inl err, s')"
    by (auto simp: accept_duplicate_def split: prod.splits sum.splits go_error.splits)
  from create_with_Inl [OF inv1 d u this] reg1 show ?thesis by simp
qed auto

text \<open>When another event holds the closing identifier, a close reports that event and stores nothing.\<close>

lemma close_foreign:
  assumes inv: "inv s" and u: "env_uuid en \<noteq> Some []" and user: "ui_name user \<noteq> []"
    and start: "find_by_id (reg s) i = Some start" and op: "operation_in_phase ''start'' start = Some (t, k, v)" and t: "t \<noteq> []"
    and live: "\<not> operation_ended (reg s) (t, k, v)"
    and held: "find_by_external_id (reg s) (operation_close_external_id t k v) = Some f"
    and run: "svc_close_operation_as parse S en i user d s = (r, s')"
  shows "reg s' = reg s \<and> (r = Inr (Some f) \<or> (\<exists>m. r = Inl (ErrOther m)))"
  using run
proof (rule close_run [OF inv u user start op t])
  fix s1 assume inv1: "inv s1" and reg1: "reg s1 = reg s"
    and acc: "accept_duplicate (svc_create_with parse S False en (close_request start k v user d)) s1 = (r, s')"
  have type: "t = ev_event_type start" using in_phase_type [OF op] by simp
  obtain q s2 where c: "svc_create_with parse S False en (close_request start k v user d) s1 = (q, s2)" by fastforce
  have "find_by_external_id (reg s1) (cr_external_id (close_request start k v user d)) = Some f"
    using held by (simp add: reg1 type)
  from create_again [OF inv1 this _ c] acc c reg1 show ?thesis by (auto simp: accept_duplicate_def)
qed (use live in auto)

lemma close_again:
  assumes inv: "inv s" and u: "env_uuid en \<noteq> Some []" and user: "ui_name user \<noteq> []"
    and start: "find_by_id (reg s) i = Some start" and op: "operation_in_phase ''start'' start = Some (t, k, v)" and t: "t \<noteq> []"
    and ended: "operation_ended (reg s) (t, k, v)"
    and run: "svc_close_operation_as parse S en i user d s = (r, s')"
  shows "reg s' = reg s \<and> (r = Inl ErrOperationClosed \<or> (\<exists>m. r = Inl (ErrOther m)))"
  using run by (rule close_run [OF inv u user start op t]) (use ended in auto)

end

end
