(* ===== verification/ServiceListing.thy ===== *)
theory ServiceListing
  imports ServiceOperations "HOL-Library.Multiset"
begin

section \<open>Listing every page: listAll and GetActivity through any change store\<close>

text \<open>
  The loop of \<^verbatim>\<open>listAll\<close> advances by the length of each page and stops at the total the store
  reports; over a change store it always ends, and what it returns is the whole selection, newest
  first. \<^verbatim>\<open>GetActivity\<close> sorts the children of an event and the closures of its operation by time.
\<close>

definition selection :: "registry \<Rightarrow> list_params \<Rightarrow> change_event list" where
  "selection reg p = by_newest (filter (event_selected reg p) reg)"

lemma in_time_window_paging [simp]:
  "in_time_window (p\<lparr>lp_limit := n\<rparr>) t = in_time_window p t"
  "in_time_window (p\<lparr>lp_offset := m\<rparr>) t = in_time_window p t"
  by (simp_all add: in_time_window_def split: option.split)

lemma event_selected_paging [simp]:
  "event_selected reg (p\<lparr>lp_limit := n\<rparr>) = event_selected reg p"
  "event_selected reg (p\<lparr>lp_offset := m\<rparr>) = event_selected reg p"
  by (simp_all add: fun_eq_iff event_selected_def)

lemma selection_paging [simp]:
  "selection reg (p\<lparr>lp_limit := n\<rparr>) = selection reg p" "selection reg (p\<lparr>lp_offset := m\<rparr>) = selection reg p"
  by (simp_all add: selection_def)

lemma length_selection: "length (selection reg p) = length (filter (event_selected reg p) reg)"
  by (simp add: selection_def by_newest_def)

lemma set_selection: "set (selection reg p) = {e \<in> set reg. event_selected reg p e}"
  by (simp add: selection_def by_newest_def)

lemma list_spec_page:
  "lr_events (list_spec reg p) = take (nat (effective_limit (lp_limit p))) (drop (nat (lp_offset p)) (selection reg p))"
  "lr_total_count (list_spec reg p) = int (length (selection reg p))"
  by (simp_all add: list_spec_def result_page_def page_of_def selection_def length_selection [unfolded selection_def])

context change_store
begin

lemma svc_list_run:
  assumes "inv s" "distinct (map fst (lp_tags p))" "svc_list S p s = (r, s')"
  shows "inv s' \<and> reg s' = reg s \<and> (\<forall>x. r = Inr x \<longrightarrow> x = list_spec (reg s) p)
    \<and> (\<forall>err. r = Inl err \<longrightarrow> (\<exists>m. err = ErrOther m))"
  using list [of s "p\<lparr>lp_limit := effective_limit (lp_limit p)\<rparr>" r s'] assms
  by (simp add: svc_list_def list_spec_def result_page_def)

lemma list_all_loop_run:
  assumes d: "distinct (map fst (lp_tags p))"
  shows "\<lbrakk>inv s; reg s = R; 0 \<le> lp_offset p; nat (lp_offset p) \<le> length (selection R p);
     events = take (nat (lp_offset p)) (selection R p)\<rbrakk> \<Longrightarrow>
     \<exists>r s'. list_all_loop S p events s = Some (r, s') \<and> inv s' \<and> reg s' = R
       \<and> (\<forall>es. r = Inr es \<longrightarrow> es = selection R p) \<and> (\<forall>err. r = Inl err \<longrightarrow> (\<exists>m. err = ErrOther m))"
  using d
proof (induction "length (selection R p) - nat (lp_offset p)" arbitrary: p events s rule: less_induct)
  case less
  let ?sel = "selection R p"
  let ?n = "nat (lp_offset p)"
  show ?case
  proof (cases "svc_list S p s")
    case (Pair a s1)
    note L = svc_list_run [OF less.prems(1,6) Pair]
    show ?thesis
    proof (cases a)
      case (Inl err)
      with Pair L less.prems show ?thesis by (auto simp: list_all_loop.simps)
    next
      case (Inr result)
      with L less.prems have res: "result = list_spec R p" by simp
      let ?l = "nat (effective_limit (lp_limit p))"
      have l: "0 < ?l" using effective_limit_bounds [of "lp_limit p"] by simp
      have ev: "lr_events result = take ?l (drop ?n ?sel)" by (simp add: res list_spec_page)
      have tot: "lr_total_count result = int (length ?sel)" by (simp add: res list_spec_page)
      have joined: "events @ lr_events result = take (?n + ?l) ?sel"
        using less.prems(5) ev by (simp add: take_add)
      show ?thesis
      proof (cases "lr_events result = [] \<or> lr_total_count result \<le> lp_offset p + int (length (lr_events result))")
        case True
        have "length ?sel \<le> ?n + ?l"
        proof (cases "lr_events result = []")
          case True
          with ev l less.prems(4) show ?thesis by simp
        next
          case False
          with True tot less.prems(3) have "length ?sel \<le> ?n + length (lr_events result)" by linarith
          then show ?thesis using ev by simp
        qed
        then have "events @ lr_events result = ?sel" using joined by simp
        with True Pair Inr L less.prems(2) show ?thesis by (auto simp: list_all_loop.simps)
      next
        case False
        let ?p = "p\<lparr>lp_offset := lp_offset p + int (length (lr_events result))\<rparr>"
        from False tot have more: "lp_offset p + int (length (lr_events result)) < int (length ?sel)" by simp
        have pos: "0 < length (lr_events result)" using False by simp
        have n: "nat (lp_offset ?p) = ?n + length (lr_events result)"
          using less.prems(3) by simp
        have lt: "?n + length (lr_events result) < length ?sel" using more less.prems(3) by linarith
        then have full: "length (lr_events result) = ?l" using ev by (auto simp: min_def split: if_splits)
        have "\<exists>r s'. list_all_loop S ?p (events @ lr_events result) s1 = Some (r, s') \<and> inv s' \<and> reg s' = R
           \<and> (\<forall>es. r = Inr es \<longrightarrow> es = selection R ?p) \<and> (\<forall>err. r = Inl err \<longrightarrow> (\<exists>m. err = ErrOther m))"
        proof (rule less.hyps)
          show "length (selection R ?p) - nat (lp_offset ?p) < length ?sel - ?n"
            unfolding selection_paging n using pos lt by linarith
          show "inv s1" "reg s1 = R" using L less.prems(2) by simp_all
          show "0 \<le> lp_offset ?p" using less.prems(3) by simp
          show "nat (lp_offset ?p) \<le> length (selection R ?p)"
            using more less.prems(3) by simp
          show "events @ lr_events result = take (nat (lp_offset ?p)) (selection R ?p)"
            using joined n by (simp only: full selection_paging)
          show "distinct (map fst (lp_tags ?p))" using less.prems(6) by simp
        qed
        with False Pair Inr show ?thesis by (subst list_all_loop.simps) simp
      qed
    qed
  qed
qed

lemma svc_list_all_run:
  assumes "inv s" "distinct (map fst (lp_tags p))" "lp_offset p = 0"
  shows "\<exists>r s'. svc_list_all S p s = Some (r, s') \<and> inv s' \<and> reg s' = reg s
     \<and> (\<forall>es. r = Inr es \<longrightarrow> es = selection (reg s) p) \<and> (\<forall>err. r = Inl err \<longrightarrow> (\<exists>m. err = ErrOther m))"
  using list_all_loop_run [of "p\<lparr>lp_limit := max_limit\<rparr>" s "reg s" "[]"] assms by (simp add: svc_list_all_def)

end

text \<open>What the activity of an event holds: its children, and for a start the closures of its operation.\<close>

definition closes :: "change_event \<Rightarrow> change_event \<Rightarrow> bool" where
  "closes parent e = (case operation_identity (Some parent) of
      None \<Rightarrow> False
    | Some (key, val) \<Rightarrow> ev_parent_id e = [] \<and> map_of (ev_tags e) key = Some val
        \<and> map_of (ev_tags e) ''phase'' = Some ''end'' \<and> (ev_event_type parent \<noteq> [] \<longrightarrow> ev_event_type e = ev_event_type parent))"

lemma child_selected:
  "i \<noteq> [] \<Longrightarrow> event_selected R (zero_list_params\<lparr>lp_parent_id := i\<rparr>) e = (ev_parent_id e = i)"
  by (simp add: event_selected_def in_time_window_def zero_list_params_def)

lemma closure_selected:
  "event_selected R (closure_params parent key val) e = ((ev_event_type parent = [] \<or> ev_event_type e = ev_event_type parent)
     \<and> ev_parent_id e = [] \<and> map_of (ev_tags e) key = Some val \<and> map_of (ev_tags e) ''phase'' = Some ''end'')"
  by (simp add: event_selected_def in_time_window_def closure_params_def zero_list_params_def)

lemma identity_keys: "operation_identity (Some e) = Some (key, val) \<Longrightarrow> key \<noteq> ''phase''"
  by (auto simp: operation_identity_def split: if_splits)

lemma by_oldest_facts: "sorted (map (\<lambda>e. (ev_timestamp e, ev_id e)) (by_oldest es))" "mset (by_oldest es) = mset es"
  by (simp_all add: by_oldest_def)

lemma mset_selection: "mset (selection R p) = filter_mset (event_selected R p) (mset R)"
  by (simp add: selection_def by_newest_def mset_filter)

definition activity_result :: "registry \<Rightarrow> string \<Rightarrow> change_event list \<Rightarrow> bool" where
  "activity_result R i es = (\<exists>parent. find_by_id R i = Some parent
     \<and> sorted (map (\<lambda>e. (ev_timestamp e, ev_id e)) es)
     \<and> mset es = filter_mset (\<lambda>e. ev_parent_id e = i \<or> closes parent e) (mset R))"

lemma activity_resultI:
  assumes parent: "find_by_id R i = Some parent" and i: "i \<noteq> []" and id: "operation_identity (Some parent) = Some (key, val)"
  shows "activity_result R i (by_oldest (selection R (zero_list_params\<lparr>lp_parent_id := i\<rparr>) @ selection R (closure_params parent key val)))"
proof -
  have split: "mset (selection R (zero_list_params\<lparr>lp_parent_id := i\<rparr>) @ selection R (closure_params parent key val))
      = filter_mset (\<lambda>e. ev_parent_id e = i \<or> closes parent e) (mset R)"
  proof -
    have "filter_mset (\<lambda>e. ev_parent_id e = i) (mset R) + filter_mset (closes parent) (mset R)
        = filter_mset (\<lambda>e. ev_parent_id e = i \<or> closes parent e) (mset R)"
    proof (induction R)
      case (Cons e R)
      have "\<not> (ev_parent_id e = i \<and> closes parent e)" using i by (auto simp: closes_def id)
      with Cons show ?case by (auto simp: ac_simps)
    qed simp
    moreover have "event_selected R (closure_params parent key val) = closes parent"
      by (auto simp: fun_eq_iff closure_selected closes_def id)
    moreover have "event_selected R (zero_list_params\<lparr>lp_parent_id := i\<rparr>) = (\<lambda>e. ev_parent_id e = i)"
      using child_selected [OF i] by (simp add: fun_eq_iff)
    ultimately show ?thesis by (simp add: mset_selection)
  qed
  show ?thesis unfolding activity_result_def
    using parent by_oldest_facts(1) by (intro exI [of _ parent] conjI) (simp_all only: by_oldest_facts(2) split)
qed

lemma activity_resultI_plain:
  assumes parent: "find_by_id R i = Some parent" and i: "i \<noteq> []" and id: "operation_identity (Some parent) = None"
  shows "activity_result R i (by_oldest (selection R (zero_list_params\<lparr>lp_parent_id := i\<rparr>)))"
proof -
  have "event_selected R (zero_list_params\<lparr>lp_parent_id := i\<rparr>) = (\<lambda>e. ev_parent_id e = i \<or> closes parent e)"
    using child_selected [OF i] by (simp add: fun_eq_iff closes_def id)
  then have split: "mset (selection R (zero_list_params\<lparr>lp_parent_id := i\<rparr>))
      = filter_mset (\<lambda>e. ev_parent_id e = i \<or> closes parent e) (mset R)" by (simp only: mset_selection)
  show ?thesis unfolding activity_result_def
    using parent by_oldest_facts(1) by (intro exI [of _ parent] conjI) (simp_all only: by_oldest_facts(2) split)
qed

context change_store
begin

lemma get_activity_run:
  assumes inv: "inv s"
  shows "\<exists>r s'. svc_get_activity S i s = Some (r, s') \<and> inv s' \<and> reg s' = reg s
     \<and> (\<forall>es. r = Inr es \<longrightarrow> activity_result (reg s) i es)
     \<and> (\<forall>err. r = Inl err \<longrightarrow> (err = ErrEventNotFound \<and> i \<notin> registry_ids (reg s)) \<or> (\<exists>m. err = ErrOther m))"
proof (cases "svc_get_by_id S i s")
  case (Pair a s1)
  note got = Pair
  show ?thesis
  proof (cases a)
    case (Inl err)
    from get_event_Inl [OF inv Pair [unfolded Inl]] Pair Inl show ?thesis by (simp add: svc_get_activity_def)
  next
    case (Inr parent)
    note G = get_event_Inr [OF inv Pair [unfolded Inr]]
    have i: "i \<noteq> []"
      using ids_nonempty [OF inv, of i] G by (simp flip: find_by_id_ids)
    let ?p = "zero_list_params\<lparr>lp_parent_id := i\<rparr>"
    have p: "distinct (map fst (lp_tags ?p))" "lp_offset ?p = 0" by (simp_all add: zero_list_params_def)
    obtain r2 s2 where A: "svc_list_all S ?p s1 = Some (r2, s2)" "inv s2" "reg s2 = reg s"
        "\<forall>es. r2 = Inr es \<longrightarrow> es = selection (reg s) ?p" "\<forall>err. r2 = Inl err \<longrightarrow> (\<exists>m. err = ErrOther m)"
      using svc_list_all_run [OF conjunct1 [OF G] p] G by metis
    show ?thesis
    proof (cases r2)
      case (Inl err)
      with A got \<open>a = Inr parent\<close> show ?thesis by (auto simp: svc_get_activity_def)
    next
      case (Inr activity)
      then have act: "activity = selection (reg s) ?p" using A by simp
      show ?thesis
      proof (cases "operation_identity (Some parent)")
        case None
        have "svc_get_activity S i s = Some (Inr (by_oldest activity), s2)"
          using got \<open>a = Inr parent\<close> A(1) Inr None by (simp add: svc_get_activity_def)
        with A(2,3) act activity_resultI_plain [OF _ i None, of "reg s"] G show ?thesis by simp
      next
        case (Some kv)
        obtain key val where kv: "kv = (key, val)" by fastforce
        let ?c = "closure_params parent key val"
        have c: "distinct (map fst (lp_tags ?c))" "lp_offset ?c = 0"
          using identity_keys [OF Some [unfolded kv]] by (simp_all add: closure_params_def zero_list_params_def)
        obtain r3 s3 where B: "svc_list_all S ?c s2 = Some (r3, s3)" "inv s3" "reg s3 = reg s"
            "\<forall>es. r3 = Inr es \<longrightarrow> es = selection (reg s) ?c" "\<forall>err. r3 = Inl err \<longrightarrow> (\<exists>m. err = ErrOther m)"
          using svc_list_all_run [OF A(2) c] A(3) by metis
        have run: "svc_get_activity S i s = Some (case r3 of Inl err \<Rightarrow> (Inl err, s3)
            | Inr closures \<Rightarrow> (Inr (by_oldest (activity @ closures)), s3))"
          using got \<open>a = Inr parent\<close> A(1) Inr Some kv B(1) by (simp add: svc_get_activity_def split: sum.split)
        show ?thesis
        proof (cases r3)
          case (Inl err)
          with B run show ?thesis by auto
        next
          case (Inr closures)
          then have "closures = selection (reg s) ?c" using B(4) by simp
          with run Inr B(2,3) act activity_resultI [OF _ i Some [unfolded kv], of "reg s"] G show ?thesis by simp
        qed
      qed
    qed
  qed
qed

end

end
