(* ===== verification/ServiceLive.thy ===== *)
theory ServiceLive
  imports ServiceListing
begin

section \<open>The service answers when the store does\<close>

text \<open>
  Over a store none of whose calls is failing (\<open>live_store\<close>) a valid Create stores its event, a toggle
  of an existing event toggles it, closing an open operation closes it, and every listing and the
  activity of a stored event are returned.
\<close>

context live_store
begin

lemma create_with_live:
  assumes inv: "inv s" and rdy: "ready s" and d: "distinct (map fst (cr_tags req))"
    and v: "validate_create_request parse req b = Inr (event_type, tags)"
    and u: "env_uuid en = Some i" "i \<noteq> []" "i \<notin> registry_ids (reg s)"
    and ext: "cr_external_id req \<noteq> [] \<Longrightarrow> find_by_external_id (reg s) (cr_external_id req) = None"
    and par: "cr_parent_id req \<noteq> [] \<Longrightarrow> cr_parent_id req \<in> registry_ids (reg s)"
  shows "\<exists>s'. svc_create_with parse S b en req s = (Inr (stored_event (new_event en i req event_type tags)), s') \<and> ready s'"
proof -
  have l: "lookup_duplicate S (cr_external_id req) s = (Inr (), s)"
  proof (cases "cr_external_id req = []")
    case False
    obtain y where y: "st_get_by_external_id S (cr_external_id req) s = (Inr y, s)"
      using live_get_by_external_id [OF inv rdy] by blast
    with get_by_external_id [OF inv False y] ext [OF False] have "y = None" by simp
    with y False show ?thesis by (simp add: lookup_duplicate_def and_then_def ret_def)
  qed (simp add: lookup_duplicate_def ret_def)
  have p: "require_parent S (cr_parent_id req) s = (Inr (), s)"
  proof (cases "cr_parent_id req = []")
    case False
    obtain y where y: "st_get_by_id S (cr_parent_id req) s = (Inr y, s)" using live_get_by_id [OF inv rdy] by blast
    with get_by_id [OF inv y] par [OF False] obtain x where "y = Some x" by (auto simp flip: find_by_id_ids)
    with y False show ?thesis by (simp add: require_parent_def and_then_def ret_def)
  qed (simp add: require_parent_def ret_def)
  let ?e = "new_event en i req event_type tags"
  have "event_ok ?e" using u validate_tags_distinct [OF v d] by (simp add: event_ok_def new_event_def)
  then obtain s' where "st_create S ?e s = (Inr (stored_event ?e), s')" "ready s'"
    using live_create [OF inv rdy, of ?e] u ext par by (auto simp: new_event_def)
  with l p v u show ?thesis by (simp add: svc_create_with_def and_then_def)
qed

lemma toggle_star_as_live:
  assumes "inv s" "ready s" "env_uuid en = Some u" "u \<noteq> []" "u \<notin> registry_ids (reg s)" "i \<in> registry_ids (reg s)"
  shows "\<exists>e s'. svc_toggle_star_as S en i user s = (Inr e, s') \<and> ready s'"
  using live_toggle_star [OF assms, of user] by (auto simp: svc_toggle_star_as_def missing_event_Inr)

lemma toggle_alert_as_live:
  assumes "inv s" "ready s" "env_uuid en = Some u" "u \<noteq> []" "u \<notin> registry_ids (reg s)" "i \<in> registry_ids (reg s)"
  shows "\<exists>e s'. svc_toggle_alert_as S en i user s = (Inr e, s') \<and> ready s'"
  using live_toggle_alert [OF assms, of user] by (auto simp: svc_toggle_alert_as_def missing_event_Inr)

lemma get_by_id_live:
  assumes "inv s" "ready s" "find_by_id (reg s) i = Some e"
  shows "svc_get_by_id S i s = (Inr e, s)"
proof -
  obtain y where y: "st_get_by_id S i s = (Inr y, s)" using live_get_by_id [OF assms(1,2)] by blast
  with get_by_id [OF assms(1) y] assms(3) show ?thesis by (simp add: svc_get_by_id_def and_then_def ret_def)
qed

lemma operation_state_live:
  assumes inv: "inv s" and rdy: "ready s" and e: "e \<in> set (reg s)"
    and op: "operation_in_phase ''start'' e = Some (t, k, v)" and t: "t \<noteq> []"
  shows "svc_operation_state S (Some e) s =
    (Inr (if operation_ended (reg s) (t, k, v) then operation_state_closed else operation_state_open), s)"
proof -
  have ident: "operation_identity (Some e) = Some (k, v)" by (simp add: identity_in_phase op)
  let ?q = "(operation_query t k v)\<lparr>cp_limit := effective_limit 1\<rparr>"
  have "0 \<le> cp_offset ?q" by (simp add: operation_query_def zero_current_params_def)
  then obtain x where "st_list_current S ?q s = (Inr x, s)" using live_list_current [OF inv rdy] by blast
  then have "\<exists>st. svc_operation_state S (Some e) s = (Inr st, s)"
    using ident in_phase_type [OF op]
    by (simp add: svc_operation_state_def svc_list_current_def operation_query_def and_then_def ret_def)
  then obtain st where "svc_operation_state S (Some e) s = (Inr st, s)" by blast
  with operation_state_run [OF inv op this] e t show ?thesis by simp
qed

lemma close_live:
  assumes inv: "inv s" and rdy: "ready s" and user: "ui_name user \<noteq> []"
    and u: "env_uuid en = Some n" "n \<noteq> []" "n \<notin> registry_ids (reg s)"
    and start: "find_by_id (reg s) i = Some start" and op: "operation_in_phase ''start'' start = Some (t, k, v)"
    and t: "t \<noteq> []" and live: "\<not> operation_ended (reg s) (t, k, v)" and ids: "close_id_ok (reg s) (t, k, v)"
  shows "\<exists>e s'. svc_close_operation_as parse S en i user d s = (Inr (Some e), s') \<and> ready s'"
proof -
  have mem: "start \<in> set (reg s)" using find_by_id_Some [OF start] by simp
  have type: "t = ev_event_type start" using in_phase_type [OF op] by simp
  let ?req = "close_request start k v user d"
  have d: "distinct (map fst (cr_tags ?req))"
    using reg_ok [OF inv] mem by (simp add: registry_ok_def distinct_update_keys)
  have "find_by_external_id (reg s) (operation_close_external_id t k v) = None"
  proof (rule ccontr)
    assume "find_by_external_id (reg s) (operation_close_external_id t k v) \<noteq> None"
    then obtain z where "z \<in> set (reg s)" "ev_external_id z = operation_close_external_id t k v"
      using find_by_external_id_Some by fastforce
    with ids have "operation_ended (reg s) (t, k, v)"
      by (auto simp: close_id_ok_def list_all_iff operation_ended_def list_ex_iff)
    with live show False by blast
  qed
  then have ext: "find_by_external_id (reg s) (cr_external_id ?req) = None" by (simp add: type)
  obtain s' where c: "svc_create_with parse S False en ?req s =
      (Inr (stored_event (new_event en n ?req (ev_event_type start) (cr_tags ?req))), s')" "ready s'"
    using create_with_live [OF inv rdy d close_request_valid [OF user t [unfolded type]] u] ext by auto
  have "svc_operation_state S (Some start) s = (Inr operation_state_open, s)"
    using operation_state_live [OF inv rdy mem op t] live by simp
  with get_by_id_live [OF inv rdy start] c user show ?thesis
    by (simp add: svc_close_operation_as_def and_then_def identity_in_phase op accept_duplicate_def)
qed

lemma svc_list_live:
  assumes "inv s" "ready s" "distinct (map fst (lp_tags p))" "0 \<le> lp_offset p"
  shows "svc_list S p s = (Inr (list_spec (reg s) p), s)"
proof -
  obtain x where run: "svc_list S p s = (Inr x, s)"
    using live_list [OF assms(1,2), of "p\<lparr>lp_limit := effective_limit (lp_limit p)\<rparr>"] assms(4) by (auto simp: svc_list_def)
  with svc_list_run [OF assms(1,3) run] show ?thesis by simp
qed

lemma svc_list_current_live:
  assumes "inv s" "ready s" "0 \<le> cp_offset q"
  shows "\<exists>x. svc_list_current S q s = (Inr x, s)"
  unfolding svc_list_current_def by (rule live_list_current [OF assms(1,2)]) (simp add: assms(3))

lemma list_all_loop_live:
  "list_all_loop S' p events s = Some v \<Longrightarrow> S' = S \<Longrightarrow> inv s \<Longrightarrow> ready s \<Longrightarrow> distinct (map fst (lp_tags p)) \<Longrightarrow> 0 \<le> lp_offset p
    \<Longrightarrow> \<exists>es. v = (Inr es, s)"
proof (induction S' p events s v rule: list_all_loop.raw_induct [rotated, consumes 1, case_names step])
  case (step loop S' p events s v)
  have "svc_list S' p s = (Inr (list_spec (reg s) p), s)" using svc_list_live step by blast
  with step show ?case by (auto split: if_splits)
qed

lemma svc_list_all_live:
  assumes "inv s" "ready s" "distinct (map fst (lp_tags p))" "lp_offset p = 0"
  shows "svc_list_all S p s = Some (Inr (selection (reg s) p), s)"
proof -
  obtain r s' where run: "svc_list_all S p s = Some (r, s')" and sel: "\<forall>es. r = Inr es \<longrightarrow> es = selection (reg s) p"
    using svc_list_all_run [OF assms(1,3,4)] by blast
  from list_all_loop_live [OF run [unfolded svc_list_all_def] refl assms(1,2)] assms(3,4) obtain es where "(r, s') = (Inr es, s)"
    by auto
  with run sel show ?thesis by simp
qed

lemma get_activity_live:
  assumes inv: "inv s" and rdy: "ready s" and start: "find_by_id (reg s) i = Some parent"
  shows "\<exists>es. svc_get_activity S i s = Some (Inr es, s)"
proof -
  note get = get_by_id_live [OF inv rdy start]
  have children: "svc_list_all S (zero_list_params\<lparr>lp_parent_id := i\<rparr>) s = Some (Inr (selection (reg s) (zero_list_params\<lparr>lp_parent_id := i\<rparr>)), s)"
    by (rule svc_list_all_live [OF inv rdy]) (simp_all add: zero_list_params_def)
  show ?thesis
  proof (cases "operation_identity (Some parent)")
    case None
    with get children show ?thesis by (simp add: svc_get_activity_def)
  next
    case (Some kv)
    obtain key val where kv: "kv = (key, val)" by fastforce
    have "svc_list_all S (closure_params parent key val) s = Some (Inr (selection (reg s) (closure_params parent key val)), s)"
      using identity_keys [OF Some [unfolded kv]]
      by (intro svc_list_all_live [OF inv rdy]) (simp_all add: closure_params_def zero_list_params_def)
    with get children Some kv show ?thesis by (simp add: svc_get_activity_def)
  qed
qed

end

end
