(* ===== verification/PgContract.thy ===== *)
theory PgContract
  imports PgCurrentSpec ServiceLive
begin

section \<open>The PostgreSQL store is a change store\<close>

text \<open>
  \<open>pg_store\<close> is the record of the operations of \<^verbatim>\<open>postgres.Store\<close>; the interpretations discharge the
  contracts of \<open>StoreSpec\<close> on it: \<open>pg_inv\<close> is the invariant, \<open>pg_registry\<close> the registry it shows, and
  it answers when no round trip is due to fail.
\<close>

text \<open>The log line of an operation: its level and attributes.\<close>

datatype store_log_level = LogWarn | LogDebug

record store_log =
  sg_level :: store_log_level
  sg_message :: string
  sg_op :: string
  sg_duration :: duration
  sg_error :: "string option"

definition log_operation :: "duration \<Rightarrow> string \<Rightarrow> instant \<Rightarrow> instant \<Rightarrow> string option \<Rightarrow> store_log" where
  "log_operation slow_query_threshold op_name start now err =
     (let d = now - start in
      if slow_query_threshold \<le> d
      then \<lparr>sg_level = LogWarn, sg_message = ''slow store operation'', sg_op = op_name, sg_duration = d, sg_error = err\<rparr>
      else \<lparr>sg_level = LogDebug, sg_message = ''store operation'', sg_op = op_name, sg_duration = d, sg_error = err\<rparr>)"

definition pg_store :: "pg change_store" where
  "pg_store = \<lparr>st_create = pg_create, st_toggle_star = pg_toggle_star, st_toggle_alert = pg_toggle_alert,
     st_get_by_id = pg_get_by_id, st_get_by_external_id = pg_get_by_external_id, st_list = pg_list,
     st_list_current = pg_list_current, st_get_annotations = pg_get_annotations,
     st_get_annotations_batch = pg_get_annotations_batch\<rparr>"

lemma pg_store_sel [simp]:
  "st_create pg_store = pg_create" "st_toggle_star pg_store = pg_toggle_star"
  "st_toggle_alert pg_store = pg_toggle_alert" "st_get_by_id pg_store = pg_get_by_id"
  "st_get_by_external_id pg_store = pg_get_by_external_id" "st_list pg_store = pg_list"
  "st_list_current pg_store = pg_list_current" "st_get_annotations pg_store = pg_get_annotations"
  "st_get_annotations_batch pg_store = pg_get_annotations_batch"
  by (simp_all add: pg_store_def)

definition pg_ready :: "pg \<Rightarrow> bool" where
  "pg_ready s = (pg_faults s = [])"

lemma registry_ids_rows: "registry_ids (pg_registry s) = row_ids s"
  by (simp add: registry_ids_def pg_registry_def row_ids_def image_image)

lemma starred_toggled: "(\<lambda>reg i. latest_of event_type_star event_type_unstar i reg = Some event_type_star) = starred"
  by (simp add: fun_eq_iff starred_def)

lemma alerted_toggled: "(\<lambda>reg i. latest_of event_type_alert event_type_clear_alert i reg = Some event_type_alert) = alerted"
  by (simp add: fun_eq_iff alerted_def)

interpretation pgs: change_store pg_store pg_inv pg_registry
proof (unfold_locales, goal_cases)
  case (1 s) then show ?case by (rule pg_registry_ok)
next
  case (2 s i r s') then show ?case using readsD [OF reads_get_by_id 2(1), of i r s'] pg_get_by_id_Inr [OF 2(1)] by simp
next
  case (3 s x r s')
  then show ?case using readsD [OF reads_get_by_external_id 3(1), of x r s'] pg_get_by_external_id_Inr [OF 3(1,2)] by simp
next
  case (4 s e e' s') then show ?case using pg_create_Inr by simp
next
  case (5 s e err s') then show ?case using pg_create_Inl by simp
next
  case (6 s en i user e s')
  then show ?case using toggle_transition_Inr [OF 6(1,2), of i user event_type_star event_type_unstar]
    by (simp add: pg_toggle_star_def registry_ids_rows starred_toggled)
next
  case (7 s en i user err s')
  then show ?case using toggle_transition_Inl [OF 7(1)] by (simp add: pg_toggle_star_def registry_ids_rows)
next
  case (8 s en i user e s')
  then show ?case using toggle_transition_Inr [OF 8(1,2), of i user event_type_alert event_type_clear_alert]
    by (simp add: pg_toggle_alert_def registry_ids_rows alerted_toggled)
next
  case (9 s en i user err s')
  then show ?case using toggle_transition_Inl [OF 9(1)] by (simp add: pg_toggle_alert_def registry_ids_rows)
next
  case (10 s p r s') then show ?case using readsD [OF reads_list 10(1), of p r s'] pg_list_Inr [OF 10(1,2)] by simp
next
  case (11 s q r s') then show ?case using readsD [OF reads_list_current 11(1), of q r s'] pg_list_current_Inr [OF 11(1)] by simp
next
  case (12 s i r s')
  then show ?case using readsD [OF reads_get_annotations 12(1), of i r s'] pg_get_annotations_Inr [OF 12(1)] by simp
next
  case (13 s ids r s')
  then show ?case using readsD [OF reads_get_annotations_batch 13(1), of ids r s'] pg_get_annotations_batch_Inr [OF 13(1)] by simp
qed

subsection \<open>A store with no fault pending answers\<close>

lemma load_one_ready: "pg_faults s = [] \<Longrightarrow> \<exists>x. load_one row s = (Inr x, s)"
  by (auto simp: load_one_def load_tags_for_events_def load_links_for_events_def and_then_def
      run_simps round_trip_ready split: option.splits)

lemma insert_tags_ready:
  "\<lbrakk>pg_faults s = []; i \<in> er_id ` set (pg_events s); distinct (map fst tags);
    \<forall>k \<in> fst ` set tags. (i, k) \<notin> tag_id ` set (pg_tags s)\<rbrakk> \<Longrightarrow>
    \<exists>s'. insert_tags i tags s = (Inr (), s') \<and> pg_faults s' = [] \<and> pg_events s' = pg_events s \<and> pg_links s' = pg_links s"
proof (induction tags arbitrary: s)
  case (Cons kv tags)
  obtain k v where kv: "kv = (k, v)" by force
  let ?s = "s\<lparr>pg_tags := pg_tags s @ [\<lparr>tr_event_id = i, tr_key = k, tr_value = v\<rparr>]\<rparr>"
  have "insert_tag_row i k v s = (Inr (), ?s)"
    using Cons.prems kv by (simp add: insert_tag_row_def and_then_def round_trip_ready tag_id_def [abs_def])
  moreover have "\<exists>s'. insert_tags i tags ?s = (Inr (), s') \<and> pg_faults s' = [] \<and> pg_events s' = pg_events ?s \<and> pg_links s' = pg_links ?s"
    using Cons.prems kv by (intro Cons.IH) (auto simp: tag_id_def)
  ultimately show ?case using kv by (simp add: and_then_def)
qed (simp add: run_simps)

lemma insert_links_ready:
  "\<lbrakk>pg_faults s = []; i \<in> er_id ` set (pg_events s);
    \<forall>k \<in> set (pg_links s). kr_event_id k = i \<longrightarrow> kr_position k < n\<rbrakk> \<Longrightarrow>
    \<exists>s'. insert_links i n links s = (Inr (), s') \<and> pg_faults s' = []"
proof (induction links arbitrary: s n)
  case (Cons l links)
  let ?s = "s\<lparr>pg_links := pg_links s @ [\<lparr>kr_event_id = i, kr_position = n, kr_label = el_label l, kr_url = el_url l\<rparr>]\<rparr>"
  have "insert_link_row i n l s = (Inr (), ?s)"
    using Cons.prems by (auto simp: insert_link_row_def and_then_def round_trip_ready)
  moreover have "\<exists>s'. insert_links i (Suc n) links ?s = (Inr (), s') \<and> pg_faults s' = []"
    using Cons.prems by (intro Cons.IH) (auto simp: less_SucI)
  ultimately show ?case by (simp add: and_then_def)
qed (simp add: run_simps)

lemma parent_ok:
  "(p \<noteq> [] \<longrightarrow> p \<in> row_ids s) \<Longrightarrow> i \<notin> row_ids s \<Longrightarrow> (x \<noteq> None \<longrightarrow> x \<notin> er_external_id ` set (pg_events s)) \<Longrightarrow>
   er_id r = i \<Longrightarrow> er_external_id r = x \<Longrightarrow> er_parent_id r = nullable_string p \<Longrightarrow> event_constraint_error r s = None"
  by (auto simp: event_constraint_error_def row_ids_def nullable_string_def)

lemma insert_event_row_ready:
  "pg_faults s = [] \<Longrightarrow> event_constraint_error r s = None \<Longrightarrow> insert_event_row r s =
     (Inr (), s\<lparr>pg_events := pg_events s @ [r\<lparr>er_seq := pg_seq s\<rparr>], pg_seq := Suc (pg_seq s)\<rparr>)"
  by (simp add: insert_event_row_def and_then_def round_trip_ready)

lemma create_children_ready:
  assumes inv: "pg_inv s" and r: "pg_faults s = []" and ok: "event_ok e" and fresh: "ev_id e \<notin> row_ids s"
  shows "\<exists>s'. create_children e (s\<lparr>pg_events := pg_events s @ [(row_of_event e)\<lparr>er_seq := pg_seq s\<rparr>],
      pg_seq := Suc (pg_seq s)\<rparr>) = (Inr (), s') \<and> pg_faults s' = []"
proof -
  let ?s = "s\<lparr>pg_events := pg_events s @ [(row_of_event e)\<lparr>er_seq := pg_seq s\<rparr>], pg_seq := Suc (pg_seq s)\<rparr>"
  have id: "ev_id e \<in> er_id ` set (pg_events ?s)" by (simp add: row_of_event_def)
  have "\<forall>k \<in> fst ` set (ev_tags e). (ev_id e, k) \<notin> tag_id ` set (pg_tags ?s)"
    using inv fresh by (auto simp: pg_inv_def tag_id_def)
  then obtain s1 where t: "insert_tags (ev_id e) (ev_tags e) ?s = (Inr (), s1)" "pg_faults s1 = []"
      "pg_events s1 = pg_events ?s" "pg_links s1 = pg_links ?s"
    using insert_tags_ready [of ?s "ev_id e" "ev_tags e"] r id ok by (auto simp: event_ok_def)
  have "\<forall>k \<in> set (pg_links s1). kr_event_id k = ev_id e \<longrightarrow> kr_position k < 0"
    using inv fresh t(4) by (auto simp: pg_inv_def)
  moreover have "ev_id e \<in> er_id ` set (pg_events s1)" using id t(3) by (simp only:)
  ultimately obtain s2 where "insert_links (ev_id e) 0 (ev_links e) s1 = (Inr (), s2)" "pg_faults s2 = []"
    using insert_links_ready [OF t(2)] by blast
  with t show ?thesis by (simp add: create_children_def and_then_def round_trip_ready)
qed

lemma pg_create_ready:
  assumes inv: "pg_inv s" and r: "pg_ready s" and ok: "event_ok e" and fresh: "ev_id e \<notin> row_ids s"
    and par: "ev_parent_id e \<noteq> [] \<longrightarrow> ev_parent_id e \<in> row_ids s"
    and ext: "ev_external_id e \<noteq> [] \<longrightarrow> find_by_external_id (pg_registry s) (ev_external_id e) = None"
  shows "\<exists>s'. pg_create e s = (Inr (stored_event e), s') \<and> pg_ready s'"
proof -
  have r': "pg_faults s = []" using r by (simp add: pg_ready_def)
  have x: "nullable_string (ev_external_id e) \<noteq> None \<longrightarrow>
      nullable_string (ev_external_id e) \<notin> er_external_id ` set (pg_events s)"
  proof (cases "ev_external_id e = []")
    case False
    then have "\<forall>q \<in> set (pg_events s). er_external_id q \<noteq> Some (ev_external_id e)"
      using ext by (auto simp: find_row_by_external_id find_None_iff)
    then show ?thesis using False by (auto simp: nullable_string_def)
  qed (simp add: nullable_string_def)
  have "event_constraint_error (row_of_event e) s = None"
    by (rule parent_ok [OF par fresh x]) (simp_all add: row_of_event_def)
  note ins = insert_event_row_ready [OF r' this]
  obtain s' where "create_children e (s\<lparr>pg_events := pg_events s @ [(row_of_event e)\<lparr>er_seq := pg_seq s\<rparr>],
      pg_seq := Suc (pg_seq s)\<rparr>) = (Inr (), s')" "pg_faults s' = []"
    using create_children_ready [OF inv r' ok fresh] by blast
  then have "pg_create e s = (Inr (canonical_event e), s')"
    by (simp add: pg_create_eq round_trip_ready r' ins)
  then show ?thesis using \<open>pg_faults s' = []\<close> by (simp add: canonical_event_def stored_event_def pg_ready_def)
qed

lemma toggle_transition_ready:
  assumes inv: "pg_inv s" and r: "pg_ready s" and u: "env_uuid en = Some u" "u \<notin> row_ids s" and i: "i \<in> row_ids s"
  shows "\<exists>e s'. toggle_transition en i user a b da db s = (Inr e, s') \<and> pg_ready s'"
proof -
  have r': "pg_faults s = []" using r by (simp add: pg_ready_def)
  have "i \<noteq> []" using i inv by (auto simp: row_ids_def pg_inv_def row_ok_def)
  then have free: "event_constraint_error (transition_row (transition_event en u i user t d)) s = None" for t d
    using i u(2) by (intro parent_ok [where p = i and i = u and x = None])
      (auto simp: transition_row_def transition_event_def nullable_string_def)
  have "i \<in> er_id ` set (pg_events s)" using i by (simp add: row_ids_def)
  then show ?thesis
    by (simp add: toggle_transition_def transition_body_def and_then_def round_trip_ready r' with_state_def
        replace_error_def Let_def u(1) insert_event_row_ready [OF r' free] ret_def pg_ready_def)
qed

interpretation live_pgs: live_store pg_store pg_inv pg_registry pg_ready
proof (unfold_locales, goal_cases)
  case (1 s i) then show ?case
    using load_one_ready [of s] by (simp add: pg_get_by_id_def and_then_def round_trip_ready with_state_def pg_ready_def)
next
  case (2 s x) then show ?case
    using load_one_ready [of s] by (simp add: pg_get_by_external_id_def and_then_def round_trip_ready with_state_def pg_ready_def)
next
  case (3 s e) then show ?case using pg_create_ready by (simp add: registry_ids_rows)
next
  case (4 s en u i user) then show ?case
    using toggle_transition_ready by (simp add: pg_toggle_star_def registry_ids_rows)
next
  case (5 s en u i user) then show ?case
    using toggle_transition_ready by (simp add: pg_toggle_alert_def registry_ids_rows)
next
  case (6 s p)
  then obtain es where "load_related (page (effective_limit (lp_limit p)) (lp_offset p)
      (newest_first (filter (where_selects s (build_where_clause p)) (pg_events s)))) s = (Inr es, s)"
    using load_related_ready by (auto simp: pg_ready_def)
  with 6 show ?case
    by (simp add: pg_list_def and_then_def round_trip_ready with_state_def pg_ready_def Let_def ret_def)
next
  case (7 s q)
  then obtain es where "load_related (page (effective_limit (cp_limit q)) (cp_offset q)
      (newest_first (current_rows q s))) s = (Inr es, s)"
    using load_related_ready by (auto simp: pg_ready_def)
  with 7 show ?case
    by (simp add: pg_list_current_def and_then_def round_trip_ready with_state_def pg_ready_def Let_def ret_def)
next
  case (8 s i) then show ?case
    by (simp add: pg_get_annotations_def and_then_def round_trip_ready with_state_def pg_ready_def ret_def)
next
  case (9 s ids) then show ?case
    by (simp add: pg_get_annotations_batch_def and_then_def round_trip_ready with_state_def pg_ready_def ret_def)
qed

end
