(* ===== verification/ServiceSteps.thy ===== *)
theory ServiceSteps
  imports PgContract
begin

section \<open>Every run of the service only appends\<close>

text \<open>
  The service as a transition system on the PostgreSQL tables: a step is one call of a method of
  \<^verbatim>\<open>ChangeService\<close> by any client with any arguments, or a change of the fault schedule. Every
  state reachable from the empty tables satisfies \<open>pg_inv\<close>, and along every run the registry only
  grows at its end: no event is ever changed, removed or reordered.
\<close>

definition extends :: "registry \<Rightarrow> registry \<Rightarrow> bool" where
  "extends old new = (\<exists>es. new = old @ es)"

lemma extends_refl [intro, simp]: "extends r r"
  by (simp add: extends_def)

lemma extends_trans [trans]: "extends r s \<Longrightarrow> extends s t \<Longrightarrow> extends r t"
  by (auto simp: extends_def)

lemma extends_append [intro, simp]: "extends r (r @ es)"
  by (auto simp: extends_def)

lemma extends_mem: "extends r s \<Longrightarrow> e \<in> set r \<Longrightarrow> e \<in> set s"
  by (auto simp: extends_def)

text \<open>The same where every appended event satisfies \<open>P\<close>, such as being attributed to one user.\<close>

definition by_user :: "user_identity \<Rightarrow> change_event \<Rightarrow> bool" where
  "by_user u e = (ev_user_name e = ui_name u \<and> ev_user_provider e = ui_provider u \<and> ev_user_subject e = ui_subject u)"

definition extends_by :: "(change_event \<Rightarrow> bool) \<Rightarrow> registry \<Rightarrow> registry \<Rightarrow> bool" where
  "extends_by P old new = (\<exists>es. new = old @ es \<and> list_all P es)"

lemma extends_by_refl [intro, simp]: "extends_by P r r"
  by (simp add: extends_by_def)

lemma extends_by_trans [trans]: "extends_by P r s \<Longrightarrow> extends_by P s t \<Longrightarrow> extends_by P r t"
  by (force simp: extends_by_def)

lemma extends_by_append [intro]: "P e \<Longrightarrow> extends_by P r (r @ [e])"
  by (simp add: extends_by_def)

lemma extends_by_none [simp]: "extends_by (\<lambda>_. False) r s \<longleftrightarrow> s = r"
  by (simp add: extends_by_def list_all_iff)

lemma extends_by_mono: "extends_by P r s \<Longrightarrow> (\<And>e. P e \<Longrightarrow> Q e) \<Longrightarrow> extends_by Q r s"
  by (auto simp: extends_by_def list_all_iff)

lemma extends_by_extends: "extends_by P r s \<Longrightarrow> extends r s"
  by (auto simp: extends_by_def extends_def)

definition request_user :: "create_request \<Rightarrow> user_identity" where
  "request_user req = \<lparr>ui_name = cr_user_name req, ui_provider = cr_user_provider req, ui_subject = cr_user_subject req\<rparr>"

lemma stored_by_request_user: "by_user (request_user req) (stored_event (new_event en i req et tags))"
  by (simp add: by_user_def request_user_def stored_event_def new_event_def)

lemma toggled_by_user: "toggled state a b r i user e \<Longrightarrow> by_user user e"
  by (simp add: toggled_def by_user_def)

context change_store
begin

text \<open>A call keeps the invariant and only appends events that satisfy \<open>P\<close>.\<close>

definition grows_at :: "(change_event \<Rightarrow> bool) \<Rightarrow> 's \<Rightarrow> ('s, 'b) op \<Rightarrow> bool" where
  "grows_at P s m = (inv s \<longrightarrow> inv (snd (m s)) \<and> extends_by P (reg s) (reg (snd (m s))))"

lemma grows_ret: "grows_at P s (ret x)" "grows_at P s (throw err)"
  by (simp_all add: grows_at_def ret_def throw_def)

lemma grows_and_then:
  assumes "grows_at P s m" "\<And>x s'. inv s \<Longrightarrow> m s = (Inr x, s') \<Longrightarrow> grows_at P s' (f x)"
  shows "grows_at P s (and_then m f)"
proof (cases "m s")
  case (Pair r s')
  show ?thesis
  proof (cases r)
    case (Inl err)
    with Pair assms(1) show ?thesis by (simp add: grows_at_def and_then_def)
  next
    case (Inr x)
    with Pair assms(1) assms(2) [of x s'] show ?thesis
      by (auto simp: grows_at_def and_then_def intro: extends_by_trans)
  qed
qed

lemma grows_unchanged:
  assumes "\<And>r s'. inv s \<Longrightarrow> m s = (r, s') \<Longrightarrow> inv s' \<and> reg s' = reg s"
  shows "grows_at P s m"
  using assms [OF _ prod.collapse [symmetric]] by (auto simp: grows_at_def)

lemma grows_cases:
  assumes "\<And>x s'. inv s \<Longrightarrow> m s = (Inr x, s') \<Longrightarrow> inv s' \<and> extends_by P (reg s) (reg s')"
    and "\<And>err s'. inv s \<Longrightarrow> m s = (Inl err, s') \<Longrightarrow> inv s' \<and> reg s' = reg s"
  shows "grows_at P s m"
proof (cases "m s")
  case (Pair r s')
  then show ?thesis using assms(1) [of _ s'] assms(2) [of _ s'] by (cases r) (auto simp: grows_at_def)
qed

lemma grows_create_with:
  assumes "distinct (map fst (cr_tags req))" "env_uuid en \<noteq> Some []"
    and "\<And>i event_type tags. validate_create_request parse req b = Inr (event_type, tags) \<Longrightarrow>
      P (stored_event (new_event en i req event_type tags))"
  shows "grows_at P s (svc_create_with parse S b en req)"
proof (rule grows_cases)
  fix e s' assume "inv s" "svc_create_with parse S b en req s = (Inr e, s')"
  from create_with_Inr [OF this(1) assms(1,2) this(2)] assms(3) show "inv s' \<and> extends_by P (reg s) (reg s')"
    by (metis extends_by_append)
next
  fix err s' assume "inv s" "svc_create_with parse S b en req s = (Inl err, s')"
  from create_with_Inl [OF this(1) assms(1,2) this(2)] show "inv s' \<and> reg s' = reg s" by blast
qed

lemma grows_create_as:
  assumes "distinct (map fst (cr_tags req))" "env_uuid en \<noteq> Some []" "request_user req = u"
  shows "grows_at (by_user u) s (svc_create_with parse S b en req)"
  by (rule grows_create_with [OF assms(1,2)]) (use stored_by_request_user assms(3) in blast)

lemma grows_add_links: "env_uuid en \<noteq> Some [] \<Longrightarrow> grows_at (by_user u) s (svc_add_links_as parse S en i u links)"
  unfolding svc_add_links_as_def svc_create_def
  by (cases "links = []") (auto intro!: grows_ret grows_create_as simp: zero_create_request_def request_user_def)

lemma grows_toggle_star:
  assumes "env_uuid en \<noteq> Some []"
  shows "grows_at (by_user u) s (svc_toggle_star_as S en i u)"
proof (rule grows_cases)
  fix e s' assume "inv s" "svc_toggle_star_as S en i u s = (Inr e, s')"
  from toggle_star_as_Inr [OF this(1) assms this(2)] show "inv s' \<and> extends_by (by_user u) (reg s) (reg s')"
    by (metis extends_by_append toggled_by_user)
next
  fix err s' assume "inv s" "svc_toggle_star_as S en i u s = (Inl err, s')"
  from toggle_star_as_Inl [OF this(1) assms this(2)] show "inv s' \<and> reg s' = reg s" by blast
qed

lemma grows_toggle_alert:
  assumes "env_uuid en \<noteq> Some []"
  shows "grows_at (by_user u) s (svc_toggle_alert_as S en i u)"
proof (rule grows_cases)
  fix e s' assume "inv s" "svc_toggle_alert_as S en i u s = (Inr e, s')"
  from toggle_alert_as_Inr [OF this(1) assms this(2)] show "inv s' \<and> extends_by (by_user u) (reg s) (reg s')"
    by (metis extends_by_append toggled_by_user)
next
  fix err s' assume "inv s" "svc_toggle_alert_as S en i u s = (Inl err, s')"
  from toggle_alert_as_Inl [OF this(1) assms this(2)] show "inv s' \<and> reg s' = reg s" by blast
qed

lemma grows_get: "grows_at P s (svc_get_by_id S i)"
proof (rule grows_cases)
  fix e s' assume "inv s" "svc_get_by_id S i s = (Inr e, s')"
  from get_event_Inr [OF this(1) this(2)] show "inv s' \<and> extends_by P (reg s) (reg s')" by (metis extends_by_refl)
next
  fix err s' assume "inv s" "svc_get_by_id S i s = (Inl err, s')"
  from get_event_Inl [OF this(1) this(2)] show "inv s' \<and> reg s' = reg s" by blast
qed

lemma grows_list: "distinct (map fst (lp_tags p)) \<Longrightarrow> grows_at P s (svc_list S p)"
  by (rule grows_unchanged) (use svc_list_run in blast)

lemma grows_list_current: "grows_at P s (svc_list_current S q)"
  unfolding svc_list_current_def by (rule grows_unchanged) (use list_current in blast)

lemma grows_annotations: "grows_at P s (svc_get_annotations S i)"
  unfolding svc_get_annotations_def by (rule grows_unchanged) (use get_annotations in blast)

lemma grows_annotations_batch: "grows_at P s (svc_get_annotations_batch S ids)"
  unfolding svc_get_annotations_batch_def by (rule grows_unchanged) (use get_annotations_batch in blast)

lemma grows_operation_state: "grows_at P s (svc_operation_state S e)"
  unfolding svc_operation_state_def
  by (auto intro!: grows_ret grows_and_then grows_list_current split: option.split prod.split)

lemma grows_accept: "grows_at P s m \<Longrightarrow> grows_at P s (accept_duplicate m)"
  by (auto simp: grows_at_def accept_duplicate_def split: prod.splits sum.splits go_error.splits)

lemma grows_close_with:
  assumes fresh: "env_uuid en \<noteq> Some []"
    and P: "\<And>n start key val. start \<in> set (reg s) \<Longrightarrow> operation_identity (Some start) = Some (key, val) \<Longrightarrow>
      ev_event_type start \<noteq> [] \<Longrightarrow>
      P (stored_event (new_event en n (close_request start key val u d) (ev_event_type start) (cr_tags (close_request start key val u d))))"
  shows "grows_at P s (svc_close_operation_as parse S en i u d)"
proof (cases "ui_name u = []")
  case True
  then show ?thesis by (simp add: svc_close_operation_as_def grows_ret)
next
  case False
  have "grows_at P s1 (case operation_identity (Some start) of
          None \<Rightarrow> throw ErrOperationNotClosable
        | Some (key, val) \<Rightarrow>
            and_then (svc_operation_state S (Some start)) (\<lambda>state.
              if state \<noteq> operation_state_open then throw ErrOperationClosed
              else accept_duplicate (svc_create_with parse S False en (close_request start key val u d))))"
    if inv: "inv s" and run: "svc_get_by_id S i s = (Inr start, s1)" for start s1
  proof -
    have start: "start \<in> set (reg s)" and "distinct (map fst (ev_tags start))"
      using get_event_Inr [OF inv run] find_by_id_Some reg_ok [OF inv] by (fastforce simp: registry_ok_def)+
    then have d: "distinct (map fst (cr_tags (close_request start key val u d)))" for key val
      by (simp add: distinct_update_keys)
    have "grows_at P s2 (svc_create_with parse S False en (close_request start key val u d))"
      if "operation_identity (Some start) = Some (key, val)" for key val s2
      by (rule grows_create_with [OF d fresh])
        (use P [OF start that] in \<open>auto simp: validate_create_request_def close_request_def zero_create_request_def
           split: if_splits option.splits\<close>)
    then show ?thesis
      by (auto intro!: grows_ret grows_and_then grows_operation_state grows_accept split: option.split)
  qed
  then show ?thesis using False unfolding svc_close_operation_as_def by (auto intro!: grows_and_then grows_get)
qed

lemma grows_close:
  assumes "env_uuid en \<noteq> Some []"
  shows "grows_at (by_user u) s (svc_close_operation_as parse S en i u d)"
  by (rule grows_close_with [OF assms])
    (simp add: by_user_def stored_event_def new_event_def close_request_def zero_create_request_def)

lemma grows_atD: "grows_at P s m \<Longrightarrow> inv s \<Longrightarrow> m s = (r, s') \<Longrightarrow> inv s' \<and> extends_by P (reg s) (reg s')"
  by (simp add: grows_at_def)

end

subsection \<open>The transition system\<close>

inductive service_step :: "url_parser \<Rightarrow> pg \<Rightarrow> pg \<Rightarrow> bool" for parse :: url_parser where
  step_create: "svc_create parse pg_store en req s = (r, s') \<Longrightarrow> distinct (map fst (cr_tags req)) \<Longrightarrow>
     env_uuid en \<noteq> Some [] \<Longrightarrow> service_step parse s s'"
| step_add_links: "svc_add_links_as parse pg_store en i user links s = (r, s') \<Longrightarrow>
     env_uuid en \<noteq> Some [] \<Longrightarrow> service_step parse s s'"
| step_toggle_star: "svc_toggle_star_as pg_store en i user s = (r, s') \<Longrightarrow>
     env_uuid en \<noteq> Some [] \<Longrightarrow> service_step parse s s'"
| step_toggle_alert: "svc_toggle_alert_as pg_store en i user s = (r, s') \<Longrightarrow>
     env_uuid en \<noteq> Some [] \<Longrightarrow> service_step parse s s'"
| step_close: "svc_close_operation_as parse pg_store en i user description s = (c, s') \<Longrightarrow>
     env_uuid en \<noteq> Some [] \<Longrightarrow> service_step parse s s'"
| step_get: "svc_get_by_id pg_store i s = (r, s') \<Longrightarrow> service_step parse s s'"
| step_list: "svc_list pg_store p s = (l, s') \<Longrightarrow> distinct (map fst (lp_tags p)) \<Longrightarrow> service_step parse s s'"
| step_list_current: "svc_list_current pg_store q s = (l, s') \<Longrightarrow> service_step parse s s'"
| step_annotations: "svc_get_annotations pg_store i s = (a, s') \<Longrightarrow> service_step parse s s'"
| step_annotations_batch: "svc_get_annotations_batch pg_store ids s = (m, s') \<Longrightarrow> service_step parse s s'"
| step_activity: "svc_get_activity pg_store i s = Some (v, s') \<Longrightarrow> service_step parse s s'"
| step_faults: "service_step parse s (s\<lparr>pg_faults := fs\<rparr>)"

inductive_cases service_stepE: "service_step parse s s'"

inductive reachable :: "url_parser \<Rightarrow> pg \<Rightarrow> bool" for parse :: url_parser where
  reachable_init: "reachable parse empty_pg"
| reachable_step: "reachable parse s \<Longrightarrow> service_step parse s s' \<Longrightarrow> reachable parse s'"

lemma service_step_grows:
  assumes "service_step parse s s'" "pg_inv s"
  shows "pg_inv s' \<and> extends (pg_registry s) (pg_registry s')"
  using assms(1)
proof cases
  case (step_create en req r)
  from pgs.grows_atD [OF pgs.grows_create_as assms(2)] step_create show ?thesis unfolding svc_create_def by (blast dest: extends_by_extends)
next
  case (step_add_links en i user links r)
  from pgs.grows_atD [OF pgs.grows_add_links assms(2)] step_add_links show ?thesis by (blast dest: extends_by_extends)
next
  case (step_toggle_star en i user r)
  from pgs.grows_atD [OF pgs.grows_toggle_star assms(2)] step_toggle_star show ?thesis by (blast dest: extends_by_extends)
next
  case (step_toggle_alert en i user r)
  from pgs.grows_atD [OF pgs.grows_toggle_alert assms(2)] step_toggle_alert show ?thesis by (blast dest: extends_by_extends)
next
  case (step_close en i user d c)
  from pgs.grows_atD [OF pgs.grows_close assms(2)] step_close show ?thesis by (blast dest: extends_by_extends)
next
  case (step_get i r)
  from pgs.grows_atD [OF pgs.grows_get assms(2)] step_get show ?thesis by (blast dest: extends_by_extends)
next
  case (step_list p l)
  from pgs.grows_atD [OF pgs.grows_list assms(2)] step_list show ?thesis by (blast dest: extends_by_extends)
next
  case (step_list_current q l)
  from pgs.grows_atD [OF pgs.grows_list_current assms(2)] step_list_current show ?thesis by (blast dest: extends_by_extends)
next
  case (step_annotations i a)
  from pgs.grows_atD [OF pgs.grows_annotations assms(2)] step_annotations show ?thesis by (blast dest: extends_by_extends)
next
  case (step_annotations_batch ids m)
  from pgs.grows_atD [OF pgs.grows_annotations_batch assms(2)] step_annotations_batch show ?thesis by (blast dest: extends_by_extends)
next
  case (step_activity i v)
  from pgs.get_activity_run [OF assms(2), of i] step_activity show ?thesis by auto
next
  case (step_faults fs)
  with assms(2) show ?thesis by simp
qed

lemma reachable_inv: "reachable parse s \<Longrightarrow> pg_inv s"
  by (induction rule: reachable.induct) (auto simp: pg_inv_empty dest: service_step_grows)

lemma steps_extend:
  assumes "(service_step parse)\<^sup>*\<^sup>* s s'" "pg_inv s"
  shows "pg_inv s' \<and> extends (pg_registry s) (pg_registry s')"
  using assms by (induction rule: rtranclp_induct) (auto dest: service_step_grows intro: extends_trans)

end
