(* ===== verification/ServiceInvariant.thy ===== *)
theory ServiceInvariant
  imports ServiceSteps
begin

section \<open>What every stored event satisfies\<close>

text \<open>
  The checks of \<^verbatim>\<open>create\<close> as an invariant of the registry: along every run every stored event has an
  event type, satisfies the tag policy with canonical severity and scope words, and carries only links
  that pass the link policy. Closing an operation skips the tag policy in the code; the event it appends
  satisfies it because the start event did.
\<close>

definition clean_event :: "url_parser \<Rightarrow> change_event \<Rightarrow> bool" where
  "clean_event parse e =
     (ev_event_type e \<noteq> [] \<and> tag_policy (ev_event_type e) (ev_tags e)
      \<and> map_of (ev_tags e) ''severity'' \<in> {None} \<union> Some ` set severities
      \<and> map_of (ev_tags e) ''scope'' \<in> {None} \<union> Some ` set scopes
      \<and> list_all (valid_link parse) (ev_links e))"

lemma stored_sel [simp]:
  "ev_event_type (stored_event e) = ev_event_type e" "ev_tags (stored_event e) = ev_tags e"
  "ev_links (stored_event e) = ev_links e"
  by (simp_all add: stored_event_def)

lemma validated_clean:
  assumes "validate_create_request parse req True = Inr (event_type, tags)"
  shows "clean_event parse (stored_event (new_event en i req event_type tags))"
proof -
  from assms have t: "tags = normalize_event_tags (cr_tags req)" and v: "validate_event_tags event_type tags = None"
      and l: "validate_links parse (cr_links req) = None" and e: "event_type \<noteq> []"
    by (auto simp: validate_create_request_def Let_def event_type_maintenance_def split: if_splits option.splits)
  note C = accepted_tags_canonical [OF v [unfolded t]]
  from v have "tag_policy event_type tags" by (simp add: validate_event_tags_iff)
  with C(1,2) e l t show ?thesis by (simp add: clean_event_def new_event_def validate_links_iff)
qed

lemma meta_clean:
  assumes "ev_tags e = []" "ev_links e = []" "ev_event_type e \<in> {event_type_star, event_type_unstar, event_type_alert, event_type_clear_alert}"
  shows "clean_event parse e"
  using assms by (auto simp: clean_event_def tag_policy_def tag_has_def event_type_star_def event_type_unstar_def
      event_type_alert_def event_type_clear_alert_def event_type_maintenance_def)

lemma star_clean: "toggled starred event_type_star event_type_unstar r i u e \<Longrightarrow> clean_event parse e"
  by (rule meta_clean) (auto simp: toggled_def)

lemma alert_clean: "toggled alerted event_type_alert event_type_clear_alert r i u e \<Longrightarrow> clean_event parse e"
  by (rule meta_clean) (auto simp: toggled_def)

text \<open>The closing event inherits the tags of its start, with the phase replaced.\<close>

lemma identity_tags:
  assumes "operation_identity (Some e) = Some (key, val)"
  shows "key \<in> {''change_id'', ''deploy_id''} \<and> val \<noteq> [] \<and> map_of (ev_tags e) key = Some val"
  using assms by (auto simp: operation_identity_def tag_get_def split: if_splits option.splits)

lemma closing_tags:
  assumes "operation_identity (Some e) = Some (key, val)"
  defines "tags \<equiv> AList.update ''phase'' ''end'' (AList.update key val (ev_tags e))"
  shows "map_of tags ''phase'' = Some ''end''" and "identified tags"
    and "map_of tags ''severity'' = map_of (ev_tags e) ''severity''" and "map_of tags ''scope'' = map_of (ev_tags e) ''scope''"
proof -
  note I = identity_tags [OF assms(1)]
  show "map_of tags ''phase'' = Some ''end''" by (simp add: tags_def update_conv')
  show "identified tags" using I by (auto simp: tags_def identified_def tag_get_def update_conv')
  show "map_of tags ''severity'' = map_of (ev_tags e) ''severity''" "map_of tags ''scope'' = map_of (ev_tags e) ''scope''"
    using I by (auto simp: tags_def update_conv')
qed

lemma close_clean:
  assumes "clean_event parse start" and "operation_identity (Some start) = Some (key, val)" and "ev_event_type start \<noteq> []"
  shows "clean_event parse (stored_event (new_event en n (close_request start key val u d) (ev_event_type start)
    (cr_tags (close_request start key val u d))))"
  using assms(1,3) closing_tags [OF assms(2)]
  by (simp add: clean_event_def new_event_def tag_policy_def close_request_def zero_create_request_def)

context change_store
begin

lemma create_clean:
  "distinct (map fst (cr_tags req)) \<Longrightarrow> env_uuid en \<noteq> Some [] \<Longrightarrow> grows_at (clean_event parse) s (svc_create parse S en req)"
  unfolding svc_create_def by (rule grows_create_with) (auto intro: validated_clean)

lemma add_links_clean: "env_uuid en \<noteq> Some [] \<Longrightarrow> grows_at (clean_event parse) s (svc_add_links_as parse S en i u links)"
  unfolding svc_add_links_as_def
  by (auto intro!: grows_ret create_clean simp: zero_create_request_def)

lemma toggle_star_clean:
  assumes "env_uuid en \<noteq> Some []"
  shows "grows_at (clean_event parse) s (svc_toggle_star_as S en i u)"
proof (rule grows_cases)
  fix e s' assume "inv s" "svc_toggle_star_as S en i u s = (Inr e, s')"
  from toggle_star_as_Inr [OF this(1) assms this(2)] show "inv s' \<and> extends_by (clean_event parse) (reg s) (reg s')"
    by (metis extends_by_append star_clean)
next
  fix err s' assume "inv s" "svc_toggle_star_as S en i u s = (Inl err, s')"
  from toggle_star_as_Inl [OF this(1) assms this(2)] show "inv s' \<and> reg s' = reg s" by blast
qed

lemma toggle_alert_clean:
  assumes "env_uuid en \<noteq> Some []"
  shows "grows_at (clean_event parse) s (svc_toggle_alert_as S en i u)"
proof (rule grows_cases)
  fix e s' assume "inv s" "svc_toggle_alert_as S en i u s = (Inr e, s')"
  from toggle_alert_as_Inr [OF this(1) assms this(2)] show "inv s' \<and> extends_by (clean_event parse) (reg s) (reg s')"
    by (metis extends_by_append alert_clean)
next
  fix err s' assume "inv s" "svc_toggle_alert_as S en i u s = (Inl err, s')"
  from toggle_alert_as_Inl [OF this(1) assms this(2)] show "inv s' \<and> reg s' = reg s" by blast
qed

lemma close_keeps_clean:
  assumes "env_uuid en \<noteq> Some []" and "list_all (clean_event parse) (reg s)"
  shows "grows_at (clean_event parse) s (svc_close_operation_as parse S en i u d)"
proof (rule grows_close_with [OF assms(1)])
  fix start n key val
  assume "start \<in> set (reg s)" and ident: "operation_identity (Some start) = Some (key, val)"
  with assms(2) have "clean_event parse start" by (simp only: list_all_iff)
  from close_clean [OF this ident]
  show "clean_event parse (stored_event (new_event en n (close_request start key val u d) (ev_event_type start)
    (cr_tags (close_request start key val u d))))"
    using \<open>clean_event parse start\<close> clean_event_def by blast
qed

lemma clean_after:
  assumes "grows_at (clean_event parse) s m" "inv s" "m s = (r, s')" "list_all (clean_event parse) (reg s)"
  shows "list_all (clean_event parse) (reg s')"
  using grows_atD [OF assms(1-3)] assms(4) by (auto simp: extends_by_def)

end

lemma step_keeps_clean:
  assumes "service_step parse s s'" "pg_inv s" and clean: "list_all (clean_event parse) (pg_registry s)"
  shows "list_all (clean_event parse) (pg_registry s')"
  using assms(1)
proof cases
  case (step_create en req r)
  from pgs.clean_after [OF pgs.create_clean assms(2) _ clean] step_create show ?thesis by blast
next
  case (step_add_links en i user links r)
  from pgs.clean_after [OF pgs.add_links_clean assms(2) _ clean] step_add_links show ?thesis by blast
next
  case (step_toggle_star en i user r)
  from pgs.clean_after [OF pgs.toggle_star_clean assms(2) _ clean] step_toggle_star show ?thesis by blast
next
  case (step_toggle_alert en i user r)
  from pgs.clean_after [OF pgs.toggle_alert_clean assms(2) _ clean] step_toggle_alert show ?thesis by blast
next
  case (step_close en i user d c)
  from pgs.clean_after [OF pgs.close_keeps_clean [OF _ clean] assms(2) _ clean] step_close show ?thesis by blast
next
  case (step_get i r)
  from pgs.clean_after [OF pgs.grows_get assms(2) _ clean] step_get show ?thesis by blast
next
  case (step_list p l)
  from pgs.clean_after [OF pgs.grows_list assms(2) _ clean] step_list show ?thesis by blast
next
  case (step_list_current q l)
  from pgs.clean_after [OF pgs.grows_list_current assms(2) _ clean] step_list_current show ?thesis by blast
next
  case (step_annotations i a)
  from pgs.clean_after [OF pgs.grows_annotations assms(2) _ clean] step_annotations show ?thesis by blast
next
  case (step_annotations_batch ids m)
  from pgs.clean_after [OF pgs.grows_annotations_batch assms(2) _ clean] step_annotations_batch show ?thesis by blast
next
  case (step_activity i v)
  from pgs.get_activity_run [OF assms(2), of i] step_activity clean show ?thesis by auto
next
  case (step_faults fs)
  with clean show ?thesis by simp
qed

lemma reachable_clean: "reachable parse s \<Longrightarrow> list_all (clean_event parse) (pg_registry s)"
proof (induction rule: reachable.induct)
  case reachable_init
  show ?case by (simp add: pg_registry_def empty_pg_def)
next
  case (reachable_step s s')
  then show ?case using step_keeps_clean reachable_inv by blast
qed

end
