(* ===== verification/Example.thy ===== *)
theory Example
  imports ServiceSteps
begin

section \<open>A small registry to evaluate the model on\<close>

text \<open>
  Tables with a correlated start event, a star on it and a plain event that carries an external
  identifier, and the requests the witnesses of the properties run against them.
\<close>

definition demo_row :: "nat \<Rightarrow> string \<Rightarrow> string option \<Rightarrow> string option \<Rightarrow> string \<Rightarrow> instant \<Rightarrow> event_row" where
  "demo_row n i external_id parent_id event_type t = \<lparr>er_seq = n, er_id = i, er_external_id = external_id,
     er_parent_id = parent_id, er_user_name = ''ada'', er_user_provider = None, er_user_subject = None,
     er_timestamp = t * second, er_event_type = event_type, er_description = ''d'', er_long_description = [],
     er_created_at = t * second\<rparr>"

definition demo_pg :: pg where
  "demo_pg = \<lparr>pg_events = [demo_row 1 ''e1'' None None ''deployment'' 10,
       demo_row 2 ''e2'' None (Some ''e1'') event_type_star 20,
       demo_row 3 ''e3'' (Some ''x3'') None ''note'' 30],
     pg_tags = [\<lparr>tr_event_id = ''e1'', tr_key = ''phase'', tr_value = ''start''\<rparr>,
       \<lparr>tr_event_id = ''e1'', tr_key = ''change_id'', tr_value = ''c1''\<rparr>],
     pg_links = [], pg_seq = 4, pg_faults = []\<rparr>"

definition demo_env :: env where
  "demo_env = \<lparr>env_now = 40 * second, env_uuid = Some ''e9''\<rparr>"

definition demo_user :: user_identity where
  "demo_user = \<lparr>ui_name = ''bob'', ui_provider = ''github'', ui_subject = ''7''\<rparr>"

definition demo_parser :: url_parser where
  "demo_parser raw = Some \<lparr>pu_scheme = ''https'', pu_opaque = [], pu_has_user = False, pu_host = ''example.com'',
     pu_hostname = ''example.com'', pu_path = ''/'', pu_raw_query = [], pu_fragment = []\<rparr>"

definition demo_event :: change_event where
  "demo_event = \<lparr>ev_id = ''e9'', ev_external_id = ''x9'', ev_parent_id = [], ev_user_name = ''bob'',
     ev_user_provider = [], ev_user_subject = [], ev_timestamp = 40 * second, ev_event_type = ''note'',
     ev_description = ''n'', ev_long_description = [], ev_links = [], ev_tags = [(''team'', ''core'')],
     ev_created_at = 40 * second\<rparr>"

definition demo_request :: create_request where
  "demo_request = zero_create_request\<lparr>cr_external_id := ''x9'', cr_user_name := ''bob'',
     cr_event_type := ''note'', cr_tags := [(''severity'', '' SEV2 '')]\<rparr>"

lemma demo_inv: "pg_inv demo_pg"
  by (simp add: pg_inv_def demo_pg_def demo_row_def row_ok_def row_ids_def tag_id_def canonical_time_def second_def)

lemma demo_ready: "pg_ready demo_pg"
  by (simp add: pg_ready_def demo_pg_def)

lemma demo_ids: "row_ids demo_pg = {''e1'', ''e2'', ''e3''}"
  by (auto simp: row_ids_def demo_pg_def demo_row_def)

lemma demo_env_sel [simp]: "env_uuid demo_env = Some ''e9''" "env_now demo_env = 40 * second"
  by (simp_all add: demo_env_def)

lemma demo_registry: "pg_registry demo_pg =
   [\<lparr>ev_id = ''e1'', ev_external_id = [], ev_parent_id = [], ev_user_name = ''ada'', ev_user_provider = [],
     ev_user_subject = [], ev_timestamp = 10 * second, ev_event_type = ''deployment'', ev_description = ''d'',
     ev_long_description = [], ev_links = [], ev_tags = [(''phase'', ''start''), (''change_id'', ''c1'')],
     ev_created_at = 10 * second\<rparr>,
    \<lparr>ev_id = ''e2'', ev_external_id = [], ev_parent_id = ''e1'', ev_user_name = ''ada'', ev_user_provider = [],
     ev_user_subject = [], ev_timestamp = 20 * second, ev_event_type = event_type_star, ev_description = ''d'',
     ev_long_description = [], ev_links = [], ev_tags = [], ev_created_at = 20 * second\<rparr>,
    \<lparr>ev_id = ''e3'', ev_external_id = ''x3'', ev_parent_id = [], ev_user_name = ''ada'', ev_user_provider = [],
     ev_user_subject = [], ev_timestamp = 30 * second, ev_event_type = ''note'', ev_description = ''d'',
     ev_long_description = [], ev_links = [], ev_tags = [], ev_created_at = 30 * second\<rparr>]"
  by (simp add: pg_registry_def demo_pg_def demo_row_def event_of_def scan_event_def tags_of_def links_of_def
      canonical_time_def second_def)

lemma demo_start: "find_by_id (pg_registry demo_pg) ''e1'' = Some (hd (pg_registry demo_pg))"
  by (simp add: demo_registry find_by_id_def)

lemma demo_start_phase: "operation_in_phase ''start'' (hd (pg_registry demo_pg)) = Some (''deployment'', ''change_id'', ''c1'')"
  by (simp add: demo_registry operation_in_phase_def correlation_def tag_get_def)

lemma demo_not_ended: "\<not> operation_ended (pg_registry demo_pg) (''deployment'', ''change_id'', ''c1'')"
  by (simp add: demo_registry operation_ended_def operation_in_phase_def)

lemma demo_request_valid:
  "validate_create_request demo_parser demo_request True = Inr (''note'', [(''severity'', ''sev2'')])"
proof -
  have trim: "trim_space '' SEV2 '' = ''SEV2''" "trim_space ''note'' = ''note''"
    by (simp_all add: trim_simps strip_space_def strip_space_right_def in_ranges_def decode_last_rune_def)
  have low: "to_lower ''SEV2'' = ''sev2''" "to_lower ''sev2'' = ''sev2''"
    by (simp_all add: to_lower_ascii ascii_string_def lower_char_def char_of_def bit_0)
  have fold: "\<not> equal_fold_ascii ''note'' ''maintenance''"
    by (simp add: equal_fold_ascii_def)
  have norm: "normalize_event_tags [(''severity'', '' SEV2 '')] = [(''severity'', ''sev2'')]"
    by (simp add: normalize_event_tags_def well_known_tags_def update_present_def trim low)
  show ?thesis
    by (simp add: validate_create_request_def demo_request_def zero_create_request_def trim fold norm
        validate_event_tags_def validate_phase_tags_def tag_has_def tag_get_def event_type_maintenance_def
        validate_classification_tags_def severities_def low)
qed

definition demo_created_event :: change_event where
  "demo_created_event = stored_event (new_event demo_env ''e9'' demo_request ''note'' [(''severity'', ''sev2'')])"

lemma demo_create_run: "\<exists>s'. svc_create demo_parser pg_store demo_env demo_request demo_pg = (Inr demo_created_event, s') \<and> pg_ready s'"
  unfolding svc_create_def demo_created_event_def
  by (rule live_pgs.create_with_live [OF demo_inv demo_ready _ demo_request_valid])
    (simp_all add: demo_request_def zero_create_request_def demo_registry registry_ids_def find_by_external_id_def)

lemma demo_created: "\<exists>e s'. svc_create demo_parser pg_store demo_env demo_request demo_pg = (Inr e, s') \<and> pg_ready s'"
  using demo_create_run by blast

lemma demo_fresh: "''e9'' \<notin> registry_ids (pg_registry demo_pg)" "''e1'' \<in> registry_ids (pg_registry demo_pg)"
  by (simp_all add: registry_ids_rows demo_ids)

lemma demo_uuid: "env_uuid demo_env \<noteq> Some []"
  by simp

lemma demo_close_id: "close_id_ok (pg_registry demo_pg) (''deployment'', ''change_id'', ''c1'')"
  by (simp add: close_id_ok_def demo_registry operation_close_external_id_def)

lemma demo_user_name: "ui_name demo_user \<noteq> []"
  by (simp add: demo_user_def)

lemma demo_closed: "\<exists>e s'. svc_close_operation_as demo_parser pg_store demo_env ''e1'' demo_user [] demo_pg = (Inr (Some e), s')"
  using live_pgs.close_live [OF demo_inv demo_ready demo_user_name _ _ demo_fresh(1) demo_start demo_start_phase _
      demo_not_ended demo_close_id, of demo_env demo_parser "[]"] by auto

end
