(* ===== verification/ServiceProperties.thy ===== *)
theory ServiceProperties
  imports ServiceInvariant Example
begin

section \<open>Properties of the service\<close>

text \<open>
  The invariant of the stored events and the answers of the reads that take several calls of the
  store. The claim numbers are those of the root theory's list.
\<close>

subsection \<open>What is stored\<close>

text \<open>
  C20: the registry stays clean. In every state the service can reach from the empty tables, by any
  calls of any clients and whatever round trips fail, every stored event has an event type, satisfies
  the tag policy of its type (phase and correlation, classification), carries a severity and a scope
  only in their canonical spelling, and has only absolute HTTP(S) links without credentials.
\<close>

theorem stored_events_clean:
  assumes "reachable parse s" and "e \<in> set (pg_registry s)"
  shows "ev_event_type e \<noteq> [] \<and> tag_policy (ev_event_type e) (ev_tags e)
    \<and> (\<forall>v. map_of (ev_tags e) ''severity'' = Some v \<longrightarrow> v \<in> set severities)
    \<and> (\<forall>v. map_of (ev_tags e) ''scope'' = Some v \<longrightarrow> v \<in> set scopes)
    \<and> list_all (valid_link parse) (ev_links e)"
proof -
  have "clean_event parse e" using reachable_clean [OF assms(1)] assms(2) by (simp only: list_all_iff)
  then show ?thesis by (auto simp: clean_event_def)
qed

lemma demo_first:
  "\<exists>e s'. svc_create demo_parser pg_store demo_env demo_request empty_pg = (Inr e, s') \<and> map_of (ev_tags e) ''severity'' = Some ''sev2''"
proof -
  have "\<exists>s'. svc_create_with demo_parser pg_store True demo_env demo_request empty_pg =
      (Inr (stored_event (new_event demo_env ''e9'' demo_request ''note'' [(''severity'', ''sev2'')])), s') \<and> pg_ready s'"
    by (rule live_pgs.create_with_live [OF pg_inv_empty _ _ demo_request_valid])
      (simp_all add: pg_ready_def demo_request_def zero_create_request_def pg_registry_def empty_pg_def
        registry_ids_def find_by_external_id_def)
  moreover have "map_of (ev_tags (stored_event (new_event demo_env ''e9'' demo_request ''note'' [(''severity'', ''sev2'')]))) ''severity'' = Some ''sev2''"
    by (simp add: stored_event_def new_event_def)
  ultimately show ?thesis unfolding svc_create_def by (elim exE conjE) (rule exI, rule exI, rule conjI)
qed

theorem stored_events_clean_witness:
  "\<exists>e s'. svc_create demo_parser pg_store demo_env demo_request empty_pg = (Inr e, s')
    \<and> e \<in> set (pg_registry s') \<and> map_of (ev_tags e) ''severity'' = Some ''sev2'' \<and> ''sev2'' \<in> set severities"
proof -
  obtain e s' where run: "svc_create demo_parser pg_store demo_env demo_request empty_pg = (Inr e, s')"
      and sev: "map_of (ev_tags e) ''severity'' = Some ''sev2''"
    using demo_first by (elim exE conjE) (rule that)
  have d: "distinct (map fst (cr_tags demo_request))" by (simp add: demo_request_def)
  have "service_step demo_parser empty_pg s'" by (rule step_create [OF run d demo_uuid])
  then have "reachable demo_parser s'" by (rule reachable_step [OF reachable_init])
  moreover have "e \<in> set (pg_registry s')"
    by (rule pgs.create_with_Inr [OF pg_inv_empty d demo_uuid run [unfolded svc_create_def]]) simp
  ultimately have mem: "e \<in> set (pg_registry s')" and "''sev2'' \<in> set severities"
    using stored_events_clean [of demo_parser s' e] sev by simp_all
  with run sev show ?thesis by (intro exI conjI)
qed

subsection \<open>Reads over several calls\<close>

text \<open>
  C21: OperationState. For the stored start of an operation it answers closed exactly when an end event
  with the same event type and correlation is stored, and open otherwise; for any event that is not a
  top-level correlated start it answers the empty state; it stores nothing, and only the store can make
  it fail.
\<close>

theorem operation_state_correct:
  assumes "pg_inv s" and "e \<in> set (pg_registry s)" and "ev_event_type e \<noteq> []"
    and "svc_operation_state pg_store (Some e) s = (r, s')"
  shows "pg_registry s' = pg_registry s \<and> (case r of
      Inl err \<Rightarrow> \<exists>m. err = ErrOther m
    | Inr state \<Rightarrow> state = (case operation_in_phase ''start'' e of
          None \<Rightarrow> []
        | Some operation \<Rightarrow> if operation_ended (pg_registry s) operation then operation_state_closed else operation_state_open))"
proof (cases "operation_in_phase ''start'' e")
  case None
  with assms(4) show ?thesis by (auto simp: svc_operation_state_def identity_in_phase ret_def)
next
  case (Some operation)
  obtain t k v where o: "operation = (t, k, v)" by (cases operation) auto
  with Some assms(3) have "t \<noteq> []" using in_phase_type by auto
  with pgs.operation_state_run [OF assms(1) Some [unfolded o] assms(4)] assms(2) Some o show ?thesis
    by (simp split: sum.split)
qed

theorem operation_state_correct_witness:
  "svc_operation_state pg_store (Some (hd (pg_registry demo_pg))) demo_pg = (Inr operation_state_open, demo_pg)"
proof -
  let ?e = "hd (pg_registry demo_pg)"
  have e: "?e \<in> set (pg_registry demo_pg)" "ev_event_type ?e \<noteq> []" by (simp_all add: demo_registry)
  obtain state where run: "svc_operation_state pg_store (Some ?e) demo_pg = (Inr state, demo_pg)"
    using live_pgs.operation_state_live [OF demo_inv demo_ready e(1) demo_start_phase] by auto
  have "state = operation_state_open"
    using operation_state_correct [OF demo_inv e run] unfolding demo_start_phase by (simp add: demo_not_ended)
  with run show ?thesis by simp
qed

text \<open>
  C22: GetActivity always returns, and what it returns is complete: every child of the event and, for
  the start of an operation, every end event of its type that carries the start's correlation, each
  once, oldest first. It reports an unknown event as not found, fails otherwise only in the store, and
  stores nothing; with no failing round trip the activity of a stored event is returned.
\<close>

theorem activity_complete:
  assumes "pg_inv s"
  shows "\<exists>r s'. svc_get_activity pg_store i s = Some (r, s') \<and> pg_registry s' = pg_registry s
    \<and> (case r of
        Inr es \<Rightarrow> (\<exists>parent. find_by_id (pg_registry s) i = Some parent
          \<and> sorted (map (\<lambda>e. (ev_timestamp e, ev_id e)) es)
          \<and> mset es = filter_mset (\<lambda>e. ev_parent_id e = i \<or> closes parent e) (mset (pg_registry s)))
      | Inl err \<Rightarrow> err = ErrEventNotFound \<and> i \<notin> registry_ids (pg_registry s)
          \<or> (\<exists>m. err = ErrOther m) \<and> (pg_ready s \<longrightarrow> i \<notin> registry_ids (pg_registry s)))"
proof -
  obtain r s' where run: "svc_get_activity pg_store i s = Some (r, s')" "pg_registry s' = pg_registry s"
      and ok: "\<forall>es. r = Inr es \<longrightarrow> activity_result (pg_registry s) i es"
      and err: "\<forall>err. r = Inl err \<longrightarrow> (err = ErrEventNotFound \<and> i \<notin> registry_ids (pg_registry s)) \<or> (\<exists>m. err = ErrOther m)"
    using pgs.get_activity_run [OF assms, of i] by (elim exE conjE) (rule that)
  have "i \<notin> registry_ids (pg_registry s)" if ready: "pg_ready s" and "r = Inl e" for e
  proof
    assume "i \<in> registry_ids (pg_registry s)"
    then obtain parent where "find_by_id (pg_registry s) i = Some parent" by (auto simp flip: find_by_id_ids)
    with live_pgs.get_activity_live [OF assms ready this] run(1) that(2) show False by auto
  qed
  with run ok err show ?thesis by (cases r) (auto simp: activity_result_def)
qed

theorem activity_complete_witness:
  "\<exists>es. svc_get_activity pg_store ''e1'' demo_pg = Some (Inr es, demo_pg) \<and> map ev_id es = [''e2'']"
proof -
  obtain es where run: "svc_get_activity pg_store ''e1'' demo_pg = Some (Inr es, demo_pg)"
    using live_pgs.get_activity_live [OF demo_inv demo_ready demo_start] by blast
  with activity_complete [OF demo_inv, of "''e1''"] have
    "mset es = filter_mset (\<lambda>e. ev_parent_id e = ''e1'' \<or> closes (hd (pg_registry demo_pg)) e) (mset (pg_registry demo_pg))"
    by (auto simp: demo_start)
  then have "mset (map ev_id es) = {#''e2''#}"
    by (simp add: demo_registry closes_def operation_identity_def tag_get_def)
  with run show ?thesis by (metis mset_single_iff_right)
qed

text \<open>
  The closures of an activity are looked up by the one correlation of the start. An end event that carries
  both correlations belongs to its change_id operation, yet the activity of a start with that deploy_id
  lists it, although it does not end that operation.
\<close>

theorem activity_lists_other_operation:
  assumes "pg_inv s" and "svc_get_activity pg_store i s = Some (Inr es, s')" and "find_by_id (pg_registry s) i = Some start"
    and "operation_in_phase ''start'' start = Some (t, ''deploy_id'', d)"
    and "e \<in> set (pg_registry s)" and "operation_in_phase ''end'' e = Some (t, ''change_id'', c)" and "map_of (ev_tags e) ''deploy_id'' = Some d"
  shows "e \<in> set es \<and> operation_in_phase ''end'' e \<noteq> operation_in_phase ''start'' start"
proof -
  have "ev_event_type start = t" using assms(4) by (auto simp: operation_in_phase_def split: if_splits)
  moreover have "ev_parent_id e = []" "ev_event_type e = t" "map_of (ev_tags e) ''phase'' = Some ''end''"
    using assms(6) by (auto simp: operation_in_phase_def split: if_splits)
  ultimately have "closes start e" using assms(4,7) by (simp add: closes_def identity_in_phase)
  moreover have "mset es = filter_mset (\<lambda>e. ev_parent_id e = i \<or> closes start e) (mset (pg_registry s))"
    using pgs.get_activity_run [OF assms(1), of i] assms(2,3) by (auto simp: activity_result_def)
  ultimately have "e \<in># mset es" using assms(5) by simp
  then show ?thesis using assms(4,6) by simp
qed

subsection \<open>A closing identifier that is taken\<close>





text \<open>
  The registry is well-formed. In every reachable state the identifiers of the stored events are
  distinct and not empty, no two events share an external identifier, every parent is stored, no tag key
  occurs twice in an event, and every timestamp is a whole number of seconds.
\<close>

theorem registry_well_formed:
  assumes "reachable parse s"
  shows "distinct (map ev_id (pg_registry s)) \<and> distinct (filter (\<lambda>x. x \<noteq> []) (map ev_external_id (pg_registry s)))
    \<and> (\<forall>e \<in> set (pg_registry s). ev_id e \<noteq> [] \<and> distinct (map fst (ev_tags e))
        \<and> (ev_parent_id e = [] \<or> ev_parent_id e \<in> ev_id ` set (pg_registry s)) \<and> canonical_time (ev_timestamp e) = ev_timestamp e)"
  using pgs.reg_ok [OF reachable_inv [OF assms]] by (auto simp: registry_ok_def registry_ids_def)

theorem registry_well_formed_witness:
  "\<exists>e s'. svc_create demo_parser pg_store demo_env demo_request empty_pg = (Inr e, s') \<and> distinct (map ev_id (pg_registry s'))"
proof -
  obtain e s' where run: "svc_create demo_parser pg_store demo_env demo_request empty_pg = (Inr e, s')"
    using demo_first by (elim exE conjE) (rule that)
  have "service_step demo_parser empty_pg s'" by (rule step_create [OF run _ demo_uuid]) (simp add: demo_request_def)
  then have "reachable demo_parser s'" by (rule reachable_step [OF reachable_init])
  from registry_well_formed [OF this] have "distinct (map ev_id (pg_registry s'))" by simp
  with run show ?thesis by (intro exI conjI)
qed

end
