(* ===== verification/Http.thy ===== *)
theory Http
  imports LinkPolicy
begin

section \<open>Requests, responses, cookies and query values\<close>

text \<open>
  What the handlers use of packages net/http and net/url. \<^verbatim>\<open>url.Values\<close> is an association list from
  keys to their values in order, with distinct keys; \<^verbatim>\<open>Encode\<close> sorts the keys and escapes each byte
  that is not unreserved. A request carries what the library has already parsed: the query, the
  header and cookie lookups, the \<open>id\<close> of the route, the length of the body \<^verbatim>\<open>ParseForm\<close> reads (0 when the
  content type is not a form) and what it makes of it (None when it is malformed). A response is its status, its Location, its cookies and its body.
\<close>

subsection \<open>url.Values\<close>

type_synonym url_values = "(string \<times> string list) list"

definition q_all :: "url_values \<Rightarrow> string \<Rightarrow> string list" where
  "q_all q k = (case map_of q k of None \<Rightarrow> [] | Some vs \<Rightarrow> vs)"

definition q_get :: "url_values \<Rightarrow> string \<Rightarrow> string" where
  "q_get q k = (case q_all q k of [] \<Rightarrow> [] | v # _ \<Rightarrow> v)"

definition q_set :: "string \<Rightarrow> string \<Rightarrow> url_values \<Rightarrow> url_values" where
  "q_set k v q = AList.update k [v] q"

definition q_add :: "string \<Rightarrow> string \<Rightarrow> url_values \<Rightarrow> url_values" where
  "q_add k v q = AList.update k (q_all q k @ [v]) q"

definition q_del :: "string \<Rightarrow> url_values \<Rightarrow> url_values" where
  "q_del k q = AList.delete k q"

lemma q_all_Nil [simp]: "q_all [] k = []"
  by (simp add: q_all_def)

lemma q_all_set [simp]: "q_all (q_set k v q) j = (if j = k then [v] else q_all q j)"
  by (simp add: q_set_def q_all_def)

lemma q_all_add [simp]: "q_all (q_add k v q) j = (if j = k then q_all q k @ [v] else q_all q j)"
  by (simp add: q_add_def q_all_def)

lemma q_all_del [simp]: "q_all (q_del k q) j = (if j = k then [] else q_all q j)"
  by (simp add: q_del_def q_all_def delete_conv')

lemma q_all_adds: "q_all (fold (q_add k) vs q) j = (if j = k then q_all q k @ vs else q_all q j)"
  by (induction vs arbitrary: q) auto

lemma distinct_q_set: "distinct (map fst q) \<Longrightarrow> distinct (map fst (q_set k v q))"
  by (simp add: q_set_def distinct_update)

lemma distinct_q_add: "distinct (map fst q) \<Longrightarrow> distinct (map fst (q_add k v q))"
  by (simp add: q_add_def distinct_update)

lemma distinct_q_del: "distinct (map fst q) \<Longrightarrow> distinct (map fst (q_del k q))"
  by (simp add: q_del_def distinct_delete)

lemma distinct_q_adds: "distinct (map fst q) \<Longrightarrow> distinct (map fst (fold (q_add k) vs q))"
  by (induction vs arbitrary: q) (simp_all add: distinct_q_add)

subsection \<open>Escaping\<close>

text \<open>\<^verbatim>\<open>url.QueryEscape\<close> and \<^verbatim>\<open>url.PathEscape\<close>: the bytes they leave alone.\<close>

definition is_alnum :: "char \<Rightarrow> bool" where
  "is_alnum c = (let b = (byte_of c :: nat) in
     (97 \<le> b \<and> b \<le> 122) \<or> (65 \<le> b \<and> b \<le> 90) \<or> (48 \<le> b \<and> b \<le> 57))"

definition unreserved :: "char \<Rightarrow> bool" where
  "unreserved c = (is_alnum c \<or> c = CHR ''-'' \<or> c = CHR ''_'' \<or> c = CHR ''.'' \<or> c = CHR ''~'')"

definition query_escape :: "string \<Rightarrow> string" where
  "query_escape s = concat (map (\<lambda>c. if unreserved c then [c] else if c = CHR '' '' then ''+'' else percent_encode c) s)"

definition path_escape :: "string \<Rightarrow> string" where
  "path_escape s = concat (map (\<lambda>c. if unreserved c \<or> c \<in> set ''$&+:=@'' then [c] else percent_encode c) s)"

text \<open>\<^verbatim>\<open>url.QueryUnescape\<close>: a plus sign is a space.\<close>

definition query_unescape :: "string \<Rightarrow> string option" where
  "query_unescape s = path_unescape (map (\<lambda>c. if c = CHR ''+'' then CHR '' '' else c) s)"

definition encode_pair :: "string \<times> string \<Rightarrow> string" where
  "encode_pair kv = query_escape (fst kv) @ CHR ''='' # query_escape (snd kv)"

definition value_pairs :: "url_values \<Rightarrow> (string \<times> string) list" where
  "value_pairs q = concat (map (\<lambda>k. map (Pair k) (q_all q k)) (sort (map fst q)))"

definition encode_values :: "url_values \<Rightarrow> string" where
  "encode_values q = join_with CHR ''&'' (map encode_pair (value_pairs q))"

text \<open>\<^verbatim>\<open>url.ParseQuery\<close> with its errors ignored, as \<^verbatim>\<open>URL.Query\<close> does.\<close>

definition parse_segment :: "string \<Rightarrow> url_values \<Rightarrow> url_values" where
  "parse_segment seg q =
     (if CHR '';'' \<in> set seg \<or> seg = [] then q
      else case cut CHR ''='' seg of (k, v, found) \<Rightarrow>
        (case (query_unescape k, query_unescape v) of
           (Some k', Some v') \<Rightarrow> q_add k' v' q
         | _ \<Rightarrow> q))"

definition parse_query :: "string \<Rightarrow> url_values" where
  "parse_query s = fold parse_segment (split_on CHR ''&'' s) []"

subsection \<open>Decoding what was encoded\<close>

text \<open>The letters of an escaped string are unreserved, a plus sign or a percent sign.\<close>

lemma hex_digit_alnum: "n < 16 \<Longrightarrow> is_alnum (hex_digit n)"
  by (simp add: is_alnum_def hex_digit_def Let_def)

lemma byte_nibbles: "(byte_of c :: nat) div 16 < 16" "(byte_of c :: nat) mod 16 < 16"
  using nat_of_char_less_256 [of c] by (simp_all add: less_mult_imp_div_less)

lemma query_escape_chars: "c \<in> set (query_escape s) \<Longrightarrow> unreserved c \<or> c = CHR ''+'' \<or> c = CHR ''%''"
  by (auto simp: query_escape_def percent_encode_def unreserved_def hex_digit_alnum byte_nibbles split: if_splits)

lemma separators_reserved:
  "\<not> unreserved CHR ''&''" "\<not> unreserved CHR ''=''" "\<not> unreserved CHR '';''" "\<not> unreserved CHR ''+''" "\<not> unreserved CHR ''%''"
  by (simp_all add: unreserved_def is_alnum_def)

lemma query_escape_plain: "CHR ''&'' \<notin> set (query_escape s)" "CHR ''='' \<notin> set (query_escape s)" "CHR '';'' \<notin> set (query_escape s)"
  using query_escape_chars [of _ s] separators_reserved by fastforce+

lemma unreserved_sep: "unreserved c \<Longrightarrow> c \<noteq> CHR ''+'' \<and> c \<noteq> CHR ''%''"
  using separators_reserved by auto

lemma hex_digit_not_plus: "n < 16 \<Longrightarrow> hex_digit n \<noteq> CHR ''+''"
  using hex_digit_alnum [of n] unreserved_sep [of "hex_digit n"] by (auto simp: unreserved_def)

lemma query_unescape_escape: "query_unescape (query_escape s) = Some s"
proof (induction s)
  case Nil
  show ?case by (simp add: query_unescape_def query_escape_def)
next
  case (Cons c s)
  let ?f = "\<lambda>c. if c = CHR ''+'' then CHR '' '' else c"
  have IH: "path_unescape (map ?f (query_escape s)) = Some s" using Cons by (simp add: query_unescape_def)
  consider (plain) "unreserved c" | (space) "c = CHR '' ''" "\<not> unreserved c" | (other) "\<not> unreserved c" "c \<noteq> CHR '' ''" by blast
  then show ?case
  proof cases
    case plain
    then have "query_escape (c # s) = c # query_escape s" by (simp add: query_escape_def)
    with plain unreserved_sep [of c] IH show ?thesis by (simp add: query_unescape_def)
  next
    case space
    then have "query_escape (c # s) = CHR ''+'' # query_escape s" by (simp add: query_escape_def)
    with space IH show ?thesis by (simp add: query_unescape_def)
  next
    case other
    then have "query_escape (c # s) = percent_encode c @ query_escape s" by (simp add: query_escape_def)
    moreover have "map ?f (percent_encode c) = percent_encode c"
      by (simp add: percent_encode_def hex_digit_not_plus byte_nibbles)
    ultimately show ?thesis using IH by (simp add: query_unescape_def path_unescape_encoded)
  qed
qed

lemma parse_segment_pair: "parse_segment (encode_pair kv) q = q_add (fst kv) (snd kv) q"
proof -
  have "CHR '';'' \<notin> set (encode_pair kv)" using query_escape_plain by (simp add: encode_pair_def)
  then show ?thesis
    using query_escape_plain
    by (simp add: parse_segment_def encode_pair_def cut_append query_unescape_escape)
qed

lemma split_join: "list_all (\<lambda>p. sep \<notin> set p) ps \<Longrightarrow> ps \<noteq> [] \<Longrightarrow> split_on sep (join_with sep ps) = ps"
  by (induction sep ps rule: join_with.induct) (simp_all add: split_on_plain split_on_append)

lemma parse_encode_values: "parse_query (encode_values q) = fold (\<lambda>kv. q_add (fst kv) (snd kv)) (value_pairs q) []"
proof (cases "value_pairs q = []")
  case True
  then show ?thesis by (simp add: parse_query_def encode_values_def parse_segment_def)
next
  case False
  have "list_all (\<lambda>p. CHR ''&'' \<notin> set p) (map encode_pair (value_pairs q))"
    using query_escape_plain by (simp add: list_all_iff encode_pair_def)
  with False have "parse_query (encode_values q) = fold parse_segment (map encode_pair (value_pairs q)) []"
    by (simp add: parse_query_def encode_values_def split_join)
  moreover have "parse_segment (encode_pair kv) = q_add (fst kv) (snd kv)" for kv
    by (rule ext) (rule parse_segment_pair)
  ultimately show ?thesis by (simp add: fold_map comp_def)
qed

lemma q_all_fold_add: "q_all (fold (\<lambda>kv. q_add (fst kv) (snd kv)) kvs q) k = q_all q k @ map snd (filter (\<lambda>kv. fst kv = k) kvs)"
  by (induction kvs arbitrary: q) auto

lemma filter_value_pairs:
  "distinct ks \<Longrightarrow> filter (\<lambda>kv. fst kv = k) (concat (map (\<lambda>k. map (Pair k) (f k)) ks)) = (if k \<in> set ks then map (Pair k) (f k) else [])"
  by (induction ks) (auto simp: filter_map comp_def filter_empty_conv)

text \<open>Encoding values and parsing the result gives the values back, key by key.\<close>

lemma parse_encode:
  assumes "distinct (map fst q)"
  shows "q_all (parse_query (encode_values q)) k = q_all q k"
proof -
  have "q_all q k = []" if "k \<notin> fst ` set q"
    using map_of_eq_None_iff [of q k] that by (simp add: q_all_def)
  with assms show ?thesis
    by (simp add: parse_encode_values q_all_fold_add value_pairs_def filter_value_pairs comp_def)
qed

subsection \<open>Messages\<close>

record cookie =
  ck_name :: string
  ck_value :: string
  ck_path :: string
  ck_max_age :: int
  ck_http_only :: bool
  ck_secure :: bool
  ck_expires :: instant

record http_request =
  rq_method :: string
  rq_path :: string
  rq_uri :: string
  rq_query :: url_values
  rq_header :: "string \<Rightarrow> string"
  rq_cookie :: "string \<Rightarrow> string option"
  rq_id :: string
  rq_body_bytes :: nat
  rq_post_form :: "url_values option"

datatype 'p body = NoBody | TextBody string | JsonError string string | Payload 'p

record 'p response =
  rs_status :: nat
  rs_location :: string
  rs_cookies :: "cookie list"
  rs_body :: "'p body"

definition respond :: "nat \<Rightarrow> 'p \<Rightarrow> 'p response" where
  "respond status p = \<lparr>rs_status = status, rs_location = [], rs_cookies = [], rs_body = Payload p\<rparr>"

text \<open>\<^verbatim>\<open>http.Error\<close> and \<^verbatim>\<open>http.Redirect\<close>.\<close>

definition http_error :: "string \<Rightarrow> nat \<Rightarrow> 'p response" where
  "http_error message status = \<lparr>rs_status = status, rs_location = [], rs_cookies = [], rs_body = TextBody message\<rparr>"

definition http_redirect :: "string \<Rightarrow> nat \<Rightarrow> 'p response" where
  "http_redirect target status = \<lparr>rs_status = status, rs_location = target, rs_cookies = [], rs_body = NoBody\<rparr>"

text \<open>The JSON error envelope \<^verbatim>\<open>{"error": {"code": ..., "message": ...}}\<close>.\<close>

definition json_error :: "nat \<Rightarrow> string \<Rightarrow> string \<Rightarrow> 'p response" where
  "json_error status code message = \<lparr>rs_status = status, rs_location = [], rs_cookies = [], rs_body = JsonError code message\<rparr>"

definition with_cookie :: "cookie \<Rightarrow> 'p response \<Rightarrow> 'p response" where
  "with_cookie c r = r\<lparr>rs_cookies := c # rs_cookies r\<rparr>"

definition is_read :: "http_request \<Rightarrow> bool" where
  "is_read rq = (rq_method rq = ''GET'' \<or> rq_method rq = ''HEAD'')"

text \<open>\<^verbatim>\<open>r.PostFormValue\<close>, after the form was parsed.\<close>

definition post_form_value :: "http_request \<Rightarrow> string \<Rightarrow> string" where
  "post_form_value rq k = (case rq_post_form rq of None \<Rightarrow> [] | Some form \<Rightarrow> q_get form k)"

end
