(* ===== verification/Base64.thy ===== *)
theory Base64
  imports Http Sha256
begin

section \<open>encoding/base64: RawURLEncoding, and the alphabets of encoded text\<close>

text \<open>
  The URL alphabet without padding, as the session and login-flow cookies use it. \<open>base64_encode\<close>
  takes three bytes to four digits; \<open>base64_decode\<close> skips carriage returns and line feeds, refuses
  any other byte outside the alphabet and a final group of one digit, and does not check the unused
  bits of the last digit, as \<^verbatim>\<open>DecodeString\<close> does. Decoding an encoding gives the bytes back.
\<close>

definition base64_char :: "nat \<Rightarrow> char" where
  "base64_char n = (if n < 26 then char_of (65 + n) else if n < 52 then char_of (71 + n)
     else if n < 62 then char_of (n - 4) else if n = 62 then CHR ''-'' else CHR ''_'')"

definition base64_value :: "char \<Rightarrow> nat option" where
  "base64_value c = (let b = byte_of c in
     if 65 \<le> b \<and> b \<le> 90 then Some (b - 65) else if 97 \<le> b \<and> b \<le> 122 then Some (b - 71)
     else if 48 \<le> b \<and> b \<le> 57 then Some (b + 4) else if c = CHR ''-'' then Some 62
     else if c = CHR ''_'' then Some 63 else None)"

fun base64_digits :: "nat list \<Rightarrow> nat list" where
  "base64_digits (a # b # c # rest) =
     [a div 4, a mod 4 * 16 + b div 16, b mod 16 * 4 + c div 64, c mod 64] @ base64_digits rest"
| "base64_digits [a, b] = [a div 4, a mod 4 * 16 + b div 16, b mod 16 * 4]"
| "base64_digits [a] = [a div 4, a mod 4 * 16]"
| "base64_digits [] = []"

definition base64_encode :: "string \<Rightarrow> string" where
  "base64_encode s = map base64_char (base64_digits (map byte_of s))"

fun base64_bytes :: "nat list \<Rightarrow> nat list option" where
  "base64_bytes (p # q # r # t # rest) =
     map_option (\<lambda>bs. [p * 4 + q div 16, q mod 16 * 16 + r div 4, r mod 4 * 64 + t] @ bs) (base64_bytes rest)"
| "base64_bytes [p, q, r] = Some [p * 4 + q div 16, q mod 16 * 16 + r div 4]"
| "base64_bytes [p, q] = Some [p * 4 + q div 16]"
| "base64_bytes [p] = None"
| "base64_bytes [] = Some []"

definition base64_decode :: "string \<Rightarrow> string option" where
  "base64_decode s =
     (let vs = map base64_value (filter (\<lambda>c. c \<noteq> CHR 0x0D \<and> c \<noteq> CHR 0x0A) s) in
      if None \<in> set vs then None else map_option (map char_of) (base64_bytes (map the vs)))"

subsection \<open>Round trip\<close>

lemma base64_digits_small: "list_all (\<lambda>b. b < 256) bs \<Longrightarrow> list_all (\<lambda>d. d < 64) (base64_digits bs)"
proof (induction bs rule: base64_digits.induct)
  case (1 a b c rest)
  then show ?case by (auto simp: less_mult_imp_div_less)
qed (auto simp: less_mult_imp_div_less)

lemma base64_value_char: "n < 64 \<Longrightarrow> base64_value (base64_char n) = Some n"
proof -
  assume n: "n < 64"
  consider "n < 26" | "26 \<le> n" "n < 52" | "52 \<le> n" "n < 62" | "n = 62" | "n = 63" using n by linarith
  then show ?thesis by cases (auto simp: base64_value_def base64_char_def Let_def)
qed

lemma base64_char_alnum: "is_alnum (base64_char n) \<or> base64_char n = CHR ''-'' \<or> base64_char n = CHR ''_''"
proof -
  consider "n < 26" | "26 \<le> n" "n < 52" | "52 \<le> n" "n < 62" | "62 \<le> n" by linarith
  then show ?thesis by cases (auto simp: is_alnum_def base64_char_def Let_def)
qed

lemma base64_char_plain:
  "base64_char n \<noteq> CHR 0x0D" "base64_char n \<noteq> CHR 0x0A" "base64_char n \<noteq> CHR ''.''" "base64_char n \<noteq> CHR '':''"
  using base64_char_alnum [of n] by (auto simp: is_alnum_def)

lemma two_digits: "(a::nat) div 4 * 4 + (a mod 4 * 16 + b div 16) div 16 = a" if "b < 256" for a b
proof -
  have "b div 16 < 16" using that by (simp add: less_mult_imp_div_less)
  then have "(a mod 4 * 16 + b div 16) div 16 = a mod 4" by simp
  then show ?thesis by simp
qed

lemma three_digits: "(a mod 4 * 16 + b div 16) mod 16 * 16 + (b mod 16 * 4 + c div 64) div 4 = b" if "b < 256" "c < 256" for a b c :: nat
proof -
  have s: "b div 16 < 16" "c div 64 < 4" using that by (simp_all add: less_mult_imp_div_less)
  then have "(a mod 4 * 16 + b div 16) mod 16 = b div 16" by simp
  moreover have "(b mod 16 * 4 + c div 64) div 4 = b mod 16" using s by simp
  ultimately show ?thesis by simp
qed

lemma four_digits: "(b mod 16 * 4 + c div 64) mod 4 * 64 + c mod 64 = c" if "c < 256" for b c :: nat
proof -
  have s: "c div 64 < 4" using that by (simp add: less_mult_imp_div_less)
  then have "(b mod 16 * 4 + c div 64) mod 4 = c div 64" by simp
  then show ?thesis by simp
qed

lemma base64_bytes_digits: "list_all (\<lambda>b. b < 256) bs \<Longrightarrow> base64_bytes (base64_digits bs) = Some bs"
proof (induction bs rule: base64_digits.induct)
  case (1 a b c rest)
  then have small: "b < 256" "c < 256" and IH: "base64_bytes (base64_digits rest) = Some rest" by simp_all
  show ?case
    by (simp only: base64_digits.simps append.simps base64_bytes.simps IH option.map
        two_digits [OF small(1)] three_digits [OF small] four_digits [OF small(2)])
next
  case (2 a b)
  then have "b < 256" by simp
  from two_digits [OF this, of a] three_digits [OF this, of 0 a] show ?case by simp
next
  case (3 a)
  from two_digits [of 0 a] show ?case by simp
qed simp

lemma base64_round_trip: "base64_decode (base64_encode s) = Some s"
proof -
  let ?ds = "base64_digits (map byte_of s)"
  have small: "list_all (\<lambda>b. b < 256) (map byte_of s)"
    using nat_of_char_less_256 by (simp add: list_all_iff)
  have "filter (\<lambda>c. c \<noteq> CHR 0x0D \<and> c \<noteq> CHR 0x0A) (base64_encode s) = base64_encode s"
    using base64_char_plain by (simp add: base64_encode_def filter_id_conv)
  moreover have "map base64_value (base64_encode s) = map Some ?ds"
    using base64_digits_small [OF small] by (simp add: base64_encode_def base64_value_char list_all_iff)
  moreover have "map char_of (map byte_of s) = s" by (simp add: map_idI)
  ultimately show ?thesis by (simp add: base64_decode_def Let_def comp_def base64_bytes_digits [OF small])
qed

lemma base64_encode_plain: "CHR ''.'' \<notin> set (base64_encode s)" "CHR '':'' \<notin> set (base64_encode s)"
  using base64_char_plain(3,4) by (auto simp: base64_encode_def) metis+

lemma base64_encode_Nil: "base64_encode s = [] \<longleftrightarrow> s = []"
  using base64_round_trip [of s] by (auto simp: base64_encode_def base64_decode_def)

subsection \<open>Hexadecimal text and decimal numbers hold no separator\<close>

definition is_hex :: "char \<Rightarrow> bool" where
  "is_hex c = ((48 \<le> (byte_of c :: nat) \<and> byte_of c \<le> (57 :: nat)) \<or> (97 \<le> (byte_of c :: nat) \<and> byte_of c \<le> (102 :: nat)))"

lemma lower_hex_is_hex: "n < 16 \<Longrightarrow> is_hex (lower_hex_digit n)"
  by (simp add: is_hex_def lower_hex_digit_def)

lemma hex_encode_chars: "c \<in> set (hex_encode s) \<Longrightarrow> is_hex c"
  using lower_hex_is_hex [OF byte_nibbles(1)] lower_hex_is_hex [OF byte_nibbles(2)]
  by (auto simp: hex_encode_def)

lemma hex_encode_plain: "CHR '':'' \<notin> set (hex_encode s)" "CHR ''.'' \<notin> set (hex_encode s)" "CHR ''s'' \<notin> set (hex_encode s)"
  using hex_encode_chars [of _ s] by (force simp: is_hex_def)+

lemma hex_encode_Nil: "hex_encode s = [] \<longleftrightarrow> s = []"
  using hex_encode_length [of s] by auto

lemma itoa_plain: "CHR '':'' \<notin> set (itoa n)" "CHR ''.'' \<notin> set (itoa n)" "itoa n \<noteq> []"
  using nat_digits_digits [of "nat n"] nat_digits_digits [of "nat (- n)"]
  by (auto simp: itoa_def list_all_iff is_digit_def)

text \<open>Every signature is sixty-four hexadecimal digits.\<close>

lemma signature_length: "length (hex_encode (hmac_sha256 key msg)) = 64"
  by (simp add: hex_encode_length hmac_length)

end
