(* ===== verification/Session.thy ===== *)
theory Session
  imports Base64
begin

section \<open>Signed sessions: internal/middleware/session.go and human_session.go\<close>

text \<open>
  Two kinds of cookie under one name: the token login's \<^verbatim>\<open>nonce:timestamp:signature\<close> and the human
  login's \<^verbatim>\<open>v1.payload.signature\<close>, and the CSRF tokens derived from a session's nonce, all signed
  with HMAC-SHA256 under one secret. \<^verbatim>\<open>rand.Read\<close> is an argument, None when it fails; the clock is an
  argument; encoding/json is the pair of functions of a \<open>json_codec\<close>.
\<close>

subsection \<open>Principals: internal/humanauth/principal.go\<close>

record principal =
  pr_provider :: string
  pr_subject :: string
  pr_user_name :: string
  pr_display_name :: string
  pr_profile_checked_at :: "instant option"
  pr_authorized_via :: string

definition namespaced_subject :: "principal \<Rightarrow> string" where
  "namespaced_subject p = pr_provider p @ '':'' @ pr_subject p"

definition principal_valid :: "principal \<Rightarrow> bool" where
  "principal_valid p = (pr_provider p \<noteq> [] \<and> pr_subject p \<noteq> [] \<and> pr_user_name p \<noteq> [])"

subsection \<open>Token sessions\<close>

definition session_cookie_name :: string where "session_cookie_name = ''pcr_session''"
definition session_max_age :: int where "session_max_age = 24 * 60 * 60"
definition nonce_bytes :: nat where "nonce_bytes = 16"

record session_options =
  so_secret :: string
  so_secure :: bool

definition sign_session :: "string \<Rightarrow> string list \<Rightarrow> string" where
  "sign_session secret parts = hex_encode (hmac_sha256 secret (join_with CHR '':'' parts))"

definition session_value :: "string \<Rightarrow> string \<Rightarrow> instant \<Rightarrow> string" where
  "session_value secret nonce now =
     (let nonce_hex = hex_encode nonce; timestamp = itoa (now div second);
          sig = sign_session secret [nonce_hex, timestamp]
      in nonce_hex @ '':'' @ timestamp @ '':'' @ sig)"

definition session_cookie :: "session_options \<Rightarrow> string \<Rightarrow> instant \<Rightarrow> cookie" where
  "session_cookie opts nonce now = \<lparr>ck_name = session_cookie_name, ck_value = session_value (so_secret opts) nonce now,
     ck_path = ''/'', ck_max_age = session_max_age, ck_http_only = True, ck_secure = so_secure opts,
     ck_expires = now + session_max_age * second\<rparr>"

text \<open>\<^verbatim>\<open>SetSessionCookie\<close> before the response \<open>rest\<close>: without a nonce the error it writes is the response.\<close>

definition set_session_cookie :: "session_options \<Rightarrow> string option \<Rightarrow> instant \<Rightarrow> 'p response \<Rightarrow> 'p response" where
  "set_session_cookie opts random now rest = (case random of
      None \<Rightarrow> http_error ''Internal server error'' 500
    | Some nonce \<Rightarrow> with_cookie (session_cookie opts nonce now) rest)"

definition parse_session_value :: "string \<Rightarrow> (string \<times> string \<times> string) option" where
  "parse_session_value value = (case split3 CHR '':'' value of
      [nonce, timestamp, sig] \<Rightarrow>
        (if nonce = [] \<or> timestamp = [] \<or> sig = [] then None else Some (nonce, timestamp, sig))
    | _ \<Rightarrow> None)"

definition validate_session_cookie :: "http_request \<Rightarrow> string \<Rightarrow> instant \<Rightarrow> bool" where
  "validate_session_cookie rq secret now = (case rq_cookie rq session_cookie_name of
      None \<Rightarrow> False
    | Some value \<Rightarrow> (case parse_session_value value of
        None \<Rightarrow> False
      | Some (nonce, timestamp, sig) \<Rightarrow>
          if sig \<noteq> sign_session secret [nonce, timestamp] then False
          else (case atoi timestamp of
              None \<Rightarrow> False
            | Some ts \<Rightarrow> (let age = now - ts * second in 0 \<le> age \<and> age \<le> session_max_age * second))))"

definition session_nonce :: "http_request \<Rightarrow> string" where
  "session_nonce rq = (case rq_cookie rq session_cookie_name of
      None \<Rightarrow> []
    | Some value \<Rightarrow> (case parse_session_value value of None \<Rightarrow> [] | Some (nonce, _) \<Rightarrow> nonce))"

definition generate_csrf_token :: "string \<Rightarrow> string \<Rightarrow> string" where
  "generate_csrf_token secret nonce = sign_session secret [''csrf'', nonce]"

definition validate_csrf_token :: "string \<Rightarrow> string \<Rightarrow> string \<Rightarrow> bool" where
  "validate_csrf_token secret nonce token =
     (if nonce = [] \<or> token = [] then False else token = generate_csrf_token secret nonce)"

definition clear_session_cookie :: "bool \<Rightarrow> 'p response \<Rightarrow> 'p response" where
  "clear_session_cookie secure = with_cookie \<lparr>ck_name = session_cookie_name, ck_value = [], ck_path = ''/'',
     ck_max_age = - 1, ck_http_only = True, ck_secure = secure, ck_expires = second\<rparr>"

subsection \<open>Human sessions\<close>

record 'a json_codec =
  jc_marshal :: "'a \<Rightarrow> string option"
  jc_unmarshal :: "string \<Rightarrow> 'a option"

record human_session =
  hs_principal :: principal
  hs_nonce :: string
  hs_issued_at :: instant
  hs_expires_at :: instant

record human_session_options =
  ho_secret :: string
  ho_secure :: bool
  ho_duration :: duration

definition human_session_version :: string where "human_session_version = ''v1''"

definition invalid_human_session :: string where "invalid_human_session = ''invalid human session''"

definition human_session_signature :: "string \<Rightarrow> string \<Rightarrow> string" where
  "human_session_signature secret value = hex_encode (hmac_sha256 secret value)"

definition encode_human_session :: "human_session json_codec \<Rightarrow> string \<Rightarrow> human_session \<Rightarrow> string + string" where
  "encode_human_session codec secret session = (case jc_marshal codec session of
      None \<Rightarrow> Inl ''encode human session''
    | Some payload \<Rightarrow>
        (let signed = human_session_version @ ''.'' @ base64_encode payload
         in Inr (signed @ ''.'' @ human_session_signature secret signed)))"

definition decode_human_session :: "human_session json_codec \<Rightarrow> string \<Rightarrow> string \<Rightarrow> string + human_session" where
  "decode_human_session codec secret value = (case split_on CHR ''.'' value of
      [version, encoded, sig] \<Rightarrow>
        (if version \<noteq> human_session_version \<or> encoded = [] \<or> sig = [] then Inl invalid_human_session
         else if sig \<noteq> human_session_signature secret (version @ ''.'' @ encoded) then Inl invalid_human_session
         else (case base64_decode encoded of
             None \<Rightarrow> Inl invalid_human_session
           | Some payload \<Rightarrow> (case jc_unmarshal codec payload of
               None \<Rightarrow> Inl invalid_human_session
             | Some session \<Rightarrow> Inr session)))
    | _ \<Rightarrow> Inl invalid_human_session)"

definition new_human_session :: "human_session_options \<Rightarrow> principal \<Rightarrow> string \<Rightarrow> instant \<Rightarrow> human_session" where
  "new_human_session opts p nonce now = \<lparr>
     hs_principal = (if pr_profile_checked_at p = None then p\<lparr>pr_profile_checked_at := Some now\<rparr> else p),
     hs_nonce = base64_encode nonce, hs_issued_at = now, hs_expires_at = now + ho_duration opts\<rparr>"

definition human_session_cookie ::
  "human_session json_codec \<Rightarrow> human_session_options \<Rightarrow> principal \<Rightarrow> string option \<Rightarrow> instant \<Rightarrow> string + cookie" where
  "human_session_cookie codec opts p random now =
     (if ho_secret opts = [] then Inl ''session secret is required''
      else if ho_duration opts \<le> 0 then Inl ''session duration must be greater than 0''
      else if \<not> principal_valid p then Inl ''principal provider, subject, and user name are required''
      else case random of
          None \<Rightarrow> Inl ''generate session nonce''
        | Some nonce \<Rightarrow>
            (let session = new_human_session opts p nonce now in
             case encode_human_session codec (ho_secret opts) session of
               Inl err \<Rightarrow> Inl err
             | Inr value \<Rightarrow> Inr \<lparr>ck_name = session_cookie_name, ck_value = value, ck_path = ''/'',
                 ck_max_age = ho_duration opts div second, ck_http_only = True, ck_secure = ho_secure opts,
                 ck_expires = hs_expires_at session\<rparr>))"

definition read_human_session ::
  "human_session json_codec \<Rightarrow> http_request \<Rightarrow> string \<Rightarrow> string \<Rightarrow> instant \<Rightarrow> string + human_session" where
  "read_human_session codec rq secret expected_provider now = (case rq_cookie rq session_cookie_name of
      None \<Rightarrow> Inl invalid_human_session
    | Some value \<Rightarrow> (case decode_human_session codec secret value of
        Inl err \<Rightarrow> Inl err
      | Inr session \<Rightarrow>
          if pr_provider (hs_principal session) \<noteq> expected_provider \<or> \<not> principal_valid (hs_principal session)
             \<or> hs_nonce session = [] \<or> \<not> hs_issued_at session < hs_expires_at session
             \<or> now < hs_issued_at session \<or> \<not> now < hs_expires_at session
          then Inl invalid_human_session else Inr session))"

subsection \<open>Reading back what was set\<close>

lemma parse_session_value_cat:
  "CHR '':'' \<notin> set a \<Longrightarrow> CHR '':'' \<notin> set b \<Longrightarrow> a \<noteq> [] \<Longrightarrow> b \<noteq> [] \<Longrightarrow> c \<noteq> [] \<Longrightarrow>
    parse_session_value (a @ '':'' @ b @ '':'' @ c) = Some (a, b, c)"
  by (simp add: parse_session_value_def split3_def cut_append)

lemma sign_session_nonempty: "sign_session secret parts \<noteq> []"
  using signature_length [of secret] by (auto simp: sign_session_def dest: arg_cong [where f = length])

lemma human_signature_nonempty: "human_session_signature secret v \<noteq> []"
  using signature_length [of secret] by (auto simp: human_session_signature_def dest: arg_cong [where f = length])

lemma parse_own_session_value:
  "nonce \<noteq> [] \<Longrightarrow> parse_session_value (session_value secret nonce now) =
     Some (hex_encode nonce, itoa (now div second), sign_session secret [hex_encode nonce, itoa (now div second)])"
  unfolding session_value_def Let_def
  by (rule parse_session_value_cat) (simp_all add: hex_encode_plain hex_encode_Nil itoa_plain sign_session_nonempty)

text \<open>A token session is accepted from the second it was issued in for twenty-four hours, not longer.\<close>

lemma session_accepted_iff:
  assumes "nonce \<noteq> []" and "min_int64 \<le> now div second" and "now div second \<le> max_int64"
    and "rq_cookie rq session_cookie_name = Some (ck_value (session_cookie opts nonce now))"
  shows "validate_session_cookie rq (so_secret opts) later \<longleftrightarrow>
     canonical_time now \<le> later \<and> later \<le> canonical_time now + session_max_age * second"
proof -
  have "parse_session_value (ck_value (session_cookie opts nonce now)) =
      Some (hex_encode nonce, itoa (now div second), sign_session (so_secret opts) [hex_encode nonce, itoa (now div second)])"
    by (simp add: session_cookie_def parse_own_session_value assms(1))
  then show ?thesis using assms(4) atoi_itoa [OF assms(2,3)]
    by (auto simp: validate_session_cookie_def canonical_time_def)
qed

text \<open>The nonce of a session is the hexadecimal text of the random bytes, and its CSRF token validates.\<close>

lemma session_nonce_own:
  "nonce \<noteq> [] \<Longrightarrow> rq_cookie rq session_cookie_name = Some (session_value secret nonce now) \<Longrightarrow>
    session_nonce rq = hex_encode nonce"
  by (simp add: session_nonce_def parse_own_session_value)

lemma csrf_own: "nonce \<noteq> [] \<Longrightarrow> validate_csrf_token secret nonce (generate_csrf_token secret nonce)"
  by (simp add: validate_csrf_token_def generate_csrf_token_def sign_session_nonempty)

lemma csrf_iff: "validate_csrf_token secret nonce token \<longleftrightarrow> nonce \<noteq> [] \<and> token = generate_csrf_token secret nonce"
  using sign_session_nonempty [of secret "[''csrf'', nonce]"]
  by (auto simp: validate_csrf_token_def generate_csrf_token_def)

text \<open>Human sessions.\<close>

lemma split_signed:
  "CHR ''.'' \<notin> set a \<Longrightarrow> CHR ''.'' \<notin> set b \<Longrightarrow> CHR ''.'' \<notin> set c \<Longrightarrow> split_on CHR ''.'' (a @ ''.'' @ b @ ''.'' @ c) = [a, b, c]"
  by (simp add: split_on_append split_on_plain)

lemma human_signature_plain: "CHR ''.'' \<notin> set (human_session_signature secret v)"
  by (simp add: human_session_signature_def hex_encode_plain)

lemma version_plain: "CHR ''.'' \<notin> set human_session_version"
  by (simp add: human_session_version_def)

lemma decode_encoded_session:
  assumes "encode_human_session codec secret session = Inr value" and "jc_marshal codec session = Some payload" and "payload \<noteq> []"
  shows "decode_human_session codec secret value =
    (case jc_unmarshal codec payload of None \<Rightarrow> Inl invalid_human_session | Some x \<Rightarrow> Inr x)"
proof -
  from assms(1,2) have v: "value = human_session_version @ ''.'' @ base64_encode payload @ ''.''
      @ human_session_signature secret (human_session_version @ ''.'' @ base64_encode payload)"
    by (auto simp: encode_human_session_def Let_def)
  have "split_on CHR ''.'' value = [human_session_version, base64_encode payload,
      human_session_signature secret (human_session_version @ ''.'' @ base64_encode payload)]"
    unfolding v by (rule split_signed) (simp_all add: version_plain base64_encode_plain human_signature_plain)
  then show ?thesis using assms(3)
    by (simp add: decode_human_session_def base64_encode_Nil human_signature_nonempty base64_round_trip)
qed

text \<open>What the signature check lets through.\<close>

lemma decoded_session_signed:
  assumes "decode_human_session codec secret value = Inr session"
  shows "\<exists>encoded payload. value = human_session_version @ ''.'' @ encoded @ ''.''
      @ human_session_signature secret (human_session_version @ ''.'' @ encoded)
    \<and> base64_decode encoded = Some payload \<and> jc_unmarshal codec payload = Some session"
proof -
  obtain version encoded sig where split: "split_on CHR ''.'' value = [version, encoded, sig]"
    and ok: "version = human_session_version" "sig = human_session_signature secret (version @ ''.'' @ encoded)"
    using assms by (auto simp: decode_human_session_def split: list.splits if_splits)
  have "value = join_with CHR ''.'' [version, encoded, sig]" using join_split [of "CHR ''.''" "value"] split by simp
  with assms split ok show ?thesis
    by (auto simp: decode_human_session_def split: if_splits option.splits)
qed

text \<open>A human session read back: the one that was set, until it expires, for its own provider only.\<close>

lemma human_session_read_back:
  assumes "human_session_cookie codec opts p (Some nonce) now = Inr c" and "nonce \<noteq> []"
    and "\<And>payload. jc_marshal codec (new_human_session opts p nonce now) = Some payload \<Longrightarrow>
      payload \<noteq> [] \<and> jc_unmarshal codec payload = Some (new_human_session opts p nonce now)"
    and "rq_cookie rq session_cookie_name = Some (ck_value c)"
  shows "read_human_session codec rq (ho_secret opts) provider later =
    (if provider = pr_provider p \<and> now \<le> later \<and> later < now + ho_duration opts
     then Inr (new_human_session opts p nonce now) else Inl invalid_human_session)"
proof -
  let ?s = "new_human_session opts p nonce now"
  from assms(1) obtain v where enc: "encode_human_session codec (ho_secret opts) ?s = Inr v" and v: "ck_value c = v"
      and p: "principal_valid p" "0 < ho_duration opts"
    by (auto simp: human_session_cookie_def Let_def split: if_splits sum.splits)
  from enc obtain payload where m: "jc_marshal codec ?s = Some payload"
    by (auto simp: encode_human_session_def split: option.splits)
  have "decode_human_session codec (ho_secret opts) v = Inr ?s"
    using decode_encoded_session [OF enc m] assms(3) [OF m] by simp
  then show ?thesis using p assms(2,4) v
    by (auto simp: read_human_session_def new_human_session_def principal_valid_def base64_encode_Nil)
qed

end
