(* ===== verification/Providers.thy ===== *)
theory Providers
  imports Session
begin

section \<open>Human identity providers: internal/humanauth\<close>

text \<open>
  GitHub, Google and Authentik sign users in over OAuth, Beyond by headers of a trusted proxy. The
  code exchange, the provider's HTTP replies and the verification of ID tokens (packages
  golang.org/x/oauth2 and go-oidc) are parameters: functions that give what the call returned.
  Go wraps several sentinels into one error; an \<open>auth_error\<close> lists those \<^verbatim>\<open>errors.Is\<close> finds in it.
\<close>

datatype sentinel = Unauthorized | ProviderUnavailable | OrganizationVerification | GroupUnauthorized

record auth_error =
  ae_is :: "sentinel list"
  ae_message :: string

definition auth_error :: "sentinel list \<Rightarrow> string \<Rightarrow> auth_error" where
  "auth_error sentinels message = \<lparr>ae_is = sentinels, ae_message = message\<rparr>"

record provider_options =
  po_client_id :: string
  po_client_secret :: string
  po_redirect_url :: string
  po_issuer_url :: string
  po_allowed_orgs :: "string list"
  po_allowed_subjects :: "string list"
  po_allow_any :: bool

text \<open>The interface \<^verbatim>\<open>Authenticator\<close>; the clock is an argument of \<^verbatim>\<open>Authenticate\<close>.\<close>

record authenticator =
  au_name :: string
  au_identity_provider :: string
  au_authorization_url :: "string \<Rightarrow> string \<Rightarrow> string \<Rightarrow> string"
  au_authenticate :: "instant \<Rightarrow> string \<Rightarrow> string \<Rightarrow> string \<Rightarrow> auth_error + principal"

text \<open>\<^verbatim>\<open>oauth2.Config\<close>, and the library's \<^verbatim>\<open>AuthCodeURL\<close> as a function of it, the state and the extra parameters.\<close>

record oauth_config =
  oc_client_id :: string
  oc_client_secret :: string
  oc_endpoint :: string
  oc_redirect_url :: string
  oc_scopes :: "string list"

type_synonym auth_code_url = "oauth_config \<Rightarrow> string \<Rightarrow> (string \<times> string) list \<Rightarrow> string"

definition subject_allowed :: "string \<Rightarrow> string list \<Rightarrow> bool" where
  "subject_allowed subject allowed = (subject \<in> set allowed)"

definition pkce_params :: "string \<Rightarrow> (string \<times> string) list" where
  "pkce_params challenge = [(''code_challenge'', challenge), (''code_challenge_method'', ''S256'')]"

subsection \<open>GitHub\<close>

record github =
  gh_oauth :: oauth_config
  gh_api_url :: string
  gh_allowed_orgs :: "string list"
  gh_allowed_subjects :: "string list"
  gh_allow_any :: bool

record github_profile =
  gp_id :: int
  gp_login :: string
  gp_name :: string

text \<open>A reply to a GET: no reply, or a status and what the JSON decoder makes of the body.\<close>

datatype 'a http_reply = NoReply | Reply nat "'a option"

text \<open>
  What GitHub answers: the token for a code and verifier, and, with a token, the reply to a profile
  or a membership URL.
\<close>

record github_api =
  ga_exchange :: "string \<Rightarrow> string \<Rightarrow> string option"
  ga_profile :: "string \<Rightarrow> string \<Rightarrow> github_profile http_reply"
  ga_membership :: "string \<Rightarrow> string \<Rightarrow> string http_reply"

text \<open>\<^verbatim>\<open>strings.TrimRight(s, "/")\<close>.\<close>

definition trim_right_slashes :: "string \<Rightarrow> string" where
  "trim_right_slashes s = rev (dropWhile (\<lambda>c. c = CHR ''/'') (rev s))"

definition new_github :: "provider_options \<Rightarrow> string \<Rightarrow> string \<Rightarrow> github" where
  "new_github opts oauth_endpoint api = \<lparr>
     gh_oauth = \<lparr>oc_client_id = po_client_id opts, oc_client_secret = po_client_secret opts,
       oc_endpoint = oauth_endpoint, oc_redirect_url = po_redirect_url opts,
       oc_scopes = (if po_allowed_orgs opts \<noteq> [] then [''read:user'', ''read:org''] else [''read:user''])\<rparr>,
     gh_api_url = trim_right_slashes api, gh_allowed_orgs = po_allowed_orgs opts,
     gh_allowed_subjects = po_allowed_subjects opts, gh_allow_any = po_allow_any opts\<rparr>"

definition github_authorization_url :: "auth_code_url \<Rightarrow> github \<Rightarrow> string \<Rightarrow> string \<Rightarrow> string \<Rightarrow> string" where
  "github_authorization_url auth_code_url g state challenge nonce = auth_code_url (gh_oauth g) state (pkce_params challenge)"

definition github_profile_of :: "github_api \<Rightarrow> github \<Rightarrow> string \<Rightarrow> auth_error + github_profile" where
  "github_profile_of api g token = (case ga_profile api token (gh_api_url g @ ''/user'') of
      NoReply \<Rightarrow> Inl (auth_error [ProviderUnavailable] ''fetch GitHub profile'')
    | Reply status body \<Rightarrow>
        (if status \<noteq> 200 then Inl (auth_error [ProviderUnavailable] ''GitHub profile returned HTTP'')
         else (case body of
             None \<Rightarrow> Inl (auth_error [ProviderUnavailable] ''decode GitHub profile'')
           | Some profile \<Rightarrow> Inr profile)))"

fun active_organization :: "github_api \<Rightarrow> github \<Rightarrow> string \<Rightarrow> string list \<Rightarrow> auth_error + string" where
  "active_organization api g token [] = Inl (auth_error [Unauthorized] [])"
| "active_organization api g token (org # orgs) =
     (case ga_membership api token (gh_api_url g @ ''/user/memberships/orgs/'' @ path_escape org) of
        NoReply \<Rightarrow> Inl (auth_error [ProviderUnavailable, OrganizationVerification] ''verify GitHub organization'')
      | Reply status body \<Rightarrow>
          (if status = 200 then
             (case body of
                None \<Rightarrow> Inl (auth_error [ProviderUnavailable, OrganizationVerification] ''decode GitHub organization membership'')
              | Some state \<Rightarrow> if state = ''active'' then Inr org else active_organization api g token orgs)
           else if status = 404 then active_organization api g token orgs
           else Inl (auth_error [ProviderUnavailable, OrganizationVerification] ''GitHub organization membership returned HTTP'')))"

definition github_authenticate ::
  "github_api \<Rightarrow> github \<Rightarrow> instant \<Rightarrow> string \<Rightarrow> string \<Rightarrow> string \<Rightarrow> auth_error + principal" where
  "github_authenticate api g now code verifier nonce = (case ga_exchange api code verifier of
      None \<Rightarrow> Inl (auth_error [] ''exchange GitHub authorization code'')
    | Some token \<Rightarrow> (case github_profile_of api g token of
        Inl err \<Rightarrow> Inl err
      | Inr profile \<Rightarrow>
          (let p = \<lparr>pr_provider = ''github'', pr_subject = itoa (gp_id profile), pr_user_name = gp_login profile,
               pr_display_name = gp_name profile, pr_profile_checked_at = Some now, pr_authorized_via = []\<rparr> in
           if \<not> principal_valid p then Inl (auth_error [] ''GitHub returned an incomplete identity'')
           else if gh_allow_any g then Inr (p\<lparr>pr_authorized_via := ''any''\<rparr>)
           else if subject_allowed (namespaced_subject p) (gh_allowed_subjects g) then Inr (p\<lparr>pr_authorized_via := ''subject''\<rparr>)
           else (case active_organization api g token (gh_allowed_orgs g) of
               Inl err \<Rightarrow> Inl err
             | Inr org \<Rightarrow> Inr (p\<lparr>pr_authorized_via := ''github_org:'' @ org\<rparr>)))))"

definition github_authenticator :: "auth_code_url \<Rightarrow> github_api \<Rightarrow> github \<Rightarrow> authenticator" where
  "github_authenticator url api g = \<lparr>au_name = ''github'', au_identity_provider = ''github'',
     au_authorization_url = github_authorization_url url g, au_authenticate = github_authenticate api g\<rparr>"

subsection \<open>Google\<close>

record google =
  go_oauth :: oauth_config
  go_allowed_orgs :: "string list"
  go_allowed_subjects :: "string list"
  go_allow_any :: bool

record google_claims =
  gc_subject :: string
  gc_email :: string
  gc_email_verified :: bool
  gc_hosted_domain :: string
  gc_name :: string
  gc_nonce :: string

text \<open>
  The token endpoint and the verifier of an OpenID Connect provider: the \<^verbatim>\<open>id_token\<close> of the token
  response (empty when it is missing), and the claims of a token whose signature verifies.
\<close>

record 'c oidc_api =
  oi_exchange :: "string \<Rightarrow> string \<Rightarrow> string option"
  oi_verify :: "string \<Rightarrow> 'c option"

definition new_google :: "provider_options \<Rightarrow> string \<Rightarrow> google" where
  "new_google opts endpoint = \<lparr>
     go_oauth = \<lparr>oc_client_id = po_client_id opts, oc_client_secret = po_client_secret opts, oc_endpoint = endpoint,
       oc_redirect_url = po_redirect_url opts, oc_scopes = [''openid'', ''email'', ''profile'']\<rparr>,
     go_allowed_orgs = po_allowed_orgs opts, go_allowed_subjects = po_allowed_subjects opts,
     go_allow_any = po_allow_any opts\<rparr>"

definition google_authorization_url :: "auth_code_url \<Rightarrow> google \<Rightarrow> string \<Rightarrow> string \<Rightarrow> string \<Rightarrow> string" where
  "google_authorization_url auth_code_url g state challenge nonce =
     auth_code_url (go_oauth g) state (pkce_params challenge @ [(''nonce'', nonce)]
       @ (case go_allowed_orgs g of [org] \<Rightarrow> [(''hd'', org)] | _ \<Rightarrow> []))"

text \<open>\<^verbatim>\<open>strings.LastIndex(s, "@")\<close> and the text after it: None when there is no such byte.\<close>

definition after_last :: "char \<Rightarrow> string \<Rightarrow> string option" where
  "after_last c s = (if c \<in> set s then Some (rev (takeWhile (\<lambda>d. d \<noteq> c) (rev s))) else None)"

definition google_allowed_organization :: "google \<Rightarrow> google_claims \<Rightarrow> string option" where
  "google_allowed_organization g claims = (case after_last CHR ''@'' (gc_email claims) of
      None \<Rightarrow> None
    | Some domain \<Rightarrow>
        find (\<lambda>org. to_lower (gc_hosted_domain claims) = org \<and> to_lower domain = org) (go_allowed_orgs g))"

definition google_authenticate ::
  "google_claims oidc_api \<Rightarrow> google \<Rightarrow> instant \<Rightarrow> string \<Rightarrow> string \<Rightarrow> string \<Rightarrow> auth_error + principal" where
  "google_authenticate api g now code verifier nonce = (case oi_exchange api code verifier of
      None \<Rightarrow> Inl (auth_error [] ''exchange Google authorization code'')
    | Some raw \<Rightarrow>
        (if raw = [] then Inl (auth_error [] ''Google token response omitted id_token'')
         else (case oi_verify api raw of
             None \<Rightarrow> Inl (auth_error [] ''verify Google ID token'')
           | Some claims \<Rightarrow>
               (if nonce = [] \<or> gc_nonce claims \<noteq> nonce \<or> gc_subject claims = [] \<or> gc_email claims = []
                   \<or> \<not> gc_email_verified claims
                then Inl (auth_error [Unauthorized] [])
                else
                  (let p = \<lparr>pr_provider = ''google'', pr_subject = gc_subject claims,
                       pr_user_name = to_lower (gc_email claims), pr_display_name = gc_name claims,
                       pr_profile_checked_at = Some now, pr_authorized_via = []\<rparr> in
                   if go_allow_any g then Inr (p\<lparr>pr_authorized_via := ''any''\<rparr>)
                   else if subject_allowed (namespaced_subject p) (go_allowed_subjects g)
                   then Inr (p\<lparr>pr_authorized_via := ''subject''\<rparr>)
                   else (case google_allowed_organization g claims of
                       None \<Rightarrow> Inl (auth_error [Unauthorized] [])
                     | Some org \<Rightarrow> Inr (p\<lparr>pr_authorized_via := ''google_org:'' @ org\<rparr>)))))))"

definition google_authenticator :: "auth_code_url \<Rightarrow> google_claims oidc_api \<Rightarrow> google \<Rightarrow> authenticator" where
  "google_authenticator url api g = \<lparr>au_name = ''google'', au_identity_provider = ''google'',
     au_authorization_url = google_authorization_url url g, au_authenticate = google_authenticate api g\<rparr>"

end
