(* ===== verification/ProviderPolicy.thy ===== *)
theory ProviderPolicy
  imports Providers
begin

section \<open>Authentik, Beyond, the choice of a provider, and what they all promise\<close>

text \<open>
  The remaining providers and \<^verbatim>\<open>humanauth.New\<close>. The locale \<open>human_provider\<close> is the contract of the
  interface \<^verbatim>\<open>Authenticator\<close> the login handler relies on: a principal it returns carries the
  provider's namespace, has the fields attribution needs and satisfies the access policy. It is
  interpreted on the model of each provider.
\<close>

subsection \<open>Authentik\<close>

record authentik =
  ak_oauth :: oauth_config
  ak_issuer :: string
  ak_allowed_groups :: "string list"
  ak_allowed_subjects :: "string list"
  ak_allow_any :: bool

record authentik_claims =
  ac_issuer :: string
  ac_subject :: string
  ac_preferred_user_name :: string
  ac_email :: string
  ac_email_verified :: bool
  ac_name :: string
  ac_nonce :: string
  ac_groups :: "string list"

definition new_authentik :: "provider_options \<Rightarrow> string \<Rightarrow> authentik" where
  "new_authentik opts endpoint = \<lparr>
     ak_oauth = \<lparr>oc_client_id = po_client_id opts, oc_client_secret = po_client_secret opts, oc_endpoint = endpoint,
       oc_redirect_url = po_redirect_url opts, oc_scopes = [''openid'', ''email'', ''profile'', ''groups'']\<rparr>,
     ak_issuer = po_issuer_url opts, ak_allowed_groups = po_allowed_orgs opts,
     ak_allowed_subjects = po_allowed_subjects opts, ak_allow_any = po_allow_any opts\<rparr>"

definition authentik_provider :: "authentik \<Rightarrow> string" where
  "authentik_provider a = ''authentik:'' @ ak_issuer a"

definition authentik_authorization_url :: "auth_code_url \<Rightarrow> authentik \<Rightarrow> string \<Rightarrow> string \<Rightarrow> string \<Rightarrow> string" where
  "authentik_authorization_url auth_code_url a state challenge nonce =
     auth_code_url (ak_oauth a) state (pkce_params challenge @ [(''nonce'', nonce)])"

definition authentik_allowed_group :: "authentik \<Rightarrow> string list \<Rightarrow> string option" where
  "authentik_allowed_group a groups = find (\<lambda>allowed. allowed \<in> set groups) (ak_allowed_groups a)"

definition authentik_user_name :: "authentik_claims \<Rightarrow> string" where
  "authentik_user_name claims =
     (let user_name = trim_space (ac_preferred_user_name claims) in
      if user_name = [] \<and> ac_email_verified claims then to_lower (trim_space (ac_email claims)) else user_name)"

definition authentik_authenticate ::
  "authentik_claims oidc_api \<Rightarrow> authentik \<Rightarrow> instant \<Rightarrow> string \<Rightarrow> string \<Rightarrow> string \<Rightarrow> auth_error + principal" where
  "authentik_authenticate api a now code verifier nonce = (case oi_exchange api code verifier of
      None \<Rightarrow> Inl (auth_error [] ''exchange Authentik authorization code'')
    | Some raw \<Rightarrow>
        (if raw = [] then Inl (auth_error [] ''Authentik token response omitted id_token'')
         else (case oi_verify api raw of
             None \<Rightarrow> Inl (auth_error [] ''verify Authentik ID token'')
           | Some claims \<Rightarrow>
               (if nonce = [] \<or> ac_nonce claims \<noteq> nonce \<or> ac_issuer claims \<noteq> ak_issuer a \<or> ac_subject claims = []
                then Inl (auth_error [Unauthorized] [])
                else if authentik_user_name claims = [] then Inl (auth_error [Unauthorized] [])
                else
                  (let p = \<lparr>pr_provider = authentik_provider a, pr_subject = ac_subject claims,
                       pr_user_name = authentik_user_name claims, pr_display_name = ac_name claims,
                       pr_profile_checked_at = Some now, pr_authorized_via = []\<rparr> in
                   if ak_allow_any a then Inr (p\<lparr>pr_authorized_via := ''any''\<rparr>)
                   else if subject_allowed (namespaced_subject p) (ak_allowed_subjects a)
                   then Inr (p\<lparr>pr_authorized_via := ''subject''\<rparr>)
                   else (case authentik_allowed_group a (ac_groups claims) of
                       None \<Rightarrow> Inl (auth_error [Unauthorized, GroupUnauthorized] [])
                     | Some grp \<Rightarrow> Inr (p\<lparr>pr_authorized_via := ''authentik_group:'' @ grp\<rparr>)))))))"

definition authentik_authenticator :: "auth_code_url \<Rightarrow> authentik_claims oidc_api \<Rightarrow> authentik \<Rightarrow> authenticator" where
  "authentik_authenticator url api a = \<lparr>au_name = ''authentik'', au_identity_provider = authentik_provider a,
     au_authorization_url = authentik_authorization_url url a, au_authenticate = authentik_authenticate api a\<rparr>"

subsection \<open>Beyond\<close>

record beyond =
  by_allowed_groups :: "string list"
  by_allowed_subjects :: "string list"
  by_allow_any :: bool

definition beyond_email_header :: string where "beyond_email_header = ''X-Beyond-Email''"
definition beyond_name_header :: string where "beyond_name_header = ''X-Beyond-Name''"
definition beyond_groups_header :: string where "beyond_groups_header = ''X-Beyond-Groups''"
definition max_beyond_email_len :: nat where "max_beyond_email_len = 254"

definition new_beyond :: "provider_options \<Rightarrow> beyond" where
  "new_beyond opts = \<lparr>by_allowed_groups = po_allowed_orgs opts, by_allowed_subjects = po_allowed_subjects opts,
     by_allow_any = po_allow_any opts\<rparr>"

definition valid_beyond_email :: "string \<Rightarrow> bool" where
  "valid_beyond_email email =
     (if email = [] \<or> length email > max_beyond_email_len \<or> count_list email CHR ''@'' \<noteq> 1
         \<or> has_rune is_control email then False
      else (let at = length (takeWhile (\<lambda>c. c \<noteq> CHR ''@'') email) in 0 < at \<and> at < length email - 1))"

definition beyond_allowed_group :: "beyond \<Rightarrow> string \<Rightarrow> string option" where
  "beyond_allowed_group b raw =
     find (\<lambda>grp. grp \<in> set (by_allowed_groups b)) (map trim_space (split_on CHR ''|'' raw))"

definition beyond_authenticate_request :: "beyond \<Rightarrow> instant \<Rightarrow> http_request \<Rightarrow> auth_error + principal" where
  "beyond_authenticate_request b now rq =
     (let email = to_lower (trim_space (rq_header rq beyond_email_header)) in
      if \<not> valid_beyond_email email then Inl (auth_error [Unauthorized] [])
      else
        (let p = \<lparr>pr_provider = ''beyond'', pr_subject = email, pr_user_name = email,
             pr_display_name = trim_space (rq_header rq beyond_name_header),
             pr_profile_checked_at = Some now, pr_authorized_via = []\<rparr> in
         if by_allow_any b then Inr (p\<lparr>pr_authorized_via := ''any''\<rparr>)
         else if subject_allowed (namespaced_subject p) (by_allowed_subjects b)
         then Inr (p\<lparr>pr_authorized_via := ''subject''\<rparr>)
         else (case beyond_allowed_group b (rq_header rq beyond_groups_header) of
             None \<Rightarrow> Inl (auth_error [Unauthorized, GroupUnauthorized] [])
           | Some grp \<Rightarrow> Inr (p\<lparr>pr_authorized_via := ''beyond_group:'' @ grp\<rparr>))))"

subsection \<open>Choosing a provider\<close>

text \<open>OpenID Connect discovery (go-oidc) is the function \<open>discover\<close> from an issuer to its endpoint.\<close>

record provider_apis =
  pa_url :: auth_code_url
  pa_github_endpoint :: string
  pa_discover :: "string \<Rightarrow> string option"
  pa_github :: github_api
  pa_google :: "google_claims oidc_api"
  pa_authentik :: "authentik_claims oidc_api"

definition new_authenticator :: "provider_apis \<Rightarrow> string \<Rightarrow> provider_options \<Rightarrow> string + authenticator" where
  "new_authenticator apis name opts =
     (if name = ''github'' then Inr (github_authenticator (pa_url apis) (pa_github apis)
        (new_github opts (pa_github_endpoint apis) ''https://api.github.com''))
      else if name = ''google'' then
        (case pa_discover apis ''https://accounts.google.com'' of
           None \<Rightarrow> Inl ''discover Google OpenID Connect provider''
         | Some endpoint \<Rightarrow> Inr (google_authenticator (pa_url apis) (pa_google apis) (new_google opts endpoint)))
      else if name = ''authentik'' then
        (case pa_discover apis (po_issuer_url opts) of
           None \<Rightarrow> Inl ''discover Authentik OpenID Connect provider''
         | Some endpoint \<Rightarrow> Inr (authentik_authenticator (pa_url apis) (pa_authentik apis) (new_authentik opts endpoint)))
      else Inl ''unsupported human authentication provider'')"

subsection \<open>The contract of a provider\<close>

text \<open>The access policy, as the principal's \<^verbatim>\<open>AuthorizedVia\<close> records it.\<close>

definition policy_allows :: "bool \<Rightarrow> string list \<Rightarrow> string list \<Rightarrow> string \<Rightarrow> principal \<Rightarrow> bool" where
  "policy_allows any subjects orgs prefix p =
     (if pr_authorized_via p = ''any'' then any
      else if pr_authorized_via p = ''subject'' then \<not> any \<and> namespaced_subject p \<in> set subjects
      else \<not> any \<and> namespaced_subject p \<notin> set subjects \<and> (\<exists>org \<in> set orgs. pr_authorized_via p = prefix @ org))"

locale human_provider =
  fixes A :: authenticator and allows :: "principal \<Rightarrow> bool"
  assumes sound: "au_authenticate A now code verifier nonce = Inr p \<Longrightarrow>
    pr_provider p = au_identity_provider A \<and> principal_valid p \<and> pr_profile_checked_at p = Some now \<and> allows p"

lemma to_lower_Nil: "to_lower s = [] \<longleftrightarrow> s = []"
proof (cases s)
  case (Cons c cs)
  have "encode_rune r \<noteq> []" for r by (simp add: encode_rune_def Let_def)
  then show ?thesis using Cons by (cases "decode_rune c cs") (simp add: to_lower_def)
qed (simp add: to_lower_def)

lemma active_organization_Inr:
  "active_organization api g token orgs = Inr org \<Longrightarrow> org \<in> set orgs
    \<and> ga_membership api token (gh_api_url g @ ''/user/memberships/orgs/'' @ path_escape org) = Reply 200 (Some ''active'')"
  by (induction orgs) (auto split: http_reply.splits if_splits option.splits)

lemma namespaced_via [simp]: "namespaced_subject (p\<lparr>pr_authorized_via := v\<rparr>) = namespaced_subject p"
  by (simp add: namespaced_subject_def)

lemma github_sound:
  assumes "github_authenticate api g now code verifier nonce = Inr p"
  shows "pr_provider p = ''github'' \<and> principal_valid p \<and> pr_profile_checked_at p = Some now
    \<and> policy_allows (gh_allow_any g) (gh_allowed_subjects g) (gh_allowed_orgs g) ''github_org:'' p"
  using assms by (auto simp: github_authenticate_def Let_def principal_valid_def policy_allows_def subject_allowed_def
      namespaced_subject_def dest: active_organization_Inr split: option.splits sum.splits if_splits)

lemma google_sound:
  assumes "google_authenticate api g now code verifier nonce = Inr p"
  shows "pr_provider p = ''google'' \<and> principal_valid p \<and> pr_profile_checked_at p = Some now
    \<and> policy_allows (go_allow_any g) (go_allowed_subjects g) (go_allowed_orgs g) ''google_org:'' p"
  using assms by (auto simp: google_authenticate_def Let_def principal_valid_def policy_allows_def subject_allowed_def
      namespaced_subject_def to_lower_Nil google_allowed_organization_def
      dest!: find_SomeD split: option.splits if_splits)

lemma authentik_sound:
  assumes "authentik_authenticate api a now code verifier nonce = Inr p"
  shows "pr_provider p = authentik_provider a \<and> principal_valid p \<and> pr_profile_checked_at p = Some now
    \<and> policy_allows (ak_allow_any a) (ak_allowed_subjects a) (ak_allowed_groups a) ''authentik_group:'' p"
  using assms by (auto simp: authentik_authenticate_def Let_def principal_valid_def policy_allows_def subject_allowed_def
      namespaced_subject_def authentik_provider_def authentik_allowed_group_def
      dest!: find_SomeD split: option.splits if_splits)

lemma beyond_sound:
  assumes "beyond_authenticate_request b now rq = Inr p"
  shows "pr_provider p = ''beyond'' \<and> principal_valid p \<and> pr_profile_checked_at p = Some now
    \<and> policy_allows (by_allow_any b) (by_allowed_subjects b) (by_allowed_groups b) ''beyond_group:'' p"
  using assms by (auto simp: beyond_authenticate_request_def Let_def principal_valid_def policy_allows_def
      subject_allowed_def namespaced_subject_def valid_beyond_email_def beyond_allowed_group_def
      dest!: find_SomeD split: option.splits if_splits)

interpretation github_provider: human_provider "github_authenticator url api g"
    "policy_allows (gh_allow_any g) (gh_allowed_subjects g) (gh_allowed_orgs g) ''github_org:''" for url api g
  by unfold_locales (unfold github_authenticator_def authenticator.select_convs, rule github_sound)

interpretation google_provider: human_provider "google_authenticator url api g"
    "policy_allows (go_allow_any g) (go_allowed_subjects g) (go_allowed_orgs g) ''google_org:''" for url api g
  by unfold_locales (unfold google_authenticator_def authenticator.select_convs, rule google_sound)

interpretation authentik_provider: human_provider "authentik_authenticator url api a"
    "policy_allows (ak_allow_any a) (ak_allowed_subjects a) (ak_allowed_groups a) ''authentik_group:''" for url api a
  by unfold_locales (unfold authentik_authenticator_def authenticator.select_convs, rule authentik_sound)

text \<open>What \<^verbatim>\<open>humanauth.New\<close> builds applies the policy of the options, and is named as asked.\<close>

lemma new_authenticator_permits:
  assumes "new_authenticator apis name opts = Inr a" and "au_authenticate a now code verifier nonce = Inr p"
  shows "pr_provider p = au_identity_provider a \<and> principal_valid p \<and> pr_profile_checked_at p = Some now
    \<and> (if pr_authorized_via p = ''any'' then po_allow_any opts
       else \<not> po_allow_any opts \<and>
         (if pr_authorized_via p = ''subject'' then namespaced_subject p \<in> set (po_allowed_subjects opts)
          else namespaced_subject p \<notin> set (po_allowed_subjects opts)
            \<and> (\<exists>org \<in> set (po_allowed_orgs opts). \<exists>prefix \<in> {''github_org:'', ''google_org:'', ''authentik_group:''}.
                 pr_authorized_via p = prefix @ org)))"
proof -
  from assms(1) consider
      g where "a = github_authenticator (pa_url apis) (pa_github apis) g"
        "gh_allow_any g = po_allow_any opts" "gh_allowed_subjects g = po_allowed_subjects opts" "gh_allowed_orgs g = po_allowed_orgs opts"
    | g where "a = google_authenticator (pa_url apis) (pa_google apis) g"
        "go_allow_any g = po_allow_any opts" "go_allowed_subjects g = po_allowed_subjects opts" "go_allowed_orgs g = po_allowed_orgs opts"
    | k where "a = authentik_authenticator (pa_url apis) (pa_authentik apis) k"
        "ak_allow_any k = po_allow_any opts" "ak_allowed_subjects k = po_allowed_subjects opts" "ak_allowed_groups k = po_allowed_orgs opts"
    by (auto simp: new_authenticator_def new_github_def new_google_def new_authentik_def split: if_splits option.splits)
  then show ?thesis
  proof cases
    case 1
    from github_provider.sound [OF assms(2) [unfolded 1(1)]] 1 show ?thesis
      unfolding policy_allows_def by (simp split: if_splits) blast
  next
    case 2
    from google_provider.sound [OF assms(2) [unfolded 2(1)]] 2 show ?thesis
      unfolding policy_allows_def by (simp split: if_splits) blast
  next
    case 3
    from authentik_provider.sound [OF assms(2) [unfolded 3(1)]] 3 show ?thesis
      unfolding policy_allows_def by (simp split: if_splits) blast
  qed
qed

lemma new_authenticator_name: "new_authenticator apis name opts = Inr a \<Longrightarrow> au_name a = name"
  by (auto simp: new_authenticator_def github_authenticator_def google_authenticator_def authentik_authenticator_def
      split: if_splits option.splits)

end
