(* ===== verification/Middleware.thy ===== *)
theory Middleware
  imports ProviderPolicy
begin

section \<open>The middleware: internal/middleware\<close>

text \<open>
  A handler takes the request context (what the middleware stored in it), the request and the state
  behind the service, and gives the response and the state it leaves. A middleware wraps anything that
  takes a context and a request; its argument \<open>send\<close> says what writing a response makes of it.
  Both authentication middlewares, the request identifier, the security headers and the record the
  logger writes are modelled; the logging package and the headers' transport are not.
\<close>

record request_context =
  cx_request_id :: string
  cx_api_principal :: "principal option"
  cx_session :: "human_session option"

definition empty_context :: request_context where
  "empty_context = \<lparr>cx_request_id = [], cx_api_principal = None, cx_session = None\<rparr>"

type_synonym ('s, 'p) handler = "request_context \<Rightarrow> http_request \<Rightarrow> 's \<Rightarrow> 'p response \<times> 's"

definition reply :: "'p response \<Rightarrow> 's \<Rightarrow> 'p response \<times> 's" where
  "reply r s = (r, s)"

type_synonym 'r serving = "request_context \<Rightarrow> http_request \<Rightarrow> 'r"

type_synonym request_principal = "http_request \<Rightarrow> auth_error + principal"

subsection \<open>API authentication: auth.go\<close>

definition validate_token :: "string \<Rightarrow> string list \<Rightarrow> bool" where
  "validate_token provided valid_tokens = list_ex (\<lambda>valid. provided = valid) valid_tokens"

definition extract_api_token :: "http_request \<Rightarrow> string" where
  "extract_api_token rq =
     (let header = rq_header rq ''Authorization'' in
      if has_prefix header ''Bearer '' then trim_prefix header ''Bearer ''
      else if has_prefix header ''Token '' then trim_prefix header ''Token '' else [])"

definition write_auth_error :: "string \<Rightarrow> 'p response" where
  "write_auth_error message = json_error 401 ''unauthorized'' message"

definition auth_with_trusted_identity ::
  "('p response \<Rightarrow> 'r) \<Rightarrow> string list \<Rightarrow> bool \<Rightarrow> string \<Rightarrow> request_principal option \<Rightarrow> instant
    \<Rightarrow> 'r serving \<Rightarrow> 'r serving" where
  "auth_with_trusted_identity send tokens require_for_reads session_secret principal_for_request now next_handler cx rq =
     (if \<not> require_for_reads \<and> is_read rq then next_handler cx rq
      else case (case principal_for_request of None \<Rightarrow> None
                 | Some f \<Rightarrow> (case f rq of Inl _ \<Rightarrow> None | Inr p \<Rightarrow> Some p)) of
          Some p \<Rightarrow> next_handler (cx\<lparr>cx_api_principal := Some p\<rparr>) rq
        | None \<Rightarrow>
            (if extract_api_token rq \<noteq> [] \<and> validate_token (extract_api_token rq) tokens then next_handler cx rq
             else if session_secret \<noteq> [] \<and> validate_session_cookie rq session_secret now then next_handler cx rq
             else if q_get (rq_query rq) ''token'' \<noteq> [] \<and> validate_token (q_get (rq_query rq) ''token'') tokens
             then next_handler cx rq
             else send (write_auth_error ''missing or malformed Authorization header'')))"

definition auth_middleware ::
  "('p response \<Rightarrow> 'r) \<Rightarrow> string list \<Rightarrow> bool \<Rightarrow> string \<Rightarrow> instant \<Rightarrow> 'r serving \<Rightarrow> 'r serving" where
  "auth_middleware send tokens require_for_reads session_secret now =
     auth_with_trusted_identity send tokens require_for_reads session_secret None now"

definition api_principal_from_context :: "request_context \<Rightarrow> principal option" where
  "api_principal_from_context cx = cx_api_principal cx"

subsection \<open>Dashboard authentication: human_auth.go\<close>

definition reject_human_request :: "http_request \<Rightarrow> 'p response" where
  "reject_human_request rq =
     (if is_read rq
      then http_redirect (''/login?'' @ encode_values [(''return_to'', [rq_uri rq])]) 302
      else http_error ''Authentication required'' 401)"

definition bind_principal :: "request_principal option \<Rightarrow> http_request \<Rightarrow> human_session \<Rightarrow> human_session option" where
  "bind_principal principal_for_request rq session = (case principal_for_request of
      None \<Rightarrow> Some session
    | Some f \<Rightarrow> (case f rq of
        Inl _ \<Rightarrow> None
      | Inr p \<Rightarrow>
          if pr_provider p \<noteq> pr_provider (hs_principal session) \<or> pr_subject p \<noteq> pr_subject (hs_principal session)
          then None else Some (session\<lparr>hs_principal := p\<rparr>)))"

definition require_human_auth ::
  "('p response \<Rightarrow> 'r) \<Rightarrow> human_session json_codec \<Rightarrow> string \<Rightarrow> string \<Rightarrow> request_principal option \<Rightarrow> instant
    \<Rightarrow> 'r serving \<Rightarrow> 'r serving" where
  "require_human_auth send codec secret provider principal_for_request now next_handler cx rq =
     (case read_human_session codec rq secret provider now of
        Inl _ \<Rightarrow> send (reject_human_request rq)
      | Inr session \<Rightarrow> (case bind_principal principal_for_request rq session of
          None \<Rightarrow> send (reject_human_request rq)
        | Some bound \<Rightarrow> next_handler (cx\<lparr>cx_session := Some bound\<rparr>) rq))"

definition human_session_from_context :: "request_context \<Rightarrow> human_session option" where
  "human_session_from_context cx = cx_session cx"

subsection \<open>Request identifier and logged status: requestid.go, logging.go\<close>

definition request_id_header :: string where "request_id_header = ''X-Request-ID''"

definition request_id :: "string \<Rightarrow> 'r serving \<Rightarrow> 'r serving" where
  "request_id fresh next_handler cx rq =
     (let i = (if rq_header rq request_id_header = [] then fresh else rq_header rq request_id_header)
      in next_handler (cx\<lparr>cx_request_id := i\<rparr>) rq)"

text \<open>
  \<^verbatim>\<open>statusWriter\<close>: the status the logger sees and whether the header is written; a call of
  \<^verbatim>\<open>WriteHeader\<close> after the first is dropped, a \<^verbatim>\<open>Write\<close> without one sends 200.
\<close>

record status_writer =
  sw_status :: nat
  sw_written :: bool
  sw_sent :: "nat option"

definition new_status_writer :: status_writer where
  "new_status_writer = \<lparr>sw_status = 200, sw_written = False, sw_sent = None\<rparr>"

definition write_header :: "nat \<Rightarrow> status_writer \<Rightarrow> status_writer" where
  "write_header code w = (if sw_written w then w else \<lparr>sw_status = code, sw_written = True, sw_sent = Some code\<rparr>)"

definition write_body :: "status_writer \<Rightarrow> status_writer" where
  "write_body w = (if sw_written w then w else write_header 200 w)"

datatype log_level = LevelInfo | LevelWarn | LevelError

definition log_level_of :: "nat \<Rightarrow> log_level" where
  "log_level_of status = (if 500 \<le> status then LevelError else if 400 \<le> status then LevelWarn else LevelInfo)"

text \<open>The calls a handler makes on the writer.\<close>

datatype writer_call = WriteHeader nat | Write

fun writer_step :: "writer_call \<Rightarrow> status_writer \<Rightarrow> status_writer" where
  "writer_step (WriteHeader code) w = write_header code w"
| "writer_step Write w = write_body w"

definition logged_status :: "writer_call list \<Rightarrow> nat" where
  "logged_status calls = sw_status (fold writer_step calls new_status_writer)"

definition get_request_id :: "request_context \<Rightarrow> string" where
  "get_request_id cx = cx_request_id cx"

text \<open>
  The record \<^verbatim>\<open>Logger\<close> writes for a request: the calls its handler made on the writer, the start and the
  end of the call, and the context the identifier is in.
\<close>

record log_record =
  lg_level :: log_level
  lg_message :: string
  lg_method :: string
  lg_path :: string
  lg_status :: nat
  lg_duration :: duration
  lg_request_id :: string

definition log_request :: "writer_call list \<Rightarrow> instant \<Rightarrow> instant \<Rightarrow> request_context \<Rightarrow> http_request \<Rightarrow> log_record" where
  "log_request calls started ended cx rq = \<lparr>lg_level = log_level_of (logged_status calls),
     lg_message = rq_method rq @ '' '' @ rq_path rq, lg_method = rq_method rq, lg_path = rq_path rq,
     lg_status = logged_status calls, lg_duration = ended - started, lg_request_id = get_request_id cx\<rparr>"

text \<open>The headers every response starts with, as updates of the header map; \<^verbatim>\<open>Set\<close> replaces the values of a key.\<close>

definition security_headers :: "(string \<Rightarrow> string list) \<Rightarrow> string \<Rightarrow> string list" where
  "security_headers header = header(''Referrer-Policy'' := [''no-referrer''], ''X-Content-Type-Options'' := [''nosniff''])"

subsection \<open>What the middleware lets through\<close>

text \<open>A request is authenticated for the API if it carries one of the accepted credentials.\<close>

definition trusted_principal :: "request_principal option \<Rightarrow> http_request \<Rightarrow> principal option" where
  "trusted_principal principal_for_request rq = (case principal_for_request of
      None \<Rightarrow> None | Some f \<Rightarrow> (case f rq of Inl _ \<Rightarrow> None | Inr p \<Rightarrow> Some p))"

definition presents_credential :: "string list \<Rightarrow> string \<Rightarrow> instant \<Rightarrow> http_request \<Rightarrow> bool" where
  "presents_credential tokens session_secret now rq =
     ((\<exists>t \<in> set tokens. t \<noteq> [] \<and> (rq_header rq ''Authorization'' = ''Bearer '' @ t
         \<or> rq_header rq ''Authorization'' = ''Token '' @ t \<or> q_get (rq_query rq) ''token'' = t))
      \<or> (session_secret \<noteq> [] \<and> validate_session_cookie rq session_secret now))"

lemma trim_prefix_eq: "has_prefix s p \<Longrightarrow> s = p @ trim_prefix s p"
  by (simp add: has_prefix_def trim_prefix_def) (metis append_take_drop_id)

lemma has_prefix_append [simp]: "has_prefix (p @ s) p"
  by (simp add: has_prefix_def)

lemma trim_prefix_append [simp]: "trim_prefix (p @ s) p = s"
  by (simp add: trim_prefix_def)

lemma token_not_bearer: "\<not> has_prefix (''Token '' @ t) ''Bearer ''"
  by (simp add: has_prefix_def)

lemma extract_api_token_eq:
  assumes "t \<noteq> []"
  shows "extract_api_token rq = t \<longleftrightarrow>
    rq_header rq ''Authorization'' = ''Bearer '' @ t \<or> rq_header rq ''Authorization'' = ''Token '' @ t"
proof
  assume *: "extract_api_token rq = t"
  let ?h = "rq_header rq ''Authorization''"
  show "?h = ''Bearer '' @ t \<or> ?h = ''Token '' @ t"
  proof (cases "has_prefix ?h ''Bearer ''")
    case True
    with * show ?thesis using trim_prefix_eq [OF True] by (simp add: extract_api_token_def Let_def)
  next
    case False
    with * assms have "has_prefix ?h ''Token ''" by (auto simp: extract_api_token_def Let_def split: if_splits)
    with False * show ?thesis using trim_prefix_eq [of ?h "''Token ''"] by (simp add: extract_api_token_def Let_def)
  qed
next
  assume "rq_header rq ''Authorization'' = ''Bearer '' @ t \<or> rq_header rq ''Authorization'' = ''Token '' @ t"
  then show "extract_api_token rq = t"
    using token_not_bearer [of t] has_prefix_append [of "''Token ''" t] has_prefix_append [of "''Bearer ''" t]
      trim_prefix_append [of "''Token ''" t] trim_prefix_append [of "''Bearer ''" t]
    unfolding extract_api_token_def Let_def by (elim disjE) (simp_all only: if_True if_False)
qed

lemma validate_token_iff: "validate_token t tokens \<longleftrightarrow> t \<in> set tokens"
  by (auto simp: validate_token_def list_ex_iff)

lemma presents_credential_iff:
  "presents_credential tokens secret now rq \<longleftrightarrow>
     (extract_api_token rq \<noteq> [] \<and> validate_token (extract_api_token rq) tokens)
     \<or> (secret \<noteq> [] \<and> validate_session_cookie rq secret now)
     \<or> (q_get (rq_query rq) ''token'' \<noteq> [] \<and> validate_token (q_get (rq_query rq) ''token'') tokens)"
proof -
  let ?a = "extract_api_token rq" and ?q = "q_get (rq_query rq) ''token''"
  have "(\<exists>t \<in> set tokens. t \<noteq> [] \<and> (rq_header rq ''Authorization'' = ''Bearer '' @ t
         \<or> rq_header rq ''Authorization'' = ''Token '' @ t \<or> ?q = t))
     \<longleftrightarrow> (\<exists>t \<in> set tokens. t \<noteq> [] \<and> (?a = t \<or> ?q = t))"
    by (intro bex_cong refl conj_cong) (subst extract_api_token_eq, assumption, simp only: disj_assoc)
  also have "\<dots> \<longleftrightarrow> (?a \<noteq> [] \<and> ?a \<in> set tokens) \<or> (?q \<noteq> [] \<and> ?q \<in> set tokens)" by blast
  finally show ?thesis unfolding presents_credential_def validate_token_iff by blast
qed

lemma auth_with_trusted_identity_eq:
  "auth_with_trusted_identity send tokens reads secret trusted now next_handler cx rq =
     (if \<not> reads \<and> is_read rq then next_handler cx rq
      else case trusted_principal trusted rq of
          Some p \<Rightarrow> next_handler (cx\<lparr>cx_api_principal := Some p\<rparr>) rq
        | None \<Rightarrow> if presents_credential tokens secret now rq then next_handler cx rq
                  else send (write_auth_error ''missing or malformed Authorization header''))"
  by (auto simp: auth_with_trusted_identity_def trusted_principal_def presents_credential_iff split: option.splits)

text \<open>The logger records the status the client received, 200 when the handler wrote nothing.\<close>

lemma writer_step_keeps:
  "sw_written w \<Longrightarrow> fold writer_step calls w = w"
proof (induction calls arbitrary: w)
  case (Cons c calls)
  then show ?case by (cases c) (simp_all add: write_header_def write_body_def)
qed simp

lemma logged_status_sent:
  "logged_status calls = (case sw_sent (fold writer_step calls new_status_writer) of None \<Rightarrow> 200 | Some code \<Rightarrow> code)"
proof (cases calls)
  case (Cons c rest)
  let ?w = "writer_step c new_status_writer"
  have "sw_written ?w \<and> sw_sent ?w = Some (sw_status ?w)"
    by (cases c) (simp_all add: write_header_def write_body_def new_status_writer_def)
  then show ?thesis using Cons writer_step_keeps [of ?w rest] by (simp add: logged_status_def)
qed (simp add: logged_status_def new_status_writer_def)

lemma logged_status_first: "logged_status (WriteHeader code # calls) = code"
proof -
  let ?w = "write_header code new_status_writer"
  have "sw_written ?w" "sw_status ?w = code" by (simp_all add: write_header_def new_status_writer_def)
  then show ?thesis using writer_step_keeps [of ?w calls] by (simp add: logged_status_def)
qed

end
