(* ===== verification/Params.thy ===== *)
theory Params
  imports Middleware
begin

section \<open>Query parameters and forms: list_params.go, current_params.go, dashboard_params.go, form.go\<close>

text \<open>
  The JSON API answers malformed parameters with a \<open>param_error\<close>; the dashboard falls back to
  defaults. \<^verbatim>\<open>time.Parse\<close> for the two layouts used and \<^verbatim>\<open>time.ParseDuration\<close> are the functions of a
  \<open>time_lib\<close>, None when they fail. A tag map built from repeated values keeps the last value of a key.
\<close>

record time_lib =
  tl_rfc3339 :: "string \<Rightarrow> instant option"
  tl_local :: "string \<Rightarrow> instant option"
  tl_duration :: "string \<Rightarrow> duration option"

record param_error =
  pe_code :: string
  pe_message :: string

definition invalid_parameter :: "string \<Rightarrow> param_error" where
  "invalid_parameter message = \<lparr>pe_code = ''invalid_parameter'', pe_message = message\<rparr>"

subsection \<open>The JSON API\<close>

definition parse_rfc3339_param :: "time_lib \<Rightarrow> url_values \<Rightarrow> string \<Rightarrow> param_error + instant option" where
  "parse_rfc3339_param lib q key =
     (let v = q_get q key in
      if v = [] then Inr None
      else case tl_rfc3339 lib v of
          None \<Rightarrow> Inl (invalid_parameter (key @ '' must be RFC3339 format''))
        | Some t \<Rightarrow> Inr (Some t))"

definition parse_around_window :: "time_lib \<Rightarrow> url_values \<Rightarrow> list_params \<Rightarrow> param_error + list_params" where
  "parse_around_window lib q p =
     (let v = q_get q ''around'' in
      if v = [] then Inr p
      else case tl_rfc3339 lib v of
          None \<Rightarrow> Inl (invalid_parameter ''around must be RFC3339 format'')
        | Some t \<Rightarrow>
            (let window = (if q_get q ''window'' = [] then ''30m'' else q_get q ''window'') in
             case tl_duration lib window of
               None \<Rightarrow> Inl (invalid_parameter ''window must be a valid duration (e.g., 30m, 1h)'')
             | Some d \<Rightarrow> Inr (p\<lparr>lp_around := Some t, lp_window := Some d\<rparr>)))"

text \<open>The loop over the values; the map written so far is the accumulator.\<close>

fun tag_param_loop :: "string list \<Rightarrow> tag_map \<Rightarrow> param_error + tag_map" where
  "tag_param_loop [] tags = Inr tags"
| "tag_param_loop (tv # tvs) tags =
     (case cut CHR '':'' tv of (k, v, ok) \<Rightarrow>
        if \<not> ok \<or> k = [] then Inl (invalid_parameter ''tag must be in key:value format'')
        else tag_param_loop tvs (AList.update k v tags))"

definition parse_tag_params :: "string list \<Rightarrow> param_error + tag_map" where
  "parse_tag_params tag_values = tag_param_loop tag_values []"

definition parse_int_param :: "url_values \<Rightarrow> string \<Rightarrow> param_error + int" where
  "parse_int_param q key =
     (let v = q_get q key in
      if v = [] then Inr 0
      else case atoi v of
          None \<Rightarrow> Inl (invalid_parameter (key @ '' must be an integer''))
        | Some n \<Rightarrow> Inr n)"

definition parse_list_params :: "time_lib \<Rightarrow> url_values \<Rightarrow> param_error + list_params" where
  "parse_list_params lib q =
     (case parse_rfc3339_param lib q ''start_after'' of Inl err \<Rightarrow> Inl err | Inr after \<Rightarrow>
      case parse_rfc3339_param lib q ''start_before'' of Inl err \<Rightarrow> Inl err | Inr before \<Rightarrow>
      case parse_around_window lib q (zero_list_params\<lparr>lp_start_after := after, lp_start_before := before\<rparr>) of
        Inl err \<Rightarrow> Inl err | Inr p \<Rightarrow>
      case parse_tag_params (q_all q ''tag'') of Inl err \<Rightarrow> Inl err | Inr tags \<Rightarrow>
      case parse_int_param q ''limit'' of Inl err \<Rightarrow> Inl err | Inr limit \<Rightarrow>
      case parse_int_param q ''offset'' of Inl err \<Rightarrow> Inl err | Inr offset \<Rightarrow>
        Inr (p\<lparr>lp_user_name := q_get q ''user'', lp_event_type := q_get q ''type'',
               lp_top_level := q_get q ''top_level'' = ''true'', lp_alerted_only := q_get q ''alerted'' = ''true'',
               lp_tags := tags, lp_limit := limit, lp_offset := offset\<rparr>))"

definition normalize_current_values :: "string list \<Rightarrow> string list" where
  "normalize_current_values values = filter (\<lambda>v. v \<noteq> []) (map (\<lambda>v. to_lower (trim_space v)) values)"

definition parse_current_params :: "url_values \<Rightarrow> param_error + current_params" where
  "parse_current_params q =
     (let params = zero_current_params\<lparr>cp_for_team := trim_space (q_get q ''for_team''),
          cp_scopes := normalize_current_values (q_all q ''scope''),
          cp_severities := normalize_current_values (q_all q ''severity''),
          cp_event_type := trim_space (q_get q ''type'')\<rparr> in
      case parse_int_param q ''limit'' of Inl err \<Rightarrow> Inl err | Inr limit \<Rightarrow>
      case parse_int_param q ''offset'' of Inl err \<Rightarrow> Inl err | Inr offset \<Rightarrow>
        Inr (params\<lparr>cp_limit := limit, cp_offset := offset\<rparr>))"

subsection \<open>The dashboard\<close>

record dashboard_filters =
  df_view :: string
  df_team :: string
  df_range :: string
  df_start_after :: string
  df_start_before :: string
  df_event_type :: string
  df_user_name :: string
  df_alerted :: bool
  df_tags :: "string list"
  df_scopes :: "string list"
  df_severities :: "string list"

definition dashboard_view :: "url_values \<Rightarrow> string" where
  "dashboard_view q =
     (let view = q_get q ''view'' in
      if view \<in> {''current'', ''site'', ''history'', ''alerts''} then view
      else if view = [] then (if q_get q ''alerted'' = ''true'' then ''alerts'' else ''history'')
      else ''history'')"

definition minute :: duration where "minute = 60 * second"
definition hour :: duration where "hour = 60 * minute"

definition quick_ranges :: "string \<Rightarrow> duration option" where
  "quick_ranges = map_of [(''5m'', 5 * minute), (''30m'', 30 * minute), (''1h'', hour), (''24h'', 24 * hour)]"

definition parse_dashboard_range ::
  "time_lib \<Rightarrow> instant \<Rightarrow> url_values \<Rightarrow> list_params \<times> dashboard_filters \<Rightarrow> list_params \<times> dashboard_filters" where
  "parse_dashboard_range lib now q pf =
     (case pf of (params, filters) \<Rightarrow>
      (let range = (if q_get q ''range'' = [] then ''24h'' else q_get q ''range'');
           filters1 = filters\<lparr>df_range := range\<rparr> in
       case quick_ranges range of
         Some d \<Rightarrow> (params\<lparr>lp_start_after := Some (now - d)\<rparr>, filters1)
       | None \<Rightarrow>
           if range \<noteq> ''custom'' then (params, filters1)
           else
             (let after = q_get q ''start_after''; before = q_get q ''start_before'';
                  params1 = (case (if after = [] then None else tl_local lib after) of
                    None \<Rightarrow> params | Some t \<Rightarrow> params\<lparr>lp_start_after := Some t\<rparr>);
                  params2 = (case (if before = [] then None else tl_local lib before) of
                    None \<Rightarrow> params1 | Some t \<Rightarrow> params1\<lparr>lp_start_before := Some t\<rparr>)
              in (params2, filters1\<lparr>df_start_after := after, df_start_before := before\<rparr>))))"

definition well_formed_tag :: "string \<Rightarrow> bool" where
  "well_formed_tag tv = (case cut CHR '':'' tv of (k, v, ok) \<Rightarrow> ok \<and> k \<noteq> [])"

definition add_tag_value :: "string \<Rightarrow> tag_map \<Rightarrow> tag_map" where
  "add_tag_value tv tags = (case cut CHR '':'' tv of (k, v, ok) \<Rightarrow> AList.update k v tags)"

definition parse_dashboard_tags ::
  "url_values \<Rightarrow> list_params \<times> dashboard_filters \<Rightarrow> list_params \<times> dashboard_filters" where
  "parse_dashboard_tags q pf =
     (case pf of (params, filters) \<Rightarrow>
      (let accepted = filter well_formed_tag (q_all q ''tag''); tags = fold add_tag_value accepted [] in
       (if tags \<noteq> [] then params\<lparr>lp_tags := tags\<rparr> else params, filters\<lparr>df_tags := df_tags filters @ accepted\<rparr>)))"

definition parse_bounded_int :: "url_values \<Rightarrow> string \<Rightarrow> int \<Rightarrow> int \<Rightarrow> int" where
  "parse_bounded_int q key minimum fallback =
     (let v = q_get q key in
      if v = [] then fallback
      else case atoi v of None \<Rightarrow> fallback | Some n \<Rightarrow> if n < minimum then fallback else n)"

definition initial_filters :: "url_values \<Rightarrow> dashboard_filters" where
  "initial_filters q = \<lparr>df_view = dashboard_view q,
     df_team = (if trim_space (q_get q ''team'') = [] then trim_space (q_get q ''for_team'') else trim_space (q_get q ''team'')),
     df_range = [], df_start_after = [], df_start_before = [], df_event_type = [], df_user_name = [],
     df_alerted = False, df_tags = [], df_scopes = normalize_current_values (q_all q ''scope''),
     df_severities = normalize_current_values (q_all q ''severity'')\<rparr>"

definition is_history :: "dashboard_filters \<Rightarrow> bool" where
  "is_history filters = (df_view filters = ''history'' \<or> df_view filters = ''alerts'')"

definition apply_history_filters ::
  "url_values \<Rightarrow> list_params \<times> dashboard_filters \<Rightarrow> list_params \<times> dashboard_filters" where
  "apply_history_filters q pf =
     (case pf of (params, filters) \<Rightarrow>
      (let user = q_get q ''user'';
           pf1 = (if user = [] then (params, filters)
                  else (params\<lparr>lp_user_name := user\<rparr>, filters\<lparr>df_user_name := user\<rparr>));
           (params2, filters2) = parse_dashboard_tags q pf1;
           team = tag_get (lp_tags params2) ''team''
       in (params2, if team = [] then filters2 else filters2\<lparr>df_team := team\<rparr>)))"

text \<open>The two halves of \<^verbatim>\<open>parseDashboardRequest\<close>: what it selects and its page.\<close>

definition dashboard_selection :: "time_lib \<Rightarrow> instant \<Rightarrow> url_values \<Rightarrow> list_params \<times> dashboard_filters" where
  "dashboard_selection lib now q =
     (let filters0 = initial_filters q;
          history = is_history filters0;
          (params1, filters1) = (if history then parse_dashboard_range lib now q (zero_list_params\<lparr>lp_top_level := True\<rparr>, filters0)
                                 else (zero_list_params\<lparr>lp_top_level := True\<rparr>, filters0));
          (params2, filters2) = (if df_view filters0 = ''alerts'' then (params1\<lparr>lp_alerted_only := True\<rparr>, filters1\<lparr>df_alerted := True\<rparr>)
                                 else (params1, filters1));
          event_type = trim_space (q_get q ''type'');
          (params3, filters3) = (if event_type = [] then (params2, filters2)
                                 else (params2\<lparr>lp_event_type := event_type\<rparr>, filters2\<lparr>df_event_type := event_type\<rparr>))
      in (if history then apply_history_filters q (params3, filters3) else (params3, filters3)))"

definition parse_dashboard_request ::
  "time_lib \<Rightarrow> instant \<Rightarrow> url_values \<Rightarrow> list_params \<times> dashboard_filters" where
  "parse_dashboard_request lib now q = (case dashboard_selection lib now q of (params, filters) \<Rightarrow>
     (params\<lparr>lp_limit := parse_bounded_int q ''limit'' 1 dashboard_limit,
             lp_offset := parse_bounded_int q ''offset'' 0 0\<rparr>, filters))"

subsection \<open>Forms\<close>

definition max_form_bytes :: nat where "max_form_bytes = 8 * 1024"
definition max_record_form_bytes :: nat where "max_record_form_bytes = 1024 * 1024"

definition invalid_link_message :: string where
  "invalid_link_message = ''Link must be an absolute HTTP or HTTPS URL without credentials.''"

text \<open>None when the form was parsed, else the response already written.\<close>

definition parse_bounded_post_form_limit :: "http_request \<Rightarrow> nat \<Rightarrow> 'p response option" where
  "parse_bounded_post_form_limit rq limit =
     (if limit < rq_body_bytes rq then Some (http_error ''request too large'' 413)
      else case rq_post_form rq of None \<Rightarrow> Some (http_error ''invalid form data'' 400) | Some _ \<Rightarrow> None)"

definition parse_bounded_post_form :: "http_request \<Rightarrow> 'p response option" where
  "parse_bounded_post_form rq = parse_bounded_post_form_limit rq max_form_bytes"

definition link_row :: "string list \<Rightarrow> nat \<Rightarrow> string \<Rightarrow> event_link option" where
  "link_row labels i raw_url =
     (let link_url = trim_space raw_url; label = (if i < length labels then trim_space (labels ! i) else []) in
      if link_url = [] \<and> label = [] then None else Some \<lparr>el_label = label, el_url = link_url\<rparr>)"

definition parse_link_form :: "url_values \<Rightarrow> event_link list" where
  "parse_link_form form =
     List.map_filter (\<lambda>(i, raw_url). link_row (q_all form ''link_label'') i raw_url)
       (enumerate 0 (q_all form ''link_url''))"

subsection \<open>What the parsers guarantee\<close>

lemma tag_param_loop_distinct:
  "tag_param_loop tvs acc = Inr tags \<Longrightarrow> distinct (map fst acc) \<Longrightarrow> distinct (map fst tags)"
  by (induction tvs arbitrary: acc) (auto simp: distinct_update split: prod.splits if_splits)

lemma parse_tag_params_distinct: "parse_tag_params tvs = Inr tags \<Longrightarrow> distinct (map fst tags)"
  using tag_param_loop_distinct [of tvs "[]" tags] by (simp add: parse_tag_params_def)

lemma tag_param_loop_iff:
  "(\<exists>tags. tag_param_loop tvs acc = Inr tags) \<longleftrightarrow> list_all well_formed_tag tvs"
  by (induction tvs arbitrary: acc) (auto simp: well_formed_tag_def split: prod.splits)

lemma tag_param_loop_eq: "list_all well_formed_tag tvs \<Longrightarrow> tag_param_loop tvs acc = Inr (fold add_tag_value tvs acc)"
  by (induction tvs arbitrary: acc) (auto simp: well_formed_tag_def add_tag_value_def split: prod.splits)

lemma parse_int_param_range: "parse_int_param q key = Inr n \<Longrightarrow> min_int64 \<le> n \<and> n \<le> max_int64"
  by (auto simp: parse_int_param_def Let_def min_int64_def max_int64_def dest: atoi_range split: option.splits if_splits)

text \<open>Everything the API parser accepts is a filter the store's contract covers.\<close>

lemma parse_around_window_tags: "parse_around_window lib q p = Inr p' \<Longrightarrow> lp_tags p' = lp_tags p"
  by (auto simp: parse_around_window_def Let_def split: if_splits option.splits)

lemma parse_list_params_ok:
  assumes "parse_list_params lib q = Inr p"
  shows "distinct (map fst (lp_tags p)) \<and> min_int64 \<le> lp_offset p \<and> lp_offset p \<le> max_int64
    \<and> (lp_window p = None \<longleftrightarrow> lp_around p = None)"
proof -
  have "lp_window p' = None \<longleftrightarrow> lp_around p' = None" if "parse_around_window lib q p0 = Inr p'"
    "lp_window p0 = None" "lp_around p0 = None" for p0 p'
    using that by (auto simp: parse_around_window_def Let_def split: if_splits option.splits)
  with assms show ?thesis
    by (auto simp: parse_list_params_def zero_list_params_def dest: parse_tag_params_distinct parse_int_param_range
        split: sum.splits)
qed

lemma fold_add_tag_distinct: "distinct (map fst acc) \<Longrightarrow> distinct (map fst (fold add_tag_value tvs acc))"
  by (induction tvs arbitrary: acc) (auto simp: add_tag_value_def distinct_update split: prod.splits)

lemma parse_bounded_int_min: "minimum \<le> fallback \<Longrightarrow> minimum \<le> parse_bounded_int q key minimum fallback"
  by (simp add: parse_bounded_int_def Let_def split: option.splits)

lemma parse_bounded_int_max:
  "min_int64 \<le> fallback \<Longrightarrow> fallback \<le> max_int64 \<Longrightarrow> parse_bounded_int q key minimum fallback \<le> max_int64"
  by (auto simp: parse_bounded_int_def Let_def dest: atoi_range split: option.splits)

end
