(* ===== verification/Pages.thy ===== *)
theory Pages
  imports Service Params
begin

section \<open>What the handlers send: JSON values and page data\<close>

text \<open>
  The data each template of the web interface is executed with, and the values the JSON API encodes,
  as one type of payloads. Executing a template and encoding JSON are not modelled: the response
  carries the data. \<open>handle_result\<close> is Go's call followed by \<^verbatim>\<open>if err != nil\<close>.
\<close>

record dashboard_event =
  de_event :: change_event
  de_starred :: bool
  de_alerted :: bool

record dashboard_data =
  dd_refresh_sec :: int
  dd_user_name :: string
  dd_logout_csrf :: string
  dd_csrf_token :: string
  dd_events :: "dashboard_event list"
  dd_banner_events :: "change_event list"
  dd_banner_total :: int
  dd_banner_url :: string
  dd_filters :: dashboard_filters
  dd_total_count :: int
  dd_limit :: int
  dd_offset :: int
  dd_has_prev :: bool
  dd_has_next :: bool
  dd_prev_url :: string
  dd_next_url :: string
  dd_offset_start :: int
  dd_offset_end :: int

record detail_data =
  dt_user_name :: string
  dt_logout_csrf :: string
  dt_csrf_token :: string
  dt_event :: change_event
  dt_annotations :: event_annotations
  dt_links :: "event_link list"
  dt_activity :: "change_event list"
  dt_operation_state :: string
  dt_action_error :: string
  dt_pending_links :: "event_link list"

record record_change_form =
  rf_event_type :: string
  rf_description :: string
  rf_long_description :: string
  rf_external_id :: string
  rf_tags :: string
  rf_link_label :: string
  rf_link_url :: string

record record_change_data =
  rd_user_name :: string
  rd_logout_csrf :: string
  rd_csrf_token :: string
  rd_form :: record_change_form
  rd_error :: string

record human_login_data =
  hl_provider_label :: string
  hl_button_label :: string
  hl_return_to :: string

datatype payload =
    HealthBody string string
  | EventBody "change_event option"
  | EventsBody "change_event list"
  | ListBody list_result
  | AnnotationsBody event_annotations
  | DashboardPage dashboard_data
  | DetailPage detail_data
  | RecordPage record_change_data
  | TokenLoginPage string
  | HumanLoginPage human_login_data

text \<open>The two parsers of package net/url the program calls: \<^verbatim>\<open>url.Parse\<close> and \<^verbatim>\<open>url.ParseRequestURI\<close>.\<close>

record url_lib =
  ul_parse :: url_parser
  ul_request_uri :: url_parser

definition handle_result ::
  "('s, 'a) op \<Rightarrow> (go_error \<Rightarrow> 's \<Rightarrow> payload response \<times> 's) \<Rightarrow> ('a \<Rightarrow> 's \<Rightarrow> payload response \<times> 's)
    \<Rightarrow> 's \<Rightarrow> payload response \<times> 's" where
  "handle_result m failed succeeded s = (case m s of (Inl err, s') \<Rightarrow> failed err s' | (Inr x, s') \<Rightarrow> succeeded x s')"

text \<open>
  The same where the call may not return; None is a request that is never answered. \<open>answer\<close> lifts a
  handler that always answers.
\<close>

type_synonym 's answer = "'s \<Rightarrow> (payload response \<times> 's) option"

definition answer :: "('s \<Rightarrow> payload response \<times> 's) \<Rightarrow> 's answer" where
  "answer h s = Some (h s)"

definition handle_activity ::
  "('s \<Rightarrow> ((go_error + 'a) \<times> 's) option) \<Rightarrow> (go_error \<Rightarrow> 's answer) \<Rightarrow> ('a \<Rightarrow> 's answer) \<Rightarrow> 's answer" where
  "handle_activity m failed succeeded s = (case m s of
      None \<Rightarrow> None | Some (Inl err, s') \<Rightarrow> failed err s' | Some (Inr x, s') \<Rightarrow> succeeded x s')"

definition then_answer :: "('s, 'a) op \<Rightarrow> (go_error \<Rightarrow> 's answer) \<Rightarrow> ('a \<Rightarrow> 's answer) \<Rightarrow> 's answer" where
  "then_answer m failed succeeded s = (case m s of (Inl err, s') \<Rightarrow> failed err s' | (Inr x, s') \<Rightarrow> succeeded x s')"

definition internal_error :: "payload response" where
  "internal_error = http_error ''Internal server error'' 500"

text \<open>\<^verbatim>\<open>err.Error()\<close> of the service's errors.\<close>

definition error_text :: "go_error \<Rightarrow> string" where
  "error_text err = (case err of
      ErrNotFound \<Rightarrow> ''not found''
    | ErrDuplicate _ \<Rightarrow> ''duplicate external_id''
    | ErrUserNameRequired \<Rightarrow> ''user_name is required''
    | ErrEventTypeRequired \<Rightarrow> ''event_type is required''
    | ErrInvalidTags message \<Rightarrow> message
    | ErrInvalidLink \<Rightarrow> ''links must have safe labels and absolute http or https URLs without credentials''
    | ErrLinksRequired \<Rightarrow> ''at least one link is required''
    | ErrEventNotFound \<Rightarrow> ''event not found''
    | ErrParentNotFound \<Rightarrow> ''parent event not found''
    | ErrOperationNotClosable \<Rightarrow> ''event is not a correlated operation start''
    | ErrOperationClosed \<Rightarrow> ''operation is already closed''
    | ErrOther message \<Rightarrow> message)"

text \<open>Go's \<^verbatim>\<open>int\<close> is 64 bits wide: a sum that leaves the range wraps around.\<close>

definition wrap_int64 :: "int \<Rightarrow> int" where
  "wrap_int64 n = (n + 9223372036854775808) mod 18446744073709551616 - 9223372036854775808"

lemma wrap_int64_id: "min_int64 \<le> n \<Longrightarrow> n \<le> max_int64 \<Longrightarrow> wrap_int64 n = n"
  by (simp add: wrap_int64_def min_int64_def max_int64_def)

lemma wrap_int64_range: "min_int64 \<le> wrap_int64 n \<and> wrap_int64 n \<le> max_int64"
proof -
  have "0 \<le> (n + 9223372036854775808) mod 18446744073709551616" by simp
  moreover have "(n + 9223372036854775808) mod 18446744073709551616 < 18446744073709551616" by simp
  ultimately show ?thesis unfolding wrap_int64_def min_int64_def max_int64_def by linarith
qed

end
