(* ===== verification/Api.thy ===== *)
theory Api
  imports Pages
begin

section \<open>The JSON API: internal/handler/api.go\<close>

text \<open>
  One definition per handler of \<^verbatim>\<open>APIHandler\<close>, over any store behind the service. What
  \<^verbatim>\<open>json.Decoder\<close> makes of the bounded body is an argument of the handlers that read one:
  too large, invalid, or a value, with whether the input ends after it. The identity of a write is
  that of the authenticated principal when the middleware stored one.
\<close>

datatype 'a json_outcome = JsonTooLarge | JsonInvalid | JsonValue 'a bool

definition max_json_bytes :: nat where "max_json_bytes = 1024 * 1024"

text \<open>The decoders of the three request types, given the limit of \<^verbatim>\<open>MaxBytesReader\<close>.\<close>

record api_codec =
  ap_create :: "nat \<Rightarrow> http_request \<Rightarrow> create_request json_outcome"
  ap_add_links :: "nat \<Rightarrow> http_request \<Rightarrow> (string \<times> event_link list) json_outcome"
  ap_close :: "nat \<Rightarrow> http_request \<Rightarrow> (string \<times> string) json_outcome"

definition body_too_large :: "payload response" where
  "body_too_large = json_error 413 ''body_too_large'' ''request body exceeds 1MB limit''"

definition invalid_body :: "string \<Rightarrow> payload response" where
  "invalid_body message = json_error 400 ''invalid_body'' message"

definition decode_json_request :: "'a json_outcome \<Rightarrow> payload response + 'a" where
  "decode_json_request outcome = (case outcome of
      JsonTooLarge \<Rightarrow> Inl body_too_large
    | JsonInvalid \<Rightarrow> Inl (invalid_body ''invalid JSON request body'')
    | JsonValue x at_end \<Rightarrow> if at_end then Inr x else Inl (invalid_body ''request body must contain one JSON value''))"

definition api_internal_error :: "payload response" where
  "api_internal_error = json_error 500 ''internal_error'' ''an internal error occurred''"

definition map_service_error :: "go_error \<Rightarrow> payload response" where
  "map_service_error err = (case err of
      ErrUserNameRequired \<Rightarrow> json_error 400 ''validation_error'' ''user_name is required''
    | ErrEventTypeRequired \<Rightarrow> json_error 400 ''validation_error'' ''event_type is required''
    | ErrInvalidTags _ \<Rightarrow> json_error 400 ''validation_error'' (error_text err)
    | ErrInvalidLink \<Rightarrow> json_error 400 ''validation_error'' (error_text err)
    | ErrLinksRequired \<Rightarrow> json_error 400 ''validation_error'' (error_text err)
    | ErrEventNotFound \<Rightarrow> json_error 404 ''not_found'' ''event not found''
    | ErrParentNotFound \<Rightarrow> json_error 400 ''validation_error'' ''parent event not found''
    | ErrOperationNotClosable \<Rightarrow> json_error 400 ''validation_error'' (error_text err)
    | ErrOperationClosed \<Rightarrow> json_error 409 ''operation_closed'' (error_text err)
    | _ \<Rightarrow> api_internal_error)"

definition service_failed :: "go_error \<Rightarrow> 's \<Rightarrow> payload response \<times> 's" where
  "service_failed err = reply (map_service_error err)"

definition authenticated_api_identity :: "request_context \<Rightarrow> user_identity option" where
  "authenticated_api_identity cx = map_option (\<lambda>p. \<lparr>ui_name = pr_user_name p, ui_provider = pr_provider p,
     ui_subject = pr_subject p\<rparr>) (api_principal_from_context cx)"

subsection \<open>Health\<close>

definition api_liveness :: "('s, payload) handler" where
  "api_liveness cx rq = reply (respond 200 (HealthBody ''ok'' []))"

text \<open>\<open>ping\<close> is the database's answer to \<^verbatim>\<open>Ping\<close>.\<close>

definition api_readiness :: "('s \<Rightarrow> bool) \<Rightarrow> ('s, payload) handler" where
  "api_readiness ping cx rq s =
     (if ping s then (respond 200 (HealthBody ''ok'' []), s)
      else (respond 503 (HealthBody ''unhealthy'' ''database unreachable''), s))"

definition api_health_check :: "('s \<Rightarrow> bool) \<Rightarrow> ('s, payload) handler" where
  "api_health_check ping = api_readiness ping"

subsection \<open>Writes\<close>

definition attribute_request :: "request_context \<Rightarrow> create_request \<Rightarrow> create_request" where
  "attribute_request cx req = (case authenticated_api_identity cx of
      None \<Rightarrow> req
    | Some identity \<Rightarrow> req\<lparr>cr_user_name := ui_name identity, cr_user_provider := ui_provider identity,
        cr_user_subject := ui_subject identity\<rparr>)"

definition created_event :: "change_event \<Rightarrow> payload response" where
  "created_event e = (respond 201 (EventBody (Some e)))\<lparr>rs_location := ''/api/v1/events/'' @ ev_id e\<rparr>"

definition create_failed :: "go_error \<Rightarrow> payload response" where
  "create_failed err = (case err of ErrDuplicate existing \<Rightarrow> respond 200 (EventBody existing) | _ \<Rightarrow> map_service_error err)"

definition api_create_event ::
  "api_codec \<Rightarrow> url_parser \<Rightarrow> 's change_store \<Rightarrow> env \<Rightarrow> ('s, payload) handler" where
  "api_create_event codec parse S en cx rq = (case ap_create codec max_json_bytes rq of
      JsonTooLarge \<Rightarrow> reply body_too_large
    | JsonInvalid \<Rightarrow> reply (invalid_body ''invalid JSON request body'')
    | JsonValue req _ \<Rightarrow>
        handle_result (svc_create parse S en (attribute_request cx req))
          (\<lambda>err. reply (create_failed err)) (\<lambda>e. reply (created_event e)))"

definition api_add_event_links ::
  "api_codec \<Rightarrow> url_parser \<Rightarrow> 's change_store \<Rightarrow> env \<Rightarrow> ('s, payload) handler" where
  "api_add_event_links codec parse S en cx rq = (case decode_json_request (ap_add_links codec max_json_bytes rq) of
      Inl r \<Rightarrow> reply r
    | Inr (user_name, links) \<Rightarrow>
        handle_result (case authenticated_api_identity cx of
            Some identity \<Rightarrow> svc_add_links_as parse S en (rq_id rq) identity links
          | None \<Rightarrow> svc_add_links parse S en (rq_id rq) user_name links)
        service_failed (\<lambda>e. reply (respond 201 (EventBody (Some e)))))"

definition api_toggle_star :: "'s change_store \<Rightarrow> env \<Rightarrow> ('s, payload) handler" where
  "api_toggle_star S en cx rq =
     handle_result (case authenticated_api_identity cx of
         Some identity \<Rightarrow> svc_toggle_star_as S en (rq_id rq) identity
       | None \<Rightarrow> svc_toggle_star S en (rq_id rq) ''api'')
     service_failed (\<lambda>e. reply (respond 201 (EventBody (Some e))))"

definition api_toggle_alert :: "'s change_store \<Rightarrow> env \<Rightarrow> ('s, payload) handler" where
  "api_toggle_alert S en cx rq =
     handle_result (case authenticated_api_identity cx of
         Some identity \<Rightarrow> svc_toggle_alert_as S en (rq_id rq) identity
       | None \<Rightarrow> svc_toggle_alert S en (rq_id rq) ''api'')
     service_failed (\<lambda>e. reply (respond 201 (EventBody (Some e))))"

definition api_close_operation ::
  "api_codec \<Rightarrow> url_parser \<Rightarrow> 's change_store \<Rightarrow> env \<Rightarrow> ('s, payload) handler" where
  "api_close_operation codec parse S en cx rq = (case decode_json_request (ap_close codec max_json_bytes rq) of
      Inl r \<Rightarrow> reply r
    | Inr (user_name, description) \<Rightarrow>
        handle_result (case authenticated_api_identity cx of
            Some identity \<Rightarrow> svc_close_operation_as parse S en (rq_id rq) identity description
          | None \<Rightarrow> svc_close_operation parse S en (rq_id rq) user_name description)
        service_failed (\<lambda>e. reply (respond 201 (EventBody e))))"

subsection \<open>Reads\<close>

definition api_get_event :: "'s change_store \<Rightarrow> ('s, payload) handler" where
  "api_get_event S cx rq = handle_result (svc_get_by_id S (rq_id rq)) service_failed
     (\<lambda>e. reply (respond 200 (EventBody (Some e))))"

definition api_get_event_annotations :: "'s change_store \<Rightarrow> ('s, payload) handler" where
  "api_get_event_annotations S cx rq = handle_result (svc_get_annotations S (rq_id rq)) service_failed
     (\<lambda>a. reply (respond 200 (AnnotationsBody a)))"

definition api_get_event_activity :: "'s change_store \<Rightarrow> request_context \<Rightarrow> http_request \<Rightarrow> 's answer" where
  "api_get_event_activity S cx rq = handle_activity (svc_get_activity S (rq_id rq)) (\<lambda>err. answer (service_failed err))
     (\<lambda>activity. answer (reply (respond 200 (EventsBody activity))))"

definition api_list_events :: "time_lib \<Rightarrow> 's change_store \<Rightarrow> ('s, payload) handler" where
  "api_list_events lib S cx rq = (case parse_list_params lib (rq_query rq) of
      Inl err \<Rightarrow> reply (json_error 400 (pe_code err) (pe_message err))
    | Inr params \<Rightarrow> handle_result (svc_list S params) (\<lambda>err. reply api_internal_error)
        (\<lambda>result. reply (respond 200 (ListBody result))))"

definition api_list_current :: "'s change_store \<Rightarrow> ('s, payload) handler" where
  "api_list_current S cx rq = (case parse_current_params (rq_query rq) of
      Inl err \<Rightarrow> reply (json_error 400 (pe_code err) (pe_message err))
    | Inr params \<Rightarrow> handle_result (svc_list_current S params) (\<lambda>err. reply api_internal_error)
        (\<lambda>result. reply (respond 200 (ListBody result))))"

subsection \<open>The status codes\<close>

lemma handle_result_Inr: "m s = (Inr x, s') \<Longrightarrow> handle_result m failed succeeded s = succeeded x s'"
  by (simp add: handle_result_def)

lemma handle_result_Inl: "m s = (Inl err, s') \<Longrightarrow> handle_result m failed succeeded s = failed err s'"
  by (simp add: handle_result_def)

lemmas handler_simps = reply_def respond_def json_error_def handle_result_def service_failed_def

lemma json_error_status [simp]: "rs_status (json_error status code message) = status"
  by (simp add: json_error_def)

lemma respond_status [simp]: "rs_status (respond status p) = status"
  by (simp add: respond_def)

lemma api_internal_error_status [simp]: "rs_status api_internal_error = 500"
  by (simp add: api_internal_error_def)

text \<open>A client error is answered with 4xx, every other failure with 500, whose text says nothing of it.\<close>

definition is_client_error :: "go_error \<Rightarrow> bool" where
  "is_client_error err = (case err of ErrNotFound \<Rightarrow> False | ErrDuplicate _ \<Rightarrow> False | ErrOther _ \<Rightarrow> False | _ \<Rightarrow> True)"

lemma map_service_error_status:
  "rs_status (map_service_error err) \<in> {400, 404, 409} \<longleftrightarrow> is_client_error err"
  "\<not> is_client_error err \<Longrightarrow> map_service_error err = api_internal_error"
  by (cases err; simp add: map_service_error_def is_client_error_def api_internal_error_def)+

end
