(* ===== verification/Dashboard.thy ===== *)
theory Dashboard
  imports Api
begin

section \<open>The dashboard pages: internal/handler/dashboard.go\<close>

text \<open>
  The list page with its banner, filter links and pagination, and the detail page. Links are built
  as query values and encoded; the values are separate definitions, because what a link means is
  what the same handler reads from them. Go's \<^verbatim>\<open>int\<close> arithmetic on the offset wraps around.
\<close>

subsection \<open>Who is signed in\<close>

definition human_session_nonce :: "request_context \<Rightarrow> string" where
  "human_session_nonce cx = (case human_session_from_context cx of None \<Rightarrow> [] | Some session \<Rightarrow> hs_nonce session)"

definition human_user_name :: "request_context \<Rightarrow> string" where
  "human_user_name cx = (case human_session_from_context cx of None \<Rightarrow> [] | Some session \<Rightarrow> pr_user_name (hs_principal session))"

definition human_identity :: "request_context \<Rightarrow> user_identity option" where
  "human_identity cx = (case human_session_from_context cx of
      None \<Rightarrow> None
    | Some session \<Rightarrow>
        (if principal_valid (hs_principal session)
         then Some \<lparr>ui_name = pr_user_name (hs_principal session), ui_provider = pr_provider (hs_principal session),
                    ui_subject = pr_subject (hs_principal session)\<rparr>
         else None))"

subsection \<open>Links\<close>

definition set_nonempty :: "string \<Rightarrow> string \<Rightarrow> url_values \<Rightarrow> url_values" where
  "set_nonempty k v q = (if v = [] then q else q_set k v q)"

definition dashboard_url :: "string \<Rightarrow> string \<Rightarrow> string \<Rightarrow> string" where
  "dashboard_url view team range_value =
     ''/?'' @ encode_values (set_nonempty ''range'' range_value (set_nonempty ''team'' team (q_set ''view'' view [])))"

definition dashboard_query_url :: "url_values \<Rightarrow> string" where
  "dashboard_query_url q = (if q = [] then ''/'' else ''/?'' @ encode_values q)"

text \<open>The small functions the templates are given.\<close>

definition dashboard_view_url :: "string \<Rightarrow> string \<Rightarrow> string" where
  "dashboard_view_url view team = dashboard_url view team []"

definition tag_value :: "tag_map \<Rightarrow> string \<Rightarrow> string" where
  "tag_value tags key = tag_get tags key"

definition has_value :: "string list \<Rightarrow> string \<Rightarrow> bool" where
  "has_value xs x = list_ex (\<lambda>y. y = x) xs"

definition tag_filter_url :: "string \<Rightarrow> string \<Rightarrow> string" where
  "tag_filter_url key val = dashboard_query_url (q_set ''tag'' (key @ '':'' @ val) [])"

definition dashboard_filter_query :: "dashboard_filters \<Rightarrow> url_values" where
  "dashboard_filter_query filters =
     (let q1 = set_nonempty ''view'' (df_view filters) [];
          q2 = set_nonempty ''team'' (df_team filters) q1;
          q3 = set_nonempty ''range'' (df_range filters) q2;
          q4 = set_nonempty ''start_after'' (df_start_after filters) q3;
          q5 = set_nonempty ''start_before'' (df_start_before filters) q4;
          q6 = set_nonempty ''type'' (df_event_type filters) q5;
          q7 = set_nonempty ''user'' (df_user_name filters) q6;
          q8 = fold (q_add ''scope'') (df_scopes filters) q7;
          q9 = fold (q_add ''severity'') (df_severities filters) q8
      in fold (q_add ''tag'') (df_tags filters) q9)"

definition other_key_tags :: "string \<Rightarrow> string list \<Rightarrow> string list" where
  "other_key_tags key tags = filter (\<lambda>tag. case cut CHR '':'' tag of (k, _, ok) \<Rightarrow> ok \<and> k \<noteq> key) tags"

definition tag_filter_query :: "dashboard_filters \<Rightarrow> string \<Rightarrow> string \<Rightarrow> url_values" where
  "tag_filter_query filters key val =
     (let q1 = q_del ''tag'' (dashboard_filter_query filters);
          q2 = fold (q_add ''tag'') (other_key_tags key (df_tags filters)) q1;
          q3 = q_add ''tag'' (key @ '':'' @ val) q2
      in if key = ''team'' then q_set ''team'' val q3 else q3)"

definition dashboard_tag_filter_url :: "dashboard_filters \<Rightarrow> string \<Rightarrow> string \<Rightarrow> string" where
  "dashboard_tag_filter_url filters key val = dashboard_query_url (tag_filter_query filters key val)"

definition tag_remove_query :: "dashboard_filters \<Rightarrow> string \<Rightarrow> url_values" where
  "tag_remove_query filters remove_tag =
     (let q1 = q_del ''tag'' (dashboard_filter_query filters);
          q2 = fold (q_add ''tag'') (filter (\<lambda>tag. tag \<noteq> remove_tag) (df_tags filters)) q1
      in case cut CHR '':'' remove_tag of (key, val, ok) \<Rightarrow>
           if ok \<and> key = ''team'' \<and> df_team filters = val then q_del ''team'' q2 else q2)"

definition dashboard_tag_remove_url :: "dashboard_filters \<Rightarrow> string \<Rightarrow> string" where
  "dashboard_tag_remove_url filters remove_tag = dashboard_query_url (tag_remove_query filters remove_tag)"

definition current_url :: "current_params \<Rightarrow> string" where
  "current_url params =
     (let q1 = set_nonempty ''team'' (cp_for_team params) [(''view'', [''current''])];
          q2 = fold (q_add ''scope'') (cp_scopes params) q1;
          q3 = fold (q_add ''severity'') (cp_severities params) q2
      in ''/?'' @ encode_values (set_nonempty ''type'' (cp_event_type params) q3))"

definition current_preset_url :: "string \<Rightarrow> string \<Rightarrow> string" where
  "current_preset_url preset team =
     (let params = zero_current_params\<lparr>cp_for_team := team\<rparr> in
      current_url
       (if preset = ''high-severity'' then params\<lparr>cp_severities := [''sev0'', ''sev1'']\<rparr>
        else if preset = ''site'' then params\<lparr>cp_scopes := [''site'']\<rparr>
        else if preset = ''maintenance'' then params\<lparr>cp_event_type := ''maintenance''\<rparr> else params))"

definition pagination_query :: "url_values \<Rightarrow> int \<Rightarrow> int \<Rightarrow> url_values" where
  "pagination_query query new_offset limit =
     q_set ''limit'' (itoa limit) (q_set ''offset'' (itoa (if new_offset < 0 then 0 else new_offset))
       (filter (\<lambda>(key, vals). \<not> (key = ''offset'' \<or> key = ''limit'')) query))"

definition pagination_url :: "http_request \<Rightarrow> int \<Rightarrow> int \<Rightarrow> string" where
  "pagination_url rq new_offset limit = ''/?'' @ encode_values (pagination_query (rq_query rq) new_offset limit)"

subsection \<open>Template functions\<close>

definition tag_line :: "string \<times> string \<Rightarrow> string" where
  "tag_line kv = fst kv @ ''='' @ snd kv"

definition format_tags :: "tag_map \<Rightarrow> string list" where
  "format_tags tags = sort (map tag_line tags)"

text \<open>\<^verbatim>\<open>time.Since\<close> saturates at the ends of the 64-bit range.\<close>

definition time_since :: "instant \<Rightarrow> instant \<Rightarrow> duration" where
  "time_since now t = max min_int64 (min max_int64 (now - t))"

definition format_elapsed :: "instant \<Rightarrow> instant \<Rightarrow> string" where
  "format_elapsed now timestamp =
     (let elapsed = time_since now timestamp in
      if elapsed < minute then ''<1m''
      else
        (let d = elapsed div minute * minute; days = d div (24 * hour);
             hours = d mod (24 * hour) div hour; minutes = d mod hour div minute in
         if 0 < days then itoa days @ ''d '' @ itoa hours @ ''h''
         else if 0 < hours then itoa hours @ ''h '' @ itoa minutes @ ''m''
         else itoa minutes @ ''m''))"

subsection \<open>The list page\<close>

definition dashboard_banner_limit :: int where "dashboard_banner_limit = 20"

definition list_dashboard_events ::
  "'s change_store \<Rightarrow> list_params \<Rightarrow> dashboard_filters \<Rightarrow> ('s, list_result) op" where
  "list_dashboard_events S params filters =
     (if df_view filters = ''current'' then
        svc_list_current S (zero_current_params\<lparr>cp_for_team := df_team filters, cp_scopes := df_scopes filters,
          cp_severities := df_severities filters, cp_event_type := lp_event_type params,
          cp_limit := lp_limit params, cp_offset := lp_offset params\<rparr>)
      else if df_view filters = ''site'' then
        svc_list_current S (zero_current_params\<lparr>cp_scopes := [''site''], cp_severities := df_severities filters,
          cp_event_type := lp_event_type params, cp_limit := lp_limit params, cp_offset := lp_offset params\<rparr>)
      else svc_list S params)"

definition high_visibility_params :: "dashboard_filters \<Rightarrow> current_params" where
  "high_visibility_params filters = zero_current_params\<lparr>
     cp_for_team := df_team filters,
     cp_scopes := (if df_view filters = ''site'' then [''site''] else df_scopes filters),
     cp_severities := (if df_severities filters = [] then [''sev0'', ''sev1''] else df_severities filters),
     cp_event_type := df_event_type filters, cp_limit := dashboard_banner_limit\<rparr>"

definition fetch_annotations :: "'s change_store \<Rightarrow> change_event list \<Rightarrow> ('s, string \<rightharpoonup> event_annotations) op" where
  "fetch_annotations S events =
     (if events = [] then ret Map.empty else svc_get_annotations_batch S (map ev_id events))"

definition build_dashboard_events :: "change_event list \<Rightarrow> (string \<rightharpoonup> event_annotations) \<Rightarrow> dashboard_event list" where
  "build_dashboard_events events annotations = map (\<lambda>e. case annotations (ev_id e) of
      None \<Rightarrow> \<lparr>de_event = e, de_starred = False, de_alerted = False\<rparr>
    | Some a \<Rightarrow> \<lparr>de_event = e, de_starred = an_starred a, de_alerted = an_alerted a\<rparr>) events"

definition page_data ::
  "int \<Rightarrow> string \<Rightarrow> request_context \<Rightarrow> http_request \<Rightarrow> dashboard_filters \<Rightarrow> list_result \<Rightarrow> list_result
    \<Rightarrow> (string \<rightharpoonup> event_annotations) \<Rightarrow> dashboard_data" where
  "page_data refresh_sec secret cx rq filters result banner annotations =
     (let offset = lr_offset result; limit = lr_limit result; total = lr_total_count result;
          token = generate_csrf_token secret (human_session_nonce cx) in
      \<lparr>dd_refresh_sec = refresh_sec, dd_user_name = human_user_name cx, dd_logout_csrf = token, dd_csrf_token = token,
       dd_events = build_dashboard_events (lr_events result) annotations,
       dd_banner_events = lr_events banner, dd_banner_total = lr_total_count banner,
       dd_banner_url = current_url (high_visibility_params filters), dd_filters = filters,
       dd_total_count = total, dd_limit = limit, dd_offset = offset,
       dd_has_prev = (0 < offset), dd_has_next = (wrap_int64 (offset + limit) < total),
       dd_prev_url = pagination_url rq (wrap_int64 (offset - limit)) limit,
       dd_next_url = pagination_url rq (wrap_int64 (offset + limit)) limit,
       dd_offset_start = (if total = 0 then 0 else wrap_int64 (offset + 1)),
       dd_offset_end = wrap_int64 (offset + int (length (lr_events result)))\<rparr>)"

definition dashboard ::
  "time_lib \<Rightarrow> 's change_store \<Rightarrow> int \<Rightarrow> string \<Rightarrow> instant \<Rightarrow> ('s, payload) handler" where
  "dashboard lib S refresh_sec secret now cx rq =
     (case parse_dashboard_request lib now (rq_query rq) of (params, filters) \<Rightarrow>
      handle_result (list_dashboard_events S params filters) (\<lambda>_. reply internal_error) (\<lambda>result.
      handle_result (svc_list_current S (high_visibility_params filters)) (\<lambda>_. reply internal_error) (\<lambda>banner.
      handle_result (fetch_annotations S (lr_events result)) (\<lambda>_. reply internal_error) (\<lambda>annotations.
        reply (respond 200 (DashboardPage (page_data refresh_sec secret cx rq filters result banner annotations)))))))"

subsection \<open>The detail page\<close>

definition event_not_found :: "payload response" where
  "event_not_found = http_error ''Event not found'' 404"

definition detail_data_of ::
  "string \<Rightarrow> request_context \<Rightarrow> change_event \<Rightarrow> event_annotations \<Rightarrow> change_event list \<Rightarrow> string \<Rightarrow> string
    \<Rightarrow> event_link list \<Rightarrow> detail_data" where
  "detail_data_of secret cx event annotations activity state action_error pending_links =
     (let token = generate_csrf_token secret (human_session_nonce cx) in
      \<lparr>dt_user_name = human_user_name cx, dt_logout_csrf = token, dt_csrf_token = token, dt_event = event,
       dt_annotations = annotations, dt_links = ev_links event @ concat (map ev_links activity),
       dt_activity = activity, dt_operation_state = state, dt_action_error = action_error,
       dt_pending_links = pending_links\<rparr>)"

definition render_detail ::
  "'s change_store \<Rightarrow> string \<Rightarrow> nat \<Rightarrow> string \<Rightarrow> event_link list \<Rightarrow> request_context \<Rightarrow> http_request \<Rightarrow> 's answer" where
  "render_detail S secret status action_error pending_links cx rq =
     then_answer (svc_get_by_id S (rq_id rq))
       (\<lambda>err. answer (reply (if err = ErrEventNotFound then event_not_found else internal_error))) (\<lambda>event.
     then_answer (svc_get_annotations S (rq_id rq)) (\<lambda>_. answer (reply internal_error)) (\<lambda>annotations.
     handle_activity (svc_get_activity S (rq_id rq)) (\<lambda>_. answer (reply internal_error)) (\<lambda>activity.
     then_answer (svc_operation_state S (Some event)) (\<lambda>_. answer (reply internal_error)) (\<lambda>state.
       answer (reply (respond status (DetailPage
         (detail_data_of secret cx event annotations activity state action_error pending_links))))))))"

definition detail :: "'s change_store \<Rightarrow> string \<Rightarrow> request_context \<Rightarrow> http_request \<Rightarrow> 's answer" where
  "detail S secret = render_detail S secret 200 [] []"

end
