(* ===== verification/DashboardActions.thy ===== *)
theory DashboardActions
  imports Dashboard
begin

section \<open>Dashboard actions: internal/handler/dashboard.go and record.go\<close>

text \<open>
  The POST handlers of the dashboard and the record form. Each first bounds and parses the form and
  checks the CSRF token, then takes the identity from the session, then calls the service, and
  redirects to a local target. The Location of a redirect is the target given to \<^verbatim>\<open>http.Redirect\<close>,
  which only cleans its path further. \<open>quote\<close> is the verb \<^verbatim>\<open>%q\<close> of package fmt.
\<close>

subsection \<open>Redirects\<close>

text \<open>\<^verbatim>\<open>URL.RequestURI\<close> of a URL with only a path and a query: the path with its unsafe bytes escaped.\<close>

definition path_char :: "char \<Rightarrow> bool" where
  "path_char c = (unreserved c \<or> c \<in> set ''$&+,/:;=@'')"

definition escaped_path :: "string \<Rightarrow> string" where
  "escaped_path s = concat (map (\<lambda>c. if path_char c then [c] else percent_encode c) s)"

definition request_uri :: "string \<Rightarrow> string \<Rightarrow> string" where
  "request_uri path raw_query =
     (if path = [] then ''/'' else escaped_path path) @ (if raw_query = [] then [] else CHR ''?'' # raw_query)"

definition local_redirect_target :: "url_parser \<Rightarrow> string \<Rightarrow> string" where
  "local_redirect_target parse referer = (case parse referer of
      None \<Rightarrow> ''/''
    | Some u \<Rightarrow>
        (if pu_path u = [] \<or> \<not> has_prefix (pu_path u) ''/'' \<or> has_prefix (pu_path u) ''//'' \<or> backslash \<in> set (pu_path u)
         then ''/''
         else request_uri (pu_path u) (encode_values (parse_query (pu_raw_query u)))))"

definition redirect_after_action :: "url_parser \<Rightarrow> http_request \<Rightarrow> payload response" where
  "redirect_after_action parse rq = http_redirect (local_redirect_target parse (rq_header rq ''Referer'')) 303"

subsection \<open>Guards and errors\<close>

definition forbidden :: "payload response" where
  "forbidden = http_error ''Forbidden'' 403"

definition authentication_required :: "payload response" where
  "authentication_required = http_error ''Authentication required'' 401"

definition validate_form :: "nat \<Rightarrow> string \<Rightarrow> request_context \<Rightarrow> http_request \<Rightarrow> payload response option" where
  "validate_form limit secret cx rq = (case parse_bounded_post_form_limit rq limit of
      Some r \<Rightarrow> Some r
    | None \<Rightarrow>
        (if validate_csrf_token secret (human_session_nonce cx) (post_form_value rq ''csrf_token'')
         then None else Some forbidden))"

definition validate_action_form :: "string \<Rightarrow> request_context \<Rightarrow> http_request \<Rightarrow> payload response option" where
  "validate_action_form = validate_form max_form_bytes"

definition validate_create_event_form :: "string \<Rightarrow> request_context \<Rightarrow> http_request \<Rightarrow> payload response option" where
  "validate_create_event_form = validate_form max_record_form_bytes"

text \<open>Guard of every action: the form, then the identity.\<close>

definition guarded ::
  "payload response option \<Rightarrow> request_context \<Rightarrow> (user_identity \<Rightarrow> 's answer) \<Rightarrow> 's answer" where
  "guarded form cx action = (case form of
      Some r \<Rightarrow> answer (reply r)
    | None \<Rightarrow> (case human_identity cx of
        None \<Rightarrow> answer (reply authentication_required)
      | Some user \<Rightarrow> action user))"

definition write_action_error :: "go_error \<Rightarrow> payload response" where
  "write_action_error err = (case err of
      ErrEventNotFound \<Rightarrow> event_not_found
    | ErrLinksRequired \<Rightarrow> http_error (error_text err) 400
    | ErrInvalidLink \<Rightarrow> http_error (error_text err) 400
    | ErrOperationNotClosable \<Rightarrow> http_error (error_text err) 400
    | ErrOperationClosed \<Rightarrow> http_error (error_text err) 409
    | _ \<Rightarrow> internal_error)"

text \<open>
  What is logged after an action succeeded: the keys and values in order; \<open>attrs\<close> are those of the action
  (the number of links).
\<close>

definition log_human_action ::
  "http_request \<Rightarrow> string \<Rightarrow> user_identity \<Rightarrow> string \<Rightarrow> (string \<times> string) list \<Rightarrow> (string \<times> string) list" where
  "log_human_action rq action user event_id attrs =
     [(''action'', action), (''event_id'', event_id), (''parent_event_id'', rq_id rq), (''provider'', ui_provider user),
      (''subject'', ui_subject user), (''user_name'', ui_name user)] @ attrs"

subsection \<open>The actions\<close>

definition dashboard_toggle_star ::
  "url_lib \<Rightarrow> 's change_store \<Rightarrow> string \<Rightarrow> env \<Rightarrow> request_context \<Rightarrow> http_request \<Rightarrow> 's answer" where
  "dashboard_toggle_star urls S secret en cx rq = guarded (validate_action_form secret cx rq) cx (\<lambda>user.
     then_answer (svc_toggle_star_as S en (rq_id rq) user)
       (\<lambda>err. answer (reply (if err = ErrEventNotFound then event_not_found else internal_error)))
       (\<lambda>event. answer (reply (redirect_after_action (ul_parse urls) rq))))"

definition dashboard_toggle_alert ::
  "url_lib \<Rightarrow> 's change_store \<Rightarrow> string \<Rightarrow> env \<Rightarrow> request_context \<Rightarrow> http_request \<Rightarrow> 's answer" where
  "dashboard_toggle_alert urls S secret en cx rq = guarded (validate_action_form secret cx rq) cx (\<lambda>user.
     then_answer (svc_toggle_alert_as S en (rq_id rq) user)
       (\<lambda>err. answer (reply (write_action_error err)))
       (\<lambda>event. answer (reply (redirect_after_action (ul_parse urls) rq))))"

definition post_form :: "http_request \<Rightarrow> url_values" where
  "post_form rq = (case rq_post_form rq of None \<Rightarrow> [] | Some form \<Rightarrow> form)"

definition dashboard_add_links ::
  "url_lib \<Rightarrow> 's change_store \<Rightarrow> string \<Rightarrow> env \<Rightarrow> request_context \<Rightarrow> http_request \<Rightarrow> 's answer" where
  "dashboard_add_links urls S secret en cx rq = guarded (validate_action_form secret cx rq) cx (\<lambda>user.
     (let links = parse_link_form (post_form rq) in
      then_answer (svc_add_links_as (ul_request_uri urls) S en (rq_id rq) user links)
       (\<lambda>err. if err = ErrLinksRequired then render_detail S secret 400 ''Add at least one link.'' links cx rq
              else if err = ErrInvalidLink then render_detail S secret 400 invalid_link_message links cx rq
              else answer (reply (write_action_error err)))
       (\<lambda>event. answer (reply (redirect_after_action (ul_parse urls) rq)))))"

text \<open>A close whose event is nil (a duplicate the store reported without its event) panics; the recoverer answers 500.\<close>

definition dashboard_close_operation ::
  "url_lib \<Rightarrow> 's change_store \<Rightarrow> string \<Rightarrow> env \<Rightarrow> request_context \<Rightarrow> http_request \<Rightarrow> 's answer" where
  "dashboard_close_operation urls S secret en cx rq = guarded (validate_action_form secret cx rq) cx (\<lambda>user.
     then_answer (svc_close_operation_as (ul_request_uri urls) S en (rq_id rq) user (post_form_value rq ''description''))
       (\<lambda>err. answer (reply (write_action_error err)))
       (\<lambda>event. answer (reply (case event of None \<Rightarrow> \<lparr>rs_status = 500, rs_location = [], rs_cookies = [], rs_body = NoBody\<rparr>
          | Some _ \<Rightarrow> redirect_after_action (ul_parse urls) rq))))"

subsection \<open>The record form: record.go\<close>

definition empty_record_form :: record_change_form where
  "empty_record_form = \<lparr>rf_event_type = [], rf_description = [], rf_long_description = [], rf_external_id = [],
     rf_tags = [], rf_link_label = [], rf_link_url = []\<rparr>"

definition record_change_form_from_request :: "http_request \<Rightarrow> record_change_form" where
  "record_change_form_from_request rq = \<lparr>
     rf_event_type = trim_space (post_form_value rq ''event_type''),
     rf_description = trim_space (post_form_value rq ''description''),
     rf_long_description = post_form_value rq ''long_description'',
     rf_external_id = trim_space (post_form_value rq ''external_id''),
     rf_tags = post_form_value rq ''tags'',
     rf_link_label = trim_space (post_form_value rq ''link_label''),
     rf_link_url = trim_space (post_form_value rq ''link_url'')\<rparr>"

fun record_tag_loop :: "(string \<Rightarrow> string) \<Rightarrow> nat \<Rightarrow> string list \<Rightarrow> tag_map \<Rightarrow> string + tag_map" where
  "record_tag_loop quote n [] tags = Inr tags"
| "record_tag_loop quote n (line # lines) tags =
     (let text = trim_space line in
      if text = [] then record_tag_loop quote (Suc n) lines tags
      else case cut CHR ''='' text of (k, v, ok) \<Rightarrow>
        (let key = trim_space k; val = trim_space v in
         if \<not> ok \<or> key = [] then Inl ''Tags must use one key=value pair per line.''
         else if tag_has tags key
         then Inl (''Tag key '' @ quote key @ '' is repeated on line '' @ itoa (int n + 1) @ ''.'')
         else record_tag_loop quote (Suc n) lines (AList.update key val tags)))"

definition parse_record_change_tags :: "(string \<Rightarrow> string) \<Rightarrow> string \<Rightarrow> string + tag_map" where
  "parse_record_change_tags quote val =
     (if trim_space val = [] then Inr [] else record_tag_loop quote 0 (split_on CHR 0x0A val) [])"

definition create_change_request ::
  "(string \<Rightarrow> string) \<Rightarrow> record_change_form \<Rightarrow> user_identity \<Rightarrow> string + create_request" where
  "create_change_request quote form user =
     (if rf_event_type form = [] then Inl ''Event type is required.''
      else if rf_description form = [] then Inl ''Summary is required.''
      else case parse_record_change_tags quote (rf_tags form) of
          Inl message \<Rightarrow> Inl message
        | Inr tags \<Rightarrow> Inr (zero_create_request\<lparr>
            cr_external_id := rf_external_id form, cr_user_name := ui_name user,
            cr_user_provider := ui_provider user, cr_user_subject := ui_subject user,
            cr_event_type := rf_event_type form, cr_description := rf_description form,
            cr_long_description := rf_long_description form,
            cr_links := (if rf_link_label form \<noteq> [] \<or> rf_link_url form \<noteq> []
                         then [\<lparr>el_label = rf_link_label form, el_url = rf_link_url form\<rparr>] else []),
            cr_tags := tags\<rparr>))"

definition render_create_event ::
  "string \<Rightarrow> nat \<Rightarrow> record_change_form \<Rightarrow> string \<Rightarrow> request_context \<Rightarrow> payload response" where
  "render_create_event secret status form message cx =
     (let token = generate_csrf_token secret (human_session_nonce cx) in
      respond status (RecordPage \<lparr>rd_user_name = human_user_name cx, rd_logout_csrf = token, rd_csrf_token = token,
        rd_form = form, rd_error = message\<rparr>))"

definition show_create_event :: "string \<Rightarrow> ('s, payload) handler" where
  "show_create_event secret cx rq = reply (render_create_event secret 200 empty_record_form [] cx)"

definition create_outcome :: "string \<Rightarrow> record_change_form \<Rightarrow> request_context \<Rightarrow> go_error \<Rightarrow> payload response" where
  "create_outcome secret form cx err = (case err of
      ErrDuplicate (Some event) \<Rightarrow> http_redirect (''/events/'' @ path_escape (ev_id event)) 303
    | ErrInvalidLink \<Rightarrow> render_create_event secret 400 form invalid_link_message cx
    | ErrInvalidTags _ \<Rightarrow> render_create_event secret 400 form (error_text err) cx
    | _ \<Rightarrow> internal_error)"

definition dashboard_create_event ::
  "(string \<Rightarrow> string) \<Rightarrow> url_lib \<Rightarrow> 's change_store \<Rightarrow> string \<Rightarrow> env \<Rightarrow> request_context \<Rightarrow> http_request \<Rightarrow> 's answer" where
  "dashboard_create_event quote urls S secret en cx rq = guarded (validate_create_event_form secret cx rq) cx (\<lambda>user.
     (let form = record_change_form_from_request rq in
      case create_change_request quote form user of
        Inl message \<Rightarrow> answer (reply (render_create_event secret 400 form message cx))
      | Inr req \<Rightarrow> then_answer (svc_create (ul_request_uri urls) S en req)
          (\<lambda>err. answer (reply (create_outcome secret form cx err)))
          (\<lambda>event. answer (reply (http_redirect (''/events/'' @ path_escape (ev_id event)) 303)))))"

subsection \<open>A redirect stays on this host\<close>

definition local_target :: "string \<Rightarrow> bool" where
  "local_target s = (\<exists>rest. s = CHR ''/'' # rest \<and> \<not> has_prefix rest ''/''
     \<and> list_all (\<lambda>c. path_char c \<or> c \<in> set ''%?'') s)"

lemma percent_encode_chars: "c \<in> set (percent_encode d) \<Longrightarrow> path_char c \<or> c \<in> set ''%?''"
  by (auto simp: percent_encode_def path_char_def unreserved_def hex_digit_alnum byte_nibbles)

lemma escaped_path_chars: "c \<in> set (escaped_path s) \<Longrightarrow> path_char c \<or> c \<in> set ''%?''"
  using percent_encode_chars [of c] by (auto simp: escaped_path_def split: if_splits)

lemma query_escape_path_chars: "c \<in> set (query_escape s) \<Longrightarrow> path_char c \<or> c \<in> set ''%?''"
  using query_escape_chars [of c s] by (auto simp: path_char_def)

lemma set_join_with: "set (join_with sep ps) \<subseteq> insert sep (\<Union> (set ` set ps))"
  by (induction sep ps rule: join_with.induct) auto

lemma encode_values_chars: "c \<in> set (encode_values q) \<Longrightarrow> path_char c \<or> c \<in> set ''%?''"
proof -
  assume "c \<in> set (encode_values q)"
  then have "c = CHR ''&'' \<or> (\<exists>kv. c \<in> set (encode_pair kv))"
    using set_join_with [of "CHR ''&''" "map encode_pair (value_pairs q)"] unfolding encode_values_def by auto
  then consider "c = CHR ''&''" | "c = CHR ''=''" | s where "c \<in> set (query_escape s)"
    by (auto simp: encode_pair_def)
  then show ?thesis by cases (auto simp: path_char_def dest: query_escape_path_chars)
qed

lemma escaped_path_head:
  assumes "has_prefix path ''/''" and "\<not> has_prefix path ''//''"
  shows "\<exists>rest. escaped_path path = CHR ''/'' # rest \<and> \<not> has_prefix rest ''/'' \<and> \<not> has_prefix (rest @ CHR ''?'' # q) ''/''"
proof -
  from assms(1) obtain p where p: "path = CHR ''/'' # p" by (cases path) (auto simp: has_prefix_def)
  have e: "escaped_path path = CHR ''/'' # escaped_path p" by (simp add: p escaped_path_def path_char_def)
  show ?thesis
  proof (cases p)
    case Nil
    then show ?thesis using e by (simp add: escaped_path_def has_prefix_def)
  next
    case (Cons c cs)
    with assms(2) p have "c \<noteq> CHR ''/''" by (auto simp: has_prefix_def)
    then show ?thesis using e Cons by (auto simp: escaped_path_def has_prefix_def percent_encode_def)
  qed
qed

lemma local_redirect_target_local: "local_target (local_redirect_target parse referer)"
proof -
  have root: "local_target ''/''" by (simp add: local_target_def has_prefix_def path_char_def)
  have uri: "local_target (request_uri path (encode_values q))"
    if p: "has_prefix path ''/''" "\<not> has_prefix path ''//''" for path q
  proof -
    obtain rest where r: "escaped_path path = CHR ''/'' # rest" "\<not> has_prefix rest ''/''"
      "\<not> has_prefix (rest @ CHR ''?'' # encode_values q) ''/''" using escaped_path_head [OF p] by blast
    have "path \<noteq> []" using p(1) by (auto simp: has_prefix_def)
    moreover have "list_all (\<lambda>c. path_char c \<or> c \<in> set ''%?'') (escaped_path path)"
      "list_all (\<lambda>c. path_char c \<or> c \<in> set ''%?'') (CHR ''?'' # encode_values q)"
      using escaped_path_chars [of _ path] encode_values_chars [of _ q] by (auto simp: list_all_iff)
    ultimately show ?thesis using r by (auto simp: local_target_def request_uri_def)
  qed
  show ?thesis using root uri by (simp add: local_redirect_target_def split: option.split)
qed

end
