(* ===== verification/HumanLogin.thy ===== *)
theory HumanLogin
  imports DashboardActions
begin

section \<open>Signing in and out: internal/handler/human_auth.go and login.go\<close>

text \<open>
  The OAuth flow keeps its state in a signed cookie: \<open>human_start\<close> sets it and redirects to the
  provider, \<open>human_callback\<close> clears it, checks it against the request and sets a session cookie.
  Behind Beyond, \<open>human_start\<close> signs in directly. \<^verbatim>\<open>crypto/rand\<close> is a list of draws, None when one
  fails. The handler either has an authenticator or a Beyond provider.
\<close>

subsection \<open>The flow cookie\<close>

definition flow_cookie_name :: string where "flow_cookie_name = ''pcr_oauth_flow''"
definition flow_lifetime :: duration where "flow_lifetime = 10 * minute"

record oauth_flow =
  fl_state :: string
  fl_verifier :: string
  fl_nonce :: string
  fl_return_to :: string
  fl_issued_at :: instant
  fl_expires_at :: instant
  fl_provider :: string

definition sign_oauth_flow :: "string \<Rightarrow> string \<Rightarrow> string" where
  "sign_oauth_flow secret value = hex_encode (hmac_sha256 secret value)"

definition encode_oauth_flow :: "oauth_flow json_codec \<Rightarrow> string \<Rightarrow> oauth_flow \<Rightarrow> string + string" where
  "encode_oauth_flow codec secret flow = (case jc_marshal codec flow of
      None \<Rightarrow> Inl ''marshal OAuth flow''
    | Some payload \<Rightarrow> (let encoded = base64_encode payload in Inr (encoded @ ''.'' @ sign_oauth_flow secret encoded)))"

definition decode_oauth_flow :: "oauth_flow json_codec \<Rightarrow> string \<Rightarrow> string \<Rightarrow> string + oauth_flow" where
  "decode_oauth_flow codec secret value = (case split_on CHR ''.'' value of
      [encoded, sig] \<Rightarrow>
        (if sig \<noteq> sign_oauth_flow secret encoded then Inl ''invalid OAuth flow signature''
         else (case base64_decode encoded of
             None \<Rightarrow> Inl ''decode OAuth flow''
           | Some payload \<Rightarrow> (case jc_unmarshal codec payload of
               None \<Rightarrow> Inl ''unmarshal OAuth flow''
             | Some flow \<Rightarrow> Inr flow)))
    | _ \<Rightarrow> Inl ''invalid OAuth flow signature'')"

definition random_url_token :: "string option \<Rightarrow> string option" where
  "random_url_token draw = map_option base64_encode draw"

subsection \<open>The handler\<close>

datatype login_mode = OAuthLogin authenticator | BeyondLogin beyond

record human_auth =
  hh_mode :: login_mode
  hh_secret :: string
  hh_secure :: bool
  hh_duration :: duration
  hh_flows :: "oauth_flow json_codec"
  hh_sessions :: "human_session json_codec"

definition human_session_options_of :: "human_auth \<Rightarrow> human_session_options" where
  "human_session_options_of h = \<lparr>ho_secret = hh_secret h, ho_secure = hh_secure h, ho_duration = hh_duration h\<rparr>"

definition identity_provider :: "human_auth \<Rightarrow> string" where
  "identity_provider h = (case hh_mode h of BeyondLogin b \<Rightarrow> ''beyond'' | OAuthLogin a \<Rightarrow> au_identity_provider a)"

definition trusted_request_principal :: "human_auth \<Rightarrow> instant \<Rightarrow> request_principal option" where
  "trusted_request_principal h now = (case hh_mode h of
      OAuthLogin a \<Rightarrow> None | BeyondLogin b \<Rightarrow> Some (beyond_authenticate_request b now))"

definition provider_name :: "human_auth \<Rightarrow> string" where
  "provider_name h = (case hh_mode h of OAuthLogin a \<Rightarrow> au_name a | BeyondLogin b \<Rightarrow> ''beyond'')"

definition provider_label :: "string \<Rightarrow> string" where
  "provider_label name = (if name = ''github'' then ''GitHub'' else if name = ''google'' then ''Google''
     else if name = ''authentik'' then ''Authentik'' else if name = ''beyond'' then ''Company SSO'' else [])"

definition return_target :: "url_parser \<Rightarrow> http_request \<Rightarrow> string" where
  "return_target parse rq = local_redirect_target parse (q_get (rq_query rq) ''return_to'')"

definition show_login :: "url_parser \<Rightarrow> human_auth \<Rightarrow> ('s, payload) handler" where
  "show_login parse h cx rq = reply (respond 200 (HumanLoginPage \<lparr>hl_provider_label = provider_label (provider_name h),
     hl_button_label = (if provider_name h = ''beyond'' then ''Continue with Company SSO''
                        else ''Sign in with '' @ provider_label (provider_name h)),
     hl_return_to = return_target parse rq\<rparr>))"

definition flow_cookie :: "human_auth \<Rightarrow> string \<Rightarrow> instant \<Rightarrow> int \<Rightarrow> cookie" where
  "flow_cookie h val expires max_age = \<lparr>ck_name = flow_cookie_name, ck_value = val, ck_path = ''/auth/'',
     ck_max_age = max_age, ck_http_only = True, ck_secure = hh_secure h, ck_expires = expires\<rparr>"

definition clear_flow_cookie :: "human_auth \<Rightarrow> cookie" where
  "clear_flow_cookie h = flow_cookie h [] second (- 1)"

text \<open>\<^verbatim>\<open>SetHumanSessionCookie\<close> followed by the redirect, or the internal error.\<close>

definition start_session :: "human_auth \<Rightarrow> principal \<Rightarrow> string option \<Rightarrow> instant \<Rightarrow> string \<Rightarrow> payload response" where
  "start_session h p random now target =
     (case human_session_cookie (hh_sessions h) (human_session_options_of h) p random now of
        Inl _ \<Rightarrow> internal_error
      | Inr c \<Rightarrow> with_cookie c (http_redirect target 303))"

definition account_not_authorized :: "payload response" where
  "account_not_authorized = http_error ''This account is not authorized'' 403"

definition start_beyond ::
  "url_parser \<Rightarrow> human_auth \<Rightarrow> beyond \<Rightarrow> string option \<Rightarrow> instant \<Rightarrow> http_request \<Rightarrow> payload response" where
  "start_beyond parse h b random now rq = (case beyond_authenticate_request b now rq of
      Inl _ \<Rightarrow> account_not_authorized
    | Inr p \<Rightarrow> start_session h p random now (return_target parse rq))"

definition new_flow :: "authenticator \<Rightarrow> string \<Rightarrow> string \<Rightarrow> string \<Rightarrow> string \<Rightarrow> instant \<Rightarrow> oauth_flow" where
  "new_flow a state verifier nonce target now = \<lparr>fl_state = state, fl_verifier = verifier, fl_nonce = nonce,
     fl_return_to = target, fl_issued_at = now, fl_expires_at = now + flow_lifetime, fl_provider = au_name a\<rparr>"

definition start_oauth ::
  "url_parser \<Rightarrow> human_auth \<Rightarrow> authenticator \<Rightarrow> string option list \<Rightarrow> instant \<Rightarrow> http_request \<Rightarrow> payload response" where
  "start_oauth parse h a draws now rq = (case map random_url_token draws of
      [Some state, Some verifier, Some nonce] \<Rightarrow>
        (let flow = new_flow a state verifier nonce (return_target parse rq) now in
         case encode_oauth_flow (hh_flows h) (hh_secret h) flow of
           Inl _ \<Rightarrow> internal_error
         | Inr value \<Rightarrow>
             with_cookie (flow_cookie h value (fl_expires_at flow) (flow_lifetime div second))
               (http_redirect (au_authorization_url a state (base64_encode (sha256 verifier)) nonce) 302))
    | _ \<Rightarrow> internal_error)"

definition human_start ::
  "url_parser \<Rightarrow> human_auth \<Rightarrow> string option list \<Rightarrow> string option \<Rightarrow> instant \<Rightarrow> ('s, payload) handler" where
  "human_start parse h draws random now cx rq = reply (case hh_mode h of
      BeyondLogin b \<Rightarrow> start_beyond parse h b random now rq
    | OAuthLogin a \<Rightarrow> start_oauth parse h a draws now rq)"

definition read_oauth_flow :: "human_auth \<Rightarrow> authenticator \<Rightarrow> instant \<Rightarrow> http_request \<Rightarrow> oauth_flow option" where
  "read_oauth_flow h a now rq = (case rq_cookie rq flow_cookie_name of
      None \<Rightarrow> None
    | Some value \<Rightarrow> (case decode_oauth_flow (hh_flows h) (hh_secret h) value of
        Inl _ \<Rightarrow> None
      | Inr flow \<Rightarrow>
          if fl_provider flow \<noteq> au_name a \<or> fl_state flow = [] \<or> fl_verifier flow = [] \<or> fl_nonce flow = []
             \<or> now < fl_issued_at flow \<or> \<not> now < fl_expires_at flow
          then None else Some flow))"

definition callback_error :: "auth_error \<Rightarrow> payload response" where
  "callback_error err =
     (if OrganizationVerification \<in> set (ae_is err)
      then http_error ''PCR could not verify your GitHub organization membership. The OAuth application may require organization approval or SSO authorization; retry if GitHub is temporarily unavailable.'' 503
      else if GroupUnauthorized \<in> set (ae_is err)
      then http_error ''This account is not in an allowed Authentik group. Check PCR_ALLOWED_ORGS and the Authentik groups scope mapping.'' 403
      else if Unauthorized \<in> set (ae_is err) then account_not_authorized
      else if ProviderUnavailable \<in> set (ae_is err) then http_error ''Identity provider is temporarily unavailable'' 503
      else http_error ''Authentication failed'' 502)"

definition oauth_callback ::
  "human_auth \<Rightarrow> authenticator \<Rightarrow> string option \<Rightarrow> instant \<Rightarrow> http_request \<Rightarrow> payload response" where
  "oauth_callback h a random now rq =
     (if q_get (rq_query rq) ''error'' \<noteq> [] then http_error ''Authentication was not completed'' 400
      else case read_oauth_flow h a now rq of
          None \<Rightarrow> http_error ''Invalid or expired authentication flow'' 400
        | Some flow \<Rightarrow>
            (if fl_state flow \<noteq> q_get (rq_query rq) ''state'' then http_error ''Invalid or expired authentication flow'' 400
             else if q_get (rq_query rq) ''code'' = [] then http_error ''Missing authorization code'' 400
             else (case au_authenticate a now (q_get (rq_query rq) ''code'') (fl_verifier flow) (fl_nonce flow) of
                 Inl err \<Rightarrow> callback_error err
               | Inr p \<Rightarrow> start_session h p random now (fl_return_to flow))))"

definition human_callback :: "human_auth \<Rightarrow> string option \<Rightarrow> instant \<Rightarrow> ('s, payload) handler" where
  "human_callback h random now cx rq = reply (case hh_mode h of
      BeyondLogin b \<Rightarrow> http_error ''404 page not found'' 404
    | OAuthLogin a \<Rightarrow> with_cookie (clear_flow_cookie h) (oauth_callback h a random now rq))"

definition human_logout :: "human_auth \<Rightarrow> ('s, payload) handler" where
  "human_logout h cx rq = reply (case parse_bounded_post_form rq of
      Some r \<Rightarrow> r
    | None \<Rightarrow> (case human_session_from_context cx of
        None \<Rightarrow> forbidden
      | Some session \<Rightarrow>
          (if \<not> validate_csrf_token (hh_secret h) (hs_nonce session) (post_form_value rq ''csrf_token'') then forbidden
           else clear_session_cookie (hh_secure h) (http_redirect ''/login'' 303))))"

subsection \<open>Token login: login.go\<close>

definition show_login_form :: "('s, payload) handler" where
  "show_login_form cx rq = reply (respond 200 (TokenLoginPage []))"

definition token_login ::
  "string list \<Rightarrow> session_options \<Rightarrow> string option \<Rightarrow> instant \<Rightarrow> ('s, payload) handler" where
  "token_login valid_tokens opts random now cx rq = reply (case parse_bounded_post_form rq of
      Some r \<Rightarrow> r
    | None \<Rightarrow>
        (let token = post_form_value rq ''token'' in
         if token = [] \<or> \<not> validate_token token valid_tokens
         then respond 401 (TokenLoginPage ''Invalid or missing token'')
         else set_session_cookie opts random now (http_redirect ''/'' 303)))"

subsection \<open>What a callback needs before it signs anyone in\<close>

definition session_cookies :: "'p response \<Rightarrow> cookie list" where
  "session_cookies r = filter (\<lambda>c. ck_name c = session_cookie_name) (rs_cookies r)"

lemma cookie_names: "flow_cookie_name \<noteq> session_cookie_name"
  by (simp add: flow_cookie_name_def session_cookie_name_def)

lemma human_session_cookie_name: "human_session_cookie codec opts p random now = Inr c \<Longrightarrow> ck_name c = session_cookie_name"
  by (auto simp: human_session_cookie_def Let_def split: if_splits option.splits sum.splits)

lemma no_cookies [simp]:
  "session_cookies (http_error m n) = []" "session_cookies (http_redirect t n) = []" "session_cookies (callback_error err) = []"
  "session_cookies internal_error = []"
  by (simp_all add: session_cookies_def http_error_def http_redirect_def callback_error_def account_not_authorized_def internal_error_def)

lemma session_cookies_with: "session_cookies (with_cookie c r) = (if ck_name c = session_cookie_name then c # session_cookies r else session_cookies r)"
  by (simp add: session_cookies_def with_cookie_def)

lemma start_session_cookies:
  "session_cookies (start_session h p random now target) =
     (case human_session_cookie (hh_sessions h) (human_session_options_of h) p random now of Inl _ \<Rightarrow> [] | Inr c \<Rightarrow> [c])"
  by (auto simp: start_session_def session_cookies_with human_session_cookie_name split: sum.splits)

lemma oauth_callback_session:
  assumes "c \<in> set (session_cookies (oauth_callback h a random now rq))"
  obtains flow p where "read_oauth_flow h a now rq = Some flow" and "fl_state flow = q_get (rq_query rq) ''state''"
    and "q_get (rq_query rq) ''code'' \<noteq> []"
    and "au_authenticate a now (q_get (rq_query rq) ''code'') (fl_verifier flow) (fl_nonce flow) = Inr p"
    and "human_session_cookie (hh_sessions h) (human_session_options_of h) p random now = Inr c"
  using assms by (auto simp: oauth_callback_def start_session_cookies split: if_splits option.splits sum.splits)

lemma clear_flow_name: "ck_name (clear_flow_cookie h) = flow_cookie_name"
  by (simp add: clear_flow_cookie_def flow_cookie_def)

lemma human_callback_cookies:
  "hh_mode h = OAuthLogin a \<Longrightarrow>
    session_cookies (fst (human_callback h random now cx rq s)) = session_cookies (oauth_callback h a random now rq)"
  using cookie_names by (simp add: human_callback_def reply_def session_cookies_with clear_flow_name)

lemma decode_encoded_flow:
  assumes "jc_marshal codec flow = Some payload" and "encode_oauth_flow codec secret flow = Inr value"
  shows "decode_oauth_flow codec secret value =
    (case jc_unmarshal codec payload of None \<Rightarrow> Inl ''unmarshal OAuth flow'' | Some x \<Rightarrow> Inr x)"
proof -
  let ?e = "base64_encode payload"
  from assms have v: "value = ?e @ ''.'' @ sign_oauth_flow secret ?e" by (auto simp: encode_oauth_flow_def Let_def)
  have "CHR ''.'' \<notin> set (sign_oauth_flow secret ?e)" by (simp add: sign_oauth_flow_def hex_encode_plain)
  then have "split_on CHR ''.'' value = [?e, sign_oauth_flow secret ?e]"
    unfolding v by (simp add: split_on_append split_on_plain base64_encode_plain)
  then show ?thesis by (simp add: decode_oauth_flow_def base64_round_trip)
qed

text \<open>The flow the callback reads is the one the start set, while it lasts.\<close>

lemma read_own_flow:
  assumes "encode_oauth_flow (hh_flows h) (hh_secret h) flow = Inr v"
    and "jc_marshal (hh_flows h) flow = Some payload" and "jc_unmarshal (hh_flows h) payload = Some flow"
    and "rq_cookie rq flow_cookie_name = Some v" and "fl_provider flow = au_name a"
    and "fl_state flow \<noteq> []" "fl_verifier flow \<noteq> []" "fl_nonce flow \<noteq> []"
  shows "read_oauth_flow h a now rq = (if fl_issued_at flow \<le> now \<and> now < fl_expires_at flow then Some flow else None)"
  using decode_encoded_flow [OF assms(2,1)] assms(3-8) by (auto simp: read_oauth_flow_def)

lemma start_oauth_cookie:
  assumes "start_oauth parse h a [Some x, Some y, Some z] now rq = r" and "rs_cookies r = [c]"
  defines "flow \<equiv> new_flow a (base64_encode x) (base64_encode y) (base64_encode z) (return_target parse rq) now"
  shows "encode_oauth_flow (hh_flows h) (hh_secret h) flow = Inr (ck_value c)
    \<and> rs_location r = au_authorization_url a (base64_encode x) (base64_encode (sha256 (base64_encode y))) (base64_encode z)"
  using assms by (auto simp: start_oauth_def random_url_token_def Let_def internal_error_def http_error_def with_cookie_def
      flow_cookie_def http_redirect_def split: sum.splits)

lemma callback_after_start:
  assumes "hh_mode h = OAuthLogin a" and "x \<noteq> []" "y \<noteq> []" "z \<noteq> []"
    and "start_oauth parse h a [Some x, Some y, Some z] now rq0 = r0" and "rs_cookies r0 = [c]"
    and "jc_marshal (hh_flows h) (new_flow a (base64_encode x) (base64_encode y) (base64_encode z) (return_target parse rq0) now) = Some payload"
    and "jc_unmarshal (hh_flows h) payload = Some (new_flow a (base64_encode x) (base64_encode y) (base64_encode z) (return_target parse rq0) now)"
    and "rq_cookie rq flow_cookie_name = Some (ck_value c)" and "q_get (rq_query rq) ''error'' = []"
    and "q_get (rq_query rq) ''state'' = base64_encode x" and "q_get (rq_query rq) ''code'' \<noteq> []"
    and "now \<le> later" "later < now + 10 * minute"
    and "au_authenticate a later (q_get (rq_query rq) ''code'') (base64_encode y) (base64_encode z) = Inr p"
  shows "human_callback h random later cx rq s
      = (with_cookie (clear_flow_cookie h) (start_session h p random later (return_target parse rq0)), s)
    \<and> rs_location r0 = au_authorization_url a (base64_encode x) (base64_encode (sha256 (base64_encode y))) (base64_encode z)"
proof -
  let ?flow = "new_flow a (base64_encode x) (base64_encode y) (base64_encode z) (return_target parse rq0) now"
  note C = start_oauth_cookie [OF assms(5,6)]
  have "read_oauth_flow h a later rq = Some ?flow"
    by (subst read_own_flow [OF conjunct1 [OF C] assms(7,8,9)])
      (use assms(2-4,13,14) in \<open>simp_all add: new_flow_def base64_encode_Nil flow_lifetime_def\<close>)
  with C assms show ?thesis
    by (simp add: human_callback_def oauth_callback_def reply_def new_flow_def)
qed

text \<open>A session that was set for a principal of a provider belongs to that provider and satisfies its policy.\<close>

context human_provider
begin

lemma session_allowed:
  assumes "au_authenticate A now code verifier nonce = Inr p"
    and "human_session_cookie codec opts p (Some random) now = Inr c" and "random \<noteq> []"
    and "jc_marshal codec (new_human_session opts p random now) = Some payload" and "payload \<noteq> []"
    and "jc_unmarshal codec payload = Some (new_human_session opts p random now)"
    and "rq_cookie rq session_cookie_name = Some (ck_value c)" and "now \<le> later" "later < now + ho_duration opts"
  shows "\<exists>session. read_human_session codec rq (ho_secret opts) (au_identity_provider A) later = Inr session
    \<and> hs_principal session = p \<and> allows p"
proof -
  note S = sound [OF assms(1)]
  have "read_human_session codec rq (ho_secret opts) (au_identity_provider A) later = Inr (new_human_session opts p random now)"
    by (subst human_session_read_back [OF assms(2,3) _ assms(7)]) (use assms(4-9) S in auto)
  moreover have "hs_principal (new_human_session opts p random now) = p" using S by (simp add: new_human_session_def)
  ultimately show ?thesis using S by blast
qed

end

end
