(* ===== verification/Router.thy ===== *)
theory Router
  imports HumanLogin ServiceSteps
begin

section \<open>The server: internal/router/router.go\<close>

text \<open>
  The route table, the middleware around each group and the endpoints behind it, as one function
  \<open>serve\<close> from a request and the state behind the store to the response and the state it leaves; None
  is a request that is never answered. chi's matching of patterns is a parameter; an unknown path is
  404, a known path with another method 405. The static file server, the logger, the security headers
  and the timeout are not modelled.
\<close>

datatype endpoint =
    StaticFiles | Livez | Readyz | ApiHealth | Login | AuthStart | AuthCallback
  | ApiCurrent | ApiEvents | ApiCreate | ApiEvent | ApiAnnotations | ApiActivity
  | ApiLinks | ApiStar | ApiAlert | ApiClose
  | DashHome | DashNew | DashCreate | DashDetail | DashStar | DashAlert | DashLinks | DashClose
  | Logout

text \<open>The table, in the order of the source; an empty method stands for every method.\<close>

definition routes :: "(string \<times> string \<times> endpoint) list" where
  "routes = [
     ([], ''/static/*'', StaticFiles),
     (''GET'', ''/livez'', Livez),
     (''GET'', ''/readyz'', Readyz),
     (''GET'', ''/api/v1/health'', ApiHealth),
     (''GET'', ''/login'', Login),
     (''GET'', ''/auth/start'', AuthStart),
     (''GET'', ''/auth/callback'', AuthCallback),
     (''GET'', ''/api/v1/current'', ApiCurrent),
     (''GET'', ''/api/v1/events'', ApiEvents),
     (''POST'', ''/api/v1/events'', ApiCreate),
     (''GET'', ''/api/v1/events/{id}'', ApiEvent),
     (''GET'', ''/api/v1/events/{id}/annotations'', ApiAnnotations),
     (''GET'', ''/api/v1/events/{id}/activity'', ApiActivity),
     (''POST'', ''/api/v1/events/{id}/links'', ApiLinks),
     (''POST'', ''/api/v1/events/{id}/star'', ApiStar),
     (''POST'', ''/api/v1/events/{id}/alert'', ApiAlert),
     (''POST'', ''/api/v1/events/{id}/close'', ApiClose),
     (''GET'', ''/'', DashHome),
     (''GET'', ''/events/new'', DashNew),
     (''POST'', ''/events'', DashCreate),
     (''GET'', ''/events/{id}'', DashDetail),
     (''POST'', ''/events/{id}/star'', DashStar),
     (''POST'', ''/events/{id}/alert'', DashAlert),
     (''POST'', ''/events/{id}/links'', DashLinks),
     (''POST'', ''/events/{id}/close'', DashClose),
     (''POST'', ''/logout'', Logout)]"

text \<open>
  \<open>matches\<close> is chi's matching of a pattern against the request's path: the value of \<^verbatim>\<open>{id}\<close>, None
  when it does not match. The table lists \<^verbatim>\<open>/events/new\<close> before \<^verbatim>\<open>/events/{id}\<close>, the one pair of patterns
  that overlap, of which chi prefers the static one.
\<close>

type_synonym matcher = "string \<Rightarrow> string \<Rightarrow> string option"

datatype routed = NotFound | MethodNotAllowed | Routed endpoint string

definition find_route :: "matcher \<Rightarrow> string \<Rightarrow> string \<Rightarrow> routed" where
  "find_route matches verb path =
     (let hits = filter (\<lambda>(_, pattern, _). matches pattern path \<noteq> None) routes in
      if hits = [] then NotFound
      else case filter (\<lambda>(v, _, _). v = [] \<or> v = verb) hits of
          [] \<Rightarrow> MethodNotAllowed
        | (_, pattern, e) # _ \<Rightarrow> (case matches pattern path of None \<Rightarrow> NotFound | Some i \<Rightarrow> Routed e i))"

subsection \<open>The server\<close>

text \<open>What \<^verbatim>\<open>New\<close> is given and the handlers hold: the configuration and the libraries' functions.\<close>

record site =
  si_match :: matcher
  si_tokens :: "string list"
  si_require_auth_reads :: bool
  si_secret :: string
  si_refresh :: int
  si_human :: human_auth
  si_urls :: url_lib
  si_codec :: api_codec
  si_time :: time_lib
  si_quote :: "string \<Rightarrow> string"
  si_static :: "http_request \<Rightarrow> payload response"

text \<open>What one request draws from the outside: the clock and identifier, random bytes, a request id.\<close>

record moment =
  mo_env :: env
  mo_draws :: "string option list"
  mo_random :: "string option"
  mo_fresh :: string

definition mo_now :: "moment \<Rightarrow> instant" where
  "mo_now t = env_now (mo_env t)"

definition direct :: "('s, payload) handler \<Rightarrow> 's answer serving" where
  "direct h cx rq = answer (h cx rq)"

definition send :: "payload response \<Rightarrow> 's answer" where
  "send r = answer (reply r)"

text \<open>The endpoints of the three groups.\<close>

definition api_endpoint :: "site \<Rightarrow> 's change_store \<Rightarrow> moment \<Rightarrow> endpoint \<Rightarrow> 's answer serving" where
  "api_endpoint w S t e = (case e of
      ApiCurrent \<Rightarrow> direct (api_list_current S)
    | ApiEvents \<Rightarrow> direct (api_list_events (si_time w) S)
    | ApiCreate \<Rightarrow> direct (api_create_event (si_codec w) (ul_request_uri (si_urls w)) S (mo_env t))
    | ApiEvent \<Rightarrow> direct (api_get_event S)
    | ApiAnnotations \<Rightarrow> direct (api_get_event_annotations S)
    | ApiActivity \<Rightarrow> api_get_event_activity S
    | ApiLinks \<Rightarrow> direct (api_add_event_links (si_codec w) (ul_request_uri (si_urls w)) S (mo_env t))
    | ApiStar \<Rightarrow> direct (api_toggle_star S (mo_env t))
    | ApiAlert \<Rightarrow> direct (api_toggle_alert S (mo_env t))
    | ApiClose \<Rightarrow> direct (api_close_operation (si_codec w) (ul_request_uri (si_urls w)) S (mo_env t))
    | _ \<Rightarrow> \<lambda>cx rq. send (http_error ''404 page not found'' 404))"

definition dashboard_endpoint :: "site \<Rightarrow> 's change_store \<Rightarrow> moment \<Rightarrow> endpoint \<Rightarrow> 's answer serving" where
  "dashboard_endpoint w S t e = (case e of
      DashHome \<Rightarrow> direct (dashboard (si_time w) S (si_refresh w) (si_secret w) (mo_now t))
    | DashNew \<Rightarrow> direct (show_create_event (si_secret w))
    | DashCreate \<Rightarrow> dashboard_create_event (si_quote w) (si_urls w) S (si_secret w) (mo_env t)
    | DashDetail \<Rightarrow> detail S (si_secret w)
    | DashStar \<Rightarrow> dashboard_toggle_star (si_urls w) S (si_secret w) (mo_env t)
    | DashAlert \<Rightarrow> dashboard_toggle_alert (si_urls w) S (si_secret w) (mo_env t)
    | DashLinks \<Rightarrow> dashboard_add_links (si_urls w) S (si_secret w) (mo_env t)
    | DashClose \<Rightarrow> dashboard_close_operation (si_urls w) S (si_secret w) (mo_env t)
    | _ \<Rightarrow> \<lambda>cx rq. send (http_error ''404 page not found'' 404))"

definition public_endpoint :: "site \<Rightarrow> ('s \<Rightarrow> bool) \<Rightarrow> moment \<Rightarrow> endpoint \<Rightarrow> 's answer serving" where
  "public_endpoint w ping t e = (case e of
      StaticFiles \<Rightarrow> \<lambda>cx rq. send (si_static w rq)
    | Livez \<Rightarrow> direct api_liveness
    | Readyz \<Rightarrow> direct (api_readiness ping)
    | ApiHealth \<Rightarrow> direct (api_health_check ping)
    | Login \<Rightarrow> direct (show_login (ul_parse (si_urls w)) (si_human w))
    | AuthStart \<Rightarrow> direct (human_start (ul_parse (si_urls w)) (si_human w) (mo_draws t) (mo_random t) (mo_now t))
    | AuthCallback \<Rightarrow> direct (human_callback (si_human w) (mo_random t) (mo_now t))
    | _ \<Rightarrow> \<lambda>cx rq. send (http_error ''404 page not found'' 404))"

definition api_endpoints :: "endpoint list" where
  "api_endpoints = [ApiCurrent, ApiEvents, ApiCreate, ApiEvent, ApiAnnotations, ApiActivity, ApiLinks, ApiStar, ApiAlert, ApiClose]"

definition dashboard_endpoints :: "endpoint list" where
  "dashboard_endpoints = [DashHome, DashNew, DashCreate, DashDetail, DashStar, DashAlert, DashLinks, DashClose]"

text \<open>The middleware of each group: API tokens or the edge's identity, a bound session, a session.\<close>

definition api_group :: "site \<Rightarrow> moment \<Rightarrow> 's answer serving \<Rightarrow> 's answer serving" where
  "api_group w t = auth_with_trusted_identity send (si_tokens w) (si_require_auth_reads w) []
     (trusted_request_principal (si_human w) (mo_now t)) (mo_now t)"

definition human_group :: "site \<Rightarrow> request_principal option \<Rightarrow> moment \<Rightarrow> 's answer serving \<Rightarrow> 's answer serving" where
  "human_group w principal_for_request t = require_human_auth send (hh_sessions (si_human w)) (si_secret w)
     (identity_provider (si_human w)) principal_for_request (mo_now t)"

definition dispatch :: "site \<Rightarrow> 's change_store \<Rightarrow> ('s \<Rightarrow> bool) \<Rightarrow> moment \<Rightarrow> endpoint \<Rightarrow> 's answer serving" where
  "dispatch w S ping t e =
     (if e \<in> set api_endpoints then api_group w t (api_endpoint w S t e)
      else if e \<in> set dashboard_endpoints
      then human_group w (trusted_request_principal (si_human w) (mo_now t)) t (dashboard_endpoint w S t e)
      else if e = Logout then human_group w None t (direct (human_logout (si_human w)))
      else public_endpoint w ping t e)"

definition serve :: "site \<Rightarrow> 's change_store \<Rightarrow> ('s \<Rightarrow> bool) \<Rightarrow> moment \<Rightarrow> http_request \<Rightarrow> 's answer" where
  "serve w S ping t rq =
     request_id (mo_fresh t) (\<lambda>cx rq. case find_route (si_match w) (rq_method rq) (rq_path rq) of
         NotFound \<Rightarrow> send (http_error ''404 page not found'' 404)
       | MethodNotAllowed \<Rightarrow> send \<lparr>rs_status = 405, rs_location = [], rs_cookies = [], rs_body = NoBody\<rparr>
       | Routed e i \<Rightarrow> dispatch w S ping t e cx (rq\<lparr>rq_id := i\<rparr>)) empty_context rq"

end
