(* ===== verification/RouterGate.thy ===== *)
theory RouterGate
  imports Router
begin

section \<open>Who can write, and under which name\<close>

text \<open>
  Every endpoint appends at most, in the name of the principal the middleware established; reads
  and rejected requests leave the registry alone. The lemmas hold over any store that keeps the
  contract; the last subsection reads off which requests get to a write at all.
\<close>

subsection \<open>What the parsers give the service\<close>

lemma record_tag_loop_distinct:
  "record_tag_loop quote n ls tags = Inr m \<Longrightarrow> distinct (map fst tags) \<Longrightarrow> distinct (map fst m)"
  by (induction quote n ls tags rule: record_tag_loop.induct)
    (auto simp: Let_def distinct_update split: prod.splits if_splits)

lemma create_change_request_user:
  assumes "create_change_request quote form user = Inr req"
  shows "request_user req = user \<and> distinct (map fst (cr_tags req))"
proof -
  from assms obtain tags where t: "parse_record_change_tags quote (rf_tags form) = Inr tags"
      and u: "request_user req = user" and tags: "cr_tags req = tags"
    by (auto simp: create_change_request_def request_user_def split: if_splits sum.splits)
  have "distinct (map fst tags)"
    using t record_tag_loop_distinct [of quote 0 _ "[]" tags] by (auto simp: parse_record_change_tags_def split: if_splits)
  with u tags show ?thesis by simp
qed

lemma parse_dashboard_range_tags: "parse_dashboard_range lib now q (p, f) = (p', f') \<Longrightarrow> lp_tags p' = lp_tags p"
  by (auto simp: parse_dashboard_range_def Let_def split: option.splits if_splits)

lemma apply_history_filters_tags:
  "apply_history_filters q (p, f) = (p', f') \<Longrightarrow> distinct (map fst (lp_tags p)) \<Longrightarrow> distinct (map fst (lp_tags p'))"
  by (auto simp: apply_history_filters_def parse_dashboard_tags_def Let_def fold_add_tag_distinct split: if_splits)

lemma parse_dashboard_request_tags:
  "parse_dashboard_request lib now q = (params, filters) \<Longrightarrow> distinct (map fst (lp_tags params))"
  by (auto simp: parse_dashboard_request_def dashboard_selection_def Let_def zero_list_params_def
      dest!: parse_dashboard_range_tags apply_history_filters_tags split: prod.splits if_splits)

subsection \<open>Attribution\<close>

text \<open>The name an API write is made under: the principal's, else the one the request gives.\<close>

definition identity_given :: "request_context \<Rightarrow> user_identity \<Rightarrow> bool" where
  "identity_given cx u = (\<forall>i. authenticated_api_identity cx = Some i \<longrightarrow> u = i)"

lemma identity_givenI: "identity_given cx (case authenticated_api_identity cx of None \<Rightarrow> u | Some i \<Rightarrow> i)"
  by (simp add: identity_given_def)

text \<open>An action writes only after its form and identity passed, and under that identity.\<close>

definition allowed_by :: "payload response option \<Rightarrow> request_context \<Rightarrow> change_event \<Rightarrow> bool" where
  "allowed_by form cx e = (form = None \<and> (\<exists>u. human_identity cx = Some u \<and> by_user u e))"

context change_store
begin

text \<open>An endpoint answers, keeps the invariant and appends only events that satisfy \<open>P\<close>.\<close>

definition grows_answer :: "(change_event \<Rightarrow> bool) \<Rightarrow> 's answer \<Rightarrow> bool" where
  "grows_answer P a =
     (\<forall>s. inv s \<longrightarrow> (\<exists>r s'. a s = Some (r, s') \<and> inv s' \<and> extends_by P (reg s) (reg s')))"

lemma grows_answerD:
  "grows_answer P a \<Longrightarrow> inv s \<Longrightarrow> \<exists>r s'. a s = Some (r, s') \<and> inv s' \<and> extends_by P (reg s) (reg s')"
  by (simp add: grows_answer_def)

lemma answer_reply: "grows_answer P (answer (reply r))"
  by (simp add: grows_answer_def answer_def reply_def)

lemma answer_pure: "(\<And>s. snd (h s) = s) \<Longrightarrow> grows_answer P (answer h)"
  unfolding grows_answer_def answer_def by (metis extends_by_refl prod.collapse)

lemma answer_send: "grows_answer P (send r)"
  by (simp add: send_def answer_reply)

lemma answer_seq:
  assumes "inv s" "extends_by P (reg s0) (reg s)" "grows_answer P a"
  shows "\<exists>r s'. a s = Some (r, s') \<and> inv s' \<and> extends_by P (reg s0) (reg s')"
  using grows_answerD [OF assms(3,1)] assms(2) by (blast intro: extends_by_trans)

lemma answer_then:
  assumes "\<And>s. grows_at P s m" "\<And>err. grows_answer P (f err)" "\<And>x. grows_answer P (g x)"
  shows "grows_answer P (then_answer m f g)"
  unfolding grows_answer_def
proof (intro allI impI)
  fix s assume inv: "inv s"
  obtain a s1 where m: "m s = (a, s1)" by fastforce
  from grows_atD [OF assms(1) inv m] have s1: "inv s1" "extends_by P (reg s) (reg s1)" by simp_all
  show "\<exists>r s'. then_answer m f g s = Some (r, s') \<and> inv s' \<and> extends_by P (reg s) (reg s')"
    using answer_seq [OF s1 assms(2)] answer_seq [OF s1 assms(3)] m by (cases a) (simp_all add: then_answer_def)
qed

lemma answer_handle_result: "answer (handle_result m f g) = then_answer m (\<lambda>err. answer (f err)) (\<lambda>x. answer (g x))"
  by (rule ext) (simp add: answer_def handle_result_def then_answer_def split: prod.split sum.split)

lemma answer_handle:
  assumes "\<And>s. grows_at P s m" "\<And>err. grows_answer P (answer (f err))" "\<And>x. grows_answer P (answer (g x))"
  shows "grows_answer P (answer (handle_result m f g))"
  unfolding answer_handle_result by (rule answer_then [OF assms])

lemma answer_activity:
  assumes "\<And>err. grows_answer P (f err)" "\<And>x. grows_answer P (g x)"
  shows "grows_answer P (handle_activity (svc_get_activity S i) f g)"
  unfolding grows_answer_def
proof (intro allI impI)
  fix s assume inv: "inv s"
  obtain a s1 where m: "svc_get_activity S i s = Some (a, s1)" and s1: "inv s1" "extends_by P (reg s) (reg s1)"
    using get_activity_run [OF inv, of i] by auto
  show "\<exists>r s'. handle_activity (svc_get_activity S i) f g s = Some (r, s') \<and> inv s' \<and> extends_by P (reg s) (reg s')"
    using answer_seq [OF s1 assms(1)] answer_seq [OF s1 assms(2)] m by (cases a) (simp_all add: handle_activity_def)
qed

lemma answer_service_failed: "grows_answer P (answer (service_failed err))"
  by (simp add: service_failed_def answer_reply)

lemmas answer_intros = answer_reply answer_send answer_then answer_handle answer_activity answer_service_failed
lemmas read_intros = grows_get grows_list_current grows_annotations grows_annotations_batch grows_operation_state

subsection \<open>The API\<close>

lemma api_reads:
  "grows_answer P (answer (api_list_current S cx rq))"
  "grows_answer P (answer (api_get_event S cx rq))"
  "grows_answer P (answer (api_get_event_annotations S cx rq))"
  "grows_answer P (api_get_event_activity S cx rq)"
  unfolding api_list_current_def api_get_event_def api_get_event_annotations_def api_get_event_activity_def
  by (auto intro!: answer_intros read_intros split: sum.split)

lemma api_list_reads: "grows_answer P (answer (api_list_events lib S cx rq))"
  unfolding api_list_events_def
  by (auto intro!: answer_intros grows_list dest: parse_list_params_ok split: sum.split)

lemma api_create_answer:
  assumes "env_uuid en \<noteq> Some []"
    and "\<And>req b. ap_create codec max_json_bytes rq = JsonValue req b \<Longrightarrow> distinct (map fst (cr_tags req))"
  shows "\<exists>u. identity_given cx u \<and> grows_answer (by_user u) (answer (api_create_event codec parse S en cx rq))"
proof (cases "ap_create codec max_json_bytes rq")
  case (JsonValue req b)
  let ?req = "attribute_request cx req"
  have "distinct (map fst (cr_tags ?req))" using assms(2) JsonValue
    by (simp add: attribute_request_def split: option.split)
  then have "grows_answer (by_user (request_user ?req)) (answer (api_create_event codec parse S en cx rq))"
    using assms(1) JsonValue unfolding api_create_event_def svc_create_def
    by (auto intro!: answer_intros grows_create_as)
  moreover have "identity_given cx (request_user ?req)"
    by (simp add: identity_given_def attribute_request_def request_user_def)
  ultimately show ?thesis by blast
next
  case JsonTooLarge
  show ?thesis using identity_givenI [of cx] by (auto simp: api_create_event_def JsonTooLarge intro: answer_reply)
next
  case JsonInvalid
  show ?thesis using identity_givenI [of cx] by (auto simp: api_create_event_def JsonInvalid intro: answer_reply)
qed

lemma api_action_answers:
  assumes u: "env_uuid en \<noteq> Some []"
  shows "\<exists>u. identity_given cx u \<and> grows_answer (by_user u) (answer (api_toggle_star S en cx rq))"
    and "\<exists>u. identity_given cx u \<and> grows_answer (by_user u) (answer (api_toggle_alert S en cx rq))"
proof -
  let ?u = "case authenticated_api_identity cx of None \<Rightarrow> \<lparr>ui_name = ''api'', ui_provider = [], ui_subject = []\<rparr> | Some i \<Rightarrow> i"
  have g: "identity_given cx ?u" by (rule identity_givenI)
  have "grows_answer (by_user ?u) (answer (api_toggle_star S en cx rq))"
    unfolding api_toggle_star_def svc_toggle_star_def
    by (cases "authenticated_api_identity cx") (auto intro!: answer_intros grows_toggle_star u)
  with g show "\<exists>u. identity_given cx u \<and> grows_answer (by_user u) (answer (api_toggle_star S en cx rq))" by blast
  have "grows_answer (by_user ?u) (answer (api_toggle_alert S en cx rq))"
    unfolding api_toggle_alert_def svc_toggle_alert_def
    by (cases "authenticated_api_identity cx") (auto intro!: answer_intros grows_toggle_alert u)
  with g show "\<exists>u. identity_given cx u \<and> grows_answer (by_user u) (answer (api_toggle_alert S en cx rq))" by blast
qed

lemma api_body_answers:
  assumes u: "env_uuid en \<noteq> Some []"
  shows "\<exists>u. identity_given cx u \<and> grows_answer (by_user u) (answer (api_add_event_links codec parse S en cx rq))"
    and "\<exists>u. identity_given cx u \<and> grows_answer (by_user u) (answer (api_close_operation codec parse S en cx rq))"
proof -
  let ?u = "\<lambda>name. case authenticated_api_identity cx of None \<Rightarrow> \<lparr>ui_name = name, ui_provider = [], ui_subject = []\<rparr> | Some i \<Rightarrow> i"
  show "\<exists>u. identity_given cx u \<and> grows_answer (by_user u) (answer (api_add_event_links codec parse S en cx rq))"
  proof (cases "decode_json_request (ap_add_links codec max_json_bytes rq)")
    case (Inl r)
    then show ?thesis using identity_givenI [of cx] by (auto simp: api_add_event_links_def intro: answer_reply)
  next
    case (Inr body)
    obtain name links where b: "body = (name, links)" by fastforce
    have "grows_answer (by_user (?u name)) (answer (api_add_event_links codec parse S en cx rq))"
      unfolding api_add_event_links_def svc_add_links_def Inr b
      by (cases "authenticated_api_identity cx") (auto intro!: answer_intros grows_add_links u)
    with identity_givenI show ?thesis by blast
  qed
  show "\<exists>u. identity_given cx u \<and> grows_answer (by_user u) (answer (api_close_operation codec parse S en cx rq))"
  proof (cases "decode_json_request (ap_close codec max_json_bytes rq)")
    case (Inl r)
    then show ?thesis using identity_givenI [of cx] by (auto simp: api_close_operation_def intro: answer_reply)
  next
    case (Inr body)
    obtain name desc where b: "body = (name, desc)" by fastforce
    have "grows_answer (by_user (?u name)) (answer (api_close_operation codec parse S en cx rq))"
      unfolding api_close_operation_def svc_close_operation_def Inr b
      by (cases "authenticated_api_identity cx") (auto intro!: answer_intros grows_close u)
    with identity_givenI show ?thesis by blast
  qed
qed

subsection \<open>The dashboard\<close>

lemma guarded_answer:
  assumes "\<And>u. form = None \<Longrightarrow> human_identity cx = Some u \<Longrightarrow> grows_answer P (action u)"
  shows "grows_answer P (guarded form cx action)"
  unfolding guarded_def using assms by (auto intro: answer_reply split: option.split)

lemma allowed_answer:
  "form = None \<Longrightarrow> human_identity cx = Some u \<Longrightarrow> grows_answer (by_user u) a \<Longrightarrow> grows_answer (allowed_by form cx) a"
  unfolding grows_answer_def by (metis (mono_tags, lifting) allowed_by_def extends_by_mono)

lemma render_detail_answer: "grows_answer P (render_detail S secret status message links cx rq)"
  unfolding render_detail_def by (intro answer_intros read_intros)

lemma dashboard_action_answers:
  assumes u: "env_uuid en \<noteq> Some []"
  shows "grows_answer (allowed_by (validate_action_form secret cx rq) cx) (dashboard_toggle_star urls S secret en cx rq)"
    and "grows_answer (allowed_by (validate_action_form secret cx rq) cx) (dashboard_toggle_alert urls S secret en cx rq)"
    and "grows_answer (allowed_by (validate_action_form secret cx rq) cx) (dashboard_add_links urls S secret en cx rq)"
    and "grows_answer (allowed_by (validate_action_form secret cx rq) cx) (dashboard_close_operation urls S secret en cx rq)"
proof -
  show "grows_answer (allowed_by (validate_action_form secret cx rq) cx) (dashboard_toggle_star urls S secret en cx rq)"
    unfolding dashboard_toggle_star_def
    by (rule guarded_answer, rule allowed_answer, assumption, assumption) (intro answer_intros grows_toggle_star u)
  show "grows_answer (allowed_by (validate_action_form secret cx rq) cx) (dashboard_toggle_alert urls S secret en cx rq)"
    unfolding dashboard_toggle_alert_def
    by (rule guarded_answer, rule allowed_answer, assumption, assumption) (intro answer_intros grows_toggle_alert u)
  show "grows_answer (allowed_by (validate_action_form secret cx rq) cx) (dashboard_add_links urls S secret en cx rq)"
    unfolding dashboard_add_links_def Let_def
    by (rule guarded_answer, rule allowed_answer, assumption, assumption)
      (auto intro!: answer_intros grows_add_links u render_detail_answer)
  show "grows_answer (allowed_by (validate_action_form secret cx rq) cx) (dashboard_close_operation urls S secret en cx rq)"
    unfolding dashboard_close_operation_def
    by (rule guarded_answer, rule allowed_answer, assumption, assumption) (intro answer_intros grows_close u)
qed

lemma dashboard_create_answer:
  assumes u: "env_uuid en \<noteq> Some []"
  shows "grows_answer (allowed_by (validate_create_event_form secret cx rq) cx)
    (dashboard_create_event quote urls S secret en cx rq)"
  unfolding dashboard_create_event_def Let_def
proof (rule guarded_answer, rule allowed_answer, assumption, assumption)
  fix user assume "human_identity cx = Some user"
  show "grows_answer (by_user user) (case create_change_request quote (record_change_form_from_request rq) user of
      Inl message \<Rightarrow> answer (reply (render_create_event secret 400 (record_change_form_from_request rq) message cx))
    | Inr req \<Rightarrow> then_answer (svc_create (ul_request_uri urls) S en req)
        (\<lambda>err. answer (reply (create_outcome secret (record_change_form_from_request rq) cx err)))
        (\<lambda>event. answer (reply (http_redirect (''/events/'' @ path_escape (ev_id event)) 303))))"
    (is "grows_answer _ (case ?c of Inl m \<Rightarrow> ?bad m | Inr req \<Rightarrow> ?good req)")
  proof (cases ?c)
    case (Inl m)
    then show ?thesis by (simp add: answer_reply)
  next
    case (Inr req)
    then have "request_user req = user" "distinct (map fst (cr_tags req))" by (auto dest: create_change_request_user)
    then show ?thesis using Inr unfolding svc_create_def by (auto intro!: answer_intros grows_create_as u)
  qed
qed

lemma dashboard_reads:
  "grows_answer P (answer (show_create_event secret cx rq))"
  "grows_answer P (detail S secret cx rq)"
  "grows_answer P (answer (dashboard lib S refresh secret now cx rq))"
proof -
  show "grows_answer P (answer (show_create_event secret cx rq))" by (simp add: show_create_event_def answer_reply)
  show "grows_answer P (detail S secret cx rq)" by (simp add: detail_def render_detail_answer)
  obtain params filters where p: "parse_dashboard_request lib now (rq_query rq) = (params, filters)" by fastforce
  have "grows_at P s (list_dashboard_events S params filters)" for s
    using parse_dashboard_request_tags [OF p] unfolding list_dashboard_events_def
    by (auto intro: grows_list_current grows_list)
  moreover have "grows_at P s (fetch_annotations S events)" for s events
    unfolding fetch_annotations_def by (auto intro: grows_ret grows_annotations_batch)
  ultimately show "grows_answer P (answer (dashboard lib S refresh secret now cx rq))"
    unfolding dashboard_def p prod.case by (intro answer_intros read_intros)
qed

end

subsection \<open>The gate\<close>

definition api_writes :: "endpoint list" where
  "api_writes = [ApiCreate, ApiLinks, ApiStar, ApiAlert, ApiClose]"

definition dashboard_writes :: "endpoint list" where
  "dashboard_writes = [DashCreate, DashStar, DashAlert, DashLinks, DashClose]"

definition identity_of :: "principal \<Rightarrow> user_identity" where
  "identity_of p = \<lparr>ui_name = pr_user_name p, ui_provider = pr_provider p, ui_subject = pr_subject p\<rparr>"

text \<open>
  An API write needs the identity the edge vouches for, and then carries it, or an accepted token; a
  dashboard write needs a session of the configured provider, bound to the edge's identity where
  there is one, and the CSRF token of that session, and carries the session's identity.
\<close>

definition api_authorised :: "site \<Rightarrow> moment \<Rightarrow> http_request \<Rightarrow> change_event \<Rightarrow> bool" where
  "api_authorised w t rq ev = (case trusted_principal (trusted_request_principal (si_human w) (mo_now t)) rq of
      Some p \<Rightarrow> by_user (identity_of p) ev
    | None \<Rightarrow> presents_credential (si_tokens w) [] (mo_now t) rq)"

definition human_authorised :: "site \<Rightarrow> moment \<Rightarrow> http_request \<Rightarrow> change_event \<Rightarrow> bool" where
  "human_authorised w t rq ev = (\<exists>session bound.
     read_human_session (hh_sessions (si_human w)) rq (si_secret w) (identity_provider (si_human w)) (mo_now t) = Inr session
     \<and> bind_principal (trusted_request_principal (si_human w) (mo_now t)) rq session = Some bound
     \<and> by_user (identity_of (hs_principal bound)) ev
     \<and> validate_csrf_token (si_secret w) (hs_nonce session) (post_form_value rq ''csrf_token''))"

definition authorised :: "site \<Rightarrow> moment \<Rightarrow> http_request \<Rightarrow> change_event \<Rightarrow> bool" where
  "authorised w t rq ev = (rq_method rq = ''POST'' \<and> (\<exists>e i. find_route (si_match w) ''POST'' (rq_path rq) = Routed e i
     \<and> (e \<in> set api_writes \<and> api_authorised w t rq ev \<or> e \<in> set dashboard_writes \<and> human_authorised w t rq ev)))"

lemma identity_of_context: "authenticated_api_identity (cx\<lparr>cx_api_principal := Some p\<rparr>) = Some (identity_of p)"
  by (simp add: authenticated_api_identity_def api_principal_from_context_def identity_of_def)

lemma bind_principal_nonce: "bind_principal f rq session = Some bound \<Longrightarrow> hs_nonce bound = hs_nonce session"
  by (auto simp: bind_principal_def split: option.splits sum.splits if_splits)

lemma allowed_by_context:
  assumes "allowed_by (validate_form limit secret (cx\<lparr>cx_session := Some bound\<rparr>) rq) (cx\<lparr>cx_session := Some bound\<rparr>) ev"
  shows "by_user (identity_of (hs_principal bound)) ev
    \<and> validate_csrf_token secret (hs_nonce bound) (post_form_value rq ''csrf_token'')"
  using assms
  by (auto simp: allowed_by_def validate_form_def human_identity_def human_session_nonce_def identity_of_def
      human_session_from_context_def split: if_splits option.splits)

lemma find_route_entry:
  assumes "find_route matches verb path = Routed e i"
  shows "\<exists>v pat. (v, pat, e) \<in> set routes \<and> (v = [] \<or> v = verb)"
proof -
  let ?p = "\<lambda>(v, pat, e). matches pat path \<noteq> None" and ?q = "\<lambda>(v, pat, e). v = [] \<or> v = verb"
  from assms obtain x xs where f: "filter ?q (filter ?p routes) = x # xs" and e: "snd (snd x) = e"
    by (auto simp: find_route_def Let_def split: if_splits list.splits prod.splits option.splits)
  have "x \<in> set (filter ?q (filter ?p routes))" unfolding f by simp
  then have "x \<in> set routes" "?q x" by (simp_all only: set_filter mem_Collect_eq)
  with e show ?thesis by (cases x) auto
qed

lemma writes_post: "(v, pat, e) \<in> set routes \<Longrightarrow> e \<in> set api_writes \<or> e \<in> set dashboard_writes \<Longrightarrow> v = ''POST''"
  by (simp add: routes_def api_writes_def dashboard_writes_def) blast

lemma route_post:
  assumes "find_route matches verb path = Routed e i" "e \<in> set api_writes \<or> e \<in> set dashboard_writes"
  shows "verb = ''POST''"
  using find_route_entry [OF assms(1)] writes_post [OF _ assms(2)] by auto

text \<open>The route's identifier has no part in authentication.\<close>

lemma beyond_request_id: "beyond_authenticate_request b now (rq\<lparr>rq_id := i\<rparr>) = beyond_authenticate_request b now rq"
proof -
  have h: "rq_header (rq\<lparr>rq_id := i\<rparr>) = rq_header rq" by simp
  show ?thesis by (simp only: beyond_authenticate_request_def h)
qed

lemma trusted_request_id:
  "trusted_principal (trusted_request_principal h now) (rq\<lparr>rq_id := i\<rparr>) = trusted_principal (trusted_request_principal h now) rq"
  "bind_principal (trusted_request_principal h now) (rq\<lparr>rq_id := i\<rparr>) session = bind_principal (trusted_request_principal h now) rq session"
  by (simp_all add: trusted_principal_def bind_principal_def trusted_request_principal_def beyond_request_id split: login_mode.split)

lemma credential_id: "presents_credential tokens secret now (rq\<lparr>rq_id := i\<rparr>) = presents_credential tokens secret now rq"
  by (simp add: presents_credential_def validate_session_cookie_def)

lemma api_authorised_id: "api_authorised w t (rq\<lparr>rq_id := i\<rparr>) = api_authorised w t rq"
  by (rule ext) (simp add: api_authorised_def trusted_request_id credential_id split: option.split)

lemma human_authorised_id: "human_authorised w t (rq\<lparr>rq_id := i\<rparr>) = human_authorised w t rq"
  by (rule ext) (simp add: human_authorised_def trusted_request_id read_human_session_def post_form_value_def)

text \<open>A decoded JSON object is a Go map: its keys are distinct.\<close>

definition codec_ok :: "api_codec \<Rightarrow> bool" where
  "codec_ok codec = (\<forall>n rq req b. ap_create codec n rq = JsonValue req b \<longrightarrow> distinct (map fst (cr_tags req)))"

context change_store
begin

lemma grows_answer_mono: "grows_answer P a \<Longrightarrow> (\<And>ev. P ev \<Longrightarrow> Q ev) \<Longrightarrow> grows_answer Q a"
  unfolding grows_answer_def by (metis (mono_tags, lifting) extends_by_mono)

lemma api_read_endpoint: "e \<notin> set api_writes \<Longrightarrow> grows_answer P (api_endpoint w S t e cx rq)"
  by (cases e) (simp_all add: api_endpoint_def api_writes_def direct_def api_reads api_list_reads answer_send)

lemma api_write_endpoint:
  assumes "env_uuid (mo_env t) \<noteq> Some []" "codec_ok (si_codec w)" "e \<in> set api_writes"
  shows "\<exists>u. identity_given cx u \<and> grows_answer (by_user u) (api_endpoint w S t e cx rq)"
proof -
  have c: "distinct (map fst (cr_tags req))" if "ap_create (si_codec w) max_json_bytes rq = JsonValue req b" for req b
    using that assms(2) unfolding codec_ok_def by blast
  note create = api_create_answer [where codec = "si_codec w" and rq = rq, OF assms(1) c]
  show ?thesis
    using assms(3) create api_action_answers [OF assms(1)] api_body_answers [OF assms(1)]
    by (auto simp: api_writes_def api_endpoint_def direct_def)
qed

lemma api_group_answer:
  assumes u: "env_uuid (mo_env t) \<noteq> Some []" and c: "codec_ok (si_codec w)"
    and m: "e \<in> set api_writes \<Longrightarrow> rq_method rq = ''POST''"
  shows "grows_answer (\<lambda>ev. e \<in> set api_writes \<and> api_authorised w t rq ev) (api_group w t (api_endpoint w S t e) cx rq)"
proof (cases "e \<in> set api_writes")
  case False
  show ?thesis unfolding api_group_def auth_with_trusted_identity_eq
    by (auto simp: api_read_endpoint [OF False] answer_send split: option.split)
next
  case True
  have read: "\<not> is_read rq" using m [OF True] by (simp add: is_read_def)
  show ?thesis
  proof (cases "trusted_principal (trusted_request_principal (si_human w) (mo_now t)) rq")
    case (Some p)
    obtain v where v: "identity_given (cx\<lparr>cx_api_principal := Some p\<rparr>) v"
        "grows_answer (by_user v) (api_endpoint w S t e (cx\<lparr>cx_api_principal := Some p\<rparr>) rq)"
      using api_write_endpoint [OF u c True] by blast
    then have "grows_answer (by_user (identity_of p)) (api_endpoint w S t e (cx\<lparr>cx_api_principal := Some p\<rparr>) rq)"
      by (simp add: identity_given_def identity_of_context)
    then show ?thesis using True Some read
      by (simp add: api_group_def auth_with_trusted_identity_eq api_authorised_def)
  next
    case None
    obtain v where "grows_answer (by_user v) (api_endpoint w S t e cx rq)"
      using api_write_endpoint [OF u c True] by blast
    then have "presents_credential (si_tokens w) [] (mo_now t) rq \<Longrightarrow>
        grows_answer (\<lambda>ev. presents_credential (si_tokens w) [] (mo_now t) rq) (api_endpoint w S t e cx rq)"
      by (rule grows_answer_mono)
    then show ?thesis using True None read
      by (simp add: api_group_def auth_with_trusted_identity_eq api_authorised_def answer_send)
  qed
qed

lemma dashboard_endpoint_answer:
  assumes "env_uuid (mo_env t) \<noteq> Some []"
  shows "grows_answer (\<lambda>ev. e \<in> set dashboard_writes
      \<and> allowed_by (validate_form (if e = DashCreate then max_record_form_bytes else max_form_bytes) (si_secret w) cx rq) cx ev)
    (dashboard_endpoint w S t e cx rq)"
proof (cases "e \<in> set dashboard_writes")
  case False
  then show ?thesis
    by (cases e) (simp_all add: dashboard_endpoint_def dashboard_writes_def direct_def dashboard_reads answer_send)
next
  case True
  then show ?thesis
    using dashboard_action_answers [OF assms, unfolded validate_action_form_def]
      dashboard_create_answer [OF assms, unfolded validate_create_event_form_def]
    by (auto simp: dashboard_writes_def dashboard_endpoint_def)
qed

lemma human_group_answer:
  assumes "env_uuid (mo_env t) \<noteq> Some []"
  shows "grows_answer (\<lambda>ev. e \<in> set dashboard_writes \<and> human_authorised w t rq ev)
    (human_group w (trusted_request_principal (si_human w) (mo_now t)) t (dashboard_endpoint w S t e) cx rq)"
proof (cases "read_human_session (hh_sessions (si_human w)) rq (si_secret w) (identity_provider (si_human w)) (mo_now t)")
  case (Inl err)
  then show ?thesis by (simp add: human_group_def require_human_auth_def answer_send)
next
  case (Inr session)
  show ?thesis
  proof (cases "bind_principal (trusted_request_principal (si_human w) (mo_now t)) rq session")
    case None
    with Inr show ?thesis by (simp add: human_group_def require_human_auth_def answer_send)
  next
    case (Some bound)
    let ?cx = "cx\<lparr>cx_session := Some bound\<rparr>"
    from dashboard_endpoint_answer [OF assms]
    have "grows_answer (\<lambda>ev. e \<in> set dashboard_writes \<and> human_authorised w t rq ev) (dashboard_endpoint w S t e ?cx rq)"
      by (rule grows_answer_mono)
        (use Inr Some bind_principal_nonce [OF Some] in \<open>auto simp: human_authorised_def dest: allowed_by_context\<close>)
    with Inr Some show ?thesis by (simp add: human_group_def require_human_auth_def)
  qed
qed

lemma public_endpoint_answer: "grows_answer P (public_endpoint w ping t e cx rq)"
  by (cases e)
    (simp_all add: public_endpoint_def direct_def api_liveness_def api_readiness_def api_health_check_def
      show_login_def human_start_def human_callback_def answer_reply answer_send answer_pure)

lemma dispatch_answer:
  assumes "env_uuid (mo_env t) \<noteq> Some []" and "codec_ok (si_codec w)"
    and "e \<in> set api_writes \<Longrightarrow> rq_method rq = ''POST''"
  shows "grows_answer (\<lambda>ev. e \<in> set api_writes \<and> api_authorised w t rq ev \<or> e \<in> set dashboard_writes \<and> human_authorised w t rq ev)
    (dispatch w S ping t e cx rq)"
proof -
  have logout: "grows_answer P (human_group w None t (direct (human_logout (si_human w))) cx rq)" for P
    unfolding human_group_def require_human_auth_def direct_def human_logout_def
    by (auto simp: answer_reply answer_send split: sum.split option.split)
  let ?P = "\<lambda>ev. e \<in> set api_writes \<and> api_authorised w t rq ev \<or> e \<in> set dashboard_writes \<and> human_authorised w t rq ev"
  have "grows_answer ?P (api_group w t (api_endpoint w S t e) cx rq)"
    by (rule grows_answer_mono, rule api_group_answer [OF assms]) auto
  moreover have "grows_answer ?P (human_group w (trusted_request_principal (si_human w) (mo_now t)) t
      (dashboard_endpoint w S t e) cx rq)"
    by (rule grows_answer_mono, rule human_group_answer [OF assms(1)]) auto
  ultimately show ?thesis
    using logout public_endpoint_answer unfolding dispatch_def by simp
qed

lemma serve_answer:
  assumes "env_uuid (mo_env t) \<noteq> Some []" and "codec_ok (si_codec w)"
  shows "grows_answer (authorised w t rq) (serve w S ping t rq)"
proof (cases "find_route (si_match w) (rq_method rq) (rq_path rq)")
  case (Routed e i)
  have "grows_answer (authorised w t rq) (dispatch w S ping t e cx (rq\<lparr>rq_id := i\<rparr>))" for cx
    by (rule grows_answer_mono, rule dispatch_answer [OF assms])
      (use Routed route_post [OF Routed] in \<open>auto simp: authorised_def api_authorised_id human_authorised_id\<close>)
  then show ?thesis by (simp add: serve_def request_id_def Let_def Routed)
qed (simp_all add: serve_def request_id_def Let_def answer_send)

end

end
