(* ===== verification/WebExample.thy ===== *)
theory WebExample
  imports RouterGate Example
begin

section \<open>A small site\<close>

text \<open>
  A configured server in front of the small registry, with a provider that signs everyone in as one
  user, and requests to it. The JSON codecs are constant functions: they read one value.
\<close>

definition demo_principal :: principal where
  "demo_principal = \<lparr>pr_provider = ''github'', pr_subject = ''7'', pr_user_name = ''bob'', pr_display_name = ''Bob'',
     pr_profile_checked_at = Some 0, pr_authorized_via = ''any''\<rparr>"

definition demo_opts :: human_session_options where
  "demo_opts = \<lparr>ho_secret = ''secret'', ho_secure = True, ho_duration = hour\<rparr>"

definition demo_session :: human_session where
  "demo_session = new_human_session demo_opts demo_principal ''nonce'' 0"

definition demo_sessions :: "human_session json_codec" where
  "demo_sessions = \<lparr>jc_marshal = (\<lambda>_. Some ''s''), jc_unmarshal = (\<lambda>_. Some demo_session)\<rparr>"

definition no_request :: http_request where
  "no_request = \<lparr>rq_method = ''GET'', rq_path = ''/'', rq_uri = ''/'', rq_query = [], rq_header = (\<lambda>_. []),
     rq_cookie = (\<lambda>_. None), rq_id = [], rq_body_bytes = 0, rq_post_form = Some []\<rparr>"

definition demo_authenticator :: authenticator where
  "demo_authenticator = \<lparr>au_name = ''github'', au_identity_provider = ''github'',
     au_authorization_url = (\<lambda>state challenge nonce. ''https://github.com/login'' @ state),
     au_authenticate = (\<lambda>now code verifier nonce. Inr demo_principal)\<rparr>"

definition demo_flow :: oauth_flow where
  "demo_flow = new_flow demo_authenticator (base64_encode ''a'') (base64_encode ''b'') (base64_encode ''c'')
     (return_target demo_parser no_request) 0"

definition demo_flows :: "oauth_flow json_codec" where
  "demo_flows = \<lparr>jc_marshal = (\<lambda>_. Some ''f''), jc_unmarshal = (\<lambda>_. Some demo_flow)\<rparr>"

definition demo_human :: human_auth where
  "demo_human = \<lparr>hh_mode = OAuthLogin demo_authenticator, hh_secret = ''secret'', hh_secure = True,
     hh_duration = hour, hh_flows = demo_flows, hh_sessions = demo_sessions\<rparr>"

definition demo_codec :: api_codec where
  "demo_codec = \<lparr>ap_create = (\<lambda>limit rq. JsonValue demo_request True),
     ap_add_links = (\<lambda>limit rq. JsonInvalid), ap_close = (\<lambda>limit rq. JsonValue (''eve'', []) True)\<rparr>"

definition demo_time :: time_lib where
  "demo_time = \<lparr>tl_rfc3339 = (\<lambda>s. Some 0), tl_local = (\<lambda>s. None), tl_duration = (\<lambda>s. Some hour)\<rparr>"

text \<open>A matcher that compares segment by segment: the value of \<^verbatim>\<open>{id}\<close> when the segments of a pattern match those of a path.\<close>

fun match_segments :: "string list \<Rightarrow> string list \<Rightarrow> string \<Rightarrow> string option" where
  "match_segments [] [] i = Some i"
| "match_segments (p # ps) segs i =
     (if p = ''*'' then Some i
      else case segs of
          [] \<Rightarrow> None
        | seg # rest \<Rightarrow>
            (if p = ''{id}'' then (if seg = [] \<and> rest = [] then None else match_segments ps rest seg)
             else if p = seg then match_segments ps rest i else None))"
| "match_segments [] (seg # segs) i = None"

definition match_pattern :: "string \<Rightarrow> string \<Rightarrow> string option" where
  "match_pattern pattern path = match_segments (split_on CHR ''/'' pattern) (split_on CHR ''/'' path) []"

definition demo_site :: site where
  "demo_site = \<lparr>si_match = match_pattern, si_tokens = [''letmein''], si_require_auth_reads = True, si_secret = ''secret'', si_refresh = 60,
     si_human = demo_human, si_urls = \<lparr>ul_parse = demo_parser, ul_request_uri = demo_parser\<rparr>,
     si_codec = demo_codec, si_time = demo_time, si_quote = (\<lambda>s. s),
     si_static = (\<lambda>rq. http_error ''404 page not found'' 404)\<rparr>"

definition demo_moment :: moment where
  "demo_moment = \<lparr>mo_env = demo_env, mo_draws = [], mo_random = Some ''nonce'', mo_fresh = ''r1''\<rparr>"

text \<open>A star posted to the API, without and with a token.\<close>

definition anonymous_star :: http_request where
  "anonymous_star = no_request\<lparr>rq_method := ''POST'', rq_path := ''/api/v1/events/e1/star''\<rparr>"

definition token_star :: http_request where
  "token_star = anonymous_star\<lparr>rq_header := (\<lambda>h. if h = ''Authorization'' then ''Bearer letmein'' else [])\<rparr>"

lemma demo_codec_ok: "codec_ok demo_codec"
  by (auto simp: codec_ok_def demo_codec_def demo_request_def)

lemma demo_moment_uuid: "env_uuid (mo_env demo_moment) \<noteq> Some []"
  by (simp add: demo_moment_def)

lemma demo_site_sel [simp]:
  "si_codec demo_site = demo_codec" "si_tokens demo_site = [''letmein'']" "si_human demo_site = demo_human"
  "si_secret demo_site = ''secret''" "si_require_auth_reads demo_site = True"
  by (simp_all add: demo_site_def)

lemma anonymous_request [simp]:
  "rq_cookie anonymous_star name = None" "rq_header anonymous_star name = []" "rq_query anonymous_star = []"
  by (simp_all add: anonymous_star_def no_request_def)

lemma demo_untrusted [simp]: "trusted_request_principal demo_human now = None"
  by (simp add: trusted_request_principal_def demo_human_def)

lemma anonymous_not_authorised: "\<not> authorised demo_site t anonymous_star ev"
  by (auto simp: authorised_def api_authorised_def trusted_principal_def presents_credential_def q_get_def q_all_def
      human_authorised_def read_human_session_def)

lemma demo_opts_sel [simp]: "ho_secret demo_opts = ''secret''" "ho_duration demo_opts = hour" "ho_secure demo_opts"
  by (simp_all add: demo_opts_def)

lemma demo_principal_sel [simp]: "pr_provider demo_principal = ''github''" "principal_valid demo_principal"
  by (simp_all add: demo_principal_def principal_valid_def)

lemma demo_cookie: "\<exists>c. human_session_cookie demo_sessions demo_opts demo_principal (Some ''nonce'') 0 = Inr c"
  by (simp add: human_session_cookie_def hour_def minute_def second_def encode_human_session_def demo_sessions_def Let_def)

lemma demo_signed_in:
  "\<exists>c. human_session_cookie demo_sessions demo_opts demo_principal (Some ''nonce'') 0 = Inr c
    \<and> read_human_session demo_sessions (no_request\<lparr>rq_cookie := (\<lambda>_. Some (ck_value c))\<rparr>) ''secret'' ''github'' second
        = Inr demo_session"
proof -
  obtain c where c: "human_session_cookie demo_sessions demo_opts demo_principal (Some ''nonce'') 0 = Inr c"
    using demo_cookie by blast
  have "read_human_session demo_sessions (no_request\<lparr>rq_cookie := (\<lambda>_. Some (ck_value c))\<rparr>) (ho_secret demo_opts) ''github'' second
      = Inr (new_human_session demo_opts demo_principal ''nonce'' 0)"
    by (subst human_session_read_back [OF c]) (simp_all add: demo_sessions_def demo_session_def hour_def minute_def second_def)
  with c show ?thesis by (simp add: demo_session_def)
qed

text \<open>A sign-in: the flow cookie of a start, and the callback that returns it.\<close>

definition demo_start_reply :: "payload response" where
  "demo_start_reply = start_oauth demo_parser demo_human demo_authenticator [Some ''a'', Some ''b'', Some ''c''] 0 no_request"

definition demo_flow_cookie :: cookie where
  "demo_flow_cookie = hd (rs_cookies demo_start_reply)"

definition demo_callback :: http_request where
  "demo_callback = no_request\<lparr>rq_query := [(''state'', [base64_encode ''a'']), (''code'', [''code''])],
     rq_cookie := (\<lambda>name. if name = flow_cookie_name then Some (ck_value demo_flow_cookie) else None)\<rparr>"

lemma demo_mode: "hh_mode demo_human = OAuthLogin demo_authenticator"
  by (simp add: demo_human_def)

lemma demo_start_cookie: "rs_cookies (start_oauth demo_parser demo_human demo_authenticator [Some ''a'', Some ''b'', Some ''c''] 0 no_request)
    = [demo_flow_cookie]"
  by (simp add: demo_flow_cookie_def demo_start_reply_def start_oauth_def random_url_token_def Let_def encode_oauth_flow_def
      demo_human_def demo_flows_def with_cookie_def http_redirect_def)

lemma demo_flow_codec:
  "jc_marshal (hh_flows demo_human) (new_flow demo_authenticator (base64_encode ''a'') (base64_encode ''b'') (base64_encode ''c'')
     (return_target demo_parser no_request) 0) = Some ''f''"
  "jc_unmarshal (hh_flows demo_human) ''f'' = Some (new_flow demo_authenticator (base64_encode ''a'') (base64_encode ''b'')
     (base64_encode ''c'') (return_target demo_parser no_request) 0)"
  by (simp_all add: demo_human_def demo_flows_def demo_flow_def)

lemma demo_callback_cookie: "rq_cookie demo_callback flow_cookie_name = Some (ck_value demo_flow_cookie)"
  by (simp add: demo_callback_def)

lemma demo_return: "return_target demo_parser no_request = ''/''"
  by (simp add: return_target_def local_redirect_target_def no_request_def demo_parser_def has_prefix_def request_uri_def
      escaped_path_def path_char_def parse_query_def parse_segment_def encode_values_def value_pairs_def)

lemma demo_query: "q_get (rq_query demo_callback) ''error'' = []" "q_get (rq_query demo_callback) ''state'' = base64_encode ''a''"
    "q_get (rq_query demo_callback) ''code'' = ''code''" "q_get (rq_query demo_callback) ''code'' \<noteq> []"
  by (simp_all add: demo_callback_def q_get_def q_all_def)

lemma demo_callback_session:
  "\<exists>c. c \<in> set (rs_cookies (fst (human_callback demo_human (Some ''nonce'') second empty_context demo_callback ())))
    \<and> ck_name c = session_cookie_name"
proof -
  have t: "(0::instant) \<le> second" "second < 0 + 10 * minute" by (simp_all add: second_def minute_def)
  have p: "au_authenticate demo_authenticator second (q_get (rq_query demo_callback) ''code'') (base64_encode ''b'') (base64_encode ''c'')
      = Inr demo_principal" by (simp add: demo_authenticator_def)
  obtain c where c: "human_session_cookie (hh_sessions demo_human) (human_session_options_of demo_human) demo_principal (Some ''nonce'') second = Inr c"
    by (simp add: human_session_cookie_def human_session_options_of_def demo_human_def hour_def minute_def second_def
        encode_human_session_def demo_sessions_def Let_def)
  have "fst (human_callback demo_human (Some ''nonce'') second empty_context demo_callback ())
      = with_cookie (clear_flow_cookie demo_human) (start_session demo_human demo_principal (Some ''nonce'') second ''/'')"
    using callback_after_start [OF demo_mode _ _ _ refl demo_start_cookie demo_flow_codec demo_callback_cookie demo_query(1,2,4) t p, of "Some ''nonce''" empty_context "()"]
    by (simp add: demo_return)
  then show ?thesis using c human_session_cookie_name [OF c] by (auto simp: start_session_def with_cookie_def)
qed

end
