(* ===== verification/ApiProperties.thy ===== *)
theory ApiProperties
  imports WebExample
begin

section \<open>Properties of the JSON API\<close>

text \<open>What the status of an API answer says about the registry, end to end over the PostgreSQL tables.\<close>

subsection \<open>What the API answers\<close>

lemma negative_offset_fails:
  "lp_offset p < 0 \<Longrightarrow> fst (pg_list p s) \<noteq> Inr x" "cp_offset q < 0 \<Longrightarrow> fst (pg_list_current q s) \<noteq> Inr x"
  by (auto simp: pg_list_def pg_list_current_def and_then_def with_state_def throw_def Let_def split: prod.splits sum.splits)

text \<open>
  C24: GET /api/v1/events. A query the parser refuses is answered 400 with the parser's message; any
  other is answered with exactly the page of the registry its filters select, newest first, of at most
  200 events, with the total, or with the opaque internal error; with no failing round trip and an
  offset that is not negative it is the page, and with a negative offset it is the internal error. The
  registry is not changed.
\<close>

theorem api_list_answers:
  assumes "pg_inv s"
  shows "\<exists>response s'. api_list_events lib pg_store cx rq s = (response, s') \<and> pg_registry s' = pg_registry s
    \<and> (case parse_list_params lib (rq_query rq) of
        Inl err \<Rightarrow> response = json_error 400 (pe_code err) (pe_message err)
      | Inr p \<Rightarrow> (let events = take (nat (effective_limit (lp_limit p))) (drop (nat (lp_offset p)) (selection (pg_registry s) p)) in
          response = respond 200 (ListBody \<lparr>lr_events = events,
            lr_total_count = int (length (selection (pg_registry s) p)), lr_limit = effective_limit (lp_limit p), lr_offset = lp_offset p\<rparr>)
            \<and> 0 \<le> lp_offset p
          \<or> response = api_internal_error \<and> (pg_ready s \<longrightarrow> lp_offset p < 0)))"
proof (cases "parse_list_params lib (rq_query rq)")
  case (Inl err)
  then show ?thesis by (simp add: api_list_events_def reply_def)
next
  case (Inr p)
  from parse_list_params_ok [OF Inr] have d: "distinct (map fst (lp_tags p))" by simp
  obtain r s' where run: "svc_list pg_store p s = (r, s')" by fastforce
  note L = pgs.svc_list_run [OF assms d run]
  show ?thesis
  proof (cases r)
    case (Inl err)
    have "lp_offset p < 0" if "pg_ready s"
      using live_pgs.svc_list_live [OF assms that d] run Inl by (cases "0 \<le> lp_offset p") auto
    with Inl Inr run L show ?thesis by (simp add: api_list_events_def handle_result_def reply_def)
  next
    case (Inr x)
    with run have "0 \<le> lp_offset p"
      using negative_offset_fails(1) [of "p\<lparr>lp_limit := effective_limit (lp_limit p)\<rparr>" s x]
      by (cases "lp_offset p < 0") (simp_all add: svc_list_def)
    moreover have "x = list_spec (pg_registry s) p" using L Inr by simp
    ultimately show ?thesis using \<open>parse_list_params lib (rq_query rq) = Inr p\<close> Inr run L
      by (simp add: api_list_events_def handle_result_def reply_def list_spec_def result_page_def page_of_def
          selection_def length_selection [unfolded selection_def] Let_def)
  qed
qed

lemma demo_list_query: "parse_list_params lib (rq_query no_request) = Inr zero_list_params"
  by (simp add: no_request_def parse_list_params_def parse_rfc3339_param_def parse_around_window_def parse_tag_params_def
      parse_int_param_def q_get_def q_all_def zero_list_params_def)

theorem api_list_answers_witness:
  "\<exists>s'. api_list_events demo_time pg_store empty_context no_request demo_pg
    = (respond 200 (ListBody \<lparr>lr_events = selection (pg_registry demo_pg) zero_list_params, lr_total_count = 3,
        lr_limit = 50, lr_offset = 0\<rparr>), s')"
proof -
  have len: "length (selection (pg_registry demo_pg) zero_list_params) = 3"
    by (simp add: length_selection demo_registry event_selected_def in_time_window_def zero_list_params_def)
  have z: "lp_limit zero_list_params = 0" "lp_offset zero_list_params = 0" "effective_limit 0 = 50"
    by (simp_all add: zero_list_params_def effective_limit_def default_limit_def)
  from api_list_answers [OF demo_inv, of demo_time empty_context no_request] show ?thesis
    unfolding demo_list_query using len demo_ready by (simp add: z Let_def) (elim exE conjE, rule exI)
qed

text \<open>
  C25: POST /api/v1/events. The status says what happened: 201 exactly when one event was appended, the
  event in the body, with its location; 200 exactly when the external identifier was already taken, with
  the event that holds it; every other answer is 400, 404, 409, 413 or 500 and nothing was stored. When
  the request was authenticated as a principal the stored event is attributed to it, whatever the body
  says. The decoder is only assumed to give a tag map with distinct keys.
\<close>

theorem api_create_answers:
  assumes "pg_inv s" and "env_uuid en \<noteq> Some []"
    and "codec_ok codec"
    and "api_create_event codec parse pg_store en cx rq s = (response, s')"
  shows "(rs_status response = 201 \<and> (\<exists>e. pg_registry s' = pg_registry s @ [e] \<and> rs_body response = Payload (EventBody (Some e))
        \<and> rs_location response = ''/api/v1/events/'' @ ev_id e
        \<and> (\<forall>p. api_principal_from_context cx = Some p \<longrightarrow>
             ev_user_name e = pr_user_name p \<and> ev_user_provider e = pr_provider p \<and> ev_user_subject e = pr_subject p)))
    \<or> (rs_status response = 200 \<and> pg_registry s' = pg_registry s
        \<and> (\<exists>x e. x \<noteq> [] \<and> find_by_external_id (pg_registry s) x = Some e \<and> rs_body response = Payload (EventBody (Some e))))
    \<or> (rs_status response \<in> {400, 404, 409, 413, 500} \<and> pg_registry s' = pg_registry s)"
proof (cases "ap_create codec max_json_bytes rq")
  case JsonTooLarge
  with assms(4) show ?thesis by (auto simp: api_create_event_def reply_def body_too_large_def)
next
  case JsonInvalid
  with assms(4) show ?thesis by (auto simp: api_create_event_def reply_def invalid_body_def)
next
  case (JsonValue req b)
  let ?req = "attribute_request cx req"
  have d: "distinct (map fst (cr_tags ?req))"
    using assms(3) JsonValue unfolding codec_ok_def by (auto simp: attribute_request_def split: option.split)
  obtain r s1 where run: "svc_create_with parse pg_store True en ?req s = (r, s1)" by fastforce
  have answer: "(response, s') = (case r of Inl err \<Rightarrow> (create_failed err, s1) | Inr e \<Rightarrow> (created_event e, s1))"
    using assms(4) run JsonValue by (simp add: api_create_event_def handle_result_def reply_def svc_create_def split: sum.splits)
  show ?thesis
  proof (cases r)
    case (Inl err)
    note L = pgs.create_with_Inl [OF assms(1) d assms(2) run [unfolded Inl]]
    show ?thesis
    proof (cases "\<exists>y. err = ErrDuplicate y")
      case True
      then obtain y where y: "err = ErrDuplicate y" by blast
      with L obtain e where e: "y = Some e" "find_by_external_id (pg_registry s) (cr_external_id ?req) = Some e"
          "cr_external_id ?req \<noteq> []" "pg_registry s1 = pg_registry s" by (cases y) simp_all
      have resp: "response = respond 200 (EventBody (Some e))" "s' = s1"
        using answer Inl y e(1) by (simp_all add: create_failed_def)
      have "rs_status response = 200" "rs_body response = Payload (EventBody (Some e))"
        unfolding resp(1) respond_def by simp_all
      with resp(2) e show ?thesis by blast
    next
      case False
      then have "create_failed err = map_service_error err" by (cases err) (simp_all add: create_failed_def)
      moreover have "rs_status (map_service_error err) \<in> {400, 404, 409, 413, 500}"
        by (cases err) (simp_all add: map_service_error_def)
      ultimately show ?thesis using L answer Inl by simp
    qed
  next
    case (Inr e)
    obtain i event_type tags where e: "e = stored_event (new_event en i ?req event_type tags)" and reg: "pg_registry s1 = pg_registry s @ [e]"
      by (rule pgs.create_with_Inr [OF assms(1) d assms(2) run [unfolded Inr]])
    have "by_user (request_user ?req) e" unfolding e by (rule stored_by_request_user)
    then have "ev_user_name e = pr_user_name p \<and> ev_user_provider e = pr_provider p \<and> ev_user_subject e = pr_subject p"
      if "api_principal_from_context cx = Some p" for p
      using that by (simp add: by_user_def request_user_def attribute_request_def authenticated_api_identity_def)
    moreover have resp: "response = created_event e" "s' = s1" using answer Inr by simp_all
    moreover have "rs_status response = 201" "rs_body response = Payload (EventBody (Some e))"
        "rs_location response = ''/api/v1/events/'' @ ev_id e"
      unfolding resp(1) created_event_def respond_def by simp_all
    ultimately show ?thesis using reg by blast
  qed
qed

lemma attribute_request_sel [simp]:
  "cr_links (attribute_request cx req) = cr_links req" "cr_tags (attribute_request cx req) = cr_tags req"
  "cr_event_type (attribute_request cx req) = cr_event_type req" "cr_external_id (attribute_request cx req) = cr_external_id req"
  "cr_parent_id (attribute_request cx req) = cr_parent_id req"
  by (simp_all add: attribute_request_def split: option.split)

lemma demo_attributed:
  "validate_create_request demo_parser (attribute_request (empty_context\<lparr>cx_api_principal := Some demo_principal\<rparr>) demo_request) True
    = validate_create_request demo_parser demo_request True"
proof -
  have "cr_user_name (attribute_request (empty_context\<lparr>cx_api_principal := Some demo_principal\<rparr>) demo_request) = cr_user_name demo_request"
    by (simp add: attribute_request_def authenticated_api_identity_def api_principal_from_context_def demo_principal_def demo_request_def)
  then show ?thesis by (simp only: validate_create_request_def attribute_request_sel)
qed

theorem api_create_answers_witness:
  "\<exists>response s' e. api_create_event demo_codec demo_parser pg_store demo_env
      (empty_context\<lparr>cx_api_principal := Some demo_principal\<rparr>) no_request demo_pg = (response, s')
    \<and> rs_status response = 201 \<and> pg_registry s' = pg_registry demo_pg @ [e] \<and> ev_user_provider e = pr_provider demo_principal"
proof -
  let ?cx = "empty_context\<lparr>cx_api_principal := Some demo_principal\<rparr>"
  have codec: "ap_create demo_codec max_json_bytes no_request = JsonValue demo_request True" by (simp add: demo_codec_def)
  have "\<exists>s'. svc_create_with demo_parser pg_store True demo_env (attribute_request ?cx demo_request) demo_pg =
      (Inr (stored_event (new_event demo_env ''e9'' (attribute_request ?cx demo_request) ''note'' [(''severity'', ''sev2'')])), s') \<and> pg_ready s'"
    by (rule live_pgs.create_with_live [OF demo_inv demo_ready _ demo_attributed [unfolded demo_request_valid]])
      (simp_all add: attribute_request_def authenticated_api_identity_def api_principal_from_context_def demo_request_def
        zero_create_request_def demo_registry registry_ids_def find_by_external_id_def)
  then obtain e s' where "svc_create_with demo_parser pg_store True demo_env (attribute_request ?cx demo_request) demo_pg = (Inr e, s')"
    by (elim exE conjE) (rule that)
  then have run: "api_create_event demo_codec demo_parser pg_store demo_env ?cx no_request demo_pg = (created_event e, s')"
    by (simp add: api_create_event_def codec handle_result_def reply_def svc_create_def)
  have status: "rs_status (created_event e) = 201" by (simp add: created_event_def respond_def)
  have p: "api_principal_from_context ?cx = Some demo_principal" by (simp add: api_principal_from_context_def)
  from api_create_answers [OF demo_inv demo_uuid demo_codec_ok run] p obtain x where
    "pg_registry s' = pg_registry demo_pg @ [x]" "ev_user_provider x = pr_provider demo_principal"
    unfolding status by auto
  with run status show ?thesis by blast
qed

end
