(* ===== verification/WebProperties.thy ===== *)
theory WebProperties
  imports WebExample
begin

section \<open>Properties of the web server\<close>

text \<open>The properties of the server's HTTP side; the claim numbers are those of the root theory's list.\<close>

subsection \<open>The gate\<close>

text \<open>
  C12: only authorised requests write. From well-formed tables every request is answered, whatever it
  asks and whatever round trips fail; the tables stay well-formed, and the events it appends are
  authorised: an API POST with an accepted token or the identity the edge vouches for, or a dashboard
  POST with a valid session of the configured provider and the CSRF token of that session. Events
  written under an identity carry that identity.
\<close>

theorem only_authorised_writes:
  assumes "pg_inv s" and "env_uuid (mo_env t) \<noteq> Some []" and "codec_ok (si_codec w)"
  shows "\<exists>r s' es. serve w pg_store ping t rq s = Some (r, s') \<and> pg_inv s'
    \<and> pg_registry s' = pg_registry s @ es \<and> list_all (authorised w t rq) es"
  using pgs.grows_answerD [OF pgs.serve_answer [OF assms(2,3)] assms(1)] unfolding extends_by_def by blast

theorem only_authorised_writes_witness:
  "\<exists>r s'. serve demo_site pg_store (\<lambda>_. True) demo_moment anonymous_star demo_pg = Some (r, s')
    \<and> pg_registry s' = pg_registry demo_pg"
proof -
  have c: "codec_ok (si_codec demo_site)" by (simp add: demo_codec_ok)
  obtain r s' es where run: "serve demo_site pg_store (\<lambda>_. True) demo_moment anonymous_star demo_pg = Some (r, s')"
      and reg: "pg_registry s' = pg_registry demo_pg @ es"
      and es: "list_all (authorised demo_site demo_moment anonymous_star) es"
    using only_authorised_writes [OF demo_inv demo_moment_uuid c, of "\<lambda>_. True" anonymous_star] by blast
  have "es = []" using es anonymous_not_authorised by (cases es) simp_all
  with run reg show ?thesis by simp
qed

subsection \<open>Sessions\<close>

text \<open>
  C13: the human session round trip. The cookie a sign-in sets, read back by \<^verbatim>\<open>ReadHumanSession\<close> with the
  same secret, gives exactly the session of that sign-in, for its own provider, from the moment of the
  sign-in until its duration has passed; before, after and for any other provider it is rejected. The
  JSON codec is assumed to decode what it encoded for this session.
\<close>

theorem human_session_round_trip:
  assumes "human_session_cookie codec opts p (Some nonce) now = Inr c" and "nonce \<noteq> []"
    and "jc_marshal codec (new_human_session opts p nonce now) = Some payload" and "payload \<noteq> []"
    and "jc_unmarshal codec payload = Some (new_human_session opts p nonce now)"
    and "rq_cookie rq session_cookie_name = Some (ck_value c)"
  shows "read_human_session codec rq (ho_secret opts) provider later =
    (if provider = pr_provider p \<and> now \<le> later \<and> later < now + ho_duration opts
     then Inr (new_human_session opts p nonce now) else Inl invalid_human_session)"
  by (rule human_session_read_back [OF assms(1,2) _ assms(6)]) (use assms(3-5) in simp)

theorem human_session_round_trip_witness:
  "\<exists>c. human_session_cookie demo_sessions demo_opts demo_principal (Some ''nonce'') 0 = Inr c
    \<and> read_human_session demo_sessions (no_request\<lparr>rq_cookie := (\<lambda>_. Some (ck_value c))\<rparr>) ''secret'' ''github'' second
        = Inr demo_session
    \<and> read_human_session demo_sessions (no_request\<lparr>rq_cookie := (\<lambda>_. Some (ck_value c))\<rparr>) ''secret'' ''google'' second
        = Inl invalid_human_session"
proof -
  obtain c where c: "human_session_cookie demo_sessions demo_opts demo_principal (Some ''nonce'') 0 = Inr c"
    using demo_cookie by blast
  let ?rq = "no_request\<lparr>rq_cookie := (\<lambda>_. Some (ck_value c))\<rparr>"
  have "read_human_session demo_sessions ?rq (ho_secret demo_opts) provider later =
      (if provider = pr_provider demo_principal \<and> 0 \<le> later \<and> later < 0 + ho_duration demo_opts
       then Inr demo_session else Inl invalid_human_session)" for provider later
    unfolding demo_session_def
    by (rule human_session_round_trip [OF c, where payload = "''s''"]) (simp_all add: demo_sessions_def demo_session_def)
  with c show ?thesis by (simp add: hour_def minute_def second_def)
qed

text \<open>
  C14: a session cannot be forged. Whatever cookie \<^verbatim>\<open>ReadHumanSession\<close> accepts is the version, a payload and
  the HMAC of both under the server's secret; its session is what the payload decodes to, of the
  expected provider, complete, and current.
\<close>

theorem accepted_session_signed:
  assumes "read_human_session codec rq secret provider now = Inr session"
  shows "\<exists>encoded payload. rq_cookie rq session_cookie_name = Some (human_session_version @ ''.'' @ encoded @ ''.''
        @ hex_encode (hmac_sha256 secret (human_session_version @ ''.'' @ encoded)))
    \<and> base64_decode encoded = Some payload \<and> jc_unmarshal codec payload = Some session
    \<and> pr_provider (hs_principal session) = provider \<and> principal_valid (hs_principal session) \<and> hs_nonce session \<noteq> []
    \<and> hs_issued_at session \<le> now \<and> now < hs_expires_at session"
proof -
  from assms obtain x where v: "rq_cookie rq session_cookie_name = Some x"
      and d: "decode_human_session codec secret x = Inr session"
      and ok: "pr_provider (hs_principal session) = provider" "principal_valid (hs_principal session)" "hs_nonce session \<noteq> []"
        "hs_issued_at session \<le> now" "now < hs_expires_at session"
    by (auto simp: read_human_session_def split: option.splits sum.splits if_splits)
  from decoded_session_signed [OF d] v ok show ?thesis unfolding human_session_signature_def by auto
qed

theorem accepted_session_signed_witness:
  "\<exists>encoded c. human_session_cookie demo_sessions demo_opts demo_principal (Some ''nonce'') 0 = Inr c
    \<and> ck_value c = human_session_version @ ''.'' @ encoded @ ''.''
        @ hex_encode (hmac_sha256 ''secret'' (human_session_version @ ''.'' @ encoded))"
proof -
  obtain c where c: "human_session_cookie demo_sessions demo_opts demo_principal (Some ''nonce'') 0 = Inr c"
    and read: "read_human_session demo_sessions (no_request\<lparr>rq_cookie := (\<lambda>_. Some (ck_value c))\<rparr>) ''secret'' ''github'' second
        = Inr demo_session"
    using demo_signed_in by blast
  from accepted_session_signed [OF read] c show ?thesis by auto
qed

text \<open>
  The token session round trip. The cookie \<^verbatim>\<open>SetSessionCookie\<close> makes is accepted by
  \<^verbatim>\<open>ValidateSessionCookie\<close> with the same secret exactly from the second it was issued in until twenty-four
  hours later, whatever the nonce, as long as the Unix time fits an int64.
\<close>

theorem token_session_lifetime:
  assumes "nonce \<noteq> []" and "min_int64 \<le> now div second" and "now div second \<le> max_int64"
    and "rq_cookie rq session_cookie_name = Some (ck_value (session_cookie opts nonce now))"
  shows "validate_session_cookie rq (so_secret opts) later \<longleftrightarrow>
     canonical_time now \<le> later \<and> later \<le> canonical_time now + 24 * 60 * 60 * second"
  using session_accepted_iff [OF assms] by (simp add: session_max_age_def)

theorem token_session_lifetime_witness:
  "let opts = \<lparr>so_secret = ''secret'', so_secure = True\<rparr>;
       rq = no_request\<lparr>rq_cookie := (\<lambda>_. Some (ck_value (session_cookie opts ''nonce'' 0)))\<rparr>
   in validate_session_cookie rq ''secret'' (86400 * second) \<and> \<not> validate_session_cookie rq ''secret'' (86401 * second)"
proof -
  let ?opts = "\<lparr>so_secret = ''secret'', so_secure = True\<rparr>"
  let ?rq = "no_request\<lparr>rq_cookie := (\<lambda>_. Some (ck_value (session_cookie ?opts ''nonce'' 0)))\<rparr>"
  have "validate_session_cookie ?rq (so_secret ?opts) later \<longleftrightarrow>
      canonical_time 0 \<le> later \<and> later \<le> canonical_time 0 + 24 * 60 * 60 * second" for later
    by (rule token_session_lifetime) (simp_all add: min_int64_def max_int64_def)
  then show ?thesis by (simp add: Let_def canonical_time_def second_def)
qed

text \<open>
  Signatures do not cross over. The secret signs four kinds of messages: token sessions, CSRF
  tokens, human sessions and OAuth flows. The four message formats never coincide, so a signature of
  one kind is not one of another kind unless HMAC-SHA256 collides.
\<close>

definition csrf_message :: "string \<Rightarrow> string" where "csrf_message n = ''csrf:'' @ n"
definition token_message :: "string \<Rightarrow> int \<Rightarrow> string" where "token_message m ts = hex_encode m @ '':'' @ itoa ts"
definition human_message :: "string \<Rightarrow> string" where "human_message p = human_session_version @ ''.'' @ base64_encode p"
definition flow_message :: "string \<Rightarrow> string" where "flow_message p = base64_encode p"

lemma csrf_not_token: "csrf_message n \<noteq> token_message m ts"
proof
  assume "csrf_message n = token_message m ts"
  then have "takeWhile (\<lambda>c. c \<noteq> CHR '':'') (''csrf:'' @ n) = takeWhile (\<lambda>c. c \<noteq> CHR '':'') (hex_encode m @ '':'' @ itoa ts)"
    by (simp only: csrf_message_def token_message_def)
  also have "\<dots> = hex_encode m"
    using hex_encode_plain(1) [of m] by (subst takeWhile_append2) auto
  finally have "hex_encode m = ''csrf''" by simp
  then show False using hex_encode_plain(3) [of m] by simp
qed

lemma message_colons:
  "CHR '':'' \<in> set (csrf_message n)" "CHR '':'' \<in> set (token_message m ts)"
  "CHR '':'' \<notin> set (human_message p)" "CHR '':'' \<notin> set (flow_message p)"
  "CHR ''.'' \<in> set (human_message p)" "CHR ''.'' \<notin> set (flow_message p)"
  using base64_encode_plain [of p]
  by (simp_all add: csrf_message_def token_message_def human_message_def flow_message_def human_session_version_def)

theorem signatures_separated:
  "generate_csrf_token secret n = hex_encode (hmac_sha256 secret (csrf_message n))
   \<and> sign_session secret [hex_encode m, itoa ts] = hex_encode (hmac_sha256 secret (token_message m ts))
   \<and> human_session_signature secret (human_message p) = hex_encode (hmac_sha256 secret (human_message p))
   \<and> sign_oauth_flow secret (base64_encode q) = hex_encode (hmac_sha256 secret (flow_message q))
   \<and> distinct [csrf_message n, token_message m ts, human_message p, flow_message q]"
proof -
  have "distinct [csrf_message n, token_message m ts, human_message p, flow_message q]"
  proof -
    have apart: "a \<noteq> b" if "c \<in> set a" "c \<notin> set b" for a b :: string and c using that by blast
    have "csrf_message n \<noteq> human_message p" "csrf_message n \<noteq> flow_message q"
      "token_message m ts \<noteq> human_message p" "token_message m ts \<noteq> flow_message q" "human_message p \<noteq> flow_message q"
      by (rule apart, rule message_colons, rule message_colons)+
    then show ?thesis using csrf_not_token [of n m ts] by simp
  qed
  then show ?thesis
    by (simp add: generate_csrf_token_def sign_session_def human_session_signature_def sign_oauth_flow_def
        csrf_message_def token_message_def flow_message_def)
qed

subsection \<open>Authentication\<close>

text \<open>
  Who passes the API middleware. Reads pass when reads need no authentication; otherwise the
  request passes with the principal the trusted edge vouches for, or, without one, if it presents an
  accepted token in the Authorization header (Bearer or Token) or the query, or a token session; every
  other request is answered 401 and does not reach the handler.
\<close>

theorem api_authentication:
  "auth_with_trusted_identity write tokens require_for_reads secret trusted now next_handler cx rq =
     (if \<not> require_for_reads \<and> is_read rq then next_handler cx rq
      else case trusted_principal trusted rq of
          Some p \<Rightarrow> next_handler (cx\<lparr>cx_api_principal := Some p\<rparr>) rq
        | None \<Rightarrow> if (\<exists>t \<in> set tokens. t \<noteq> [] \<and> (rq_header rq ''Authorization'' = ''Bearer '' @ t
               \<or> rq_header rq ''Authorization'' = ''Token '' @ t \<or> q_get (rq_query rq) ''token'' = t))
               \<or> secret \<noteq> [] \<and> validate_session_cookie rq secret now
            then next_handler cx rq
            else write (json_error 401 ''unauthorized'' ''missing or malformed Authorization header''))"
  unfolding auth_with_trusted_identity_eq presents_credential_def write_auth_error_def by (rule refl)





end
