(* ===== verification/PageLinks.thy ===== *)
theory PageLinks
  imports DashboardActions
begin

section \<open>What the links of the dashboard say\<close>

text \<open>
  The parser of the dashboard's query in one equation (\<open>selection_eq\<close>): what is listed and what the
  form shows as functions of the values of the query. From it: which values a query needs to keep for
  the selection to stay the same, and that the query built from the filters of a page selects them again.
\<close>

subsection \<open>What a query says\<close>

lemma q_all_set_nonempty [simp]:
  "q_all (set_nonempty k v q) j = (if v \<noteq> [] \<and> j = k then [v] else q_all q j)"
  by (simp add: set_nonempty_def)

lemma q_get_all: "q_get q k = (case q_all q k of [] \<Rightarrow> [] | v # _ \<Rightarrow> v)"
  by (simp add: q_get_def)

text \<open>The parser of the dashboard reads a query only through its values.\<close>

lemma selection_keys_cong:
  assumes "\<And>k. k \<in> {''view'', ''alerted'', ''team'', ''for_team'', ''scope'', ''severity'', ''range'', ''start_after'', ''start_before'',
     ''type'', ''user'', ''tag''} \<Longrightarrow> q_all q k = q_all q' k"
  shows "dashboard_selection lib now q = dashboard_selection lib now q'"
proof -
  have all: "q_all q ''scope'' = q_all q' ''scope''" "q_all q ''severity'' = q_all q' ''severity''" "q_all q ''tag'' = q_all q' ''tag''"
    by (rule assms; simp)+
  have get: "q_get q ''view'' = q_get q' ''view''" "q_get q ''alerted'' = q_get q' ''alerted''" "q_get q ''team'' = q_get q' ''team''"
    "q_get q ''for_team'' = q_get q' ''for_team''" "q_get q ''range'' = q_get q' ''range''"
    "q_get q ''start_after'' = q_get q' ''start_after''" "q_get q ''start_before'' = q_get q' ''start_before''"
    "q_get q ''type'' = q_get q' ''type''" "q_get q ''user'' = q_get q' ''user''"
    unfolding q_get_all by (subst assms; simp)+
  show ?thesis
    unfolding dashboard_selection_def initial_filters_def dashboard_view_def apply_history_filters_def
      parse_dashboard_tags_def parse_dashboard_range_def get all by (rule refl)
qed

lemma parse_dashboard_cong:
  assumes "q_all q = q_all q'"
  shows "parse_dashboard_request lib now q = parse_dashboard_request lib now q'"
proof -
  have "q_get q k = q_get q' k" for k by (simp only: q_get_all assms)
  then show ?thesis
    unfolding parse_dashboard_request_def parse_bounded_int_def using selection_keys_cong [of q q' lib now] assms by simp
qed

lemma parse_dashboard_wire:
  assumes "distinct (map fst q)"
  shows "parse_dashboard_request lib now (parse_query (encode_values q)) = parse_dashboard_request lib now q"
  by (rule parse_dashboard_cong) (rule ext, rule parse_encode [OF assms])

lemma distinct_set_nonempty: "distinct (map fst q) \<Longrightarrow> distinct (map fst (set_nonempty k v q))"
  by (simp add: set_nonempty_def distinct_q_set)

lemma distinct_filter_query: "distinct (map fst (dashboard_filter_query filters))"
  unfolding dashboard_filter_query_def Let_def
  by (intro distinct_q_adds distinct_set_nonempty) simp

subsection \<open>Pagination\<close>

lemma q_all_filter_keys:
  "q_all (filter (\<lambda>(key, vals). key \<noteq> a \<and> key \<noteq> b) q) k = (if k = a \<or> k = b then [] else q_all q k)"
  by (induction q) (auto simp: q_all_def)

lemma q_all_pagination:
  "q_all (pagination_query q off lim) k =
    (if k = ''limit'' then [itoa lim] else if k = ''offset'' then [itoa (max 0 off)] else q_all q k)"
  by (simp add: pagination_query_def q_all_filter_keys max_def)

lemma parse_bounded_itoa:
  assumes "q_all q k = [itoa n]" and "minimum \<le> n" "min_int64 \<le> n" "n \<le> max_int64"
  shows "parse_bounded_int q k minimum fallback = n"
proof -
  have g: "q_get q k = itoa n" by (simp add: q_get_all assms(1))
  have a: "atoi (itoa n) = Some n" by (rule atoi_itoa [OF assms(3,4)])
  have "itoa n \<noteq> []" using a by (auto simp: atoi_def)
  with a assms(2) show ?thesis by (simp add: parse_bounded_int_def g Let_def)
qed

lemma distinct_pagination: "distinct (map fst q) \<Longrightarrow> distinct (map fst (pagination_query q off lim))"
  unfolding pagination_query_def by (intro distinct_q_set) (simp add: distinct_map_filter)

subsection \<open>Filter links\<close>

lemma filter_query_get:
  "q_get (dashboard_filter_query f) ''view'' = df_view f" "q_get (dashboard_filter_query f) ''team'' = df_team f"
  "q_get (dashboard_filter_query f) ''range'' = df_range f" "q_get (dashboard_filter_query f) ''start_after'' = df_start_after f"
  "q_get (dashboard_filter_query f) ''start_before'' = df_start_before f" "q_get (dashboard_filter_query f) ''type'' = df_event_type f"
  "q_get (dashboard_filter_query f) ''user'' = df_user_name f" "q_get (dashboard_filter_query f) ''for_team'' = []"
  "q_get (dashboard_filter_query f) ''alerted'' = []" "q_get (dashboard_filter_query f) ''limit'' = []"
  "q_get (dashboard_filter_query f) ''offset'' = []"
  by (simp_all add: q_get_all dashboard_filter_query_def Let_def q_all_adds)

lemma filter_query_all:
  "q_all (dashboard_filter_query f) ''scope'' = df_scopes f" "q_all (dashboard_filter_query f) ''severity'' = df_severities f"
  "q_all (dashboard_filter_query f) ''tag'' = df_tags f"
  by (simp_all add: dashboard_filter_query_def Let_def q_all_adds)

lemma dashboard_view_cases: "dashboard_view q \<in> {''current'', ''site'', ''history'', ''alerts''}"
  by (simp add: dashboard_view_def Let_def)

lemma dashboard_view_again: "q_get q' ''view'' = dashboard_view q \<Longrightarrow> dashboard_view q' = dashboard_view q"
  using dashboard_view_cases [of q] by (simp add: dashboard_view_def [of q'] Let_def)

subsection \<open>The selection as a function of the values\<close>

definition window_params :: "time_lib \<Rightarrow> instant \<Rightarrow> string \<Rightarrow> string \<Rightarrow> string \<Rightarrow> list_params \<Rightarrow> list_params" where
  "window_params lib now r after before p = (case quick_ranges r of
      Some d \<Rightarrow> p\<lparr>lp_start_after := Some (now - d)\<rparr>
    | None \<Rightarrow> if r \<noteq> ''custom'' then p
        else (let p1 = (case (if after = [] then None else tl_local lib after) of None \<Rightarrow> p | Some t \<Rightarrow> p\<lparr>lp_start_after := Some t\<rparr>)
              in (case (if before = [] then None else tl_local lib before) of None \<Rightarrow> p1 | Some t \<Rightarrow> p1\<lparr>lp_start_before := Some t\<rparr>)))"

definition custom_bound :: "string \<Rightarrow> string \<Rightarrow> string" where
  "custom_bound r v = (if r = ''custom'' then v else [])"

definition asked_range :: "string \<Rightarrow> string" where
  "asked_range r = (if r = [] then ''24h'' else r)"

lemma quick_not_custom: "quick_ranges r = Some d \<Longrightarrow> r \<noteq> ''custom''"
  by (auto simp: quick_ranges_def)

lemma parse_range_eq:
  assumes "df_start_after f = []" "df_start_before f = []" and "asked_range (q_get q ''range'') = r"
  shows "parse_dashboard_range lib now q (p, f) =
    (window_params lib now r (q_get q ''start_after'') (q_get q ''start_before'') p,
     f\<lparr>df_range := r, df_start_after := custom_bound r (q_get q ''start_after''), df_start_before := custom_bound r (q_get q ''start_before'')\<rparr>)"
proof -
  have r: "(if q_get q ''range'' = [] then ''24h'' else q_get q ''range'') = r" using assms(3) by (simp add: asked_range_def)
  show ?thesis
    unfolding parse_dashboard_range_def prod.case Let_def r window_params_def custom_bound_def using assms(1,2)
    by (cases "quick_ranges r") (auto dest: quick_not_custom)
qed

lemma window_bounds [simp]: "window_params lib now r (custom_bound r a) (custom_bound r b) p = window_params lib now r a b p"
  by (simp add: window_params_def custom_bound_def)

lemma asked_range_idem [simp]: "asked_range (asked_range r) = asked_range r"
  by (simp add: asked_range_def)

lemma custom_bound_idem [simp]: "custom_bound r (custom_bound r v) = custom_bound r v"
  by (simp add: custom_bound_def)

definition tag_params :: "string list \<Rightarrow> list_params \<Rightarrow> list_params" where
  "tag_params accepted p = (if fold add_tag_value accepted [] \<noteq> [] then p\<lparr>lp_tags := fold add_tag_value accepted []\<rparr> else p)"

definition select_params :: "time_lib \<Rightarrow> instant \<Rightarrow> string \<Rightarrow> string \<Rightarrow> string \<Rightarrow> string \<Rightarrow> string \<Rightarrow> string \<Rightarrow> string list \<Rightarrow> list_params" where
  "select_params lib now v r a b t u accepted =
     (let p = zero_list_params\<lparr>lp_top_level := True\<rparr>; history = (v = ''history'' \<or> v = ''alerts'');
          p1 = (if history then window_params lib now r a b p else p);
          p2 = (if v = ''alerts'' then p1\<lparr>lp_alerted_only := True\<rparr> else p1);
          p3 = (if t = [] then p2 else p2\<lparr>lp_event_type := t\<rparr>)
      in if history then tag_params accepted (if u = [] then p3 else p3\<lparr>lp_user_name := u\<rparr>) else p3)"

definition shown_team :: "string \<Rightarrow> string list \<Rightarrow> string" where
  "shown_team t accepted = (let tag = tag_get (fold add_tag_value accepted []) ''team'' in if tag = [] then t else tag)"

definition select_filters :: "string \<Rightarrow> string \<Rightarrow> string \<Rightarrow> string \<Rightarrow> string \<Rightarrow> string \<Rightarrow> string \<Rightarrow> string list \<Rightarrow> string list \<Rightarrow> string list \<Rightarrow> dashboard_filters" where
  "select_filters v team r a b t u accepted sc sevs =
     (let history = (v = ''history'' \<or> v = ''alerts'') in
      \<lparr>df_view = v, df_team = (if history then shown_team team accepted else team), df_range = (if history then r else []),
       df_start_after = (if history then custom_bound r a else []), df_start_before = (if history then custom_bound r b else []),
       df_event_type = t, df_user_name = (if history then u else []), df_alerted = (v = ''alerts''),
       df_tags = (if history then accepted else []), df_scopes = sc, df_severities = sevs\<rparr>)"

lemma window_tags: "lp_tags (window_params lib now r a b p) = lp_tags p"
  by (simp add: window_params_def Let_def split: option.split)

lemma parse_tags_eq:
  assumes "df_tags f = []" and "filter well_formed_tag (q_all q ''tag'') = accepted"
  shows "parse_dashboard_tags q (p, f) = (tag_params accepted p, f\<lparr>df_tags := accepted\<rparr>)"
  using assms by (simp add: parse_dashboard_tags_def tag_params_def Let_def)

lemma tag_params_tags: "lp_tags p = [] \<Longrightarrow> lp_tags (tag_params accepted p) = fold add_tag_value accepted []"
  by (auto simp: tag_params_def)

lemma selection_eq:
  assumes "asked_range (q_get q ''range'') = r" and "filter well_formed_tag (q_all q ''tag'') = accepted"
    and "df_team (initial_filters q) = team" and "dashboard_view q = v" and "trim_space (q_get q ''type'') = t"
  shows "dashboard_selection lib now q =
    (select_params lib now v r (q_get q ''start_after'') (q_get q ''start_before'') t (q_get q ''user'') accepted,
     select_filters v team r (q_get q ''start_after'') (q_get q ''start_before'') t (q_get q ''user'') accepted
       (normalize_current_values (q_all q ''scope'')) (normalize_current_values (q_all q ''severity'')))"
proof -
  have init: "initial_filters q = \<lparr>df_view = v, df_team = team, df_range = [], df_start_after = [], df_start_before = [],
      df_event_type = [], df_user_name = [], df_alerted = False, df_tags = [],
      df_scopes = normalize_current_values (q_all q ''scope''), df_severities = normalize_current_values (q_all q ''severity'')\<rparr>"
    using assms(3,4) by (simp add: initial_filters_def)
  show ?thesis
    unfolding dashboard_selection_def init is_history_def assms(5)
    by (simp add: parse_range_eq [OF _ _ assms(1)] apply_history_filters_def parse_tags_eq [OF _ assms(2)] Let_def
        select_params_def select_filters_def shown_team_def tag_params_tags window_tags zero_list_params_def)
qed

lemma shown_team_again: "shown_team (trim_space (shown_team (trim_space t) accepted)) accepted = shown_team (trim_space t) accepted"
  by (simp add: shown_team_def Let_def)

lemma initial_team: "df_team (initial_filters q) =
   (if trim_space (q_get q ''team'') = [] then trim_space (q_get q ''for_team'') else trim_space (q_get q ''team''))"
  by (simp add: initial_filters_def)

lemma select_filters_again:
  fixes v team r a b t u sc sevs accepted
  defines "f \<equiv> select_filters v (trim_space team) (asked_range r) a b (trim_space t) u accepted sc sevs"
  shows "select_filters v (trim_space (df_team f)) (asked_range (df_range f)) (df_start_after f) (df_start_before f)
      (trim_space (df_event_type f)) (df_user_name f) (df_tags f) sc sevs = f"
    and "select_params lib now v (asked_range (df_range f)) (df_start_after f) (df_start_before f) (trim_space (df_event_type f))
      (df_user_name f) (df_tags f) = select_params lib now v (asked_range r) a b (trim_space t) u accepted"
  by (simp_all add: f_def select_filters_def select_params_def shown_team_again Let_def)

lemma select_filters_sel:
  "df_view (select_filters v team r a b t u accepted sc sevs) = v"
  "df_scopes (select_filters v team r a b t u accepted sc sevs) = sc"
  "df_severities (select_filters v team r a b t u accepted sc sevs) = sevs"
  "list_all well_formed_tag accepted \<Longrightarrow> filter well_formed_tag (df_tags (select_filters v team r a b t u accepted sc sevs)) =
     df_tags (select_filters v team r a b t u accepted sc sevs)"
  by (simp_all add: select_filters_def Let_def filter_id_conv list_all_iff)

lemma selection_again:
  assumes sel: "dashboard_selection lib now q = (params, filters)"
    and norm: "normalize_current_values (df_scopes filters) = df_scopes filters" "normalize_current_values (df_severities filters) = df_severities filters"
  shows "dashboard_selection lib now (dashboard_filter_query filters) = (params, filters)"
proof -
  obtain T where T: "df_team (initial_filters q) = trim_space T" unfolding initial_team by (metis (full_types))
  let ?acc = "filter well_formed_tag (q_all q ''tag'')" and ?q = "dashboard_filter_query filters"
  from sel have p: "params = select_params lib now (dashboard_view q) (asked_range (q_get q ''range'')) (q_get q ''start_after'')
      (q_get q ''start_before'') (trim_space (q_get q ''type'')) (q_get q ''user'') ?acc"
    and f: "filters = select_filters (dashboard_view q) (trim_space T) (asked_range (q_get q ''range'')) (q_get q ''start_after'')
      (q_get q ''start_before'') (trim_space (q_get q ''type'')) (q_get q ''user'') ?acc
      (normalize_current_values (q_all q ''scope'')) (normalize_current_values (q_all q ''severity''))"
    unfolding selection_eq [OF refl refl T refl refl] by simp_all
  have v: "df_view filters = dashboard_view q" unfolding f by (rule select_filters_sel)
  then have v': "dashboard_view ?q = dashboard_view q" by (intro dashboard_view_again) (simp add: filter_query_get)
  have team: "df_team (initial_filters ?q) = trim_space (df_team filters)" by (simp add: initial_team filter_query_get)
  have acc: "filter well_formed_tag (q_all ?q ''tag'') = df_tags filters"
    unfolding filter_query_all unfolding f by (rule select_filters_sel) (simp add: list_all_iff)
  have sc: "normalize_current_values (q_all q ''scope'') = df_scopes filters" "normalize_current_values (q_all q ''severity'') = df_severities filters"
    unfolding f by (simp_all only: select_filters_sel)
  have "select_params lib now (dashboard_view q) (asked_range (df_range filters)) (df_start_after filters)
      (df_start_before filters) (trim_space (df_event_type filters)) (df_user_name filters) (df_tags filters) = params"
    unfolding p f by (rule select_filters_again)
  moreover have "select_filters (dashboard_view q) (trim_space (df_team filters)) (asked_range (df_range filters)) (df_start_after filters)
      (df_start_before filters) (trim_space (df_event_type filters)) (df_user_name filters) (df_tags filters)
      (df_scopes filters) (df_severities filters) = filters"
    unfolding sc [symmetric] unfolding f by (rule select_filters_again)
  ultimately show ?thesis
    unfolding selection_eq [OF refl acc team v' refl] filter_query_get filter_query_all norm by simp
qed

end
