(* ===== verification/PageProperties.thy ===== *)
theory PageProperties
  imports PageLinks WebExample
begin

section \<open>Properties of the dashboard's links and redirects\<close>

text \<open>
  What the links of a page mean: the values a link carries, encoded into its URL and parsed again by
  the handler that receives it, select what the page says they do. And where an action redirects to.
\<close>

text \<open>
  C26: no open redirect. Whatever the Referer of an action says and however it parses, the target of
  the redirect after the action is a path of this host: it starts with one slash that no second slash
  follows, and has only characters that are safe in a URL path and query, so no backslash, no control
  character and no scheme.
\<close>

theorem redirect_stays_local:
  "\<exists>rest. rs_location (redirect_after_action parse rq) = CHR ''/'' # rest \<and> \<not> has_prefix rest ''/''
    \<and> list_all (\<lambda>c. is_alnum c \<or> c \<in> set ''-_.~$&+,/:;=@%?'') rest"
proof -
  have "local_target (rs_location (redirect_after_action parse rq))"
    using local_redirect_target_local by (simp add: redirect_after_action_def http_redirect_def)
  then show ?thesis by (fastforce simp: local_target_def list_all_iff path_char_def unreserved_def)
qed

text \<open>
  C27: filter links. The query the dashboard builds from the filters of a page, encoded into a URL and
  parsed again at the same moment, lists what the page lists, from its first page, and shows the same
  filters, in every view and for every range, as long as the scope and severity words of the page are
  in the parser's normal form.
\<close>

theorem filter_link_round_trip:
  assumes "parse_dashboard_request lib now q = (params, filters)"
    and "normalize_current_values (df_scopes filters) = df_scopes filters"
    and "normalize_current_values (df_severities filters) = df_severities filters"
  shows "parse_dashboard_request lib now (parse_query (encode_values (dashboard_filter_query filters))) =
    (params\<lparr>lp_limit := dashboard_limit, lp_offset := 0\<rparr>, filters)"
proof -
  obtain p where sel: "dashboard_selection lib now q = (p, filters)" and p: "params = p\<lparr>lp_limit := lp_limit params, lp_offset := lp_offset params\<rparr>"
    using assms(1) by (auto simp: parse_dashboard_request_def split: prod.splits)
  have "p\<lparr>lp_limit := a, lp_offset := b\<rparr> = params\<lparr>lp_limit := a, lp_offset := b\<rparr>" for a b by (subst p) simp
  then show ?thesis
    unfolding parse_dashboard_wire [OF distinct_filter_query]
    by (simp add: parse_dashboard_request_def selection_again [OF sel assms(2,3)] parse_bounded_int_def filter_query_get)
qed

theorem filter_link_round_trip_witness:
  "\<exists>params filters. parse_dashboard_request demo_time 0 [(''view'', [''alerts'']), (''tag'', [''team:core''])] = (params, filters)
    \<and> df_team filters = ''core''
    \<and> parse_dashboard_request demo_time 0 (parse_query (encode_values (dashboard_filter_query filters))) =
        (params\<lparr>lp_limit := dashboard_limit, lp_offset := 0\<rparr>, filters)"
proof -
  let ?q = "[(''view'', [''alerts'']), (''tag'', [''team:core''])]"
  obtain params filters where run: "parse_dashboard_request demo_time 0 ?q = (params, filters)" by fastforce
  have v: "dashboard_view ?q = ''alerts''" and acc: "filter well_formed_tag (q_all ?q ''tag'') = [''team:core'']"
    by (simp_all add: dashboard_view_def q_get_def q_all_def well_formed_tag_def Let_def)
  have norm: "df_scopes filters = []" "df_severities filters = []" and team: "df_team filters = ''core''"
    unfolding snd_conv [of params filters, unfolded run [symmetric], symmetric]
    by (simp_all add: parse_dashboard_request_def selection_eq [OF refl acc refl v refl] select_filters_def shown_team_def
        normalize_current_values_def q_all_def Let_def add_tag_value_def tag_get_def)
  have "normalize_current_values [] = []" by (simp add: normalize_current_values_def)
  with filter_link_round_trip [OF run] norm run team show ?thesis by simp
qed

text \<open>
  Pagination links. The URL a pagination link carries, parsed by the dashboard that receives it,
  asks for the same view with the same filters as the page it stands on, with exactly the limit and the
  offset the page computed, a negative offset read as the first page.
\<close>

theorem pagination_link_round_trip:
  assumes "distinct (map fst q)" and "1 \<le> lim" "lim \<le> max_int64" and "off \<le> max_int64"
  shows "parse_dashboard_request lib now (parse_query (encode_values (pagination_query q off lim))) =
    (case parse_dashboard_request lib now q of (params, filters) \<Rightarrow> (params\<lparr>lp_limit := lim, lp_offset := max 0 off\<rparr>, filters))"
proof -
  let ?q = "pagination_query q off lim"
  have "min_int64 \<le> 0" by (simp add: min_int64_def)
  with assms have "parse_bounded_int ?q ''limit'' 1 dashboard_limit = lim" "parse_bounded_int ?q ''offset'' 0 0 = max 0 off"
    by (auto intro!: parse_bounded_itoa simp: q_all_pagination max_int64_def)
  moreover have "dashboard_selection lib now ?q = dashboard_selection lib now q"
    by (rule selection_keys_cong) (auto simp: q_all_pagination)
  ultimately show ?thesis
    unfolding parse_dashboard_wire [OF distinct_pagination [OF assms(1)]] by (simp add: parse_dashboard_request_def split: prod.split)
qed

theorem pagination_link_round_trip_witness:
  "parse_dashboard_request demo_time 0 (parse_query (encode_values (pagination_query [(''view'', [''site''])] 40 40))) =
    (case parse_dashboard_request demo_time 0 [(''view'', [''site''])] of (params, filters) \<Rightarrow> (params\<lparr>lp_limit := 40, lp_offset := 40\<rparr>, filters))"
  using pagination_link_round_trip [of "[(''view'', [''site''])]" 40 40 demo_time 0] by (simp add: max_int64_def)

end
