(* ===== verification/PolicyProperties.thy ===== *)
theory PolicyProperties
  imports ProviderPolicy WebExample
begin

section \<open>Properties of the identity providers\<close>

text \<open>
  Whom the providers let in. The contract of each provider is the interpretation of \<open>human_provider\<close>
  on its model; here it is composed with the choice of the provider, and the evidence behind a
  principal is spelled out.
\<close>

text \<open>
  C29: only principals the policy allows. Whatever provider \<^verbatim>\<open>humanauth.New\<close> builds from the options and
  whatever the provider's servers reply, a principal it authenticates belongs to that provider, has the
  fields attribution needs, was checked now, and is let in by the options: anyone may sign in, or its
  namespaced subject is on the allow list, or it was authorised through an organisation on the list,
  which it records.
\<close>

theorem only_permitted_principals:
  assumes "new_authenticator apis name opts = Inr a" and "au_authenticate a now code verifier nonce = Inr p"
  shows "pr_provider p = au_identity_provider a \<and> principal_valid p \<and> pr_profile_checked_at p = Some now
    \<and> (if pr_authorized_via p = ''any'' then po_allow_any opts
       else \<not> po_allow_any opts \<and>
         (if pr_authorized_via p = ''subject'' then namespaced_subject p \<in> set (po_allowed_subjects opts)
          else namespaced_subject p \<notin> set (po_allowed_subjects opts)
            \<and> (\<exists>org \<in> set (po_allowed_orgs opts). \<exists>prefix \<in> {''github_org:'', ''google_org:'', ''authentik_group:''}.
                 pr_authorized_via p = prefix @ org)))"
  by (rule new_authenticator_permits [OF assms])

definition demo_options :: provider_options where
  "demo_options = \<lparr>po_client_id = ''id'', po_client_secret = ''s'', po_redirect_url = ''https://pcr.example.com/auth/callback'',
     po_issuer_url = [], po_allowed_orgs = [''acme'', ''core''], po_allowed_subjects = [], po_allow_any = False\<rparr>"

definition demo_github_api :: github_api where
  "demo_github_api = \<lparr>ga_exchange = (\<lambda>code verifier. if verifier = ''v'' then Some ''token'' else None),
     ga_profile = (\<lambda>token url. Reply 200 (Some \<lparr>gp_id = 7, gp_login = ''bob'', gp_name = ''Bob''\<rparr>)),
     ga_membership = (\<lambda>token url. if url = ''https://api.github.com/user/memberships/orgs/core'' then Reply 200 (Some ''active'') else Reply 404 None)\<rparr>"

definition demo_apis :: provider_apis where
  "demo_apis = \<lparr>pa_url = (\<lambda>config state params. ''https://github.com/login/oauth/authorize''), pa_github_endpoint = ''https://github.com/login/oauth'',
     pa_discover = (\<lambda>issuer. None), pa_github = demo_github_api,
     pa_google = \<lparr>oi_exchange = (\<lambda>code verifier. None), oi_verify = (\<lambda>raw. None)\<rparr>,
     pa_authentik = \<lparr>oi_exchange = (\<lambda>code verifier. None), oi_verify = (\<lambda>raw. None)\<rparr>\<rparr>"

definition demo_github :: github where
  "demo_github = new_github demo_options ''https://github.com/login/oauth'' ''https://api.github.com''"

definition demo_member :: principal where
  "demo_member = \<lparr>pr_provider = ''github'', pr_subject = ''7'', pr_user_name = ''bob'', pr_display_name = ''Bob'',
     pr_profile_checked_at = Some 5, pr_authorized_via = ''github_org:core''\<rparr>"

lemma demo_github_sel:
  "gh_api_url demo_github = ''https://api.github.com''" "gh_allowed_orgs demo_github = [''acme'', ''core'']"
  "gh_allowed_subjects demo_github = []" "\<not> gh_allow_any demo_github"
  by (simp_all add: demo_github_def new_github_def demo_options_def trim_right_slashes_def)

lemma demo_github_login: "github_authenticate demo_github_api demo_github 5 ''c'' ''v'' [] = Inr demo_member"
proof -
  have e: "path_escape ''acme'' = ''acme''" "path_escape ''core'' = ''core''"
    by (simp_all add: path_escape_def unreserved_def is_alnum_def)
  have s: "itoa 7 = ''7''" by (simp add: itoa_def nat_digits.simps char_of_def bit_0)
  show ?thesis
    by (simp add: github_authenticate_def github_profile_of_def demo_github_api_def demo_github_sel principal_valid_def
        subject_allowed_def e s demo_member_def Let_def)
qed

lemma demo_new_authenticator:
  "new_authenticator demo_apis ''github'' demo_options = Inr (github_authenticator (pa_url demo_apis) demo_github_api demo_github)"
  by (simp add: new_authenticator_def demo_apis_def demo_github_def)

theorem only_permitted_principals_witness:
  "\<exists>a. new_authenticator demo_apis ''github'' demo_options = Inr a \<and> au_authenticate a 5 ''c'' ''v'' [] = Inr demo_member
    \<and> (\<exists>org \<in> set (po_allowed_orgs demo_options). \<exists>prefix \<in> {''github_org:'', ''google_org:'', ''authentik_group:''}.
         pr_authorized_via demo_member = prefix @ org)"
proof -
  have run: "au_authenticate (github_authenticator (pa_url demo_apis) demo_github_api demo_github) 5 ''c'' ''v'' [] = Inr demo_member"
    by (simp add: github_authenticator_def demo_github_login)
  have via: "pr_authorized_via demo_member \<noteq> ''any''" "pr_authorized_via demo_member \<noteq> ''subject''" by (simp_all add: demo_member_def)
  from only_permitted_principals [OF demo_new_authenticator run] via demo_new_authenticator run show ?thesis by auto
qed

text \<open>
  C30: organisation membership at GitHub is verified, and fails closed. A principal that is let in
  neither by allow-any nor by its subject was found an active member of the organisation it records, in
  GitHub's reply with the token of this very code, and for every organisation tried before it GitHub
  gave a definite answer other than active membership: not found, or another state. Any other reply,
  or none, ends the sign-in.
\<close>

lemma active_organization_evidence:
  assumes "active_organization api g token orgs = Inr org"
  shows "\<exists>n < length orgs. orgs ! n = org
    \<and> ga_membership api token (gh_api_url g @ ''/user/memberships/orgs/'' @ path_escape org) = Reply 200 (Some ''active'')
    \<and> (\<forall>m < n. \<exists>status body. ga_membership api token (gh_api_url g @ ''/user/memberships/orgs/'' @ path_escape (orgs ! m)) = Reply status body
        \<and> (status = 404 \<or> status = 200 \<and> (\<exists>state. body = Some state \<and> state \<noteq> ''active'')))"
  using assms
proof (induction orgs)
  case (Cons o1 orgs)
  let ?reply = "ga_membership api token (gh_api_url g @ ''/user/memberships/orgs/'' @ path_escape o1)"
  show ?case
  proof (cases "?reply = Reply 200 (Some ''active'')")
    case True
    with Cons.prems show ?thesis by (intro exI [of _ 0]) simp
  next
    case False
    with Cons.prems obtain status body where r: "?reply = Reply status body"
        "status = 404 \<or> status = 200 \<and> (\<exists>state. body = Some state \<and> state \<noteq> ''active'')"
      and rest: "active_organization api g token orgs = Inr org"
      by (auto split: http_reply.splits if_splits option.splits)
    from Cons.IH [OF rest] obtain n where n: "n < length orgs" "orgs ! n = org"
      "ga_membership api token (gh_api_url g @ ''/user/memberships/orgs/'' @ path_escape org) = Reply 200 (Some ''active'')"
      "\<forall>m < n. \<exists>status body. ga_membership api token (gh_api_url g @ ''/user/memberships/orgs/'' @ path_escape (orgs ! m)) = Reply status body
        \<and> (status = 404 \<or> status = 200 \<and> (\<exists>state. body = Some state \<and> state \<noteq> ''active''))" by blast
    have "\<exists>status body. ga_membership api token (gh_api_url g @ ''/user/memberships/orgs/'' @ path_escape ((o1 # orgs) ! m)) = Reply status body
        \<and> (status = 404 \<or> status = 200 \<and> (\<exists>state. body = Some state \<and> state \<noteq> ''active''))" if "m < Suc n" for m
      using that r n(4) by (cases m) auto
    with n(1-3) show ?thesis by (intro exI [of _ "Suc n"]) simp
  qed
qed simp

theorem github_membership_verified:
  assumes "github_authenticate api g now code verifier nonce = Inr p"
    and "\<not> gh_allow_any g" and "namespaced_subject p \<notin> set (gh_allowed_subjects g)"
  shows "\<exists>token n. ga_exchange api code verifier = Some token \<and> n < length (gh_allowed_orgs g)
    \<and> pr_authorized_via p = ''github_org:'' @ gh_allowed_orgs g ! n
    \<and> ga_membership api token (gh_api_url g @ ''/user/memberships/orgs/'' @ path_escape (gh_allowed_orgs g ! n)) = Reply 200 (Some ''active'')
    \<and> (\<forall>m < n. \<exists>status body.
         ga_membership api token (gh_api_url g @ ''/user/memberships/orgs/'' @ path_escape (gh_allowed_orgs g ! m)) = Reply status body
         \<and> (status = 404 \<or> status = 200 \<and> (\<exists>state. body = Some state \<and> state \<noteq> ''active'')))"
proof -
  from assms obtain token org where "ga_exchange api code verifier = Some token"
      and org: "active_organization api g token (gh_allowed_orgs g) = Inr org" and "pr_authorized_via p = ''github_org:'' @ org"
    by (auto simp: github_authenticate_def Let_def subject_allowed_def namespaced_subject_def split: option.splits sum.splits if_splits)
  with active_organization_evidence [OF org] show ?thesis by blast
qed

theorem github_membership_verified_witness:
  "\<exists>n. pr_authorized_via demo_member = ''github_org:'' @ gh_allowed_orgs demo_github ! n
    \<and> ga_membership demo_github_api ''token'' (gh_api_url demo_github @ ''/user/memberships/orgs/'' @ path_escape (gh_allowed_orgs demo_github ! n))
        = Reply 200 (Some ''active'')"
proof -
  have "ga_exchange demo_github_api ''c'' ''v'' = Some ''token''" by (simp add: demo_github_api_def)
  moreover have "namespaced_subject demo_member \<notin> set (gh_allowed_subjects demo_github)" by (simp add: demo_github_sel)
  ultimately show ?thesis using github_membership_verified [OF demo_github_login demo_github_sel(4)] by auto
qed

text \<open>
  C31: Google identities are bound to the sign-in. A principal from Google is what a verified ID token
  obtained with this code and PKCE verifier says: the token carries the nonce of the flow and a verified
  e-mail, the subject and the user name are those of the token, and an organisation lets it in only if
  both the hosted domain and the domain of the e-mail are that organisation's.
\<close>

theorem google_identity_bound:
  assumes "google_authenticate api g now code verifier nonce = Inr p"
  shows "\<exists>raw claims. oi_exchange api code verifier = Some raw \<and> raw \<noteq> [] \<and> oi_verify api raw = Some claims
    \<and> nonce \<noteq> [] \<and> gc_nonce claims = nonce \<and> gc_email_verified claims
    \<and> pr_subject p = gc_subject claims \<and> pr_user_name p = to_lower (gc_email claims)
    \<and> (pr_authorized_via p \<noteq> ''any'' \<and> pr_authorized_via p \<noteq> ''subject'' \<longrightarrow>
        (\<exists>domain. pr_authorized_via p = ''google_org:'' @ to_lower domain \<and> to_lower domain \<in> set (go_allowed_orgs g)
          \<and> to_lower (gc_hosted_domain claims) = to_lower domain \<and> (\<exists>local. gc_email claims = local @ CHR ''@'' # domain \<and> CHR ''@'' \<notin> set domain)))"
proof -
  have tail: "\<exists>local. email = local @ CHR ''@'' # domain \<and> CHR ''@'' \<notin> set domain" if "after_last CHR ''@'' email = Some domain" for email domain
  proof -
    from that have mem: "CHR ''@'' \<in> set email" and d: "domain = rev (takeWhile (\<lambda>d. d \<noteq> CHR ''@'') (rev email))"
      by (auto simp: after_last_def split: if_splits)
    from split_list_last [OF mem] obtain a b where e: "email = a @ CHR ''@'' # b" "CHR ''@'' \<notin> set b" by blast
    then have "takeWhile (\<lambda>d. d \<noteq> CHR ''@'') (rev b @ CHR ''@'' # rev a) = rev b" by (subst takeWhile_append2) auto
    with d e(1) have "domain = b" by simp
    with e show ?thesis by blast
  qed
  from assms obtain raw claims where base: "oi_exchange api code verifier = Some raw" "raw \<noteq> []" "oi_verify api raw = Some claims"
      "nonce \<noteq> []" "gc_nonce claims = nonce" "gc_email_verified claims"
      "pr_subject p = gc_subject claims" "pr_user_name p = to_lower (gc_email claims)"
      and via: "pr_authorized_via p \<in> {''any'', ''subject''} \<or> (\<exists>org. google_allowed_organization g claims = Some org
        \<and> pr_authorized_via p = ''google_org:'' @ org)"
    by (auto simp: google_authenticate_def Let_def split: option.splits if_splits)
  have "\<exists>domain. org = to_lower domain \<and> to_lower domain \<in> set (go_allowed_orgs g)
      \<and> to_lower (gc_hosted_domain claims) = to_lower domain \<and> after_last CHR ''@'' (gc_email claims) = Some domain"
    if "google_allowed_organization g claims = Some org" for org
    using that by (auto simp: google_allowed_organization_def dest!: find_SomeD split: option.splits)
  with base via tail show ?thesis by (intro exI [of _ raw] exI [of _ claims]) blast
qed

definition demo_google :: google where
  "demo_google = new_google (demo_options\<lparr>po_allowed_orgs := [''acme'']\<rparr>) ''https://accounts.google.com''"

definition demo_claims :: google_claims where
  "demo_claims = \<lparr>gc_subject = ''9'', gc_email = ''A@acme'', gc_email_verified = True, gc_hosted_domain = ''acme'', gc_name = ''Ann'', gc_nonce = ''n''\<rparr>"

definition demo_google_api :: "google_claims oidc_api" where
  "demo_google_api = \<lparr>oi_exchange = (\<lambda>code verifier. Some ''jwt''), oi_verify = (\<lambda>raw. Some demo_claims)\<rparr>"

theorem google_identity_bound_witness:
  "\<exists>p. google_authenticate demo_google_api demo_google 5 ''c'' ''v'' ''n'' = Inr p \<and> pr_authorized_via p = ''google_org:acme''
    \<and> pr_subject p = gc_subject demo_claims"
proof -
  have low: "to_lower ''acme'' = ''acme''" by (simp add: to_lower_ascii ascii_string_def lower_char_def char_of_def bit_0)
  have org: "google_allowed_organization demo_google demo_claims = Some ''acme''"
    by (simp add: google_allowed_organization_def demo_claims_def demo_google_def new_google_def after_last_def low)
  have any: "\<not> go_allow_any demo_google" "go_allowed_subjects demo_google = []"
    by (simp_all add: demo_google_def new_google_def demo_options_def)
  have c: "gc_nonce demo_claims = ''n''" "gc_subject demo_claims \<noteq> []" "gc_email demo_claims \<noteq> []" "gc_email_verified demo_claims"
    by (simp_all add: demo_claims_def)
  have a: "oi_exchange demo_google_api ''c'' ''v'' = Some ''jwt''" "oi_verify demo_google_api ''jwt'' = Some demo_claims"
    by (simp_all add: demo_google_api_def)
  obtain p where p: "google_authenticate demo_google_api demo_google 5 ''c'' ''v'' ''n'' = Inr p" "pr_authorized_via p = ''google_org:'' @ ''acme''"
    using org any c a by (simp add: google_authenticate_def subject_allowed_def Let_def)
  from google_identity_bound [OF p(1)] a have "pr_subject p = gc_subject demo_claims" by auto
  with p show ?thesis by auto
qed

text \<open>
  C32: behind the trusted edge every dashboard request is checked again. With the Beyond provider a
  request reaches a dashboard handler exactly if it carries a valid session of this server and the edge
  vouches, for this very request, for an identity with the subject of that session; the handler then
  sees the edge's principal, not the one stored at sign-in. That principal is the lower-cased e-mail of
  the request's header, is complete, and is let in by the policy now: through allow-any, its subject, or
  one of the allowed groups, which stands in the request's group header.
\<close>

theorem edge_checked_every_request:
  "require_human_auth reject codec secret ''beyond'' (Some (beyond_authenticate_request b now)) now next_handler cx rq =
     (case (read_human_session codec rq secret ''beyond'' now, beyond_authenticate_request b now rq) of
        (Inr session, Inr p) \<Rightarrow>
          (if pr_subject p = pr_subject (hs_principal session)
           then next_handler (cx\<lparr>cx_session := Some (session\<lparr>hs_principal := p\<rparr>)\<rparr>) rq
           else reject (reject_human_request rq))
      | _ \<Rightarrow> reject (reject_human_request rq))
   \<and> (case beyond_authenticate_request b now rq of
        Inl _ \<Rightarrow> True
      | Inr p \<Rightarrow> pr_subject p = to_lower (trim_space (rq_header rq ''X-Beyond-Email'')) \<and> pr_user_name p = pr_subject p
          \<and> principal_valid p \<and> pr_profile_checked_at p = Some now
          \<and> (if by_allow_any b then pr_authorized_via p = ''any''
             else if ''beyond:'' @ pr_subject p \<in> set (by_allowed_subjects b) then pr_authorized_via p = ''subject''
             else (\<exists>grp \<in> set (by_allowed_groups b). pr_authorized_via p = ''beyond_group:'' @ grp
               \<and> (\<exists>part \<in> set (split_on CHR ''|'' (rq_header rq ''X-Beyond-Groups'')). grp = trim_space part))))"
proof (rule conjI, goal_cases)
  case 1
  have session: "pr_provider (hs_principal session) = ''beyond''" if "read_human_session codec rq secret ''beyond'' now = Inr session" for session
    using that by (auto simp: read_human_session_def split: option.splits sum.splits if_splits)
  have edge: "pr_provider p = ''beyond''" if "beyond_authenticate_request b now rq = Inr p" for p
    using beyond_sound [OF that] by simp
  show ?case
    using session edge by (simp add: require_human_auth_def bind_principal_def split: sum.split)
next
  case 2
  show ?case
  proof (cases "beyond_authenticate_request b now rq")
    case (Inr p)
    have "principal_valid p \<and> pr_profile_checked_at p = Some now" using beyond_sound [OF Inr] by simp
    with Inr show ?thesis
      by (auto simp: beyond_authenticate_request_def beyond_email_header_def beyond_groups_header_def Let_def subject_allowed_def
          namespaced_subject_def beyond_allowed_group_def dest!: find_SomeD split: if_splits option.splits)
  qed simp
qed

end
