(* ===== verification/Config.thy ===== *)
theory Config
  imports ProviderPolicy Params
begin

section \<open>Server configuration: internal/config/config.go\<close>

text \<open>
  The environment is a function from names to values, the empty string when unset. \<^verbatim>\<open>Load\<close> reads and
  parses it in the code's order and validates the result; the first error is returned. Package
  functions whose code is not modelled are the fields of \<open>config_lib\<close>: \<^verbatim>\<open>time.ParseDuration\<close>,
  \<^verbatim>\<open>url.Parse\<close>, whether \<^verbatim>\<open>net.ParseIP\<close> gives a loopback address, and \<^verbatim>\<open>%q\<close>.
\<close>

record config_lib =
  cl_duration :: "string \<Rightarrow> duration option"
  cl_url :: url_parser
  cl_loopback_ip :: "string \<Rightarrow> bool"
  cl_quote :: "string \<Rightarrow> string"

record config =
  cf_addr :: string
  cf_database_url :: string
  cf_api_tokens :: "string list"
  cf_session_secret :: string
  cf_cookie_secure :: bool
  cf_require_auth_reads :: bool
  cf_auto_migrate :: bool
  cf_dashboard_refresh_sec :: int
  cf_read_timeout :: duration
  cf_write_timeout :: duration
  cf_shutdown_timeout :: duration
  cf_db_connect_timeout :: duration
  cf_db_max_connections :: int
  cf_db_slow_query_threshold :: duration
  cf_human_auth_provider :: string
  cf_public_url :: string
  cf_oauth_client_id :: string
  cf_oauth_client_secret :: string
  cf_oidc_issuer_url :: string
  cf_allowed_orgs :: "string list"
  cf_allowed_subjects :: "string list"
  cf_allow_any :: bool
  cf_human_session_duration :: duration

subsection \<open>Parsing\<close>

definition env_or_default :: "(string \<Rightarrow> string) \<Rightarrow> string \<Rightarrow> string \<Rightarrow> string" where
  "env_or_default getenv key fallback = (if getenv key = [] then fallback else getenv key)"

definition split_list :: "string \<Rightarrow> string list" where
  "split_list raw = filter (\<lambda>v. v \<noteq> []) (map trim_space (split_on CHR '','' raw))"

text \<open>\<^verbatim>\<open>strconv.ParseBool\<close>.\<close>

definition parse_bool :: "string \<Rightarrow> bool option" where
  "parse_bool s =
     (if s \<in> {''1'', ''t'', ''T'', ''true'', ''TRUE'', ''True''} then Some True
      else if s \<in> {''0'', ''f'', ''F'', ''false'', ''FALSE'', ''False''} then Some False else None)"

text \<open>\<^verbatim>\<open>optionalEnv\<close>: the value to store, the default when unset.\<close>

definition optional_env :: "(string \<Rightarrow> string) \<Rightarrow> string \<Rightarrow> (string \<Rightarrow> 'a option) \<Rightarrow> 'a \<Rightarrow> string + 'a" where
  "optional_env getenv key parse def =
     (if getenv key = [] then Inr def
      else case parse (getenv key) of None \<Rightarrow> Inl key | Some x \<Rightarrow> Inr x)"

definition load_api_tokens :: "(string \<Rightarrow> string) \<Rightarrow> config \<Rightarrow> string + config" where
  "load_api_tokens getenv cfg =
     (let raw = getenv ''PCR_API_TOKENS''; tokens = split_list raw in
      if raw = [] then
        (if cf_human_auth_provider cfg = ''beyond'' then Inr cfg else Inl ''PCR_API_TOKENS is required but not set'')
      else if tokens = [] then
        (if cf_human_auth_provider cfg = ''beyond'' then Inr cfg else Inl ''PCR_API_TOKENS contains no valid tokens'')
      else Inr (cfg\<lparr>cf_api_tokens := tokens\<rparr>))"

definition min_session_secret_bytes :: nat where "min_session_secret_bytes = 32"

text \<open>\<open>random\<close> is the 32 bytes \<^verbatim>\<open>rand.Read\<close> gives.\<close>

definition load_session_secret :: "(string \<Rightarrow> string) \<Rightarrow> string option \<Rightarrow> config \<Rightarrow> string + config" where
  "load_session_secret getenv random cfg =
     (let v = getenv ''PCR_SESSION_SECRET'' in
      if v \<noteq> [] then
        (if length v < min_session_secret_bytes then Inl ''PCR_SESSION_SECRET must be at least 32 bytes''
         else Inr (cfg\<lparr>cf_session_secret := v\<rparr>))
      else case random of None \<Rightarrow> Inl ''generate session secret'' | Some secret \<Rightarrow> Inr (cfg\<lparr>cf_session_secret := secret\<rparr>))"

subsection \<open>Validation\<close>

definition validate_human_auth_provider :: "string \<Rightarrow> string option" where
  "validate_human_auth_provider provider =
     (if provider \<in> {''github'', ''google'', ''authentik'', ''beyond''} then None
      else if provider = [] then Some ''PCR_HUMAN_AUTH_PROVIDER is required but not set''
      else Some ''PCR_HUMAN_AUTH_PROVIDER must be github, google, authentik, or beyond'')"

definition https_or_loopback :: "config_lib \<Rightarrow> parsed_url \<Rightarrow> bool" where
  "https_or_loopback lib u =
     (pu_scheme u = ''https''
      \<or> (pu_scheme u = ''http'' \<and> (pu_hostname u = ''localhost'' \<or> cl_loopback_ip lib (pu_hostname u))))"

definition validate_public_url :: "config_lib \<Rightarrow> string \<Rightarrow> string option" where
  "validate_public_url lib raw =
     (if raw = [] then Some ''PCR_PUBLIC_URL is required but not set''
      else case cl_url lib raw of
          None \<Rightarrow> Some ''PCR_PUBLIC_URL must be an absolute URL''
        | Some u \<Rightarrow>
            (if pu_host u = [] then Some ''PCR_PUBLIC_URL must be an absolute URL''
             else if pu_has_user u \<or> pu_raw_query u \<noteq> [] \<or> pu_fragment u \<noteq> [] \<or> (pu_path u \<noteq> [] \<and> pu_path u \<noteq> ''/'')
             then Some ''PCR_PUBLIC_URL must be an origin without user info, path, query, or fragment''
             else if https_or_loopback lib u then None
             else Some ''PCR_PUBLIC_URL must use https except for loopback development''))"

definition trim_slashes :: "string \<Rightarrow> string" where
  "trim_slashes s = trim_right_slashes (dropWhile (\<lambda>c. c = CHR ''/'') s)"

definition validate_authentik_issuer_url :: "config_lib \<Rightarrow> string \<Rightarrow> string option" where
  "validate_authentik_issuer_url lib raw =
     (if raw = [] then Some ''PCR_OIDC_ISSUER_URL is required when PCR_HUMAN_AUTH_PROVIDER=authentik''
      else case cl_url lib raw of
          None \<Rightarrow> Some ''PCR_OIDC_ISSUER_URL must be an absolute URL''
        | Some u \<Rightarrow>
            (if pu_host u = [] then Some ''PCR_OIDC_ISSUER_URL must be an absolute URL''
             else if pu_has_user u \<or> pu_raw_query u \<noteq> [] \<or> pu_fragment u \<noteq> []
             then Some ''PCR_OIDC_ISSUER_URL must not contain user info, a query, or a fragment''
             else
               (let slug = trim_slashes (trim_prefix (pu_path u) ''/application/o/'') in
                if \<not> has_prefix (pu_path u) ''/application/o/'' \<or> slug = [] \<or> CHR ''/'' \<in> set slug
                   \<or> \<not> has_suffix (pu_path u) ''/''
                then Some ''PCR_OIDC_ISSUER_URL must use Authentik's per-provider /application/o/<slug>/ issuer''
                else if https_or_loopback lib u then None
                else Some ''PCR_OIDC_ISSUER_URL must use https except for loopback development'')))"

definition label_char :: "char \<Rightarrow> bool" where
  "label_char c = (let b = (byte_of c :: nat) in (97 \<le> b \<and> b \<le> 122) \<or> (48 \<le> b \<and> b \<le> 57) \<or> c = CHR ''-'')"

text \<open>The loop over the runes of a label accepts only ASCII, so it is a test of its bytes.\<close>

definition valid_domain_label :: "string \<Rightarrow> bool" where
  "valid_domain_label label =
     (if label = [] \<or> length label > 63 \<or> hd label = CHR ''-'' \<or> last label = CHR ''-'' then False
      else \<not> has_rune (\<lambda>r. (r < 97 \<or> 122 < r) \<and> (r < 48 \<or> 57 < r) \<and> r \<noteq> 45) label)"

fun has_double_dot :: "string \<Rightarrow> bool" where
  "has_double_dot (a # b # cs) = ((a = CHR ''.'' \<and> b = CHR ''.'') \<or> has_double_dot (b # cs))"
| "has_double_dot _ = False"

definition valid_domain :: "string \<Rightarrow> bool" where
  "valid_domain domain =
     (if domain = [] \<or> length domain > 253 \<or> has_double_dot domain then False
      else (let labels = split_on CHR ''.'' domain in
            if length labels < 2 then False else list_all valid_domain_label labels))"

text \<open>\<^verbatim>\<open>^[a-z0-9](?:[a-z0-9-]{0,37}[a-z0-9])?$\<close>.\<close>

definition github_org_pattern :: "string \<Rightarrow> bool" where
  "github_org_pattern s =
     (s \<noteq> [] \<and> length s \<le> 39 \<and> list_all label_char s \<and> hd s \<noteq> CHR ''-'' \<and> last s \<noteq> CHR ''-'')"

definition normalize_org :: "config_lib \<Rightarrow> string \<Rightarrow> string \<Rightarrow> string + string" where
  "normalize_org lib provider org =
     (let lowered = to_lower (trim_space org) in
      if provider = ''github'' then
        (if github_org_pattern lowered then Inr lowered
         else Inl (''PCR_ALLOWED_ORGS contains invalid GitHub organization '' @ cl_quote lib org))
      else if provider = ''google'' then
        (if valid_domain lowered then Inr lowered
         else Inl (''PCR_ALLOWED_ORGS contains invalid Google Workspace domain '' @ cl_quote lib org))
      else if provider = ''authentik'' \<or> provider = ''beyond'' then
        (if trim_space org = [] \<or> has_rune is_control (trim_space org)
         then Inl (''PCR_ALLOWED_ORGS contains invalid group '' @ cl_quote lib org)
         else Inr (trim_space org))
      else Inr lowered)"

fun normalize_orgs :: "config_lib \<Rightarrow> string \<Rightarrow> string list \<Rightarrow> string + string list" where
  "normalize_orgs lib provider [] = Inr []"
| "normalize_orgs lib provider (org # orgs) =
     (case normalize_org lib provider org of
        Inl err \<Rightarrow> Inl err
      | Inr x \<Rightarrow> (case normalize_orgs lib provider orgs of Inl err \<Rightarrow> Inl err | Inr xs \<Rightarrow> Inr (x # xs)))"

definition subject_prefix :: "config \<Rightarrow> string" where
  "subject_prefix cfg = cf_human_auth_provider cfg @ '':''
     @ (if cf_human_auth_provider cfg = ''authentik'' then cf_oidc_issuer_url cfg @ '':'' else [])"

definition subject_entry_ok :: "string \<Rightarrow> string \<Rightarrow> bool" where
  "subject_entry_ok prefix subject = (has_prefix subject prefix \<and> trim_prefix subject prefix \<noteq> [])"

definition validate_allowed_subjects :: "config_lib \<Rightarrow> config \<Rightarrow> string option" where
  "validate_allowed_subjects lib cfg =
     (case find (\<lambda>s. \<not> subject_entry_ok (subject_prefix cfg) s) (cf_allowed_subjects cfg) of
        None \<Rightarrow> None
      | Some s \<Rightarrow> Some (''PCR_HUMAN_AUTH_ALLOWED_SUBJECTS entry '' @ cl_quote lib s @ '' must start with ''
          @ cl_quote lib (subject_prefix cfg) @ '' and include a subject''))"

definition validate_human_auth_policy :: "config \<Rightarrow> string option" where
  "validate_human_auth_policy cfg =
     (let has_restrictions = (cf_allowed_orgs cfg \<noteq> [] \<or> cf_allowed_subjects cfg \<noteq> []) in
      if cf_allow_any cfg \<and> has_restrictions
      then Some ''PCR_HUMAN_AUTH_ALLOW_ANY cannot be true when PCR_ALLOWED_ORGS or PCR_HUMAN_AUTH_ALLOWED_SUBJECTS is set''
      else if \<not> cf_allow_any cfg \<and> \<not> has_restrictions
      then Some ''PCR_ALLOWED_ORGS or PCR_HUMAN_AUTH_ALLOWED_SUBJECTS is required unless PCR_HUMAN_AUTH_ALLOW_ANY=true''
      else None)"

definition max_human_session_duration :: duration where "max_human_session_duration = 7 * 24 * hour"

text \<open>Checks in order: the first message.\<close>

definition first_error :: "string option list \<Rightarrow> string option" where
  "first_error checks = (case filter (\<lambda>c. c \<noteq> None) checks of [] \<Rightarrow> None | c # _ \<Rightarrow> c)"

definition required :: "string \<Rightarrow> bool \<Rightarrow> string option" where
  "required message ok = (if ok then None else Some message)"

definition validate_human_auth :: "config_lib \<Rightarrow> config \<Rightarrow> string + config" where
  "validate_human_auth lib cfg =
     (let oauth = (cf_human_auth_provider cfg \<noteq> ''beyond'') in
      case first_error
        [validate_human_auth_provider (cf_human_auth_provider cfg),
         validate_public_url lib (cf_public_url cfg),
         required ''PCR_OAUTH_CLIENT_ID is required but not set'' (oauth \<longrightarrow> cf_oauth_client_id cfg \<noteq> []),
         required ''PCR_OAUTH_CLIENT_SECRET is required but not set'' (oauth \<longrightarrow> cf_oauth_client_secret cfg \<noteq> []),
         (if cf_human_auth_provider cfg = ''authentik'' then validate_authentik_issuer_url lib (cf_oidc_issuer_url cfg) else None),
         required ''PCR_HUMAN_SESSION_DURATION must be greater than 0 and no more than 168h0m0s''
           (0 < cf_human_session_duration cfg \<and> cf_human_session_duration cfg \<le> max_human_session_duration)] of
        Some err \<Rightarrow> Inl err
      | None \<Rightarrow> (case normalize_orgs lib (cf_human_auth_provider cfg) (cf_allowed_orgs cfg) of
          Inl err \<Rightarrow> Inl err
        | Inr orgs \<Rightarrow>
            (let cfg' = cfg\<lparr>cf_allowed_orgs := orgs\<rparr> in
             case first_error [validate_allowed_subjects lib cfg', validate_human_auth_policy cfg'] of
               Some err \<Rightarrow> Inl err | None \<Rightarrow> Inr cfg')))"

definition max_int32 :: int where "max_int32 = 2147483647"

definition validate :: "config_lib \<Rightarrow> config \<Rightarrow> string + config" where
  "validate lib cfg =
     (case first_error
        [required ''PCR_DASHBOARD_REFRESH_SEC must be greater than or equal to 0'' (0 \<le> cf_dashboard_refresh_sec cfg),
         required ''PCR_READ_TIMEOUT must be greater than 0'' (0 < cf_read_timeout cfg),
         required ''PCR_WRITE_TIMEOUT must be greater than 0'' (0 < cf_write_timeout cfg),
         required ''PCR_SHUTDOWN_TIMEOUT must be greater than 0'' (0 < cf_shutdown_timeout cfg),
         required ''PCR_DB_CONNECT_TIMEOUT must be greater than 0'' (0 < cf_db_connect_timeout cfg),
         required ''PCR_DB_SLOW_QUERY_THRESHOLD must be greater than 0'' (0 < cf_db_slow_query_threshold cfg),
         required ''PCR_DB_MAX_CONNECTIONS must be between 1 and 2147483647''
           (0 < cf_db_max_connections cfg \<and> cf_db_max_connections cfg \<le> max_int32)] of
        Some err \<Rightarrow> Inl err
      | None \<Rightarrow> validate_human_auth lib cfg)"

subsection \<open>Load\<close>

definition default_config :: "(string \<Rightarrow> string) \<Rightarrow> config" where
  "default_config getenv = \<lparr>
     cf_addr = env_or_default getenv ''PCR_ADDR'' '':8080'', cf_database_url = getenv ''PCR_DATABASE_URL'',
     cf_api_tokens = [], cf_session_secret = [], cf_cookie_secure = True, cf_require_auth_reads = True,
     cf_auto_migrate = True, cf_dashboard_refresh_sec = 60, cf_read_timeout = 5 * second,
     cf_write_timeout = 10 * second, cf_shutdown_timeout = 15 * second, cf_db_connect_timeout = 5 * second,
     cf_db_max_connections = 10, cf_db_slow_query_threshold = second div 10,
     cf_human_auth_provider = to_lower (trim_space (getenv ''PCR_HUMAN_AUTH_PROVIDER'')),
     cf_public_url = trim_space (getenv ''PCR_PUBLIC_URL''),
     cf_oauth_client_id = trim_space (getenv ''PCR_OAUTH_CLIENT_ID''),
     cf_oauth_client_secret = getenv ''PCR_OAUTH_CLIENT_SECRET'',
     cf_oidc_issuer_url = trim_space (getenv ''PCR_OIDC_ISSUER_URL''),
     cf_allowed_orgs = split_list (getenv ''PCR_ALLOWED_ORGS''),
     cf_allowed_subjects = split_list (getenv ''PCR_HUMAN_AUTH_ALLOWED_SUBJECTS''),
     cf_allow_any = False, cf_human_session_duration = 12 * hour\<rparr>"

text \<open>\<open>set_env\<close> stores the parsed value of a variable, in a computation that stops at the first error.\<close>

definition set_env ::
  "(string \<Rightarrow> string) \<Rightarrow> string \<Rightarrow> (string \<Rightarrow> 'a option) \<Rightarrow> (config \<Rightarrow> 'a) \<Rightarrow> ('a \<Rightarrow> config \<Rightarrow> config)
    \<Rightarrow> string + config \<Rightarrow> string + config" where
  "set_env getenv key parse get put r = (case r of
      Inl err \<Rightarrow> Inl err
    | Inr cfg \<Rightarrow> (case optional_env getenv key parse (get cfg) of
        Inl err \<Rightarrow> Inl err | Inr x \<Rightarrow> Inr (put x cfg)))"

definition load_optional :: "config_lib \<Rightarrow> (string \<Rightarrow> string) \<Rightarrow> config \<Rightarrow> string + config" where
  "load_optional lib getenv cfg =
     fold (\<lambda>step. step) [
       set_env getenv ''PCR_REQUIRE_AUTH_READS'' parse_bool cf_require_auth_reads (\<lambda>x. cf_require_auth_reads_update (\<lambda>_. x)),
       set_env getenv ''PCR_AUTO_MIGRATE'' parse_bool cf_auto_migrate (\<lambda>x. cf_auto_migrate_update (\<lambda>_. x)),
       set_env getenv ''PCR_COOKIE_SECURE'' parse_bool cf_cookie_secure (\<lambda>x. cf_cookie_secure_update (\<lambda>_. x)),
       set_env getenv ''PCR_DASHBOARD_REFRESH_SEC'' atoi cf_dashboard_refresh_sec (\<lambda>x. cf_dashboard_refresh_sec_update (\<lambda>_. x)),
       set_env getenv ''PCR_READ_TIMEOUT'' (cl_duration lib) cf_read_timeout (\<lambda>x. cf_read_timeout_update (\<lambda>_. x)),
       set_env getenv ''PCR_WRITE_TIMEOUT'' (cl_duration lib) cf_write_timeout (\<lambda>x. cf_write_timeout_update (\<lambda>_. x)),
       set_env getenv ''PCR_SHUTDOWN_TIMEOUT'' (cl_duration lib) cf_shutdown_timeout (\<lambda>x. cf_shutdown_timeout_update (\<lambda>_. x)),
       set_env getenv ''PCR_DB_CONNECT_TIMEOUT'' (cl_duration lib) cf_db_connect_timeout (\<lambda>x. cf_db_connect_timeout_update (\<lambda>_. x)),
       set_env getenv ''PCR_DB_MAX_CONNECTIONS'' atoi cf_db_max_connections (\<lambda>x. cf_db_max_connections_update (\<lambda>_. x)),
       set_env getenv ''PCR_DB_SLOW_QUERY_THRESHOLD'' (cl_duration lib) cf_db_slow_query_threshold (\<lambda>x. cf_db_slow_query_threshold_update (\<lambda>_. x)),
       set_env getenv ''PCR_HUMAN_AUTH_ALLOW_ANY'' parse_bool cf_allow_any (\<lambda>x. cf_allow_any_update (\<lambda>_. x)),
       set_env getenv ''PCR_HUMAN_SESSION_DURATION'' (cl_duration lib) cf_human_session_duration (\<lambda>x. cf_human_session_duration_update (\<lambda>_. x))]
     (Inr cfg)"

definition load_config :: "config_lib \<Rightarrow> (string \<Rightarrow> string) \<Rightarrow> string option \<Rightarrow> string + config" where
  "load_config lib getenv random =
     (case load_api_tokens getenv (default_config getenv) of Inl err \<Rightarrow> Inl err | Inr cfg1 \<Rightarrow>
      if cf_database_url cfg1 = [] then Inl ''PCR_DATABASE_URL is required but not set''
      else case load_session_secret getenv random cfg1 of Inl err \<Rightarrow> Inl err | Inr cfg2 \<Rightarrow>
      case load_optional lib getenv cfg2 of Inl err \<Rightarrow> Inl err | Inr cfg3 \<Rightarrow> validate lib cfg3)"

subsection \<open>What a loaded configuration satisfies\<close>

definition config_ok :: "config \<Rightarrow> bool" where
  "config_ok cfg =
     (cf_database_url cfg \<noteq> []
      \<and> (cf_human_auth_provider cfg \<noteq> ''beyond'' \<longrightarrow> cf_api_tokens cfg \<noteq> [] \<and> cf_oauth_client_id cfg \<noteq> [] \<and> cf_oauth_client_secret cfg \<noteq> [])
      \<and> list_all (\<lambda>t. t \<noteq> []) (cf_api_tokens cfg)
      \<and> min_session_secret_bytes \<le> length (cf_session_secret cfg)
      \<and> 0 \<le> cf_dashboard_refresh_sec cfg
      \<and> 0 < cf_read_timeout cfg \<and> 0 < cf_write_timeout cfg \<and> 0 < cf_shutdown_timeout cfg
      \<and> 0 < cf_db_connect_timeout cfg \<and> 0 < cf_db_slow_query_threshold cfg
      \<and> 0 < cf_db_max_connections cfg \<and> cf_db_max_connections cfg \<le> max_int32
      \<and> 0 < cf_human_session_duration cfg \<and> cf_human_session_duration cfg \<le> max_human_session_duration
      \<and> (cf_allow_any cfg \<longleftrightarrow> cf_allowed_orgs cfg = [] \<and> cf_allowed_subjects cfg = [])
      \<and> list_all (subject_entry_ok (subject_prefix cfg)) (cf_allowed_subjects cfg))"

lemma first_error_None: "first_error cs = None \<longleftrightarrow> list_all (\<lambda>c. c = None) cs"
  by (induction cs) (auto simp: first_error_def)

lemma required_None [simp]: "required m ok = None \<longleftrightarrow> ok"
  by (simp add: required_def)

lemma policy_None: "validate_human_auth_policy cfg = None \<longleftrightarrow>
    (cf_allow_any cfg \<longleftrightarrow> cf_allowed_orgs cfg = [] \<and> cf_allowed_subjects cfg = [])"
  by (auto simp: validate_human_auth_policy_def Let_def)

lemma subjects_None: "validate_allowed_subjects lib cfg = None \<longleftrightarrow>
    list_all (subject_entry_ok (subject_prefix cfg)) (cf_allowed_subjects cfg)"
  by (auto simp: validate_allowed_subjects_def find_None_iff list_all_iff dest: find_SomeD split: option.splits)

lemma validate_human_auth_Inr:
  assumes "validate_human_auth lib cfg = Inr cfg'"
  shows "\<exists>orgs. cfg' = cfg\<lparr>cf_allowed_orgs := orgs\<rparr> \<and> normalize_orgs lib (cf_human_auth_provider cfg) (cf_allowed_orgs cfg) = Inr orgs
    \<and> validate_human_auth_provider (cf_human_auth_provider cfg) = None \<and> validate_public_url lib (cf_public_url cfg) = None
    \<and> (cf_human_auth_provider cfg \<noteq> ''beyond'' \<longrightarrow> cf_oauth_client_id cfg \<noteq> [] \<and> cf_oauth_client_secret cfg \<noteq> [])
    \<and> 0 < cf_human_session_duration cfg \<and> cf_human_session_duration cfg \<le> max_human_session_duration
    \<and> validate_allowed_subjects lib cfg' = None \<and> validate_human_auth_policy cfg' = None"
  using assms
  by (auto simp: validate_human_auth_def Let_def first_error_None split: option.splits sum.splits)

lemma split_list_nonempty: "list_all (\<lambda>t. t \<noteq> []) (split_list raw)"
  by (simp add: split_list_def list_all_iff)

text \<open>The fields \<^verbatim>\<open>optionalEnv\<close> does not write keep their values.\<close>

definition same_required :: "config \<Rightarrow> config \<Rightarrow> bool" where
  "same_required a b = (cf_database_url a = cf_database_url b \<and> cf_api_tokens a = cf_api_tokens b
     \<and> cf_session_secret a = cf_session_secret b \<and> cf_human_auth_provider a = cf_human_auth_provider b)"

lemma set_env_same:
  assumes "set_env getenv key parse get put r = Inr b" and "\<And>x c. same_required c (put x c)"
  shows "\<exists>a. r = Inr a \<and> same_required a b"
  using assms by (auto simp: set_env_def split: sum.splits)

lemma same_required_trans: "same_required a b \<Longrightarrow> same_required b c \<Longrightarrow> same_required a c"
  by (simp add: same_required_def)

lemma load_optional_same: "load_optional lib getenv a = Inr b \<Longrightarrow> same_required a b"
  unfolding load_optional_def fold_simps comp_def id_def
  by (drule set_env_same, simp add: same_required_def, elim exE conjE)+ (auto simp: same_required_def)

lemma load_api_tokens_Inr:
  assumes "load_api_tokens getenv cfg = Inr cfg'" and "cf_api_tokens cfg = []"
  shows "cf_database_url cfg' = cf_database_url cfg \<and> cf_human_auth_provider cfg' = cf_human_auth_provider cfg
    \<and> list_all (\<lambda>t. t \<noteq> []) (cf_api_tokens cfg') \<and> (cf_human_auth_provider cfg \<noteq> ''beyond'' \<longrightarrow> cf_api_tokens cfg' \<noteq> [])"
  using assms split_list_nonempty [of "getenv ''PCR_API_TOKENS''"]
  by (auto simp: load_api_tokens_def Let_def split: if_splits)

lemma load_session_secret_Inr:
  assumes "load_session_secret getenv random cfg = Inr cfg'"
    and "\<And>r. random = Some r \<Longrightarrow> length r = min_session_secret_bytes"
  shows "\<exists>secret. cfg' = cfg\<lparr>cf_session_secret := secret\<rparr> \<and> min_session_secret_bytes \<le> length secret"
  using assms by (auto simp: load_session_secret_def Let_def split: if_splits option.splits)

lemma load_config_ok:
  assumes load: "load_config lib getenv random = Inr cfg"
    and random: "\<And>r. random = Some r \<Longrightarrow> length r = min_session_secret_bytes"
  shows "config_ok cfg"
proof -
  from load obtain c1 c2 c3 where c1: "load_api_tokens getenv (default_config getenv) = Inr c1" and db: "cf_database_url c1 \<noteq> []"
    and c2: "load_session_secret getenv random c1 = Inr c2" and c3: "load_optional lib getenv c2 = Inr c3"
    and val: "validate lib c3 = Inr cfg"
    by (auto simp: load_config_def split: sum.splits if_splits)
  have k1: "list_all (\<lambda>t. t \<noteq> []) (cf_api_tokens c1)" "cf_human_auth_provider c1 \<noteq> ''beyond'' \<longrightarrow> cf_api_tokens c1 \<noteq> []"
    using load_api_tokens_Inr [OF c1] by (simp_all add: default_config_def)
  obtain secret where k2: "c2 = c1\<lparr>cf_session_secret := secret\<rparr>" "min_session_secret_bytes \<le> length secret"
    using load_session_secret_Inr [OF c2 random] by blast
  have k3: "same_required c2 c3" by (rule load_optional_same [OF c3])
  from val have v: "validate_human_auth lib c3 = Inr cfg"
    "0 \<le> cf_dashboard_refresh_sec c3 \<and> 0 < cf_read_timeout c3 \<and> 0 < cf_write_timeout c3 \<and> 0 < cf_shutdown_timeout c3
      \<and> 0 < cf_db_connect_timeout c3 \<and> 0 < cf_db_slow_query_threshold c3
      \<and> 0 < cf_db_max_connections c3 \<and> cf_db_max_connections c3 \<le> max_int32"
    by (simp_all add: validate_def first_error_None split: option.splits)
  from validate_human_auth_Inr [OF v(1)] obtain orgs where k4: "cfg = c3\<lparr>cf_allowed_orgs := orgs\<rparr>"
    and h: "cf_human_auth_provider c3 \<noteq> ''beyond'' \<longrightarrow> cf_oauth_client_id c3 \<noteq> [] \<and> cf_oauth_client_secret c3 \<noteq> []"
      "0 < cf_human_session_duration c3 \<and> cf_human_session_duration c3 \<le> max_human_session_duration"
      "validate_allowed_subjects lib cfg = None" "validate_human_auth_policy cfg = None" by auto
  from db k1 k2 k3 v(2) h show ?thesis
    unfolding config_ok_def subjects_None policy_None k4 same_required_def by simp
qed

end
