(* ===== verification/CliConfig.thy ===== *)
theory CliConfig
  imports Config
begin

section \<open>Configuration of the pcr command: internal/pcrconfig\<close>

text \<open>
  Every error of this package wraps \<^verbatim>\<open>ErrInvalid\<close>, so an error is its message. The file system is a
  map from paths to contents and permission bits; a call that may fail takes the next of a list of
  faults. The TOML package, \<^verbatim>\<open>url.Parse\<close>, \<^verbatim>\<open>URL.String\<close>, \<^verbatim>\<open>net.ParseIP\<close> and \<^verbatim>\<open>%q\<close> are the
  functions of \<open>cli_lib\<close>.
\<close>

record cfg_file =
  fi_version :: int
  fi_url :: string
  fi_credential :: string

record cli_lib =
  cb_url :: url_parser
  cb_url_string :: "parsed_url \<Rightarrow> string"
  cb_loopback_ip :: "string \<Rightarrow> bool"
  cb_quote :: "string \<Rightarrow> string"
  cb_toml_keys :: "string \<Rightarrow> string list option"
  cb_toml_decode :: "string \<Rightarrow> cfg_file option"
  cb_toml_marshal :: "cfg_file \<Rightarrow> string option"

subsection \<open>Text, origins and credentials\<close>

definition is_unsafe_text_rune :: "rune \<Rightarrow> bool" where
  "is_unsafe_text_rune r = (is_control r \<or> is_format r \<or> r = 0x2028 \<or> r = 0x2029)"

definition contains_unsafe_text :: "string \<Rightarrow> bool" where
  "contains_unsafe_text s = has_rune is_unsafe_text_rune s"

definition is_loopback :: "cli_lib \<Rightarrow> string \<Rightarrow> bool" where
  "is_loopback lib host = (equal_fold_ascii host ''localhost'' \<or> cb_loopback_ip lib host)"

definition https_origin_message :: string where
  "https_origin_message = ''PCR URL must be an HTTPS origin''"

definition parse_origin :: "cli_lib \<Rightarrow> string \<Rightarrow> bool \<Rightarrow> string + parsed_url" where
  "parse_origin lib raw allow_http =
     (if raw = [] then Inl ''PCR URL is required; set --url, PCR_URL, or url in the configuration file''
      else if trim_space raw \<noteq> raw then Inl https_origin_message
      else case cb_url lib raw of
          None \<Rightarrow> Inl https_origin_message
        | Some origin \<Rightarrow>
            (if pu_scheme origin = [] \<or> pu_host origin = [] \<or> pu_hostname origin = [] \<or> pu_opaque origin \<noteq> []
             then Inl https_origin_message
             else if pu_has_user origin \<or> pu_raw_query origin \<noteq> [] \<or> pu_fragment origin \<noteq> []
                     \<or> (pu_path origin \<noteq> [] \<and> pu_path origin \<noteq> ''/'')
             then Inl ''PCR URL must not contain user info, a path, query, or fragment''
             else if pu_scheme origin \<noteq> ''https''
                     \<and> (\<not> allow_http \<or> \<not> (pu_scheme origin = ''http'' \<and> is_loopback lib (pu_hostname origin)))
             then Inl ''PCR URL must use HTTPS; --allow-http permits HTTP only for loopback hosts''
             else Inr (origin\<lparr>pu_path := []\<rparr>)))"

definition credential_message :: string where
  "credential_message = ''credential must be an email and app password separated by a colon''"

definition validate_credential :: "string \<Rightarrow> string option" where
  "validate_credential credential =
     (if credential = [] \<or> trim_space credential \<noteq> credential \<or> contains_unsafe_text credential
      then Some credential_message
      else case cut CHR '':'' credential of (email, password, found) \<Rightarrow>
        if \<not> found \<or> email = [] \<or> password = [] \<or> CHR ''@'' \<notin> set email then Some credential_message else None)"

definition validate_file :: "cli_lib \<Rightarrow> cfg_file \<Rightarrow> string option" where
  "validate_file lib cfg =
     (if fi_version cfg \<noteq> 1 then Some (''unsupported configuration version '' @ itoa (fi_version cfg))
      else if fi_url cfg = [] then Some ''configuration URL is required''
      else case parse_origin lib (fi_url cfg) True of
          Inl err \<Rightarrow> Some err
        | Inr _ \<Rightarrow> (if fi_credential cfg \<noteq> [] then validate_credential (fi_credential cfg) else None))"

subsection \<open>The path of the configuration file\<close>

definition repeated_config :: string where "repeated_config = ''--config may be specified only once''"

fun config_path_from_args :: "string list \<Rightarrow> string option \<Rightarrow> string + string option" where
  "config_path_from_args [] found = Inr found"
| "config_path_from_args (arg # rest) found =
     (if arg = ''--config'' then
        (if found \<noteq> None then Inl repeated_config
         else case rest of
             [] \<Rightarrow> Inl ''--config requires a path''
           | v # rest' \<Rightarrow> (if has_prefix v ''-'' then Inl ''--config requires a path'' else config_path_from_args rest' (Some v)))
      else if has_prefix arg ''--config='' then
        (if found \<noteq> None then Inl repeated_config
         else config_path_from_args rest (Some (trim_prefix arg ''--config='')))
      else config_path_from_args rest found)"

text \<open>\<open>default_path\<close> is \<^verbatim>\<open>DefaultPath\<close>, None when there is no user configuration directory.\<close>

definition bootstrap_path ::
  "string option \<Rightarrow> string list \<Rightarrow> (string \<Rightarrow> string) \<Rightarrow> string + (string \<times> bool)" where
  "bootstrap_path default_path args getenv = (case config_path_from_args args None of
      Inl err \<Rightarrow> Inl err
    | Inr (Some path) \<Rightarrow>
        (if path = [] then Inl ''--config requires a non-empty path''
         else if contains_unsafe_text path then Inl ''--config path contains control characters''
         else Inr (path, True))
    | Inr None \<Rightarrow>
        (let path = trim_space (getenv ''PCR_CONFIG'') in
         if path \<noteq> [] then
           (if contains_unsafe_text path then Inl ''PCR_CONFIG path contains control characters'' else Inr (path, True))
         else (case default_path of
             None \<Rightarrow> Inl ''determine user configuration directory'' | Some p \<Rightarrow> Inr (p, False))))"

subsection \<open>The file system\<close>

record fs =
  fs_files :: "string \<Rightarrow> (string \<times> nat) option"
  fs_faults :: "bool list"

type_synonym 'a fs_op = "(fs, string, 'a) prog"

text \<open>A call that may fail: the head of the faults decides; with no faults left it succeeds.\<close>

definition fallible :: "string \<Rightarrow> unit fs_op" where
  "fallible message s = (case fs_faults s of
      [] \<Rightarrow> (Inr (), s)
    | fails # rest \<Rightarrow> (if fails then Inl message else Inr (), s\<lparr>fs_faults := rest\<rparr>))"

definition set_file :: "string \<Rightarrow> (string \<times> nat) option \<Rightarrow> unit fs_op" where
  "set_file path node s = (Inr (), s\<lparr>fs_files := (fs_files s)(path := node)\<rparr>)"

subsection \<open>Load\<close>

definition max_file_size :: nat where "max_file_size = 1024 * 1024"

definition group_or_other :: "nat \<Rightarrow> bool" where
  "group_or_other mode = (mode mod 64 \<noteq> 0)"

definition decode_file :: "cli_lib \<Rightarrow> string \<Rightarrow> string \<Rightarrow> string + cfg_file" where
  "decode_file lib path contents =
     (if length contents > max_file_size then Inl (''configuration file '' @ cb_quote lib path @ '' exceeds 1 MiB'')
      else case cb_toml_keys lib contents of
          None \<Rightarrow> Inl (''configuration file '' @ cb_quote lib path @ '' is not valid TOML'')
        | Some ks \<Rightarrow>
            (case sort (filter (\<lambda>k. k \<notin> {''version'', ''url'', ''credential''}) ks) of
               unknown # _ \<Rightarrow> Inl (''unknown configuration key '' @ cb_quote lib unknown)
             | [] \<Rightarrow> (case cb_toml_decode lib contents of
                 None \<Rightarrow> Inl (''configuration file '' @ cb_quote lib path @ '' has invalid value types'')
               | Some cfg \<Rightarrow> (case validate_file lib cfg of Some err \<Rightarrow> Inl err | None \<Rightarrow> Inr cfg))))"

definition empty_file :: cfg_file where
  "empty_file = \<lparr>fi_version = 0, fi_url = [], fi_credential = []\<rparr>"

definition load_file :: "cli_lib \<Rightarrow> string \<Rightarrow> bool \<Rightarrow> (cfg_file \<times> bool) fs_op" where
  "load_file lib path required_path = with_state (\<lambda>s. case fs_files s path of
      None \<Rightarrow> (if required_path then throw (''open configuration file '' @ cb_quote lib path) else ret (empty_file, False))
    | Some (contents, mode) \<Rightarrow>
        and_then (fallible (''open configuration file '' @ cb_quote lib path)) (\<lambda>_.
        and_then (fallible (''read configuration file '' @ cb_quote lib path)) (\<lambda>_.
        and_then (of_result (decode_file lib path contents)) (\<lambda>cfg.
        and_then (fallible (''inspect configuration file '' @ cb_quote lib path)) (\<lambda>_.
          if fi_credential cfg \<noteq> [] \<and> group_or_other mode
          then throw (''configuration file '' @ cb_quote lib path @ '' contains a credential but mode permits group or other access'')
          else ret (cfg, True))))))"

subsection \<open>Resolve\<close>

record cli_values =
  vl_path :: string
  vl_url :: string
  vl_url_source :: string
  vl_credential :: string
  vl_credential_source :: string
  vl_file_loaded :: bool

record resolve_options =
  ro_path :: string
  ro_path_required :: bool
  ro_url :: string
  ro_allow_http :: bool
  ro_getenv :: "string \<Rightarrow> string"

definition choose_url :: "resolve_options \<Rightarrow> cfg_file \<Rightarrow> string \<times> string" where
  "choose_url opts cfg =
     (if trim_space (ro_url opts) \<noteq> [] then (trim_space (ro_url opts), ''flag'')
      else if trim_space (ro_getenv opts ''PCR_URL'') \<noteq> [] then (trim_space (ro_getenv opts ''PCR_URL''), ''environment'')
      else if fi_url cfg \<noteq> [] then (fi_url cfg, ''file'') else ([], []))"

definition choose_credential :: "resolve_options \<Rightarrow> cfg_file \<Rightarrow> string + (string \<times> string)" where
  "choose_credential opts cfg =
     (let from_env = ro_getenv opts ''PCR_CREDENTIAL'' in
      if from_env \<noteq> [] then
        (case validate_credential from_env of Some err \<Rightarrow> Inl err | None \<Rightarrow> Inr (from_env, ''environment''))
      else if fi_credential cfg \<noteq> [] then Inr (fi_credential cfg, ''file'')
      else Inr ([], ''missing''))"

definition resolve_values :: "cli_lib \<Rightarrow> resolve_options \<Rightarrow> cfg_file \<Rightarrow> bool \<Rightarrow> string + cli_values" where
  "resolve_values lib opts cfg loaded = (case choose_url opts cfg of (url, source) \<Rightarrow>
      (case parse_origin lib url (ro_allow_http opts) of
         Inl err \<Rightarrow> Inl err
       | Inr origin \<Rightarrow> (case choose_credential opts cfg of
           Inl err \<Rightarrow> Inl err
         | Inr (credential, credential_source) \<Rightarrow> Inr \<lparr>vl_path = ro_path opts, vl_url = cb_url_string lib origin,
             vl_url_source = source, vl_credential = credential, vl_credential_source = credential_source,
             vl_file_loaded = loaded\<rparr>)))"

definition resolve :: "cli_lib \<Rightarrow> resolve_options \<Rightarrow> cli_values fs_op" where
  "resolve lib opts = and_then (load_file lib (ro_path opts) (ro_path_required opts)) (\<lambda>(cfg, loaded).
     of_result (resolve_values lib opts cfg loaded))"

subsection \<open>Write\<close>

text \<open>
  \<open>temp\<close> is the name \<^verbatim>\<open>os.CreateTemp\<close> picks. The temporary file has the target's contents and mode
  only after its write; it is removed on every path, which after a rename removes nothing.
\<close>

definition write_temporary_file :: "string \<Rightarrow> string \<Rightarrow> unit fs_op" where
  "write_temporary_file temp contents =
     and_then (fallible ''write temporary configuration file'') (\<lambda>_.
     and_then (set_file temp (Some ([], 384))) (\<lambda>_.
     and_then (fallible ''write temporary configuration file'') (\<lambda>_.
     and_then (set_file temp (Some (contents, 384))) (\<lambda>_.
     and_then (fallible ''write temporary configuration file'') (\<lambda>_.
       fallible ''write temporary configuration file'')))))"

definition rename_file :: "string \<Rightarrow> string \<Rightarrow> unit fs_op" where
  "rename_file temp path = with_state (\<lambda>s. and_then (set_file path (fs_files s temp)) (\<lambda>_. set_file temp None))"

definition install_file :: "cli_lib \<Rightarrow> string \<Rightarrow> string \<Rightarrow> bool \<Rightarrow> unit fs_op" where
  "install_file lib temp path replace =
     (if replace then
        and_then (fallible (''replace configuration file '' @ cb_quote lib path)) (\<lambda>_. rename_file temp path)
      else with_state (\<lambda>s. case fs_files s path of
          Some _ \<Rightarrow> throw (''configuration file '' @ cb_quote lib path @ '' already exists'')
        | None \<Rightarrow> and_then (fallible (''create configuration file '' @ cb_quote lib path)) (\<lambda>_.
            with_state (\<lambda>s. set_file path (fs_files s temp)))))"

definition always_remove :: "string \<Rightarrow> 'a fs_op \<Rightarrow> 'a fs_op" where
  "always_remove temp m s = (case m s of (r, s') \<Rightarrow> (r, s'\<lparr>fs_files := (fs_files s')(temp := None)\<rparr>))"

definition write_config :: "cli_lib \<Rightarrow> string \<Rightarrow> string \<Rightarrow> cfg_file \<Rightarrow> bool \<Rightarrow> unit fs_op" where
  "write_config lib temp path cfg replace = (case validate_file lib cfg of
      Some err \<Rightarrow> throw err
    | None \<Rightarrow> (case cb_toml_marshal lib cfg of
        None \<Rightarrow> throw ''encode configuration''
      | Some contents \<Rightarrow>
          and_then (fallible ''create configuration directory'') (\<lambda>_.
          and_then (fallible ''create temporary configuration file'') (\<lambda>_.
          and_then (set_file temp (Some ([], 384))) (\<lambda>_.
            always_remove temp
              (and_then (write_temporary_file temp contents) (\<lambda>_.
               and_then (install_file lib temp path replace) (\<lambda>_.
                 fallible ''sync configuration directory''))))))))"

subsection \<open>Reading a credential\<close>

datatype stdin = Terminal "string option" | Piped "string option"

definition max_credential_size :: nat where "max_credential_size = 64 * 1024"

definition checked_credential :: "string \<Rightarrow> string + string" where
  "checked_credential credential = (case validate_credential credential of Some err \<Rightarrow> Inl err | None \<Rightarrow> Inr credential)"

definition read_credential :: "stdin \<Rightarrow> string + string" where
  "read_credential input = (case input of
      Terminal None \<Rightarrow> Inl ''read credential from terminal''
    | Terminal (Some line) \<Rightarrow> checked_credential line
    | Piped None \<Rightarrow> Inl ''read credential from stdin''
    | Piped (Some contents) \<Rightarrow>
        (if length contents > max_credential_size then Inl ''credential input is too large''
         else checked_credential (trim_suffix (trim_suffix contents [CHR 0x0A]) [CHR 0x0D])))"

subsection \<open>A write changes the file at once or not at all\<close>

lemma fallible_files: "fallible m s = (r, s') \<Longrightarrow> fs_files s' = fs_files s"
  by (auto simp: fallible_def split: list.splits)

lemma and_then_fallible:
  assumes "and_then (fallible m) f s = (r, s')"
  shows "(r = Inl m \<and> fs_files s' = fs_files s) \<or> (\<exists>s1. fs_files s1 = fs_files s \<and> f () s1 = (r, s'))"
proof (cases "fallible m s")
  case (Pair r1 s1)
  note fallible_files [OF Pair]
  with Pair assms show ?thesis by (cases r1) (auto simp: and_then_def fallible_def split: list.splits if_splits)
qed

lemma set_file_result: "set_file p n s = (r, s') \<Longrightarrow> r = Inr () \<and> fs_files s' = (fs_files s)(p := n)"
  by (auto simp: set_file_def)

text \<open>A run that only touches the temporary file.\<close>

definition only_temp :: "string \<Rightarrow> unit fs_op \<Rightarrow> bool" where
  "only_temp temp m = (\<forall>s r s'. m s = (r, s') \<longrightarrow> (\<forall>p. p \<noteq> temp \<longrightarrow> fs_files s' p = fs_files s p))"

lemma only_temp_fallible: "only_temp temp (fallible m)"
  by (auto simp: only_temp_def dest: fallible_files)

lemma only_temp_set: "only_temp temp (set_file temp n)"
  by (auto simp: only_temp_def dest: set_file_result)

lemma only_temp_and_then: "only_temp temp m \<Longrightarrow> (\<And>x. only_temp temp (f x)) \<Longrightarrow> only_temp temp (and_then m f)"
  unfolding only_temp_def and_then_def by (auto split: prod.splits sum.splits)

lemma write_temporary_other: "only_temp temp (write_temporary_file temp contents)"
  unfolding write_temporary_file_def by (intro only_temp_and_then only_temp_fallible only_temp_set)

lemma write_temporary_done:
  assumes "write_temporary_file temp contents s = (Inr (), s')"
  shows "fs_files s' temp = Some (contents, 384)"
  using assms unfolding write_temporary_file_def
  by (auto elim!: and_then_InrE dest!: fallible_files set_file_result)

lemma install_other:
  assumes "install_file lib temp path replace s = (r, s')" and "p \<noteq> temp" "p \<noteq> path"
  shows "fs_files s' p = fs_files s p"
  using assms unfolding install_file_def rename_file_def
  by (auto simp: and_then_def with_state_def throw_def set_file_def split: if_splits option.splits prod.splits sum.splits
      dest: fallible_files)

lemma install_path:
  assumes "install_file lib temp path replace s = (r, s')" and "temp \<noteq> path"
  shows "(case r of Inl _ \<Rightarrow> fs_files s' path = fs_files s path
     | Inr _ \<Rightarrow> fs_files s' path = fs_files s temp \<and> (replace \<or> fs_files s path = None))"
  using assms unfolding install_file_def rename_file_def
  by (auto simp: and_then_def with_state_def throw_def set_file_def split: if_splits option.splits prod.splits sum.splits
      dest: fallible_files)

lemma install_and_sync:
  assumes "and_then (install_file lib temp path replace) (\<lambda>_. fallible m) s = (r, s')"
    and "temp \<noteq> path" and "fs_files s temp = Some node"
  shows "(\<forall>p. p \<noteq> temp \<and> p \<noteq> path \<longrightarrow> fs_files s' p = fs_files s p)
    \<and> (fs_files s' path = fs_files s path \<or> fs_files s' path = Some node)
    \<and> (r = Inr () \<longrightarrow> fs_files s' path = Some node) \<and> (\<not> replace \<and> fs_files s path \<noteq> None \<longrightarrow> fs_files s' path = fs_files s path \<and> r \<noteq> Inr ())"
proof (cases "install_file lib temp path replace s")
  case (Pair r1 s1)
  note other = install_other [OF Pair] and here = install_path [OF Pair assms(2)]
  show ?thesis
  proof (cases r1)
    case (Inl e)
    with assms(1) Pair have "r = Inl e" "s' = s1" by (simp_all add: and_then_def)
    with other here Inl show ?thesis by simp
  next
    case (Inr u)
    with assms(1) Pair have "fallible m s1 = (r, s')" by (simp add: and_then_def)
    then have "fs_files s' = fs_files s1" by (rule fallible_files)
    with other here Inr assms(3) show ?thesis by auto
  qed
qed

definition replaced :: "fs \<Rightarrow> fs \<Rightarrow> string \<Rightarrow> (string \<times> nat) \<Rightarrow> bool \<Rightarrow> string + unit \<Rightarrow> bool" where
  "replaced s s' path node replace r =
     ((\<forall>p. p \<noteq> path \<longrightarrow> fs_files s' p = fs_files s p)
      \<and> (fs_files s' path = fs_files s path \<or> fs_files s' path = Some node)
      \<and> (r = Inr () \<longrightarrow> fs_files s' path = Some node)
      \<and> (\<not> replace \<and> fs_files s path \<noteq> None \<longrightarrow> fs_files s' path = fs_files s path \<and> r \<noteq> Inr ()))"

lemma replaced_unchanged: "fs_files s' = fs_files s \<Longrightarrow> replaced s s' path node replace (Inl e)"
  by (simp add: replaced_def)

lemma write_body:
  assumes "and_then (write_temporary_file temp contents) (\<lambda>_.
      and_then (install_file lib temp path replace) (\<lambda>_. fallible m)) s = (r, s')"
    and "temp \<noteq> path"
  shows "replaced (s\<lparr>fs_files := (fs_files s)(temp := None)\<rparr>) (s'\<lparr>fs_files := (fs_files s')(temp := None)\<rparr>) path (contents, 384) replace r"
proof (cases "write_temporary_file temp contents s")
  case (Pair r1 s1)
  have other: "\<forall>p. p \<noteq> temp \<longrightarrow> fs_files s1 p = fs_files s p"
    using write_temporary_other [of temp contents] Pair unfolding only_temp_def by blast
  show ?thesis
  proof (cases r1)
    case (Inl e)
    with assms(1) Pair have "r = Inl e" "s' = s1" by (simp_all add: and_then_def)
    with other assms(2) show ?thesis by (simp add: replaced_def)
  next
    case (Inr u)
    with Pair have run: "write_temporary_file temp contents s = (Inr (), s1)" by simp
    from assms(1) run have rest: "and_then (install_file lib temp path replace) (\<lambda>_. fallible m) s1 = (r, s')"
      by (simp add: and_then_def)
    from install_and_sync [OF rest assms(2) write_temporary_done [OF run]] other assms(2)
    show ?thesis unfolding replaced_def by auto
  qed
qed

lemma write_config_atomic:
  assumes run: "write_config lib temp path cfg replace s = (r, s')"
    and fresh: "fs_files s temp = None" and "temp \<noteq> path" and contents: "cb_toml_marshal lib cfg = Some contents"
  shows "replaced s s' path (contents, 384) replace r"
proof (cases "validate_file lib cfg")
  case (Some err)
  with run show ?thesis by (auto simp: write_config_def throw_def replaced_unchanged)
next
  case None
  let ?make = "\<lambda>_. and_then (set_file temp (Some ([], 384))) (\<lambda>_. always_remove temp
      (and_then (write_temporary_file temp contents) (\<lambda>_. and_then (install_file lib temp path replace) (\<lambda>_.
         fallible ''sync configuration directory''))))"
  from run None contents have "and_then (fallible ''create configuration directory'') (\<lambda>_.
      and_then (fallible ''create temporary configuration file'') ?make) s = (r, s')" by (simp add: write_config_def)
  from and_then_fallible [OF this] consider (early) e where "r = Inl e" "fs_files s' = fs_files s"
    | s1 where "fs_files s1 = fs_files s" "and_then (fallible ''create temporary configuration file'') ?make s1 = (r, s')" by blast
  then consider (early) e where "r = Inl e" "fs_files s' = fs_files s"
    | (late) s1 where "fs_files s1 = fs_files s" "?make () s1 = (r, s')"
  proof cases
    case 2
    from and_then_fallible [OF 2(2)] 2(1) that show ?thesis by metis
  qed
  then show ?thesis
  proof cases
    case early
    then show ?thesis by (simp add: replaced_unchanged)
  next
    case late
    let ?s2 = "s1\<lparr>fs_files := (fs_files s1)(temp := Some ([], 384))\<rparr>"
    obtain s3 where s3: "and_then (write_temporary_file temp contents) (\<lambda>_. and_then (install_file lib temp path replace) (\<lambda>_.
         fallible ''sync configuration directory'')) ?s2 = (r, s3)" and s': "s' = s3\<lparr>fs_files := (fs_files s3)(temp := None)\<rparr>"
      using late(2) by (auto simp: and_then_def [of "set_file _ _"] set_file_def always_remove_def split: prod.splits)
    from write_body [OF s3 \<open>temp \<noteq> path\<close>] late(1) fresh show ?thesis
      unfolding s' replaced_def by (simp add: fun_upd_idem)
  qed
qed

subsection \<open>What a resolved configuration promises\<close>

definition secure_origin :: "cli_lib \<Rightarrow> bool \<Rightarrow> parsed_url \<Rightarrow> bool" where
  "secure_origin lib allow_http u =
     (pu_host u \<noteq> [] \<and> \<not> pu_has_user u \<and> pu_path u = [] \<and> pu_raw_query u = [] \<and> pu_fragment u = []
      \<and> (pu_scheme u = ''https'' \<or> (allow_http \<and> pu_scheme u = ''http'' \<and> is_loopback lib (pu_hostname u))))"

lemma parse_origin_secure: "parse_origin lib raw allow_http = Inr u \<Longrightarrow> secure_origin lib allow_http u"
  by (auto simp: parse_origin_def secure_origin_def split: if_splits option.splits)

lemma choose_credential_valid:
  assumes "choose_credential opts cfg = Inr (c, source)"
    and "fi_credential cfg \<noteq> [] \<Longrightarrow> validate_credential (fi_credential cfg) = None"
  shows "c = [] \<or> validate_credential c = None"
  using assms by (auto simp: choose_credential_def Let_def split: if_splits option.splits)

lemma resolve_values_secure:
  assumes "resolve_values lib opts cfg loaded = Inr v"
    and "fi_credential cfg \<noteq> [] \<Longrightarrow> validate_credential (fi_credential cfg) = None"
  shows "(\<exists>u. vl_url v = cb_url_string lib u \<and> secure_origin lib (ro_allow_http opts) u)
    \<and> (vl_credential v = [] \<or> validate_credential (vl_credential v) = None)"
  using assms choose_credential_valid [of opts cfg] parse_origin_secure
  by (auto simp: resolve_values_def split: prod.splits sum.splits)

lemma validate_file_credential: "validate_file lib cfg = None \<Longrightarrow> fi_credential cfg \<noteq> [] \<Longrightarrow> validate_credential (fi_credential cfg) = None"
  by (simp add: validate_file_def split: if_splits sum.splits)

lemma decode_file_valid: "decode_file lib path contents = Inr cfg \<Longrightarrow> validate_file lib cfg = None"
  by (auto simp: decode_file_def split: if_splits option.splits list.splits)

lemma load_file_valid:
  assumes "load_file lib path req s = (Inr (cfg, loaded), s')" and "fi_credential cfg \<noteq> []"
  shows "validate_credential (fi_credential cfg) = None \<and> (\<exists>contents mode. fs_files s path = Some (contents, mode) \<and> \<not> group_or_other mode)"
  using assms
  by (auto simp: load_file_def with_state_def throw_def ret_def and_then_def of_result_def empty_file_def
      split: option.splits prod.splits sum.splits if_splits dest!: decode_file_valid intro: validate_file_credential)

end
