(* ===== verification/Client.thy ===== *)
theory Client
  imports CliConfig
begin

section \<open>The API client: internal/pcrclient\<close>

text \<open>
  The client builds a request, sends it and classifies the outcome. The transport is a function from
  the request to the reply (no reply, or a status with the body, None when reading it fails); JSON
  decoding, \<^verbatim>\<open>Time.Format(RFC3339)\<close> and \<^verbatim>\<open>Duration.String\<close> are functions of \<open>client_lib\<close>. The client's
  own event and list types have the fields of the server's and are the same records here.
\<close>

type_synonym pcr_event = change_event
type_synonym pcr_event_link = event_link
type_synonym pcr_list_result = list_result
type_synonym pcr_annotations = event_annotations

datatype error_kind = ErrorUnexpected | ErrorNotFound | ErrorUnavailable | ErrorPermission | ErrorRequest

record client_error =
  ke_kind :: error_kind
  ke_host :: string
  ke_status :: nat
  ke_op :: string
  ke_code :: string
  ke_message :: string
  ke_err :: "string option"

definition client_error_text :: "client_error \<Rightarrow> string" where
  "client_error_text e =
     (if ke_status e \<noteq> 0 \<and> ke_code e \<noteq> [] \<and> ke_message e \<noteq> []
      then ke_op e @ '': PCR at '' @ ke_host e @ '' returned HTTP '' @ itoa (int (ke_status e)) @ '' ('' @ ke_code e @ ''): '' @ ke_message e
      else if ke_status e \<noteq> 0 \<and> ke_message e \<noteq> []
      then ke_op e @ '': PCR at '' @ ke_host e @ '' returned HTTP '' @ itoa (int (ke_status e)) @ '': '' @ ke_message e
      else if ke_status e \<noteq> 0
      then ke_op e @ '': PCR at '' @ ke_host e @ '' returned HTTP '' @ itoa (int (ke_status e))
      else if ke_err e \<noteq> None then ke_op e @ '': PCR at '' @ ke_host e @ '' is unavailable''
      else ke_op e @ '': PCR request failed'')"

record client =
  cn_origin :: parsed_url
  cn_credential :: string
  cn_user_agent :: string

definition new_client :: "parsed_url option \<Rightarrow> string \<Rightarrow> string \<Rightarrow> string + client" where
  "new_client origin credential user_agent = (case origin of
      None \<Rightarrow> Inl ''PCR client origin is required''
    | Some u \<Rightarrow>
        (if pu_scheme u = [] \<or> pu_host u = [] then Inl ''PCR client origin is required''
         else if credential = [] then Inl ''PCR credential is missing; set PCR_CREDENTIAL or run pcr config set-credential''
         else Inr \<lparr>cn_origin = u, cn_credential = credential, cn_user_agent = user_agent\<rparr>))"

subsection \<open>Queries\<close>

record list_options =
  lo_start_after :: "instant option"
  lo_start_before :: "instant option"
  lo_around :: "instant option"
  lo_window :: duration
  lo_user :: string
  lo_event_type :: string
  lo_tags :: tag_map
  lo_top_level :: bool
  lo_alerted_only :: bool
  lo_limit :: int
  lo_offset :: int

record current_options =
  co_team :: string
  co_scopes :: "string list"
  co_severities :: "string list"
  co_event_type :: string
  co_limit :: int
  co_offset :: int

record client_lib =
  kl_format_time :: "instant \<Rightarrow> string"
  kl_format_duration :: "duration \<Rightarrow> string"
  kl_error_envelope :: "string \<Rightarrow> (string \<times> string) option"

definition set_time :: "client_lib \<Rightarrow> string \<Rightarrow> instant option \<Rightarrow> url_values \<Rightarrow> url_values" where
  "set_time lib name v q = (case v of None \<Rightarrow> q | Some t \<Rightarrow> q_set name (kl_format_time lib t) q)"

definition set_string :: "string \<Rightarrow> string \<Rightarrow> url_values \<Rightarrow> url_values" where
  "set_string name v q = (if v = [] then q else q_set name v q)"

definition set_int :: "string \<Rightarrow> int \<Rightarrow> url_values \<Rightarrow> url_values" where
  "set_int name v q = (if v = 0 then q else q_set name (itoa v) q)"

definition set_flag :: "string \<Rightarrow> bool \<Rightarrow> url_values \<Rightarrow> url_values" where
  "set_flag name b q = (if b then q_set name ''true'' q else q)"

definition tag_queries :: "tag_map \<Rightarrow> string list" where
  "tag_queries tags = map (\<lambda>key. key @ '':'' @ tag_get tags key) (sort (map fst tags))"

definition list_query :: "client_lib \<Rightarrow> list_options \<Rightarrow> url_values" where
  "list_query lib opts =
     (let q1 = set_time lib ''start_after'' (lo_start_after opts) [];
          q2 = set_time lib ''start_before'' (lo_start_before opts) q1;
          q3 = set_time lib ''around'' (lo_around opts) q2;
          q4 = (if lo_around opts \<noteq> None \<and> lo_window opts \<noteq> 0
                then q_set ''window'' (kl_format_duration lib (lo_window opts)) q3 else q3);
          q5 = set_string ''user'' (lo_user opts) q4;
          q6 = set_string ''type'' (lo_event_type opts) q5;
          q7 = fold (q_add ''tag'') (tag_queries (lo_tags opts)) q6;
          q8 = set_flag ''top_level'' (lo_top_level opts) q7;
          q9 = set_flag ''alerted'' (lo_alerted_only opts) q8
      in set_int ''offset'' (lo_offset opts) (set_int ''limit'' (lo_limit opts) q9))"

definition current_query :: "current_options \<Rightarrow> url_values" where
  "current_query opts =
     (let q1 = set_string ''for_team'' (co_team opts) [];
          q2 = fold (q_add ''scope'') (co_scopes opts) q1;
          q3 = fold (q_add ''severity'') (co_severities opts) q2;
          q4 = set_string ''type'' (co_event_type opts) q3
      in set_int ''offset'' (co_offset opts) (set_int ''limit'' (co_limit opts) q4))"

subsection \<open>One request\<close>

record outgoing =
  og_method :: string
  og_path :: string
  og_query :: string
  og_headers :: "(string \<times> string) list"
  og_body :: "string option"

datatype transport_reply = NoResponse string | Response nat "string option"

type_synonym transport = "outgoing \<Rightarrow> transport_reply"

definition endpoint_path :: "string list \<Rightarrow> string" where
  "endpoint_path segments = CHR ''/'' # join_with CHR ''/'' (map path_escape segments)"

definition request_headers :: "client \<Rightarrow> bool \<Rightarrow> (string \<times> string) list" where
  "request_headers c has_body =
     [(''Accept'', ''application/json''), (''Authorization'', ''Bearer '' @ cn_credential c)]
     @ (if cn_user_agent c \<noteq> [] then [(''User-Agent'', cn_user_agent c)] else [])
     @ (if has_body then [(''Content-Type'', ''application/json'')] else [])"

text \<open>\<^verbatim>\<open>utf8.ValidString\<close>.\<close>

function valid_string :: "string \<Rightarrow> bool" where
  "valid_string [] = True"
| "valid_string (c # cs) =
     (if byte_of c < (128 :: nat) then valid_string cs
      else case decode_multi (byte_of c) cs of None \<Rightarrow> False | Some (r, rest) \<Rightarrow> valid_string rest)"
  by pat_completeness auto
termination
  by (relation "measure length") (auto dest: decode_multi_shorter simp: le_imp_less_Suc)

definition max_error_detail_size :: nat where "max_error_detail_size = 4 * 1024"
definition max_error_response_size :: nat where "max_error_response_size = 64 * 1024"
definition max_response_size :: nat where "max_response_size = 4 * 1024 * 1024"

definition safe_error_code :: "string \<Rightarrow> bool" where
  "safe_error_code code =
     (if code = [] \<or> length code > 128 then False
      else \<not> has_rune (\<lambda>r. (r < 97 \<or> 122 < r) \<and> (r < 48 \<or> 57 < r) \<and> r \<noteq> 95) code)"

definition safe_error_message :: "string \<Rightarrow> bool" where
  "safe_error_message message =
     (message \<noteq> [] \<and> length message \<le> max_error_detail_size \<and> valid_string message \<and> \<not> contains_unsafe_text message)"

definition decode_error_response :: "client_lib \<Rightarrow> string option \<Rightarrow> string \<times> string" where
  "decode_error_response lib body = (case body of
      None \<Rightarrow> ([], [])
    | Some contents \<Rightarrow>
        (if length contents > max_error_response_size then ([], [])
         else case kl_error_envelope lib contents of
             None \<Rightarrow> ([], [])
           | Some (code, message) \<Rightarrow>
               (if \<not> safe_error_code (trim_space code) \<or> \<not> safe_error_message (trim_space message) then ([], [])
                else (trim_space code, trim_space message))))"

definition status_kind :: "nat \<Rightarrow> error_kind" where
  "status_kind status =
     (if status = 401 \<or> status = 403 then ErrorPermission else if status = 404 then ErrorNotFound
      else if 500 \<le> status then ErrorUnavailable else ErrorRequest)"

definition status_error :: "string \<Rightarrow> string \<Rightarrow> nat \<Rightarrow> string \<Rightarrow> string \<Rightarrow> client_error" where
  "status_error operation host status code message = \<lparr>ke_kind = status_kind status, ke_host = host, ke_status = status,
     ke_op = operation, ke_code = code, ke_message = message, ke_err = None\<rparr>"

definition unavailable :: "client \<Rightarrow> string \<Rightarrow> string option \<Rightarrow> client_error" where
  "unavailable c operation err = \<lparr>ke_kind = ErrorUnavailable, ke_host = pu_host (cn_origin c), ke_status = 0,
     ke_op = operation, ke_code = [], ke_message = [], ke_err = err\<rparr>"

text \<open>\<open>decode\<close> gives the first JSON value of the body and whether nothing follows it.\<close>

definition decode_reply ::
  "client_lib \<Rightarrow> client \<Rightarrow> string \<Rightarrow> nat list \<Rightarrow> (string \<Rightarrow> ('a \<times> bool) option) \<Rightarrow> transport_reply \<Rightarrow> client_error + 'a" where
  "decode_reply lib c operation success decode r = (case r of
      NoResponse err \<Rightarrow> Inl (unavailable c operation (Some err))
    | Response status body \<Rightarrow>
        (if status \<notin> set success then
           (case (if 400 \<le> status \<and> status < 500 then decode_error_response lib body else ([], [])) of (code, message) \<Rightarrow>
              Inl (status_error operation (pu_host (cn_origin c)) status code message))
         else case body of
             None \<Rightarrow> Inl (unavailable c operation (Some ''read''))
           | Some contents \<Rightarrow>
               (if length contents > max_response_size then Inl (unavailable c operation None)
                else case decode contents of
                    None \<Rightarrow> Inl (unavailable c operation None)
                  | Some (x, at_end) \<Rightarrow> if at_end then Inr x else Inl (unavailable c operation None))))"

definition client_do ::
  "client_lib \<Rightarrow> transport \<Rightarrow> client \<Rightarrow> string \<Rightarrow> string \<Rightarrow> string list \<Rightarrow> url_values \<Rightarrow> string option \<Rightarrow> nat list
    \<Rightarrow> (string \<Rightarrow> ('a \<times> bool) option) \<Rightarrow> client_error + 'a" where
  "client_do lib send c operation meth segments query body success decode =
     decode_reply lib c operation success decode
       (send \<lparr>og_method = meth, og_path = endpoint_path segments, og_query = encode_values query,
              og_headers = request_headers c (body \<noteq> None), og_body = body\<rparr>)"

definition client_get ::
  "client_lib \<Rightarrow> transport \<Rightarrow> client \<Rightarrow> string \<Rightarrow> string list \<Rightarrow> url_values \<Rightarrow> (string \<Rightarrow> ('a \<times> bool) option) \<Rightarrow> client_error + 'a" where
  "client_get lib send c operation segments query decode =
     client_do lib send c operation ''GET'' segments query None [200] decode"

subsection \<open>The operations\<close>

record client_create =
  cc_external_id :: string
  cc_event_type :: string
  cc_description :: string
  cc_long_description :: string
  cc_tags :: tag_map

text \<open>The decoders of the reply types and the encoder of the request.\<close>

record client_codec =
  kc_event :: "string \<Rightarrow> (change_event \<times> bool) option"
  kc_list :: "string \<Rightarrow> (list_result \<times> bool) option"
  kc_events :: "string \<Rightarrow> (change_event list \<times> bool) option"
  kc_annotations :: "string \<Rightarrow> (event_annotations \<times> bool) option"
  kc_create :: "client_create \<Rightarrow> string option"

definition client_list :: "client_lib \<Rightarrow> client_codec \<Rightarrow> transport \<Rightarrow> client \<Rightarrow> list_options \<Rightarrow> client_error + list_result" where
  "client_list lib codec send c opts =
     client_get lib send c ''list events'' [''api'', ''v1'', ''events''] (list_query lib opts) (kc_list codec)"

definition client_event :: "client_lib \<Rightarrow> client_codec \<Rightarrow> transport \<Rightarrow> client \<Rightarrow> string \<Rightarrow> client_error + change_event" where
  "client_event lib codec send c event_id =
     client_get lib send c ''get event'' [''api'', ''v1'', ''events'', event_id] [] (kc_event codec)"

definition client_annotations :: "client_lib \<Rightarrow> client_codec \<Rightarrow> transport \<Rightarrow> client \<Rightarrow> string \<Rightarrow> client_error + event_annotations" where
  "client_annotations lib codec send c event_id =
     client_get lib send c ''get event annotations'' [''api'', ''v1'', ''events'', event_id, ''annotations''] [] (kc_annotations codec)"

definition client_activity :: "client_lib \<Rightarrow> client_codec \<Rightarrow> transport \<Rightarrow> client \<Rightarrow> string \<Rightarrow> client_error + change_event list" where
  "client_activity lib codec send c event_id =
     client_get lib send c ''get event activity'' [''api'', ''v1'', ''events'', event_id, ''activity''] [] (kc_events codec)"

definition client_current :: "client_lib \<Rightarrow> client_codec \<Rightarrow> transport \<Rightarrow> client \<Rightarrow> current_options \<Rightarrow> client_error + list_result" where
  "client_current lib codec send c opts =
     client_get lib send c ''list current operations'' [''api'', ''v1'', ''current''] (current_query opts) (kc_list codec)"

text \<open>A request that cannot be encoded is an error without a status.\<close>

definition client_create_event ::
  "client_lib \<Rightarrow> client_codec \<Rightarrow> transport \<Rightarrow> client \<Rightarrow> client_create \<Rightarrow> (string + client_error) + change_event" where
  "client_create_event lib codec send c create = (case kc_create codec create of
      None \<Rightarrow> Inl (Inl ''encode event request'')
    | Some body \<Rightarrow>
        (case client_do lib send c ''create event'' ''POST'' [''api'', ''v1'', ''events''] [] (Some body) [200, 201] (kc_event codec) of
           Inl err \<Rightarrow> Inl (Inr err) | Inr e \<Rightarrow> Inr e))"

subsection \<open>The path of a request names its segments\<close>

lemma path_escape_no_slash: "CHR ''/'' \<notin> set (path_escape s)"
proof -
  have slash: "\<not> is_alnum CHR ''/''" by (simp add: is_alnum_def)
  have hex: "hex_digit n \<noteq> CHR ''/''" if "n < 16" for n using hex_digit_alnum [OF that] slash by metis
  have "CHR ''/'' \<notin> set (percent_encode c)" for c
    using hex [OF byte_nibbles(1) [of c]] hex [OF byte_nibbles(2) [of c]] by (simp add: percent_encode_def)
  moreover have "\<not> unreserved CHR ''/''" by (simp add: unreserved_def is_alnum_def)
  ultimately show ?thesis by (auto simp: path_escape_def)
qed

lemma path_unescape_escape: "path_unescape (path_escape s) = Some s"
proof (induction s)
  case (Cons c s)
  show ?case
  proof (cases "unreserved c \<or> c \<in> set ''$&+:=@''")
    case True
    then have "c \<noteq> CHR ''%''" using unreserved_sep [of c] by auto
    moreover have "path_escape (c # s) = c # path_escape s" using True by (simp add: path_escape_def)
    ultimately show ?thesis using Cons by simp
  next
    case False
    then have "path_escape (c # s) = percent_encode c @ path_escape s" by (simp add: path_escape_def)
    then show ?thesis using Cons by (simp add: path_unescape_encoded)
  qed
qed (simp add: path_escape_def)

lemma endpoint_segments:
  "segments \<noteq> [] \<Longrightarrow> map path_unescape (split_on CHR ''/'' (tl (endpoint_path segments))) = map Some segments"
proof -
  assume "segments \<noteq> []"
  then have "split_on CHR ''/'' (join_with CHR ''/'' (map path_escape segments)) = map path_escape segments"
    by (intro split_join) (simp_all add: list_all_iff path_escape_no_slash)
  then show ?thesis by (simp add: endpoint_path_def comp_def path_unescape_escape)
qed

text \<open>What an error carries of a response.\<close>

lemma decode_error_response_safe:
  "decode_error_response lib body = (code, message) \<Longrightarrow>
     (code = [] \<and> message = []) \<or> (safe_error_code code \<and> safe_error_message message)"
  by (auto simp: decode_error_response_def split: option.splits if_splits)

lemma decode_reply_safe:
  assumes "decode_reply lib c operation success decode r = Inl e"
  shows "(ke_code e = [] \<and> ke_message e = []) \<or> (safe_error_code (ke_code e) \<and> safe_error_message (ke_message e))"
  using assms decode_error_response_safe
  by (fastforce simp: decode_reply_def unavailable_def status_error_def split: transport_reply.splits if_splits option.splits prod.splits)

end
