(* ===== verification/ConfigProperties.thy ===== *)
theory ConfigProperties
  imports Config Client
begin

section \<open>Properties of the configuration of the server and of the command line tool\<close>

text \<open>
  What a configuration that was loaded, written or resolved guarantees, end to end over the
  environment and the file system.
\<close>

subsection \<open>The server\<close>

lemma subject_entry_split:
  assumes "subject_entry_ok p s"
  shows "\<exists>subject. subject \<noteq> [] \<and> s = p @ subject"
  using assms append_take_drop_id [of "length p" s] by (auto simp: subject_entry_ok_def has_prefix_def trim_prefix_def)

text \<open>
  C33: a server only starts with a usable configuration. Whatever the environment holds, when Load
  succeeds there is a database, every accepted token is non-empty and there is one unless the trusted
  edge authenticates, the session secret has at least 32 bytes, every timeout is positive, the pool size
  fits 32 bits, sessions last at most a week, exactly one of allow-any and an access list is configured,
  and every individual exception names a subject of the configured provider. \<^verbatim>\<open>rand.Read\<close> is assumed to
  fill its 32 bytes.
\<close>

theorem loaded_configuration:
  assumes "load_config lib getenv random = Inr cfg" and "\<And>r. random = Some r \<Longrightarrow> length r = min_session_secret_bytes"
  shows "cf_database_url cfg \<noteq> [] \<and> list_all (\<lambda>t. t \<noteq> []) (cf_api_tokens cfg)
    \<and> (cf_human_auth_provider cfg = ''beyond'' \<or> cf_api_tokens cfg \<noteq> [] \<and> cf_oauth_client_id cfg \<noteq> [] \<and> cf_oauth_client_secret cfg \<noteq> [])
    \<and> 32 \<le> length (cf_session_secret cfg) \<and> 0 \<le> cf_dashboard_refresh_sec cfg
    \<and> list_all (\<lambda>d. 0 < d) [cf_read_timeout cfg, cf_write_timeout cfg, cf_shutdown_timeout cfg, cf_db_connect_timeout cfg,
         cf_db_slow_query_threshold cfg]
    \<and> 1 \<le> cf_db_max_connections cfg \<and> cf_db_max_connections cfg < 2 ^ 31
    \<and> 0 < cf_human_session_duration cfg \<and> cf_human_session_duration cfg \<le> 7 * 24 * hour
    \<and> (cf_allow_any cfg \<longleftrightarrow> cf_allowed_orgs cfg = [] \<and> cf_allowed_subjects cfg = [])
    \<and> (\<forall>s \<in> set (cf_allowed_subjects cfg). \<exists>subject. subject \<noteq> [] \<and> s = subject_prefix cfg @ subject)"
proof -
  have ok: "config_ok cfg" by (rule load_config_ok [OF assms])
  then have "list_all (subject_entry_ok (subject_prefix cfg)) (cf_allowed_subjects cfg)" by (simp only: config_ok_def)
  then have subjects: "\<forall>s \<in> set (cf_allowed_subjects cfg). \<exists>subject. subject \<noteq> [] \<and> s = subject_prefix cfg @ subject"
    using subject_entry_split by (simp add: list_all_iff)
  show ?thesis
    unfolding disj_imp
    by (intro conjI subjects) (use ok in \<open>simp_all add: config_ok_def min_session_secret_bytes_def max_int32_def max_human_session_duration_def\<close>)
qed

definition demo_environment :: "string \<Rightarrow> string" where
  "demo_environment k = (if k = ''PCR_DATABASE_URL'' then ''postgres://db'' else if k = ''PCR_HUMAN_AUTH_PROVIDER'' then ''beyond''
     else if k = ''PCR_PUBLIC_URL'' then ''https://pcr'' else if k = ''PCR_HUMAN_AUTH_ALLOWED_SUBJECTS'' then ''beyond:a@b'' else [])"

definition demo_origin :: parsed_url where
  "demo_origin = \<lparr>pu_scheme = ''https'', pu_opaque = [], pu_has_user = False, pu_host = ''pcr'', pu_hostname = ''pcr'',
     pu_path = [], pu_raw_query = [], pu_fragment = []\<rparr>"

definition demo_config_lib :: config_lib where
  "demo_config_lib = \<lparr>cl_duration = (\<lambda>s. None), cl_url = (\<lambda>s. Some demo_origin), cl_loopback_ip = (\<lambda>s. False), cl_quote = (\<lambda>s. s)\<rparr>"

lemma demo_environment_loads:
  "\<exists>cfg. load_config demo_config_lib demo_environment (Some (replicate 32 CHR ''k'')) = Inr cfg \<and> cf_allowed_subjects cfg = [''beyond:a@b'']
    \<and> cf_human_auth_provider cfg = ''beyond''"
proof -
  have trim: "trim_space ''beyond'' = ''beyond''" "trim_space ''https://pcr'' = ''https://pcr''" "trim_space ''beyond:a@b'' = ''beyond:a@b''"
    by (simp_all add: trim_simps strip_space_def strip_space_right_def in_ranges_def decode_last_rune_def)
  have low: "to_lower ''beyond'' = ''beyond''" by (simp add: to_lower_ascii ascii_string_def lower_char_def char_of_def bit_0)
  have lists: "split_list ''beyond:a@b'' = [''beyond:a@b'']" "split_list [] = []"
    by (simp_all add: split_list_def trim)
  show ?thesis
    by (simp add: load_config_def default_config_def load_api_tokens_def demo_environment_def env_or_default_def trim low lists
        load_session_secret_def load_optional_def set_env_def optional_env_def validate_def validate_human_auth_def first_error_def
        required_def validate_human_auth_provider_def validate_public_url_def demo_config_lib_def demo_origin_def https_or_loopback_def
        validate_allowed_subjects_def subject_entry_ok_def subject_prefix_def has_prefix_def trim_prefix_def
        validate_human_auth_policy_def max_human_session_duration_def hour_def minute_def second_def max_int32_def Let_def)
qed

theorem loaded_configuration_witness:
  "\<exists>cfg. load_config demo_config_lib demo_environment (Some (replicate 32 CHR ''k'')) = Inr cfg
    \<and> 32 \<le> length (cf_session_secret cfg) \<and> \<not> cf_allow_any cfg"
proof -
  obtain cfg where cfg: "load_config demo_config_lib demo_environment (Some (replicate 32 CHR ''k'')) = Inr cfg"
      and s: "cf_allowed_subjects cfg = [''beyond:a@b'']"
    using demo_environment_loads by (elim exE conjE) (rule that)
  have r: "\<And>r. Some (replicate 32 CHR ''k'') = Some r \<Longrightarrow> length r = min_session_secret_bytes"
    by (auto simp: min_session_secret_bytes_def)
  note L = loaded_configuration [OF cfg r]
  have "32 \<le> length (cf_session_secret cfg)" "\<not> cf_allow_any cfg" using L s by simp_all
  with cfg show ?thesis by (intro exI conjI)
qed

subsection \<open>The command line tool\<close>















end
