(* ===== verification/Cli.thy ===== *)
theory Cli
  imports Client
begin

section \<open>The pcr command: internal/pcrcli\<close>

text \<open>
  Each command is a computation on the file system that gives the output it writes or the error it
  returns; the exit code is a function of the error. The command-line parser (package kong) fills the
  options of a command. What a command writes is a \<open>cli_output\<close>: a JSON value, one JSON value per line, or
  the rows of a table (package text/tabwriter aligns them).
\<close>

datatype cli_error = UsageError string | ConfigError string | ApiError client_error | OtherError string

type_synonym 'a cli_op = "(fs, cli_error, 'a) prog"

definition exit_code_for :: "cli_error \<Rightarrow> int" where
  "exit_code_for err = (case err of
      UsageError _ \<Rightarrow> 64
    | ConfigError _ \<Rightarrow> 78
    | ApiError e \<Rightarrow> (case ke_kind e of ErrorNotFound \<Rightarrow> 66 | ErrorUnavailable \<Rightarrow> 69 | ErrorPermission \<Rightarrow> 77
        | ErrorRequest \<Rightarrow> 64 | ErrorUnexpected \<Rightarrow> 1)
    | OtherError _ \<Rightarrow> 1)"

definition error_message :: "cli_error \<Rightarrow> string" where
  "error_message err = (case err of
      UsageError m \<Rightarrow> ''invalid command invocation: '' @ m
    | ConfigError m \<Rightarrow> ''invalid PCR configuration: '' @ m
    | ApiError e \<Rightarrow> client_error_text e
    | OtherError m \<Rightarrow> m)"

text \<open>A computation of package pcrconfig; its errors all wrap \<^verbatim>\<open>ErrInvalid\<close>.\<close>

definition config_op :: "'a fs_op \<Rightarrow> 'a cli_op" where
  "config_op m s = (case m s of (Inl err, s') \<Rightarrow> (Inl (ConfigError err), s') | (Inr x, s') \<Rightarrow> (Inr x, s'))"

definition api_result :: "client_error + 'a \<Rightarrow> 'a cli_op" where
  "api_result r = (case r of Inl e \<Rightarrow> throw (ApiError e) | Inr x \<Rightarrow> ret x)"

subsection \<open>Diagnostics\<close>

text \<open>\<^verbatim>\<open>strconv.QuoteRuneToASCII\<close> of an unsafe rune, without its quotes.\<close>

fun hex_digits :: "nat \<Rightarrow> nat \<Rightarrow> string" where
  "hex_digits 0 n = []"
| "hex_digits (Suc k) n = hex_digits k (n div 16) @ [lower_hex_digit (n mod 16)]"

definition ascii_escape :: "rune \<Rightarrow> string" where
  "ascii_escape r =
     backslash # (if r = 7 then ''a'' else if r = 8 then ''b'' else if r = 12 then ''f'' else if r = 10 then ''n''
        else if r = 13 then ''r'' else if r = 9 then ''t'' else if r = 11 then ''v''
        else if r < 32 \<or> r = 127 then CHR ''x'' # hex_digits 2 r
        else if r < 65536 then CHR ''u'' # hex_digits 4 r else CHR ''U'' # hex_digits 8 r)"

definition sanitize_diagnostic :: "string \<Rightarrow> string" where
  "sanitize_diagnostic message =
     concat (map (\<lambda>r. if is_unsafe_text_rune r then ascii_escape r else encode_rune r) (runes message))"

definition diagnostic :: "cli_error \<Rightarrow> string" where
  "diagnostic err = ''pcr: '' @ sanitize_diagnostic (error_message err) @ [CHR 0x0A]"

definition table_cell :: "string \<Rightarrow> string" where
  "table_cell s = concat (map (\<lambda>r. if r = 9 \<or> r = 10 \<or> r = 13 then '' ''
     else if is_unsafe_text_rune r then ''?'' else encode_rune r) (runes s))"

subsection \<open>Output\<close>

record build_info =
  bi_version :: string
  bi_commit :: string
  bi_date :: string

record doctor_probe =
  dp_name :: string
  dp_status :: string
  dp_detail :: string

record config_show =
  sh_path :: string
  sh_url :: string
  sh_url_source :: string
  sh_credential :: string
  sh_credential_source :: string

datatype cli_value =
    ListValue list_result
  | EventsValue "change_event list"
  | EventValue change_event
  | AnnotationsValue event_annotations
  | DoctorValue string "doctor_probe list"
  | BuildValue build_info
  | PathValue string
  | ShowValue config_show
  | WriteValue string string

datatype cli_output = JsonOutput cli_value | JsonLines "change_event list" | Rows "string list list"

definition display_version :: "string \<Rightarrow> string" where
  "display_version version = (if version = [] then ''devel'' else version)"

definition normalized_build :: "build_info \<Rightarrow> build_info" where
  "normalized_build b = \<lparr>bi_version = display_version (bi_version b),
     bi_commit = (if bi_commit b = [] then ''unknown'' else bi_commit b),
     bi_date = (if bi_date b = [] then ''unknown'' else bi_date b)\<rparr>"

text \<open>\<open>format_time\<close> is the layout of the table's TIME column.\<close>

definition event_row_cells :: "(instant \<Rightarrow> string) \<Rightarrow> change_event \<Rightarrow> string list" where
  "event_row_cells format_time e = [table_cell (ev_id e), table_cell (format_time (ev_timestamp e)),
     table_cell (ev_event_type e), table_cell (ev_user_name e), table_cell (ev_description e)]"

definition event_table :: "(instant \<Rightarrow> string) \<Rightarrow> change_event list \<Rightarrow> string list list" where
  "event_table format_time events = [''ID'', ''TIME'', ''TYPE'', ''USER'', ''DESCRIPTION''] # map (event_row_cells format_time) events"

definition doctor_table :: "string \<Rightarrow> doctor_probe list \<Rightarrow> string list list" where
  "doctor_table status probes = [''status: '' @ table_cell status]
     # map (\<lambda>p. [table_cell (dp_name p), table_cell (dp_status p), table_cell (dp_detail p)]) probes"

definition bool_text :: "bool \<Rightarrow> string" where
  "bool_text b = (if b then ''true'' else ''false'')"

definition write_list :: "string \<Rightarrow> (instant \<Rightarrow> string) \<Rightarrow> list_result \<Rightarrow> cli_output" where
  "write_list mode format_time result =
     (if mode = ''jsonl'' then JsonLines (lr_events result)
      else if mode = ''table'' then Rows (event_table format_time (lr_events result)) else JsonOutput (ListValue result))"

definition write_events :: "string \<Rightarrow> (instant \<Rightarrow> string) \<Rightarrow> change_event list \<Rightarrow> cli_output" where
  "write_events mode format_time events =
     (if mode = ''jsonl'' then JsonLines events
      else if mode = ''table'' then Rows (event_table format_time events) else JsonOutput (EventsValue events))"

definition write_value :: "string \<Rightarrow> (instant \<Rightarrow> string) \<Rightarrow> cli_value \<Rightarrow> cli_output" where
  "write_value mode format_time val =
     (if mode \<noteq> ''table'' then JsonOutput val
      else case val of
          EventValue e \<Rightarrow> Rows (event_table format_time [e])
        | DoctorValue status probes \<Rightarrow> Rows (doctor_table status probes)
        | AnnotationsValue a \<Rightarrow> Rows [[''starred'', bool_text (an_starred a)], [''alerted'', bool_text (an_alerted a)]]
        | BuildValue b \<Rightarrow> Rows [[''version'', table_cell (bi_version b)], [''commit'', table_cell (bi_commit b)],
            [''build date'', table_cell (bi_date b)]]
        | PathValue p \<Rightarrow> Rows [[table_cell p]]
        | ShowValue c \<Rightarrow> Rows [[''path'', table_cell (sh_path c)], [''url'', table_cell (sh_url c)],
            [''url source'', table_cell (sh_url_source c)], [''credential'', table_cell (sh_credential c)],
            [''credential source'', table_cell (sh_credential_source c)]]
        | WriteValue p c \<Rightarrow> Rows [[''path'', table_cell p], [''credential'', table_cell c]]
        | _ \<Rightarrow> JsonOutput val)"

subsection \<open>The runtime\<close>

record runtime =
  rt_cli :: cli_lib
  rt_lib :: client_lib
  rt_codec :: client_codec
  rt_send :: transport
  rt_parse_time :: "string \<Rightarrow> instant option"
  rt_parse_duration :: "string \<Rightarrow> duration option"
  rt_format_time :: "instant \<Rightarrow> string"
  rt_getenv :: "string \<Rightarrow> string"
  rt_stdin :: stdin
  rt_build :: build_info
  rt_config_path :: string
  rt_path_required :: bool
  rt_url :: string
  rt_allow_http :: bool
  rt_output :: string
  rt_temp_name :: string

definition runtime_values :: "runtime \<Rightarrow> cli_values cli_op" where
  "runtime_values rt = config_op (resolve (rt_cli rt) \<lparr>ro_path = rt_config_path rt, ro_path_required = rt_path_required rt,
     ro_url = rt_url rt, ro_allow_http = rt_allow_http rt, ro_getenv = rt_getenv rt\<rparr>)"

definition runtime_client :: "runtime \<Rightarrow> client cli_op" where
  "runtime_client rt = and_then (runtime_values rt) (\<lambda>values.
     case parse_origin (rt_cli rt) (vl_url values) (rt_allow_http rt) of
       Inl err \<Rightarrow> throw (ConfigError err)
     | Inr origin \<Rightarrow>
         (if vl_credential values = []
          then throw (ConfigError ''credential is missing; set PCR_CREDENTIAL or run pcr config set-credential'')
          else case new_client (Some origin) (vl_credential values) (''pcr/'' @ display_version (bi_version (rt_build rt))) of
              Inl err \<Rightarrow> throw (OtherError err)
            | Inr c \<Rightarrow> ret c))"

subsection \<open>Option values\<close>

definition required_value :: "string \<Rightarrow> string \<Rightarrow> cli_error + string" where
  "required_value name val =
     (if trim_space val = [] then Inl (UsageError (name @ '' must be non-empty'')) else Inr (trim_space val))"

fun parse_tags_loop :: "string list \<Rightarrow> tag_map \<Rightarrow> cli_error + tag_map" where
  "parse_tags_loop [] tags = Inr tags"
| "parse_tags_loop (v # vs) tags = (case cut CHR ''='' v of (k, tag_value, found) \<Rightarrow>
     (if \<not> found \<or> trim_space k = [] then Inl (UsageError ''--tag must be key=value'')
      else parse_tags_loop vs (AList.update (trim_space k) tag_value tags)))"

definition parse_tags :: "string list \<Rightarrow> cli_error + tag_map" where
  "parse_tags values = parse_tags_loop values []"

definition parse_optional_time :: "runtime \<Rightarrow> string \<Rightarrow> string \<Rightarrow> cli_error + instant option" where
  "parse_optional_time rt name val =
     (if val = [] then Inr None
      else case rt_parse_time rt val of None \<Rightarrow> Inl (UsageError (name @ '' must be RFC3339'')) | Some t \<Rightarrow> Inr (Some t))"

definition parse_optional_duration :: "runtime \<Rightarrow> string \<Rightarrow> cli_error + duration" where
  "parse_optional_duration rt val =
     (if val = [] then Inr 0
      else case rt_parse_duration rt val of
          None \<Rightarrow> Inl (UsageError ''--window must be a positive duration'')
        | Some d \<Rightarrow> if d \<le> 0 then Inl (UsageError ''--window must be a positive duration'') else Inr d)"

definition clean_values :: "string list \<Rightarrow> string list" where
  "clean_values values = filter (\<lambda>v. v \<noteq> []) (map trim_space values)"

subsection \<open>Commands\<close>

record events_list_command =
  el_start_after :: string
  el_start_before :: string
  el_around :: string
  el_window :: string
  el_user :: string
  el_type :: string
  el_tag :: "string list"
  el_top_level :: bool
  el_alerted :: bool
  el_limit :: int
  el_offset :: int

definition events_list_options :: "runtime \<Rightarrow> events_list_command \<Rightarrow> cli_error + list_options" where
  "events_list_options rt c =
     (case parse_optional_time rt ''--start-after'' (el_start_after c) of Inl err \<Rightarrow> Inl err | Inr start_after \<Rightarrow>
      case parse_optional_time rt ''--start-before'' (el_start_before c) of Inl err \<Rightarrow> Inl err | Inr start_before \<Rightarrow>
      case parse_optional_time rt ''--around'' (el_around c) of Inl err \<Rightarrow> Inl err | Inr around \<Rightarrow>
      case parse_optional_duration rt (el_window c) of Inl err \<Rightarrow> Inl err | Inr window \<Rightarrow>
      if window \<noteq> 0 \<and> around = None then Inl (UsageError ''--window requires --around'')
      else case parse_tags (el_tag c) of Inl err \<Rightarrow> Inl err | Inr tags \<Rightarrow>
        Inr \<lparr>lo_start_after = start_after, lo_start_before = start_before, lo_around = around, lo_window = window,
          lo_user = trim_space (el_user c), lo_event_type = trim_space (el_type c), lo_tags = tags,
          lo_top_level = el_top_level c, lo_alerted_only = el_alerted c, lo_limit = el_limit c, lo_offset = el_offset c\<rparr>)"

definition run_events_list :: "runtime \<Rightarrow> events_list_command \<Rightarrow> cli_output cli_op" where
  "run_events_list rt c = and_then (of_result (events_list_options rt c)) (\<lambda>opts.
     and_then (runtime_client rt) (\<lambda>client.
     and_then (api_result (client_list (rt_lib rt) (rt_codec rt) (rt_send rt) client opts)) (\<lambda>result.
       ret (write_list (rt_output rt) (rt_format_time rt) result))))"

definition with_event_id :: "runtime \<Rightarrow> string \<Rightarrow> (client \<Rightarrow> string \<Rightarrow> cli_output cli_op) \<Rightarrow> cli_output cli_op" where
  "with_event_id rt event_id body = and_then (of_result (required_value ''event-id'' event_id)) (\<lambda>i.
     and_then (runtime_client rt) (\<lambda>client. body client i))"

definition run_events_get :: "runtime \<Rightarrow> string \<Rightarrow> cli_output cli_op" where
  "run_events_get rt event_id = with_event_id rt event_id (\<lambda>client i.
     and_then (api_result (client_event (rt_lib rt) (rt_codec rt) (rt_send rt) client i)) (\<lambda>e.
       ret (write_value (rt_output rt) (rt_format_time rt) (EventValue e))))"

definition run_events_annotations :: "runtime \<Rightarrow> string \<Rightarrow> cli_output cli_op" where
  "run_events_annotations rt event_id = with_event_id rt event_id (\<lambda>client i.
     and_then (api_result (client_annotations (rt_lib rt) (rt_codec rt) (rt_send rt) client i)) (\<lambda>a.
       ret (write_value (rt_output rt) (rt_format_time rt) (AnnotationsValue a))))"

definition run_events_activity :: "runtime \<Rightarrow> string \<Rightarrow> cli_output cli_op" where
  "run_events_activity rt event_id = with_event_id rt event_id (\<lambda>client i.
     and_then (api_result (client_activity (rt_lib rt) (rt_codec rt) (rt_send rt) client i)) (\<lambda>events.
       ret (write_events (rt_output rt) (rt_format_time rt) events)))"

record events_create_command =
  ec_external_id :: string
  ec_type :: string
  ec_description :: string
  ec_long_description :: string
  ec_tag :: "string list"

definition events_create_request :: "events_create_command \<Rightarrow> cli_error + client_create" where
  "events_create_request c =
     (case required_value ''--external-id'' (ec_external_id c) of Inl err \<Rightarrow> Inl err | Inr external_id \<Rightarrow>
      case required_value ''--type'' (ec_type c) of Inl err \<Rightarrow> Inl err | Inr event_type \<Rightarrow>
      case required_value ''--description'' (ec_description c) of Inl err \<Rightarrow> Inl err | Inr description \<Rightarrow>
      case parse_tags (ec_tag c) of Inl err \<Rightarrow> Inl err | Inr tags \<Rightarrow>
        Inr \<lparr>cc_external_id = external_id, cc_event_type = event_type, cc_description = description,
          cc_long_description = trim_space (ec_long_description c), cc_tags = tags\<rparr>)"

definition run_events_create :: "runtime \<Rightarrow> events_create_command \<Rightarrow> cli_output cli_op" where
  "run_events_create rt c = and_then (of_result (events_create_request c)) (\<lambda>create.
     and_then (runtime_client rt) (\<lambda>client.
       case client_create_event (rt_lib rt) (rt_codec rt) (rt_send rt) client create of
         Inl (Inl message) \<Rightarrow> throw (OtherError message)
       | Inl (Inr err) \<Rightarrow> throw (ApiError err)
       | Inr e \<Rightarrow> ret (write_value (rt_output rt) (rt_format_time rt) (EventValue e))))"

record current_command =
  cu_team :: string
  cu_scope :: "string list"
  cu_severity :: "string list"
  cu_type :: string
  cu_limit :: int
  cu_offset :: int

definition run_current :: "runtime \<Rightarrow> current_command \<Rightarrow> cli_output cli_op" where
  "run_current rt c = and_then (runtime_client rt) (\<lambda>client.
     and_then (api_result (client_current (rt_lib rt) (rt_codec rt) (rt_send rt) client
       \<lparr>co_team = trim_space (cu_team c), co_scopes = clean_values (cu_scope c), co_severities = clean_values (cu_severity c),
        co_event_type = trim_space (cu_type c), co_limit = cu_limit c, co_offset = cu_offset c\<rparr>)) (\<lambda>result.
       ret (write_list (rt_output rt) (rt_format_time rt) result)))"

end
