(* ===== verification/CliCommands.thy ===== *)
theory CliCommands
  imports Cli
begin

section \<open>The remaining commands and the exit code of the process\<close>

text \<open>
  \<^verbatim>\<open>pcr doctor\<close>, the \<^verbatim>\<open>pcr config\<close> commands, \<^verbatim>\<open>pcr version\<close>, and \<^verbatim>\<open>Run\<close>: it finds the configuration
  path, lets kong parse the arguments, runs the command and maps its error to an exit code. The doctor
  also writes a report when it fails; its result pairs the report with the error.
\<close>

subsection \<open>doctor\<close>

definition probe :: "string \<Rightarrow> string \<Rightarrow> string \<Rightarrow> doctor_probe" where
  "probe name status hint = \<lparr>dp_name = name, dp_status = status, dp_detail = hint\<rparr>"

definition doctor_report :: "runtime \<Rightarrow> string \<Rightarrow> doctor_probe list \<Rightarrow> cli_output" where
  "doctor_report rt status probes = write_value (rt_output rt) (rt_format_time rt) (DoctorValue status probes)"

definition probe_list_options :: list_options where
  "probe_list_options = \<lparr>lo_start_after = None, lo_start_before = None, lo_around = None, lo_window = 0, lo_user = [],
     lo_event_type = [], lo_tags = [], lo_top_level = False, lo_alerted_only = False, lo_limit = 1, lo_offset = 0\<rparr>"

definition configured :: doctor_probe where
  "configured = probe ''configuration'' ''ok'' ''target and credential are configured''"

definition run_doctor :: "runtime \<Rightarrow> fs \<Rightarrow> (cli_error option \<times> cli_output) \<times> fs" where
  "run_doctor rt s = (case runtime_values rt s of
      (Inl err, s1) \<Rightarrow>
        ((Some err, doctor_report rt ''fail'' [probe ''configuration'' ''fail'' ''fix the reported configuration error'']), s1)
    | (Inr values, s1) \<Rightarrow>
        (if vl_credential values = []
         then ((Some (ConfigError ''credential is missing''),
           doctor_report rt ''fail'' [probe ''configuration'' ''fail'' ''set PCR_CREDENTIAL or run pcr config set-credential'']), s1)
         else (case runtime_client rt s1 of
             (Inl err, s2) \<Rightarrow> ((Some err, doctor_report rt ''fail''
               [configured, probe ''access'' ''fail'' ''check the target and credential'']), s2)
           | (Inr client, s2) \<Rightarrow> (case client_list (rt_lib rt) (rt_codec rt) (rt_send rt) client probe_list_options of
               Inl err \<Rightarrow> ((Some (ApiError err), doctor_report rt ''fail''
                 [configured, probe ''access'' ''fail'' ''check network access and credential authorization'']), s2)
             | Inr _ \<Rightarrow> ((None, doctor_report rt ''ok''
                 [configured, probe ''access'' ''ok'' ''authenticated read succeeded'']), s2)))))"

subsection \<open>config and version\<close>

definition run_config_path :: "runtime \<Rightarrow> cli_output cli_op" where
  "run_config_path rt = ret (write_value (rt_output rt) (rt_format_time rt) (PathValue (rt_config_path rt)))"

definition run_config_show :: "runtime \<Rightarrow> cli_output cli_op" where
  "run_config_show rt = and_then (runtime_values rt) (\<lambda>values.
     ret (write_value (rt_output rt) (rt_format_time rt) (ShowValue \<lparr>sh_path = vl_path values, sh_url = vl_url values,
       sh_url_source = vl_url_source values,
       sh_credential = (if vl_credential values \<noteq> [] then ''configured'' else ''missing''),
       sh_credential_source = vl_credential_source values\<rparr>)))"

definition init_target :: "runtime \<Rightarrow> string" where
  "init_target rt = (if trim_space (rt_url rt) = [] then trim_space (rt_getenv rt ''PCR_URL'') else trim_space (rt_url rt))"

definition run_config_init :: "runtime \<Rightarrow> cli_output cli_op" where
  "run_config_init rt = (case parse_origin (rt_cli rt) (init_target rt) (rt_allow_http rt) of
      Inl err \<Rightarrow> throw (ConfigError err)
    | Inr origin \<Rightarrow>
        and_then (config_op (write_config (rt_cli rt) (rt_temp_name rt) (rt_config_path rt)
          \<lparr>fi_version = 1, fi_url = cb_url_string (rt_cli rt) origin, fi_credential = []\<rparr> False)) (\<lambda>_.
        ret (write_value (rt_output rt) (rt_format_time rt) (WriteValue (rt_config_path rt) ''missing''))))"

definition run_config_set_credential :: "runtime \<Rightarrow> cli_output cli_op" where
  "run_config_set_credential rt =
     and_then (config_op (load_file (rt_cli rt) (rt_config_path rt) True)) (\<lambda>(cfg, _).
     and_then (config_op (of_result (read_credential (rt_stdin rt)))) (\<lambda>credential.
     and_then (config_op (write_config (rt_cli rt) (rt_temp_name rt) (rt_config_path rt) (cfg\<lparr>fi_credential := credential\<rparr>) True)) (\<lambda>_.
       ret (write_value (rt_output rt) (rt_format_time rt) (WriteValue (rt_config_path rt) ''configured'')))))"

definition run_version :: "runtime \<Rightarrow> cli_output cli_op" where
  "run_version rt = ret (write_value (rt_output rt) (rt_format_time rt) (BuildValue (rt_build rt)))"

subsection \<open>Run\<close>

datatype command =
    EventsList events_list_command
  | EventsGet string
  | EventsAnnotations string
  | EventsActivity string
  | EventsCreate events_create_command
  | Current current_command
  | Doctor
  | ConfigPath
  | ConfigShow
  | ConfigInit
  | ConfigSetCredential
  | Version

definition command_op :: "runtime \<Rightarrow> command \<Rightarrow> cli_output cli_op" where
  "command_op rt c = (case c of
      EventsList l \<Rightarrow> run_events_list rt l
    | EventsGet i \<Rightarrow> run_events_get rt i
    | EventsAnnotations i \<Rightarrow> run_events_annotations rt i
    | EventsActivity i \<Rightarrow> run_events_activity rt i
    | EventsCreate e \<Rightarrow> run_events_create rt e
    | Current u \<Rightarrow> run_current rt u
    | ConfigPath \<Rightarrow> run_config_path rt
    | ConfigShow \<Rightarrow> run_config_show rt
    | ConfigInit \<Rightarrow> run_config_init rt
    | ConfigSetCredential \<Rightarrow> run_config_set_credential rt
    | Version \<Rightarrow> run_version rt
    | Doctor \<Rightarrow> throw (OtherError []))"

text \<open>What a command writes to the standard output and to the standard error, and its exit code.\<close>

record process_result =
  ps_exit :: int
  ps_stdout :: "cli_output option"
  ps_stderr :: string

definition finish :: "cli_error option \<Rightarrow> cli_output option \<Rightarrow> process_result" where
  "finish err out = (case err of
      None \<Rightarrow> \<lparr>ps_exit = 0, ps_stdout = out, ps_stderr = []\<rparr>
    | Some e \<Rightarrow> \<lparr>ps_exit = exit_code_for e, ps_stdout = out, ps_stderr = diagnostic e\<rparr>)"

definition run_command :: "runtime \<Rightarrow> command \<Rightarrow> fs \<Rightarrow> process_result \<times> fs" where
  "run_command rt c s =
     (if c = Doctor then (case run_doctor rt s of ((err, out), s') \<Rightarrow> (finish err (Some out), s'))
      else (case command_op rt c s of
          (Inl err, s') \<Rightarrow> (finish (Some err) None, s')
        | (Inr out, s') \<Rightarrow> (finish None (Some out), s')))"

text \<open>
  kong's answer for the arguments and the default path: an exit it requested itself (help), an error,
  or the runtime the options fill and the command. The environment and the build of the runtime are those
  of the process. \<open>main_pcr\<close> is cmd/pcr, whose build is \<open>linked_build\<close> unless the linker sets another.
\<close>

datatype parsed_args = ExitRequested int | ParseError string | Parsed "string \<Rightarrow> bool \<Rightarrow> runtime" command

definition run_cli ::
  "(string list \<Rightarrow> string \<Rightarrow> parsed_args) \<Rightarrow> string option \<Rightarrow> (string \<Rightarrow> string) \<Rightarrow> build_info \<Rightarrow> string list
    \<Rightarrow> fs \<Rightarrow> process_result \<times> fs" where
  "run_cli kong default_path getenv build args s = (case bootstrap_path default_path args getenv of
      Inl err \<Rightarrow> (finish (Some (UsageError (''invalid PCR configuration: '' @ err))) None, s)
    | Inr (path, path_required) \<Rightarrow> (case kong args path of
        ExitRequested code \<Rightarrow> (\<lparr>ps_exit = code, ps_stdout = None, ps_stderr = []\<rparr>, s)
      | ParseError err \<Rightarrow> (finish (Some (UsageError err)) None, s)
      | Parsed fill c \<Rightarrow>
          run_command ((fill path path_required)\<lparr>rt_getenv := getenv, rt_build := normalized_build build\<rparr>) c s))"

definition linked_build :: build_info where
  "linked_build = \<lparr>bi_version = ''devel'', bi_commit = ''unknown'', bi_date = ''unknown''\<rparr>"

definition main_pcr ::
  "(string list \<Rightarrow> string \<Rightarrow> parsed_args) \<Rightarrow> string option \<Rightarrow> (string \<Rightarrow> string) \<Rightarrow> string list \<Rightarrow> fs \<Rightarrow> process_result \<times> fs" where
  "main_pcr kong default_path getenv args s = run_cli kong default_path getenv linked_build args s"

subsection \<open>No command prints control characters to the terminal, or a credential\<close>

lemma unsafe_iff: "contains_unsafe_text s \<longleftrightarrow> list_ex is_unsafe_text_rune (runes s)"
  by (simp add: contains_unsafe_text_def has_rune_def)

lemma safe_ascii: "32 \<le> r \<Longrightarrow> r < 127 \<Longrightarrow> \<not> is_unsafe_text_rune r"
  by (simp add: is_unsafe_text_rune_def is_control_def in_ranges_def)

definition cell_runes :: "rune \<Rightarrow> rune" where
  "cell_runes r = (if r = 9 \<or> r = 10 \<or> r = 13 then 32 else if is_unsafe_text_rune r then 63 else r)"

lemma table_cell_eq: "table_cell s = concat (map encode_rune (map cell_runes (runes s)))"
proof -
  have "encode_rune 32 = '' ''" "encode_rune 63 = ''?''" by (simp_all add: encode_rune_def char_of_def bit_0)
  then have "(if r = 9 \<or> r = 10 \<or> r = 13 then '' '' else if is_unsafe_text_rune r then ''?'' else encode_rune r)
     = encode_rune (cell_runes r)" for r by (simp add: cell_runes_def)
  then show ?thesis by (simp add: table_cell_def comp_def)
qed

lemma runes_table_cell: "runes (table_cell s) = map cell_runes (runes s)"
proof -
  have "list_all scalar (map cell_runes (runes s))"
    using runes_scalar [of s] by (auto simp: list_all_iff cell_runes_def scalar_def)
  then show ?thesis unfolding table_cell_eq by (rule runes_encode)
qed

lemma table_cell_safe: "\<not> contains_unsafe_text (table_cell s)"
  using safe_ascii [of 32] safe_ascii [of 63]
  by (auto simp: unsafe_iff runes_table_cell list_ex_iff cell_runes_def)

lemma ascii_runes: "list_all (\<lambda>c. (32::nat) \<le> byte_of c \<and> byte_of c < (127::nat)) s \<Longrightarrow> \<not> contains_unsafe_text s"
proof -
  assume a: "list_all (\<lambda>c. (32::nat) \<le> byte_of c \<and> byte_of c < (127::nat)) s"
  then have "ascii_string s" by (auto simp: ascii_string_def list_all_iff)
  with a show ?thesis by (auto simp: unsafe_iff runes_ascii list_ex_iff list_all_iff safe_ascii)
qed

lemma runes_append_ascii: "list_all (\<lambda>c. byte_of c < (128::nat)) s \<Longrightarrow> runes (s @ t) = map byte_of s @ runes t"
  by (induction s) auto

lemma hex_digits_printable: "list_all (\<lambda>c. (32::nat) \<le> byte_of c \<and> byte_of c < (127::nat)) (hex_digits k n)"
proof (induction k arbitrary: n)
  case (Suc k)
  have "is_hex (lower_hex_digit (n mod 16))" by (rule lower_hex_is_hex) simp
  with Suc show ?case by (auto simp: is_hex_def)
qed simp

lemma ascii_escape_printable: "list_all (\<lambda>c. (32::nat) \<le> byte_of c \<and> byte_of c < (127::nat)) (ascii_escape r)"
  using hex_digits_printable by (simp add: ascii_escape_def backslash_def)

lemma sanitized_runes:
  "list_all scalar rs \<Longrightarrow> \<not> list_ex is_unsafe_text_rune
     (runes (concat (map (\<lambda>r. if is_unsafe_text_rune r then ascii_escape r else encode_rune r) rs)))"
proof (induction rs)
  case (Cons r rs)
  show ?case
  proof (cases "is_unsafe_text_rune r")
    case True
    have p: "list_all (\<lambda>c. (32::nat) \<le> byte_of c \<and> byte_of c < (127::nat)) (ascii_escape r)" by (rule ascii_escape_printable)
    then have "list_all (\<lambda>c. byte_of c < (128::nat)) (ascii_escape r)" by (auto simp: list_all_iff)
    from runes_append_ascii [OF this] True p Cons show ?thesis
      by (auto simp: list_ex_iff list_all_iff safe_ascii)
  next
    case False
    with Cons runes_encode_rune [of r] show ?thesis by simp
  qed
qed simp

lemma sanitize_diagnostic_safe: "\<not> contains_unsafe_text (sanitize_diagnostic message)"
  unfolding unsafe_iff sanitize_diagnostic_def by (rule sanitized_runes) (rule runes_scalar)

text \<open>
  What may be printed: cells without control or format characters, and of a credential only whether there
  is one.
\<close>

definition printable :: "string \<Rightarrow> bool" where
  "printable s = (\<not> contains_unsafe_text s)"

definition credential_state :: "string \<Rightarrow> bool" where
  "credential_state s = (s = ''configured'' \<or> s = ''missing'')"

definition output_ok :: "cli_output \<Rightarrow> bool" where
  "output_ok out = (case out of
      Rows rows \<Rightarrow> list_all (list_all printable) rows
    | JsonOutput (ShowValue c) \<Rightarrow> credential_state (sh_credential c)
    | JsonOutput (WriteValue p c) \<Rightarrow> credential_state c
    | _ \<Rightarrow> True)"

lemma ascii_printable: "list_all (\<lambda>c. (32::nat) \<le> byte_of c \<and> byte_of c < (127::nat)) s \<Longrightarrow> printable s"
  unfolding printable_def by (rule ascii_runes)

lemma headings_printable:
  "list_all printable [''ID'', ''TIME'', ''TYPE'', ''USER'', ''DESCRIPTION'', ''starred'', ''alerted'', ''version'', ''commit'',
     ''build date'', ''path'', ''url'', ''url source'', ''credential'', ''credential source'', ''true'', ''false'']"
  unfolding list.pred_inject by (intro conjI TrueI ascii_printable) simp_all

lemma cell_printable [simp]: "printable (table_cell s)"
  by (simp add: printable_def table_cell_safe)

lemma status_printable: "printable (''status: '' @ table_cell s)"
proof -
  have "runes (''status: '' @ table_cell s) = map byte_of ''status: '' @ runes (table_cell s)" by (rule runes_append_ascii) simp
  moreover have "\<not> list_ex is_unsafe_text_rune (runes (table_cell s))" using table_cell_safe [of s] by (simp only: unsafe_iff not_False_eq_True)
  ultimately show ?thesis by (simp add: printable_def unsafe_iff safe_ascii)
qed

lemma tables_printable: "list_all (list_all printable) (event_table format_time events)" "list_all (list_all printable) (doctor_table status probes)"
  using headings_printable by (simp_all add: event_table_def event_row_cells_def doctor_table_def list_all_iff status_printable [simplified])

lemma bool_printable [simp]: "printable (bool_text b)"
  using headings_printable by (simp add: bool_text_def)

lemma written_ok:
  "output_ok (write_list mode format_time result)" "output_ok (write_events mode format_time events)"
  "output_ok (doctor_report rt status probes)"
  "output_ok (write_value mode format_time (EventValue e))" "output_ok (write_value mode format_time (AnnotationsValue a))"
  "output_ok (write_value mode format_time (BuildValue b))" "output_ok (write_value mode format_time (PathValue p))"
  "credential_state (sh_credential c) \<Longrightarrow> output_ok (write_value mode format_time (ShowValue c))"
  "credential_state st \<Longrightarrow> output_ok (write_value mode format_time (WriteValue p st))"
  using headings_printable
  by (simp_all add: output_ok_def write_list_def write_events_def doctor_report_def write_value_def tables_printable)

definition prints_ok :: "cli_output cli_op \<Rightarrow> bool" where
  "prints_ok m = (\<forall>s out s'. m s = (Inr out, s') \<longrightarrow> output_ok out)"

lemma prints_ret: "output_ok out \<Longrightarrow> prints_ok (ret out)"
  and prints_throw: "prints_ok (throw err)"
  by (simp_all add: prints_ok_def ret_def throw_def)

lemma prints_and_then: "(\<And>x. prints_ok (f x)) \<Longrightarrow> prints_ok (and_then m f)"
  unfolding prints_ok_def by (blast elim: and_then_InrE)

lemma prints_case_sum: "(\<And>e. prints_ok (f e)) \<Longrightarrow> (\<And>x. prints_ok (g x)) \<Longrightarrow> prints_ok (case r of Inl e \<Rightarrow> f e | Inr x \<Rightarrow> g x)"
  by (cases r) simp_all

lemma prints_case_prod: "(\<And>x y. prints_ok (f x y)) \<Longrightarrow> prints_ok (case r of (x, y) \<Rightarrow> f x y)"
  by (cases r) simp

lemmas prints_rules = prints_and_then prints_throw prints_ret prints_case_sum prints_case_prod written_ok

lemma command_prints: "prints_ok (command_op rt c)"
  by (cases c)
    (simp_all only: command_op_def command.case run_events_list_def run_events_get_def run_events_annotations_def run_events_activity_def
       run_events_create_def run_current_def run_config_path_def run_config_show_def run_config_init_def run_config_set_credential_def
       run_version_def with_event_id_def, (intro prints_rules; simp add: credential_state_def)+)

lemma doctor_prints: "run_doctor rt s = ((err, out), s') \<Longrightarrow> output_ok out"
  by (auto simp: run_doctor_def written_ok split: prod.splits sum.splits if_splits)

lemma command_output:
  assumes "run_command rt c s = (r, s')"
  obtains err out where "r = finish err out" "pred_option output_ok out"
proof (cases "c = Doctor")
  case True
  then obtain err out where run: "run_doctor rt s = ((err, out), s')" "r = finish err (Some out)"
    using assms by (auto simp: run_command_def split: prod.splits)
  from that [OF run(2)] doctor_prints [OF run(1)] show thesis by simp
next
  case False
  show thesis
  proof (cases "command_op rt c s")
    case (Pair x s1)
    show thesis
    proof (cases x)
      case (Inl err)
      with Pair False assms that [of "Some err" None] show thesis by (simp add: run_command_def)
    next
      case (Inr out)
      with Pair command_prints [of rt c] have "output_ok out" unfolding prints_ok_def by blast
      with Inr Pair False assms that [of None "Some out"] show thesis by (simp add: run_command_def)
    qed
  qed
qed

lemma exit_codes: "exit_code_for err \<in> {1, 64, 66, 69, 77, 78}"
  by (cases err) (simp_all add: exit_code_for_def split: error_kind.split)

end
