(* ===== verification/ClientProperties.thy ===== *)
theory ClientProperties
  imports ConfigProperties CliCommands
begin

section \<open>Properties of the API client and of the command line tool\<close>

text \<open>
  What the client sends means to the server what the caller asked, what it makes of a reply, and what
  the tool prints.
\<close>

subsection \<open>Requests\<close>

text \<open>
  A request names what was asked. The path the client builds from its segments, whatever bytes an
  identifier holds, splits at its slashes into as many segments, each of which unescapes to the segment
  asked for: no identifier reaches another endpoint or another event.
\<close>

theorem request_path_round_trip:
  "\<exists>rest. endpoint_path (segment # segments) = CHR ''/'' # rest
    \<and> map path_unescape (split_on CHR ''/'' rest) = map Some (segment # segments)"
  using endpoint_segments [of "segment # segments"] by (simp add: endpoint_path_def)

lemma q_all_setters [simp]:
  "q_all (set_time lib name t q) k = (if k = name \<and> t \<noteq> None then [kl_format_time lib (the t)] else q_all q k)"
  "q_all (set_string name v q) k = (if k = name \<and> v \<noteq> [] then [v] else q_all q k)"
  "q_all (set_int name n q) k = (if k = name \<and> n \<noteq> 0 then [itoa n] else q_all q k)"
  "q_all (set_flag name b q) k = (if k = name \<and> b then [''true''] else q_all q k)"
  by (auto simp: set_time_def set_string_def set_int_def set_flag_def split: option.split)

lemma distinct_setters:
  "distinct (map fst q) \<Longrightarrow> distinct (map fst (set_time lib name t q))"
  "distinct (map fst q) \<Longrightarrow> distinct (map fst (set_string name v q))"
  "distinct (map fst q) \<Longrightarrow> distinct (map fst (set_int name n q))"
  "distinct (map fst q) \<Longrightarrow> distinct (map fst (set_flag name b q))"
  by (simp_all add: set_time_def set_string_def set_int_def set_flag_def distinct_q_set split: option.split)

lemma distinct_list_query: "distinct (map fst (list_query lib opts))"
  by (auto simp: list_query_def Let_def intro!: distinct_setters distinct_q_adds distinct_q_set)

lemma list_query_all:
  "q_all (list_query lib opts) ''start_after'' = (case lo_start_after opts of None \<Rightarrow> [] | Some t \<Rightarrow> [kl_format_time lib t])"
  "q_all (list_query lib opts) ''start_before'' = (case lo_start_before opts of None \<Rightarrow> [] | Some t \<Rightarrow> [kl_format_time lib t])"
  "q_all (list_query lib opts) ''around'' = (case lo_around opts of None \<Rightarrow> [] | Some t \<Rightarrow> [kl_format_time lib t])"
  "q_all (list_query lib opts) ''window'' =
     (if lo_around opts \<noteq> None \<and> lo_window opts \<noteq> 0 then [kl_format_duration lib (lo_window opts)] else [])"
  "q_all (list_query lib opts) ''user'' = (if lo_user opts = [] then [] else [lo_user opts])"
  "q_all (list_query lib opts) ''type'' = (if lo_event_type opts = [] then [] else [lo_event_type opts])"
  "q_all (list_query lib opts) ''tag'' = tag_queries (lo_tags opts)"
  "q_all (list_query lib opts) ''top_level'' = (if lo_top_level opts then [''true''] else [])"
  "q_all (list_query lib opts) ''alerted'' = (if lo_alerted_only opts then [''true''] else [])"
  "q_all (list_query lib opts) ''limit'' = (if lo_limit opts = 0 then [] else [itoa (lo_limit opts)])"
  "q_all (list_query lib opts) ''offset'' = (if lo_offset opts = 0 then [] else [itoa (lo_offset opts)])"
  by (simp_all add: list_query_def Let_def q_all_adds split: option.split)

text \<open>The tags: what the server cuts off a \<open>key:value\<close> pair is the key and the value, when the key has no colon.\<close>

lemma tag_param_loop_pairs:
  assumes "\<forall>k \<in> set ks. k \<noteq> [] \<and> CHR '':'' \<notin> set k"
  shows "tag_param_loop (map (\<lambda>k. k @ '':'' @ f k) ks) acc = Inr (fold (\<lambda>k. AList.update k (f k)) ks acc)"
  using assms by (induction ks arbitrary: acc) (simp_all add: cut_append)

lemma map_of_fold_keys: "map_of (fold (\<lambda>k. AList.update k (f k)) ks acc) = (\<lambda>k. if k \<in> set ks then Some (f k) else map_of acc k)"
  by (induction ks arbitrary: acc) (auto simp: fun_eq_iff update_conv')

lemma parse_tag_queries:
  assumes "\<forall>k \<in> fst ` set tags. k \<noteq> [] \<and> CHR '':'' \<notin> set k"
  shows "\<exists>parsed. parse_tag_params (tag_queries tags) = Inr parsed \<and> map_of parsed = map_of tags"
proof -
  have ks: "\<forall>k \<in> set (sort (map fst tags)). k \<noteq> [] \<and> CHR '':'' \<notin> set k" using assms by simp
  have "map_of (fold (\<lambda>k. AList.update k (tag_get tags k)) (sort (map fst tags)) []) = map_of tags"
  proof (rule ext)
    fix k show "map_of (fold (\<lambda>k. AList.update k (tag_get tags k)) (sort (map fst tags)) []) k = map_of tags k"
      using map_of_eq_None_iff [of tags k] by (cases "map_of tags k") (auto simp: map_of_fold_keys tag_get_def)
  qed
  with tag_param_loop_pairs [OF ks, of "tag_get tags" "[]"] show ?thesis
    by (simp add: parse_tag_params_def tag_queries_def)
qed

lemma parse_int_itoa:
  assumes "q_all q k = (if n = 0 then [] else [itoa n])" and "min_int64 \<le> n" "n \<le> max_int64"
  shows "parse_int_param q k = Inr n"
proof (cases "n = 0")
  case True
  with assms(1) show ?thesis by (simp add: parse_int_param_def q_get_def)
next
  case False
  have a: "atoi (itoa n) = Some n" by (rule atoi_itoa [OF assms(2,3)])
  have "itoa n \<noteq> []" using a by (auto simp: atoi_def)
  with a False assms(1) show ?thesis by (simp add: parse_int_param_def q_get_def Let_def)
qed

lemma parse_time_of:
  assumes "q_all q k = (case t of None \<Rightarrow> [] | Some t \<Rightarrow> [kl_format_time klib t])"
    and "\<forall>t \<in> set_option t. kl_format_time klib t \<noteq> [] \<and> tl_rfc3339 tlib (kl_format_time klib t) = Some (seconds t)"
  shows "parse_rfc3339_param tlib q k = Inr (map_option seconds t)"
  using assms by (cases t) (simp_all add: parse_rfc3339_param_def q_get_def)

text \<open>A tag key that holds a colon is cut at its first one: the filter asks for another key.\<close>

theorem colon_key_cut:
  assumes "a \<noteq> []" and "CHR '':'' \<notin> set a"
  shows "parse_tag_params (tag_queries [(a @ '':'' @ b, v)]) = Inr [(a, b @ '':'' @ v)]"
  using assms by (simp add: parse_tag_params_def tag_queries_def tag_get_def cut_append)

text \<open>
  C38: the server reads the client's filters. For every list request whose tag keys are non-empty and hold
  no colon, the query the client encodes, parsed by the server's handler, gives exactly the filters of the
  request: the time bounds as RFC 3339 renders them, the window (half an hour when none is given), user,
  type, the flags, the same tags, and limit and offset when they are 64-bit integers. RFC 3339 times and
  durations are assumed to parse to what was formatted.
\<close>

theorem client_filters_understood:
  assumes times: "\<forall>t \<in> set_option (lo_start_after opts) \<union> set_option (lo_start_before opts) \<union> set_option (lo_around opts).
      kl_format_time klib t \<noteq> [] \<and> tl_rfc3339 tlib (kl_format_time klib t) = Some (seconds t)"
    and window: "kl_format_duration klib (lo_window opts) \<noteq> []" "tl_duration tlib (kl_format_duration klib (lo_window opts)) = Some (lo_window opts)"
    and half_hour: "tl_duration tlib ''30m'' = Some (30 * minute)"
    and tags: "\<forall>k \<in> fst ` set (lo_tags opts). k \<noteq> [] \<and> CHR '':'' \<notin> set k"
    and limit: "min_int64 \<le> lo_limit opts" "lo_limit opts \<le> max_int64" and offset: "min_int64 \<le> lo_offset opts" "lo_offset opts \<le> max_int64"
  shows "\<exists>p. parse_list_params tlib (parse_query (encode_values (list_query klib opts))) = Inr p
    \<and> map_of (lp_tags p) = map_of (lo_tags opts)
    \<and> p\<lparr>lp_tags := []\<rparr> = zero_list_params\<lparr>lp_start_after := map_option seconds (lo_start_after opts),
        lp_start_before := map_option seconds (lo_start_before opts), lp_around := map_option seconds (lo_around opts),
        lp_window := map_option (\<lambda>_. if lo_window opts = 0 then 30 * minute else lo_window opts) (lo_around opts),
        lp_user_name := lo_user opts, lp_event_type := lo_event_type opts, lp_top_level := lo_top_level opts,
        lp_alerted_only := lo_alerted_only opts, lp_limit := lo_limit opts, lp_offset := lo_offset opts\<rparr>"
proof -
  let ?q = "parse_query (encode_values (list_query klib opts))"
  have all: "q_all ?q k = q_all (list_query klib opts) k" for k by (rule parse_encode [OF distinct_list_query])
  note A = all list_query_all
  from parse_tag_queries [OF tags] obtain parsed where parsed: "parse_tag_params (tag_queries (lo_tags opts)) = Inr parsed"
      "map_of parsed = map_of (lo_tags opts)" by blast
  have after: "parse_rfc3339_param tlib ?q ''start_after'' = Inr (map_option seconds (lo_start_after opts))"
    and before: "parse_rfc3339_param tlib ?q ''start_before'' = Inr (map_option seconds (lo_start_before opts))"
    by (rule parse_time_of [where klib = klib]; use times in \<open>simp add: A\<close>)+
  have lim: "parse_int_param ?q ''limit'' = Inr (lo_limit opts)" and off: "parse_int_param ?q ''offset'' = Inr (lo_offset opts)"
    by (rule parse_int_itoa; use limit offset in \<open>simp add: A\<close>)+
  have around: "parse_around_window tlib ?q p = Inr (p\<lparr>lp_around := map_option seconds (lo_around opts),
      lp_window := map_option (\<lambda>_. if lo_window opts = 0 then 30 * minute else lo_window opts) (lo_around opts)\<rparr>)"
    if "lp_around p = None" "lp_window p = None" for p
  proof (cases "lo_around opts")
    case None
    then show ?thesis using that by (simp add: parse_around_window_def q_get_def A)
  next
    case (Some t)
    then have "kl_format_time klib t \<noteq> []" "tl_rfc3339 tlib (kl_format_time klib t) = Some (seconds t)" using times by simp_all
    then show ?thesis using Some window half_hour by (simp add: parse_around_window_def q_get_def A Let_def)
  qed
  have get: "q_get ?q ''user'' = lo_user opts" "q_get ?q ''type'' = lo_event_type opts"
    "(q_get ?q ''top_level'' = ''true'') = lo_top_level opts" "(q_get ?q ''alerted'' = ''true'') = lo_alerted_only opts"
    by (simp_all add: q_get_def A)
  have tag: "q_all ?q ''tag'' = tag_queries (lo_tags opts)" by (simp add: A)
  show ?thesis
    unfolding parse_list_params_def after before lim off tag parsed get sum.case using parsed(2)
    by (simp add: around zero_list_params_def)
qed

definition demo_list_options :: list_options where
  "demo_list_options = \<lparr>lo_start_after = None, lo_start_before = None, lo_around = Some 7, lo_window = 0, lo_user = [],
     lo_event_type = ''note'', lo_tags = [(''team'', ''a:b'')], lo_top_level = True, lo_alerted_only = False, lo_limit = 10, lo_offset = 20\<rparr>"

definition demo_client_lib :: client_lib where
  "demo_client_lib = \<lparr>kl_format_time = itoa, kl_format_duration = (\<lambda>d. ''0s''), kl_error_envelope = (\<lambda>s. None)\<rparr>"

definition demo_time_lib :: time_lib where
  "demo_time_lib = \<lparr>tl_rfc3339 = atoi, tl_local = (\<lambda>s. None), tl_duration = (\<lambda>s. if s = ''30m'' then Some (30 * minute) else Some 0)\<rparr>"

theorem client_filters_understood_witness:
  "\<exists>p. parse_list_params demo_time_lib (parse_query (encode_values (list_query demo_client_lib demo_list_options))) = Inr p
    \<and> map_of (lp_tags p) ''team'' = Some ''a:b'' \<and> lp_around p = Some 7 \<and> lp_window p = Some (30 * minute) \<and> lp_offset p = 20"
proof -
  have n: "itoa 7 = ''7''" "atoi ''7'' = Some 7"
    using atoi_itoa [of 7] by (simp_all add: itoa_def nat_digits.simps char_of_def bit_0 min_int64_def max_int64_def)
  have "\<exists>p. parse_list_params demo_time_lib (parse_query (encode_values (list_query demo_client_lib demo_list_options))) = Inr p
    \<and> map_of (lp_tags p) = map_of (lo_tags demo_list_options)
    \<and> p\<lparr>lp_tags := []\<rparr> = zero_list_params\<lparr>lp_start_after := map_option id (lo_start_after demo_list_options),
        lp_start_before := map_option id (lo_start_before demo_list_options), lp_around := map_option id (lo_around demo_list_options),
        lp_window := map_option (\<lambda>_. if lo_window demo_list_options = 0 then 30 * minute else lo_window demo_list_options) (lo_around demo_list_options),
        lp_user_name := lo_user demo_list_options, lp_event_type := lo_event_type demo_list_options, lp_top_level := lo_top_level demo_list_options,
        lp_alerted_only := lo_alerted_only demo_list_options, lp_limit := lo_limit demo_list_options, lp_offset := lo_offset demo_list_options\<rparr>"
    by (rule client_filters_understood)
      (simp_all add: demo_list_options_def demo_client_lib_def demo_time_lib_def n min_int64_def max_int64_def)
  then obtain p where p: "parse_list_params demo_time_lib (parse_query (encode_values (list_query demo_client_lib demo_list_options))) = Inr p"
      and tags: "map_of (lp_tags p) = map_of (lo_tags demo_list_options)"
      and rest: "p\<lparr>lp_tags := []\<rparr> = zero_list_params\<lparr>lp_start_after := None, lp_start_before := None, lp_around := Some 7,
        lp_window := Some (30 * minute), lp_user_name := [], lp_event_type := ''note'', lp_top_level := True,
        lp_alerted_only := False, lp_limit := 10, lp_offset := 20\<rparr>"
    by (elim exE conjE) (rule that, assumption, assumption, simp add: demo_list_options_def)
  have "map_of (lp_tags p) ''team'' = Some ''a:b''" by (simp add: tags demo_list_options_def)
  moreover have "lp_around (p\<lparr>lp_tags := []\<rparr>) = Some 7" "lp_window (p\<lparr>lp_tags := []\<rparr>) = Some (30 * minute)"
      "lp_offset (p\<lparr>lp_tags := []\<rparr>) = 20"
    unfolding rest by simp_all
  ultimately show ?thesis using p by (intro exI conjI) simp_all
qed

subsection \<open>Replies and output\<close>



end
