(* ===== verification/Fixture.thy ===== *)
theory Fixture
  imports ServiceSteps
begin

section \<open>Event fixtures: internal/fixture/fixture.go\<close>

text \<open>
  A fixture is a list of events that name each other by reference. \<open>apply_at\<close> first checks the whole
  list, then creates the events in order through any \<^verbatim>\<open>Creator\<close>, replacing references by the
  identifiers of the events created so far. The first decoding of the reader and what follows the
  document in it are the arguments of \<open>load_fixture\<close>; \<^verbatim>\<open>time.ParseDuration\<close> is an argument too. The
  locale \<open>fixture_creator\<close> is the contract of the interface \<^verbatim>\<open>Creator\<close>; the change service and, in
  theory Seed, the client of the JSON API are its interpretations.
\<close>

record fixture_event =
  fx_ref :: string
  fx_parent_ref :: string
  fx_external_id :: string
  fx_user_name :: string
  fx_timestamp :: "instant option"
  fx_timestamp_offset :: string
  fx_event_type :: string
  fx_description :: string
  fx_long_description :: string
  fx_links :: "event_link list"
  fx_tags :: tag_map

type_synonym ('s, 'e) creator = "create_request \<Rightarrow> ('s, 'e, change_event) prog"

subsection \<open>Load\<close>

text \<open>What the second \<^verbatim>\<open>Decode\<close> finds after the document.\<close>

datatype json_rest = EndOfInput | AnotherValue | MalformedRest

datatype load_error = DecodeFixture | MultipleJsonValues | TrailingData

definition load_fixture :: "fixture_event list option \<Rightarrow> json_rest \<Rightarrow> load_error + fixture_event list" where
  "load_fixture document rest = (case document of
      None \<Rightarrow> Inl DecodeFixture
    | Some events \<Rightarrow> (case rest of
        EndOfInput \<Rightarrow> Inr events
      | AnotherValue \<Rightarrow> Inl MultipleJsonValues
      | MalformedRest \<Rightarrow> Inl TrailingData))"

subsection \<open>Validation\<close>

text \<open>The errors name the position of the event, counted from 1, and the text they quote.\<close>

datatype 'e fixture_error =
    EmptyRef nat
  | RepeatedRef nat string
  | UnknownParentRef nat string
  | TimestampAndOffset nat
  | InvalidOffset nat string
  | CreateFixtureEvent nat string 'e

definition validate_fixture_event ::
  "(string \<Rightarrow> duration option) \<Rightarrow> nat \<Rightarrow> fixture_event \<Rightarrow> string set \<Rightarrow> 'e fixture_error option" where
  "validate_fixture_event parse_duration position event seen =
     (if fx_ref event = [] then Some (EmptyRef position)
      else if fx_ref event \<in> seen then Some (RepeatedRef position (fx_ref event))
      else if fx_parent_ref event \<noteq> [] \<and> fx_parent_ref event \<notin> seen
      then Some (UnknownParentRef position (fx_parent_ref event))
      else if fx_timestamp event \<noteq> None \<and> fx_timestamp_offset event \<noteq> [] then Some (TimestampAndOffset position)
      else if fx_timestamp_offset event = [] then None
      else (case parse_duration (fx_timestamp_offset event) of
          None \<Rightarrow> Some (InvalidOffset position (fx_timestamp_offset event))
        | Some d \<Rightarrow> None))"

fun validate_references_from ::
  "(string \<Rightarrow> duration option) \<Rightarrow> nat \<Rightarrow> string set \<Rightarrow> fixture_event list \<Rightarrow> 'e fixture_error option" where
  "validate_references_from parse_duration i seen [] = None"
| "validate_references_from parse_duration i seen (event # events) =
     (case validate_fixture_event parse_duration (i + 1) event seen of
        Some err \<Rightarrow> Some err
      | None \<Rightarrow> validate_references_from parse_duration (i + 1) (insert (fx_ref event) seen) events)"

definition validate_references :: "(string \<Rightarrow> duration option) \<Rightarrow> fixture_event list \<Rightarrow> 'e fixture_error option" where
  "validate_references parse_duration events = validate_references_from parse_duration 0 {} events"

subsection \<open>ApplyAt\<close>

definition fixture_timestamp :: "(string \<Rightarrow> duration option) \<Rightarrow> instant \<Rightarrow> fixture_event \<Rightarrow> instant option" where
  "fixture_timestamp parse_duration base event =
     (if fx_timestamp_offset event \<noteq> []
      then Some (base + (case parse_duration (fx_timestamp_offset event) of None \<Rightarrow> 0 | Some offset \<Rightarrow> offset))
      else fx_timestamp event)"

definition fixture_request ::
  "(string \<Rightarrow> duration option) \<Rightarrow> instant \<Rightarrow> tag_map \<Rightarrow> fixture_event \<Rightarrow> create_request" where
  "fixture_request parse_duration base refs event = zero_create_request\<lparr>
     cr_external_id := fx_external_id event, cr_user_name := fx_user_name event,
     cr_timestamp := fixture_timestamp parse_duration base event, cr_event_type := fx_event_type event,
     cr_description := fx_description event, cr_long_description := fx_long_description event,
     cr_links := fx_links event, cr_tags := fx_tags event,
     cr_parent_id := (if fx_parent_ref event \<noteq> [] then tag_get refs (fx_parent_ref event) else [])\<rparr>"

definition create_named :: "('s, 'e) creator \<Rightarrow> nat \<Rightarrow> string \<Rightarrow> create_request \<Rightarrow> ('s, 'e fixture_error, change_event) prog" where
  "create_named create position ref req s = (case create req s of
      (Inl err, s') \<Rightarrow> (Inl (CreateFixtureEvent position ref err), s') | (Inr e, s') \<Rightarrow> (Inr e, s'))"

fun apply_events ::
  "(string \<Rightarrow> duration option) \<Rightarrow> ('s, 'e) creator \<Rightarrow> instant \<Rightarrow> nat \<Rightarrow> tag_map \<Rightarrow> fixture_event list
    \<Rightarrow> ('s, 'e fixture_error, tag_map) prog" where
  "apply_events parse_duration create base i refs [] = ret refs"
| "apply_events parse_duration create base i refs (event # events) =
     and_then (create_named create (i + 1) (fx_ref event) (fixture_request parse_duration base refs event)) (\<lambda>created.
       apply_events parse_duration create base (i + 1) (AList.update (fx_ref event) (ev_id created) refs) events)"

definition apply_at ::
  "(string \<Rightarrow> duration option) \<Rightarrow> ('s, 'e) creator \<Rightarrow> fixture_event list \<Rightarrow> instant
    \<Rightarrow> ('s, 'e fixture_error, tag_map) prog" where
  "apply_at parse_duration create events base = (case validate_references parse_duration events of
      Some err \<Rightarrow> throw err
    | None \<Rightarrow> apply_events parse_duration create base 0 [] events)"

text \<open>\<^verbatim>\<open>Apply\<close> takes the clock as base time.\<close>

definition apply_fixture ::
  "(string \<Rightarrow> duration option) \<Rightarrow> ('s, 'e) creator \<Rightarrow> fixture_event list \<Rightarrow> instant
    \<Rightarrow> ('s, 'e fixture_error, tag_map) prog" where
  "apply_fixture parse_duration create events now = apply_at parse_duration create events now"

subsection \<open>What the validation guarantees\<close>

text \<open>References are distinct and not empty, parents come first, and at most one time is given, a valid one.\<close>

definition fixture_event_ok :: "(string \<Rightarrow> duration option) \<Rightarrow> string set \<Rightarrow> fixture_event \<Rightarrow> bool" where
  "fixture_event_ok parse_duration earlier f =
     (fx_ref f \<noteq> [] \<and> fx_ref f \<notin> earlier \<and> (fx_parent_ref f = [] \<or> fx_parent_ref f \<in> earlier)
      \<and> (fx_timestamp_offset f = [] \<or> fx_timestamp f = None \<and> parse_duration (fx_timestamp_offset f) \<noteq> None))"

lemma validate_fixture_event_None:
  "validate_fixture_event parse_duration i f seen = None \<longleftrightarrow> fixture_event_ok parse_duration seen f"
  by (auto simp: validate_fixture_event_def fixture_event_ok_def split: option.splits)

lemma validate_references_from_None:
  "(validate_references_from parse_duration i seen events :: 'e fixture_error option) = None \<longleftrightarrow>
     (\<forall>k < length events. fixture_event_ok parse_duration (seen \<union> fx_ref ` set (take k events)) (events ! k))"
proof (induction events arbitrary: i seen)
  case (Cons f events)
  have "(validate_references_from parse_duration i seen (f # events) :: 'e fixture_error option) = None \<longleftrightarrow>
      fixture_event_ok parse_duration seen f
      \<and> (validate_references_from parse_duration (i + 1) (insert (fx_ref f) seen) events :: 'e fixture_error option) = None"
    unfolding validate_fixture_event_None [symmetric, where 'a = 'e and i = "i + 1"] by (auto split: option.splits)
  then show ?case unfolding Cons.IH by (simp add: All_less_Suc2)
qed simp

subsection \<open>The contract of a creator\<close>

text \<open>What a stored event has of the request it was made from; its type and tags may be normalised.\<close>

definition made_from :: "create_request \<Rightarrow> change_event \<Rightarrow> bool" where
  "made_from req e = (ev_external_id e = cr_external_id req \<and> ev_parent_id e = cr_parent_id req
     \<and> ev_description e = cr_description req \<and> ev_long_description e = cr_long_description req
     \<and> ev_links e = cr_links req \<and> (case cr_timestamp req of None \<Rightarrow> True | Some t \<Rightarrow> ev_timestamp e = canonical_time t))"

text \<open>
  A direct creator is the service itself: it stores a new event or fails and stores nothing. A remote
  one may also answer with the event that has the external identifier, or lose the reply to a
  request that was carried out.
\<close>

locale fixture_creator =
  fixes create :: "('s, 'e) creator" and inv :: "'s \<Rightarrow> bool" and reg :: "'s \<Rightarrow> registry" and direct :: bool
  assumes reg_ok: "\<And>s. inv s \<Longrightarrow> registry_ok (reg s)"
    and created: "\<And>s req e s'. inv s \<Longrightarrow> distinct (map fst (cr_tags req)) \<Longrightarrow> create req s = (Inr e, s') \<Longrightarrow>
      inv s' \<and> (reg s' = reg s @ [e] \<and> made_from req e
        \<or> \<not> direct \<and> reg s' = reg s \<and> e \<in> set (reg s) \<and> cr_external_id req \<noteq> [] \<and> ev_external_id e = cr_external_id req)"
    and failed: "\<And>s req err s'. inv s \<Longrightarrow> distinct (map fst (cr_tags req)) \<Longrightarrow> create req s = (Inl err, s') \<Longrightarrow>
      inv s' \<and> extends (reg s) (reg s') \<and> (direct \<longrightarrow> reg s' = reg s)"
    and known: "\<And>s req x r s'. inv s \<Longrightarrow> distinct (map fst (cr_tags req)) \<Longrightarrow> cr_external_id req \<noteq> [] \<Longrightarrow>
      find_by_external_id (reg s) (cr_external_id req) = Some x \<Longrightarrow> create req s = (r, s') \<Longrightarrow>
      reg s' = reg s \<and> (\<forall>e. r = Inr e \<longrightarrow> e = x)"

definition entry_stored :: "registry \<Rightarrow> tag_map \<Rightarrow> fixture_event \<Rightarrow> change_event \<Rightarrow> bool" where
  "entry_stored registry ids f e =
     (e \<in> set registry \<and> map_of ids (fx_ref f) = Some (ev_id e) \<and> ev_external_id e = fx_external_id f)"

text \<open>
  The outcome of a run of the loop from position \<open>i\<close> with the identifiers \<open>refs\<close>: \<open>es\<close> are the events the
  creator answered, in the order of the fixture; an error names the position after them.
\<close>

definition loop_outcome ::
  "bool \<Rightarrow> (string \<Rightarrow> duration option) \<Rightarrow> instant \<Rightarrow> registry \<Rightarrow> nat \<Rightarrow> tag_map \<Rightarrow> fixture_event list
    \<Rightarrow> change_event list \<Rightarrow> 'e fixture_error + tag_map \<Rightarrow> bool" where
  "loop_outcome direct parse_duration base registry i refs events es r = (case r of
      Inl err \<Rightarrow> length es < length events \<and> (\<exists>x. err = CreateFixtureEvent (i + length es + 1) (fx_ref (events ! length es)) x)
    | Inr ids \<Rightarrow> map fst ids = map fst refs @ map fx_ref events
        \<and> (\<forall>k \<in> fst ` set refs. map_of ids k = map_of refs k)
        \<and> list_all2 (\<lambda>f e. entry_stored registry ids f e
             \<and> (direct \<longrightarrow> made_from (fixture_request parse_duration base ids f) e)) events es)"

context fixture_creator
begin

lemma registry_unique:
  assumes "inv s" "e \<in> set (reg s)" "ev_external_id e \<noteq> []"
  shows "find_by_external_id (reg s) (ev_external_id e) = Some e"
proof -
  have d: "distinct (filter (\<lambda>x. x \<noteq> []) (map ev_external_id (reg s)))" using reg_ok [OF assms(1)] by (simp add: registry_ok_def)
  have "find (\<lambda>y. ev_external_id y = ev_external_id e) xs = Some e"
    if "distinct (filter (\<lambda>x. x \<noteq> []) (map ev_external_id xs))" "e \<in> set xs" for xs
    using that assms(3) by (induction xs) (auto simp: image_iff split: if_splits)
  from this [OF d assms(2)] show ?thesis by (simp add: find_by_external_id_def)
qed

text \<open>
  One induction for the loop: the events returned, in the order of the fixture, what was stored, and
  the position an error names. Identifiers found so far are never overwritten, so the parent an event was
  created with is the one the final map gives.
\<close>

lemma apply_events_run:
  assumes "inv s" and "list_all (\<lambda>f. distinct (map fst (fx_tags f))) events"
    and "(validate_references_from parse_duration i (fst ` set refs) events :: 'e fixture_error option) = None"
    and "apply_events parse_duration create base i refs events s = (r, s')"
  shows "\<exists>es news. inv s' \<and> reg s' = reg s @ news \<and> (direct \<longrightarrow> news = es)
    \<and> loop_outcome direct parse_duration base (reg s') i refs events es r"
  using assms
proof (induction events arbitrary: i refs s)
  case Nil
  then show ?case by (intro exI [of _ "[]"]) (auto simp: ret_def loop_outcome_def)
next
  case (Cons f events)
  let ?req = "fixture_request parse_duration base refs f"
  have tags: "distinct (map fst (cr_tags ?req))" using Cons.prems(2) by (simp add: fixture_request_def zero_create_request_def)
  have ext: "cr_external_id ?req = fx_external_id f" by (simp add: fixture_request_def zero_create_request_def)
  have split: "(validate_fixture_event parse_duration (i + 1) f (fst ` set refs) :: 'e fixture_error option) = None"
      "(validate_references_from parse_duration (i + 1) (insert (fx_ref f) (fst ` set refs)) events :: 'e fixture_error option) = None"
    using Cons.prems(3) by (auto split: option.splits)
  have ok: "fx_ref f \<notin> fst ` set refs" "fx_parent_ref f = [] \<or> fx_parent_ref f \<in> fst ` set refs"
    using split(1) unfolding validate_fixture_event_None fixture_event_ok_def by simp_all
  obtain q s1 where c: "create ?req s = (q, s1)" by fastforce
  show ?case
  proof (cases q)
    case (Inl err)
    with c Cons.prems(4) have "r = Inl (CreateFixtureEvent (i + 1) (fx_ref f) err)" "s' = s1"
      by (simp_all add: create_named_def and_then_def)
    moreover from failed [OF Cons.prems(1) tags c [unfolded Inl]] obtain news where "inv s1" "reg s1 = reg s @ news" "direct \<longrightarrow> news = []"
      by (auto simp: extends_def)
    ultimately show ?thesis by (intro exI [of _ "[]"] exI [of _ news]) (auto simp: loop_outcome_def)
  next
    case (Inr e)
    let ?refs = "AList.update (fx_ref f) (ev_id e) refs"
    have upd: "?refs = refs @ [(fx_ref f, ev_id e)]" by (rule update_fresh_append [OF ok(1)])
    have run: "apply_events parse_duration create base (i + 1) ?refs events s1 = (r, s')"
      using c Inr Cons.prems(4) by (simp add: create_named_def and_then_def)
    note C = created [OF Cons.prems(1) tags c [unfolded Inr]]
    then obtain new where new: "reg s1 = reg s @ new" "direct \<longrightarrow> new = [e] \<and> made_from ?req e" by auto
    have e: "e \<in> set (reg s1)" "ev_external_id e = fx_external_id f" using C ext by (auto simp: made_from_def)
    have keys: "fst ` set ?refs = insert (fx_ref f) (fst ` set refs)" by (auto simp: upd)
    have "\<exists>es news. inv s' \<and> reg s' = reg s1 @ news \<and> (direct \<longrightarrow> news = es)
        \<and> loop_outcome direct parse_duration base (reg s') (i + 1) ?refs events es r"
      by (rule Cons.IH [OF _ _ _ run]) (use C Cons.prems(2) split(2) in \<open>simp_all add: keys split\<close>)
    then obtain es news where IH: "inv s'" "reg s' = reg s1 @ news" "direct \<longrightarrow> news = es"
      "loop_outcome direct parse_duration base (reg s') (i + 1) ?refs events es r"
      by (elim exE conjE) (rule that)
    have "loop_outcome direct parse_duration base (reg s') i refs (f # events) (e # es) r"
    proof (cases r)
      case (Inl err)
      with IH(4) show ?thesis by (auto simp: loop_outcome_def)
    next
      case (Inr ids)
      with IH(4) have R: "map fst ids = map fst ?refs @ map fx_ref events" "\<forall>k \<in> fst ` set ?refs. map_of ids k = map_of ?refs k"
        by (simp_all add: loop_outcome_def)
      then have K: "map_of ids k = map_of refs k" if "k \<in> fst ` set refs" for k
        using ok(1) that unfolding keys by (metis insertCI map_of_update fun_upd_other)
      have K': "map_of ids (fx_ref f) = Some (ev_id e)" using R(2) unfolding keys by simp
      then have "fixture_request parse_duration base ids f = ?req"
        using ok(2) K [of "fx_parent_ref f"] unfolding fixture_request_def tag_get_def by (cases "fx_parent_ref f = []") simp_all
      with K K' R IH Inr e new show ?thesis by (auto simp: loop_outcome_def entry_stored_def upd)
    qed
    with IH new show ?thesis by (intro exI [of _ "e # es"] exI [of _ "new @ news"]) simp
  qed
qed

text \<open>The whole of \<^verbatim>\<open>ApplyAt\<close>: an invalid fixture creates nothing.\<close>

lemma apply_at_invalid:
  assumes "validate_references parse_duration events = Some err"
  shows "apply_at parse_duration create events base s = (Inl err, s)"
  using assms by (simp add: apply_at_def throw_def)

lemma apply_at_run:
  assumes "inv s" and "list_all (\<lambda>f. distinct (map fst (fx_tags f))) events"
    and "(validate_references parse_duration events :: 'e fixture_error option) = None"
    and "apply_at parse_duration create events base s = (r, s')"
  shows "\<exists>es news. inv s' \<and> reg s' = reg s @ news \<and> (direct \<longrightarrow> news = es)
    \<and> loop_outcome direct parse_duration base (reg s') 0 [] events es r"
  using apply_events_run [OF assms(1,2), of parse_duration 0 "[]" base r s'] assms(3,4)
  by (simp add: apply_at_def validate_references_def)

text \<open>
  Applying a fixture again. Where every event has an external identifier and the registry holds what an
  earlier application returned, nothing is stored, whatever calls fail; and if it succeeds it
  returns the same identifiers.
\<close>

lemma apply_events_again:
  assumes "inv s" and "list_all (\<lambda>f. distinct (map fst (fx_tags f)) \<and> fx_external_id f \<noteq> []) events"
    and "list_all2 (entry_stored (reg s) ids) events es"
    and "map_of refs \<subseteq>\<^sub>m map_of ids"
    and "apply_events parse_duration create base i refs events s = (r, s')"
  shows "reg s' = reg s \<and> (\<forall>refs'. r = Inr refs' \<longrightarrow> map_of refs' \<subseteq>\<^sub>m map_of ids
    \<and> dom (map_of refs') = dom (map_of refs) \<union> fx_ref ` set events)"
  using assms
proof (induction events arbitrary: i refs s es)
  case Nil
  then show ?case by (auto simp: ret_def)
next
  case (Cons f events)
  obtain e es' where es: "es = e # es'" and f: "entry_stored (reg s) ids f e" and rest: "list_all2 (entry_stored (reg s) ids) events es'"
    using Cons.prems(3) by (auto simp: list_all2_Cons1)
  let ?req = "fixture_request parse_duration base refs f"
  have tags: "distinct (map fst (cr_tags ?req))" and ext: "cr_external_id ?req = fx_external_id f" "cr_external_id ?req \<noteq> []"
    using Cons.prems(2) by (simp_all add: fixture_request_def zero_create_request_def)
  have found: "find_by_external_id (reg s) (cr_external_id ?req) = Some e"
    using registry_unique [OF Cons.prems(1), of e] f ext by (simp add: entry_stored_def)
  obtain q s1 where c: "create ?req s = (q, s1)" by fastforce
  note K = known [OF Cons.prems(1) tags ext(2) found c]
  show ?case
  proof (cases q)
    case (Inl err)
    with c Cons.prems(5) K show ?thesis by (auto simp: create_named_def and_then_def)
  next
    case (Inr x)
    with K have x: "x = e" by simp
    let ?refs = "AList.update (fx_ref f) (ev_id e) refs"
    have run: "apply_events parse_duration create base (i + 1) ?refs events s1 = (r, s')"
      using c Inr x Cons.prems(5) by (simp add: create_named_def and_then_def)
    have inv: "inv s1" using created [OF Cons.prems(1) tags c [unfolded Inr]] by simp
    have agree: "map_of ?refs \<subseteq>\<^sub>m map_of ids"
      using f Cons.prems(4) by (auto simp: entry_stored_def map_le_def)
    have "reg s' = reg s1 \<and> (\<forall>refs'. r = Inr refs' \<longrightarrow> map_of refs' \<subseteq>\<^sub>m map_of ids
        \<and> dom (map_of refs') = dom (map_of ?refs) \<union> fx_ref ` set events)"
      by (rule Cons.IH [OF inv _ _ agree run]) (use Cons.prems(2) rest K in simp_all)
    with K show ?thesis by simp
  qed
qed

lemma apply_at_stored:
  assumes inv: "inv s" and tags: "list_all (\<lambda>f. distinct (map fst (fx_tags f))) events"
    and run: "apply_at parse_duration create events base s = (Inr ids, s')"
  shows "\<exists>es. inv s' \<and> extends (reg s) (reg s') \<and> map fst ids = map fx_ref events
    \<and> list_all2 (entry_stored (reg s') ids) events es"
proof -
  have valid: "(validate_references parse_duration events :: 'e fixture_error option) = None"
    using run by (cases "validate_references parse_duration events :: 'e fixture_error option") (simp_all add: apply_at_def throw_def)
  obtain es news where "inv s'" "reg s' = reg s @ news"
      and out: "loop_outcome direct parse_duration base (reg s') 0 [] events es (Inr ids :: 'e fixture_error + tag_map)"
    using apply_at_run [OF inv tags valid run] by (elim exE conjE) (rule that)
  then show ?thesis by (intro exI [of _ es]) (simp add: loop_outcome_def list_all2_conv_all_nth)
qed

lemma apply_at_again:
  assumes inv: "inv t" and ok: "list_all (\<lambda>f. distinct (map fst (fx_tags f)) \<and> fx_external_id f \<noteq> []) events"
    and keys: "map fst ids = map fx_ref events" and stored: "list_all2 (entry_stored (reg t) ids) events es"
    and run: "apply_at parse_duration create events base t = (r, t')"
  shows "reg t' = reg t \<and> (\<forall>ids'. r = Inr ids' \<longrightarrow> map_of ids' = map_of ids)"
proof (cases "validate_references parse_duration events :: 'e fixture_error option")
  case (Some err)
  with run apply_at_invalid show ?thesis by auto
next
  case None
  then have loop: "apply_events parse_duration create base 0 [] events t = (r, t')" using run by (simp add: apply_at_def)
  have "reg t' = reg t \<and> (\<forall>ids'. r = Inr ids' \<longrightarrow> map_of ids' \<subseteq>\<^sub>m map_of ids
    \<and> dom (map_of ids') = dom (map_of ([] :: tag_map)) \<union> fx_ref ` set events)"
    by (rule apply_events_again [OF inv ok stored _ loop]) simp
  moreover have "dom (map_of ids) = fx_ref ` set events" using arg_cong [OF keys, of set] by (simp add: dom_map_of_conv_image_fst)
  moreover have "map_of ids' = map_of ids" if "map_of ids' \<subseteq>\<^sub>m map_of ids" "dom (map_of ids') = dom (map_of ids)" for ids' :: tag_map
    by (rule map_le_antisym [OF that(1)]) (use that in \<open>simp add: map_le_def\<close>)
  ultimately show ?thesis by simp
qed

end

lemma entry_stored_mono: "entry_stored r ids f e \<Longrightarrow> extends r r' \<Longrightarrow> entry_stored r' ids f e"
  by (auto simp: entry_stored_def intro: extends_mem)

end
