(* ===== verification/Seed.thy ===== *)
theory Seed
  imports Fixture RouterGate
begin

section \<open>Seeding through the API: cmd/seed/main.go\<close>

text \<open>
  The command posts the events of a fixture file to a running registry. Its HTTP client is the
  transport: a function from the request and the world to the reply and the world after it. The world
  of interest is the server itself (\<open>served\<close>), whose replies may be lost; against it the client is a
  \<open>fixture_creator\<close>. Parsing flags, reading files, the JSON codec, \<^verbatim>\<open>time.ParseDuration\<close> and \<^verbatim>\<open>%q\<close> are
  the functions of \<open>seed_lib\<close>.
\<close>

record seed_request =
  sd_method :: string
  sd_url :: string
  sd_authorization :: string
  sd_content_type :: string
  sd_body :: string

datatype seed_reply = SeedNoReply | SeedReply nat string

type_synonym 'w seed_transport = "seed_request \<Rightarrow> 'w \<Rightarrow> seed_reply \<times> 'w"

record seed_flags =
  sf_base_url :: string
  sf_token :: string
  sf_fixture :: string

record seed_lib =
  sl_flags :: "string \<Rightarrow> string list \<Rightarrow> seed_flags option"
  sl_open :: "string \<Rightarrow> (fixture_event list option \<times> json_rest) option"
  sl_marshal :: "create_request \<Rightarrow> string option"
  sl_url_ok :: "string \<Rightarrow> bool"
  sl_event :: "string \<Rightarrow> change_event option"
  sl_duration :: "string \<Rightarrow> duration option"
  sl_quote :: "string \<Rightarrow> string"

subsection \<open>The API client of the command\<close>

record api_creator =
  ac_base_url :: string
  ac_token :: string

definition create_url :: "api_creator \<Rightarrow> string" where
  "create_url c = ac_base_url c @ ''/api/v1/events''"

definition create_message :: "api_creator \<Rightarrow> string \<Rightarrow> seed_request" where
  "create_message c body = \<lparr>sd_method = ''POST'', sd_url = create_url c,
     sd_authorization = ''Bearer '' @ ac_token c, sd_content_type = ''application/json'', sd_body = body\<rparr>"

definition created_reply :: "seed_lib \<Rightarrow> seed_reply \<Rightarrow> string + change_event" where
  "created_reply lib r = (case r of
      SeedNoReply \<Rightarrow> Inl ''create event''
    | SeedReply status body \<Rightarrow>
        (if status \<noteq> 201 \<and> status \<noteq> 200
         then Inl (''create event: status '' @ itoa (int status) @ '': '' @ trim_space (take 4096 body))
         else case sl_event lib body of None \<Rightarrow> Inl ''decode created event'' | Some e \<Rightarrow> Inr e))"

definition api_creator_create :: "seed_lib \<Rightarrow> 'w seed_transport \<Rightarrow> api_creator \<Rightarrow> ('w, string) creator" where
  "api_creator_create lib deliver c req w = (case sl_marshal lib req of
      None \<Rightarrow> (Inl ''encode request'', w)
    | Some body \<Rightarrow>
        (if \<not> sl_url_ok lib (create_url c) then (Inl ''build request'', w)
         else case deliver (create_message c body) w of (r, w') \<Rightarrow> (created_reply lib r, w')))"

subsection \<open>The command\<close>

definition load_error_text :: "load_error \<Rightarrow> string" where
  "load_error_text err = (case err of
      DecodeFixture \<Rightarrow> ''decode fixture''
    | MultipleJsonValues \<Rightarrow> ''decode fixture: multiple JSON values''
    | TrailingData \<Rightarrow> ''decode fixture trailing data'')"

definition fixture_error_text :: "(string \<Rightarrow> string) \<Rightarrow> string fixture_error \<Rightarrow> string" where
  "fixture_error_text quote err = (case err of
      EmptyRef i \<Rightarrow> ''event '' @ itoa (int i) @ '' has empty ref''
    | RepeatedRef i ref \<Rightarrow> ''event '' @ itoa (int i) @ '' repeats ref '' @ quote ref
    | UnknownParentRef i ref \<Rightarrow> ''event '' @ itoa (int i) @ '' references unknown parent_ref '' @ quote ref
    | TimestampAndOffset i \<Rightarrow> ''event '' @ itoa (int i) @ '' sets both timestamp and timestamp_offset''
    | InvalidOffset i offset \<Rightarrow> ''event '' @ itoa (int i) @ '' has invalid timestamp_offset '' @ quote offset
    | CreateFixtureEvent i ref message \<Rightarrow>
        ''create fixture event '' @ itoa (int i) @ '' ('' @ quote ref @ ''): '' @ message)"

text \<open>The exit code, and what is printed: to standard output when it is 0, to standard error otherwise.\<close>

definition seed_failed :: "nat \<Rightarrow> string \<Rightarrow> 'w \<Rightarrow> (nat \<times> string) \<times> 'w" where
  "seed_failed code message w = ((code, ''error: '' @ message), w)"

definition run_with_client ::
  "seed_lib \<Rightarrow> string \<Rightarrow> string list \<Rightarrow> 'w seed_transport \<Rightarrow> instant \<Rightarrow> 'w \<Rightarrow> (nat \<times> string) \<times> 'w" where
  "run_with_client lib env_token args deliver now w = (case sl_flags lib env_token args of
      None \<Rightarrow> ((2, []), w)
    | Some flags \<Rightarrow>
        (if sf_fixture flags = [] then seed_failed 2 ''--fixture is required'' w
         else if sf_token flags = [] then seed_failed 2 ''--token or PCR_TOKEN is required'' w
         else case sl_open lib (sf_fixture flags) of
             None \<Rightarrow> seed_failed 1 ''open fixture'' w
           | Some (document, rest) \<Rightarrow> (case load_fixture document rest of
               Inl err \<Rightarrow> seed_failed 1 (load_error_text err) w
             | Inr events \<Rightarrow>
                 (let c = \<lparr>ac_base_url = trim_right_slashes (sf_base_url flags), ac_token = sf_token flags\<rparr> in
                  case apply_fixture (sl_duration lib) (api_creator_create lib deliver c) events now w of
                    (Inl err, w') \<Rightarrow> seed_failed 1 (fixture_error_text (sl_quote lib) err) w'
                  | (Inr refs, w') \<Rightarrow> ((0, ''seeded '' @ itoa (int (length events)) @ '' events from '' @ sf_fixture flags), w')))))"

subsection \<open>The service and the server as creators\<close>

text \<open>
  The service with a supply of clocks and identifiers, one per call; the world counts the calls.
\<close>

definition service_creator ::
  "url_parser \<Rightarrow> 's change_store \<Rightarrow> (nat \<Rightarrow> env) \<Rightarrow> ('s \<times> nat, go_error) creator" where
  "service_creator parse S en req sn =
     (case svc_create parse S (en (snd sn)) req (fst sn) of (r, s') \<Rightarrow> (r, (s', snd sn + 1)))"

text \<open>
  The server behind the transport: \<open>wire\<close> is how net/http presents a request to the router, \<open>render\<close> the
  encoding of a response body; the reply to call \<open>n\<close> is lost when \<open>lost n\<close>.
\<close>

record link =
  ln_site :: site
  ln_wire :: "seed_request \<Rightarrow> http_request"
  ln_render :: "payload body \<Rightarrow> string"
  ln_moment :: "nat \<Rightarrow> moment"
  ln_lost :: "nat \<Rightarrow> bool"

definition served :: "link \<Rightarrow> 's change_store \<Rightarrow> ('s \<Rightarrow> bool) \<Rightarrow> ('s \<times> nat) seed_transport" where
  "served l S ping rq sn = (case serve (ln_site l) S ping (ln_moment l (snd sn)) (ln_wire l rq) (fst sn) of
      None \<Rightarrow> (SeedNoReply, (fst sn, snd sn + 1))
    | Some (r, s') \<Rightarrow>
        (if ln_lost l (snd sn) then SeedNoReply else SeedReply (rs_status r) (ln_render l (rs_body r)), (s', snd sn + 1)))"

text \<open>
  What is relied on of the libraries between client and server: a POST of the command reaches the create
  endpoint, the server decodes the request the client encoded, the client decodes an event only from the
  encoding of that event, and generated identifiers are not empty.
\<close>

definition link_ok :: "seed_lib \<Rightarrow> link \<Rightarrow> bool" where
  "link_ok lib l =
     ((\<forall>c body. \<exists>i. find_route (si_match (ln_site l)) (rq_method (ln_wire l (create_message c body)))
         (rq_path (ln_wire l (create_message c body))) = Routed ApiCreate i)
      \<and> (\<forall>c req body i. sl_marshal lib req = Some body \<longrightarrow>
           (\<exists>b. ap_create (si_codec (ln_site l)) max_json_bytes ((ln_wire l (create_message c body))\<lparr>rq_id := i\<rparr>) = JsonValue req b))
      \<and> (\<forall>b e. sl_event lib (ln_render l b) = Some e \<longrightarrow> b = Payload (EventBody (Some e)))
      \<and> (\<forall>n. env_uuid (mo_env (ln_moment l n)) \<noteq> Some []))"

context change_store
begin

text \<open>One call of a creator that is \<^verbatim>\<open>svc_create\<close> on the state, for the three laws.\<close>

lemma create_direct:
  assumes "inv s" "distinct (map fst (cr_tags req))" "env_uuid en \<noteq> Some []" "svc_create parse S en req s = (Inr e, s')"
  shows "inv s' \<and> reg s' = reg s @ [e] \<and> made_from req e"
proof -
  obtain i et tags where "inv s'" "e = stored_event (new_event en i req et tags)" "reg s' = reg s @ [e]"
    using create_with_Inr [OF assms(1-3) assms(4) [unfolded svc_create_def]] by metis
  then show ?thesis by (simp add: made_from_def stored_event_def new_event_def split: option.split)
qed

lemma service_creator_law:
  "fixture_creator (service_creator parse S en)
     (\<lambda>sn. inv (fst sn) \<and> (\<forall>k. env_uuid (en k) \<noteq> Some [])) (\<lambda>sn. reg (fst sn)) True"
proof (unfold_locales, goal_cases)
  case (1 sn)
  then show ?case by (simp add: reg_ok)
next
  case (2 sn req e sn')
  then show ?case using create_direct [of "fst sn" req "en (snd sn)" parse e "fst sn'"]
    by (auto simp: service_creator_def split: prod.splits)
next
  case (3 sn req err sn')
  then show ?case using create_with_Inl [of "fst sn" req "en (snd sn)" parse True err "fst sn'"]
    by (auto simp: service_creator_def svc_create_def split: prod.splits)
next
  case (4 sn req x r sn')
  then show ?case using create_again [of "fst sn" req x parse True "en (snd sn)" r "fst sn'"]
    by (auto simp: service_creator_def svc_create_def split: prod.splits)
qed

text \<open>
  A create request to the server is the service's Create on the decoded request, or is rejected before it.
\<close>

lemma serve_create:
  assumes "find_route (si_match w) (rq_method rq) (rq_path rq) = Routed ApiCreate i"
  obtains cx where "serve w S ping t rq s =
      Some (api_create_event (si_codec w) (ul_request_uri (si_urls w)) S (mo_env t) cx (rq\<lparr>rq_id := i\<rparr>) s)"
    | message where "serve w S ping t rq s = Some (write_auth_error message, s)"
proof -
  have api: "ApiCreate \<in> set api_endpoints" by (simp add: api_endpoints_def)
  have "serve w S ping t rq s = api_group w t (direct (api_create_event (si_codec w) (ul_request_uri (si_urls w)) S (mo_env t)))
      (empty_context\<lparr>cx_request_id := (if rq_header rq request_id_header = [] then mo_fresh t else rq_header rq request_id_header)\<rparr>)
      (rq\<lparr>rq_id := i\<rparr>) s"
    by (simp add: serve_def request_id_def assms dispatch_def api api_endpoint_def Let_def)
  then show thesis using that
    unfolding api_group_def auth_with_trusted_identity_eq
    by (auto simp: direct_def answer_def send_def reply_def split: if_splits option.splits)
qed

lemma create_failed_status: "rs_status (create_failed err) \<in> {200, 201} \<Longrightarrow> \<exists>x. err = ErrDuplicate x"
  by (cases err) (auto simp: create_failed_def map_service_error_def api_internal_error_def)

text \<open>One call of the client against the server: what it reports, and what the service did.\<close>

lemma client_call:
  assumes ok: "link_ok lib l" and run: "api_creator_create lib (served l S ping) c req (s, n) = (r, (s', n'))"
  obtains (unsent) err where "r = Inl err" "s' = s"
    | (sent) cx en q where "svc_create (ul_request_uri (si_urls (ln_site l))) S en (attribute_request cx req) s = (q, s')"
        "env_uuid en \<noteq> Some []" "\<And>e. r = Inr e \<Longrightarrow> q = Inr e \<or> q = Inl (ErrDuplicate (Some e))"
proof -
  from run consider "s' = s" "\<exists>err. r = Inl err"
    | body where "sl_marshal lib req = Some body"
        "(case served l S ping (create_message c body) (s, n) of (p, w') \<Rightarrow> (created_reply lib p, w')) = (r, (s', n'))"
    by (auto simp: api_creator_create_def split: option.splits if_splits)
  then show thesis
  proof cases
    case 1
    then show thesis using unsent by blast
  next
    case 2
    let ?rq = "ln_wire l (create_message c body)" and ?t = "ln_moment l n"
    obtain i where route: "find_route (si_match (ln_site l)) (rq_method ?rq) (rq_path ?rq) = Routed ApiCreate i"
      using ok unfolding link_ok_def by blast
    obtain b where dec: "ap_create (si_codec (ln_site l)) max_json_bytes (?rq\<lparr>rq_id := i\<rparr>) = JsonValue req b"
      using ok 2(1) unfolding link_ok_def by blast
    have u: "env_uuid (mo_env ?t) \<noteq> Some []" using ok unfolding link_ok_def by blast
    have event: "\<And>bd e. sl_event lib (ln_render l bd) = Some e \<Longrightarrow> bd = Payload (EventBody (Some e))"
      using ok unfolding link_ok_def by blast
    consider cx where "serve (ln_site l) S ping ?t ?rq s =
        Some (api_create_event (si_codec (ln_site l)) (ul_request_uri (si_urls (ln_site l))) S (mo_env ?t) cx (?rq\<lparr>rq_id := i\<rparr>) s)"
      | message where "serve (ln_site l) S ping ?t ?rq s = Some (write_auth_error message, s)"
      by (rule serve_create [OF route])
    then show thesis
    proof cases
      case (1 cx)
      obtain q s2 where q: "svc_create (ul_request_uri (si_urls (ln_site l))) S (mo_env ?t) (attribute_request cx req) s = (q, s2)"
        by fastforce
      then have serve: "serve (ln_site l) S ping ?t ?rq s = Some (case q of Inl err \<Rightarrow> create_failed err | Inr e \<Rightarrow> created_event e, s2)"
        using 1 dec by (simp add: api_create_event_def handle_result_def reply_def split: sum.split)
      let ?p = "case q of Inl err \<Rightarrow> create_failed err | Inr e \<Rightarrow> created_event e"
      have out: "s' = s2" "r = created_reply lib (if ln_lost l n then SeedNoReply else SeedReply (rs_status ?p) (ln_render l (rs_body ?p)))"
        using 2(2) serve by (simp_all add: served_def)
      have "q = Inr e \<or> q = Inl (ErrDuplicate (Some e))" if "r = Inr e" for e
      proof -
        have st: "rs_status ?p \<in> {200, 201}" and ev: "rs_body ?p = Payload (EventBody (Some e))"
          using that out(2) event by (auto simp: created_reply_def split: if_splits option.splits)
        show ?thesis
        proof (cases q)
          case (Inl err)
          with st obtain x where "err = ErrDuplicate x" using create_failed_status by auto
          with Inl ev show ?thesis by (simp add: create_failed_def respond_def)
        next
          case (Inr e0)
          with ev show ?thesis by (simp add: created_event_def respond_def)
        qed
      qed
      then show thesis using sent [OF q [folded out(1)] u] by blast
    next
      case (2 message)
      then have "s' = s \<and> (\<exists>err. r = Inl err)"
        using \<open>(case served l S ping (create_message c body) (s, n) of (p, w') \<Rightarrow> (created_reply lib p, w')) = (r, (s', n'))\<close>
        by (auto simp: served_def created_reply_def write_auth_error_def json_error_def)
      then show thesis using unsent by blast
    qed
  qed
qed

lemma attributed_sel [simp]:
  "cr_tags (attribute_request cx req) = cr_tags req" "cr_external_id (attribute_request cx req) = cr_external_id req"
  "made_from (attribute_request cx req) e = made_from req e"
  by (simp_all add: attribute_request_def made_from_def split: option.split)

lemma client_law:
  "fixture_creator (api_creator_create lib (served l S ping) c) (\<lambda>sn. inv (fst sn) \<and> link_ok lib l) (\<lambda>sn. reg (fst sn)) False"
proof (unfold_locales, goal_cases)
  case (1 sn)
  then show ?case by (simp add: reg_ok)
next
  case (2 sn req e sn')
  obtain s n s' n' where sn: "sn = (s, n)" "sn' = (s', n')" by fastforce
  note P = 2 [unfolded sn, simplified]
  show ?case
  proof (cases rule: client_call [OF conjunct2 [OF P(1)] P(3)])
    case (1 err)
    then show ?thesis by simp
  next
    case (2 cx en q)
    then consider "q = Inr e" | "q = Inl (ErrDuplicate (Some e))" by auto
    then show ?thesis
    proof cases
      case 1
      with create_direct [OF conjunct1 [OF P(1)] _ 2(2) 2(1) [unfolded 1]] P(1,2) sn show ?thesis by simp
    next
      case 2
      with create_with_Inl [OF conjunct1 [OF P(1)] _ \<open>env_uuid en \<noteq> Some []\<close>
          \<open>svc_create _ _ _ _ _ = _\<close> [unfolded svc_create_def 2]] P(1,2) sn
      have "inv s'" "reg s' = reg s" "cr_external_id req \<noteq> []" "find_by_external_id (reg s) (cr_external_id req) = Some e"
        by simp_all
      with find_by_external_id_Some P(1) sn show ?thesis by simp
    qed
  qed
next
  case (3 sn req err sn')
  obtain s n s' n' where sn: "sn = (s, n)" "sn' = (s', n')" by fastforce
  note P = 3 [unfolded sn, simplified]
  show ?case
  proof (cases rule: client_call [OF conjunct2 [OF P(1)] P(3)])
    case (1 err)
    with P sn show ?thesis by simp
  next
    case (2 cx en q)
    then show ?thesis
      using grows_atD [OF grows_create_as [of "attribute_request cx req" en] conjunct1 [OF P(1)] 2(1) [unfolded svc_create_def]] P(1,2) sn
      by (auto dest: extends_by_extends)
  qed
next
  case (4 sn req x r sn')
  obtain s n s' n' where sn: "sn = (s, n)" "sn' = (s', n')" by fastforce
  note P = 4 [unfolded sn, simplified]
  show ?case
  proof (cases rule: client_call [OF conjunct2 [OF P(1)] P(5)])
    case (1 err)
    with P sn show ?thesis by simp
  next
    case (2 cx en q)
    have "reg s' = reg s \<and> (q = Inl (ErrDuplicate (Some x)) \<or> (\<exists>msg. q = Inl (ErrOther msg)))"
      using create_again [OF conjunct1 [OF P(1)] _ _ 2(1) [unfolded svc_create_def]] P(3,4) by simp
    with 2(3) sn show ?thesis by auto
  qed
qed

end

interpretation service_fixture: fixture_creator "service_creator parse pg_store en"
    "\<lambda>sn. pg_inv (fst sn) \<and> (\<forall>k. env_uuid (en k) \<noteq> Some [])" "\<lambda>sn. pg_registry (fst sn)" True for parse en
  by (rule pgs.service_creator_law)

interpretation seeding: fixture_creator "api_creator_create lib (served l pg_store ping) c"
    "\<lambda>sn. pg_inv (fst sn) \<and> link_ok lib l" "\<lambda>sn. pg_registry (fst sn)" False for lib l ping c
  by (rule pgs.client_law)

end
