(* ===== verification/SeedProperties.thy ===== *)
theory SeedProperties
  imports Seed WebExample
begin

section \<open>Properties of fixtures and of the seed command\<close>

text \<open>
  What applying a fixture to the service stores, and that seeding a server over its API can be repeated.
\<close>

lemma made_from_parent: "made_from (fixture_request parse_duration base ids f) e \<Longrightarrow>
    ev_parent_id e = (if fx_parent_ref f = [] then [] else tag_get ids (fx_parent_ref f))"
  by (simp add: made_from_def fixture_request_def zero_create_request_def)

lemma made_from_fields: "made_from (fixture_request parse_duration base ids f) e \<Longrightarrow>
    ev_external_id e = fx_external_id f \<and> ev_description e = fx_description f \<and> ev_long_description e = fx_long_description f
    \<and> ev_links e = fx_links f
    \<and> (\<forall>t. fixture_timestamp parse_duration base f = Some t \<longrightarrow> ev_timestamp e = canonical_time t)"
  by (simp add: made_from_def fixture_request_def zero_create_request_def split: option.splits)

text \<open>A parent reference of a valid fixture is among the references.\<close>

lemma parent_ref_known:
  assumes "\<forall>k < length events. fixture_event_ok parse_duration (fx_ref ` set (take k events)) (events ! k)"
    and "f \<in> set events" and "fx_parent_ref f \<noteq> []"
  shows "fx_parent_ref f \<in> fx_ref ` set events"
proof -
  from assms(2) obtain k where "k < length events" "f = events ! k" by (auto simp: in_set_conv_nth)
  with assms(1,3) have "fx_parent_ref f \<in> fx_ref ` set (take k events)" by (auto simp: fixture_event_ok_def)
  then show ?thesis using set_take_subset [of k events] by blast
qed

text \<open>
  The fixture stored: what a successful application leaves, event by event.
\<close>

definition event_of_fixture ::
  "(string \<Rightarrow> duration option) \<Rightarrow> instant \<Rightarrow> tag_map \<Rightarrow> fixture_event \<Rightarrow> change_event \<Rightarrow> bool" where
  "event_of_fixture parse_duration base ids f e =
     (map_of ids (fx_ref f) = Some (ev_id e)
      \<and> (if fx_parent_ref f = [] then ev_parent_id e = [] else map_of ids (fx_parent_ref f) = Some (ev_parent_id e))
      \<and> ev_external_id e = fx_external_id f \<and> ev_description e = fx_description f
      \<and> ev_long_description e = fx_long_description f \<and> ev_links e = fx_links f
      \<and> (case fixture_timestamp parse_duration base f of None \<Rightarrow> True | Some t \<Rightarrow> ev_timestamp e = canonical_time t))"

text \<open>
  C9: applying a fixture. \<^verbatim>\<open>ApplyAt\<close> over the service stores nothing and reports an error unless every
  reference is new and not empty, every parent is an earlier reference and every event has at most one
  time, a valid one. For such a fixture it appends one event per entry, in order, each with the
  fixture's data, the time relative to the base, and the identifier of the event created for its
  parent reference, and returns the identifiers by reference; if the service refuses an entry, the
  error names it and exactly the entries before it are stored.
\<close>

theorem fixture_applied:
  assumes "pg_inv s" and "\<forall>k. env_uuid (en k) \<noteq> Some []" and "list_all (\<lambda>f. distinct (map fst (fx_tags f))) events"
    and "apply_at parse_duration (service_creator parse pg_store en) events base (s, n) = (r, (s', n'))"
  shows "pg_inv s' \<and>
    (if \<forall>k < length events. fixture_event_ok parse_duration (fx_ref ` set (take k events)) (events ! k)
     then \<exists>es. pg_registry s' = pg_registry s @ es \<and> (case r of
         Inr ids \<Rightarrow> map fst ids = map fx_ref events \<and> list_all2 (event_of_fixture parse_duration base ids) events es
       | Inl err \<Rightarrow> length es < length events
           \<and> (\<exists>cause. err = CreateFixtureEvent (length es + 1) (fx_ref (events ! length es)) cause))
     else s' = s \<and> n' = n \<and> (\<exists>err. r = Inl err))"
proof -
  let ?valid = "\<forall>k < length events. fixture_event_ok parse_duration (fx_ref ` set (take k events)) (events ! k)"
  have v: "?valid \<longleftrightarrow> (validate_references parse_duration events :: go_error fixture_error option) = None"
    unfolding validate_references_def validate_references_from_None by simp
  show ?thesis
  proof (cases "validate_references parse_duration events :: go_error fixture_error option")
    case (Some err)
    with v have "\<not> ?valid" by simp
    with service_fixture.apply_at_invalid [OF Some, of parse en base "(s, n)"] assms(1,4) show ?thesis by auto
  next
    case None
    have I: "pg_inv (fst (s, n)) \<and> (\<forall>k. env_uuid (en k) \<noteq> Some [])" using assms(1,2) by simp
    obtain es news where run: "pg_inv s'" "pg_registry s' = pg_registry s @ news" "news = es"
        "loop_outcome True parse_duration base (pg_registry s') 0 [] events es r"
      using service_fixture.apply_at_run [OF I assms(3) None assms(4)] unfolding fst_conv simp_thms by (elim exE conjE) (rule that)
    have valid: ?valid using v None by blast
    have "list_all2 (event_of_fixture parse_duration base ids) events es" if r: "r = Inr ids" for ids
    proof -
      have keys: "map fst ids = map fx_ref events" and es: "list_all2 (\<lambda>f e. entry_stored (pg_registry s') ids f e
          \<and> made_from (fixture_request parse_duration base ids f) e) events es"
        using run(4) r by (simp_all add: loop_outcome_def)
      have dom: "dom (map_of ids) = fx_ref ` set events" using arg_cong [OF keys, of set] by (simp add: dom_map_of_conv_image_fst)
      have parent: "map_of ids (fx_parent_ref f) = Some (tag_get ids (fx_parent_ref f))"
        if "f \<in> set events" "fx_parent_ref f \<noteq> []" for f
        using parent_ref_known [OF valid that] unfolding dom [symmetric] by (auto simp: tag_get_def)
      have "event_of_fixture parse_duration base ids f e"
        if "f \<in> set events" "entry_stored (pg_registry s') ids f e \<and> made_from (fixture_request parse_duration base ids f) e" for f e
        using that(2) parent [OF that(1)] made_from_parent [of parse_duration base ids f e]
          made_from_fields [of parse_duration base ids f e]
        by (cases "fixture_timestamp parse_duration base f") (simp_all add: event_of_fixture_def entry_stored_def)
      then show ?thesis by (rule list.rel_mono_strong [OF es])
    qed
    with run valid show ?thesis by (cases r) (auto simp: loop_outcome_def)
  qed
qed

definition demo_fixture :: fixture_event where
  "demo_fixture = \<lparr>fx_ref = ''a'', fx_parent_ref = [], fx_external_id = ''x9'', fx_user_name = ''bob'', fx_timestamp = None,
     fx_timestamp_offset = [], fx_event_type = ''note'', fx_description = [], fx_long_description = [], fx_links = [],
     fx_tags = [(''severity'', '' SEV2 '')]\<rparr>"

lemma demo_fixture_request: "fixture_request parse_duration base refs demo_fixture = demo_request"
  by (simp add: fixture_request_def demo_fixture_def demo_request_def fixture_timestamp_def zero_create_request_def)

lemma demo_fixture_ok: "\<forall>k < length [demo_fixture]. fixture_event_ok parse_duration (fx_ref ` set (take k [demo_fixture])) ([demo_fixture] ! k)"
    "(validate_references parse_duration [demo_fixture] :: 'e fixture_error option) = None"
    "list_all (\<lambda>f. distinct (map fst (fx_tags f)) \<and> fx_external_id f \<noteq> []) [demo_fixture]"
  by (simp_all add: fixture_event_ok_def demo_fixture_def validate_references_def validate_fixture_event_def)

lemma demo_fixture_ref: "fx_ref demo_fixture = ''a''"
  by (simp add: demo_fixture_def)

theorem fixture_applied_witness:
  "\<exists>e s'. apply_at (\<lambda>_. None) (service_creator demo_parser pg_store (\<lambda>_. demo_env)) [demo_fixture] 0 (demo_pg, 0)
      = (Inr [(''a'', ev_id e)], (s', 1))
    \<and> pg_registry s' = pg_registry demo_pg @ [e] \<and> event_of_fixture (\<lambda>_. None) 0 [(''a'', ev_id e)] demo_fixture e"
proof -
  obtain e s' where c: "svc_create demo_parser pg_store demo_env demo_request demo_pg = (Inr e, s')" using demo_created by blast
  have run: "apply_at (\<lambda>_. None) (service_creator demo_parser pg_store (\<lambda>_. demo_env)) [demo_fixture] 0 (demo_pg, 0)
      = (Inr [(''a'', ev_id e)], (s', 1))"
    unfolding apply_at_def demo_fixture_ok(2)
    by (simp add: demo_fixture_request demo_fixture_ref create_named_def and_then_def service_creator_def c ret_def)
  have u: "\<forall>k :: nat. env_uuid demo_env \<noteq> Some []" and d: "list_all (\<lambda>f. distinct (map fst (fx_tags f))) [demo_fixture]"
    by (simp_all add: demo_fixture_def)
  obtain es where "pg_registry s' = pg_registry demo_pg @ es"
      "list_all2 (event_of_fixture (\<lambda>_. None) 0 [(''a'', ev_id e)]) [demo_fixture] es"
    using conjunct2 [OF fixture_applied [OF demo_inv u d run, unfolded if_P [OF demo_fixture_ok(1)]]] by auto
  moreover from this(2) obtain e' where "es = [e']" by (auto simp: list_all2_Cons1)
  moreover have "e' = e" if "pg_registry s' = pg_registry demo_pg @ [e']" for e'
    using pgs.create_direct [OF demo_inv _ _ c] that by (simp add: demo_request_def zero_create_request_def)
  ultimately show ?thesis using run by auto
qed

subsection \<open>Seeding a server\<close>




text \<open>The small site, with the create request of the command on the wire.\<close>

definition token_create :: http_request where
  "token_create = no_request\<lparr>rq_method := ''POST'', rq_path := ''/api/v1/events'',
     rq_header := (\<lambda>h. if h = ''Authorization'' then ''Bearer letmein'' else [])\<rparr>"


definition demo_link :: "bool \<Rightarrow> link" where
  "demo_link lost = \<lparr>ln_site = demo_site, ln_wire = (\<lambda>_. token_create),
     ln_render = (\<lambda>b. if b = Payload (EventBody (Some demo_created_event)) then ''e'' else []),
     ln_moment = (\<lambda>_. demo_moment), ln_lost = (\<lambda>_. lost)\<rparr>"


lemma demo_link_sel [simp]:
  "ln_site (demo_link lost) = demo_site" "ln_wire (demo_link lost) q = token_create" "ln_moment (demo_link lost) n = demo_moment"
  "ln_lost (demo_link lost) n = lost"
  "ln_render (demo_link lost) b = (if b = Payload (EventBody (Some demo_created_event)) then ''e'' else [])"
  by (simp_all add: demo_link_def)







end
