(* ===== verification/Pool.thy ===== *)
theory Pool
  imports Model GoText
begin

section \<open>Connection pool and migrations: internal/postgres/postgres.go\<close>

text \<open>
  What the server process does with PostgreSQL besides queries, as a trace: the list of the resources
  it acquires and releases, in order. Whether each call of pgx and golang-migrate succeeds is a
  parameter; an error is its message. The limit of the pool is an \<^verbatim>\<open>int\<close> that is converted to an \<^verbatim>\<open>int32\<close>.
\<close>

record pool_config =
  pc_url :: string
  pc_max_conns :: int
  pc_connect_timeout :: duration

datatype db_event =
    PoolOpened pool_config
  | PoolClosed
  | MigrationDbOpened
  | MigrationDbClosed
  | MigrationsRun
  | MigratorClosed

text \<open>\<^verbatim>\<open>fmt.Errorf\<close> with a cause keeps the context here; Go's \<^verbatim>\<open>int32(n)\<close> keeps the lowest 32 bits.\<close>

definition wrap_int32 :: "int \<Rightarrow> int" where
  "wrap_int32 n = (n + 2147483648) mod 4294967296 - 2147483648"

record pool_options =
  pl_max_connections :: int
  pl_connect_timeout :: duration

record pool_lib =
  pp_parse :: "string \<Rightarrow> bool"
  pp_new :: "pool_config \<Rightarrow> bool"
  pp_ping :: "pool_config \<Rightarrow> bool"

definition open_pool :: "pool_lib \<Rightarrow> string \<Rightarrow> pool_options \<Rightarrow> (string + pool_config) \<times> db_event list" where
  "open_pool lib url opts =
     (if pl_max_connections opts \<le> 0 \<or> 2147483647 < pl_max_connections opts
      then (Inl ''max connections must be between 1 and 2147483647'', [])
      else if pl_connect_timeout opts \<le> 0 then (Inl ''connect timeout must be greater than 0'', [])
      else if \<not> pp_parse lib url then (Inl ''parse PostgreSQL configuration'', [])
      else
        (let cfg = \<lparr>pc_url = url, pc_max_conns = wrap_int32 (pl_max_connections opts),
             pc_connect_timeout = pl_connect_timeout opts\<rparr> in
         if \<not> pp_new lib cfg then (Inl ''create PostgreSQL pool'', [])
         else if \<not> pp_ping lib cfg then (Inl ''connect to PostgreSQL'', [PoolOpened cfg, PoolClosed])
         else (Inr cfg, [PoolOpened cfg])))"

subsection \<open>Migrations\<close>

datatype up_result = UpApplied | UpNoChange | UpDirty int | UpFailed string

record migration_lib =
  mg_parse :: "string \<Rightarrow> bool"
  mg_driver :: bool
  mg_source :: bool
  mg_migrator :: bool
  mg_up :: up_result
  mg_close_source :: "string option"
  mg_close_database :: "string option"

text \<open>\<^verbatim>\<open>errors.Join\<close>: nil when every error is.\<close>

definition errors_join :: "string option list \<Rightarrow> string option" where
  "errors_join errs = (case filter (\<lambda>e. e \<noteq> None) errs of [] \<Rightarrow> None | es \<Rightarrow> Some (join_with CHR 0x0A (map the es)))"

definition up_error :: "up_result \<Rightarrow> string option" where
  "up_error up = (case up of
      UpApplied \<Rightarrow> None
    | UpNoChange \<Rightarrow> None
    | UpDirty version \<Rightarrow> Some (''database migration is dirty at version '' @ itoa version
        @ ''; refusing to continue until it is repaired'')
    | UpFailed cause \<Rightarrow> Some (''apply migrations: '' @ cause))"

definition migrate :: "migration_lib \<Rightarrow> string \<Rightarrow> duration \<Rightarrow> string option \<times> db_event list" where
  "migrate lib url connect_timeout =
     (if connect_timeout \<le> 0 then (Some ''connect timeout must be greater than 0'', [])
      else if \<not> mg_parse lib url then (Some ''parse PostgreSQL migration configuration'', [])
      else if \<not> mg_driver lib then (Some ''create PostgreSQL migration driver'', [MigrationDbOpened, MigrationDbClosed])
      else if \<not> mg_source lib then (Some ''create migration source'', [MigrationDbOpened, MigrationDbClosed])
      else if \<not> mg_migrator lib then (Some ''create migrator'', [MigrationDbOpened, MigrationDbClosed])
      else (errors_join [up_error (mg_up lib), mg_close_source lib, mg_close_database lib],
        [MigrationDbOpened, MigrationsRun, MigratorClosed]))"

subsection \<open>What the calls guarantee\<close>

lemma wrap_int32_id: "0 < n \<Longrightarrow> n \<le> 2147483647 \<Longrightarrow> wrap_int32 n = n"
  by (simp add: wrap_int32_def)

lemma errors_join_None: "errors_join errs = None \<longleftrightarrow> list_all (\<lambda>e. e = None) errs"
  by (induction errs) (auto simp: errors_join_def split: list.splits)

lemma up_error_None: "up_error up = None \<longleftrightarrow> up \<in> {UpApplied, UpNoChange}"
  by (cases up) (simp_all add: up_error_def)

text \<open>A pool that is returned is the only resource left open, with exactly the options asked for.\<close>

lemma open_pool_cases:
  "(\<exists>cfg. open_pool lib url opts = (Inr cfg, [PoolOpened cfg]) \<and> pc_url cfg = url
      \<and> pc_max_conns cfg = pl_max_connections opts \<and> pc_connect_timeout cfg = pl_connect_timeout opts
      \<and> pp_ping lib cfg)
   \<or> (\<exists>err. open_pool lib url opts = (Inl err, []))
   \<or> (\<exists>err cfg. open_pool lib url opts = (Inl err, [PoolOpened cfg, PoolClosed]))"
  by (auto simp: open_pool_def wrap_int32_id Let_def)

lemma migrate_cases:
  "(\<exists>err. migrate lib url timeout \<in> {(Some err, []), (Some err, [MigrationDbOpened, MigrationDbClosed])})
   \<or> (\<exists>err. migrate lib url timeout = (err, [MigrationDbOpened, MigrationsRun, MigratorClosed])
        \<and> (err = None \<longleftrightarrow> mg_up lib \<in> {UpApplied, UpNoChange} \<and> mg_close_source lib = None \<and> mg_close_database lib = None))"
  by (auto simp: migrate_def errors_join_None up_error_None)

end
