(* ===== verification/Server.thy ===== *)
theory Server
  imports Router Config Pool
begin

section \<open>The server process: cmd/server/main.go\<close>

text \<open>
  \<open>main_server\<close> loads the configuration, migrates the schema, opens the pool, wires the handlers into a
  \<open>site\<close>, listens and serves until shut down. Its result is the exit code and the trace of what it did.
  Whether listening succeeds, and how the goroutine of \<^verbatim>\<open>Serve\<close> and the signal channel interleave
  (\<open>lifecycle\<close>), are parameters; the deferred calls run in reverse order when \<open>run_server\<close> returns.
\<close>

record http_server =
  sv_addr :: string
  sv_read_timeout :: duration
  sv_write_timeout :: duration

datatype process_event =
    Database db_event
  | SignalsNotified
  | SignalsStopped
  | Listening string
  | ServeStarted site http_server
  | ServeReturned
  | ShutdownWaited duration

subsection \<open>Wiring\<close>

definition provider_options_of :: "config \<Rightarrow> provider_options" where
  "provider_options_of cfg = \<lparr>po_client_id = cf_oauth_client_id cfg, po_client_secret = cf_oauth_client_secret cfg,
     po_redirect_url = trim_right_slashes (cf_public_url cfg) @ ''/auth/callback'', po_issuer_url = cf_oidc_issuer_url cfg,
     po_allowed_orgs = cf_allowed_orgs cfg, po_allowed_subjects = cf_allowed_subjects cfg, po_allow_any = cf_allow_any cfg\<rparr>"

text \<open>What the handlers use of libraries: everything of a \<open>site\<close> that is not configuration.\<close>

record site_libs =
  sx_match :: matcher
  sx_urls :: url_lib
  sx_codec :: api_codec
  sx_time :: time_lib
  sx_quote :: "string \<Rightarrow> string"
  sx_static :: "http_request \<Rightarrow> payload response"
  sx_flows :: "oauth_flow json_codec"
  sx_sessions :: "human_session json_codec"

definition human_handler :: "site_libs \<Rightarrow> config \<Rightarrow> login_mode \<Rightarrow> human_auth" where
  "human_handler libs cfg mode = \<lparr>hh_mode = mode, hh_secret = cf_session_secret cfg, hh_secure = cf_cookie_secure cfg,
     hh_duration = cf_human_session_duration cfg, hh_flows = sx_flows libs, hh_sessions = sx_sessions libs\<rparr>"

definition wire_human_auth :: "provider_apis \<Rightarrow> site_libs \<Rightarrow> config \<Rightarrow> string + human_auth" where
  "wire_human_auth apis libs cfg =
     (if cf_human_auth_provider cfg = ''beyond''
      then Inr (human_handler libs cfg (BeyondLogin (new_beyond (provider_options_of cfg))))
      else case new_authenticator apis (cf_human_auth_provider cfg) (provider_options_of cfg) of
          Inl err \<Rightarrow> Inl (''configure human authentication: '' @ err)
        | Inr a \<Rightarrow> Inr (human_handler libs cfg (OAuthLogin a)))"

definition wire_site :: "site_libs \<Rightarrow> config \<Rightarrow> human_auth \<Rightarrow> site" where
  "wire_site libs cfg human = \<lparr>si_match = sx_match libs, si_tokens = cf_api_tokens cfg,
     si_require_auth_reads = cf_require_auth_reads cfg, si_secret = cf_session_secret cfg,
     si_refresh = cf_dashboard_refresh_sec cfg, si_human = human, si_urls = sx_urls libs, si_codec = sx_codec libs,
     si_time = sx_time libs, si_quote = sx_quote libs, si_static = sx_static libs\<rparr>"

definition http_server_of :: "config \<Rightarrow> http_server" where
  "http_server_of cfg = \<lparr>sv_addr = cf_addr cfg, sv_read_timeout = cf_read_timeout cfg, sv_write_timeout = cf_write_timeout cfg\<rparr>"

subsection \<open>The life of the listener\<close>

text \<open>What \<^verbatim>\<open>Serve\<close> returns: nil, \<^verbatim>\<open>http.ErrServerClosed\<close> or another error.\<close>

datatype serve_end = ServeNil | ServerClosed | ServeFailed string

text \<open>
  The select takes whichever comes first: the end of \<^verbatim>\<open>Serve\<close>, or a signal; after a signal, what
  \<^verbatim>\<open>Shutdown\<close> returns and how \<^verbatim>\<open>Serve\<close> then ended.
\<close>

datatype lifecycle = ServeEndsFirst serve_end | SignalFirst "string option" serve_end

definition serve_error :: "serve_end \<Rightarrow> string option" where
  "serve_error e = (case e of ServeFailed cause \<Rightarrow> Some (''server exited with error: '' @ cause) | _ \<Rightarrow> None)"

definition serve_until_shutdown :: "lifecycle \<Rightarrow> duration \<Rightarrow> string option \<times> process_event list" where
  "serve_until_shutdown life timeout = (case life of
      ServeEndsFirst e \<Rightarrow> (serve_error e, [ServeReturned])
    | SignalFirst shutdown_error e \<Rightarrow>
        (case shutdown_error of Some cause \<Rightarrow> Some (''server shutdown: '' @ cause) | None \<Rightarrow> serve_error e,
         [ShutdownWaited timeout, ServeReturned]))"

subsection \<open>run and main\<close>

record process_lib =
  pr_config :: config_lib
  pr_migrations :: migration_lib
  pr_pool :: pool_lib
  pr_apis :: provider_apis
  pr_site :: site_libs
  pr_listen :: "string \<Rightarrow> bool"
  pr_life :: lifecycle

text \<open>From the open pool to the end of \<^verbatim>\<open>run\<close>; the deferred calls are added by \<open>run_server\<close>.\<close>

definition run_with_pool :: "process_lib \<Rightarrow> config \<Rightarrow> string option \<times> process_event list" where
  "run_with_pool lib cfg = (case wire_human_auth (pr_apis lib) (pr_site lib) cfg of
      Inl err \<Rightarrow> (Some err, [])
    | Inr human \<Rightarrow>
        (if \<not> pr_listen lib (cf_addr cfg) then (Some ''listen'', [SignalsNotified, SignalsStopped])
         else case serve_until_shutdown (pr_life lib) (cf_shutdown_timeout cfg) of (err, events) \<Rightarrow>
           (err, [SignalsNotified, Listening (cf_addr cfg),
              ServeStarted (wire_site (pr_site lib) cfg human) (http_server_of cfg)] @ events @ [SignalsStopped])))"

definition run_server :: "process_lib \<Rightarrow> config \<Rightarrow> string option \<times> process_event list" where
  "run_server lib cfg =
     (case (if cf_auto_migrate cfg then migrate (pr_migrations lib) (cf_database_url cfg) (cf_db_connect_timeout cfg) else (None, [])) of
        (Some err, events) \<Rightarrow> (Some (''run migrations: '' @ err), map Database events)
      | (None, migrated) \<Rightarrow>
          (case open_pool (pr_pool lib) (cf_database_url cfg)
               \<lparr>pl_max_connections = cf_db_max_connections cfg, pl_connect_timeout = cf_db_connect_timeout cfg\<rparr> of
             (Inl err, events) \<Rightarrow> (Some err, map Database (migrated @ events))
           | (Inr pool, events) \<Rightarrow> (case run_with_pool lib cfg of (err, rest) \<Rightarrow>
               (err, map Database (migrated @ events) @ rest @ [Database PoolClosed]))))"

text \<open>\<open>random\<close> is what \<^verbatim>\<open>rand.Read\<close> gives \<^verbatim>\<open>Load\<close>.\<close>

definition main_server :: "process_lib \<Rightarrow> (string \<Rightarrow> string) \<Rightarrow> string option \<Rightarrow> nat \<times> process_event list" where
  "main_server lib getenv random = (case load_config (pr_config lib) getenv random of
      Inl err \<Rightarrow> (1, [])
    | Inr cfg \<Rightarrow> (case run_server lib cfg of (err, events) \<Rightarrow> (if err = None then 0 else 1, events)))"

end
