(* ===== verification/ServerLife.thy ===== *)
theory ServerLife
  imports Server
begin

section \<open>What the server process acquires and releases\<close>

text \<open>
  What the process holds at each moment, as an automaton over its trace; that every run of \<open>run_server\<close>
  ends holding nothing; and when it serves, and what.
\<close>

subsection \<open>What the process holds\<close>

record held =
  hd_database :: bool
  hd_pool :: bool
  hd_signals :: bool
  hd_serving :: bool

definition nothing_held :: held where
  "nothing_held = \<lparr>hd_database = False, hd_pool = False, hd_signals = False, hd_serving = False\<rparr>"

text \<open>
  None is a step out of order: migrations run on a connection of their own that is closed before the pool is
  opened; listening and serving need the pool and the signal handler; the pool is closed only
  after serving has ended and the handler was removed.
\<close>

fun held_step :: "process_event \<Rightarrow> held \<Rightarrow> held option" where
  "held_step (Database MigrationDbOpened) h = (if hd_database h \<or> hd_pool h then None else Some (h\<lparr>hd_database := True\<rparr>))"
| "held_step (Database MigrationsRun) h = (if hd_database h then Some h else None)"
| "held_step (Database MigrationDbClosed) h = (if hd_database h then Some (h\<lparr>hd_database := False\<rparr>) else None)"
| "held_step (Database MigratorClosed) h = (if hd_database h then Some (h\<lparr>hd_database := False\<rparr>) else None)"
| "held_step (Database (PoolOpened cfg)) h = (if hd_database h \<or> hd_pool h then None else Some (h\<lparr>hd_pool := True\<rparr>))"
| "held_step (Database PoolClosed) h = (if hd_pool h \<and> \<not> hd_signals h \<and> \<not> hd_serving h then Some (h\<lparr>hd_pool := False\<rparr>) else None)"
| "held_step SignalsNotified h = (if hd_pool h \<and> \<not> hd_signals h then Some (h\<lparr>hd_signals := True\<rparr>) else None)"
| "held_step SignalsStopped h = (if hd_signals h \<and> \<not> hd_serving h then Some (h\<lparr>hd_signals := False\<rparr>) else None)"
| "held_step (Listening addr) h = (if hd_pool h \<and> hd_signals h then Some h else None)"
| "held_step (ServeStarted site http) h =
     (if hd_pool h \<and> hd_signals h \<and> \<not> hd_serving h then Some (h\<lparr>hd_serving := True\<rparr>) else None)"
| "held_step (ShutdownWaited timeout) h = (if hd_serving h then Some h else None)"
| "held_step ServeReturned h = (if hd_serving h then Some (h\<lparr>hd_serving := False\<rparr>) else None)"

fun held_after :: "process_event list \<Rightarrow> held \<Rightarrow> held option" where
  "held_after [] h = Some h"
| "held_after (e # es) h = (case held_step e h of None \<Rightarrow> None | Some h' \<Rightarrow> held_after es h')"

lemma held_after_append: "held_after (xs @ ys) h = (case held_after xs h of None \<Rightarrow> None | Some h' \<Rightarrow> held_after ys h')"
  by (induction xs arbitrary: h) (auto split: option.split)

lemma held_migrate: "held_after (map Database (snd (migrate lib url timeout))) nothing_held = Some nothing_held"
  using migrate_cases [of lib url timeout] by (auto simp: nothing_held_def)

definition pool_held :: held where
  "pool_held = nothing_held\<lparr>hd_pool := True\<rparr>"

lemma held_open_pool:
  "held_after (map Database (snd (open_pool lib url opts))) nothing_held =
     Some (case fst (open_pool lib url opts) of Inl _ \<Rightarrow> nothing_held | Inr _ \<Rightarrow> pool_held)"
  using open_pool_cases [of lib url opts] by (auto simp: nothing_held_def pool_held_def)

lemma held_serve: "hd_serving h \<Longrightarrow> held_after (snd (serve_until_shutdown life timeout)) h = Some (h\<lparr>hd_serving := False\<rparr>)"
  by (cases life) (simp_all add: serve_until_shutdown_def)

lemma held_with_pool: "held_after (snd (run_with_pool lib cfg)) pool_held = Some pool_held"
proof (cases "wire_human_auth (pr_apis lib) (pr_site lib) cfg")
  case (Inr human)
  obtain err events where s: "serve_until_shutdown (pr_life lib) (cf_shutdown_timeout cfg) = (err, events)" by fastforce
  with held_serve [of _ "pr_life lib" "cf_shutdown_timeout cfg"] Inr show ?thesis
    by (simp add: run_with_pool_def pool_held_def nothing_held_def held_after_append)
qed (simp add: run_with_pool_def)

lemma held_close: "held_step (Database PoolClosed) pool_held = Some nothing_held"
  by (simp add: pool_held_def nothing_held_def)

lemma held_run_server: "held_after (snd (run_server lib cfg)) nothing_held = Some nothing_held"
proof -
  let ?m = "if cf_auto_migrate cfg then migrate (pr_migrations lib) (cf_database_url cfg) (cf_db_connect_timeout cfg) else (None, [])"
  let ?p = "open_pool (pr_pool lib) (cf_database_url cfg)
    \<lparr>pl_max_connections = cf_db_max_connections cfg, pl_connect_timeout = cf_db_connect_timeout cfg\<rparr>"
  have m: "held_after (map Database (snd ?m)) nothing_held = Some nothing_held" using held_migrate by simp
  have p: "held_after (map Database (snd ?p)) nothing_held = Some (case fst ?p of Inl _ \<Rightarrow> nothing_held | Inr _ \<Rightarrow> pool_held)"
    by (rule held_open_pool)
  show ?thesis
    using m p held_with_pool [of lib cfg] held_close unfolding run_server_def
    by (auto simp: held_after_append simp del: held_step.simps split: prod.split option.split sum.split)
qed

subsection \<open>When and what the process serves\<close>

definition stopped_gracefully :: "lifecycle \<Rightarrow> bool" where
  "stopped_gracefully life = (case life of
      ServeEndsFirst e \<Rightarrow> e \<in> {ServeNil, ServerClosed}
    | SignalFirst err e \<Rightarrow> err = None \<and> e \<in> {ServeNil, ServerClosed})"

lemma serve_error_None: "serve_error e = None \<longleftrightarrow> e \<in> {ServeNil, ServerClosed}"
  by (cases e) (simp_all add: serve_error_def)

lemma serve_until_shutdown_None: "fst (serve_until_shutdown life timeout) = None \<longleftrightarrow> stopped_gracefully life"
  by (cases life) (auto simp: serve_until_shutdown_def stopped_gracefully_def serve_error_None split: option.split)

lemma serve_until_shutdown_starts: "ServeStarted site http \<notin> set (snd (serve_until_shutdown life timeout))"
  by (cases life) (simp_all add: serve_until_shutdown_def)

lemma run_with_pool_starts:
  "ServeStarted site http \<in> set (snd (run_with_pool lib cfg)) \<longleftrightarrow> pr_listen lib (cf_addr cfg) \<and> http = http_server_of cfg
     \<and> (\<exists>human. wire_human_auth (pr_apis lib) (pr_site lib) cfg = Inr human \<and> site = wire_site (pr_site lib) cfg human)"
  using serve_until_shutdown_starts [of site http "pr_life lib" "cf_shutdown_timeout cfg"]
  by (auto simp: run_with_pool_def split: sum.splits prod.splits)

lemma run_with_pool_result:
  "fst (run_with_pool lib cfg) = None \<longleftrightarrow>
     stopped_gracefully (pr_life lib) \<and> (\<exists>site http. ServeStarted site http \<in> set (snd (run_with_pool lib cfg)))"
proof -
  have "fst (run_with_pool lib cfg) = None \<longleftrightarrow> stopped_gracefully (pr_life lib) \<and> pr_listen lib (cf_addr cfg)
      \<and> (\<exists>human. wire_human_auth (pr_apis lib) (pr_site lib) cfg = Inr human)"
    using serve_until_shutdown_None [of "pr_life lib" "cf_shutdown_timeout cfg"]
    by (auto simp: run_with_pool_def split: sum.splits prod.splits)
  then show ?thesis unfolding run_with_pool_starts by blast
qed

lemma migrations_ran: "migrate lib url timeout = (None, events) \<Longrightarrow> MigrationsRun \<in> set events"
  using migrate_cases [of lib url timeout] by auto

lemma run_server_cases:
  "(\<exists>err events. run_server lib cfg = (Some err, map Database events))
   \<or> (\<exists>migrated pool. run_server lib cfg = (fst (run_with_pool lib cfg),
          map Database (migrated @ [PoolOpened pool]) @ snd (run_with_pool lib cfg) @ [Database PoolClosed])
        \<and> pc_url pool = cf_database_url cfg \<and> pc_max_conns pool = cf_db_max_connections cfg
        \<and> (cf_auto_migrate cfg \<longrightarrow> MigrationsRun \<in> set migrated))"
proof -
  let ?m = "if cf_auto_migrate cfg then migrate (pr_migrations lib) (cf_database_url cfg) (cf_db_connect_timeout cfg) else (None, [])"
  let ?opts = "\<lparr>pl_max_connections = cf_db_max_connections cfg, pl_connect_timeout = cf_db_connect_timeout cfg\<rparr>"
  obtain err migrated where m: "?m = (err, migrated)" by fastforce
  show ?thesis
  proof (cases err)
    case (Some x)
    with m show ?thesis by (auto simp: run_server_def)
  next
    case None
    with m have ran: "cf_auto_migrate cfg \<longrightarrow> MigrationsRun \<in> set migrated" using migrations_ran by auto
    from open_pool_cases [of "pr_pool lib" "cf_database_url cfg" ?opts] consider
        pool where "open_pool (pr_pool lib) (cf_database_url cfg) ?opts = (Inr pool, [PoolOpened pool])"
          "pc_url pool = cf_database_url cfg" "pc_max_conns pool = cf_db_max_connections cfg"
      | e events where "open_pool (pr_pool lib) (cf_database_url cfg) ?opts = (Inl e, events)"
      by auto
    then show ?thesis
    proof cases
      case 1
      with None m ran show ?thesis
        by (intro disjI2 exI [of _ migrated] exI [of _ pool]) (simp add: run_server_def split: prod.split)
    next
      case 2
      with None m show ?thesis by (intro disjI1 exI [of _ e] exI [of _ "migrated @ events"]) (simp add: run_server_def)
    qed
  qed
qed

lemma main_server_loaded:
  assumes "main_server lib getenv random = (code, events)" and "load_config (pr_config lib) getenv random = Inr cfg"
  shows "events = snd (run_server lib cfg)" and "code = 0 \<longleftrightarrow> fst (run_server lib cfg) = None"
  using assms by (auto simp: main_server_def split: prod.splits if_splits)

lemma main_server_not_loaded:
  "main_server lib getenv random = (code, events) \<Longrightarrow> load_config (pr_config lib) getenv random = Inl err \<Longrightarrow> code = 1 \<and> events = []"
  by (simp add: main_server_def)

lemma run_server_serves:
  assumes "ServeStarted site http \<in> set (snd (run_server lib cfg))"
  shows "\<exists>human pool. wire_human_auth (pr_apis lib) (pr_site lib) cfg = Inr human
    \<and> site = wire_site (pr_site lib) cfg human \<and> http = http_server_of cfg
    \<and> (cf_auto_migrate cfg \<longrightarrow> Database MigrationsRun \<in> set (snd (run_server lib cfg)))
    \<and> Database (PoolOpened pool) \<in> set (snd (run_server lib cfg)) \<and> pc_url pool = cf_database_url cfg
    \<and> pc_max_conns pool = cf_db_max_connections cfg"
  using run_server_cases [of lib cfg]
proof (elim disjE exE conjE)
  fix err evs assume "run_server lib cfg = (Some err, map Database evs)"
  with assms show ?thesis by auto
next
  fix migrated pool
  assume R: "run_server lib cfg = (fst (run_with_pool lib cfg),
        map Database (migrated @ [PoolOpened pool]) @ snd (run_with_pool lib cfg) @ [Database PoolClosed])"
    and P: "pc_url pool = cf_database_url cfg" "pc_max_conns pool = cf_db_max_connections cfg"
      "cf_auto_migrate cfg \<longrightarrow> MigrationsRun \<in> set migrated"
  from assms R have "ServeStarted site http \<in> set (snd (run_with_pool lib cfg))" by auto
  then show ?thesis using P unfolding run_with_pool_starts by (auto simp: R intro!: exI [of _ pool])
qed

lemma run_server_exit:
  "fst (run_server lib cfg) = None \<longleftrightarrow>
     stopped_gracefully (pr_life lib) \<and> (\<exists>site http. ServeStarted site http \<in> set (snd (run_server lib cfg)))"
  using run_server_cases [of lib cfg]
proof (elim disjE exE conjE)
  fix migrated pool
  assume "run_server lib cfg = (fst (run_with_pool lib cfg),
        map Database (migrated @ [PoolOpened pool]) @ snd (run_with_pool lib cfg) @ [Database PoolClosed])"
  then show ?thesis using run_with_pool_result [of lib cfg] by auto
qed auto

lemma main_serves:
  assumes "main_server lib getenv random = (code, events)" and "ServeStarted site http \<in> set events"
  shows "\<exists>cfg human pool. load_config (pr_config lib) getenv random = Inr cfg
    \<and> wire_human_auth (pr_apis lib) (pr_site lib) cfg = Inr human
    \<and> site = wire_site (pr_site lib) cfg human \<and> http = http_server_of cfg
    \<and> (cf_auto_migrate cfg \<longrightarrow> Database MigrationsRun \<in> set events)
    \<and> Database (PoolOpened pool) \<in> set events \<and> pc_url pool = cf_database_url cfg
    \<and> pc_max_conns pool = cf_db_max_connections cfg"
proof (cases "load_config (pr_config lib) getenv random")
  case (Inl err)
  with main_server_not_loaded [OF assms(1)] assms(2) show ?thesis by simp
next
  case (Inr cfg)
  then show ?thesis using run_server_serves assms(2) main_server_loaded(1) [OF assms(1) Inr] by simp
qed

end
