(* ===== verification/ServerProperties.thy ===== *)
theory ServerProperties
  imports ServerLife WebExample ConfigProperties
begin

section \<open>Properties of the server process\<close>

text \<open>
  The discipline of the process's resources, and what the site it serves guarantees. The witness runs \<^verbatim>\<open>main\<close> in a small environment until a signal stops it.
\<close>

subsection \<open>The life of the process\<close>

text \<open>
  C28: the life of the server process. Whatever the environment holds and whatever calls fail, \<^verbatim>\<open>main\<close>
  acquires and releases in order and holds nothing when it exits: the connection of the migrations is
  closed before the pool is opened, it listens and serves only with an open pool and the signal handler
  installed, and closes the pool after serving has ended. It serves only the site wired from a
  configuration \<^verbatim>\<open>Load\<close> accepted, over a pool of the configured size, after the migrations have run unless they are switched off; and
  it exits with code 0 exactly when it served and stopped gracefully.
\<close>

theorem server_process:
  assumes "main_server lib getenv random = (code, events)"
  shows "held_after events nothing_held = Some nothing_held
    \<and> (\<forall>site http. ServeStarted site http \<in> set events \<longrightarrow>
        (\<exists>cfg human pool. load_config (pr_config lib) getenv random = Inr cfg
          \<and> wire_human_auth (pr_apis lib) (pr_site lib) cfg = Inr human
          \<and> site = wire_site (pr_site lib) cfg human \<and> http = http_server_of cfg
          \<and> (cf_auto_migrate cfg \<longrightarrow> Database MigrationsRun \<in> set events)
          \<and> Database (PoolOpened pool) \<in> set events \<and> pc_url pool = cf_database_url cfg
          \<and> pc_max_conns pool = cf_db_max_connections cfg))
    \<and> (code = 0 \<longleftrightarrow> stopped_gracefully (pr_life lib) \<and> (\<exists>site http. ServeStarted site http \<in> set events))"
proof (intro conjI allI impI)
  show "held_after events nothing_held = Some nothing_held"
    using held_run_server main_server_loaded(1) [OF assms] main_server_not_loaded [OF assms]
    by (cases "load_config (pr_config lib) getenv random") simp_all
  show "code = 0 \<longleftrightarrow> stopped_gracefully (pr_life lib) \<and> (\<exists>site http. ServeStarted site http \<in> set events)"
    using run_server_exit main_server_loaded [OF assms] main_server_not_loaded [OF assms]
    by (cases "load_config (pr_config lib) getenv random") simp_all
qed (rule main_serves [OF assms])

definition demo_site_libs :: site_libs where
  "demo_site_libs = \<lparr>sx_match = match_pattern, sx_urls = \<lparr>ul_parse = demo_parser, ul_request_uri = demo_parser\<rparr>, sx_codec = demo_codec,
     sx_time = demo_time, sx_quote = (\<lambda>s. s), sx_static = (\<lambda>rq. http_error ''404 page not found'' 404),
     sx_flows = demo_flows, sx_sessions = demo_sessions\<rparr>"

definition demo_process :: process_lib where
  "demo_process = \<lparr>pr_config = demo_config_lib,
     pr_migrations = \<lparr>mg_parse = (\<lambda>url. True), mg_driver = True, mg_source = True, mg_migrator = True, mg_up = UpNoChange,
       mg_close_source = None, mg_close_database = None\<rparr>,
     pr_pool = \<lparr>pp_parse = (\<lambda>url. True), pp_new = (\<lambda>cfg. True), pp_ping = (\<lambda>cfg. True)\<rparr>,
     pr_apis = \<lparr>pa_url = (\<lambda>config state params. []), pa_github_endpoint = [], pa_discover = (\<lambda>issuer. None),
       pa_github = \<lparr>ga_exchange = (\<lambda>code verifier. None), ga_profile = (\<lambda>token url. NoReply), ga_membership = (\<lambda>token url. NoReply)\<rparr>,
       pa_google = \<lparr>oi_exchange = (\<lambda>code verifier. None), oi_verify = (\<lambda>raw. None)\<rparr>,
       pa_authentik = \<lparr>oi_exchange = (\<lambda>code verifier. None), oi_verify = (\<lambda>raw. None)\<rparr>\<rparr>,
     pr_site = demo_site_libs, pr_listen = (\<lambda>addr. True), pr_life = SignalFirst None ServerClosed\<rparr>"

lemma demo_process_runs:
  "\<exists>events site http. main_server demo_process demo_environment (Some (replicate 32 CHR ''k'')) = (0, events)
    \<and> ServeStarted site http \<in> set events"
proof -
  obtain cfg where load: "load_config demo_config_lib demo_environment (Some (replicate 32 CHR ''k'')) = Inr cfg"
      and beyond: "cf_human_auth_provider cfg = ''beyond''"
    using demo_environment_loads by (elim exE conjE) (rule that)
  have "config_ok cfg" by (rule load_config_ok [OF load]) (auto simp: min_session_secret_bytes_def)
  then have ok: "0 < cf_db_connect_timeout cfg" "0 < cf_db_max_connections cfg" "cf_db_max_connections cfg \<le> 2147483647"
    by (simp_all add: config_ok_def max_int32_def)
  have wired: "wire_human_auth a l cfg = Inr (human_handler l cfg (BeyondLogin (new_beyond (provider_options_of cfg))))" for a l
    by (simp add: wire_human_auth_def beyond)
  have stop: "serve_until_shutdown (SignalFirst None ServerClosed) t = (None, [ShutdownWaited t, ServeReturned])" for t
    by (simp add: serve_until_shutdown_def serve_error_def)
  have migrated: "migrate (pr_migrations demo_process) (cf_database_url cfg) (cf_db_connect_timeout cfg)
      = (None, [MigrationDbOpened, MigrationsRun, MigratorClosed])"
    using ok(1) by (simp add: migrate_def demo_process_def errors_join_def up_error_def)
  have opened: "\<exists>pool events. open_pool (pr_pool demo_process) (cf_database_url cfg)
      \<lparr>pl_max_connections = cf_db_max_connections cfg, pl_connect_timeout = cf_db_connect_timeout cfg\<rparr> = (Inr pool, events)"
    using ok by (simp add: open_pool_def demo_process_def Let_def)
  have served: "fst (run_with_pool demo_process cfg) = None"
      "ServeStarted (wire_site demo_site_libs cfg (human_handler demo_site_libs cfg (BeyondLogin (new_beyond (provider_options_of cfg)))))
        (http_server_of cfg) \<in> set (snd (run_with_pool demo_process cfg))"
    by (simp_all add: run_with_pool_def demo_process_def wired stop)
  obtain rest where rest: "run_with_pool demo_process cfg = (None, rest)" using served(1) by (cases "run_with_pool demo_process cfg") simp
  have lib: "pr_config demo_process = demo_config_lib" by (simp add: demo_process_def)
  obtain pool events where "open_pool (pr_pool demo_process) (cf_database_url cfg)
      \<lparr>pl_max_connections = cf_db_max_connections cfg, pl_connect_timeout = cf_db_connect_timeout cfg\<rparr> = (Inr pool, events)"
    using opened by blast
  with served(2) show ?thesis
    by (simp add: main_server_def lib load run_server_def migrated rest) blast
qed

theorem server_process_witness:
  "\<exists>events site http. main_server demo_process demo_environment (Some (replicate 32 CHR ''k'')) = (0, events)
    \<and> ServeStarted site http \<in> set events \<and> held_after events nothing_held = Some nothing_held
    \<and> (\<exists>cfg human. load_config demo_config_lib demo_environment (Some (replicate 32 CHR ''k'')) = Inr cfg
        \<and> site = wire_site demo_site_libs cfg human)"
proof -
  obtain events site http where run: "main_server demo_process demo_environment (Some (replicate 32 CHR ''k'')) = (0, events)"
      and started: "ServeStarted site http \<in> set events"
    using demo_process_runs by (elim exE conjE) (rule that)
  have lib: "pr_config demo_process = demo_config_lib" "pr_site demo_process = demo_site_libs" by (simp_all add: demo_process_def)
  note P = server_process [OF run, unfolded lib]
  obtain cfg human where "load_config demo_config_lib demo_environment (Some (replicate 32 CHR ''k'')) = Inr cfg"
      "site = wire_site demo_site_libs cfg human"
    using P started by blast
  with P run started show ?thesis by blast
qed

subsection \<open>The site that is served\<close>

text \<open>Let in by the configuration: by allow-any, by the subject, or through an organisation or group on the list.\<close>

definition permitted :: "config \<Rightarrow> principal \<Rightarrow> bool" where
  "permitted cfg p =
     (if pr_authorized_via p = ''any'' then cf_allow_any cfg \<and> cf_allowed_orgs cfg = [] \<and> cf_allowed_subjects cfg = []
      else if pr_authorized_via p = ''subject'' then namespaced_subject p \<in> set (cf_allowed_subjects cfg)
      else \<exists>org \<in> set (cf_allowed_orgs cfg). \<exists>prefix \<in> {''github_org:'', ''google_org:'', ''authentik_group:'', ''beyond_group:''}.
             pr_authorized_via p = prefix @ org)"

lemma options_sel [simp]:
  "po_allow_any (provider_options_of cfg) = cf_allow_any cfg" "po_allowed_orgs (provider_options_of cfg) = cf_allowed_orgs cfg"
  "po_allowed_subjects (provider_options_of cfg) = cf_allowed_subjects cfg"
  by (simp_all add: provider_options_of_def)

lemma oauth_permitted:
  assumes "new_authenticator apis name (provider_options_of cfg) = Inr a" and "config_ok cfg"
    and "au_authenticate a now code verifier nonce = Inr p"
  shows "permitted cfg p"
  using new_authenticator_permits [OF assms(1,3)] assms(2) unfolding permitted_def config_ok_def options_sel
  by (auto split: if_splits)

lemma beyond_permitted:
  assumes "beyond_authenticate_request (new_beyond (provider_options_of cfg)) now rq = Inr p" and "config_ok cfg"
  shows "permitted cfg p"
  using beyond_sound [OF assms(1)] assms(2) unfolding permitted_def config_ok_def policy_allows_def
  by (auto simp: new_beyond_def split: if_splits)

text \<open>
  C36: the site the process serves. Whatever the environment is, a site that is served signs sessions
  with a secret of at least 32 bytes, the same for every handler, for at most a week; accepts no empty
  API token, and has at least one unless the edge authenticates; and its provider, the one the
  configuration names, lets in only whom the loaded configuration permits, whatever the provider's
  servers or the request headers say.
\<close>

theorem served_site_secure:
  assumes "main_server lib getenv random = (code, events)" and "ServeStarted site http \<in> set events"
    and "\<And>r. random = Some r \<Longrightarrow> length r = min_session_secret_bytes"
  shows "32 \<le> length (si_secret site) \<and> hh_secret (si_human site) = si_secret site
    \<and> 0 < hh_duration (si_human site) \<and> hh_duration (si_human site) \<le> 7 * 24 * hour
    \<and> list_all (\<lambda>t. t \<noteq> []) (si_tokens site) \<and> 0 < sv_read_timeout http \<and> 0 < sv_write_timeout http
    \<and> (\<exists>cfg. load_config (pr_config lib) getenv random = Inr cfg \<and> provider_name (si_human site) = cf_human_auth_provider cfg
        \<and> (case hh_mode (si_human site) of
             OAuthLogin a \<Rightarrow> si_tokens site \<noteq> []
               \<and> (\<forall>now code verifier nonce p. au_authenticate a now code verifier nonce = Inr p \<longrightarrow> permitted cfg p)
           | BeyondLogin b \<Rightarrow> (\<forall>now rq p. beyond_authenticate_request b now rq = Inr p \<longrightarrow> permitted cfg p)))"
proof -
  obtain cfg human where load: "load_config (pr_config lib) getenv random = Inr cfg"
      and wired: "wire_human_auth (pr_apis lib) (pr_site lib) cfg = Inr human"
      and site: "site = wire_site (pr_site lib) cfg human" and http: "http = http_server_of cfg"
    using main_serves [OF assms(1,2)] by (elim exE conjE) (rule that)
  have ok: "config_ok cfg" by (rule load_config_ok [OF load assms(3)])
  from wired consider
      "cf_human_auth_provider cfg = ''beyond''" "human = human_handler (pr_site lib) cfg (BeyondLogin (new_beyond (provider_options_of cfg)))"
    | a where "cf_human_auth_provider cfg \<noteq> ''beyond''" "new_authenticator (pr_apis lib) (cf_human_auth_provider cfg) (provider_options_of cfg) = Inr a"
        "human = human_handler (pr_site lib) cfg (OAuthLogin a)"
    by (auto simp: wire_human_auth_def split: if_splits sum.splits)
  then have mode: "provider_name human = cf_human_auth_provider cfg \<and> (case hh_mode human of
             OAuthLogin a \<Rightarrow> cf_api_tokens cfg \<noteq> []
               \<and> (\<forall>now code verifier nonce p. au_authenticate a now code verifier nonce = Inr p \<longrightarrow> permitted cfg p)
           | BeyondLogin b \<Rightarrow> (\<forall>now rq p. beyond_authenticate_request b now rq = Inr p \<longrightarrow> permitted cfg p))"
  proof cases
    case 1
    then show ?thesis using beyond_permitted [OF _ ok] by (simp add: human_handler_def provider_name_def)
  next
    case (2 a)
    then show ?thesis using oauth_permitted [OF 2(2) ok] ok new_authenticator_name [OF 2(2)]
      by (simp add: human_handler_def provider_name_def config_ok_def)
  qed
  have human: "hh_secret human = cf_session_secret cfg" "hh_duration human = cf_human_session_duration cfg"
    using wired by (auto simp: wire_human_auth_def human_handler_def split: if_splits sum.splits)
  show ?thesis
    using ok mode load human unfolding site http
    by (simp add: wire_site_def http_server_of_def config_ok_def min_session_secret_bytes_def max_human_session_duration_def
        split: login_mode.splits)
qed

theorem served_site_secure_witness:
  "\<exists>events site http. main_server demo_process demo_environment (Some (replicate 32 CHR ''k'')) = (0, events)
    \<and> ServeStarted site http \<in> set events \<and> 32 \<le> length (si_secret site) \<and> 0 < hh_duration (si_human site)"
proof -
  obtain events site http where run: "main_server demo_process demo_environment (Some (replicate 32 CHR ''k'')) = (0, events)"
      and started: "ServeStarted site http \<in> set events"
    using demo_process_runs by (elim exE conjE) (rule that)
  have r: "\<And>r. Some (replicate 32 CHR ''k'') = Some r \<Longrightarrow> length r = min_session_secret_bytes"
    by (auto simp: min_session_secret_bytes_def)
  from served_site_secure [OF run started r] run started show ?thesis by blast
qed

end
