(* ===== verification/Smoke.thy ===== *)
theory Smoke
  imports Providers
begin

section \<open>The smoke checks: cmd/smoke (client.go, cases.go, main.go)\<close>

text \<open>
  The client of the smoke command and its twenty cases, each a computation over the network, the lines
  printed and the fixture the cases share. The network is the transport: a function from a request and
  the world behind the connection (the server, its database, the cookie jar) to the reply and the world
  after it. Bytes are a type parameter \<open>'b\<close>: the code only marshals, decodes and prints them, with the
  functions of \<open>smoke_lib\<close> (encoding/json and the verbs of package fmt). A timeout is a missing reply.
\<close>

record smoke_client =
  sc_base_url :: string
  sc_token :: string
  sc_verbose :: bool

definition new_smoke_client :: "string \<Rightarrow> string \<Rightarrow> bool \<Rightarrow> smoke_client" where
  "new_smoke_client base_url token verbose =
     \<lparr>sc_base_url = trim_right_slashes base_url, sc_token = token, sc_verbose = verbose\<rparr>"

record 'b smoke_lib =
  sk_url_ok :: "string \<Rightarrow> bool"
  sk_marshal :: "create_request \<Rightarrow> 'b option"
  sk_event :: "'b \<Rightarrow> change_event option"
  sk_list :: "'b \<Rightarrow> list_result option"
  sk_annotations :: "'b \<Rightarrow> event_annotations option"
  sk_string :: "'b \<Rightarrow> string"
  sk_quote :: "string \<Rightarrow> string"
  sk_show_event :: "change_event \<Rightarrow> string"
  sk_show_tags :: "tag_map \<Rightarrow> string"
  sk_show_annotations :: "event_annotations \<Rightarrow> string"

subsection \<open>The client\<close>

datatype auth_mode = AuthBearer | AuthNone | AuthWrongBearer

definition auth_mode_string :: "auth_mode \<Rightarrow> string" where
  "auth_mode_string a = (case a of AuthNone \<Rightarrow> ''none'' | AuthWrongBearer \<Rightarrow> ''wrong-bearer'' | _ \<Rightarrow> ''bearer'')"

record req_config =
  qc_auth :: auth_mode
  qc_content_type :: string

type_synonym req_opt = "req_config \<Rightarrow> req_config"

definition with_auth :: "auth_mode \<Rightarrow> req_opt" where
  "with_auth mode c = c\<lparr>qc_auth := mode\<rparr>"

definition with_content_type :: "string \<Rightarrow> req_opt" where
  "with_content_type ct c = c\<lparr>qc_content_type := ct\<rparr>"

text \<open>A request that sets no header has the empty string for it.\<close>

record 'b smoke_request =
  sq_method :: string
  sq_url :: string
  sq_content_type :: string
  sq_authorization :: string
  sq_body :: "'b option"

record 'b smoke_response =
  sp_status :: nat
  sp_header :: "string \<Rightarrow> string"
  sp_body :: 'b

datatype 'b smoke_reply = SmokeNoReply | SmokeBrokenBody | SmokeReply "'b smoke_response"

type_synonym ('w, 'b) smoke_transport = "'b smoke_request \<Rightarrow> 'w \<Rightarrow> 'b smoke_reply \<times> 'w"

record smoke_fixture =
  sf_parent_event_id :: string
  sf_current_active_id :: string
  sf_current_completed_id :: string
  sf_current_site_id :: string
  sf_current_other_team_id :: string

definition no_fixture :: smoke_fixture where
  "no_fixture = \<lparr>sf_parent_event_id = [], sf_current_active_id = [], sf_current_completed_id = [],
     sf_current_site_id = [], sf_current_other_team_id = []\<rparr>"

record 'w smoke_state =
  ss_net :: 'w
  ss_lines :: "string list"
  ss_fixture :: smoke_fixture

type_synonym ('w, 'a) smoke_run = "('w smoke_state, string, 'a) prog"

definition print_line :: "string \<Rightarrow> ('w, unit) smoke_run" where
  "print_line l s = (Inr (), s\<lparr>ss_lines := ss_lines s @ [l]\<rparr>)"

definition when_verbose :: "smoke_client \<Rightarrow> string \<Rightarrow> ('w, unit) smoke_run" where
  "when_verbose c l = (if sc_verbose c then print_line l else ret ())"

definition get_fixture :: "('w, smoke_fixture) smoke_run" where
  "get_fixture s = (Inr (ss_fixture s), s)"

definition set_fixture :: "(smoke_fixture \<Rightarrow> smoke_fixture) \<Rightarrow> ('w, unit) smoke_run" where
  "set_fixture f s = (Inr (), s\<lparr>ss_fixture := f (ss_fixture s)\<rparr>)"

definition exchange :: "('w, 'b) smoke_transport \<Rightarrow> 'b smoke_request \<Rightarrow> ('w, 'b smoke_reply) smoke_run" where
  "exchange deliver rq s = (case deliver rq (ss_net s) of (r, w) \<Rightarrow> (Inr r, s\<lparr>ss_net := w\<rparr>))"

definition truncate_text :: "string \<Rightarrow> nat \<Rightarrow> string" where
  "truncate_text s n = (if n < length s then take n s @ ''...'' else s)"

definition authorization_header :: "smoke_client \<Rightarrow> auth_mode \<Rightarrow> string" where
  "authorization_header c mode = (case mode of
      AuthBearer \<Rightarrow> if sc_token c \<noteq> [] then ''Bearer '' @ sc_token c else []
    | AuthWrongBearer \<Rightarrow> ''Bearer not-the-right-token''
    | AuthNone \<Rightarrow> [])"

definition smoke_message :: "smoke_client \<Rightarrow> req_config \<Rightarrow> string \<Rightarrow> string \<Rightarrow> 'b option \<Rightarrow> 'b smoke_request" where
  "smoke_message c cfg verb path body = \<lparr>sq_method = verb, sq_url = sc_base_url c @ path,
     sq_content_type = qc_content_type cfg, sq_authorization = authorization_header c (qc_auth cfg), sq_body = body\<rparr>"

definition smoke_do ::
  "'b smoke_lib \<Rightarrow> ('w, 'b) smoke_transport \<Rightarrow> smoke_client \<Rightarrow> string \<Rightarrow> string \<Rightarrow> 'b option \<Rightarrow> req_opt list
    \<Rightarrow> ('w, 'b smoke_response) smoke_run" where
  "smoke_do lib deliver c verb path body opts =
     (let cfg = fold (\<lambda>opt. opt) opts \<lparr>qc_auth = AuthBearer, qc_content_type = []\<rparr> in
      if \<not> sk_url_ok lib (sc_base_url c @ path) then throw ''build request''
      else and_then (when_verbose c (''    -> '' @ verb @ '' '' @ path @ '' (auth='' @ auth_mode_string (qc_auth cfg) @ '')'')) (\<lambda>_.
        and_then (exchange deliver (smoke_message c cfg verb path body)) (\<lambda>reply.
          case reply of
            SmokeNoReply \<Rightarrow> throw (verb @ '' '' @ path)
          | SmokeBrokenBody \<Rightarrow> throw ''read body''
          | SmokeReply r \<Rightarrow>
              and_then (when_verbose c (''    <- '' @ itoa (int (sp_status r)) @ '' '' @ truncate_text (sk_string lib (sp_body r)) 200)) (\<lambda>_.
                ret r))))"

text \<open>
  \<open>out\<close> is what the response is decoded into: a decoder and the zero value of its type, or None for nil.
  The body is decoded when the status is a success; otherwise the zero value stays.
\<close>

definition decode_into ::
  "'b smoke_lib \<Rightarrow> ('b \<Rightarrow> 'a option) option \<Rightarrow> 'a \<Rightarrow> 'b smoke_response \<Rightarrow> string + ('b smoke_response \<times> 'a)" where
  "decode_into lib out zero r = (case out of
      None \<Rightarrow> Inr (r, zero)
    | Some decode \<Rightarrow>
        (if 200 \<le> sp_status r \<and> sp_status r < 300
         then (case decode (sp_body r) of
             None \<Rightarrow> Inl (''decode response: (body: '' @ truncate_text (sk_string lib (sp_body r)) 200 @ '')'')
           | Some x \<Rightarrow> Inr (r, x))
         else Inr (r, zero)))"

definition get_json ::
  "'b smoke_lib \<Rightarrow> ('w, 'b) smoke_transport \<Rightarrow> smoke_client \<Rightarrow> string \<Rightarrow> ('b \<Rightarrow> 'a option) option \<Rightarrow> 'a
    \<Rightarrow> req_opt list \<Rightarrow> ('w, 'b smoke_response \<times> 'a) smoke_run" where
  "get_json lib deliver c path out zero opts =
     and_then (smoke_do lib deliver c ''GET'' path None opts) (\<lambda>r. of_result (decode_into lib out zero r))"

definition post_json ::
  "'b smoke_lib \<Rightarrow> ('w, 'b) smoke_transport \<Rightarrow> smoke_client \<Rightarrow> string \<Rightarrow> create_request \<Rightarrow> ('b \<Rightarrow> 'a option) option \<Rightarrow> 'a
    \<Rightarrow> req_opt list \<Rightarrow> ('w, 'b smoke_response \<times> 'a) smoke_run" where
  "post_json lib deliver c path req out zero opts = (case sk_marshal lib req of
      None \<Rightarrow> throw ''encode request''
    | Some body \<Rightarrow>
        and_then (smoke_do lib deliver c ''POST'' path (Some body) (opts @ [with_content_type ''application/json'']))
          (\<lambda>r. of_result (decode_into lib out zero r)))"

definition expect_status :: "'b smoke_lib \<Rightarrow> 'b smoke_response \<Rightarrow> nat \<Rightarrow> ('w, unit) smoke_run" where
  "expect_status lib r want =
     (if sp_status r \<noteq> want
      then throw (''expected status '' @ itoa (int want) @ '', got '' @ itoa (int (sp_status r)) @ '' (body: ''
        @ truncate_text (sk_string lib (sp_body r)) 200 @ '')'')
      else ret ())"

definition zero_event :: change_event where
  "zero_event = \<lparr>ev_id = [], ev_external_id = [], ev_parent_id = [], ev_user_name = [], ev_user_provider = [],
     ev_user_subject = [], ev_timestamp = 0, ev_event_type = [], ev_description = [], ev_long_description = [],
     ev_links = [], ev_tags = [], ev_created_at = 0\<rparr>"

definition zero_list_result :: list_result where
  "zero_list_result = \<lparr>lr_events = [], lr_total_count = 0, lr_limit = 0, lr_offset = 0\<rparr>"

end
