(* ===== verification/SmokeCases.thy ===== *)
theory SmokeCases
  imports Smoke
begin

section \<open>The twenty smoke cases: cmd/smoke/cases.go and runCases\<close>

text \<open>
  One definition per case, in the order of \<^verbatim>\<open>allCases\<close>. A case that fails leaves what it did before in
  the state, as in the code; the cases after it still run. The printf verbs of the messages are
  functions of \<open>smoke_lib\<close>; \<open>event_type_deployment\<close> is the model's \<^verbatim>\<open>EventTypeDeployment\<close>.
\<close>

definition event_type_deployment :: string where "event_type_deployment = ''deployment''"

type_synonym ('w, 'b) smoke_case =
  "'b smoke_lib \<Rightarrow> ('w, 'b) smoke_transport \<Rightarrow> smoke_client \<Rightarrow> ('w, unit) smoke_run"

definition check :: "bool \<Rightarrow> string \<Rightarrow> ('w, unit) smoke_run" where
  "check ok message = (if ok then ret () else throw message)"

definition with_parent :: "(string \<Rightarrow> ('w, unit) smoke_run) \<Rightarrow> ('w, unit) smoke_run" where
  "with_parent f = and_then get_fixture (\<lambda>fx.
     if sf_parent_event_id fx = [] then throw ''skipped: parent event was not created'' else f (sf_parent_event_id fx))"

subsection \<open>Health and authentication\<close>

definition case_health_no_auth :: "('w, 'b) smoke_case" where
  "case_health_no_auth lib deliver c =
     and_then (smoke_do lib deliver c ''GET'' ''/api/v1/health'' None [with_auth AuthNone]) (\<lambda>r. expect_status lib r 200)"

definition case_health_with_auth :: "('w, 'b) smoke_case" where
  "case_health_with_auth lib deliver c =
     and_then (smoke_do lib deliver c ''GET'' ''/api/v1/health'' None []) (\<lambda>r. expect_status lib r 200)"

definition case_api_no_auth :: "('w, 'b) smoke_case" where
  "case_api_no_auth lib deliver c =
     and_then (smoke_do lib deliver c ''GET'' ''/api/v1/events'' None [with_auth AuthNone]) (\<lambda>r. expect_status lib r 401)"

definition case_api_wrong_token :: "('w, 'b) smoke_case" where
  "case_api_wrong_token lib deliver c =
     and_then (smoke_do lib deliver c ''GET'' ''/api/v1/events'' None [with_auth AuthWrongBearer]) (\<lambda>r. expect_status lib r 401)"

subsection \<open>Creating and reading\<close>

definition create_body :: create_request where
  "create_body = zero_create_request\<lparr>cr_user_name := ''smoke'', cr_event_type := event_type_deployment,
     cr_external_id := ''smoke-deploy-1'', cr_description := ''deploy v1.3.0 to prod'',
     cr_long_description := ''Includes feature X and Y'',
     cr_tags := [(''env'', ''prod''), (''service'', ''api''), (''version'', ''1.3.0'')]\<rparr>"

definition case_create_event :: "('w, 'b) smoke_case" where
  "case_create_event lib deliver c =
     and_then (post_json lib deliver c ''/api/v1/events'' create_body (Some (sk_event lib)) zero_event []) (\<lambda>(r, got).
     and_then (expect_status lib r 201) (\<lambda>_.
     and_then (check (ev_id got \<noteq> []) ''expected non-empty event id, got empty'') (\<lambda>_.
     and_then (check (ev_user_name got = ''smoke'' \<and> ev_event_type got = event_type_deployment)
       (''response fields not echoed: '' @ sk_show_event lib got)) (\<lambda>_.
     and_then (check (tag_get (ev_tags got) ''env'' = ''prod'') (''tags not persisted: '' @ sk_show_tags lib (ev_tags got))) (\<lambda>_.
     and_then (check (sp_header r ''Location'' = ''/api/v1/events/'' @ ev_id got)
       (''location header = '' @ sk_quote lib (sp_header r ''Location'') @ '', want /api/v1/events/'' @ ev_id got)) (\<lambda>_.
     set_fixture (\<lambda>f. f\<lparr>sf_parent_event_id := ev_id got\<rparr>)))))))"

definition repeated_body :: create_request where
  "repeated_body = zero_create_request\<lparr>cr_user_name := ''smoke'', cr_event_type := event_type_deployment,
     cr_external_id := ''smoke-deploy-1'', cr_description := ''this should not appear -- idempotent dedup''\<rparr>"

definition case_create_idempotent :: "('w, 'b) smoke_case" where
  "case_create_idempotent lib deliver c = with_parent (\<lambda>parent.
     and_then (post_json lib deliver c ''/api/v1/events'' repeated_body (Some (sk_event lib)) zero_event []) (\<lambda>(r, got).
     and_then (expect_status lib r 200) (\<lambda>_.
     and_then (check (ev_id got = parent) (''expected existing id '' @ parent @ '', got '' @ ev_id got)) (\<lambda>_.
     check (ev_description got = ''deploy v1.3.0 to prod'')
       (''expected original description preserved, got '' @ sk_quote lib (ev_description got))))))"

definition case_get_event :: "('w, 'b) smoke_case" where
  "case_get_event lib deliver c = with_parent (\<lambda>parent.
     and_then (get_json lib deliver c (''/api/v1/events/'' @ parent) (Some (sk_event lib)) zero_event []) (\<lambda>(r, got).
     and_then (expect_status lib r 200) (\<lambda>_.
     check (ev_id got = parent) (''returned id '' @ ev_id got @ '' != requested '' @ parent))))"

definition case_create_validation_user :: "('w, 'b) smoke_case" where
  "case_create_validation_user lib deliver c =
     and_then (post_json lib deliver c ''/api/v1/events''
         (zero_create_request\<lparr>cr_event_type := event_type_deployment, cr_description := ''missing user_name''\<rparr>) None () [])
       (\<lambda>(r, _). expect_status lib r 400)"

definition case_create_validation_type :: "('w, 'b) smoke_case" where
  "case_create_validation_type lib deliver c =
     and_then (post_json lib deliver c ''/api/v1/events''
         (zero_create_request\<lparr>cr_user_name := ''smoke'', cr_description := ''missing event_type''\<rparr>) None () [])
       (\<lambda>(r, _). expect_status lib r 400)"

subsection \<open>List filters\<close>

definition case_list_filter_user :: "('w, 'b) smoke_case" where
  "case_list_filter_user lib deliver c =
     and_then (get_json lib deliver c ''/api/v1/events?user=smoke'' (Some (sk_list lib)) zero_list_result []) (\<lambda>(r, lr).
     and_then (expect_status lib r 200) (\<lambda>_.
     and_then (check (lr_total_count lr \<noteq> 0) ''expected at least one event for user=smoke, got 0'') (\<lambda>_.
     case find (\<lambda>e. ev_user_name e \<noteq> ''smoke'') (lr_events lr) of
       None \<Rightarrow> ret ()
     | Some e \<Rightarrow> throw (''filter leak: got event with user_name='' @ sk_quote lib (ev_user_name e)))))"

definition case_list_filter_type :: "('w, 'b) smoke_case" where
  "case_list_filter_type lib deliver c =
     and_then (get_json lib deliver c (''/api/v1/events?type='' @ event_type_deployment) (Some (sk_list lib)) zero_list_result []) (\<lambda>(r, lr).
     and_then (expect_status lib r 200) (\<lambda>_.
     case find (\<lambda>e. ev_event_type e \<noteq> event_type_deployment) (lr_events lr) of
       None \<Rightarrow> ret ()
     | Some e \<Rightarrow> throw (''filter leak: got event with type='' @ sk_quote lib (ev_event_type e))))"

definition case_list_filter_tag :: "('w, 'b) smoke_case" where
  "case_list_filter_tag lib deliver c =
     and_then (get_json lib deliver c ''/api/v1/events?tag=env:prod'' (Some (sk_list lib)) zero_list_result []) (\<lambda>(r, lr).
     and_then (expect_status lib r 200) (\<lambda>_.
     and_then (check (lr_total_count lr \<noteq> 0) ''expected at least one event with env:prod tag, got 0'') (\<lambda>_.
     case find (\<lambda>e. tag_get (ev_tags e) ''env'' \<noteq> ''prod'') (lr_events lr) of
       None \<Rightarrow> ret ()
     | Some e \<Rightarrow> throw (''filter leak: event '' @ ev_id e @ '' has tags='' @ sk_show_tags lib (ev_tags e)))))"

subsection \<open>Current operations\<close>

text \<open>The table of requests; the second component is the assignment of the identifier, if there is one.\<close>

definition current_request :: "string \<Rightarrow> string \<Rightarrow> string \<Rightarrow> tag_map \<Rightarrow> create_request" where
  "current_request event_type external_id description tags = zero_create_request\<lparr>cr_user_name := ''smoke'',
     cr_event_type := event_type, cr_external_id := external_id, cr_description := description, cr_tags := tags\<rparr>"

definition current_fixtures :: "(create_request \<times> (string \<Rightarrow> smoke_fixture \<Rightarrow> smoke_fixture)) list" where
  "current_fixtures = [
     (current_request event_type_deployment ''smoke-current-active-start'' ''active payments deployment''
        [(''deploy_id'', ''smoke-active''), (''phase'', ''start''), (''team'', ''payments''), (''scope'', ''service''), (''severity'', ''sev2'')],
      \<lambda>i f. f\<lparr>sf_current_active_id := i\<rparr>),
     (current_request event_type_deployment ''smoke-current-completed-start'' ''completed payments deployment''
        [(''deploy_id'', ''smoke-completed''), (''phase'', ''start''), (''team'', ''payments''), (''scope'', ''service''), (''severity'', ''sev2'')],
      \<lambda>i f. f\<lparr>sf_current_completed_id := i\<rparr>),
     (current_request event_type_deployment ''smoke-current-completed-end'' ''completed payments deployment finished''
        [(''deploy_id'', ''smoke-completed''), (''phase'', ''end'')],
      \<lambda>i f. f),
     (current_request ''incident'' ''smoke-current-site-start'' ''active site incident''
        [(''change_id'', ''smoke-site''), (''phase'', ''start''), (''team'', ''platform''), (''scope'', ''site''), (''severity'', ''SEV0'')],
      \<lambda>i f. f\<lparr>sf_current_site_id := i\<rparr>),
     (current_request event_type_deployment ''smoke-current-other-team-start'' ''active platform deployment''
        [(''change_id'', ''smoke-other-team''), (''phase'', ''start''), (''team'', ''platform''), (''scope'', ''service''), (''severity'', ''sev1'')],
      \<lambda>i f. f\<lparr>sf_current_other_team_id := i\<rparr>)]"

fun create_current_loop ::
  "(create_request \<times> (string \<Rightarrow> smoke_fixture \<Rightarrow> smoke_fixture)) list \<Rightarrow> ('w, 'b) smoke_case" where
  "create_current_loop [] lib deliver c = ret ()"
| "create_current_loop ((req, assign) # items) lib deliver c =
     and_then (post_json lib deliver c ''/api/v1/events'' req (Some (sk_event lib)) zero_event []) (\<lambda>(r, event).
     if sp_status r \<noteq> 201 \<and> sp_status r \<noteq> 200 then expect_status lib r 201
     else and_then (set_fixture (assign (ev_id event))) (\<lambda>_. create_current_loop items lib deliver c))"

definition case_create_current_fixtures :: "('w, 'b) smoke_case" where
  "case_create_current_fixtures = create_current_loop current_fixtures"

definition case_list_current_for_team :: "('w, 'b) smoke_case" where
  "case_list_current_for_team lib deliver c = and_then get_fixture (\<lambda>f.
     if sf_current_active_id f = [] \<or> sf_current_completed_id f = [] \<or> sf_current_site_id f = [] \<or> sf_current_other_team_id f = []
     then throw ''skipped: current fixtures were not created''
     else
     and_then (get_json lib deliver c ''/api/v1/current?for_team=payments'' (Some (sk_list lib)) zero_list_result []) (\<lambda>(r, result).
     and_then (expect_status lib r 200) (\<lambda>_.
     let found = (\<lambda>i. i \<in> set (map ev_id (lr_events result))) in
     and_then (check (found (sf_current_active_id f)) (''active team deployment '' @ sf_current_active_id f @ '' missing from Current'')) (\<lambda>_.
     and_then (check (found (sf_current_site_id f)) (''site-wide incident '' @ sf_current_site_id f @ '' missing from Current'')) (\<lambda>_.
     and_then (check (\<not> found (sf_current_completed_id f)) (''completed deployment '' @ sf_current_completed_id f @ '' present in Current'')) (\<lambda>_.
     check (\<not> found (sf_current_other_team_id f))
       (''unrelated team deployment '' @ sf_current_other_team_id f @ '' present in Current'')))))))"

subsection \<open>Stars and alerts\<close>

definition case_toggle_star_api :: "('w, 'b) smoke_case" where
  "case_toggle_star_api lib deliver c = with_parent (\<lambda>parent.
     and_then (smoke_do lib deliver c ''POST'' (''/api/v1/events/'' @ parent @ ''/star'') None []) (\<lambda>r. expect_status lib r 201))"

definition case_annotations_starred :: "('w, 'b) smoke_case" where
  "case_annotations_starred lib deliver c = with_parent (\<lambda>parent.
     and_then (get_json lib deliver c (''/api/v1/events/'' @ parent @ ''/annotations'') (Some (sk_annotations lib)) no_annotations []) (\<lambda>(r, ann).
     and_then (expect_status lib r 200) (\<lambda>_.
     check (an_starred ann) (''expected starred=true after toggle, got '' @ sk_show_annotations lib ann))))"

definition case_toggle_star_twice :: "('w, 'b) smoke_case" where
  "case_toggle_star_twice lib deliver c = with_parent (\<lambda>parent.
     and_then (smoke_do lib deliver c ''POST'' (''/api/v1/events/'' @ parent @ ''/star'') None []) (\<lambda>r.
     and_then (expect_status lib r 201) (\<lambda>_.
     and_then (get_json lib deliver c (''/api/v1/events/'' @ parent @ ''/annotations'') (Some (sk_annotations lib)) no_annotations []) (\<lambda>(_, ann).
     check (\<not> an_starred ann) (''expected starred=false after second toggle, got '' @ sk_show_annotations lib ann)))))"

definition case_create_alert :: "('w, 'b) smoke_case" where
  "case_create_alert lib deliver c = with_parent (\<lambda>parent.
     and_then (post_json lib deliver c ''/api/v1/events''
         (zero_create_request\<lparr>cr_parent_id := parent, cr_user_name := ''smoke'', cr_event_type := event_type_alert,
            cr_description := ''smoke triggered alert''\<rparr>) (Some (sk_event lib)) zero_event []) (\<lambda>(r, got).
     and_then (expect_status lib r 201) (\<lambda>_.
     check (ev_parent_id got = parent)
       (''alert ParentID = '' @ sk_quote lib (ev_parent_id got) @ '', want '' @ sk_quote lib parent))))"

definition case_list_filter_alerted :: "('w, 'b) smoke_case" where
  "case_list_filter_alerted lib deliver c = with_parent (\<lambda>parent.
     and_then (get_json lib deliver c ''/api/v1/events?alerted=true&top_level=true'' (Some (sk_list lib)) zero_list_result []) (\<lambda>(r, lr).
     and_then (expect_status lib r 200) (\<lambda>_.
     check (list_ex (\<lambda>e. ev_id e = parent) (lr_events lr))
       (''expected parent event '' @ parent @ '' in alerted list, not found among '' @ itoa (lr_total_count lr) @ '' results''))))"

subsection \<open>The sign-in page\<close>

fun has_substring :: "string \<Rightarrow> string \<Rightarrow> bool" where
  "has_substring [] sub = (sub = [])"
| "has_substring (ch # s) sub = (take (length sub) (ch # s) = sub \<or> has_substring s sub)"

definition case_login_form_renders :: "('w, 'b) smoke_case" where
  "case_login_form_renders lib deliver c =
     and_then (smoke_do lib deliver c ''GET'' ''/login'' None [with_auth AuthNone]) (\<lambda>r.
     and_then (expect_status lib r 200) (\<lambda>_.
     check (has_substring (sk_string lib (sp_body r)) ''Sign in with GitHub'') ''login form missing configured provider button''))"

subsection \<open>Running the cases\<close>

definition all_cases :: "(string \<times> ('w, 'b) smoke_case) list" where
  "all_cases = [
     (''health_no_auth_required'', case_health_no_auth),
     (''health_with_auth'', case_health_with_auth),
     (''api_rejects_no_auth'', case_api_no_auth),
     (''api_rejects_wrong_token'', case_api_wrong_token),
     (''create_event'', case_create_event),
     (''create_idempotent_external_id'', case_create_idempotent),
     (''get_event_by_id'', case_get_event),
     (''create_validation_missing_user_name'', case_create_validation_user),
     (''create_validation_missing_event_type'', case_create_validation_type),
     (''list_filter_user'', case_list_filter_user),
     (''list_filter_type'', case_list_filter_type),
     (''list_filter_tag'', case_list_filter_tag),
     (''create_current_fixtures'', case_create_current_fixtures),
     (''list_current_for_team'', case_list_current_for_team),
     (''toggle_star_via_api'', case_toggle_star_api),
     (''annotations_show_starred'', case_annotations_starred),
     (''toggle_star_again_unstars'', case_toggle_star_twice),
     (''create_alert_meta_event'', case_create_alert),
     (''list_filter_alerted_only'', case_list_filter_alerted),
     (''login_form_renders'', case_login_form_renders)]"

text \<open>\<^verbatim>\<open>[%2d/%d]\<close>.\<close>

definition case_index :: "nat \<Rightarrow> nat \<Rightarrow> string" where
  "case_index i n_cases = ''['' @ (if i < 10 then '' '' else []) @ itoa (int i) @ ''/'' @ itoa (int n_cases) @ '']''"

definition case_lines :: "string \<Rightarrow> string \<Rightarrow> string + unit \<Rightarrow> string list" where
  "case_lines idx name result = (case result of
      Inl err \<Rightarrow> [''  '' @ idx @ '' FAIL  '' @ name, ''        '' @ err]
    | Inr _ \<Rightarrow> [''  '' @ idx @ '' PASS  '' @ name])"

text \<open>The loop gives the results of the cases, in order; a failure does not end it.\<close>

fun run_case_loop ::
  "'b smoke_lib \<Rightarrow> ('w, 'b) smoke_transport \<Rightarrow> smoke_client \<Rightarrow> nat \<Rightarrow> nat \<Rightarrow> (string \<times> ('w, 'b) smoke_case) list
    \<Rightarrow> 'w smoke_state \<Rightarrow> (string + unit) list \<times> 'w smoke_state" where
  "run_case_loop lib deliver c n_cases i [] s = ([], s)"
| "run_case_loop lib deliver c n_cases i ((name, test_case) # cases) s =
     (case test_case lib deliver c s of (result, s1) \<Rightarrow>
      case run_case_loop lib deliver c n_cases (i + 1) cases
             (s1\<lparr>ss_lines := ss_lines s1 @ case_lines (case_index (i + 1) n_cases) name result\<rparr>) of (results, s2) \<Rightarrow>
        (result # results, s2))"

definition is_failure :: "'e + 'a \<Rightarrow> bool" where
  "is_failure r = (case r of Inl _ \<Rightarrow> True | Inr _ \<Rightarrow> False)"

text \<open>\<open>elapsed\<close> is the printed duration. The result is the number of failed cases and the state left.\<close>

definition run_cases ::
  "'b smoke_lib \<Rightarrow> ('w, 'b) smoke_transport \<Rightarrow> smoke_client \<Rightarrow> string \<Rightarrow> 'w \<Rightarrow> nat \<times> 'w smoke_state" where
  "run_cases lib deliver c elapsed w =
     (let n_cases = length (all_cases :: (string \<times> ('w, 'b) smoke_case) list) in
      case run_case_loop lib deliver c n_cases 0 all_cases \<lparr>ss_net = w, ss_lines = [], ss_fixture = no_fixture\<rparr> of (results, s) \<Rightarrow>
        (let failed = length (filter is_failure results) in
         (failed, s\<lparr>ss_lines := ss_lines s @ [[], if failed = 0
            then ''all '' @ itoa (int n_cases) @ '' checks passed in '' @ elapsed
            else itoa (int failed) @ ''/'' @ itoa (int n_cases) @ '' checks failed in '' @ elapsed]\<rparr>)))"

end
