(* ===== verification/SmokeWorld.thy ===== *)
theory SmokeWorld
  imports SmokeCases RouterGate
begin

section \<open>The server behind the smoke client\<close>

text \<open>
  The transport of the smoke client when the server of this library is at the other end, over any
  change store: a request is presented to the router, its body is read by the handlers' codec, and the
  reply carries the status, the Location header and the encoded body. The world is the state of the
  store and the number of requests served, which gives each request its moment. What is relied on of
  net/http, chi, the JSON codec and \<^verbatim>\<open>uuid.NewV7\<close> is \<open>smoke_link_ok\<close>.
\<close>

record 'b smoke_link =
  sn_site :: site
  sn_wire :: "'b smoke_request \<Rightarrow> http_request"
  sn_body :: "'b option \<Rightarrow> api_codec"
  sn_render :: "payload body \<Rightarrow> 'b"
  sn_moment :: "nat \<Rightarrow> moment"

definition smoke_site :: "'b smoke_link \<Rightarrow> 'b option \<Rightarrow> site" where
  "smoke_site l body = (sn_site l)\<lparr>si_codec := sn_body l body\<rparr>"

definition smoke_response_of :: "'b smoke_link \<Rightarrow> payload response \<Rightarrow> 'b smoke_response" where
  "smoke_response_of l r = \<lparr>sp_status = rs_status r,
     sp_header = (\<lambda>h. if h = ''Location'' then rs_location r else []), sp_body = sn_render l (rs_body r)\<rparr>"

definition smoke_served :: "'b smoke_link \<Rightarrow> 's change_store \<Rightarrow> ('s \<Rightarrow> bool) \<Rightarrow> ('s \<times> nat, 'b) smoke_transport" where
  "smoke_served l S ping q sn =
     (case serve (smoke_site l (sq_body q)) S ping (sn_moment l (snd sn)) (sn_wire l q) (fst sn) of
        None \<Rightarrow> (SmokeNoReply, (fst sn, snd sn + 1))
      | Some (r, s') \<Rightarrow> (SmokeReply (smoke_response_of l r), (s', snd sn + 1)))"

subsection \<open>What is relied on\<close>

definition uuid_text :: "string \<Rightarrow> bool" where
  "uuid_text i = (i \<noteq> [] \<and> list_all (\<lambda>ch. is_alnum ch \<or> ch = CHR ''-'') i)"

definition plain_target :: "string \<Rightarrow> bool" where
  "plain_target path = (take 1 path = ''/'' \<and> list_all (\<lambda>ch. is_alnum ch \<or> ch \<in> set ''/-_?=&:'') path)"

text \<open>
  A target without escapes reaches the server with the path before its question mark and the query
  parsed from what follows, and with the Authorization header set.
\<close>

definition wire_ok :: "smoke_client \<Rightarrow> 'b smoke_link \<Rightarrow> bool" where
  "wire_ok c l = (\<forall>cfg verb path body. plain_target path \<longrightarrow>
     (let rq = sn_wire l (smoke_message c cfg verb path body);
          bare = takeWhile (\<lambda>ch. ch \<noteq> CHR ''?'') path in
      rq_method rq = verb \<and> rq_path rq = bare \<and> rq_query rq = parse_query (drop (length bare + 1) path)
      \<and> rq_header rq ''Authorization'' = authorization_header c (qc_auth cfg)))"

text \<open>The matcher finds the routes of the endpoints the cases use, whatever the identifier in the path.\<close>

definition routes_ok :: "matcher \<Rightarrow> bool" where
  "routes_ok match =
     ((\<exists>i. find_route match ''GET'' ''/api/v1/health'' = Routed ApiHealth i)
      \<and> (\<exists>i. find_route match ''GET'' ''/api/v1/events'' = Routed ApiEvents i)
      \<and> (\<exists>i. find_route match ''GET'' ''/api/v1/current'' = Routed ApiCurrent i)
      \<and> (\<exists>i. find_route match ''POST'' ''/api/v1/events'' = Routed ApiCreate i)
      \<and> (\<exists>i. find_route match ''GET'' ''/login'' = Routed Login i)
      \<and> (\<forall>i. uuid_text i \<longrightarrow> find_route match ''GET'' (''/api/v1/events/'' @ i) = Routed ApiEvent i
          \<and> find_route match ''GET'' (''/api/v1/events/'' @ i @ ''/annotations'') = Routed ApiAnnotations i
          \<and> find_route match ''POST'' (''/api/v1/events/'' @ i @ ''/star'') = Routed ApiStar i))"

text \<open>What one side encodes the other decodes, and a rendered sign-in page shows its button.\<close>

definition codecs_ok :: "'b smoke_lib \<Rightarrow> 'b smoke_link \<Rightarrow> bool" where
  "codecs_ok lib l =
     ((\<forall>req. \<exists>b. sk_marshal lib req = Some b \<and> (\<forall>limit rq. ap_create (sn_body l (Some b)) limit rq = JsonValue req True))
      \<and> (\<forall>e. sk_event lib (sn_render l (Payload (EventBody (Some e)))) = Some e)
      \<and> (\<forall>lr. sk_list lib (sn_render l (Payload (ListBody lr))) = Some lr)
      \<and> (\<forall>ann. sk_annotations lib (sn_render l (Payload (AnnotationsBody ann))) = Some ann)
      \<and> (\<forall>p. has_substring (sk_string lib (sn_render l (Payload (HumanLoginPage p)))) (hl_button_label p)))"

text \<open>The identifiers generated for different requests differ.\<close>

definition moments_ok :: "(nat \<Rightarrow> moment) \<Rightarrow> bool" where
  "moments_ok mo = (\<forall>n. (\<exists>i. env_uuid (mo_env (mo n)) = Some i \<and> uuid_text i)
     \<and> (\<forall>k. env_uuid (mo_env (mo k)) = env_uuid (mo_env (mo n)) \<longrightarrow> k = n))"

text \<open>The server the smoke command expects: its token, reads authenticated, sign-in with GitHub.\<close>

definition smoke_site_ok :: "smoke_client \<Rightarrow> site \<Rightarrow> bool" where
  "smoke_site_ok c w = (sc_token c \<noteq> [] \<and> sc_token c \<in> set (si_tokens w) \<and> ''not-the-right-token'' \<notin> set (si_tokens w)
     \<and> si_require_auth_reads w \<and> (\<exists>a. hh_mode (si_human w) = OAuthLogin a \<and> au_name a = ''github''))"

definition smoke_link_ok :: "'b smoke_lib \<Rightarrow> smoke_client \<Rightarrow> 'b smoke_link \<Rightarrow> bool" where
  "smoke_link_ok lib c l = (wire_ok c l \<and> routes_ok (si_match (sn_site l)) \<and> codecs_ok lib l \<and> moments_ok (sn_moment l)
     \<and> smoke_site_ok c (sn_site l) \<and> (\<forall>path. plain_target path \<longrightarrow> sk_url_ok lib (sc_base_url c @ path)))"

subsection \<open>Runs that succeed\<close>

text \<open>\<open>m\<close>, started in the world \<open>w\<close> with fixture \<open>f\<close>, succeeds, and its result, world and fixture satisfy \<open>Q\<close>.\<close>

definition succeeds :: "('w, 'a) smoke_run \<Rightarrow> 'w \<Rightarrow> smoke_fixture \<Rightarrow> ('a \<Rightarrow> 'w \<Rightarrow> smoke_fixture \<Rightarrow> bool) \<Rightarrow> bool" where
  "succeeds m w f Q = (\<forall>ls. \<exists>x w' ls' f'.
     m \<lparr>ss_net = w, ss_lines = ls, ss_fixture = f\<rparr> = (Inr x, \<lparr>ss_net = w', ss_lines = ls', ss_fixture = f'\<rparr>) \<and> Q x w' f')"

lemma succeeds_bind:
  assumes "succeeds m w f Q" and "\<And>x w' f'. Q x w' f' \<Longrightarrow> succeeds (g x) w' f' R"
  shows "succeeds (and_then m g) w f R"
  unfolding succeeds_def
proof
  fix ls
  obtain x w' ls' f' where "m \<lparr>ss_net = w, ss_lines = ls, ss_fixture = f\<rparr> = (Inr x, \<lparr>ss_net = w', ss_lines = ls', ss_fixture = f'\<rparr>)"
      and "Q x w' f'" using assms(1) unfolding succeeds_def by blast
  with assms(2) [OF \<open>Q x w' f'\<close>, unfolded succeeds_def, rule_format, of ls']
  show "\<exists>x w' ls' f'. and_then m g \<lparr>ss_net = w, ss_lines = ls, ss_fixture = f\<rparr>
      = (Inr x, \<lparr>ss_net = w', ss_lines = ls', ss_fixture = f'\<rparr>) \<and> R x w' f'"
    by (simp add: and_then_def)
qed

lemma succeeds_mono: "succeeds m w f Q \<Longrightarrow> (\<And>x w' f'. Q x w' f' \<Longrightarrow> R x w' f') \<Longrightarrow> succeeds m w f R"
  unfolding succeeds_def by blast

lemma succeeds_ret: "Q x w f \<Longrightarrow> succeeds (ret x) w f Q"
  by (auto simp: succeeds_def ret_def)

lemma succeeds_result: "r = Inr x \<Longrightarrow> Q x w f \<Longrightarrow> succeeds (of_result r) w f Q"
  by (auto simp: succeeds_def of_result_def)

lemma succeeds_check: "b \<Longrightarrow> Q () w f \<Longrightarrow> succeeds (check b message) w f Q"
  by (simp add: check_def succeeds_ret)

lemma succeeds_status: "sp_status r = want \<Longrightarrow> Q () w f \<Longrightarrow> succeeds (expect_status lib r want) w f Q"
  by (simp add: expect_status_def succeeds_ret)

lemma succeeds_get: "Q f w f \<Longrightarrow> succeeds get_fixture w f Q"
  by (auto simp: succeeds_def get_fixture_def)

lemma succeeds_set: "Q () w (g f) \<Longrightarrow> succeeds (set_fixture g) w f Q"
  by (auto simp: succeeds_def set_fixture_def)

lemma succeeds_verbose: "Q () w f \<Longrightarrow> succeeds (when_verbose c line) w f Q"
  by (auto simp: succeeds_def when_verbose_def print_line_def ret_def)

lemma succeeds_exchange: "deliver rq w = (r, w') \<Longrightarrow> Q r w' f \<Longrightarrow> succeeds (exchange deliver rq) w f Q"
  by (auto simp: succeeds_def exchange_def)

lemma succeeds_parent:
  "sf_parent_event_id f \<noteq> [] \<Longrightarrow> succeeds (h (sf_parent_event_id f)) w f Q \<Longrightarrow> succeeds (with_parent h) w f Q"
  unfolding with_parent_def by (rule succeeds_bind [where Q = "\<lambda>x w' f'. x = f \<and> w' = w \<and> f' = f", OF succeeds_get]) simp_all

text \<open>One request: what the client gets is the answer of the server.\<close>

definition config_of :: "req_opt list \<Rightarrow> req_config" where
  "config_of opts = fold (\<lambda>opt. opt) opts \<lparr>qc_auth = AuthBearer, qc_content_type = []\<rparr>"

lemma config_of_simps [simp]:
  "qc_auth (config_of []) = AuthBearer" "qc_auth (config_of [with_auth mode]) = mode"
  "qc_auth (config_of [with_content_type ct]) = AuthBearer"
  by (simp_all add: config_of_def with_auth_def with_content_type_def)

lemma succeeds_do:
  assumes "smoke_link_ok lib c l" and "plain_target path"
    and "serve (smoke_site l body) S ping (sn_moment l n) (sn_wire l (smoke_message c (config_of opts) verb path body)) s = Some (resp, s')"
    and "Q (smoke_response_of l resp) (s', n + 1) f"
  shows "succeeds (smoke_do lib (smoke_served l S ping) c verb path body opts) (s, n) f Q"
proof -
  have url: "sk_url_ok lib (sc_base_url c @ path)" using assms(1,2) by (simp add: smoke_link_ok_def)
  have sent: "smoke_served l S ping (smoke_message c (config_of opts) verb path body) (s, n)
      = (SmokeReply (smoke_response_of l resp), (s', n + 1))"
    using assms(3) by (simp add: smoke_served_def smoke_message_def)
  show ?thesis
    unfolding smoke_do_def config_of_def [symmetric] Let_def
    by (simp add: url)
      (intro succeeds_bind [where Q = "\<lambda>x w f'. w = (s, n) \<and> f' = f", OF succeeds_verbose]
        succeeds_bind [where Q = "\<lambda>x w f'. x = SmokeReply (smoke_response_of l resp) \<and> w = (s', n + 1) \<and> f' = f"]
        succeeds_exchange conjI refl; auto intro!: succeeds_bind [where Q = "\<lambda>x w f'. w = (s', n + 1) \<and> f' = f", OF succeeds_verbose]
          succeeds_ret succeeds_exchange assms(4) [simplified] simp: sent)
qed

end
