(* ===== verification/SmokeServe.thy ===== *)
theory SmokeServe
  imports SmokeWorld
begin

section \<open>What the server answers the smoke client\<close>

text \<open>
  The answers to the requests of the cases, over any live store: the route, the middleware and the
  handler of each, as rules for \<open>succeeds\<close>. The state of the store is followed by the registry it shows
  (\<open>smoke_world\<close>), whose identifiers were all generated for earlier requests.
\<close>

definition smoke_world ::
  "('s \<Rightarrow> bool) \<Rightarrow> ('s \<Rightarrow> bool) \<Rightarrow> ('s \<Rightarrow> registry) \<Rightarrow> (nat \<Rightarrow> moment) \<Rightarrow> registry \<Rightarrow> 's \<times> nat \<Rightarrow> bool" where
  "smoke_world good ready reg mo es sn = (good (fst sn) \<and> ready (fst sn) \<and> reg (fst sn) = es
     \<and> (\<forall>i \<in> registry_ids es. \<exists>k < snd sn. env_uuid (mo_env (mo k)) = Some i))"

lemma smoke_world_next:
  assumes "smoke_world good ready reg mo es (s, n)" shows "smoke_world good ready reg mo es (s, n + 1)"
  using assms by (auto simp: smoke_world_def intro: less_SucI)

lemma smoke_world_append:
  assumes "smoke_world good ready reg mo es (s, n)" and "good s'" "ready s'" "reg s' = es @ [e]"
    and "env_uuid (mo_env (mo n)) = Some (ev_id e)"
  shows "smoke_world good ready reg mo (es @ [e]) (s', n + 1)"
  using assms by (auto simp: smoke_world_def registry_ids_def intro: less_SucI)

lemma smoke_world_fresh:
  assumes "smoke_world good ready reg mo es (s, n)" "moments_ok mo"
  obtains i where "env_uuid (mo_env (mo n)) = Some i" "i \<notin> registry_ids es" "uuid_text i" "i \<noteq> []"
proof -
  obtain i where i: "env_uuid (mo_env (mo n)) = Some i" "uuid_text i" using assms(2) unfolding moments_ok_def by blast
  have "i \<notin> registry_ids es"
  proof
    assume "i \<in> registry_ids es"
    then obtain k where "k < n" "env_uuid (mo_env (mo k)) = Some i" using assms(1) by (auto simp: smoke_world_def)
    with i(1) assms(2) show False unfolding moments_ok_def by (metis nat_neq_iff)
  qed
  with i that show thesis by (simp add: uuid_text_def)
qed

lemma smoke_world_ids:
  assumes "smoke_world good ready reg mo es (s, n)" "moments_ok mo" "i \<in> registry_ids es"
  shows "uuid_text i"
  using assms unfolding smoke_world_def moments_ok_def by (metis option.inject)

lemma link_parts:
  assumes "smoke_link_ok lib c l"
  shows "wire_ok c l" "routes_ok (si_match (sn_site l))" "codecs_ok lib l" "moments_ok (sn_moment l)" "smoke_site_ok c (sn_site l)"
  using assms by (simp_all add: smoke_link_ok_def)

lemma smoke_site_sel [simp]:
  "si_match (smoke_site l body) = si_match (sn_site l)" "si_tokens (smoke_site l body) = si_tokens (sn_site l)"
  "si_require_auth_reads (smoke_site l body) = si_require_auth_reads (sn_site l)" "si_human (smoke_site l body) = si_human (sn_site l)"
  "si_codec (smoke_site l body) = sn_body l body" "si_time (smoke_site l body) = si_time (sn_site l)"
  "si_urls (smoke_site l body) = si_urls (sn_site l)"
  by (simp_all add: smoke_site_def)

subsection \<open>Targets without a query\<close>

lemma plain_no_query:
  assumes "plain_target path" "CHR ''?'' \<notin> set path"
  shows "takeWhile (\<lambda>ch. ch \<noteq> CHR ''?'') path = path"
  using assms(2) by (simp add: takeWhile_eq_all_conv) blast

lemma uuid_no_query: "uuid_text i \<Longrightarrow> CHR ''?'' \<notin> set i"
  by (auto simp: uuid_text_def list_all_iff is_alnum_def)

lemma uuid_plain: "uuid_text i \<Longrightarrow> list_all (\<lambda>ch. is_alnum ch \<or> ch \<in> set ''/-_?=&:'') i"
  by (auto simp: uuid_text_def list_all_iff)

lemma event_targets:
  assumes "uuid_text i"
  shows "plain_target (''/api/v1/events/'' @ i)" "plain_target (''/api/v1/events/'' @ i @ ''/annotations'')"
    "plain_target (''/api/v1/events/'' @ i @ ''/star'')"
    "CHR ''?'' \<notin> set (''/api/v1/events/'' @ i)" "CHR ''?'' \<notin> set (''/api/v1/events/'' @ i @ ''/annotations'')"
    "CHR ''?'' \<notin> set (''/api/v1/events/'' @ i @ ''/star'')"
  using uuid_plain [OF assms] uuid_no_query [OF assms] by (simp_all add: plain_target_def is_alnum_def of_char_def)

subsection \<open>Routing and middleware\<close>

lemma wire_sel:
  assumes "wire_ok c l" "plain_target path"
  shows "rq_method (sn_wire l (smoke_message c cfg verb path body)) = verb"
    "rq_path (sn_wire l (smoke_message c cfg verb path body)) = takeWhile (\<lambda>ch. ch \<noteq> CHR ''?'') path"
    "rq_query (sn_wire l (smoke_message c cfg verb path body)) = parse_query (drop (length (takeWhile (\<lambda>ch. ch \<noteq> CHR ''?'') path) + 1) path)"
    "rq_header (sn_wire l (smoke_message c cfg verb path body)) ''Authorization'' = authorization_header c (qc_auth cfg)"
  using assms by (simp_all add: wire_ok_def Let_def)

lemma no_trusted: "smoke_site_ok c w \<Longrightarrow> trusted_principal (trusted_request_principal (si_human w) now) rq = None"
  by (auto simp: smoke_site_ok_def trusted_request_principal_def trusted_principal_def)

lemma serve_routed:
  assumes "find_route (si_match w) (rq_method rq) (rq_path rq) = Routed e i"
  shows "\<exists>rid. serve w S ping t rq s = dispatch w S ping t e (empty_context\<lparr>cx_request_id := rid\<rparr>) (rq\<lparr>rq_id := i\<rparr>) s"
  using assms by (auto simp: serve_def request_id_def Let_def)

lemma serve_bearer:
  assumes ok: "smoke_link_ok lib c l" and path: "plain_target path" and auth: "qc_auth cfg = AuthBearer"
    and route: "find_route (si_match (sn_site l)) verb (takeWhile (\<lambda>ch. ch \<noteq> CHR ''?'') path) = Routed e i"
    and api: "e \<in> set api_endpoints"
  shows "\<exists>cx. cx_api_principal cx = None \<and>
    serve (smoke_site l body) S ping t (sn_wire l (smoke_message c cfg verb path body)) s
      = api_endpoint (smoke_site l body) S t e cx ((sn_wire l (smoke_message c cfg verb path body))\<lparr>rq_id := i\<rparr>) s"
proof -
  let ?rq = "sn_wire l (smoke_message c cfg verb path body)" and ?w = "smoke_site l body"
  note wire = wire_sel [OF link_parts(1) [OF ok] path]
  note site = link_parts(5) [OF ok]
  have "presents_credential (si_tokens (sn_site l)) [] now (?rq\<lparr>rq_id := i\<rparr>)" for now
    using site by (auto simp: presents_credential_def wire auth authorization_header_def smoke_site_ok_def)
  moreover obtain rid where "serve ?w S ping t ?rq s = dispatch ?w S ping t e (empty_context\<lparr>cx_request_id := rid\<rparr>) (?rq\<lparr>rq_id := i\<rparr>) s"
    using serve_routed [of ?w ?rq e i S ping t s] route by (auto simp: wire)
  ultimately show ?thesis
    by (intro exI [of _ "empty_context\<lparr>cx_request_id := rid\<rparr>"])
      (simp add: dispatch_def api api_group_def auth_with_trusted_identity_eq no_trusted [OF site] empty_context_def)
qed

lemma serve_refused:
  assumes ok: "smoke_link_ok lib c l" and auth: "qc_auth cfg \<noteq> AuthBearer"
  shows "serve (smoke_site l body) S ping t (sn_wire l (smoke_message c cfg ''GET'' ''/api/v1/events'' body)) s
      = Some (write_auth_error ''missing or malformed Authorization header'', s)"
proof -
  let ?rq = "sn_wire l (smoke_message c cfg ''GET'' ''/api/v1/events'' body)" and ?w = "smoke_site l body"
  have path: "plain_target ''/api/v1/events''" "takeWhile (\<lambda>ch. ch \<noteq> CHR ''?'') ''/api/v1/events'' = ''/api/v1/events''" by code_simp+
  note wire = wire_sel [OF link_parts(1) [OF ok] path(1), unfolded path(2)]
  note site = link_parts(5) [OF ok]
  obtain i where route: "find_route (si_match (sn_site l)) ''GET'' ''/api/v1/events'' = Routed ApiEvents i"
    using link_parts(2) [OF ok] unfolding routes_ok_def by blast
  have api: "ApiEvents \<in> set api_endpoints" by (simp add: api_endpoints_def)
  have query: "q_get (rq_query ?rq) ''token'' = []" unfolding wire by code_simp
  have header: "authorization_header c (qc_auth cfg) \<in> {[], ''Bearer not-the-right-token''}"
    using auth by (cases "qc_auth cfg") (simp_all add: authorization_header_def)
  have "\<not> presents_credential (si_tokens (sn_site l)) [] now (?rq\<lparr>rq_id := i\<rparr>)" for now
    using site header by (auto simp: presents_credential_def wire(4) query smoke_site_ok_def)
  moreover obtain rid where "serve ?w S ping t ?rq s = dispatch ?w S ping t ApiEvents (empty_context\<lparr>cx_request_id := rid\<rparr>) (?rq\<lparr>rq_id := i\<rparr>) s"
    using serve_routed [of ?w ?rq ApiEvents i S ping t s] route by (auto simp: wire)
  ultimately show ?thesis using site
    by (simp add: dispatch_def api api_group_def auth_with_trusted_identity_eq no_trusted [OF site] is_read_def
        smoke_site_ok_def send_def answer_def reply_def)
qed

lemma serve_health:
  assumes ok: "smoke_link_ok lib c l" and "ping s"
  shows "serve (smoke_site l body) S ping t (sn_wire l (smoke_message c cfg ''GET'' ''/api/v1/health'' body)) s
      = Some (respond 200 (HealthBody ''ok'' []), s)"
proof -
  let ?rq = "sn_wire l (smoke_message c cfg ''GET'' ''/api/v1/health'' body)"
  have path: "plain_target ''/api/v1/health''" "takeWhile (\<lambda>ch. ch \<noteq> CHR ''?'') ''/api/v1/health'' = ''/api/v1/health''" by code_simp+
  note wire = wire_sel [OF link_parts(1) [OF ok] path(1), unfolded path(2)]
  obtain i where "find_route (si_match (sn_site l)) ''GET'' ''/api/v1/health'' = Routed ApiHealth i"
    using link_parts(2) [OF ok] unfolding routes_ok_def by blast
  then obtain rid where "serve (smoke_site l body) S ping t ?rq s
      = dispatch (smoke_site l body) S ping t ApiHealth (empty_context\<lparr>cx_request_id := rid\<rparr>) (?rq\<lparr>rq_id := i\<rparr>) s"
    using serve_routed [of "smoke_site l body" ?rq ApiHealth i S ping t s] by (auto simp: wire)
  then show ?thesis using assms(2)
    by (simp add: dispatch_def api_endpoints_def dashboard_endpoints_def public_endpoint_def direct_def answer_def
        api_health_check_def api_readiness_def)
qed

lemma serve_login:
  assumes ok: "smoke_link_ok lib c l"
  shows "\<exists>p. hl_button_label p = ''Sign in with GitHub'' \<and>
    serve (smoke_site l body) S ping t (sn_wire l (smoke_message c cfg ''GET'' ''/login'' body)) s
      = Some (respond 200 (HumanLoginPage p), s)"
proof -
  let ?rq = "sn_wire l (smoke_message c cfg ''GET'' ''/login'' body)"
  have path: "plain_target ''/login''" "takeWhile (\<lambda>ch. ch \<noteq> CHR ''?'') ''/login'' = ''/login''" by code_simp+
  note wire = wire_sel [OF link_parts(1) [OF ok] path(1), unfolded path(2)]
  obtain i where "find_route (si_match (sn_site l)) ''GET'' ''/login'' = Routed Login i"
    using link_parts(2) [OF ok] unfolding routes_ok_def by blast
  then obtain rid where "serve (smoke_site l body) S ping t ?rq s
      = dispatch (smoke_site l body) S ping t Login (empty_context\<lparr>cx_request_id := rid\<rparr>) (?rq\<lparr>rq_id := i\<rparr>) s"
    using serve_routed [of "smoke_site l body" ?rq Login i S ping t s] by (auto simp: wire)
  moreover have "provider_name (si_human (sn_site l)) = ''github''"
    using link_parts(5) [OF ok] by (auto simp: smoke_site_ok_def provider_name_def)
  ultimately show ?thesis
    by (intro exI [of _ "\<lparr>hl_provider_label = ''GitHub'', hl_button_label = ''Sign in with GitHub'',
          hl_return_to = return_target (ul_parse (si_urls (sn_site l))) (?rq\<lparr>rq_id := i\<rparr>)\<rparr>"])
      (simp add: dispatch_def api_endpoints_def dashboard_endpoints_def public_endpoint_def direct_def answer_def
        show_login_def reply_def provider_label_def)
qed

end
