(* ===== verification/SmokeRules.thy ===== *)
theory SmokeRules
  imports SmokeServe
begin

section \<open>Requests of the smoke cases that succeed\<close>

text \<open>
  One rule for each kind of request the cases make, over any live store: creating a fresh, a repeated and
  an invalid event, reading an event and its annotations, toggling its star, and the two listings. Each
  says which response the client gets and which registry the server is left with.
\<close>

definition smoke_stored :: "create_request \<Rightarrow> string \<Rightarrow> tag_map \<Rightarrow> change_event \<Rightarrow> bool" where
  "smoke_stored req event_type tags e = (ev_external_id e = cr_external_id req \<and> ev_parent_id e = cr_parent_id req
     \<and> ev_user_name e = cr_user_name req \<and> ev_event_type e = event_type \<and> ev_description e = cr_description req \<and> ev_tags e = tags)"

lemma response_sel [simp]:
  "sp_status (smoke_response_of l r) = rs_status r" "sp_header (smoke_response_of l r) ''Location'' = rs_location r"
  "sp_body (smoke_response_of l r) = sn_render l (rs_body r)"
  by (simp_all add: smoke_response_of_def)

lemma created_sel [simp]:
  "rs_status (created_event e) = 201" "rs_location (created_event e) = ''/api/v1/events/'' @ ev_id e"
  "rs_body (created_event e) = Payload (EventBody (Some e))" "rs_body (respond n p) = Payload p"
  by (simp_all add: created_event_def respond_def)

lemma decode_success:
  "200 \<le> sp_status r \<Longrightarrow> sp_status r < 300 \<Longrightarrow> decode (sp_body r) = Some x \<Longrightarrow> decode_into lib (Some decode) zero r = Inr (r, x)"
  by (simp add: decode_into_def)

lemma no_attribution: "cx_api_principal cx = None \<Longrightarrow> attribute_request cx req = req"
  by (simp add: attribute_request_def authenticated_api_identity_def api_principal_from_context_def)

lemma no_identity: "cx_api_principal cx = None \<Longrightarrow> authenticated_api_identity cx = None"
  by (simp add: authenticated_api_identity_def api_principal_from_context_def)

subsection \<open>The client's side\<close>

lemma succeeds_get_json:
  assumes "smoke_link_ok lib c l" "plain_target path"
    and "serve (smoke_site l None) S ping (sn_moment l n) (sn_wire l (smoke_message c (config_of []) ''GET'' path None)) s = Some (resp, s')"
    and "decode_into lib out zero (smoke_response_of l resp) = Inr (smoke_response_of l resp, x)"
    and "Q (smoke_response_of l resp, x) (s', n + 1) f"
  shows "succeeds (get_json lib (smoke_served l S ping) c path out zero []) (s, n) f Q"
  unfolding get_json_def
  by (rule succeeds_bind [where Q = "\<lambda>r w f'. r = smoke_response_of l resp \<and> w = (s', n + 1) \<and> f' = f", OF succeeds_do [OF assms(1,2)]])
    (use assms(3-5) in \<open>auto intro: succeeds_result\<close>)

lemma succeeds_post_json:
  assumes "smoke_link_ok lib c l" "plain_target path"
    and "\<And>body. (\<And>limit rq. ap_create (sn_body l (Some body)) limit rq = JsonValue req True) \<Longrightarrow>
      serve (smoke_site l (Some body)) S ping (sn_moment l n)
        (sn_wire l (smoke_message c (config_of [with_content_type ''application/json'']) ''POST'' path (Some body))) s = Some (resp, s')"
    and "decode_into lib out zero (smoke_response_of l resp) = Inr (smoke_response_of l resp, x)"
    and "Q (smoke_response_of l resp, x) (s', n + 1) f"
  shows "succeeds (post_json lib (smoke_served l S ping) c path req out zero []) (s, n) f Q"
proof -
  obtain b where b: "sk_marshal lib req = Some b" "\<And>limit rq. ap_create (sn_body l (Some b)) limit rq = JsonValue req True"
    using link_parts(3) [OF assms(1)] unfolding codecs_ok_def by blast
  show ?thesis
    unfolding post_json_def b(1) option.case append_Nil
    by (rule succeeds_bind [where Q = "\<lambda>r w f'. r = smoke_response_of l resp \<and> w = (s', n + 1) \<and> f' = f",
          OF succeeds_do [OF assms(1,2) assms(3) [OF b(2)]]])
      (use assms(4,5) in \<open>auto intro: succeeds_result\<close>)
qed

subsection \<open>Over a live store\<close>

context live_store
begin

lemma serve_post_event:
  assumes ok: "smoke_link_ok lib c l" and body: "\<And>limit rq. ap_create (sn_body l (Some body)) limit rq = JsonValue req True"
    and auth: "qc_auth cfg = AuthBearer"
  shows "serve (smoke_site l (Some body)) S ping t (sn_wire l (smoke_message c cfg ''POST'' ''/api/v1/events'' (Some body))) s
    = Some (case svc_create (ul_request_uri (si_urls (sn_site l))) S (mo_env t) req s of
        (Inl err, s') \<Rightarrow> (create_failed err, s') | (Inr e, s') \<Rightarrow> (created_event e, s'))"
proof -
  have path: "plain_target ''/api/v1/events''" "takeWhile (\<lambda>ch. ch \<noteq> CHR ''?'') ''/api/v1/events'' = ''/api/v1/events''" by code_simp+
  obtain i where route: "find_route (si_match (sn_site l)) ''POST'' ''/api/v1/events'' = Routed ApiCreate i"
    using link_parts(2) [OF ok] unfolding routes_ok_def by blast
  have api: "ApiCreate \<in> set api_endpoints" by (simp add: api_endpoints_def)
  obtain cx where "cx_api_principal cx = None"
      and "serve (smoke_site l (Some body)) S ping t (sn_wire l (smoke_message c cfg ''POST'' ''/api/v1/events'' (Some body))) s
        = api_endpoint (smoke_site l (Some body)) S t ApiCreate cx
            ((sn_wire l (smoke_message c cfg ''POST'' ''/api/v1/events'' (Some body)))\<lparr>rq_id := i\<rparr>) s"
    using serve_bearer [OF ok path(1) auth _ api, unfolded path(2), OF route, where body = "Some body" and S = S and ping = ping and t = t and s = s]
    by (elim exE conjE) (rule that)
  then show ?thesis
    by (simp add: api_endpoint_def direct_def answer_def api_create_event_def body no_attribution handle_result_def reply_def
        split: prod.split sum.split)
qed

lemma succeeds_create:
  assumes ok: "smoke_link_ok lib c l" and at: "smoke_world inv ready reg (sn_moment l) es (s, n)"
    and v: "\<And>parse. validate_create_request parse req True = Inr (event_type, tags)" and d: "distinct (map fst (cr_tags req))"
    and ext: "cr_external_id req \<noteq> [] \<Longrightarrow> find_by_external_id es (cr_external_id req) = None"
    and par: "cr_parent_id req \<noteq> [] \<Longrightarrow> cr_parent_id req \<in> registry_ids es"
    and Q: "\<And>e s'. smoke_stored req event_type tags e \<Longrightarrow> ev_id e \<noteq> [] \<Longrightarrow>
      smoke_world inv ready reg (sn_moment l) (es @ [e]) (s', n + 1) \<Longrightarrow> Q (smoke_response_of l (created_event e), e) (s', n + 1) f"
  shows "succeeds (post_json lib (smoke_served l S ping) c ''/api/v1/events'' req (Some (sk_event lib)) zero []) (s, n) f Q"
proof -
  have W: "inv s" "ready s" "reg s = es" using at by (simp_all add: smoke_world_def)
  obtain i where i: "env_uuid (mo_env (sn_moment l n)) = Some i" "i \<notin> registry_ids es" "i \<noteq> []"
    using smoke_world_fresh [OF at link_parts(4) [OF ok]] by blast
  let ?en = "mo_env (sn_moment l n)"
  let ?e = "stored_event (new_event ?en i req event_type tags)"
  have run: "\<exists>s'. svc_create parse S ?en req s = (Inr ?e, s') \<and> ready s'" for parse
    unfolding svc_create_def by (rule create_with_live [OF W(1,2) d v i(1,3)]) (use W(3) i(2) ext par in simp_all)
  then obtain s' where s': "svc_create (ul_request_uri (si_urls (sn_site l))) S ?en req s = (Inr ?e, s')" "ready s'" by blast
  have "env_uuid ?en \<noteq> Some []" using i by simp
  then obtain "inv s'" "reg s' = es @ [?e]"
    by (rule create_with_Inr [OF W(1) d _ s'(1) [unfolded svc_create_def]]) (use W(3) in auto)
  then have "smoke_world inv ready reg (sn_moment l) (es @ [?e]) (s', n + 1)"
    by (intro smoke_world_append [OF at]) (simp_all add: s' i stored_event_def new_event_def)
  moreover have "smoke_stored req event_type tags ?e" "ev_id ?e \<noteq> []"
    by (simp_all add: smoke_stored_def stored_event_def new_event_def i)
  ultimately have post: "Q (smoke_response_of l (created_event ?e), ?e) (s', n + 1) f" by (rule Q [rotated 2])
  have path: "plain_target ''/api/v1/events''" by code_simp
  have event: "sk_event lib (sn_render l (Payload (EventBody (Some ?e)))) = Some ?e"
    using link_parts(3) [OF ok] unfolding codecs_ok_def by blast
  show ?thesis
  proof (rule succeeds_post_json [OF ok path, where resp = "created_event ?e" and s' = s' and x = ?e])
    fix body assume "\<And>limit rq. ap_create (sn_body l (Some body)) limit rq = JsonValue req True"
    from serve_post_event [OF ok this] s'(1)
    show "serve (smoke_site l (Some body)) S ping (sn_moment l n) (sn_wire l (smoke_message c
        (config_of [with_content_type ''application/json'']) ''POST'' ''/api/v1/events'' (Some body))) s = Some (created_event ?e, s')"
      by simp
  next
    show "decode_into lib (Some (sk_event lib)) zero (smoke_response_of l (created_event ?e))
        = Inr (smoke_response_of l (created_event ?e), ?e)"
      by (rule decode_success) (simp_all add: event)
  qed (rule post)
qed

lemma create_duplicate_live:
  assumes "inv s" "ready s" "cr_external_id req \<noteq> []" "find_by_external_id (reg s) (cr_external_id req) = Some e"
  shows "svc_create parse S en req s = (Inl (ErrDuplicate (Some e)), s)"
proof -
  obtain y where y: "st_get_by_external_id S (cr_external_id req) s = (Inr y, s)"
    using live_get_by_external_id [OF assms(1,2)] by blast
  with get_by_external_id [OF assms(1,3) y] assms(3,4) show ?thesis
    by (simp add: svc_create_def svc_create_with_def lookup_duplicate_def and_then_def throw_def)
qed

lemma succeeds_duplicate:
  assumes ok: "smoke_link_ok lib c l" and at: "smoke_world inv ready reg (sn_moment l) es (s, n)"
    and ext: "cr_external_id req \<noteq> []" "find_by_external_id es (cr_external_id req) = Some e"
    and Q: "\<And>r. sp_status r = 200 \<Longrightarrow> smoke_world inv ready reg (sn_moment l) es (s, n + 1) \<Longrightarrow> Q (r, e) (s, n + 1) f"
  shows "succeeds (post_json lib (smoke_served l S ping) c ''/api/v1/events'' req (Some (sk_event lib)) zero []) (s, n) f Q"
proof -
  have W: "inv s" "ready s" "reg s = es" using at by (simp_all add: smoke_world_def)
  let ?r = "respond 200 (EventBody (Some e))"
  have path: "plain_target ''/api/v1/events''" by code_simp
  have event: "sk_event lib (sn_render l (Payload (EventBody (Some e)))) = Some e"
    using link_parts(3) [OF ok] unfolding codecs_ok_def by blast
  show ?thesis
  proof (rule succeeds_post_json [OF ok path, where resp = ?r and s' = s and x = e])
    fix body assume "\<And>limit rq. ap_create (sn_body l (Some body)) limit rq = JsonValue req True"
    from serve_post_event [OF ok this] create_duplicate_live [OF W(1,2) ext(1)] ext(2) W(3)
    show "serve (smoke_site l (Some body)) S ping (sn_moment l n) (sn_wire l (smoke_message c
        (config_of [with_content_type ''application/json'']) ''POST'' ''/api/v1/events'' (Some body))) s = Some (?r, s)"
      by (simp add: create_failed_def)
  next
    show "decode_into lib (Some (sk_event lib)) zero (smoke_response_of l ?r) = Inr (smoke_response_of l ?r, e)"
      by (rule decode_success) (simp_all add: event)
  next
    show "Q (smoke_response_of l ?r, e) (s, n + 1) f" by (rule Q) (simp_all add: smoke_world_next [OF at, simplified])
  qed
qed

lemma succeeds_invalid:
  assumes ok: "smoke_link_ok lib c l" and at: "smoke_world inv ready reg (sn_moment l) es (s, n)"
    and v: "\<And>parse. validate_create_request parse req True = Inl err" and ext: "cr_external_id req = []"
    and err: "rs_status (create_failed err) = 400"
    and Q: "\<And>r. sp_status r = 400 \<Longrightarrow> smoke_world inv ready reg (sn_moment l) es (s, n + 1) \<Longrightarrow> Q (r, ()) (s, n + 1) f"
  shows "succeeds (post_json lib (smoke_served l S ping) c ''/api/v1/events'' req None () []) (s, n) f Q"
proof -
  have path: "plain_target ''/api/v1/events''" by code_simp
  have run: "svc_create parse S en req s = (Inl err, s)" for parse en
    by (simp add: svc_create_def svc_create_with_def lookup_duplicate_def ext and_then_def ret_def v throw_def)
  show ?thesis
  proof (rule succeeds_post_json [OF ok path, where resp = "create_failed err" and s' = s and x = "()"])
    fix body assume "\<And>limit rq. ap_create (sn_body l (Some body)) limit rq = JsonValue req True"
    from serve_post_event [OF ok this] run
    show "serve (smoke_site l (Some body)) S ping (sn_moment l n) (sn_wire l (smoke_message c
        (config_of [with_content_type ''application/json'']) ''POST'' ''/api/v1/events'' (Some body))) s = Some (create_failed err, s)"
      by simp
  next
    show "decode_into lib None () (smoke_response_of l (create_failed err)) = Inr (smoke_response_of l (create_failed err), ())"
      by (simp add: decode_into_def)
  next
    show "Q (smoke_response_of l (create_failed err), ()) (s, n + 1) f"
      by (rule Q) (simp_all add: err smoke_world_next [OF at, simplified])
  qed
qed

end

end
