(* ===== verification/SmokeReads.thy ===== *)
theory SmokeReads
  imports SmokeRules
begin

section \<open>Reads and toggles of the smoke cases\<close>

text \<open>
  The rules for reading an event and its annotations, for toggling a star and for the two listings. On a
  registry of at most fifty events a listing is one page with everything the filter selects.
\<close>

lemma bare_target: "CHR ''?'' \<notin> set path \<Longrightarrow> takeWhile (\<lambda>ch. ch \<noteq> CHR ''?'') path = path"
  by (simp add: takeWhile_eq_all_conv) blast

lemma small_page:
  assumes "length es \<le> 50" "lp_limit p = 0" "lp_offset p = 0"
  shows "set (lr_events (list_spec es p)) = {e \<in> set es. event_selected es p e}"
    and "lr_total_count (list_spec es p) = int (length (filter (event_selected es p) es))"
proof -
  have "length (selection es p) \<le> 50"
    using assms(1) length_filter_le [of "event_selected es p" es] unfolding length_selection by linarith
  then have "lr_events (list_spec es p) = selection es p"
    using assms(2,3) by (simp add: list_spec_page effective_limit_def default_limit_def)
  then show "set (lr_events (list_spec es p)) = {e \<in> set es. event_selected es p e}" by (simp add: set_selection)
qed (simp add: list_spec_page length_selection)

lemma small_current:
  assumes "length es \<le> 50" "cp_limit q = 0" "cp_offset q = 0"
  shows "set (lr_events (current_spec es q)) = {e \<in> set es. represents_active es e \<and> visible_in q e}"
proof -
  have "length (filter (\<lambda>e. represents_active es e \<and> visible_in q e) es) \<le> 50"
    using assms(1) length_filter_le [of "\<lambda>e. represents_active es e \<and> visible_in q e" es] by linarith
  then show ?thesis
    using assms(2,3) by (simp add: current_spec_def result_page_def page_of_def by_newest_def effective_limit_def default_limit_def)
qed

context live_store
begin

lemma serve_event_target:
  assumes ok: "smoke_link_ok lib c l" and path: "plain_target path" "CHR ''?'' \<notin> set path" and auth: "qc_auth cfg = AuthBearer"
    and route: "find_route (si_match (sn_site l)) verb path = Routed e i" and api: "e \<in> set api_endpoints"
    and run: "\<And>cx rq. cx_api_principal cx = None \<Longrightarrow> rq_id rq = i \<Longrightarrow> api_endpoint (smoke_site l body) S t e cx rq s = Some (resp, s')"
  shows "serve (smoke_site l body) S ping t (sn_wire l (smoke_message c cfg verb path body)) s = Some (resp, s')"
  using serve_bearer [OF ok path(1) auth _ api, unfolded bare_target [OF path(2)], OF route, where body = body and S = S and ping = ping and t = t and s = s]
  by (auto simp: run)

lemma succeeds_get_event:
  assumes ok: "smoke_link_ok lib c l" and at: "smoke_world inv ready reg (sn_moment l) es (s, n)"
    and e: "find_by_id es i = Some e"
    and Q: "\<And>r. sp_status r = 200 \<Longrightarrow> smoke_world inv ready reg (sn_moment l) es (s, n + 1) \<Longrightarrow> Q (r, e) (s, n + 1) f"
  shows "succeeds (get_json lib (smoke_served l S ping) c (''/api/v1/events/'' @ i) (Some (sk_event lib)) zero []) (s, n) f Q"
proof -
  have W: "inv s" "ready s" "reg s = es" using at by (simp_all add: smoke_world_def)
  have "i \<in> registry_ids es" using find_by_id_Some [OF e] by (auto simp: registry_ids_def)
  then have u: "uuid_text i" by (rule smoke_world_ids [OF at link_parts(4) [OF ok]])
  let ?r = "respond 200 (EventBody (Some e))"
  note targets = event_targets [OF u]
  have event: "sk_event lib (sn_render l (Payload (EventBody (Some e)))) = Some e"
    using link_parts(3) [OF ok] unfolding codecs_ok_def by blast
  have route: "find_route (si_match (sn_site l)) ''GET'' (''/api/v1/events/'' @ i) = Routed ApiEvent i"
    using link_parts(2) [OF ok] u unfolding routes_ok_def by blast
  have "api_endpoint (smoke_site l None) S t ApiEvent cx rq s = Some (?r, s)" if "rq_id rq = i" for cx rq t
    using get_by_id_live [OF W(1,2) e [folded W(3)]] that
    by (simp add: api_endpoint_def direct_def answer_def api_get_event_def handle_result_def reply_def)
  then have "serve (smoke_site l None) S ping (sn_moment l n)
      (sn_wire l (smoke_message c (config_of []) ''GET'' (''/api/v1/events/'' @ i) None)) s = Some (?r, s)"
    by (intro serve_event_target [OF ok targets(1,4) _ route]) (simp_all add: api_endpoints_def)
  then show ?thesis
    by (rule succeeds_get_json [OF ok targets(1), where resp = ?r and s' = s and x = e])
      (simp_all add: decode_success event Q [simplified] smoke_world_next [OF at, simplified])
qed

lemma succeeds_annotations:
  assumes ok: "smoke_link_ok lib c l" and at: "smoke_world inv ready reg (sn_moment l) es (s, n)"
    and i: "i \<in> registry_ids es"
    and Q: "\<And>r. sp_status r = 200 \<Longrightarrow> smoke_world inv ready reg (sn_moment l) es (s, n + 1) \<Longrightarrow> Q (r, annotations_of es i) (s, n + 1) f"
  shows "succeeds (get_json lib (smoke_served l S ping) c (''/api/v1/events/'' @ i @ ''/annotations'') (Some (sk_annotations lib)) zero []) (s, n) f Q"
proof -
  have W: "inv s" "ready s" "reg s = es" using at by (simp_all add: smoke_world_def)
  have u: "uuid_text i" by (rule smoke_world_ids [OF at link_parts(4) [OF ok] i])
  let ?r = "respond 200 (AnnotationsBody (annotations_of es i))"
  note targets = event_targets [OF u]
  have ann: "sk_annotations lib (sn_render l (Payload (AnnotationsBody ann))) = Some ann" for ann
    using link_parts(3) [OF ok] unfolding codecs_ok_def by blast
  have route: "find_route (si_match (sn_site l)) ''GET'' (''/api/v1/events/'' @ i @ ''/annotations'') = Routed ApiAnnotations i"
    using link_parts(2) [OF ok] u unfolding routes_ok_def by blast
  obtain x where x: "st_get_annotations S i s = (Inr x, s)" using live_get_annotations [OF W(1,2)] by blast
  with get_annotations [OF W(1) x] W(3) u have "svc_get_annotations S i s = (Inr (annotations_of es i), s)"
    by (simp add: svc_get_annotations_def uuid_text_def)
  then have "api_endpoint (smoke_site l None) S t ApiAnnotations cx rq s = Some (?r, s)" if "rq_id rq = i" for cx rq t
    using that by (simp add: api_endpoint_def direct_def answer_def api_get_event_annotations_def handle_result_def reply_def)
  then have "serve (smoke_site l None) S ping (sn_moment l n)
      (sn_wire l (smoke_message c (config_of []) ''GET'' (''/api/v1/events/'' @ i @ ''/annotations'') None)) s = Some (?r, s)"
    by (intro serve_event_target [OF ok targets(2,5) _ route]) (simp_all add: api_endpoints_def)
  then show ?thesis
    by (rule succeeds_get_json [OF ok targets(2), where resp = ?r and s' = s and x = "annotations_of es i"])
      (simp_all add: decode_success ann Q [simplified] smoke_world_next [OF at, simplified])
qed

lemma succeeds_star:
  assumes ok: "smoke_link_ok lib c l" and at: "smoke_world inv ready reg (sn_moment l) es (s, n)"
    and i: "i \<in> registry_ids es"
    and Q: "\<And>r e s'. sp_status r = 201 \<Longrightarrow> ev_parent_id e = i \<Longrightarrow> starred (es @ [e]) i = (\<not> starred es i) \<Longrightarrow>
      smoke_world inv ready reg (sn_moment l) (es @ [e]) (s', n + 1) \<Longrightarrow> Q r (s', n + 1) f"
  shows "succeeds (smoke_do lib (smoke_served l S ping) c ''POST'' (''/api/v1/events/'' @ i @ ''/star'') None []) (s, n) f Q"
proof -
  have W: "inv s" "ready s" "reg s = es" using at by (simp_all add: smoke_world_def)
  have u: "uuid_text i" by (rule smoke_world_ids [OF at link_parts(4) [OF ok] i])
  note targets = event_targets [OF u]
  have route: "find_route (si_match (sn_site l)) ''POST'' (''/api/v1/events/'' @ i @ ''/star'') = Routed ApiStar i"
    using link_parts(2) [OF ok] u unfolding routes_ok_def by blast
  let ?en = "mo_env (sn_moment l n)" and ?user = "\<lparr>ui_name = ''api'', ui_provider = [], ui_subject = []\<rparr>"
  obtain k where k: "env_uuid ?en = Some k" "k \<notin> registry_ids es" "k \<noteq> []"
    using smoke_world_fresh [OF at link_parts(4) [OF ok]] by blast
  obtain e s' where run: "st_toggle_star S ?en i ?user s = (Inr e, s')" and rdy: "ready s'"
    using live_toggle_star [OF W(1,2) k(1,3), of i ?user] k(2) i W(3) by blast
  have law: "inv s'" "reg s' = es @ [e]" "toggled starred event_type_star event_type_unstar es i ?user e" "env_uuid ?en = Some (ev_id e)"
    using toggle_star_Inr [OF W(1) _ run] k W(3) by simp_all
  let ?r = "respond 201 (EventBody (Some e))"
  have "svc_toggle_star S ?en i ''api'' s = (Inr e, s')"
    using run by (simp add: svc_toggle_star_def svc_toggle_star_as_def missing_event_def)
  then have "api_endpoint (smoke_site l None) S (sn_moment l n) ApiStar cx rq s = Some (?r, s')"
      if "cx_api_principal cx = None" "rq_id rq = i" for cx rq
    using that by (simp add: api_endpoint_def direct_def answer_def api_toggle_star_def no_identity handle_result_def reply_def)
  then have sent: "serve (smoke_site l None) S ping (sn_moment l n)
      (sn_wire l (smoke_message c (config_of []) ''POST'' (''/api/v1/events/'' @ i @ ''/star'') None)) s = Some (?r, s')"
    by (intro serve_event_target [OF ok targets(3,6) _ route]) (simp_all add: api_endpoints_def)
  have "smoke_world inv ready reg (sn_moment l) (es @ [e]) (s', n + 1)"
    by (rule smoke_world_append [OF at]) (simp_all add: law rdy)
  moreover have "ev_parent_id e = i" "starred (es @ [e]) i = (\<not> starred es i)"
    using law(3) u by (simp_all add: toggled_def starred_append is_child_def uuid_text_def)
  ultimately show ?thesis by (intro succeeds_do [OF ok targets(3) sent] Q) simp_all
qed

lemma succeeds_list:
  assumes ok: "smoke_link_ok lib c l" and at: "smoke_world inv ready reg (sn_moment l) es (s, n)"
    and path: "plain_target path" "takeWhile (\<lambda>ch. ch \<noteq> CHR ''?'') path = ''/api/v1/events''"
    and query: "\<And>tlib. parse_list_params tlib (parse_query (drop 15 path)) = Inr p"
    and p: "distinct (map fst (lp_tags p))" "lp_offset p = 0"
    and Q: "\<And>r. sp_status r = 200 \<Longrightarrow> smoke_world inv ready reg (sn_moment l) es (s, n + 1) \<Longrightarrow> Q (r, list_spec es p) (s, n + 1) f"
  shows "succeeds (get_json lib (smoke_served l S ping) c path (Some (sk_list lib)) zero []) (s, n) f Q"
proof -
  have W: "inv s" "ready s" "reg s = es" using at by (simp_all add: smoke_world_def)
  let ?r = "respond 200 (ListBody (list_spec es p))"
  let ?rq = "sn_wire l (smoke_message c (config_of []) ''GET'' path None)"
  have lists: "sk_list lib (sn_render l (Payload (ListBody lr))) = Some lr" for lr
    using link_parts(3) [OF ok] unfolding codecs_ok_def by blast
  obtain i where route: "find_route (si_match (sn_site l)) ''GET'' ''/api/v1/events'' = Routed ApiEvents i"
    using link_parts(2) [OF ok] unfolding routes_ok_def by blast
  have api: "ApiEvents \<in> set api_endpoints" by (simp add: api_endpoints_def)
  have q: "rq_query ?rq = parse_query (drop 15 path)" by (simp add: wire_sel [OF link_parts(1) [OF ok] path(1)] path(2) eval_nat_numeral)
  have list: "svc_list S p s = (Inr (list_spec es p), s)" using svc_list_live [OF W(1,2) p(1)] p(2) W(3) by simp
  have "serve (smoke_site l None) S ping (sn_moment l n) ?rq s = Some (?r, s)"
    using serve_bearer [OF ok path(1) _ _ api, unfolded path(2), OF _ route, where body = None and S = S and ping = ping
        and t = "sn_moment l n" and s = s and cfg = "config_of []"] list
    by (auto simp: api_endpoint_def direct_def answer_def api_list_events_def q query handle_result_def reply_def)
  then show ?thesis
    by (rule succeeds_get_json [OF ok path(1), where resp = ?r and s' = s and x = "list_spec es p"])
      (simp_all add: decode_success lists Q [simplified] smoke_world_next [OF at, simplified])
qed

lemma succeeds_current:
  assumes ok: "smoke_link_ok lib c l" and at: "smoke_world inv ready reg (sn_moment l) es (s, n)" and small: "length es \<le> 50"
    and path: "plain_target path" "takeWhile (\<lambda>ch. ch \<noteq> CHR ''?'') path = ''/api/v1/current''"
    and query: "parse_current_params (parse_query (drop 16 path)) = Inr q"
    and p: "cp_limit q = 0" "cp_offset q = 0"
    and Q: "\<And>r x. sp_status r = 200 \<Longrightarrow> smoke_world inv ready reg (sn_moment l) es (s, n + 1) \<Longrightarrow>
      set (lr_events x) = {e \<in> set es. represents_active es e \<and> visible_in q e} \<Longrightarrow> Q (r, x) (s, n + 1) f"
  shows "succeeds (get_json lib (smoke_served l S ping) c path (Some (sk_list lib)) zero []) (s, n) f Q"
proof -
  have W: "inv s" "ready s" "reg s = es" using at by (simp_all add: smoke_world_def)
  let ?rq = "sn_wire l (smoke_message c (config_of []) ''GET'' path None)"
  have lists: "sk_list lib (sn_render l (Payload (ListBody lr))) = Some lr" for lr
    using link_parts(3) [OF ok] unfolding codecs_ok_def by blast
  obtain i where route: "find_route (si_match (sn_site l)) ''GET'' ''/api/v1/current'' = Routed ApiCurrent i"
    using link_parts(2) [OF ok] unfolding routes_ok_def by blast
  have api: "ApiCurrent \<in> set api_endpoints" by (simp add: api_endpoints_def)
  have q: "rq_query ?rq = parse_query (drop 16 path)" by (simp add: wire_sel [OF link_parts(1) [OF ok] path(1)] path(2) eval_nat_numeral)
  let ?q = "q\<lparr>cp_limit := effective_limit (cp_limit q)\<rparr>"
  obtain x where x: "svc_list_current S q s = (Inr x, s)" using svc_list_current_live [OF W(1,2), of q] p by auto
  have "x = current_spec es ?q" using list_current [OF W(1) x [unfolded svc_list_current_def]] W(3) by simp
  then have "x = current_spec es q"
    by (simp add: current_spec_def result_page_def visible_in_def [abs_def] effective_limit_idem)
  then have set: "set (lr_events x) = {e \<in> set es. represents_active es e \<and> visible_in q e}" using small_current [OF small p] by simp
  let ?r = "respond 200 (ListBody x)"
  have "serve (smoke_site l None) S ping (sn_moment l n) ?rq s = Some (?r, s)"
    using serve_bearer [OF ok path(1) _ _ api, unfolded path(2), OF _ route, where body = None and S = S and ping = ping
        and t = "sn_moment l n" and s = s and cfg = "config_of []"] x
    by (auto simp: api_endpoint_def direct_def answer_def api_list_current_def q query handle_result_def reply_def)
  then show ?thesis
    by (rule succeeds_get_json [OF ok path(1), where resp = ?r and s' = s and x = x])
      (simp_all add: decode_success lists Q [OF _ _ set, simplified] smoke_world_next [OF at, simplified])
qed

end

end
