(* ===== verification/SmokePasses.thy ===== *)
theory SmokePasses
  imports SmokeReads
begin

section \<open>The smoke cases pass\<close>

text \<open>
  Every case succeeds against the server over a live store when the registry is at the stage the cases
  before it leave: empty, with the deployment of the first case, with the events of the Current cases,
  starred or not, alerted. The run of all cases on an empty registry has no failure.
\<close>

subsection \<open>The requests are valid\<close>

lemma smoke_trim:
  "trim_space ''deployment'' = ''deployment''" "trim_space ''incident'' = ''incident''" "trim_space ''alert'' = ''alert''"
  "trim_space ''start'' = ''start''" "trim_space ''end'' = ''end''" "trim_space ''payments'' = ''payments''"
  "trim_space ''platform'' = ''platform''" "trim_space ''service'' = ''service''" "trim_space ''site'' = ''site''"
  "trim_space ''sev2'' = ''sev2''" "trim_space ''sev1'' = ''sev1''" "trim_space ''SEV0'' = ''SEV0''"
  "trim_space ''smoke-active'' = ''smoke-active''" "trim_space ''smoke-completed'' = ''smoke-completed''"
  "trim_space ''smoke-site'' = ''smoke-site''" "trim_space ''smoke-other-team'' = ''smoke-other-team''"
  by (simp_all add: trim_simps strip_space_def strip_space_right_def in_ranges_def decode_last_rune_def)

lemma smoke_lower:
  "to_lower ''service'' = ''service''" "to_lower ''site'' = ''site''" "to_lower ''sev2'' = ''sev2''" "to_lower ''sev1'' = ''sev1''"
  "to_lower ''SEV0'' = ''sev0''" "to_lower ''sev0'' = ''sev0''"
  by (simp_all add: to_lower_ascii ascii_string_def lower_char_def char_of_def bit_0)

lemma smoke_fold:
  "\<not> equal_fold_ascii ''deployment'' ''maintenance''" "\<not> equal_fold_ascii ''incident'' ''maintenance''"
  "\<not> equal_fold_ascii ''alert'' ''maintenance''"
  by (simp_all add: equal_fold_ascii_def)

lemmas smoke_valid_simps = validate_create_request_def zero_create_request_def event_type_deployment_def
  event_type_alert_def smoke_trim smoke_lower smoke_fold normalize_event_tags_def update_present_def well_known_tags_def
  validate_event_tags_def validate_phase_tags_def validate_classification_tags_def severities_def scopes_def
  tag_get_def tag_has_def event_type_maintenance_def Let_def

lemma create_body_valid: "validate_create_request parse create_body True = Inr (event_type_deployment, cr_tags create_body)"
  by (simp add: create_body_def smoke_valid_simps)

lemma missing_user_invalid:
  "validate_create_request parse (zero_create_request\<lparr>cr_event_type := event_type_deployment, cr_description := d\<rparr>) True = Inl ErrUserNameRequired"
  by (simp add: validate_create_request_def zero_create_request_def)

lemma missing_type_invalid:
  "validate_create_request parse (zero_create_request\<lparr>cr_user_name := ''smoke'', cr_description := d\<rparr>) True = Inl ErrEventTypeRequired"
  by (simp add: validate_create_request_def zero_create_request_def)

lemma alert_body_valid:
  "validate_create_request parse (zero_create_request\<lparr>cr_parent_id := parent, cr_user_name := ''smoke'', cr_event_type := event_type_alert,
     cr_description := d\<rparr>) True = Inr (event_type_alert, [])"
  by (simp add: smoke_valid_simps)

text \<open>Only the severity in capitals is changed.\<close>

definition stored_tags :: "create_request \<Rightarrow> tag_map" where
  "stored_tags req = map (\<lambda>(k, v). (k, if v = ''SEV0'' then ''sev0'' else v)) (cr_tags req)"

lemma current_bodies_valid:
  "list_all (\<lambda>(req, f). (\<forall>parse. validate_create_request parse req True = Inr (cr_event_type req, stored_tags req))
     \<and> distinct (map fst (cr_tags req)) \<and> cr_parent_id req = [] \<and> cr_external_id req \<noteq> []) current_fixtures"
  by (simp add: current_fixtures_def current_request_def stored_tags_def smoke_valid_simps)

subsection \<open>The stages\<close>

definition stage_empty :: "registry \<Rightarrow> smoke_fixture \<Rightarrow> bool" where
  "stage_empty es f = (es = [])"

definition stage_created :: "registry \<Rightarrow> smoke_fixture \<Rightarrow> bool" where
  "stage_created es f = (\<exists>e. es = [e] \<and> smoke_stored create_body event_type_deployment (cr_tags create_body) e
     \<and> ev_id e = sf_parent_event_id f \<and> ev_id e \<noteq> [])"

definition stored_as :: "nat \<Rightarrow> change_event \<Rightarrow> bool" where
  "stored_as k e = (case current_fixtures ! k of (req, _) \<Rightarrow> smoke_stored req (cr_event_type req) (stored_tags req) e \<and> ev_id e \<noteq> [])"

definition stage_current :: "registry \<Rightarrow> smoke_fixture \<Rightarrow> bool" where
  "stage_current es f = (\<exists>e a b x d k. es = [e, a, b, x, d, k]
     \<and> smoke_stored create_body event_type_deployment (cr_tags create_body) e \<and> ev_id e = sf_parent_event_id f \<and> ev_id e \<noteq> []
     \<and> stored_as 0 a \<and> stored_as 1 b \<and> stored_as 2 x \<and> stored_as 3 d \<and> stored_as 4 k
     \<and> sf_current_active_id f = ev_id a \<and> sf_current_completed_id f = ev_id b \<and> sf_current_site_id f = ev_id d
     \<and> sf_current_other_team_id f = ev_id k)"

definition stage_star :: "nat \<Rightarrow> bool \<Rightarrow> registry \<Rightarrow> smoke_fixture \<Rightarrow> bool" where
  "stage_star n b es f = (length es = n \<and> starred es (sf_parent_event_id f) = b
     \<and> (\<exists>e \<in> set es. ev_id e = sf_parent_event_id f \<and> ev_id e \<noteq> [] \<and> ev_parent_id e = [] \<and> ev_external_id e = ''smoke-deploy-1''))"

definition stage_alerted :: "registry \<Rightarrow> smoke_fixture \<Rightarrow> bool" where
  "stage_alerted es f = (length es = 9 \<and> alerted es (sf_parent_event_id f) \<and> \<not> starred es (sf_parent_event_id f)
     \<and> (\<exists>e \<in> set es. ev_id e = sf_parent_event_id f \<and> ev_id e \<noteq> [] \<and> ev_parent_id e = [] \<and> ev_external_id e = ''smoke-deploy-1''))"

definition smoke_at ::
  "('s \<Rightarrow> bool) \<Rightarrow> ('s \<Rightarrow> bool) \<Rightarrow> ('s \<Rightarrow> registry) \<Rightarrow> (nat \<Rightarrow> moment) \<Rightarrow> (registry \<Rightarrow> smoke_fixture \<Rightarrow> bool)
    \<Rightarrow> 's \<times> nat \<Rightarrow> smoke_fixture \<Rightarrow> bool" where
  "smoke_at good ready reg mo stage sn f = (\<exists>es. smoke_world good ready reg mo es sn \<and> stage es f)"

lemma smoke_atE:
  assumes "smoke_at good ready reg mo stage sn f"
  obtains s n es where "sn = (s, n)" "smoke_world good ready reg mo es (s, n)" "stage es f"
  using assms by (cases sn) (auto simp: smoke_at_def)

lemma smoke_atI: "smoke_world good ready reg mo es sn \<Longrightarrow> stage es f \<Longrightarrow> smoke_at good ready reg mo stage sn f"
  by (auto simp: smoke_at_def)

subsection \<open>Health, authentication and the first event\<close>

context live_store
begin

lemma passes_health:
  assumes ok: "smoke_link_ok lib c l" and ping: "\<And>s. ready s \<Longrightarrow> ping s" and at: "smoke_at inv ready reg (sn_moment l) stage sn f"
  shows "succeeds (case_health_no_auth lib (smoke_served l S ping) c) sn f (\<lambda>_. smoke_at inv ready reg (sn_moment l) stage)"
    "succeeds (case_health_with_auth lib (smoke_served l S ping) c) sn f (\<lambda>_. smoke_at inv ready reg (sn_moment l) stage)"
proof -
  obtain s n es where sn: "sn = (s, n)" and w: "smoke_world inv ready reg (sn_moment l) es (s, n)" and st: "stage es f"
    using at by (rule smoke_atE)
  have path: "plain_target ''/api/v1/health''" by code_simp
  have "ping s" using ping w by (simp add: smoke_world_def)
  note sent = serve_health [where ping = ping, OF ok this]
  have again: "smoke_at inv ready reg (sn_moment l) stage (s, n + 1) f" by (rule smoke_atI [where stage = stage and f = f, OF smoke_world_next [OF w] st])
  have "succeeds (and_then (smoke_do lib (smoke_served l S ping) c ''GET'' ''/api/v1/health'' None opts) (\<lambda>r. expect_status lib r 200)) (s, n) f
      (\<lambda>_. smoke_at inv ready reg (sn_moment l) stage)" for opts
    by (rule succeeds_bind [where Q = "\<lambda>r w f'. sp_status r = 200 \<and> w = (s, n + 1) \<and> f' = f", OF succeeds_do [OF ok path sent]])
      (auto intro!: succeeds_status again [simplified])
  then show "succeeds (case_health_no_auth lib (smoke_served l S ping) c) sn f (\<lambda>_. smoke_at inv ready reg (sn_moment l) stage)"
    "succeeds (case_health_with_auth lib (smoke_served l S ping) c) sn f (\<lambda>_. smoke_at inv ready reg (sn_moment l) stage)"
    by (simp_all add: sn case_health_no_auth_def case_health_with_auth_def)
qed

lemma passes_refused:
  assumes ok: "smoke_link_ok lib c l" and at: "smoke_at inv ready reg (sn_moment l) stage sn f"
  shows "succeeds (case_api_no_auth lib (smoke_served l S ping) c) sn f (\<lambda>_. smoke_at inv ready reg (sn_moment l) stage)"
    "succeeds (case_api_wrong_token lib (smoke_served l S ping) c) sn f (\<lambda>_. smoke_at inv ready reg (sn_moment l) stage)"
proof -
  obtain s n es where sn: "sn = (s, n)" and w: "smoke_world inv ready reg (sn_moment l) es (s, n)" and st: "stage es f"
    using at by (rule smoke_atE)
  have path: "plain_target ''/api/v1/events''" by code_simp
  have again: "smoke_at inv ready reg (sn_moment l) stage (s, n + 1) f" by (rule smoke_atI [where stage = stage and f = f, OF smoke_world_next [OF w] st])
  have "succeeds (and_then (smoke_do lib (smoke_served l S ping) c ''GET'' ''/api/v1/events'' None [with_auth mode]) (\<lambda>r. expect_status lib r 401)) (s, n) f
      (\<lambda>_. smoke_at inv ready reg (sn_moment l) stage)" if "mode \<noteq> AuthBearer" for mode
    by (rule succeeds_bind [where Q = "\<lambda>r w f'. sp_status r = 401 \<and> w = (s, n + 1) \<and> f' = f", OF succeeds_do [OF ok path serve_refused [OF ok]]])
      (auto intro!: succeeds_status again [simplified] simp: that write_auth_error_def)
  then show "succeeds (case_api_no_auth lib (smoke_served l S ping) c) sn f (\<lambda>_. smoke_at inv ready reg (sn_moment l) stage)"
    "succeeds (case_api_wrong_token lib (smoke_served l S ping) c) sn f (\<lambda>_. smoke_at inv ready reg (sn_moment l) stage)"
    by (simp_all add: sn case_api_no_auth_def case_api_wrong_token_def)
qed

lemma passes_create:
  assumes ok: "smoke_link_ok lib c l" and at: "smoke_at inv ready reg (sn_moment l) stage_empty sn f"
  shows "succeeds (case_create_event lib (smoke_served l S ping) c) sn f (\<lambda>_. smoke_at inv ready reg (sn_moment l) stage_created)"
proof -
  obtain s n es where sn: "sn = (s, n)" and w: "smoke_world inv ready reg (sn_moment l) es (s, n)" and st: "es = []"
    using at by (rule smoke_atE) (simp add: stage_empty_def)
  have d: "distinct (map fst (cr_tags create_body))" by (simp add: create_body_def)
  have e: "find_by_external_id [] x = None" for x by (simp add: find_by_external_id_def)
  have p: "cr_parent_id create_body = []" by (simp add: create_body_def zero_create_request_def)
  show ?thesis
    unfolding case_create_event_def sn
  proof (rule succeeds_bind [where Q = "\<lambda>x w f'. f' = f \<and> (\<exists>e. x = (smoke_response_of l (created_event e), e)
      \<and> smoke_stored create_body event_type_deployment (cr_tags create_body) e \<and> ev_id e \<noteq> []
      \<and> smoke_world inv ready reg (sn_moment l) [e] w)"], goal_cases)
    case 1
    show ?case by (rule succeeds_create [OF ok w create_body_valid d]) (use st e p in auto)
  next
    case (2 x w f')
    then obtain e where x: "x = (smoke_response_of l (created_event e), e)" "f' = f" "ev_id e \<noteq> []"
        "smoke_world inv ready reg (sn_moment l) [e] w"
      and stored: "smoke_stored create_body event_type_deployment (cr_tags create_body) e" by blast
    have sel: "ev_user_name e = ''smoke''" "ev_event_type e = event_type_deployment" "tag_get (ev_tags e) ''env'' = ''prod''"
      using stored by (simp_all add: smoke_stored_def create_body_def tag_get_def zero_create_request_def)
    have "stage_created [e] (f\<lparr>sf_parent_event_id := ev_id e\<rparr>)" using stored x(3) by (simp add: stage_created_def)
    from smoke_atI [where stage = stage_created, OF x(4) this] show ?case
      unfolding x(1,2) prod.case
      by (intro succeeds_bind [where Q = "\<lambda>_ w' f'. w' = w \<and> f' = f"] succeeds_status succeeds_check)
        (auto intro!: succeeds_bind [where Q = "\<lambda>_ w' f'. w' = w \<and> f' = f"] succeeds_status succeeds_check succeeds_set simp: x(3) sel)
  qed
qed

lemma created_parent: "stage_created es f \<Longrightarrow> sf_parent_event_id f \<noteq> []"
  by (auto simp: stage_created_def)

lemma passes_idempotent:
  assumes ok: "smoke_link_ok lib c l" and at: "smoke_at inv ready reg (sn_moment l) stage_created sn f"
  shows "succeeds (case_create_idempotent lib (smoke_served l S ping) c) sn f (\<lambda>_. smoke_at inv ready reg (sn_moment l) stage_created)"
proof -
  obtain s n es where sn: "sn = (s, n)" and w: "smoke_world inv ready reg (sn_moment l) es (s, n)" and st: "stage_created es f"
    using at by (rule smoke_atE)
  obtain e where e: "es = [e]" "smoke_stored create_body event_type_deployment (cr_tags create_body) e" "ev_id e = sf_parent_event_id f"
    using st by (auto simp: stage_created_def)
  have ext: "cr_external_id repeated_body \<noteq> []" "find_by_external_id es (cr_external_id repeated_body) = Some e"
    using e by (simp_all add: repeated_body_def create_body_def smoke_stored_def find_by_external_id_def)
  have desc: "ev_description e = ''deploy v1.3.0 to prod''" using e(2) by (simp add: smoke_stored_def create_body_def)
  show ?thesis
    unfolding case_create_idempotent_def sn
  proof (intro succeeds_parent created_parent [OF st], rule succeeds_bind [where Q = "\<lambda>x w f'. f' = f \<and> (\<exists>r. x = (r, e)
      \<and> sp_status r = 200) \<and> smoke_world inv ready reg (sn_moment l) es w"], goal_cases)
    case 1
    show ?case by (rule succeeds_duplicate [OF ok w ext]) simp
  next
    case (2 x w f')
    then have "smoke_at inv ready reg (sn_moment l) stage_created w f" using st by (auto intro: smoke_atI)
    with 2 show ?case
      by (auto intro!: succeeds_bind [where Q = "\<lambda>_ w' f'. w' = w \<and> f' = f"] succeeds_status succeeds_check simp: e(3) desc)
  qed
qed

lemma passes_get:
  assumes ok: "smoke_link_ok lib c l" and at: "smoke_at inv ready reg (sn_moment l) stage_created sn f"
  shows "succeeds (case_get_event lib (smoke_served l S ping) c) sn f (\<lambda>_. smoke_at inv ready reg (sn_moment l) stage_created)"
proof -
  obtain s n es where sn: "sn = (s, n)" and w: "smoke_world inv ready reg (sn_moment l) es (s, n)" and st: "stage_created es f"
    using at by (rule smoke_atE)
  obtain e where e: "es = [e]" "ev_id e = sf_parent_event_id f" using st by (auto simp: stage_created_def)
  then have find: "find_by_id es (sf_parent_event_id f) = Some e" by (simp add: find_by_id_def)
  show ?thesis
    unfolding case_get_event_def sn
  proof (intro succeeds_parent created_parent [OF st], rule succeeds_bind [where Q = "\<lambda>x w f'. f' = f \<and> (\<exists>r. x = (r, e)
      \<and> sp_status r = 200) \<and> smoke_world inv ready reg (sn_moment l) es w"], goal_cases)
    case 1
    show ?case by (rule succeeds_get_event [OF ok w find]) simp
  next
    case (2 x w f')
    then have "smoke_at inv ready reg (sn_moment l) stage_created w f" using st by (auto intro: smoke_atI)
    with 2 show ?case
      by (auto intro!: succeeds_bind [where Q = "\<lambda>_ w' f'. w' = w \<and> f' = f"] succeeds_status succeeds_check simp: e(2))
  qed
qed

lemma passes_validation:
  assumes ok: "smoke_link_ok lib c l" and at: "smoke_at inv ready reg (sn_moment l) stage sn f"
  shows "succeeds (case_create_validation_user lib (smoke_served l S ping) c) sn f (\<lambda>_. smoke_at inv ready reg (sn_moment l) stage)"
    "succeeds (case_create_validation_type lib (smoke_served l S ping) c) sn f (\<lambda>_. smoke_at inv ready reg (sn_moment l) stage)"
proof -
  obtain s n es where sn: "sn = (s, n)" and w: "smoke_world inv ready reg (sn_moment l) es (s, n)" and st: "stage es f"
    using at by (rule smoke_atE)
  have "succeeds (and_then (post_json lib (smoke_served l S ping) c ''/api/v1/events'' req None () []) (\<lambda>(r, _). expect_status lib r 400))
      (s, n) f (\<lambda>_. smoke_at inv ready reg (sn_moment l) stage)"
    if v: "\<And>parse. validate_create_request parse req True = Inl err" "cr_external_id req = []" "rs_status (create_failed err) = 400" for req err
    by (rule succeeds_bind [where Q = "\<lambda>x w f'. f' = f \<and> sp_status (fst x) = 400 \<and> smoke_world inv ready reg (sn_moment l) es w",
          OF succeeds_invalid [OF ok w v]])
      (auto intro!: succeeds_status smoke_atI [where stage = stage] st)
  from this [OF missing_user_invalid] this [OF missing_type_invalid]
  show "succeeds (case_create_validation_user lib (smoke_served l S ping) c) sn f (\<lambda>_. smoke_at inv ready reg (sn_moment l) stage)"
    "succeeds (case_create_validation_type lib (smoke_served l S ping) c) sn f (\<lambda>_. smoke_at inv ready reg (sn_moment l) stage)"
    by (simp_all add: sn case_create_validation_user_def case_create_validation_type_def zero_create_request_def
        create_failed_def map_service_error_def)
qed

text \<open>The three filtered listings find the event of the first case and nothing else.\<close>

lemma listing_targets:
  "plain_target ''/api/v1/events?user=smoke''" "plain_target ''/api/v1/events?type=deployment''" "plain_target ''/api/v1/events?tag=env:prod''"
  "plain_target ''/api/v1/events?alerted=true&top_level=true''"
  "takeWhile (\<lambda>ch. ch \<noteq> CHR ''?'') ''/api/v1/events?user=smoke'' = ''/api/v1/events''"
  "takeWhile (\<lambda>ch. ch \<noteq> CHR ''?'') ''/api/v1/events?type=deployment'' = ''/api/v1/events''"
  "takeWhile (\<lambda>ch. ch \<noteq> CHR ''?'') ''/api/v1/events?tag=env:prod'' = ''/api/v1/events''"
  "takeWhile (\<lambda>ch. ch \<noteq> CHR ''?'') ''/api/v1/events?alerted=true&top_level=true'' = ''/api/v1/events''"
  "parse_list_params tlib (parse_query (drop 15 ''/api/v1/events?user=smoke'')) = Inr (zero_list_params\<lparr>lp_user_name := ''smoke''\<rparr>)"
  "parse_list_params tlib (parse_query (drop 15 ''/api/v1/events?type=deployment'')) = Inr (zero_list_params\<lparr>lp_event_type := ''deployment''\<rparr>)"
  "parse_list_params tlib (parse_query (drop 15 ''/api/v1/events?tag=env:prod'')) = Inr (zero_list_params\<lparr>lp_tags := [(''env'', ''prod'')]\<rparr>)"
  "parse_list_params tlib (parse_query (drop 15 ''/api/v1/events?alerted=true&top_level=true'')) =
    Inr (zero_list_params\<lparr>lp_alerted_only := True, lp_top_level := True\<rparr>)"
  by code_simp+

lemma listed:
  assumes ok: "smoke_link_ok lib c l" and w: "smoke_world inv ready reg (sn_moment l) es (s, n)" and small: "length es \<le> 50"
    and path: "plain_target path" "takeWhile (\<lambda>ch. ch \<noteq> CHR ''?'') path = ''/api/v1/events''"
      "\<And>tlib. parse_list_params tlib (parse_query (drop 15 path)) = Inr p"
    and p: "distinct (map fst (lp_tags p))" "lp_offset p = 0" "lp_limit p = 0"
  shows "succeeds (get_json lib (smoke_served l S ping) c path (Some (sk_list lib)) zero []) (s, n) f
    (\<lambda>x w f'. f' = f \<and> (\<exists>r lr. x = (r, lr) \<and> sp_status r = 200 \<and> set (lr_events lr) = {e \<in> set es. event_selected es p e}
        \<and> lr_total_count lr = int (length (filter (event_selected es p) es))) \<and> smoke_world inv ready reg (sn_moment l) es w)"
  by (rule succeeds_list [OF ok w path p(1,2)]) (simp add: small_page [OF small p(3,2)])

lemma created_selected:
  assumes "smoke_stored create_body event_type_deployment (cr_tags create_body) e"
  shows "event_selected es (zero_list_params\<lparr>lp_user_name := ''smoke''\<rparr>) e" "event_selected es (zero_list_params\<lparr>lp_event_type := ''deployment''\<rparr>) e"
    "event_selected es (zero_list_params\<lparr>lp_tags := [(''env'', ''prod'')]\<rparr>) e"
  using assms by (simp_all add: event_selected_def zero_list_params_def in_time_window_def smoke_stored_def create_body_def
      zero_create_request_def event_type_deployment_def)

lemma selected_fields:
  "event_selected es (zero_list_params\<lparr>lp_user_name := ''smoke''\<rparr>) e \<Longrightarrow> ev_user_name e = ''smoke''"
  "event_selected es (zero_list_params\<lparr>lp_event_type := ''deployment''\<rparr>) e \<Longrightarrow> ev_event_type e = event_type_deployment"
  "event_selected es (zero_list_params\<lparr>lp_tags := [(''env'', ''prod'')]\<rparr>) e \<Longrightarrow> tag_get (ev_tags e) ''env'' = ''prod''"
  by (simp_all add: event_selected_def zero_list_params_def event_type_deployment_def tag_get_def)

lemma succeeds_no_leak:
  assumes "\<And>e. e \<in> set es \<Longrightarrow> \<not> P e" and "Q () w f"
  shows "succeeds (case find P es of None \<Rightarrow> ret () | Some e \<Rightarrow> throw (g e)) w f Q"
proof -
  have "find P es = None" using assms(1) by (auto simp: find_None_iff)
  then show ?thesis by (simp add: succeeds_ret assms(2))
qed

lemma passes_filters:
  assumes ok: "smoke_link_ok lib c l" and at: "smoke_at inv ready reg (sn_moment l) stage_created sn f"
  shows "succeeds (case_list_filter_user lib (smoke_served l S ping) c) sn f (\<lambda>_. smoke_at inv ready reg (sn_moment l) stage_created)"
    "succeeds (case_list_filter_type lib (smoke_served l S ping) c) sn f (\<lambda>_. smoke_at inv ready reg (sn_moment l) stage_created)"
    "succeeds (case_list_filter_tag lib (smoke_served l S ping) c) sn f (\<lambda>_. smoke_at inv ready reg (sn_moment l) stage_created)"
proof -
  obtain s n es where sn: "sn = (s, n)" and w: "smoke_world inv ready reg (sn_moment l) es (s, n)" and st: "stage_created es f"
    using at by (rule smoke_atE)
  obtain e where e: "es = [e]" "smoke_stored create_body event_type_deployment (cr_tags create_body) e"
    using st by (auto simp: stage_created_def)
  have small: "length es \<le> 50" by (simp add: e(1))
  note sel = created_selected [OF e(2), of es]
  note fields = selected_fields(1) [OF sel(1)] selected_fields(2) [OF sel(2)] selected_fields(3) [OF sel(3)]
  have next_at: "smoke_at inv ready reg (sn_moment l) stage_created w f" if "smoke_world inv ready reg (sn_moment l) es w" for w
    using that st by (auto intro: smoke_atI)
  have zero: "distinct (map fst (lp_tags (zero_list_params\<lparr>lp_user_name := u\<rparr>)))" "lp_offset (zero_list_params\<lparr>lp_user_name := u\<rparr>) = 0"
      "lp_limit (zero_list_params\<lparr>lp_user_name := u\<rparr>) = 0" "distinct (map fst (lp_tags (zero_list_params\<lparr>lp_event_type := u\<rparr>)))"
      "lp_offset (zero_list_params\<lparr>lp_event_type := u\<rparr>) = 0" "lp_limit (zero_list_params\<lparr>lp_event_type := u\<rparr>) = 0"
      "distinct (map fst (lp_tags (zero_list_params\<lparr>lp_tags := [(u, v)]\<rparr>)))"
      "lp_offset (zero_list_params\<lparr>lp_tags := tgs\<rparr>) = 0" "lp_limit (zero_list_params\<lparr>lp_tags := tgs\<rparr>) = 0" for u v tgs
    by (simp_all add: zero_list_params_def)
  have type_path: "''/api/v1/events?type='' @ event_type_deployment = ''/api/v1/events?type=deployment''" by (simp add: event_type_deployment_def)
  show "succeeds (case_list_filter_user lib (smoke_served l S ping) c) sn f (\<lambda>_. smoke_at inv ready reg (sn_moment l) stage_created)"
    unfolding case_list_filter_user_def sn
    by (rule succeeds_bind [OF listed [OF ok w small listing_targets(1,5,9) zero(1-3)]])
      (auto intro!: succeeds_bind [where Q = "\<lambda>_ w' f'. smoke_at inv ready reg (sn_moment l) stage_created w' f'"] succeeds_status
        succeeds_check succeeds_no_leak next_at simp: fields e(1) sel [unfolded e(1)])
  show "succeeds (case_list_filter_type lib (smoke_served l S ping) c) sn f (\<lambda>_. smoke_at inv ready reg (sn_moment l) stage_created)"
    unfolding case_list_filter_type_def sn type_path
    by (rule succeeds_bind [OF listed [OF ok w small listing_targets(2,6,10) zero(4-6)]])
      (auto intro!: succeeds_bind [where Q = "\<lambda>_ w' f'. smoke_at inv ready reg (sn_moment l) stage_created w' f'"] succeeds_status
        succeeds_check succeeds_no_leak next_at simp: fields e(1) sel [unfolded e(1)])
  show "succeeds (case_list_filter_tag lib (smoke_served l S ping) c) sn f (\<lambda>_. smoke_at inv ready reg (sn_moment l) stage_created)"
    unfolding case_list_filter_tag_def sn
    by (rule succeeds_bind [OF listed [OF ok w small listing_targets(3,7,11) zero(7-9)]])
      (auto intro!: succeeds_bind [where Q = "\<lambda>_ w' f'. smoke_at inv ready reg (sn_moment l) stage_created w' f'"] succeeds_status
        succeeds_check succeeds_no_leak next_at simp: fields e(1) sel [unfolded e(1)])
qed

end

end
