(* ===== verification/SmokeStages.thy ===== *)
theory SmokeStages
  imports SmokePasses
begin

section \<open>The Current, star, alert and sign-in cases\<close>

text \<open>
  The second half of the smoke cases, and the run of all of them: the loop over the Current requests, the
  view of one team, the star toggled twice, the alert, and the sign-in page.
\<close>

subsection \<open>The Current requests\<close>

lemma find_external_append_fresh:
  "find_by_external_id es x = None \<Longrightarrow> ev_external_id e \<noteq> x \<Longrightarrow> find_by_external_id (es @ [e]) x = None"
  by (simp add: find_by_external_id_append)

lemma current_assigns:
  "\<exists>r0 r1 r2 r3 r4. current_fixtures = [(r0, \<lambda>i f. f\<lparr>sf_current_active_id := i\<rparr>), (r1, \<lambda>i f. f\<lparr>sf_current_completed_id := i\<rparr>),
     (r2, \<lambda>i f. f), (r3, \<lambda>i f. f\<lparr>sf_current_site_id := i\<rparr>), (r4, \<lambda>i f. f\<lparr>sf_current_other_team_id := i\<rparr>)]"
  unfolding current_fixtures_def by blast

context live_store
begin

lemma passes_loop:
  assumes ok: "smoke_link_ok lib c l"
  shows "smoke_world inv ready reg (sn_moment l) es (s, n) \<Longrightarrow>
    list_all (\<lambda>(req, assign). (\<forall>parse. validate_create_request parse req True = Inr (cr_event_type req, stored_tags req))
      \<and> distinct (map fst (cr_tags req)) \<and> cr_parent_id req = [] \<and> cr_external_id req \<noteq> []
      \<and> find_by_external_id es (cr_external_id req) = None) items \<Longrightarrow>
    distinct (map (\<lambda>(req, assign). cr_external_id req) items) \<Longrightarrow>
    succeeds (create_current_loop items lib (smoke_served l S ping) c) (s, n) f (\<lambda>_ w f'. \<exists>cs.
      smoke_world inv ready reg (sn_moment l) (es @ cs) w
      \<and> list_all2 (\<lambda>(req, assign) e. smoke_stored req (cr_event_type req) (stored_tags req) e \<and> ev_id e \<noteq> []) items cs
      \<and> f' = fold (\<lambda>((req, assign), e). assign (ev_id e)) (zip items cs) f)"
proof (induction items arbitrary: es s n f)
  case Nil
  then show ?case by (auto intro!: succeeds_ret)
next
  case (Cons item items)
  obtain req assign where item: "item = (req, assign)" by fastforce
  have v: "\<And>parse. validate_create_request parse req True = Inr (cr_event_type req, stored_tags req)"
      and d: "distinct (map fst (cr_tags req))" and p: "cr_parent_id req = []" and x: "find_by_external_id es (cr_external_id req) = None"
    using Cons.prems(2) by (simp_all add: item)
  show ?case
    unfolding item create_current_loop.simps
  proof (rule succeeds_bind [where Q = "\<lambda>y w f'. f' = f \<and> (\<exists>e s'. y = (smoke_response_of l (created_event e), e) \<and> w = (s', n + 1)
      \<and> smoke_stored req (cr_event_type req) (stored_tags req) e \<and> ev_id e \<noteq> []
      \<and> smoke_world inv ready reg (sn_moment l) (es @ [e]) w)"], goal_cases)
    case 1
    show ?case by (rule succeeds_create [OF ok Cons.prems(1) v d]) (use x p in auto)
  next
    case (2 y w f')
    then obtain e s' where y: "y = (smoke_response_of l (created_event e), e)" "w = (s', n + 1)" "f' = f" "ev_id e \<noteq> []"
        "smoke_stored req (cr_event_type req) (stored_tags req) e" "smoke_world inv ready reg (sn_moment l) (es @ [e]) (s', n + 1)" by blast
    have other: "cr_external_id a \<noteq> cr_external_id req" if "(a, b) \<in> set items" for a b
      using Cons.prems(3) that by (force simp: item)
    have fresh: "list_all (\<lambda>(req, assign). (\<forall>parse. validate_create_request parse req True = Inr (cr_event_type req, stored_tags req))
        \<and> distinct (map fst (cr_tags req)) \<and> cr_parent_id req = [] \<and> cr_external_id req \<noteq> []
        \<and> find_by_external_id (es @ [e]) (cr_external_id req) = None) items"
      using Cons.prems(2) y(5) other by (fastforce simp: list_all_iff item smoke_stored_def intro!: find_external_append_fresh)
    have step: "succeeds (create_current_loop items lib (smoke_served l S ping) c) (s', n + 1) (assign (ev_id e) f) (\<lambda>_ w f'. \<exists>cs.
        smoke_world inv ready reg (sn_moment l) ((es @ [e]) @ cs) w
        \<and> list_all2 (\<lambda>(req, assign) e. smoke_stored req (cr_event_type req) (stored_tags req) e \<and> ev_id e \<noteq> []) items cs
        \<and> f' = fold (\<lambda>((req, assign), e). assign (ev_id e)) (zip items cs) (assign (ev_id e) f))"
      by (rule Cons.IH [OF y(6) fresh]) (use Cons.prems(3) in \<open>simp add: item\<close>)
    have "succeeds (create_current_loop items lib (smoke_served l S ping) c) (s', n + 1) (assign (ev_id e) f) (\<lambda>_ w f'. \<exists>cs.
        smoke_world inv ready reg (sn_moment l) (es @ cs) w
        \<and> list_all2 (\<lambda>(req, assign) e. smoke_stored req (cr_event_type req) (stored_tags req) e \<and> ev_id e \<noteq> []) ((req, assign) # items) cs
        \<and> f' = fold (\<lambda>((req, assign), e). assign (ev_id e)) (zip ((req, assign) # items) cs) f)"
    proof (rule succeeds_mono [OF step], elim exE conjE)
      fix u w f' cs
      assume "smoke_world inv ready reg (sn_moment l) ((es @ [e]) @ cs) w"
        "list_all2 (\<lambda>(req, assign) e. smoke_stored req (cr_event_type req) (stored_tags req) e \<and> ev_id e \<noteq> []) items cs"
        "f' = fold (\<lambda>((req, assign), e). assign (ev_id e)) (zip items cs) (assign (ev_id e) f)"
      with y(4,5) show "\<exists>cs. smoke_world inv ready reg (sn_moment l) (es @ cs) w
        \<and> list_all2 (\<lambda>(req, assign) e. smoke_stored req (cr_event_type req) (stored_tags req) e \<and> ev_id e \<noteq> []) ((req, assign) # items) cs
        \<and> f' = fold (\<lambda>((req, assign), e). assign (ev_id e)) (zip ((req, assign) # items) cs) f"
        by (intro exI [of _ "e # cs"]) simp
    qed
    then show ?case unfolding y(1-3)
      by (simp, intro succeeds_bind [where Q = "\<lambda>_ w' f'. w' = (s', n + 1) \<and> f' = assign (ev_id e) f", OF succeeds_set]) simp_all
  qed
qed

lemma passes_current_fixtures:
  assumes ok: "smoke_link_ok lib c l" and at: "smoke_at inv ready reg (sn_moment l) stage_created sn f"
  shows "succeeds (case_create_current_fixtures lib (smoke_served l S ping) c) sn f (\<lambda>_. smoke_at inv ready reg (sn_moment l) stage_current)"
proof -
  obtain s n es where sn: "sn = (s, n)" and w: "smoke_world inv ready reg (sn_moment l) es (s, n)" and st: "stage_created es f"
    using at by (rule smoke_atE)
  obtain e where e: "es = [e]" "smoke_stored create_body event_type_deployment (cr_tags create_body) e" "ev_id e = sf_parent_event_id f" "ev_id e \<noteq> []"
    using st by (auto simp: stage_created_def)
  have x: "ev_external_id e = ''smoke-deploy-1''" using e(2) by (simp add: smoke_stored_def create_body_def)
  have fresh: "list_all (\<lambda>(req, assign). find_by_external_id es (cr_external_id req) = None) current_fixtures"
    by (simp add: current_fixtures_def current_request_def e(1) find_by_external_id_def x)
  have items: "list_all (\<lambda>(req, assign). (\<forall>parse. validate_create_request parse req True = Inr (cr_event_type req, stored_tags req))
      \<and> distinct (map fst (cr_tags req)) \<and> cr_parent_id req = [] \<and> cr_external_id req \<noteq> []
      \<and> find_by_external_id es (cr_external_id req) = None) current_fixtures"
  proof -
    have "list_all (\<lambda>x. P x \<and> Q x) xs" if "list_all P xs" "list_all Q xs" for P Q and xs :: "(create_request \<times> (string \<Rightarrow> smoke_fixture \<Rightarrow> smoke_fixture)) list"
      using that by (simp add: list_all_iff)
    from this [OF current_bodies_valid fresh] show ?thesis by (simp only: case_prod_beta' conj_assoc)
  qed
  have dist: "distinct (map (\<lambda>(req, assign). cr_external_id req) current_fixtures)"
    by (simp add: current_fixtures_def current_request_def)
  show ?thesis
    unfolding case_create_current_fixtures_def sn
  proof (rule succeeds_mono [OF passes_loop [OF ok w items dist]], elim exE conjE)
    fix u w f' cs
    assume W: "smoke_world inv ready reg (sn_moment l) (es @ cs) w"
      and stored: "list_all2 (\<lambda>(req, assign) e. smoke_stored req (cr_event_type req) (stored_tags req) e \<and> ev_id e \<noteq> []) current_fixtures cs"
      and f': "f' = fold (\<lambda>((req, assign), e). assign (ev_id e)) (zip current_fixtures cs) f"
    from list_all2_lengthD [OF stored] have len: "length cs = 5" by (simp add: current_fixtures_def)
    then obtain a b x d k where cs: "cs = [a, b, x, d, k]" by (auto simp: eval_nat_numeral length_Suc_conv)
    have nth: "stored_as i (cs ! i)" if "i < 5" for i
      using list_all2_nthD2 [OF stored, of i] that len by (simp add: stored_as_def split: prod.splits)
    have made: "stored_as 0 a" "stored_as 1 b" "stored_as 2 x" "stored_as 3 d" "stored_as 4 k"
      using nth [of 0] nth [of 1] nth [of 2] nth [of 3] nth [of 4] by (simp_all add: cs)
    obtain r0 r1 r2 r3 r4 where fx: "current_fixtures = [(r0, \<lambda>i f. f\<lparr>sf_current_active_id := i\<rparr>), (r1, \<lambda>i f. f\<lparr>sf_current_completed_id := i\<rparr>),
        (r2, \<lambda>i f. f), (r3, \<lambda>i f. f\<lparr>sf_current_site_id := i\<rparr>), (r4, \<lambda>i f. f\<lparr>sf_current_other_team_id := i\<rparr>)]"
      using current_assigns by (elim exE) (rule that)
    have ids: "sf_parent_event_id f' = sf_parent_event_id f" "sf_current_active_id f' = ev_id a" "sf_current_completed_id f' = ev_id b"
        "sf_current_site_id f' = ev_id d" "sf_current_other_team_id f' = ev_id k"
      unfolding f' cs fx by simp_all
    have "stage_current (es @ cs) f'"
      unfolding stage_current_def e(1) cs append.simps ids
      by (intro exI conjI) (rule refl | fact made e(2-4))+
    with W show "smoke_at inv ready reg (sn_moment l) stage_current w f'" by (rule smoke_atI [where stage = stage_current])
  qed
qed

end

subsection \<open>The view of one team\<close>

definition team_view :: current_params where
  "team_view = zero_current_params\<lparr>cp_for_team := ''payments''\<rparr>"

lemma first_no_operation:
  "smoke_stored create_body event_type_deployment (cr_tags create_body) e \<Longrightarrow> operation_in_phase phase e = None"
  by (simp add: smoke_stored_def create_body_def operation_in_phase_def)

text \<open>The operations the five events start or end, and which of them the team sees.\<close>

lemma stored_operations:
  "stored_as 0 a \<Longrightarrow> operation_in_phase ''start'' a = Some (''deployment'', ''deploy_id'', ''smoke-active'')
     \<and> operation_in_phase ''end'' a = None \<and> visible_in team_view a"
  "stored_as 1 a \<Longrightarrow> operation_in_phase ''start'' a = Some (''deployment'', ''deploy_id'', ''smoke-completed'')
     \<and> operation_in_phase ''end'' a = None"
  "stored_as 2 a \<Longrightarrow> operation_in_phase ''start'' a = None
     \<and> operation_in_phase ''end'' a = Some (''deployment'', ''deploy_id'', ''smoke-completed'')"
  "stored_as 3 a \<Longrightarrow> operation_in_phase ''start'' a = Some (''incident'', ''change_id'', ''smoke-site'')
     \<and> operation_in_phase ''end'' a = None \<and> visible_in team_view a"
  "stored_as 4 a \<Longrightarrow> operation_in_phase ''start'' a = Some (''deployment'', ''change_id'', ''smoke-other-team'')
     \<and> operation_in_phase ''end'' a = None \<and> \<not> visible_in team_view a"
  by (simp_all add: stored_as_def current_fixtures_def current_request_def smoke_stored_def stored_tags_def zero_create_request_def
      operation_in_phase_def correlation_def tag_get_def visible_in_def team_view_def zero_current_params_def
      event_type_deployment_def eval_nat_numeral)

lemma stored_as_id: "stored_as i e \<Longrightarrow> ev_id e \<noteq> []"
  by (simp add: stored_as_def split: prod.splits)

lemma stored_as_parent: "stored_as i e \<Longrightarrow> i < 5 \<Longrightarrow> ev_parent_id e = []"
proof (cases "current_fixtures ! i")
  case (Pair req assign)
  assume "stored_as i e" "i < 5"
  moreover have "length current_fixtures = 5" by (simp add: current_fixtures_def)
  ultimately have "current_fixtures ! i \<in> set current_fixtures" by simp
  then have "cr_parent_id req = []" using current_bodies_valid unfolding Pair list_all_iff by blast
  with \<open>stored_as i e\<close> Pair show ?thesis by (simp add: stored_as_def smoke_stored_def)
qed

lemma created_no_parent: "smoke_stored create_body event_type_deployment (cr_tags create_body) e \<Longrightarrow> ev_parent_id e = []"
  by (simp add: smoke_stored_def create_body_def zero_create_request_def)

lemma created_external: "smoke_stored create_body event_type_deployment (cr_tags create_body) e \<Longrightarrow> ev_external_id e = ''smoke-deploy-1''"
  by (simp add: smoke_stored_def create_body_def zero_create_request_def)

lemma represents_alone:
  assumes "operation_in_phase ''start'' e = Some op" and "\<not> operation_ended es op"
    and "\<And>d. d \<in> set es \<Longrightarrow> operation_in_phase ''start'' d = Some op \<Longrightarrow> d = e"
  shows "represents_active es e"
  using assms by (auto simp: represents_active_def list_all_iff)

lemma current_view:
  assumes "smoke_stored create_body event_type_deployment (cr_tags create_body) e"
    and "stored_as 0 a" "stored_as 1 b" "stored_as 2 x" "stored_as 3 d" "stored_as 4 k"
  shows "{v \<in> set [e, a, b, x, d, k]. represents_active [e, a, b, x, d, k] v \<and> visible_in team_view v} = {a, d}"
proof -
  let ?es = "[e, a, b, x, d, k]"
  note first = first_no_operation [OF assms(1)]
  note ops = stored_operations(1) [OF assms(2)] stored_operations(2) [OF assms(3)] stored_operations(3) [OF assms(4)]
    stored_operations(4) [OF assms(5)] stored_operations(5) [OF assms(6)]
  have ended: "operation_ended ?es op \<longleftrightarrow> op = (''deployment'', ''deploy_id'', ''smoke-completed'')" for op
    using ops by (auto simp: operation_ended_def first)
  have "represents_active ?es a"
    by (rule represents_alone [OF conjunct1 [OF ops(1)]]) (use ops in \<open>auto simp: ended first\<close>)
  moreover have "represents_active ?es d"
    by (rule represents_alone [OF conjunct1 [OF ops(4)]]) (use ops in \<open>auto simp: ended first\<close>)
  moreover have "\<not> represents_active ?es b" "\<not> represents_active ?es x" "\<not> represents_active ?es e"
    using ops by (simp_all add: represents_active_def ended first)
  ultimately show ?thesis using ops by auto
qed

context live_store
begin

lemma current_targets:
  "plain_target ''/api/v1/current?for_team=payments''"
  "takeWhile (\<lambda>ch. ch \<noteq> CHR ''?'') ''/api/v1/current?for_team=payments'' = ''/api/v1/current''"
  "parse_current_params (parse_query (drop 16 ''/api/v1/current?for_team=payments'')) = Inr team_view"
proof -
  show "plain_target ''/api/v1/current?for_team=payments''"
    "takeWhile (\<lambda>ch. ch \<noteq> CHR ''?'') ''/api/v1/current?for_team=payments'' = ''/api/v1/current''" by code_simp+
  have q: "parse_query (drop 16 ''/api/v1/current?for_team=payments'') = [(''for_team'', [''payments''])]" by code_simp
  have "trim_space [] = []" by (rule trim_space_Nil)
  then show "parse_current_params (parse_query (drop 16 ''/api/v1/current?for_team=payments'')) = Inr team_view"
    unfolding q
    by (simp add: parse_current_params_def q_get_def q_all_def smoke_trim normalize_current_values_def parse_int_param_def team_view_def
        zero_current_params_def)
qed

lemma passes_current:
  assumes ok: "smoke_link_ok lib c l" and at: "smoke_at inv ready reg (sn_moment l) stage_current sn f"
  shows "succeeds (case_list_current_for_team lib (smoke_served l S ping) c) sn f
    (\<lambda>_. smoke_at inv ready reg (sn_moment l) (stage_star 6 False))"
proof -
  obtain s n es where sn: "sn = (s, n)" and w: "smoke_world inv ready reg (sn_moment l) es (s, n)" and st: "stage_current es f"
    using at by (rule smoke_atE)
  obtain e a b x d k where es: "es = [e, a, b, x, d, k]"
      and e: "smoke_stored create_body event_type_deployment (cr_tags create_body) e" "ev_id e = sf_parent_event_id f" "ev_id e \<noteq> []"
      and made: "stored_as 0 a" "stored_as 1 b" "stored_as 2 x" "stored_as 3 d" "stored_as 4 k"
      and ids: "sf_current_active_id f = ev_id a" "sf_current_completed_id f = ev_id b" "sf_current_site_id f = ev_id d"
        "sf_current_other_team_id f = ev_id k"
    using st unfolding stage_current_def by (elim exE conjE) (rule that)
  have nonempty: "ev_id a \<noteq> []" "ev_id b \<noteq> []" "ev_id d \<noteq> []" "ev_id k \<noteq> []"
    using made [THEN stored_as_id] by simp_all
  have "inv s" "reg s = es" using w by (simp_all add: smoke_world_def)
  then have "distinct (map ev_id es)" using reg_ok [of s] by (simp add: registry_ok_def)
  then have apart: "ev_id b \<noteq> ev_id a" "ev_id b \<noteq> ev_id d" "ev_id k \<noteq> ev_id a" "ev_id k \<noteq> ev_id d" by (auto simp: es)
  have parents: "ev_parent_id v = []" if "v \<in> set es" for v
    using that created_no_parent [OF e(1)] made(1) [THEN stored_as_parent] made(2) [THEN stored_as_parent]
      made(3) [THEN stored_as_parent] made(4) [THEN stored_as_parent] made(5) [THEN stored_as_parent]
    by (auto simp: es)
  then have "filter (\<lambda>v. is_child (ev_id e) v \<and> P v) es = []" for P using e(3) by (auto simp: filter_empty_conv is_child_def)
  then have "\<not> starred es (ev_id e)" by (simp add: starred_def latest_of_def)
  then have star: "stage_star 6 False es f" using e parents created_external [OF e(1)] by (auto simp: stage_star_def es)
  have small: "length es \<le> 50" by (simp add: es)
  have zero: "cp_limit team_view = 0" "cp_offset team_view = 0" by (simp_all add: team_view_def zero_current_params_def)
  show ?thesis
    unfolding case_list_current_for_team_def sn
  proof (rule succeeds_bind [where Q = "\<lambda>y w f'. y = f \<and> w = (s, n) \<and> f' = f", OF succeeds_get], goal_cases)
    case (2 y w' f')
    then have y: "y = f" "w' = (s, n)" "f' = f" by simp_all
    have guard: "\<not> (ev_id a = [] \<or> ev_id b = [] \<or> ev_id d = [] \<or> ev_id k = [])" using nonempty by blast
    show ?case
      unfolding y ids if_not_P [OF guard]
    proof (rule succeeds_bind [where Q = "\<lambda>y w f'. f' = f \<and> (\<exists>r lr. y = (r, lr) \<and> sp_status r = 200
        \<and> set (lr_events lr) = {a, d}) \<and> smoke_world inv ready reg (sn_moment l) es w"], goal_cases)
      case 1
      show ?case by (rule succeeds_current [OF ok w small current_targets zero]) (simp add: current_view [OF e(1) made, folded es])
    next
      case (2 y w f')
      then obtain r lr where y: "y = (r, lr)" "sp_status r = 200" "set (lr_events lr) = {a, d}" "f' = f"
          and w: "smoke_world inv ready reg (sn_moment l) es w" by blast
      have end_at: "smoke_at inv ready reg (sn_moment l) (stage_star 6 False) w f" by (rule smoke_atI [where stage = "stage_star 6 False", OF w star])
      show ?case
        unfolding y(1,4) prod.case Let_def
        by (rule succeeds_bind [where Q = "\<lambda>_ w' f'. w' = w \<and> f' = f", OF succeeds_status [OF y(2)]], simp, clarify,
            (rule succeeds_bind [where Q = "\<lambda>_ w' f'. w' = w \<and> f' = f", OF succeeds_check], use apart y(3) in force, simp, clarify)+,
            rule succeeds_check)
          (use apart y(3) end_at in force)+
    qed
  qed simp
qed

end

end
