(* ===== verification/SmokeRun.thy ===== *)
theory SmokeRun
  imports SmokeStages
begin

section \<open>A run of all smoke cases\<close>

text \<open>
  The star, alert and sign-in cases, and the loop over all cases: on an empty registry none fails; where
  the first event is already stored the case that creates it fails.
\<close>

context live_store
begin

lemma star_parent:
  assumes "stage_star m b es f"
  obtains e where "find_by_id es (sf_parent_event_id f) = Some e" "sf_parent_event_id f \<in> registry_ids es" "sf_parent_event_id f \<noteq> []"
proof -
  obtain e where e: "e \<in> set es" "ev_id e = sf_parent_event_id f" "ev_id e \<noteq> []" using assms by (auto simp: stage_star_def)
  have "sf_parent_event_id f \<in> registry_ids es" unfolding registry_ids_def e(2) [symmetric] by (rule imageI [OF e(1)])
  then have "find_by_id es (sf_parent_event_id f) \<noteq> None" using find_by_id_ids [of es "sf_parent_event_id f"] by blast
  with e that \<open>sf_parent_event_id f \<in> registry_ids es\<close> show thesis by fastforce
qed

lemma stage_star_next:
  "stage_star m b es f \<Longrightarrow> starred (es @ [e]) (sf_parent_event_id f) = (\<not> starred es (sf_parent_event_id f)) \<Longrightarrow>
    stage_star (m + 1) (\<not> b) (es @ [e]) f"
  by (auto simp: stage_star_def)

lemma passes_star:
  assumes ok: "smoke_link_ok lib c l" and at: "smoke_at inv ready reg (sn_moment l) (stage_star m b) sn f"
  shows "succeeds (case_toggle_star_api lib (smoke_served l S ping) c) sn f (\<lambda>_. smoke_at inv ready reg (sn_moment l) (stage_star (m + 1) (\<not> b)))"
proof -
  obtain s n es where sn: "sn = (s, n)" and w: "smoke_world inv ready reg (sn_moment l) es (s, n)" and st: "stage_star m b es f"
    using at by (rule smoke_atE)
  obtain e where p: "sf_parent_event_id f \<in> registry_ids es" "sf_parent_event_id f \<noteq> []" using st by (rule star_parent)
  show ?thesis
    unfolding case_toggle_star_api_def sn
    by (intro succeeds_parent p(2), rule succeeds_bind [where Q = "\<lambda>r w f'. sp_status r = 201 \<and> f' = f
          \<and> smoke_at inv ready reg (sn_moment l) (stage_star (m + 1) (\<not> b)) w f", OF succeeds_star [OF ok w p(1)]])
      (use stage_star_next [OF st] in \<open>auto intro!: smoke_atI [where stage = "stage_star (Suc m) (\<not> b)"] succeeds_status\<close>)
qed

lemma passes_starred:
  assumes ok: "smoke_link_ok lib c l" and at: "smoke_at inv ready reg (sn_moment l) (stage_star m True) sn f"
  shows "succeeds (case_annotations_starred lib (smoke_served l S ping) c) sn f (\<lambda>_. smoke_at inv ready reg (sn_moment l) (stage_star m True))"
proof -
  obtain s n es where sn: "sn = (s, n)" and w: "smoke_world inv ready reg (sn_moment l) es (s, n)" and st: "stage_star m True es f"
    using at by (rule smoke_atE)
  obtain e where p: "sf_parent_event_id f \<in> registry_ids es" "sf_parent_event_id f \<noteq> []" using st by (rule star_parent)
  have star: "an_starred (annotations_of es (sf_parent_event_id f))" using st by (simp add: stage_star_def annotations_of_def)
  show ?thesis
    unfolding case_annotations_starred_def sn
    by (intro succeeds_parent p(2), rule succeeds_bind [where Q = "\<lambda>y w f'. f' = f \<and> (\<exists>r. y = (r, annotations_of es (sf_parent_event_id f))
          \<and> sp_status r = 200) \<and> smoke_at inv ready reg (sn_moment l) (stage_star m True) w f", OF succeeds_annotations [OF ok w p(1)]])
      (auto intro: smoke_atI st intro!: succeeds_bind [where Q = "\<lambda>_ w' f'. smoke_at inv ready reg (sn_moment l) (stage_star m True) w' f'"]
        succeeds_status succeeds_check simp: star)
qed

lemma passes_unstar:
  assumes ok: "smoke_link_ok lib c l" and at: "smoke_at inv ready reg (sn_moment l) (stage_star m True) sn f"
  shows "succeeds (case_toggle_star_twice lib (smoke_served l S ping) c) sn f (\<lambda>_. smoke_at inv ready reg (sn_moment l) (stage_star (m + 1) False))"
proof -
  obtain s n es where sn: "sn = (s, n)" and w: "smoke_world inv ready reg (sn_moment l) es (s, n)" and st: "stage_star m True es f"
    using at by (rule smoke_atE)
  obtain e where p: "sf_parent_event_id f \<in> registry_ids es" "sf_parent_event_id f \<noteq> []" using st by (rule star_parent)
  show ?thesis
    unfolding case_toggle_star_twice_def sn
  proof (intro succeeds_parent p(2), rule succeeds_bind [where Q = "\<lambda>r w f'. sp_status r = 201 \<and> f' = f
      \<and> smoke_at inv ready reg (sn_moment l) (stage_star (m + 1) False) w f", OF succeeds_star [OF ok w p(1)]], goal_cases)
    case (1 r e s')
    then show ?case using stage_star_next [OF st, of e] by (auto intro: smoke_atI)
  next
    case (2 r w f')
    then have r: "sp_status r = 201" "f' = f" and at: "smoke_at inv ready reg (sn_moment l) (stage_star (m + 1) False) w f" by simp_all
    obtain s n es where w: "w = (s, n)" "smoke_world inv ready reg (sn_moment l) es (s, n)" and st: "stage_star (m + 1) False es f"
      using at by (rule smoke_atE)
    obtain e where p: "sf_parent_event_id f \<in> registry_ids es" using st by (rule star_parent)
    have star: "\<not> an_starred (annotations_of es (sf_parent_event_id f))" using st by (simp add: stage_star_def annotations_of_def)
    show ?case
      unfolding r(2) w(1)
    proof (rule succeeds_bind [where Q = "\<lambda>_ w f'. w = (s, n) \<and> f' = f", OF succeeds_status [OF r(1)]], simp, clarify)
      show "succeeds (and_then (get_json lib (smoke_served l S ping) c (''/api/v1/events/'' @ sf_parent_event_id f @ ''/annotations'')
            (Some (sk_annotations lib)) no_annotations []) (\<lambda>(r, ann). check (\<not> an_starred ann)
            (''expected starred=false after second toggle, got '' @ sk_show_annotations lib ann))) (s, n) f
          (\<lambda>_. smoke_at inv ready reg (sn_moment l) (stage_star (m + 1) False))"
        by (rule succeeds_bind [where Q = "\<lambda>y w f'. f' = f \<and> snd y = annotations_of es (sf_parent_event_id f)
              \<and> smoke_at inv ready reg (sn_moment l) (stage_star (m + 1) False) w f", OF succeeds_annotations [OF ok w(2) p]])
          (auto intro: smoke_atI [where stage = "stage_star (m + 1) False", simplified] st [simplified] intro!: succeeds_check simp: star)
    qed
  qed
qed

lemma passes_alert:
  assumes ok: "smoke_link_ok lib c l" and at: "smoke_at inv ready reg (sn_moment l) (stage_star 8 False) sn f"
  shows "succeeds (case_create_alert lib (smoke_served l S ping) c) sn f (\<lambda>_. smoke_at inv ready reg (sn_moment l) stage_alerted)"
proof -
  obtain s n es where sn: "sn = (s, n)" and w: "smoke_world inv ready reg (sn_moment l) es (s, n)" and st: "stage_star 8 False es f"
    using at by (rule smoke_atE)
  obtain e where p: "sf_parent_event_id f \<in> registry_ids es" "sf_parent_event_id f \<noteq> []" using st by (rule star_parent)
  let ?req = "zero_create_request\<lparr>cr_parent_id := sf_parent_event_id f, cr_user_name := ''smoke'', cr_event_type := event_type_alert,
            cr_description := ''smoke triggered alert''\<rparr>"
  have req: "cr_external_id ?req = []" "cr_parent_id ?req = sf_parent_event_id f" "cr_tags ?req = []" by (simp_all add: zero_create_request_def)
  show ?thesis
    unfolding case_create_alert_def sn
  proof (intro succeeds_parent p(2), rule succeeds_bind [where Q = "\<lambda>y w f'. f' = f \<and> (\<exists>r e. y = (r, e) \<and> sp_status r = 201
      \<and> ev_parent_id e = sf_parent_event_id f) \<and> smoke_at inv ready reg (sn_moment l) stage_alerted w f"], goal_cases)
    case 1
    show ?case
    proof (rule succeeds_create [OF ok w alert_body_valid])
      fix e s'
      assume e: "smoke_stored ?req event_type_alert [] e" "smoke_world inv ready reg (sn_moment l) (es @ [e]) (s', n + 1)"
      have child: "ev_parent_id e = sf_parent_event_id f" "ev_event_type e = event_type_alert"
        using e(1) req by (simp_all add: smoke_stored_def)
      then have "alerted (es @ [e]) (sf_parent_event_id f)" "starred (es @ [e]) (sf_parent_event_id f) = starred es (sf_parent_event_id f)"
        using p(2) by (simp_all add: alerted_append starred_append is_child_def)
      then have "stage_alerted (es @ [e]) f" using st by (auto simp: stage_alerted_def stage_star_def)
      from smoke_atI [where stage = stage_alerted, OF e(2) this]
      show "f = f \<and> (\<exists>r e'. (smoke_response_of l (created_event e), e) = (r, e') \<and> sp_status r = 201 \<and> ev_parent_id e' = sf_parent_event_id f)
        \<and> smoke_at inv ready reg (sn_moment l) stage_alerted (s', n + 1) f"
        by (simp add: child)
    qed (use p(1) in \<open>simp_all add: req\<close>)
  next
    case (2 y w f')
    then show ?case
      by (auto intro!: succeeds_bind [where Q = "\<lambda>_ w' f'. w' = w \<and> f' = f"] succeeds_status succeeds_check)
  qed
qed

lemma passes_alerted:
  assumes ok: "smoke_link_ok lib c l" and at: "smoke_at inv ready reg (sn_moment l) stage_alerted sn f"
  shows "succeeds (case_list_filter_alerted lib (smoke_served l S ping) c) sn f (\<lambda>_. smoke_at inv ready reg (sn_moment l) stage_alerted)"
proof -
  obtain s n es where sn: "sn = (s, n)" and w: "smoke_world inv ready reg (sn_moment l) es (s, n)" and st: "stage_alerted es f"
    using at by (rule smoke_atE)
  obtain e where e: "e \<in> set es" "ev_id e = sf_parent_event_id f" "ev_id e \<noteq> []" "ev_parent_id e = []" "alerted es (ev_id e)" "length es \<le> 50"
    using st by (auto simp: stage_alerted_def)
  let ?p = "zero_list_params\<lparr>lp_alerted_only := True, lp_top_level := True\<rparr>"
  have p: "distinct (map fst (lp_tags ?p))" "lp_offset ?p = 0" "lp_limit ?p = 0" by (simp_all add: zero_list_params_def)
  have sel: "event_selected es ?p e" using e(4,5) by (simp add: event_selected_def zero_list_params_def in_time_window_def)
  have parent: "sf_parent_event_id f \<noteq> []" using e(2,3) by simp
  have next_at: "smoke_at inv ready reg (sn_moment l) stage_alerted w f" if "smoke_world inv ready reg (sn_moment l) es w" for w
    using that st by (auto intro: smoke_atI)
  show ?thesis
    unfolding case_list_filter_alerted_def sn
  proof (intro succeeds_parent parent, rule succeeds_bind [OF listed [OF ok w e(6) listing_targets(4,8,12) p]], goal_cases)
    case (1 y w f')
    then obtain r lr where y: "y = (r, lr)" "sp_status r = 200" "f' = f" "smoke_world inv ready reg (sn_moment l) es w"
        and lr: "set (lr_events lr) = {e \<in> set es. event_selected es ?p e}" by blast
    have "list_ex (\<lambda>e. ev_id e = sf_parent_event_id f) (lr_events lr)" using lr e(1,2) sel by (auto simp: list_ex_iff)
    with next_at [OF y(4)] show ?case
      unfolding y(1,3) prod.case
      by (intro succeeds_bind [where Q = "\<lambda>_ w' f'. w' = w \<and> f' = f"])
        (simp_all add: succeeds_status succeeds_check y(2))
  qed
qed

lemma passes_login:
  assumes ok: "smoke_link_ok lib c l" and at: "smoke_at inv ready reg (sn_moment l) stage sn f"
  shows "succeeds (case_login_form_renders lib (smoke_served l S ping) c) sn f (\<lambda>_. smoke_at inv ready reg (sn_moment l) stage)"
proof -
  obtain s n es where sn: "sn = (s, n)" and w: "smoke_world inv ready reg (sn_moment l) es (s, n)" and st: "stage es f"
    using at by (rule smoke_atE)
  have path: "plain_target ''/login''" by code_simp
  obtain p where p: "hl_button_label p = ''Sign in with GitHub''"
      and sent: "serve (smoke_site l None) S ping (sn_moment l n) (sn_wire l (smoke_message c (config_of [with_auth AuthNone]) ''GET'' ''/login'' None)) s
        = Some (respond 200 (HumanLoginPage p), s)"
    using serve_login [OF ok, of None S ping "sn_moment l n" "config_of [with_auth AuthNone]" s] by (elim exE conjE) (rule that)
  have label: "has_substring (sk_string lib (sn_render l (Payload (HumanLoginPage p)))) ''Sign in with GitHub''"
    using link_parts(3) [OF ok] unfolding codecs_ok_def p [symmetric] by blast
  have again: "smoke_at inv ready reg (sn_moment l) stage (s, n + 1) f" by (rule smoke_atI [where stage = stage and f = f, OF smoke_world_next [OF w] st])
  show ?thesis
    unfolding case_login_form_renders_def sn
    by (rule succeeds_bind [where Q = "\<lambda>r w f'. r = smoke_response_of l (respond 200 (HumanLoginPage p)) \<and> w = (s, n + 1) \<and> f' = f",
          OF succeeds_do [OF ok path sent]])
      (use label in \<open>auto intro!: succeeds_bind [where Q = "\<lambda>_ w' f'. w' = (s, n + 1) \<and> f' = f"] succeeds_status succeeds_check again [simplified]\<close>)
qed


end

subsection \<open>The loop\<close>

text \<open>No case fails, and the world and the fixture left satisfy \<open>R\<close>.\<close>

definition all_pass ::
  "'b smoke_lib \<Rightarrow> ('w, 'b) smoke_transport \<Rightarrow> smoke_client \<Rightarrow> (string \<times> ('w, 'b) smoke_case) list \<Rightarrow> 'w \<Rightarrow> smoke_fixture
    \<Rightarrow> ('w \<Rightarrow> smoke_fixture \<Rightarrow> bool) \<Rightarrow> bool" where
  "all_pass lib deliver c cases w f R = (\<forall>ls k m. case run_case_loop lib deliver c m k cases \<lparr>ss_net = w, ss_lines = ls, ss_fixture = f\<rparr> of
     (results, s) \<Rightarrow> list_all (\<lambda>r. \<not> is_failure r) results \<and> R (ss_net s) (ss_fixture s))"

lemma is_failure_simps [simp]: "is_failure (Inl err)" "\<not> is_failure (Inr x)"
  by (simp_all add: is_failure_def)

lemma all_pass_Nil: "R w f \<Longrightarrow> all_pass lib deliver c [] w f R"
  by (simp add: all_pass_def)

lemma all_pass_Cons:
  assumes "succeeds (tc lib deliver c) w f (\<lambda>_. P)" and "\<And>w' f'. P w' f' \<Longrightarrow> all_pass lib deliver c cases w' f' R"
  shows "all_pass lib deliver c ((name, tc) # cases) w f R"
  unfolding all_pass_def
proof (intro allI)
  fix ls k m
  obtain w' ls' f' where run: "tc lib deliver c \<lparr>ss_net = w, ss_lines = ls, ss_fixture = f\<rparr> = (Inr (), \<lparr>ss_net = w', ss_lines = ls', ss_fixture = f'\<rparr>)"
      and "P w' f'" using assms(1) unfolding succeeds_def by (metis old.unit.exhaust)
  from assms(2) [OF this(2), unfolded all_pass_def, rule_format, of m "k + 1" "ls' @ case_lines (case_index (k + 1) m) name (Inr ())"]
  show "case run_case_loop lib deliver c m k ((name, tc) # cases) \<lparr>ss_net = w, ss_lines = ls, ss_fixture = f\<rparr> of
      (results, s) \<Rightarrow> list_all (\<lambda>r. \<not> is_failure r) results \<and> R (ss_net s) (ss_fixture s)"
    by (simp add: run split: prod.splits)
qed

lemma run_cases_pass:
  fixes lib :: "'b smoke_lib" and w :: 'w
  assumes "all_pass lib deliver c all_cases w no_fixture R" and "run_cases lib deliver c elapsed w = (failed, s)"
  shows "failed = 0 \<and> R (ss_net s) (ss_fixture s)"
proof -
  obtain results s1 where loop: "run_case_loop lib deliver c (length (all_cases :: (string \<times> ('w, 'b) smoke_case) list)) 0 all_cases
      \<lparr>ss_net = w, ss_lines = [], ss_fixture = no_fixture\<rparr> = (results, s1)" by fastforce
  have "list_all (\<lambda>r. \<not> is_failure r) results \<and> R (ss_net s1) (ss_fixture s1)"
    using assms(1) loop unfolding all_pass_def by (metis (no_types, lifting) case_prod_conv)
  then have none: "filter is_failure results = []" and R: "R (ss_net s1) (ss_fixture s1)"
    by (simp_all add: filter_empty_conv list_all_iff)
  show ?thesis using assms(2) R unfolding run_cases_def Let_def loop by (auto simp: none)
qed

lemma loop_fails:
  assumes "\<And>ls. is_failure (fst (tc lib deliver c \<lparr>ss_net = w, ss_lines = ls, ss_fixture = f\<rparr>))"
  shows "list_ex is_failure (fst (run_case_loop lib deliver c m k ((name, tc) # cases) \<lparr>ss_net = w, ss_lines = ls, ss_fixture = f\<rparr>))"
  using assms [of ls] by (auto split: prod.split)

lemma loop_reaches_failure:
  assumes "succeeds (tc lib deliver c) w f (\<lambda>_. P)"
    and "\<And>w' f' ls' k'. P w' f' \<Longrightarrow> list_ex is_failure (fst (run_case_loop lib deliver c m k' cases \<lparr>ss_net = w', ss_lines = ls', ss_fixture = f'\<rparr>))"
  shows "list_ex is_failure (fst (run_case_loop lib deliver c m k ((name, tc) # cases) \<lparr>ss_net = w, ss_lines = ls, ss_fixture = f\<rparr>))"
proof -
  obtain w' ls' f' where run: "tc lib deliver c \<lparr>ss_net = w, ss_lines = ls, ss_fixture = f\<rparr> = (Inr (), \<lparr>ss_net = w', ss_lines = ls', ss_fixture = f'\<rparr>)"
      and "P w' f'" using assms(1) unfolding succeeds_def by (metis old.unit.exhaust)
  from assms(2) [OF this(2)] show ?thesis by (simp add: run case_prod_beta')
qed

context live_store
begin

lemma all_cases_pass:
  assumes ok: "smoke_link_ok lib c l" and ping: "\<And>s. ready s \<Longrightarrow> ping s"
    and at: "smoke_at inv ready reg (sn_moment l) stage_empty sn f"
  shows "all_pass lib (smoke_served l S ping) c all_cases sn f (smoke_at inv ready reg (sn_moment l) stage_alerted)"
proof -
  have health: "smoke_at inv ready reg (sn_moment l) stage_empty sn f \<Longrightarrow>
      succeeds (case_health_no_auth lib (smoke_served l S ping) c) sn f (\<lambda>_. smoke_at inv ready reg (sn_moment l) stage_empty)"
    "smoke_at inv ready reg (sn_moment l) stage_empty sn f \<Longrightarrow>
      succeeds (case_health_with_auth lib (smoke_served l S ping) c) sn f (\<lambda>_. smoke_at inv ready reg (sn_moment l) stage_empty)" for sn f
    using passes_health [where ping = ping, OF ok] ping by blast+
  note rules = health passes_refused [OF ok, where stage = stage_empty] passes_create [OF ok] passes_idempotent [OF ok] passes_get [OF ok]
    passes_validation [OF ok, where stage = stage_created] passes_filters [OF ok] passes_current_fixtures [OF ok] passes_current [OF ok]
    passes_star [OF ok, where m = 6 and b = False, simplified] passes_starred [OF ok] passes_unstar [OF ok, where m = 7, simplified]
    passes_alert [OF ok] passes_alerted [OF ok] passes_login [OF ok]
  show ?thesis
    unfolding all_cases_def
    by (rule all_pass_Cons, rule health(1) [OF at], (rule all_pass_Cons, rule rules, assumption)+, rule all_pass_Nil, assumption)
qed

text \<open>A run against a server that holds the event of the first case already: creating it gives 200, not 201.\<close>

lemma create_event_fails:
  assumes ok: "smoke_link_ok lib c l" and w: "smoke_world inv ready reg (sn_moment l) es (s, n)"
    and held: "find_by_external_id es ''smoke-deploy-1'' = Some e"
  shows "is_failure (fst (case_create_event lib (smoke_served l S ping) c \<lparr>ss_net = (s, n), ss_lines = ls, ss_fixture = f\<rparr>))"
proof -
  have ext: "cr_external_id create_body \<noteq> []" "find_by_external_id es (cr_external_id create_body) = Some e"
    using held by (simp_all add: create_body_def)
  have "succeeds (post_json lib (smoke_served l S ping) c ''/api/v1/events'' create_body (Some (sk_event lib)) zero_event []) (s, n) f
      (\<lambda>x w f'. \<exists>r e. x = (r, e) \<and> sp_status r = 200)"
    by (rule succeeds_duplicate [OF ok w ext]) blast
  then obtain r e s' where "post_json lib (smoke_served l S ping) c ''/api/v1/events'' create_body (Some (sk_event lib)) zero_event []
      \<lparr>ss_net = (s, n), ss_lines = ls, ss_fixture = f\<rparr> = (Inr (r, e), s')" and "sp_status r = 200"
    unfolding succeeds_def by blast
  then show ?thesis by (simp add: case_create_event_def and_then_def expect_status_def throw_def)
qed

lemma repeated_run_fails:
  assumes ok: "smoke_link_ok lib c l" and ping: "\<And>s. ready s \<Longrightarrow> ping s"
    and at: "smoke_at inv ready reg (sn_moment l) (\<lambda>es f. find_by_external_id es ''smoke-deploy-1'' \<noteq> None) sn f"
  shows "fst (run_cases lib (smoke_served l S ping) c elapsed sn) \<noteq> 0"
proof -
  let ?stage = "\<lambda>es (f :: smoke_fixture). find_by_external_id es ''smoke-deploy-1'' \<noteq> None"
  let ?net = "smoke_served l S ping"
  have at: "smoke_at inv ready reg (sn_moment l) ?stage sn no_fixture" using at by (simp add: smoke_at_def)
  have health: "smoke_at inv ready reg (sn_moment l) ?stage sn f \<Longrightarrow>
      succeeds (case_health_no_auth lib ?net c) sn f (\<lambda>_. smoke_at inv ready reg (sn_moment l) ?stage)"
    "smoke_at inv ready reg (sn_moment l) ?stage sn f \<Longrightarrow>
      succeeds (case_health_with_auth lib ?net c) sn f (\<lambda>_. smoke_at inv ready reg (sn_moment l) ?stage)" for sn f
    using passes_health [where ping = ping, OF ok] ping by blast+
  note refused = passes_refused [OF ok, where stage = ?stage and ping = ping]
  have create: "is_failure (fst (case_create_event lib ?net c \<lparr>ss_net = w, ss_lines = ls, ss_fixture = f\<rparr>))"
    if "smoke_at inv ready reg (sn_moment l) ?stage w f" for w ls f
    using that by (rule smoke_atE) (auto intro: create_event_fails [OF ok])
  have "list_ex is_failure (fst (run_case_loop lib ?net c m 0 all_cases \<lparr>ss_net = sn, ss_lines = [], ss_fixture = no_fixture\<rparr>))" for m
    unfolding all_cases_def
    by (rule loop_reaches_failure, rule health(1) [OF at], rule loop_reaches_failure, rule health(2), assumption,
        rule loop_reaches_failure, rule refused(1), assumption, rule loop_reaches_failure, rule refused(2), assumption,
        rule loop_fails, erule create)
  then have "filter is_failure (fst (run_case_loop lib ?net c m 0 all_cases \<lparr>ss_net = sn, ss_lines = [], ss_fixture = no_fixture\<rparr>)) \<noteq> []" for m
    by (simp add: list_ex_iff filter_empty_conv)
  then show ?thesis by (simp add: run_cases_def Let_def case_prod_beta')
qed

end

end
