(* ===== verification/SmokeLocal.thy ===== *)
theory SmokeLocal
  imports SmokeCases LinkPolicy Http
begin

section \<open>The smoke command and its local server: cmd/smoke (server.go, main.go)\<close>

text \<open>
  \<open>run_smoke\<close> is \<^verbatim>\<open>run\<close>: it may build and spawn a server over a schema of its own, waits until it is
  ready, runs the cases and stops it. Its result is the exit code, the trace of what was acquired and
  released, and what the cases left. Whether each call of the operating system and of PostgreSQL
  succeeds, what each poll of the health endpoint finds, and whether the server exits in time after
  SIGTERM are fields of \<open>local_lib\<close>. The wait ends when a poll decides; None is a wait that never does.
\<close>

datatype binary_stat = BinaryThere | BinaryMissing | BinaryUnreadable

datatype poll_reply = PollNotBuilt | PollNoReply | PollStatus nat

datatype poll_wake = ServerExited | DeadlinePassed | PollTick

record poll =
  pl_reply :: poll_reply
  pl_wake :: poll_wake

record local_lib =
  ll_stat :: binary_stat
  ll_make_bin_dir :: bool
  ll_build :: bool
  ll_uuid :: string
  ll_url_parse :: url_parser
  ll_url_string :: "parsed_url \<Rightarrow> string"
  ll_open_pool :: "string \<Rightarrow> bool"
  ll_create_schema :: "string \<Rightarrow> bool"
  ll_make_temp :: "string option"
  ll_create_log :: bool
  ll_environ :: "string list"
  ll_spawn :: bool
  ll_poll :: "nat \<Rightarrow> poll"
  ll_exits_in_time :: bool
  ll_open_log :: bool
  ll_cookie_jar :: bool

record local_server =
  lv_binary_path :: string
  lv_addr :: string
  lv_token :: string
  lv_keep_data :: bool
  lv_database_url :: string
  lv_schema :: string
  lv_admin_pool :: bool
  lv_running :: bool
  lv_temp_dir :: string
  lv_log_file :: bool

definition new_local_server :: "string \<Rightarrow> string \<Rightarrow> string \<Rightarrow> string \<Rightarrow> bool \<Rightarrow> local_server" where
  "new_local_server binary_path addr token database_url keep_data = \<lparr>lv_binary_path = binary_path, lv_addr = addr,
     lv_token = token, lv_keep_data = keep_data, lv_database_url = database_url, lv_schema = [], lv_admin_pool = False,
     lv_running = False, lv_temp_dir = [], lv_log_file = False\<rparr>"

text \<open>\<^verbatim>\<open>SchemaDropped\<close> and \<^verbatim>\<open>TempDirRemoved\<close> are the attempts, whose errors the code ignores.\<close>

datatype local_event =
    BinaryBuilt string
  | AdminPoolOpened string
  | SchemaCreated string
  | SchemaDropped string
  | AdminPoolClosed
  | TempDirMade string
  | TempDirRemoved string
  | LogCreated
  | LogClosed
  | ServerSpawned string "string list"
  | TermSent
  | KillSent
  | ServerReaped
  | LogDumped
  | LogUnreadable
  | ChecksRun nat

subsection \<open>Starting\<close>

definition ensure_binary :: "local_lib \<Rightarrow> local_server \<Rightarrow> string option \<times> local_event list" where
  "ensure_binary lib s = (case ll_stat lib of
      BinaryThere \<Rightarrow> (None, [])
    | BinaryUnreadable \<Rightarrow> (Some (''stat '' @ lv_binary_path s), [])
    | BinaryMissing \<Rightarrow>
        (if \<not> ll_make_bin_dir lib then (Some ''create bin dir'', [])
         else if \<not> ll_build lib then (Some ''go build'', [])
         else (None, [BinaryBuilt (lv_binary_path s)])))"

definition database_url_with_search_path :: "local_lib \<Rightarrow> string \<Rightarrow> string \<Rightarrow> string + string" where
  "database_url_with_search_path lib database_url schema = (case ll_url_parse lib database_url of
      None \<Rightarrow> Inl ''parse PostgreSQL URL''
    | Some u \<Rightarrow>
        (if pu_scheme u \<noteq> ''postgres'' \<and> pu_scheme u \<noteq> ''postgresql''
         then Inl (''parse PostgreSQL URL: unsupported scheme '' @ pu_scheme u)
         else Inr (ll_url_string lib (u\<lparr>pu_raw_query :=
           encode_values (q_set ''search_path'' schema (parse_query (pu_raw_query u)))\<rparr>))))"

definition schema_name :: "local_lib \<Rightarrow> string" where
  "schema_name lib = ''pcr_smoke_'' @ filter (\<lambda>ch. ch \<noteq> CHR ''-'') (ll_uuid lib)"

definition prepare_database :: "local_lib \<Rightarrow> local_server \<Rightarrow> string option \<times> local_server \<times> local_event list" where
  "prepare_database lib s0 =
     (let s = s0\<lparr>lv_schema := schema_name lib\<rparr> in
      case database_url_with_search_path lib (lv_database_url s) (lv_schema s) of
        Inl err \<Rightarrow> (Some err, s, [])
      | Inr database_url \<Rightarrow>
          (if \<not> ll_open_pool lib (lv_database_url s) then (Some ''open PostgreSQL admin pool'', s, [])
           else if \<not> ll_create_schema lib (lv_schema s)
           then (Some (''create smoke schema '' @ lv_schema s), s, [AdminPoolOpened (lv_database_url s), AdminPoolClosed])
           else (None, s\<lparr>lv_admin_pool := True, lv_database_url := database_url\<rparr>,
                 [AdminPoolOpened (lv_database_url s), SchemaCreated (lv_schema s)])))"

definition server_environment :: "local_lib \<Rightarrow> local_server \<Rightarrow> string list" where
  "server_environment lib s = ll_environ lib @ [
     ''PCR_API_TOKENS='' @ lv_token s,
     ''PCR_SESSION_SECRET=smoke-session-secret-with-padding-xx'',
     ''PCR_COOKIE_SECURE=false'',
     ''PCR_DATABASE_URL='' @ lv_database_url s,
     ''PCR_ADDR='' @ lv_addr s,
     ''PCR_HUMAN_AUTH_PROVIDER=github'',
     ''PCR_PUBLIC_URL=http://127.0.0.1'' @ lv_addr s,
     ''PCR_OAUTH_CLIENT_ID=smoke-client-id'',
     ''PCR_OAUTH_CLIENT_SECRET=smoke-client-secret'',
     ''PCR_HUMAN_AUTH_ALLOW_ANY=true'',
     ''PCR_HUMAN_SESSION_DURATION=12h'']"

text \<open>From the temporary directory to the running process.\<close>

definition launch_server :: "local_lib \<Rightarrow> local_server \<Rightarrow> string option \<times> local_server \<times> local_event list" where
  "launch_server lib s = (case ll_make_temp lib of
      None \<Rightarrow> (Some ''create temp dir'', s, [])
    | Some dir \<Rightarrow>
        (let s1 = s\<lparr>lv_temp_dir := dir\<rparr> in
         if \<not> ll_create_log lib then (Some ''create log file'', s1, [TempDirMade dir])
         else (let s2 = s1\<lparr>lv_log_file := True\<rparr> in
           if \<not> ll_spawn lib then (Some (''spawn '' @ lv_binary_path s), s2, [TempDirMade dir, LogCreated])
           else (None, s2\<lparr>lv_running := True\<rparr>,
                 [TempDirMade dir, LogCreated, ServerSpawned (lv_binary_path s) (server_environment lib s2)]))))"

subsection \<open>Stopping\<close>

definition stop_server :: "local_lib \<Rightarrow> local_server \<Rightarrow> local_server \<times> local_event list" where
  "stop_server lib s =
     (s\<lparr>lv_admin_pool := False\<rparr>,
      (if lv_running s then TermSent # (if ll_exits_in_time lib then [] else [KillSent]) @ [ServerReaped] else [])
      @ (if lv_log_file s then [LogClosed] else [])
      @ (if lv_admin_pool s
         then (if \<not> lv_keep_data s \<and> lv_schema s \<noteq> [] then [SchemaDropped (lv_schema s)] else []) @ [AdminPoolClosed]
         else [])
      @ (if lv_temp_dir s \<noteq> [] \<and> \<not> lv_keep_data s then [TempDirRemoved (lv_temp_dir s)] else []))"

definition start_server :: "local_lib \<Rightarrow> local_server \<Rightarrow> string option \<times> local_server \<times> local_event list" where
  "start_server lib s = (case ensure_binary lib s of
      (Some err, built) \<Rightarrow> (Some err, s, built)
    | (None, built) \<Rightarrow> (case prepare_database lib s of
        (Some err, s1, prepared) \<Rightarrow> (Some err, s1, built @ prepared)
      | (None, s1, prepared) \<Rightarrow> (case launch_server lib s1 of
          (Some err, s2, launched) \<Rightarrow> (case stop_server lib s2 of (s3, stopped) \<Rightarrow> (Some err, s3, built @ prepared @ launched @ stopped))
        | (None, s2, launched) \<Rightarrow> (None, s2, built @ prepared @ launched))))"

definition dump_log :: "local_lib \<Rightarrow> local_server \<Rightarrow> local_event list" where
  "dump_log lib s = (if \<not> lv_log_file s then [] else if ll_open_log lib then [LogDumped] else [LogUnreadable])"

text \<open>The polling loop; the result is the error, None when the server is ready.\<close>

partial_function (option) wait_ready :: "(nat \<Rightarrow> poll) \<Rightarrow> nat \<Rightarrow> string option option" where
  "wait_ready polls n =
     (if pl_reply (polls n) = PollNotBuilt then Some (Some ''build request'')
      else if pl_reply (polls n) = PollStatus 200 then Some None
      else (case pl_wake (polls n) of
          ServerExited \<Rightarrow> Some (Some ''server exited before becoming ready'')
        | DeadlinePassed \<Rightarrow> Some (Some ''server did not become ready within 10s'')
        | PollTick \<Rightarrow> wait_ready polls (n + 1)))"

subsection \<open>run\<close>

record smoke_flags =
  sg_base_url :: string
  sg_token :: string
  sg_start_local :: bool
  sg_binary :: string
  sg_addr :: string
  sg_database_url :: string
  sg_keep_data :: bool
  sg_verbose :: bool

text \<open>The client and the cases; \<open>dump\<close> is what is done when some fail, \<open>cleanup\<close> the deferred stop.\<close>

definition run_checks ::
  "'b smoke_lib \<Rightarrow> local_lib \<Rightarrow> ('w, 'b) smoke_transport \<Rightarrow> smoke_flags \<Rightarrow> string \<Rightarrow> string \<Rightarrow> local_event list \<Rightarrow> local_event list
    \<Rightarrow> 'w \<Rightarrow> nat \<times> local_event list \<times> 'w smoke_state option" where
  "run_checks codec lib deliver flags resolved_url elapsed dump cleanup w =
     (if \<not> ll_cookie_jar lib then (2, cleanup, None)
      else case run_cases codec deliver (new_smoke_client resolved_url (sg_token flags) (sg_verbose flags)) elapsed w of
        (failed, st) \<Rightarrow> (if 0 < failed then 1 else 0,
          [ChecksRun failed] @ (if 0 < failed then dump else []) @ cleanup, Some st))"

definition run_smoke ::
  "'b smoke_lib \<Rightarrow> local_lib \<Rightarrow> ('w, 'b) smoke_transport \<Rightarrow> smoke_flags \<Rightarrow> string \<Rightarrow> 'w
    \<Rightarrow> (nat \<times> local_event list \<times> 'w smoke_state option) option" where
  "run_smoke codec lib deliver flags elapsed w =
     (if sg_base_url flags = [] \<and> \<not> sg_start_local flags then Some (2, [], None)
      else
       (let resolved_url = (if sg_base_url flags = [] then ''http://127.0.0.1'' @ sg_addr flags else sg_base_url flags) in
        if \<not> sg_start_local flags then Some (run_checks codec lib deliver flags resolved_url elapsed [] [] w)
        else if sg_database_url flags = [] then Some (2, [], None)
        else case start_server lib (new_local_server (sg_binary flags) (sg_addr flags) (sg_token flags) (sg_database_url flags) (sg_keep_data flags)) of
            (Some err, s, started) \<Rightarrow> Some (2, started, None)
          | (None, s, started) \<Rightarrow>
              (let stopped = snd (stop_server lib s) in
               case wait_ready (ll_poll lib) 0 of
                 None \<Rightarrow> None
               | Some (Some err) \<Rightarrow> Some (2, started @ dump_log lib s @ stopped, None)
               | Some None \<Rightarrow>
                   (case run_checks codec lib deliver flags resolved_url elapsed (dump_log lib s) stopped w of
                      (code, events, st) \<Rightarrow> Some (code, started @ events, st)))))"

end
