(* ===== verification/SmokeLife.thy ===== *)
theory SmokeLife
  imports SmokeLocal
begin

section \<open>What the smoke command acquires and releases\<close>

text \<open>
  The resources of a run as an automaton over its trace: the admin pool and the schema, the temporary
  directory and the log in it, and the server process. Every run ends with the process reaped and the
  pool and the log closed, and with the schema and the directory gone unless the data is kept; and the
  wait for the server ends when a poll decides.
\<close>

record smoke_held =
  ho_pool :: bool
  ho_schema :: "string option"
  ho_temp :: "string option"
  ho_log :: bool
  ho_server :: bool

definition no_smoke_held :: smoke_held where
  "no_smoke_held = \<lparr>ho_pool = False, ho_schema = None, ho_temp = None, ho_log = False, ho_server = False\<rparr>"

text \<open>
  None is a step out of order: the schema needs the pool, the log its directory, the server the schema and
  the log; nothing the server uses is released before it is reaped, and the directory only after its log.
\<close>

fun smoke_step :: "local_event \<Rightarrow> smoke_held \<Rightarrow> smoke_held option" where
  "smoke_step (BinaryBuilt p) h = Some h"
| "smoke_step (AdminPoolOpened u) h = (if ho_pool h then None else Some (h\<lparr>ho_pool := True\<rparr>))"
| "smoke_step (SchemaCreated x) h = (if ho_pool h \<and> ho_schema h = None then Some (h\<lparr>ho_schema := Some x\<rparr>) else None)"
| "smoke_step (SchemaDropped x) h = (if ho_pool h \<and> ho_schema h = Some x \<and> \<not> ho_server h then Some (h\<lparr>ho_schema := None\<rparr>) else None)"
| "smoke_step AdminPoolClosed h = (if ho_pool h \<and> \<not> ho_server h then Some (h\<lparr>ho_pool := False\<rparr>) else None)"
| "smoke_step (TempDirMade d) h = (if ho_temp h = None then Some (h\<lparr>ho_temp := Some d\<rparr>) else None)"
| "smoke_step (TempDirRemoved d) h = (if ho_temp h = Some d \<and> \<not> ho_log h \<and> \<not> ho_server h then Some (h\<lparr>ho_temp := None\<rparr>) else None)"
| "smoke_step LogCreated h = (if ho_temp h \<noteq> None \<and> \<not> ho_log h then Some (h\<lparr>ho_log := True\<rparr>) else None)"
| "smoke_step LogClosed h = (if ho_log h \<and> \<not> ho_server h then Some (h\<lparr>ho_log := False\<rparr>) else None)"
| "smoke_step (ServerSpawned p environ) h = (if ho_log h \<and> ho_schema h \<noteq> None \<and> \<not> ho_server h then Some (h\<lparr>ho_server := True\<rparr>) else None)"
| "smoke_step TermSent h = (if ho_server h then Some h else None)"
| "smoke_step KillSent h = (if ho_server h then Some h else None)"
| "smoke_step ServerReaped h = (if ho_server h then Some (h\<lparr>ho_server := False\<rparr>) else None)"
| "smoke_step LogDumped h = (if ho_log h then Some h else None)"
| "smoke_step LogUnreadable h = (if ho_log h then Some h else None)"
| "smoke_step (ChecksRun k) h = Some h"

fun smoke_after :: "local_event list \<Rightarrow> smoke_held \<Rightarrow> smoke_held option" where
  "smoke_after [] h = Some h"
| "smoke_after (e # es) h = (case smoke_step e h of None \<Rightarrow> None | Some h' \<Rightarrow> smoke_after es h')"

lemma smoke_after_append: "smoke_after (xs @ ys) h = (case smoke_after xs h of None \<Rightarrow> None | Some h' \<Rightarrow> smoke_after ys h')"
  by (induction xs arbitrary: h) (auto split: option.split)

text \<open>What may be left at the end.\<close>

definition cleaned_up :: "bool \<Rightarrow> smoke_held \<Rightarrow> bool" where
  "cleaned_up keep_data h = (\<not> ho_pool h \<and> \<not> ho_log h \<and> \<not> ho_server h \<and> (keep_data \<or> ho_schema h = None \<and> ho_temp h = None))"

lemma cleaned_nothing: "cleaned_up keep_data no_smoke_held"
  by (simp add: cleaned_up_def no_smoke_held_def)

definition server_held :: "local_server \<Rightarrow> smoke_held" where
  "server_held s = \<lparr>ho_pool = lv_admin_pool s, ho_schema = (if lv_admin_pool s then Some (lv_schema s) else None),
     ho_temp = (if lv_temp_dir s = [] then None else Some (lv_temp_dir s)), ho_log = lv_log_file s, ho_server = lv_running s\<rparr>"

lemma schema_nonempty: "schema_name lib \<noteq> []"
  by (simp add: schema_name_def)

lemma stop_cleans:
  assumes "lv_schema s \<noteq> []"
  shows "\<exists>h. smoke_after (snd (stop_server lib s)) (server_held s) = Some h \<and> cleaned_up (lv_keep_data s) h"
  using assms by (cases "lv_running s"; cases "lv_log_file s"; cases "lv_admin_pool s"; cases "lv_keep_data s")
    (auto simp: stop_server_def server_held_def cleaned_up_def smoke_after_append)

lemma ensure_binary_after: "ensure_binary lib s = (r, built) \<Longrightarrow> smoke_after built h = Some h"
  by (auto simp: ensure_binary_def split: binary_stat.splits if_splits)

lemma prepare_after:
  assumes "prepare_database lib s = (r, s1, prepared)" and "lv_admin_pool s = False" "lv_temp_dir s = []" "\<not> lv_log_file s" "\<not> lv_running s"
  shows "lv_schema s1 = schema_name lib" "lv_keep_data s1 = lv_keep_data s" "lv_temp_dir s1 = []" "\<not> lv_log_file s1" "\<not> lv_running s1"
    "lv_admin_pool s1 = (r = None)" "smoke_after prepared no_smoke_held = Some (server_held s1)"
  using assms by (auto simp: prepare_database_def server_held_def no_smoke_held_def Let_def split: sum.splits if_splits)

lemma launch_after:
  assumes "launch_server lib s1 = (r, s2, launched)" and "ll_make_temp lib \<noteq> Some []"
    and "lv_admin_pool s1" "lv_temp_dir s1 = []" "\<not> lv_log_file s1" "\<not> lv_running s1"
  shows "lv_schema s2 = lv_schema s1" "lv_keep_data s2 = lv_keep_data s1" "r = None \<longrightarrow> lv_running s2 \<and> lv_log_file s2"
    "smoke_after launched (server_held s1) = Some (server_held s2)"
  using assms by (auto simp: launch_server_def server_held_def Let_def split: option.splits if_splits)

lemma start_after:
  assumes run: "start_server lib (new_local_server b a t u keep_data) = (r, s, started)" and temp: "ll_make_temp lib \<noteq> Some []"
  shows "\<exists>h. smoke_after started no_smoke_held = Some h
    \<and> (case r of Some err \<Rightarrow> cleaned_up keep_data h
       | None \<Rightarrow> h = server_held s \<and> lv_schema s \<noteq> [] \<and> lv_keep_data s = keep_data \<and> lv_running s \<and> lv_log_file s)"
proof -
  let ?s0 = "new_local_server b a t u keep_data"
  have s0: "lv_admin_pool ?s0 = False" "lv_temp_dir ?s0 = []" "\<not> lv_log_file ?s0" "\<not> lv_running ?s0" "lv_keep_data ?s0 = keep_data"
    by (simp_all add: new_local_server_def)
  obtain e0 built where built: "ensure_binary lib ?s0 = (e0, built)" by fastforce
  note B = ensure_binary_after [OF built]
  show ?thesis
  proof (cases e0)
    case (Some err)
    with run built B show ?thesis by (auto simp: start_server_def cleaned_nothing)
  next
    case None
    obtain e1 s1 prepared where prepared: "prepare_database lib ?s0 = (e1, s1, prepared)" by (metis prod_cases3)
    note P = prepare_after [OF prepared s0(1-4)]
    show ?thesis
    proof (cases e1)
      case (Some err)
      then have "server_held s1 = no_smoke_held" using P by (simp add: server_held_def no_smoke_held_def)
      with run built \<open>e0 = None\<close> prepared Some B P(7) show ?thesis
        by (auto simp: start_server_def smoke_after_append cleaned_nothing)
    next
      case none: None
      obtain e2 s2 launched where launched: "launch_server lib s1 = (e2, s2, launched)" by (metis prod_cases3)
      note L = launch_after [OF launched temp _ P(3-5)]
      have admin: "lv_admin_pool s1" using P(6) none by simp
      have schema: "lv_schema s2 \<noteq> []" "lv_keep_data s2 = keep_data" using L(1,2) [OF admin] P(1,2) s0(5) schema_nonempty by simp_all
      show ?thesis
      proof (cases e2)
        case (Some err)
        obtain h where "smoke_after (snd (stop_server lib s2)) (server_held s2) = Some h" "cleaned_up keep_data h"
          using stop_cleans [OF schema(1), of lib] schema(2) by auto
        with run built \<open>e0 = None\<close> prepared none launched Some B P(7) L(4) [OF admin] show ?thesis
          by (auto simp: start_server_def smoke_after_append split: prod.splits)
      next
        case None
        with run built \<open>e0 = None\<close> prepared none launched B P(7) L(3,4) [OF admin] schema show ?thesis
          by (auto simp: start_server_def smoke_after_append)
      qed
    qed
  qed
qed

lemma dump_after: "lv_log_file s \<Longrightarrow> smoke_after (dump_log lib s) (server_held s) = Some (server_held s)"
  by (simp add: dump_log_def server_held_def)

subsection \<open>Waiting\<close>

definition poll_decides :: "poll \<Rightarrow> bool" where
  "poll_decides p = (pl_reply p = PollNotBuilt \<or> pl_reply p = PollStatus 200 \<or> pl_wake p \<noteq> PollTick)"

lemma wait_ends:
  assumes "poll_decides (polls (n + k))"
  shows "\<exists>r. wait_ready polls n = Some r"
  using assms
proof (induction k arbitrary: n)
  case 0
  then show ?case by (subst wait_ready.simps) (auto simp: poll_decides_def split: poll_wake.split)
next
  case (Suc k)
  then have "\<exists>r. wait_ready polls (n + 1) = Some r" by simp
  then show ?case by (subst wait_ready.simps) (auto split: poll_wake.split)
qed

lemma wait_needs_decision: "wait_ready polls n = Some r \<Longrightarrow> \<exists>k. poll_decides (polls (n + k))"
proof (induction polls n r rule: wait_ready.raw_induct [rotated, consumes 1, case_names step])
  case (step wait polls n r)
  show ?case
  proof (cases "poll_decides (polls n)")
    case False
    then have "wait polls (n + 1) = Some r" using step(2) by (auto simp: poll_decides_def split: if_splits poll_wake.splits)
    then obtain k where "poll_decides (polls (n + 1 + k))" using step(1) by blast
    then show ?thesis by (metis add.assoc)
  qed (auto intro: exI [of _ 0])
qed

subsection \<open>A run\<close>

lemma checks_run:
  assumes "run_checks lib machine deliver flags url elapsed dump cleanup w = (code, events, st)"
    and "\<And>m. ChecksRun m \<notin> set dump" "\<And>m. ChecksRun m \<notin> set cleanup"
  shows "code \<le> 2" "code = 0 \<longleftrightarrow> ChecksRun 0 \<in> set events" "code = 1 \<longleftrightarrow> (\<exists>m > 0. ChecksRun m \<in> set events)"
    "\<exists>pre. events = pre @ cleanup \<and> (\<forall>h. smoke_after dump h = Some h \<longrightarrow> smoke_after pre h = Some h)"
  using assms by (auto simp: run_checks_def smoke_after_append split: if_splits prod.splits)

lemma no_checks_stop: "ChecksRun m \<notin> set (dump_log machine s)" "ChecksRun m \<notin> set (snd (stop_server machine s))"
  by (simp_all add: dump_log_def stop_server_def)

lemma no_checks_start:
  "ensure_binary machine s = (r, built) \<Longrightarrow> ChecksRun m \<notin> set built"
  "prepare_database machine s = (r, s1, prepared) \<Longrightarrow> ChecksRun m \<notin> set prepared"
  "launch_server machine s = (r, s1, launched) \<Longrightarrow> ChecksRun m \<notin> set launched"
  by (auto simp: ensure_binary_def split: binary_stat.splits if_splits)
    (auto simp: prepare_database_def launch_server_def Let_def split: option.splits sum.splits if_splits)

lemma start_run:
  assumes "start_server machine s0 = (r, s, started)"
  obtains e0 built where "ensure_binary machine s0 = (e0, built)" "e0 \<noteq> None" "started = built" "r \<noteq> None"
  | e1 s1 built prepared where "ensure_binary machine s0 = (None, built)" "prepare_database machine s0 = (e1, s1, prepared)" "e1 \<noteq> None"
      "started = built @ prepared" "r \<noteq> None"
  | e2 s1 s2 built prepared launched where "ensure_binary machine s0 = (None, built)" "prepare_database machine s0 = (None, s1, prepared)"
      "launch_server machine s1 = (e2, s2, launched)" "e2 \<noteq> None" "started = built @ prepared @ launched @ snd (stop_server machine s2)" "r \<noteq> None"
  | s1 built prepared launched where "ensure_binary machine s0 = (None, built)" "prepare_database machine s0 = (None, s1, prepared)"
      "launch_server machine s1 = (None, s, launched)" "started = built @ prepared @ launched" "r = None"
proof -
  obtain e0 built where b: "ensure_binary machine s0 = (e0, built)" by fastforce
  obtain e1 s1 prepared where p: "prepare_database machine s0 = (e1, s1, prepared)" by (metis prod_cases3)
  obtain e2 s2 launched where l: "launch_server machine s1 = (e2, s2, launched)" by (metis prod_cases3)
  show thesis
    using assms b p l that by (cases e0; cases e1; cases e2) (auto simp: start_server_def split: prod.splits)
qed

lemma no_checks: "start_server machine s0 = (r, s, started) \<Longrightarrow> ChecksRun m \<notin> set started"
  by (erule start_run) (simp_all add: no_checks_start no_checks_stop)

lemma start_spawns:
  assumes "start_server machine (new_local_server b a t u keep_data) = (None, s, started)"
  shows "\<exists>environ. ServerSpawned b environ \<in> set started \<and> ''PCR_API_TOKENS='' @ t \<in> set environ"
  using assms
proof (rule start_run)
  fix s1 built prepared launched
  assume p: "prepare_database machine (new_local_server b a t u keep_data) = (None, s1, prepared)"
    and l: "launch_server machine s1 = (None, s, launched)" and started: "started = built @ prepared @ launched"
  have "lv_binary_path s1 = b" "lv_token s1 = t"
    using p by (auto simp: prepare_database_def new_local_server_def Let_def split: sum.splits if_splits)
  moreover have "\<exists>s2. lv_token s2 = lv_token s1 \<and> ServerSpawned (lv_binary_path s1) (server_environment machine s2) \<in> set launched"
  proof (cases "ll_make_temp machine")
    case (Some dir)
    with l show ?thesis
      by (intro exI [of _ "s1\<lparr>lv_temp_dir := dir, lv_log_file := True\<rparr>"]) (auto simp: launch_server_def Let_def split: if_splits)
  qed (use l in \<open>simp add: launch_server_def\<close>)
  moreover have "''PCR_API_TOKENS='' @ lv_token s2 \<in> set (server_environment machine s2)" for s2
    unfolding server_environment_def set_append set_simps by (intro UnI2 insertI1)
  ultimately obtain s2 where "lv_token s2 = t" "ServerSpawned b (server_environment machine s2) \<in> set launched"
      "''PCR_API_TOKENS='' @ lv_token s2 \<in> set (server_environment machine s2)" by blast
  then show ?thesis
    by (intro exI [of _ "server_environment machine s2"]) (simp only: started set_append Un_iff simp_thms)
qed simp_all

lemma smoke_outcome:
  assumes decided: "poll_decides (ll_poll machine k)" and temp: "ll_make_temp machine \<noteq> Some []"
  shows "\<exists>code events st. run_smoke lib machine deliver flags elapsed w = Some (code, events, st)
    \<and> (\<exists>h. smoke_after events no_smoke_held = Some h \<and> cleaned_up (sg_keep_data flags) h)
    \<and> code \<le> 2 \<and> (code = 0 \<longleftrightarrow> ChecksRun 0 \<in> set events) \<and> (code = 1 \<longleftrightarrow> (\<exists>m > 0. ChecksRun m \<in> set events))
    \<and> (\<forall>m. ChecksRun m \<in> set events \<and> sg_start_local flags \<longrightarrow>
        (\<exists>environ. ServerSpawned (sg_binary flags) environ \<in> set events \<and> ''PCR_API_TOKENS='' @ sg_token flags \<in> set environ))"
proof -
  let ?url = "if sg_base_url flags = [] then ''http://127.0.0.1'' @ sg_addr flags else sg_base_url flags"
  let ?s0 = "new_local_server (sg_binary flags) (sg_addr flags) (sg_token flags) (sg_database_url flags) (sg_keep_data flags)"
  consider "sg_base_url flags = [] \<and> \<not> sg_start_local flags \<or> sg_start_local flags \<and> sg_database_url flags = []"
    | "\<not> sg_start_local flags" "sg_base_url flags \<noteq> []" | "sg_start_local flags" "sg_database_url flags \<noteq> []" by blast
  then show ?thesis
  proof cases
    case 1
    then have "run_smoke lib machine deliver flags elapsed w = Some (2, [], None)" by (auto simp: run_smoke_def)
    then show ?thesis by (simp add: cleaned_nothing)
  next
    case 2
    obtain code events st where run: "run_checks lib machine deliver flags ?url elapsed [] [] w = (code, events, st)" by (metis prod_cases3)
    note C = checks_run [OF run, simplified]
    with run 2 show ?thesis by (auto simp: run_smoke_def cleaned_nothing)
  next
    case 3
    obtain r s started where start: "start_server machine ?s0 = (r, s, started)" by (metis prod_cases3)
    obtain h where after: "smoke_after started no_smoke_held = Some h"
      and left: "case r of Some err \<Rightarrow> cleaned_up (sg_keep_data flags) h
       | None \<Rightarrow> h = server_held s \<and> lv_schema s \<noteq> [] \<and> lv_keep_data s = sg_keep_data flags \<and> lv_running s \<and> lv_log_file s"
      using start_after [OF start temp] by blast
    show ?thesis
    proof (cases r)
      case (Some err)
      with 3 start have "run_smoke lib machine deliver flags elapsed w = Some (2, started, None)" by (simp add: run_smoke_def Let_def)
      with after left Some no_checks [OF start] show ?thesis by auto
    next
      case None
      have held: "h = server_held s" "lv_schema s \<noteq> []" "lv_keep_data s = sg_keep_data flags" "lv_log_file s" using left None by simp_all
      let ?stopped = "snd (stop_server machine s)"
      obtain h' where stop: "smoke_after ?stopped (server_held s) = Some h'" "cleaned_up (sg_keep_data flags) h'"
        using stop_cleans [OF held(2), of machine] held(3) by auto
      note dump = dump_after [OF held(4), of machine]
      obtain env_of where spawned: "ServerSpawned (sg_binary flags) env_of \<in> set started" "''PCR_API_TOKENS='' @ sg_token flags \<in> set env_of"
        using start_spawns [OF start [unfolded None]] by blast
      obtain ready where wait: "wait_ready (ll_poll machine) 0 = Some ready" using wait_ends [of "ll_poll machine" 0 k] decided by auto
      show ?thesis
      proof (cases ready)
        case (Some err)
        have "run_smoke lib machine deliver flags elapsed w = Some (2, started @ dump_log machine s @ ?stopped, None)"
          using 3 start None wait Some by (simp add: run_smoke_def Let_def)
        with after held(1) dump stop no_checks_stop no_checks [OF start] show ?thesis by (auto simp: smoke_after_append)
      next
        case none: None
        obtain code events st where run: "run_checks lib machine deliver flags ?url elapsed (dump_log machine s) ?stopped w = (code, events, st)"
          by (metis prod_cases3)
        have result: "run_smoke lib machine deliver flags elapsed w = Some (code, started @ events, st)"
          using 3 start None wait none run by (simp add: run_smoke_def Let_def)
        note C = checks_run [OF run no_checks_stop]
        obtain pre where "events = pre @ ?stopped" "smoke_after pre (server_held s) = Some (server_held s)" using C(4) dump by blast
        with after held(1) stop have "\<exists>h. smoke_after (started @ events) no_smoke_held = Some h \<and> cleaned_up (sg_keep_data flags) h"
          by (simp add: smoke_after_append)
        with result C(1-3) spawned no_checks [OF start] show ?thesis by auto
      qed
    qed
  qed
qed

end
