(* ===== verification/SmokeProperties.thy ===== *)
theory SmokeProperties
  imports SmokeRun SmokeLife WebExample
begin

section \<open>Properties of the smoke checks\<close>

text \<open>
  The smoke cases against the server of this library over the PostgreSQL tables, and the life of the local
  server of a run.
\<close>

subsection \<open>A small server at the other end of the smoke client\<close>

text \<open>
  The small site with the token of the smoke command, behind a connection whose bytes are what they
  encode, and a machine on which the local server starts: the data of the witnesses.
\<close>

datatype smoke_bytes = RequestBytes create_request | ReplyBytes "payload body"

definition demo_base :: string where "demo_base = ''http://127.0.0.1:18080''"

definition demo_wire :: "smoke_bytes smoke_request \<Rightarrow> http_request" where
  "demo_wire q =
     (let target = drop (length demo_base) (sq_url q);
          bare = takeWhile (\<lambda>ch. ch \<noteq> CHR ''?'') target in
      no_request\<lparr>rq_method := sq_method q, rq_path := bare, rq_uri := target, rq_query := parse_query (drop (length bare + 1) target),
        rq_header := (\<lambda>h. if h = ''Authorization'' then sq_authorization q else [])\<rparr>)"

definition demo_body_codec :: "smoke_bytes option \<Rightarrow> api_codec" where
  "demo_body_codec body = \<lparr>ap_create = (\<lambda>limit rq. case body of Some (RequestBytes req) \<Rightarrow> JsonValue req True | _ \<Rightarrow> JsonInvalid),
     ap_add_links = (\<lambda>limit rq. JsonInvalid), ap_close = (\<lambda>limit rq. JsonInvalid)\<rparr>"

definition demo_smoke_lib :: "smoke_bytes smoke_lib" where
  "demo_smoke_lib = \<lparr>sk_url_ok = (\<lambda>url. True), sk_marshal = (\<lambda>req. Some (RequestBytes req)),
     sk_event = (\<lambda>b. case b of ReplyBytes (Payload (EventBody (Some e))) \<Rightarrow> Some e | _ \<Rightarrow> None),
     sk_list = (\<lambda>b. case b of ReplyBytes (Payload (ListBody lr)) \<Rightarrow> Some lr | _ \<Rightarrow> None),
     sk_annotations = (\<lambda>b. case b of ReplyBytes (Payload (AnnotationsBody ann)) \<Rightarrow> Some ann | _ \<Rightarrow> None),
     sk_string = (\<lambda>b. case b of ReplyBytes (Payload (HumanLoginPage shown)) \<Rightarrow> hl_button_label shown | _ \<Rightarrow> []),
     sk_quote = (\<lambda>t. t), sk_show_event = ev_id, sk_show_tags = (\<lambda>_. []), sk_show_annotations = (\<lambda>_. [])\<rparr>"

definition demo_smoke_link :: "smoke_bytes smoke_link" where
  "demo_smoke_link = \<lparr>sn_site = demo_site\<lparr>si_tokens := [''smoke-token-abc'']\<rparr>, sn_wire = demo_wire, sn_body = demo_body_codec,
     sn_render = ReplyBytes, sn_moment = (\<lambda>n. demo_moment\<lparr>mo_env := \<lparr>env_now = int n * second, env_uuid = Some (replicate (n + 1) CHR ''a'')\<rparr>\<rparr>)\<rparr>"

definition demo_smoke_client :: smoke_client where
  "demo_smoke_client = new_smoke_client demo_base ''smoke-token-abc'' False"

lemma demo_client_sel [simp]:
  "sc_base_url demo_smoke_client = demo_base" "sc_token demo_smoke_client = ''smoke-token-abc''"
  by (simp_all add: demo_smoke_client_def new_smoke_client_def demo_base_def trim_right_slashes_def)

lemma demo_wire_ok: "wire_ok demo_smoke_client demo_smoke_link"
  by (simp add: wire_ok_def demo_smoke_link_def demo_wire_def smoke_message_def Let_def)

lemma demo_codecs_ok: "codecs_ok demo_smoke_lib demo_smoke_link"
proof -
  have self: "has_substring s s" for s by (cases s) simp_all
  show ?thesis by (simp add: codecs_ok_def demo_smoke_lib_def demo_smoke_link_def demo_body_codec_def self)
qed

lemma demo_moments_ok: "moments_ok (sn_moment demo_smoke_link)"
proof -
  have "replicate k c = replicate n c \<longrightarrow> k = n" for k n :: nat and c :: char by (metis length_replicate)
  then show ?thesis
    by (auto simp: moments_ok_def demo_smoke_link_def uuid_text_def is_alnum_def list_all_iff of_char_def)
qed

lemma uuid_no_slash: "uuid_text i \<Longrightarrow> CHR ''/'' \<notin> set i"
  by (auto simp: uuid_text_def list_all_iff is_alnum_def)

lemma demo_routes_ok: "routes_ok match_pattern"
  unfolding routes_ok_def
proof (intro conjI allI impI)
  show "\<exists>i. find_route match_pattern ''GET'' ''/api/v1/health'' = Routed ApiHealth i"
    "\<exists>i. find_route match_pattern ''GET'' ''/api/v1/events'' = Routed ApiEvents i"
    "\<exists>i. find_route match_pattern ''GET'' ''/api/v1/current'' = Routed ApiCurrent i"
    "\<exists>i. find_route match_pattern ''POST'' ''/api/v1/events'' = Routed ApiCreate i"
    "\<exists>i. find_route match_pattern ''GET'' ''/login'' = Routed Login i"
    by (rule exI [of _ "[]"], code_simp)+
next
  fix i assume "uuid_text i"
  then have slash: "CHR ''/'' \<notin> set i" and nonempty: "i \<noteq> []" by (rule uuid_no_slash) (use \<open>uuid_text i\<close> in \<open>simp add: uuid_text_def\<close>)
  have tail: "split_on CHR ''/'' i = [i]" "split_on CHR ''/'' (i @ ''/annotations'') = [i, ''annotations'']"
      "split_on CHR ''/'' (i @ ''/star'') = [i, ''star'']"
    using split_on_append [OF slash, of "''annotations''"] split_on_append [OF slash, of "''star''"] split_on_plain [OF slash] by simp_all
  have split: "split_on CHR ''/'' (''/api/v1/events/'' @ i) = [[], ''api'', ''v1'', ''events'', i]"
      "split_on CHR ''/'' (''/api/v1/events/'' @ i @ ''/annotations'') = [[], ''api'', ''v1'', ''events'', i, ''annotations'']"
      "split_on CHR ''/'' (''/api/v1/events/'' @ i @ ''/star'') = [[], ''api'', ''v1'', ''events'', i, ''star'']"
    by (simp_all add: tail)
  show "find_route match_pattern ''GET'' (''/api/v1/events/'' @ i) = Routed ApiEvent i"
    unfolding find_route_def match_pattern_def split by (simp add: routes_def nonempty)
  show "find_route match_pattern ''GET'' (''/api/v1/events/'' @ i @ ''/annotations'') = Routed ApiAnnotations i"
    unfolding find_route_def match_pattern_def split by (simp add: routes_def nonempty)
  show "find_route match_pattern ''POST'' (''/api/v1/events/'' @ i @ ''/star'') = Routed ApiStar i"
    unfolding find_route_def match_pattern_def split by (simp add: routes_def nonempty)
qed

lemma demo_smoke_ok: "smoke_link_ok demo_smoke_lib demo_smoke_client demo_smoke_link"
proof -
  have "smoke_site_ok demo_smoke_client (sn_site demo_smoke_link)"
    by (simp add: smoke_site_ok_def demo_smoke_link_def demo_site_def demo_human_def demo_authenticator_def)
  moreover have "si_match (sn_site demo_smoke_link) = match_pattern" by (simp add: demo_smoke_link_def demo_site_def)
  moreover have "sk_url_ok demo_smoke_lib url" for url by (simp add: demo_smoke_lib_def)
  ultimately show ?thesis by (simp add: smoke_link_ok_def demo_wire_ok demo_codecs_ok demo_moments_ok demo_routes_ok)
qed

lemma demo_empty: "pg_inv empty_pg" "pg_ready empty_pg" "pg_registry empty_pg = []"
  by (rule pg_inv_empty, simp_all add: pg_ready_def empty_pg_def pg_registry_def)



subsection \<open>The suite passes\<close>

text \<open>
  C4: the smoke suite against the server. Run through the router, the middleware, the handlers, the
  service and the store over empty tables, every one of the twenty cases passes: health without a
  token, 401 without and with a wrong token, creation and its repetition, the filters, the Current view of
  one team with a completed operation and another team's left out, the star on and off, the alert and
  the sign-in page. It holds for every client token the server accepts, every time and every supply of
  distinct identifiers. The run leaves nine events; against the server it leaves, the suite fails.
\<close>

theorem smoke_suite_passes:
  assumes "smoke_link_ok lib c l" and "pg_inv s" and "pg_ready s" and "pg_registry s = []" and "\<And>t. pg_ready t \<Longrightarrow> ping t"
    and "run_cases lib (smoke_served l pg_store ping) c elapsed (s, n) = (failed, st)"
  shows "failed = 0 \<and> pg_inv (fst (ss_net st)) \<and> length (pg_registry (fst (ss_net st))) = 9
    \<and> alerted (pg_registry (fst (ss_net st))) (sf_parent_event_id (ss_fixture st))
    \<and> \<not> starred (pg_registry (fst (ss_net st))) (sf_parent_event_id (ss_fixture st))
    \<and> fst (run_cases lib (smoke_served l pg_store ping) c elapsed' (ss_net st)) \<noteq> 0"
proof -
  have "smoke_world pg_inv pg_ready pg_registry (sn_moment l) [] (s, n)"
    using assms(2-4) by (simp add: smoke_world_def registry_ids_def)
  then have "smoke_at pg_inv pg_ready pg_registry (sn_moment l) stage_empty (s, n) no_fixture"
    by (rule smoke_atI [where stage = stage_empty]) (simp add: stage_empty_def)
  from run_cases_pass [OF live_pgs.all_cases_pass [OF assms(1) assms(5) this] assms(6)]
  have none: "failed = 0" and at: "smoke_at pg_inv pg_ready pg_registry (sn_moment l) stage_alerted (ss_net st) (ss_fixture st)"
    by simp_all
  obtain t m es where net: "ss_net st = (t, m)" and w: "smoke_world pg_inv pg_ready pg_registry (sn_moment l) es (t, m)"
      and stage: "stage_alerted es (ss_fixture st)"
    using at by (rule smoke_atE)
  obtain e where "e \<in> set es" "ev_external_id e = ''smoke-deploy-1''" using stage unfolding stage_alerted_def by blast
  then have "find_by_external_id es ''smoke-deploy-1'' \<noteq> None" by (auto simp: find_by_external_id_def find_None_iff)
  with at w net have "fst (run_cases lib (smoke_served l pg_store ping) c elapsed' (ss_net st)) \<noteq> 0"
    by (intro live_pgs.repeated_run_fails [OF assms(1) assms(5), where f = no_fixture]) (auto intro: smoke_atI)
  with none w stage net show ?thesis by (simp add: smoke_world_def stage_alerted_def)
qed

theorem smoke_suite_passes_witness:
  "\<exists>st. run_cases demo_smoke_lib (smoke_served demo_smoke_link pg_store pg_ready) demo_smoke_client ''1s'' (empty_pg, 0) = (0, st)
    \<and> length (pg_registry (fst (ss_net st))) = 9
    \<and> fst (run_cases demo_smoke_lib (smoke_served demo_smoke_link pg_store pg_ready) demo_smoke_client ''1s'' (ss_net st)) \<noteq> 0"
proof -
  obtain failed st where run: "run_cases demo_smoke_lib (smoke_served demo_smoke_link pg_store pg_ready) demo_smoke_client ''1s'' (empty_pg, 0)
      = (failed, st)" by fastforce
  from smoke_suite_passes [OF demo_smoke_ok demo_empty _ run, of "''1s''"] run show ?thesis by auto
qed

subsection \<open>The local server\<close>



end
