(* ===== verification/DashboardPages.thy ===== *)
theory DashboardPages
  imports PageProperties
begin

section \<open>What the list page of the dashboard shows\<close>

text \<open>
  The page the dashboard renders over a live store, against a listing of the registry: the events its view
  and filters select, newest first. A page is a window of that listing with the flags of each event,
  and its links lead to the neighbouring windows, the arithmetic on the offset being that of 64 bits.
\<close>

definition dashboard_current_query :: "list_params \<Rightarrow> dashboard_filters \<Rightarrow> current_params" where
  "dashboard_current_query params filters =
     (if df_view filters = ''current''
      then zero_current_params\<lparr>cp_for_team := df_team filters, cp_scopes := df_scopes filters,
        cp_severities := df_severities filters, cp_event_type := lp_event_type params\<rparr>
      else zero_current_params\<lparr>cp_scopes := [''site''], cp_severities := df_severities filters, cp_event_type := lp_event_type params\<rparr>)"

definition active_listing :: "registry \<Rightarrow> current_params \<Rightarrow> change_event list" where
  "active_listing R q = by_newest (filter (\<lambda>e. represents_active R e \<and> visible_in q e) R)"

definition dashboard_listing :: "registry \<Rightarrow> list_params \<Rightarrow> dashboard_filters \<Rightarrow> change_event list" where
  "dashboard_listing R params filters =
     (if df_view filters = ''current'' \<or> df_view filters = ''site'' then active_listing R (dashboard_current_query params filters)
      else selection R params)"

definition dashboard_row :: "registry \<Rightarrow> change_event \<Rightarrow> dashboard_event" where
  "dashboard_row R e = \<lparr>de_event = e, de_starred = starred R (ev_id e), de_alerted = alerted R (ev_id e)\<rparr>"

lemma visible_in_paging [simp]:
  "visible_in (q\<lparr>cp_limit := n\<rparr>) = visible_in q" "visible_in (q\<lparr>cp_offset := m\<rparr>) = visible_in q"
  by (simp_all add: fun_eq_iff visible_in_def)

lemma active_listing_paging [simp]:
  "active_listing R (q\<lparr>cp_limit := n\<rparr>) = active_listing R q" "active_listing R (q\<lparr>cp_offset := m\<rparr>) = active_listing R q"
  by (simp_all add: active_listing_def)

lemma listing_in_registry: "set (active_listing R q) \<subseteq> set R" "set (selection R p) \<subseteq> set R"
  "set (dashboard_listing R params filters) \<subseteq> set R"
  by (auto simp: dashboard_listing_def active_listing_def selection_def by_newest_def)

lemma listing_length: "length (dashboard_listing R params filters) \<le> length R"
  by (simp add: dashboard_listing_def active_listing_def selection_def by_newest_def)

definition window :: "int \<Rightarrow> int \<Rightarrow> 'a list \<Rightarrow> 'a list" where
  "window limit offset xs = take (nat limit) (drop (nat offset) xs)"

lemma window_first [simp]: "window limit 0 xs = take (nat limit) xs"
  by (simp add: window_def)

definition listed :: "change_event list \<Rightarrow> int \<Rightarrow> int \<Rightarrow> list_result" where
  "listed es limit offset = \<lparr>lr_events = window limit offset es, lr_total_count = int (length es), lr_limit = limit, lr_offset = offset\<rparr>"

lemma list_spec_listed: "list_spec R p = listed (selection R p) (effective_limit (lp_limit p)) (lp_offset p)"
  by (simp add: list_spec_def result_page_def page_of_def listed_def window_def selection_def by_newest_def)

lemma current_spec_listed: "current_spec R q = listed (active_listing R q) (effective_limit (cp_limit q)) (cp_offset q)"
  by (simp add: current_spec_def result_page_def page_of_def listed_def window_def active_listing_def by_newest_def)

lemma rows_annotated:
  "build_dashboard_events es (\<lambda>i. if i \<in> set (map ev_id es) then Some (annotations_of R i) else None) = map (dashboard_row R) es"
  by (simp add: build_dashboard_events_def dashboard_row_def annotations_of_def)

context live_store
begin

lemma svc_list_current_listed:
  assumes "inv s" "ready s" "0 \<le> cp_offset q"
  shows "svc_list_current S q s = (Inr (listed (active_listing (reg s) q) (effective_limit (cp_limit q)) (cp_offset q)), s)"
proof -
  obtain x where run: "svc_list_current S q s = (Inr x, s)" using svc_list_current_live [OF assms] by blast
  have "x = current_spec (reg s) (q\<lparr>cp_limit := effective_limit (cp_limit q)\<rparr>)"
    using list_current [OF assms(1) run [unfolded svc_list_current_def]] by blast
  with run show ?thesis by (simp add: current_spec_listed)
qed

lemma list_dashboard_listed:
  assumes "inv s" "ready s" "distinct (map fst (lp_tags params))" "0 \<le> lp_offset params"
  shows "list_dashboard_events S params filters s =
    (Inr (listed (dashboard_listing (reg s) params filters) (effective_limit (lp_limit params)) (lp_offset params)), s)"
proof (cases "df_view filters = ''current'' \<or> df_view filters = ''site''")
  case True
  let ?q = "dashboard_current_query params filters\<lparr>cp_limit := lp_limit params, cp_offset := lp_offset params\<rparr>"
  have "list_dashboard_events S params filters = svc_list_current S ?q"
    using True by (auto simp: list_dashboard_events_def dashboard_current_query_def zero_current_params_def)
  with svc_list_current_listed [OF assms(1,2), of ?q] assms(4) True show ?thesis by (simp add: dashboard_listing_def)
next
  case False
  with svc_list_live [OF assms] show ?thesis by (simp add: list_dashboard_events_def dashboard_listing_def list_spec_listed)
qed

lemma fetch_annotations_live:
  assumes "inv s" "ready s" "set es \<subseteq> set (reg s)"
  obtains m where "fetch_annotations S es s = (Inr m, s)" "build_dashboard_events es m = map (dashboard_row (reg s)) es"
proof (cases "es = []")
  case True
  with that [of Map.empty] show ?thesis by (simp add: fetch_annotations_def ret_def build_dashboard_events_def)
next
  case False
  obtain m where run: "st_get_annotations_batch S (map ev_id es) s = (Inr m, s)"
    using live_get_annotations_batch [OF assms(1,2)] by blast
  have "[] \<notin> set (map ev_id es)" using assms(3) ids_nonempty [OF assms(1)] by (force simp: registry_ids_def)
  then have "m = (\<lambda>i. if i \<in> set (map ev_id es) then Some (annotations_of (reg s) i) else None)"
    using get_annotations_batch [OF assms(1) run] by blast
  with that [of m] run False rows_annotated [of es "reg s"] show ?thesis
    by (simp add: fetch_annotations_def svc_get_annotations_batch_def)
qed

lemma dashboard_run:
  assumes "inv s" "ready s" and parsed: "parse_dashboard_request lib now (rq_query rq) = (params, filters)"
    and params: "distinct (map fst (lp_tags params))" "0 \<le> lp_offset params"
  obtains m where "dashboard lib S refresh secret now cx rq s = (respond 200 (DashboardPage (page_data refresh secret cx rq filters
       (listed (dashboard_listing (reg s) params filters) (effective_limit (lp_limit params)) (lp_offset params))
       (listed (active_listing (reg s) (high_visibility_params filters)) dashboard_banner_limit 0) m)), s)"
    and "build_dashboard_events (window (effective_limit (lp_limit params)) (lp_offset params) (dashboard_listing (reg s) params filters)) m
      = map (dashboard_row (reg s)) (window (effective_limit (lp_limit params)) (lp_offset params) (dashboard_listing (reg s) params filters))"
proof -
  let ?es = "window (effective_limit (lp_limit params)) (lp_offset params) (dashboard_listing (reg s) params filters)"
  have "set ?es \<subseteq> set (reg s)"
    using listing_in_registry(3) unfolding window_def by (meson order_trans set_take_subset set_drop_subset)
  then obtain m where m: "fetch_annotations S ?es s = (Inr m, s)" "build_dashboard_events ?es m = map (dashboard_row (reg s)) ?es"
    by (rule fetch_annotations_live [OF assms(1,2)])
  have high: "cp_offset (high_visibility_params filters) = 0" "effective_limit (cp_limit (high_visibility_params filters)) = dashboard_banner_limit"
    by (simp_all add: high_visibility_params_def zero_current_params_def effective_limit_def dashboard_banner_limit_def max_limit_def)
  have banner: "svc_list_current S (high_visibility_params filters) s
      = (Inr (listed (active_listing (reg s) (high_visibility_params filters)) dashboard_banner_limit 0), s)"
    using svc_list_current_listed [OF assms(1,2), of "high_visibility_params filters"] high by simp
  show thesis
    by (rule that [OF _ m(2)])
      (simp add: dashboard_def parsed handle_result_def list_dashboard_listed [OF assms(1,2) params] banner listed_def m(1) reply_def)
qed

end

lemma window_end_bounds:
  assumes "0 \<le> offset" "offset \<le> max_int64" "int (length xs) \<le> max_int64"
  shows "min_int64 \<le> offset + int (length (window limit offset xs))" "offset + int (length (window limit offset xs)) \<le> max_int64"
  using assms by (auto simp: window_def min_int64_def min_def)

lemma next_offset:
  assumes "0 \<le> offset" "offset \<le> max_int64" "1 \<le> limit" "limit \<le> max_limit" "0 \<le> n"
  shows "wrap_int64 (offset + limit) < n \<longleftrightarrow> offset + limit < n \<or> max_int64 < offset + limit"
    and "wrap_int64 (offset + limit) \<le> max_int64"
    and "max 0 (wrap_int64 (offset + limit)) = (if max_int64 < offset + limit then 0 else offset + limit)"
proof -
  have w: "wrap_int64 (offset + limit) = (if max_int64 < offset + limit then offset + limit - 18446744073709551616 else offset + limit)"
  proof (cases "max_int64 < offset + limit")
    case True
    then have "(offset + limit + 9223372036854775808 - 18446744073709551616) mod 18446744073709551616 = offset + limit - 9223372036854775808"
      using assms by (subst mod_pos_pos_trivial) (simp_all add: max_int64_def max_limit_def)
    moreover have "(offset + limit + 9223372036854775808 - 18446744073709551616) mod 18446744073709551616
      = (offset + limit + 9223372036854775808) mod 18446744073709551616" by (rule minus_mod_self2)
    ultimately show ?thesis using True by (simp add: wrap_int64_def)
  next
    case False
    with assms show ?thesis by (simp add: wrap_int64_id min_int64_def)
  qed
  show "wrap_int64 (offset + limit) < n \<longleftrightarrow> offset + limit < n \<or> max_int64 < offset + limit"
    "max 0 (wrap_int64 (offset + limit)) = (if max_int64 < offset + limit then 0 else offset + limit)"
    using assms by (simp_all add: w max_int64_def max_limit_def)
  show "wrap_int64 (offset + limit) \<le> max_int64" using wrap_int64_range by blast
qed

lemma page_link:
  assumes "distinct (map fst (rq_query rq))" "1 \<le> limit" "limit \<le> max_limit" "offset \<le> max_int64"
    and "parse_dashboard_request lib now (rq_query rq) = (params, filters)"
  shows "parse_dashboard_request lib now (parse_query (drop 2 (pagination_url rq offset limit)))
    = (params\<lparr>lp_limit := limit, lp_offset := max 0 offset\<rparr>, filters)"
  using pagination_link_round_trip [of "rq_query rq" limit offset lib now] assms
  by (simp add: pagination_url_def max_limit_def max_int64_def)

text \<open>
  C17: the pages of the dashboard. Over tables none of whose round trips fails, every request for the list
  is answered with a page: at most 200 events, the window at the requested offset of the events the view and
  the filters select, newest first, each with its star and alert state, the total, and at most twenty
  active events in the banner. The links, opened at the same moment, ask for the windows before and after
  with the same filters. The 64-bit addition only shows when the offset is within a page of the largest
  integer: then the page claims to have a successor and its link leads back to the first page.
\<close>

theorem dashboard_pages:
  assumes "pg_inv s" and "pg_ready s" and "int (length (pg_registry s)) \<le> max_int64" and "distinct (map fst (rq_query rq))"
    and "parse_dashboard_request lib now (rq_query rq) = (params, filters)"
  shows "\<exists>d. dashboard lib pg_store refresh secret now cx rq s = (respond 200 (DashboardPage d), s)
    \<and> (let all_events = dashboard_listing (pg_registry s) params filters; limit = effective_limit (lp_limit params);
          offset = lp_offset params; shown = window limit offset all_events;
          opened = (\<lambda>url. parse_dashboard_request lib now (parse_query (drop 2 url))) in
        1 \<le> limit \<and> limit \<le> 200 \<and> 0 \<le> offset \<and> offset \<le> max_int64
        \<and> dd_events d = map (dashboard_row (pg_registry s)) shown \<and> dd_total_count d = int (length all_events)
        \<and> dd_offset_end d = offset + int (length shown)
        \<and> dd_has_prev d = (0 < offset)
        \<and> opened (dd_prev_url d) = (params\<lparr>lp_limit := limit, lp_offset := max 0 (offset - limit)\<rparr>, filters)
        \<and> dd_has_next d = (offset + limit < int (length all_events) \<or> max_int64 < offset + limit)
        \<and> opened (dd_next_url d) =
            (params\<lparr>lp_limit := limit, lp_offset := if max_int64 < offset + limit then 0 else offset + limit\<rparr>, filters)
        \<and> dd_banner_events d = take 20 (active_listing (pg_registry s) (high_visibility_params filters)))"
proof -
  let ?limit = "effective_limit (lp_limit params)" and ?off = "lp_offset params"
  let ?all = "dashboard_listing (pg_registry s) params filters"
  have off: "0 \<le> ?off" "?off \<le> max_int64"
    using assms(5) parse_bounded_int_min [of 0 0 "rq_query rq" "''offset''"] parse_bounded_int_max [of 0 "rq_query rq" "''offset''" 0]
    by (auto simp: parse_dashboard_request_def min_int64_def max_int64_def split: prod.splits)
  have limit: "1 \<le> ?limit" "?limit \<le> max_limit" using effective_limit_bounds by blast+
  have count: "int (length ?all) \<le> max_int64" using listing_length [of "pg_registry s" params filters] assms(3) by linarith
  obtain m where run: "dashboard lib pg_store refresh secret now cx rq s = (respond 200 (DashboardPage (page_data refresh secret cx rq filters
       (listed ?all ?limit ?off) (listed (active_listing (pg_registry s) (high_visibility_params filters)) dashboard_banner_limit 0) m)), s)"
    and rows: "build_dashboard_events (window ?limit ?off ?all) m = map (dashboard_row (pg_registry s)) (window ?limit ?off ?all)"
    using live_pgs.dashboard_run [OF assms(1,2,5) parse_dashboard_request_tags [OF assms(5)] off(1)] by blast
  have before: "wrap_int64 (?off - ?limit) = ?off - ?limit"
    using off limit by (simp add: wrap_int64_id min_int64_def max_int64_def max_limit_def)
  have finish: "wrap_int64 (?off + int (length (window ?limit ?off ?all))) = ?off + int (length (window ?limit ?off ?all))"
    by (rule wrap_int64_id) (rule window_end_bounds [OF off count])+
  note link = page_link [OF assms(4) limit _ assms(5)]
  show ?thesis
    unfolding Let_def
    by (rule exI, intro conjI, rule run)
      (use off limit next_offset [OF off limit] before finish rows link [of "?off - ?limit"] link [of "wrap_int64 (?off + ?limit)"]
        in \<open>simp_all add: page_data_def listed_def Let_def max_limit_def dashboard_banner_limit_def\<close>)
qed

text \<open>The Current view of the small registry: its one active operation, starred.\<close>

lemma demo_current_request:
  obtains params filters where "parse_dashboard_request demo_time 0 [(''view'', [''current''])] = (params, filters)"
    and "dashboard_current_query params filters = zero_current_params" and "df_view filters = ''current''"
    and "lp_offset params = 0" and "lp_limit params = dashboard_limit"
proof -
  let ?q = "[(''view'', [''current''])]"
  obtain params filters where run: "parse_dashboard_request demo_time 0 ?q = (params, filters)" by fastforce
  have view: "dashboard_view ?q = ''current''" by (simp add: dashboard_view_def q_get_def q_all_def)
  have "(params, filters) = (zero_list_params\<lparr>lp_top_level := True, lp_limit := dashboard_limit, lp_offset := 0\<rparr>, initial_filters ?q)"
    unfolding run [symmetric] parse_dashboard_request_def dashboard_selection_def
    by (simp add: initial_filters_def view is_history_def Let_def parse_bounded_int_def q_get_def q_all_def)
  moreover have "initial_filters ?q = \<lparr>df_view = ''current'', df_team = [], df_range = [], df_start_after = [], df_start_before = [],
      df_event_type = [], df_user_name = [], df_alerted = False, df_tags = [], df_scopes = [], df_severities = []\<rparr>"
    by (simp add: initial_filters_def view q_get_def q_all_def normalize_current_values_def)
  ultimately show thesis
    by (intro that [OF run]) (simp_all add: dashboard_current_query_def zero_current_params_def zero_list_params_def)
qed

lemma demo_active: "active_listing (pg_registry demo_pg) zero_current_params = [hd (pg_registry demo_pg)]"
proof -
  have later: "operation_in_phase ''start'' e = None" if "e \<in> set (tl (pg_registry demo_pg))" for e
    using that by (auto simp: demo_registry operation_in_phase_def)
  have split: "pg_registry demo_pg = hd (pg_registry demo_pg) # tl (pg_registry demo_pg)" by (simp add: demo_registry)
  have "filter (\<lambda>e. represents_active (pg_registry demo_pg) e) (tl (pg_registry demo_pg)) = []"
    using later by (simp add: filter_empty_conv represents_active_def)
  moreover have "represents_active (pg_registry demo_pg) (hd (pg_registry demo_pg))"
  proof -
    have "d = hd (pg_registry demo_pg)" if "d \<in> set (pg_registry demo_pg)" "operation_in_phase ''start'' d \<noteq> None" for d
      using that later [of d] by (subst (asm) split) auto
    then show ?thesis unfolding represents_active_def using demo_not_ended by (auto simp: list_all_iff demo_start_phase)
  qed
  moreover have "visible_in zero_current_params e" for e by (simp add: visible_in_def zero_current_params_def)
  ultimately show ?thesis unfolding active_listing_def by (subst split) (simp add: by_newest_def)
qed

theorem dashboard_pages_witness:
  "\<exists>d. dashboard demo_time pg_store 30 ''secret'' 0 empty_context (no_request\<lparr>rq_query := [(''view'', [''current''])]\<rparr>) demo_pg
      = (respond 200 (DashboardPage d), demo_pg)
    \<and> dd_events d = [\<lparr>de_event = hd (pg_registry demo_pg), de_starred = True, de_alerted = False\<rparr>] \<and> \<not> dd_has_next d"
proof -
  let ?rq = "no_request\<lparr>rq_query := [(''view'', [''current''])]\<rparr>"
  obtain params filters where run: "parse_dashboard_request demo_time 0 [(''view'', [''current''])] = (params, filters)"
    and query: "dashboard_current_query params filters = zero_current_params" "df_view filters = ''current''"
    and paging: "lp_offset params = 0" "lp_limit params = dashboard_limit" by (rule demo_current_request)
  have listing: "dashboard_listing (pg_registry demo_pg) params filters = [hd (pg_registry demo_pg)]"
    by (simp add: dashboard_listing_def query demo_active)
  have "starred (pg_registry demo_pg) ''e1''" "\<not> alerted (pg_registry demo_pg) ''e1''"
    by (simp_all add: demo_registry starred_def alerted_def latest_of_def is_child_def event_type_defs)
  then have row: "dashboard_row (pg_registry demo_pg) (hd (pg_registry demo_pg))
      = \<lparr>de_event = hd (pg_registry demo_pg), de_starred = True, de_alerted = False\<rparr>"
    by (simp add: dashboard_row_def demo_registry)
  have "distinct (map fst (rq_query ?rq))" "parse_dashboard_request demo_time 0 (rq_query ?rq) = (params, filters)"
    "int (length (pg_registry demo_pg)) \<le> max_int64"
    using run by (simp_all add: demo_registry max_int64_def)
  note pages = dashboard_pages [OF demo_inv demo_ready this(3) this(1) this(2), where refresh = 30 and secret = "''secret''" and cx = empty_context]
  have "0 < effective_limit dashboard_limit" "\<not> max_int64 < effective_limit dashboard_limit" "\<not> effective_limit dashboard_limit < 1"
    by (simp_all add: effective_limit_def dashboard_limit_def max_limit_def max_int64_def)
  with pages show ?thesis by (auto simp: Let_def listing paging row)
qed

end
