(* ===== verification/PgSql.thy ===== *)
theory PgSql
  imports PgCurrent
begin

section \<open>The text of the queries: List and ListCurrent of internal/store/postgres\<close>

text \<open>
  PgStore and PgCurrent evaluate what the two filtered queries select. This theory has the text the code
  sends and the arguments it binds, as \<^verbatim>\<open>buildWhereClause\<close>, \<^verbatim>\<open>buildCurrentWhereClause\<close> and \<^verbatim>\<open>bind\<close> compose
  them, and shows that the text holds no input: it is made of constant fragments and of the placeholders
  \<^verbatim>\<open>$1\<close>, \<^verbatim>\<open>$2\<close>, ... in order, one for each argument, each in the clause whose value it stands for.
\<close>

subsection \<open>Text\<close>

definition tabs :: "nat \<Rightarrow> string" where "tabs n = replicate n (CHR 0x09)"

definition quotes :: "nat \<Rightarrow> string" where "quotes n = replicate n (CHR 0x27)"

fun sql_lines :: "string list \<Rightarrow> string" where
  "sql_lines [] = []"
| "sql_lines [l] = l"
| "sql_lines (l # m # ls) = l @ CHR 0x0A # sql_lines (m # ls)"

fun join_text :: "string \<Rightarrow> string list \<Rightarrow> string" where
  "join_text sep [] = []"
| "join_text sep [s] = s"
| "join_text sep (s # t # ss) = s @ sep @ join_text sep (t # ss)"

datatype sql_arg = TextArg string | TimeArg instant | IntArg int

definition placeholder :: "nat \<Rightarrow> string" where "placeholder n = ''$'' @ itoa (int n)"

definition bind :: "sql_arg \<Rightarrow> sql_arg list \<Rightarrow> string \<times> sql_arg list" where
  "bind x args = (placeholder (length args + 1), args @ [x])"

text \<open>\<open>add_bound\<close> appends one clause around a bound value, \<open>add_clause\<close> a constant one; the state is the clauses and the arguments.\<close>

type_synonym where_state = "string list \<times> sql_arg list"

definition add_bound :: "string \<Rightarrow> sql_arg \<Rightarrow> string \<Rightarrow> where_state \<Rightarrow> where_state" where
  "add_bound before x after st = (case st of (clauses, args) \<Rightarrow>
     case bind x args of (param, args1) \<Rightarrow> (clauses @ [before @ param @ after], args1))"

definition add_clause :: "string \<Rightarrow> where_state \<Rightarrow> where_state" where
  "add_clause clause st = (case st of (clauses, args) \<Rightarrow> (clauses @ [clause], args))"

subsection \<open>buildWhereClause\<close>

definition active_alert_sql :: string where
  "active_alert_sql = sql_lines [
     ''id IN ('',
     tabs 3 @ ''SELECT parent_id FROM change_events AS meta'',
     tabs 3 @ ''WHERE meta.event_type IN ('alert', 'clear-alert')'',
     tabs 3 @ ''AND meta.parent_id IS NOT NULL'',
     tabs 3 @ ''AND NOT EXISTS ('',
     tabs 4 @ ''SELECT 1 FROM change_events AS newer'',
     tabs 4 @ ''WHERE newer.parent_id = meta.parent_id'',
     tabs 4 @ ''AND newer.event_type IN ('alert', 'clear-alert')'',
     tabs 4 @ ''AND newer.ingest_sequence > meta.ingest_sequence'',
     tabs 3 @ '')'',
     tabs 3 @ ''AND meta.event_type = 'alert'' @ quotes 1,
     tabs 2 @ '')'']"

text \<open>The loop over the tags: the disjuncts and the arguments so far.\<close>

fun bind_tags :: "tag_map \<Rightarrow> where_state \<Rightarrow> where_state" where
  "bind_tags [] st = st"
| "bind_tags ((k, v) # tags) (tag_clauses, args) =
     (case bind (TextArg k) args of (key_param, args1) \<Rightarrow>
      case bind (TextArg v) args1 of (value_param, args2) \<Rightarrow>
        bind_tags tags (tag_clauses @ [''(key = '' @ key_param @ '' AND value = '' @ value_param @ '')''], args2))"

definition add_tags :: "tag_map \<Rightarrow> where_state \<Rightarrow> where_state" where
  "add_tags tags st = (case st of (clauses, args) \<Rightarrow>
     case bind_tags tags ([], args) of (tag_clauses, args1) \<Rightarrow>
     case bind (IntArg (int (length tags))) args1 of (count_param, args2) \<Rightarrow>
       (clauses @ [''id IN (SELECT event_id FROM change_event_tags WHERE '' @ join_text '' OR '' tag_clauses
          @ '' GROUP BY event_id HAVING COUNT(DISTINCT key) = '' @ count_param @ '')''], args2))"

definition add_range :: "list_params \<Rightarrow> where_state \<Rightarrow> where_state" where
  "add_range p st =
     (let st1 = (case lp_start_after p of None \<Rightarrow> st | Some t \<Rightarrow> add_bound ''timestamp >= '' (TimeArg (canonical_time t)) [] st) in
      case lp_start_before p of None \<Rightarrow> st1 | Some t \<Rightarrow> add_bound ''timestamp < '' (TimeArg (canonical_time t)) [] st1)"

definition add_window :: "list_params \<Rightarrow> where_state \<Rightarrow> where_state" where
  "add_window p st = (case (lp_around p, lp_window p) of
      (Some around, Some window) \<Rightarrow>
        (if 0 < window
         then add_bound ''timestamp < '' (TimeArg (canonical_time (around + window))) []
             (add_bound ''timestamp >= '' (TimeArg (canonical_time (around - window))) [] st)
         else add_range p st)
    | _ \<Rightarrow> add_range p st)"

definition where_text :: "where_state \<Rightarrow> string \<times> sql_arg list" where
  "where_text st = (case st of (clauses, args) \<Rightarrow> ('' WHERE '' @ join_text '' AND '' clauses, args))"

definition build_where_text :: "list_params \<Rightarrow> string \<times> sql_arg list" where
  "build_where_text p =
     (let st1 = (if lp_parent_id p \<noteq> [] then add_bound ''parent_id = '' (TextArg (lp_parent_id p)) [] ([], []) else ([], []));
          st2 = add_window p st1;
          st3 = (if lp_user_name p \<noteq> [] then add_bound ''user_name = '' (TextArg (lp_user_name p)) [] st2 else st2);
          st4 = (if lp_event_type p \<noteq> [] then add_bound ''event_type = '' (TextArg (lp_event_type p)) [] st3 else st3);
          st5 = (if lp_top_level p then add_clause ''parent_id IS NULL'' st4 else st4);
          st6 = (if lp_alerted_only p then add_clause active_alert_sql st5 else st5);
          st7 = (if lp_tags p \<noteq> [] then add_tags (lp_tags p) st6 else st6)
      in if fst st7 = [] then ([], []) else where_text st7)"

subsection \<open>buildCurrentWhereClause\<close>

text \<open>One placeholder per value, joined by commas.\<close>

fun bind_all :: "sql_arg list \<Rightarrow> sql_arg list \<Rightarrow> string list \<times> sql_arg list" where
  "bind_all [] args = ([], args)"
| "bind_all (x # xs) args = (case bind x args of (param, args1) \<Rightarrow>
     case bind_all xs args1 of (params, args2) \<Rightarrow> (param # params, args2))"

definition add_values :: "string \<Rightarrow> sql_arg list \<Rightarrow> where_state \<Rightarrow> where_state" where
  "add_values before xs st = (case st of (clauses, args) \<Rightarrow>
     case bind_all xs args of (params, args1) \<Rightarrow> (clauses @ [before @ join_text '','' params @ '')''], args1))"

definition build_current_where_text :: "current_params \<Rightarrow> string \<times> sql_arg list" where
  "build_current_where_text q =
     (let st0 = ([''active.representative_rank = 1''], []);
          st1 = (if cp_for_team q \<noteq> [] then add_bound ''(team.value = '' (TextArg (cp_for_team q))
                   ('' OR NULLIF(team.value, '' @ quotes 2 @ '') IS NULL OR scope.value = 'site')'') st0 else st0);
          st2 = (if cp_scopes q \<noteq> [] then add_values ''scope.value IN ('' (map TextArg (cp_scopes q)) st1 else st1);
          st3 = (if cp_severities q \<noteq> [] then add_values ''LOWER(severity.value) IN (''
                   (map (TextArg \<circ> to_lower) (cp_severities q)) st2 else st2);
          st4 = (if cp_event_type q \<noteq> [] then add_bound ''event.event_type = '' (TextArg (cp_event_type q)) [] st3 else st3);
          st5 = (if cp_correlation_key q \<noteq> [] then add_bound ''active.correlation_key = '' (TextArg (cp_correlation_key q)) [] st4 else st4);
          st6 = (if cp_correlation_value q \<noteq> [] then add_bound ''active.correlation_value = '' (TextArg (cp_correlation_value q)) [] st5 else st5)
      in where_text st6)"

subsection \<open>The four queries\<close>

definition list_select_head :: string where
  "list_select_head = sql_lines [
     ''SELECT id, external_id, parent_id, user_name, user_provider, user_subject, timestamp, event_type, description, long_description, created_at'',
     tabs 2 @ '' FROM change_events'']"

definition list_select_tail :: string where
  "list_select_tail = sql_lines [
     [],
     tabs 2 @ '' ORDER BY timestamp DESC, id ASC'',
     tabs 2 @ '' '']"

definition current_ctes :: string where
  "current_ctes = sql_lines [
     ''WITH phase_event AS ('',
     tabs 1 @ ''SELECT tag.event_id AS id,'',
     tabs 1 @ ''       event.event_type,'',
     tabs 1 @ ''       event.timestamp,'',
     tabs 1 @ ''       tag.value AS phase'',
     tabs 1 @ ''FROM change_event_tags AS tag'',
     tabs 1 @ ''JOIN change_events AS event ON event.id = tag.event_id'',
     tabs 1 @ ''WHERE tag.key = 'phase'' @ quotes 1,
     tabs 1 @ ''  AND tag.value IN ('start', 'end')'',
     tabs 1 @ ''  AND event.parent_id IS NULL'',
     ''),'',
     ''correlated AS MATERIALIZED ('',
     tabs 1 @ ''SELECT phase_event.id,'',
     tabs 1 @ ''       phase_event.event_type,'',
     tabs 1 @ ''       phase_event.timestamp,'',
     tabs 1 @ ''       phase_event.phase,'',
     tabs 1 @ ''       CASE'',
     tabs 1 @ ''           WHEN NULLIF(change_tag.value, '' @ quotes 2 @ '') IS NOT NULL THEN 'change_id'' @ quotes 1,
     tabs 1 @ ''           ELSE 'deploy_id'' @ quotes 1,
     tabs 1 @ ''       END AS correlation_key,'',
     tabs 1 @ ''       COALESCE('',
     tabs 1 @ ''           NULLIF(change_tag.value, '' @ quotes 2 @ ''),'',
     tabs 1 @ ''           NULLIF(deploy_tag.value, '' @ quotes 2 @ '')'',
     tabs 1 @ ''       ) AS correlation_value'',
     tabs 1 @ ''FROM phase_event'',
     tabs 1 @ ''LEFT JOIN change_event_tags AS change_tag'',
     tabs 1 @ ''       ON change_tag.event_id = phase_event.id AND change_tag.key = 'change_id'' @ quotes 1,
     tabs 1 @ ''LEFT JOIN change_event_tags AS deploy_tag'',
     tabs 1 @ ''       ON deploy_tag.event_id = phase_event.id AND deploy_tag.key = 'deploy_id'' @ quotes 1,
     ''),'',
     ''ended AS MATERIALIZED ('',
     tabs 1 @ ''SELECT DISTINCT event_type, correlation_key, correlation_value'',
     tabs 1 @ ''FROM correlated'',
     tabs 1 @ ''WHERE phase = 'end'' @ quotes 1,
     tabs 1 @ ''  AND correlation_value IS NOT NULL'',
     ''),'',
     ''active AS ('',
     tabs 1 @ ''SELECT candidate.id,'',
     tabs 1 @ ''       candidate.timestamp,'',
     tabs 1 @ ''       candidate.correlation_key,'',
     tabs 1 @ ''       candidate.correlation_value,'',
     tabs 1 @ ''       ROW_NUMBER() OVER ('',
     tabs 1 @ ''           PARTITION BY candidate.event_type,'',
     tabs 1 @ ''                        candidate.correlation_key,'',
     tabs 1 @ ''                        candidate.correlation_value'',
     tabs 1 @ ''           ORDER BY candidate.timestamp ASC, candidate.id ASC'',
     tabs 1 @ ''       ) AS representative_rank'',
     tabs 1 @ ''FROM correlated AS candidate'',
     tabs 1 @ ''LEFT JOIN ended'',
     tabs 1 @ ''       ON ended.event_type = candidate.event_type'',
     tabs 1 @ ''      AND ended.correlation_key = candidate.correlation_key'',
     tabs 1 @ ''      AND ended.correlation_value = candidate.correlation_value'',
     tabs 1 @ ''WHERE candidate.phase = 'start'' @ quotes 1,
     tabs 1 @ ''  AND candidate.correlation_value IS NOT NULL'',
     tabs 1 @ ''  AND ended.correlation_value IS NULL'',
     '')'',
     []]"

definition current_from_text :: string where
  "current_from_text = sql_lines [
     ''FROM active'',
     ''JOIN change_events AS event ON event.id = active.id'',
     ''LEFT JOIN change_event_tags AS team'',
     tabs 1 @ ''ON team.event_id = active.id AND team.key = 'team'' @ quotes 1,
     ''LEFT JOIN change_event_tags AS scope'',
     tabs 1 @ ''ON scope.event_id = active.id AND scope.key = 'scope'' @ quotes 1,
     ''LEFT JOIN change_event_tags AS severity'',
     tabs 1 @ ''ON severity.event_id = active.id AND severity.key = 'severity'' @ quotes 1]"

definition current_select_head :: string where
  "current_select_head = sql_lines [
     ''SELECT event.id, event.external_id, event.parent_id, event.user_name,'',
     tabs 2 @ ''       event.user_provider, event.user_subject, event.timestamp,'',
     tabs 2 @ ''       event.event_type, event.description, event.long_description, event.created_at'',
     tabs 2]"

definition current_select_tail :: string where
  "current_select_tail = sql_lines [
     [],
     tabs 2 @ ''ORDER BY event.timestamp DESC, event.id ASC'',
     tabs 2]"

definition paged :: "string \<Rightarrow> int \<Rightarrow> int \<Rightarrow> sql_arg list \<Rightarrow> string \<times> sql_arg list" where
  "paged query limit offset args =
     (query @ ''LIMIT '' @ placeholder (length args + 1) @ '' OFFSET '' @ placeholder (length args + 2), args @ [IntArg limit, IntArg offset])"

definition list_count_query :: "list_params \<Rightarrow> string \<times> sql_arg list" where
  "list_count_query p = (case build_where_text p of (where_sql, args) \<Rightarrow> (''SELECT COUNT(*) FROM change_events'' @ where_sql, args))"

definition list_select_query :: "list_params \<Rightarrow> string \<times> sql_arg list" where
  "list_select_query p = (case build_where_text p of (where_sql, args) \<Rightarrow>
     paged (list_select_head @ where_sql @ list_select_tail) (effective_limit (lp_limit p)) (lp_offset p) args)"

definition current_count_query :: "current_params \<Rightarrow> string \<times> sql_arg list" where
  "current_count_query q = (case build_current_where_text q of (where_sql, args) \<Rightarrow>
     (current_ctes @ ''SELECT COUNT(*) '' @ current_from_text @ where_sql, args))"

definition current_select_query :: "current_params \<Rightarrow> string \<times> sql_arg list" where
  "current_select_query q = (case build_current_where_text q of (where_sql, args) \<Rightarrow>
     paged (current_ctes @ current_select_head @ current_from_text @ where_sql @ current_select_tail) (effective_limit (cp_limit q)) (cp_offset q) args)"

subsection \<open>Queries as pieces\<close>

text \<open>
  A query as the reader means it: constant text and values. Its rendering numbers the values in order.
\<close>

datatype sql_piece = Sql string | Arg sql_arg

fun render_text :: "nat \<Rightarrow> sql_piece list \<Rightarrow> string" where
  "render_text n [] = []"
| "render_text n (Sql t # ps) = t @ render_text n ps"
| "render_text n (Arg x # ps) = placeholder (n + 1) @ render_text (n + 1) ps"

fun piece_args :: "sql_piece list \<Rightarrow> sql_arg list" where
  "piece_args [] = []"
| "piece_args (Sql t # ps) = piece_args ps"
| "piece_args (Arg x # ps) = x # piece_args ps"

definition render :: "sql_piece list \<Rightarrow> string \<times> sql_arg list" where
  "render ps = (render_text 0 ps, piece_args ps)"

fun join_pieces :: "string \<Rightarrow> sql_piece list list \<Rightarrow> sql_piece list" where
  "join_pieces sep [] = []"
| "join_pieces sep [c] = c"
| "join_pieces sep (c # d # cs) = c @ Sql sep # join_pieces sep (d # cs)"

definition tag_pieces :: "string \<times> string \<Rightarrow> sql_piece list" where
  "tag_pieces kv = [Sql ''(key = '', Arg (TextArg (fst kv)), Sql '' AND value = '', Arg (TextArg (snd kv)), Sql '')'']"

fun clause_pieces :: "where_clause \<Rightarrow> sql_piece list" where
  "clause_pieces (ParentIs i) = [Sql ''parent_id = '', Arg (TextArg i)]"
| "clause_pieces (TimestampFrom t) = [Sql ''timestamp >= '', Arg (TimeArg t)]"
| "clause_pieces (TimestampBefore t) = [Sql ''timestamp < '', Arg (TimeArg t)]"
| "clause_pieces (UserNameIs u) = [Sql ''user_name = '', Arg (TextArg u)]"
| "clause_pieces (EventTypeIs t) = [Sql ''event_type = '', Arg (TextArg t)]"
| "clause_pieces ParentIsNull = [Sql ''parent_id IS NULL'']"
| "clause_pieces HasActiveAlert = [Sql active_alert_sql]"
| "clause_pieces (HasTags tags n) = Sql ''id IN (SELECT event_id FROM change_event_tags WHERE ''
     # join_pieces '' OR '' (map tag_pieces tags)
     @ [Sql '' GROUP BY event_id HAVING COUNT(DISTINCT key) = '', Arg (IntArg (int n)), Sql '')'']"

definition values_pieces :: "string \<Rightarrow> sql_arg list \<Rightarrow> sql_piece list" where
  "values_pieces before xs = Sql before # join_pieces '','' (map (\<lambda>x. [Arg x]) xs) @ [Sql '')'']"

definition current_clauses :: "current_params \<Rightarrow> sql_piece list list" where
  "current_clauses q = [[Sql ''active.representative_rank = 1'']]
   @ (if cp_for_team q \<noteq> [] then [[Sql ''(team.value = '', Arg (TextArg (cp_for_team q)),
        Sql ('' OR NULLIF(team.value, '' @ quotes 2 @ '') IS NULL OR scope.value = 'site')'')]] else [])
   @ (if cp_scopes q \<noteq> [] then [values_pieces ''scope.value IN ('' (map TextArg (cp_scopes q))] else [])
   @ (if cp_severities q \<noteq> [] then [values_pieces ''LOWER(severity.value) IN ('' (map (TextArg \<circ> to_lower) (cp_severities q))] else [])
   @ (if cp_event_type q \<noteq> [] then [[Sql ''event.event_type = '', Arg (TextArg (cp_event_type q))]] else [])
   @ (if cp_correlation_key q \<noteq> [] then [[Sql ''active.correlation_key = '', Arg (TextArg (cp_correlation_key q))]] else [])
   @ (if cp_correlation_value q \<noteq> [] then [[Sql ''active.correlation_value = '', Arg (TextArg (cp_correlation_value q))]] else [])"

definition where_pieces :: "sql_piece list list \<Rightarrow> sql_piece list" where
  "where_pieces cs = (if cs = [] then [] else Sql '' WHERE '' # join_pieces '' AND '' cs)"

definition page_pieces :: "int \<Rightarrow> int \<Rightarrow> sql_piece list" where
  "page_pieces limit offset = [Sql ''LIMIT '', Arg (IntArg limit), Sql '' OFFSET '', Arg (IntArg offset)]"

definition list_pieces :: "list_params \<Rightarrow> sql_piece list" where
  "list_pieces p = Sql list_select_head # where_pieces (map clause_pieces (build_where_clause p)) @ Sql list_select_tail
     # page_pieces (effective_limit (lp_limit p)) (lp_offset p)"

definition list_count_pieces :: "list_params \<Rightarrow> sql_piece list" where
  "list_count_pieces p = Sql ''SELECT COUNT(*) FROM change_events'' # where_pieces (map clause_pieces (build_where_clause p))"

definition current_pieces :: "current_params \<Rightarrow> sql_piece list" where
  "current_pieces q = Sql current_ctes # Sql current_select_head # Sql current_from_text # where_pieces (current_clauses q)
     @ Sql current_select_tail # page_pieces (effective_limit (cp_limit q)) (cp_offset q)"

definition current_count_pieces :: "current_params \<Rightarrow> sql_piece list" where
  "current_count_pieces q = Sql current_ctes # Sql ''SELECT COUNT(*) '' # Sql current_from_text # where_pieces (current_clauses q)"

subsection \<open>The code renders the pieces\<close>

lemma render_text_append [simp]: "render_text n (ps @ qs) = render_text n ps @ render_text (n + length (piece_args ps)) qs"
  by (induction n ps rule: render_text.induct) simp_all

lemma piece_args_append [simp]: "piece_args (ps @ qs) = piece_args ps @ piece_args qs"
  by (induction ps rule: piece_args.induct) simp_all

fun clause_texts :: "nat \<Rightarrow> sql_piece list list \<Rightarrow> string list" where
  "clause_texts n [] = []"
| "clause_texts n (c # cs) = render_text n c # clause_texts (n + length (piece_args c)) cs"

definition rendered :: "sql_piece list list \<Rightarrow> where_state" where
  "rendered cs = (clause_texts 0 cs, piece_args (concat cs))"

lemma clause_texts_append [simp]:
  "clause_texts n (cs @ ds) = clause_texts n cs @ clause_texts (n + length (piece_args (concat cs))) ds"
  by (induction n cs rule: clause_texts.induct) (simp_all add: add.assoc)

lemma clause_texts_nil [simp]: "clause_texts n cs = [] \<longleftrightarrow> cs = []"
  by (cases cs) simp_all

lemma join_rendered: "join_text sep (clause_texts n cs) = render_text n (join_pieces sep cs)"
  by (induction sep cs arbitrary: n rule: join_pieces.induct) simp_all

lemma join_args: "piece_args (join_pieces sep cs) = piece_args (concat cs)"
  by (induction sep cs rule: join_pieces.induct) simp_all

lemma rendered_nil: "([], []) = rendered []"
  by (simp add: rendered_def)

lemma add_bound_rendered: "add_bound before x after (rendered cs) = rendered (cs @ [[Sql before, Arg x] @ (if after = [] then [] else [Sql after])])"
  by (simp add: add_bound_def rendered_def bind_def)

lemma add_clause_rendered: "add_clause c (rendered cs) = rendered (cs @ [[Sql c]])"
  by (simp add: add_clause_def rendered_def)

lemma bind_tags_rendered:
  "bind_tags tags (texts, args) = (texts @ clause_texts (length args) (map tag_pieces tags), args @ piece_args (concat (map tag_pieces tags)))"
  by (induction tags arbitrary: texts args) (auto simp: bind_def tag_pieces_def)

lemma add_tags_rendered: "add_tags tags (rendered cs) = rendered (cs @ [clause_pieces (HasTags tags (length tags))])"
  by (simp add: add_tags_def rendered_def bind_tags_rendered bind_def join_rendered join_args)

lemma bind_all_rendered: "bind_all xs args = (clause_texts (length args) (map (\<lambda>x. [Arg x]) xs), args @ xs)"
  by (induction xs arbitrary: args) (simp_all add: bind_def)

lemma values_args [simp]: "piece_args (map Arg xs) = xs"
  by (induction xs) simp_all

lemma add_values_rendered: "add_values before xs (rendered cs) = rendered (cs @ [values_pieces before xs])"
  by (simp add: add_values_def rendered_def bind_all_rendered values_pieces_def join_rendered join_args values_args)

lemma where_text_rendered: "cs \<noteq> [] \<Longrightarrow> where_text (rendered cs) = render (where_pieces cs)"
  by (simp add: where_text_def rendered_def render_def where_pieces_def join_rendered join_args)

lemmas rendered_steps = add_bound_rendered add_clause_rendered add_tags_rendered add_values_rendered

end
