(* ===== verification/PgQueries.thy ===== *)
theory PgQueries
  imports PgSql
begin

section \<open>The queries hold no input\<close>

text \<open>
  The text of the four queries is the rendering of their pieces, clause by clause those that PgStore
  evaluates; the numbered placeholders stand for the arguments in order, and the text is the same for all
  requests that use the same filters, whatever values they ask for.
\<close>

lemma rendered_empty [simp]: "fst (rendered cs) = [] \<longleftrightarrow> cs = []"
  by (simp add: rendered_def)

lemma build_where_rendered: "build_where_text p = render (where_pieces (map clause_pieces (build_where_clause p)))"
proof -
  define cs1 where "cs1 = (if lp_parent_id p \<noteq> [] then [ParentIs (lp_parent_id p)] else [])"
  define cs2 where "cs2 = (case (lp_around p, lp_window p) of
        (Some around, Some window) \<Rightarrow>
          (if 0 < window
           then [TimestampFrom (canonical_time (around - window)), TimestampBefore (canonical_time (around + window))]
           else (case lp_start_after p of None \<Rightarrow> [] | Some t \<Rightarrow> [TimestampFrom (canonical_time t)])
              @ (case lp_start_before p of None \<Rightarrow> [] | Some t \<Rightarrow> [TimestampBefore (canonical_time t)]))
      | _ \<Rightarrow> (case lp_start_after p of None \<Rightarrow> [] | Some t \<Rightarrow> [TimestampFrom (canonical_time t)])
           @ (case lp_start_before p of None \<Rightarrow> [] | Some t \<Rightarrow> [TimestampBefore (canonical_time t)]))"
  have one: "(if lp_parent_id p \<noteq> [] then add_bound ''parent_id = '' (TextArg (lp_parent_id p)) [] ([], []) else ([], []))
      = rendered (map clause_pieces cs1)"
    by (simp add: cs1_def rendered_nil rendered_steps)
  have range: "add_range p (rendered cs) = rendered (cs @ map clause_pieces
      ((case lp_start_after p of None \<Rightarrow> [] | Some t \<Rightarrow> [TimestampFrom (canonical_time t)])
        @ (case lp_start_before p of None \<Rightarrow> [] | Some t \<Rightarrow> [TimestampBefore (canonical_time t)])))" for cs
    by (cases "lp_start_after p"; cases "lp_start_before p") (simp_all add: add_range_def rendered_steps)
  have two: "add_window p (rendered cs) = rendered (cs @ map clause_pieces cs2)" for cs
    unfolding cs2_def add_window_def
    by (cases "lp_around p"; cases "lp_window p") (simp_all add: range rendered_steps)
  define cs where "cs = map clause_pieces (build_where_clause p)"
  have cs: "cs = map clause_pieces cs1 @ map clause_pieces cs2
     @ (if lp_user_name p \<noteq> [] then [clause_pieces (UserNameIs (lp_user_name p))] else [])
     @ (if lp_event_type p \<noteq> [] then [clause_pieces (EventTypeIs (lp_event_type p))] else [])
     @ (if lp_top_level p then [clause_pieces ParentIsNull] else []) @ (if lp_alerted_only p then [clause_pieces HasActiveAlert] else [])
     @ (if lp_tags p \<noteq> [] then [clause_pieces (HasTags (lp_tags p) (length (lp_tags p)))] else [])"
    unfolding cs_def build_where_clause_def cs1_def cs2_def by simp
  have user: "(if lp_user_name p \<noteq> [] then add_bound ''user_name = '' (TextArg (lp_user_name p)) [] (rendered cs) else rendered cs)
      = rendered (cs @ (if lp_user_name p \<noteq> [] then [clause_pieces (UserNameIs (lp_user_name p))] else []))"
    and type: "(if lp_event_type p \<noteq> [] then add_bound ''event_type = '' (TextArg (lp_event_type p)) [] (rendered cs) else rendered cs)
      = rendered (cs @ (if lp_event_type p \<noteq> [] then [clause_pieces (EventTypeIs (lp_event_type p))] else []))"
    and top: "(if lp_top_level p then add_clause ''parent_id IS NULL'' (rendered cs) else rendered cs)
      = rendered (cs @ (if lp_top_level p then [clause_pieces ParentIsNull] else []))"
    and alerted: "(if lp_alerted_only p then add_clause active_alert_sql (rendered cs) else rendered cs)
      = rendered (cs @ (if lp_alerted_only p then [clause_pieces HasActiveAlert] else []))"
    and tags: "(if lp_tags p \<noteq> [] then add_tags (lp_tags p) (rendered cs) else rendered cs)
      = rendered (cs @ (if lp_tags p \<noteq> [] then [clause_pieces (HasTags (lp_tags p) (length (lp_tags p)))] else []))" for cs
    by (simp_all add: rendered_steps del: clause_pieces.simps(8))
  have "build_where_text p = (if fst (rendered cs) = [] then ([], []) else where_text (rendered cs))"
    unfolding build_where_text_def Let_def one two user type top alerted tags cs append_assoc ..
  then show ?thesis unfolding cs_def [symmetric]
    by (cases "cs = []") (simp_all add: where_text_rendered rendered_empty where_pieces_def [of "[]"] render_def [of "[]"])
qed

lemma build_current_where_rendered: "build_current_where_text q = render (where_pieces (current_clauses q))"
proof -
  have start: "([''active.representative_rank = 1''], []) = rendered [[Sql ''active.representative_rank = 1'']]"
    by (simp add: rendered_def)
  have team: "(if cp_for_team q \<noteq> [] then add_bound ''(team.value = '' (TextArg (cp_for_team q))
        ('' OR NULLIF(team.value, '' @ quotes 2 @ '') IS NULL OR scope.value = 'site')'') (rendered cs) else rendered cs)
      = rendered (cs @ (if cp_for_team q \<noteq> [] then [[Sql ''(team.value = '', Arg (TextArg (cp_for_team q)),
        Sql ('' OR NULLIF(team.value, '' @ quotes 2 @ '') IS NULL OR scope.value = 'site')'')]] else []))"
    and scope: "(if cp_scopes q \<noteq> [] then add_values ''scope.value IN ('' (map TextArg (cp_scopes q)) (rendered cs) else rendered cs)
      = rendered (cs @ (if cp_scopes q \<noteq> [] then [values_pieces ''scope.value IN ('' (map TextArg (cp_scopes q))] else []))"
    and severity: "(if cp_severities q \<noteq> [] then add_values ''LOWER(severity.value) IN ('' (map (TextArg \<circ> to_lower) (cp_severities q)) (rendered cs) else rendered cs)
      = rendered (cs @ (if cp_severities q \<noteq> [] then [values_pieces ''LOWER(severity.value) IN ('' (map (TextArg \<circ> to_lower) (cp_severities q))] else []))"
    and type: "(if cp_event_type q \<noteq> [] then add_bound ''event.event_type = '' (TextArg (cp_event_type q)) [] (rendered cs) else rendered cs)
      = rendered (cs @ (if cp_event_type q \<noteq> [] then [[Sql ''event.event_type = '', Arg (TextArg (cp_event_type q))]] else []))"
    and key: "(if cp_correlation_key q \<noteq> [] then add_bound ''active.correlation_key = '' (TextArg (cp_correlation_key q)) [] (rendered cs) else rendered cs)
      = rendered (cs @ (if cp_correlation_key q \<noteq> [] then [[Sql ''active.correlation_key = '', Arg (TextArg (cp_correlation_key q))]] else []))"
    and val: "(if cp_correlation_value q \<noteq> [] then add_bound ''active.correlation_value = '' (TextArg (cp_correlation_value q)) [] (rendered cs) else rendered cs)
      = rendered (cs @ (if cp_correlation_value q \<noteq> [] then [[Sql ''active.correlation_value = '', Arg (TextArg (cp_correlation_value q))]] else []))"
    for cs by (simp_all add: rendered_steps)
  have "build_current_where_text q = where_text (rendered (current_clauses q))"
    unfolding build_current_where_text_def Let_def start team scope severity type key val current_clauses_def append_assoc ..
  also have "\<dots> = render (where_pieces (current_clauses q))" by (rule where_text_rendered) (simp add: current_clauses_def)
  finally show ?thesis .
qed

lemma queries_rendered:
  "list_count_query p = render (list_count_pieces p)" "list_select_query p = render (list_pieces p)"
  "current_count_query q = render (current_count_pieces q)" "current_select_query q = render (current_pieces q)"
  by (simp_all add: list_count_query_def list_select_query_def current_count_query_def current_select_query_def build_where_rendered
      build_current_where_rendered render_def list_count_pieces_def list_pieces_def current_count_pieces_def current_pieces_def
      page_pieces_def paged_def)

subsection \<open>Placeholders\<close>

text \<open>The placeholders of a text, read off the text: after every dollar sign the digits that follow.\<close>

fun placeholders :: "string \<Rightarrow> string list" where
  "placeholders [] = []"
| "placeholders (ch # s) = (if ch = CHR ''$'' then takeWhile is_digit s # placeholders s else placeholders s)"

definition plain_sql :: "string \<Rightarrow> bool" where
  "plain_sql t = list_all (\<lambda>ch. ch \<noteq> CHR ''$'') t"

definition ends_number :: "sql_piece list \<Rightarrow> bool" where
  "ends_number ps = (case ps of [] \<Rightarrow> True | Sql (ch # t) # qs \<Rightarrow> \<not> is_digit ch | _ \<Rightarrow> False)"

fun well_separated :: "sql_piece list \<Rightarrow> bool" where
  "well_separated [] = True"
| "well_separated (Sql t # ps) = (plain_sql t \<and> well_separated ps)"
| "well_separated (Arg x # ps) = (ends_number ps \<and> well_separated ps)"

lemma placeholders_plain: "plain_sql t \<Longrightarrow> placeholders (t @ s) = placeholders s"
  by (induction t) (simp_all add: plain_sql_def)

lemma digits_plain: "list_all is_digit ds \<Longrightarrow> plain_sql ds"
  by (auto simp: plain_sql_def list_all_iff is_digit_def)

lemma itoa_digits: "list_all is_digit (itoa (int n))"
  using nat_digits_digits [of n] by (simp add: itoa_def)

lemma number_read:
  assumes "ends_number ps"
  shows "takeWhile is_digit (itoa (int n) @ render_text k ps) = itoa (int n)"
proof -
  have "render_text k ps = [] \<or> (\<exists>ch s. render_text k ps = ch # s \<and> \<not> is_digit ch)"
    using assms by (auto simp: ends_number_def neq_Nil_conv split: list.splits sql_piece.splits)
  then show ?thesis using itoa_digits [of n] by (auto simp: list_all_iff takeWhile_append2)
qed

lemma placeholders_render:
  "well_separated ps \<Longrightarrow> placeholders (render_text n ps) = map (\<lambda>k. itoa (int k)) [n + 1..<n + 1 + length (piece_args ps)]"
proof (induction n ps rule: render_text.induct)
  case (3 n x ps)
  have "placeholders (placeholder (n + 1) @ render_text (n + 1) ps) = itoa (int (n + 1)) # placeholders (render_text (n + 1) ps)"
    using 3(2) number_read [of ps "n + 1"] placeholders_plain [OF digits_plain [OF itoa_digits [of "n + 1"]]]
    by (simp add: placeholder_def del: of_nat_Suc of_nat_add)
  moreover have "[n + 1..<n + 1 + length (piece_args (Arg x # ps))] = (n + 1) # [n + 1 + 1..<n + 1 + 1 + length (piece_args ps)]"
    by (simp add: upt_conv_Cons del: upt_Suc)
  ultimately show ?case using 3 by simp
qed (simp_all add: placeholders_plain)

lemma separated_append: "well_separated ps \<Longrightarrow> well_separated qs \<Longrightarrow> ends_number qs \<Longrightarrow> well_separated (ps @ qs)"
  by (induction ps rule: well_separated.induct) (auto simp: ends_number_def neq_Nil_conv split: list.splits sql_piece.splits)

lemma ends_number_append: "ps \<noteq> [] \<Longrightarrow> ends_number (ps @ qs) = ends_number ps"
  by (cases ps) (simp_all add: ends_number_def)

lemma separated_join:
  assumes "plain_sql (ch # t)" and "\<not> is_digit ch"
  shows "list_all well_separated cs \<Longrightarrow> well_separated (join_pieces (ch # t) cs)"
proof (induction cs rule: induct_list012)
  case (3 c d cs)
  then have "well_separated (Sql (ch # t) # join_pieces (ch # t) (d # cs))" "ends_number (Sql (ch # t) # join_pieces (ch # t) (d # cs))"
    using assms by (simp_all add: ends_number_def)
  with 3 separated_append [of c] show ?case by simp
qed simp_all

lemma plain_lines: "plain_sql (sql_lines ls) = list_all plain_sql ls"
  by (induction ls rule: sql_lines.induct) (simp_all add: plain_sql_def)

lemma plain_parts: "plain_sql []" "plain_sql (ch # s) = (ch \<noteq> CHR ''$'' \<and> plain_sql s)" "plain_sql (s @ t) = (plain_sql s \<and> plain_sql t)"
  "plain_sql (tabs n)" "plain_sql (quotes n)"
  by (auto simp: plain_sql_def tabs_def quotes_def list_all_iff)

lemma constants_plain:
  "plain_sql active_alert_sql" "plain_sql list_select_head" "plain_sql list_select_tail" "plain_sql current_ctes"
  "plain_sql current_from_text" "plain_sql current_select_head" "plain_sql current_select_tail"
  by (simp_all add: active_alert_sql_def list_select_head_def list_select_tail_def current_ctes_def current_from_text_def
      current_select_head_def current_select_tail_def plain_lines plain_parts)

lemma starts_plain: "\<not> is_digit (CHR '' '')" "\<not> is_digit (CHR '')'')" "\<not> is_digit (CHR '','')"
  by (simp_all add: is_digit_def)

lemma clause_separated: "well_separated (clause_pieces c)"
proof (cases c)
  case (HasTags tags n)
  have "list_all well_separated (map tag_pieces tags)"
    by (simp add: list_all_iff tag_pieces_def plain_sql_def ends_number_def starts_plain)
  then have "well_separated (join_pieces '' OR '' (map tag_pieces tags))" by (intro separated_join) (simp_all add: plain_sql_def starts_plain)
  then have "well_separated (join_pieces '' OR '' (map tag_pieces tags)
      @ [Sql '' GROUP BY event_id HAVING COUNT(DISTINCT key) = '', Arg (IntArg (int n)), Sql '')''])"
    by (rule separated_append) (simp_all add: plain_sql_def ends_number_def starts_plain)
  with HasTags show ?thesis by (simp add: plain_sql_def)
qed (simp_all add: plain_sql_def constants_plain [unfolded plain_sql_def] ends_number_def)

lemma values_separated: "plain_sql before \<Longrightarrow> well_separated (values_pieces before xs)"
proof -
  assume "plain_sql before"
  have "well_separated (join_pieces '','' (map (\<lambda>x. [Arg x]) xs))"
    by (intro separated_join) (simp_all add: plain_sql_def starts_plain list_all_iff ends_number_def)
  then have "well_separated (join_pieces '','' (map (\<lambda>x. [Arg x]) xs) @ [Sql '')''])"
    by (rule separated_append) (simp_all add: plain_sql_def ends_number_def starts_plain)
  with \<open>plain_sql before\<close> show ?thesis by (simp add: values_pieces_def)
qed

lemma current_separated: "list_all well_separated (current_clauses q)"
proof -
  have "plain_sql ''scope.value IN (''" "plain_sql ''LOWER(severity.value) IN (''" "plain_sql ''(team.value = ''"
    "plain_sql ('' OR NULLIF(team.value, '' @ quotes 2 @ '') IS NULL OR scope.value = 'site')'')" "plain_sql ''event.event_type = ''"
    "plain_sql ''active.correlation_key = ''" "plain_sql ''active.correlation_value = ''" "plain_sql ''active.representative_rank = 1''"
    by (simp_all add: plain_parts)
  then show ?thesis
    unfolding current_clauses_def list_all_append if_split [of "list_all well_separated"]
    by (simp only: list.pred_inject list_all_append well_separated.simps values_separated ends_number_def list.case sql_piece.case append.simps starts_plain
        simp_thms if_True if_False split: if_split)
qed

lemma where_separated:
  assumes "list_all well_separated cs" and "well_separated qs" and "ends_number qs"
  shows "well_separated (where_pieces cs @ qs)"
proof -
  have "well_separated (join_pieces '' AND '' cs)" using assms(1) by (intro separated_join) (simp_all add: plain_sql_def starts_plain)
  then show ?thesis using assms(2,3) separated_append by (simp add: where_pieces_def plain_sql_def)
qed

lemma page_separated: "well_separated (page_pieces limit offset)"
  by (simp add: page_pieces_def plain_sql_def ends_number_def starts_plain)

lemma queries_separated:
  "well_separated (list_count_pieces p)" "well_separated (list_pieces p)"
  "well_separated (current_count_pieces q)" "well_separated (current_pieces q)"
proof -
  have clauses: "list_all well_separated (map clause_pieces cs)" for cs by (simp add: list_all_iff clause_separated)
  have tail: "well_separated (Sql s # page_pieces l k)" "ends_number (Sql s # page_pieces l k)"
    if "plain_sql s" "s \<noteq> []" "\<not> is_digit (hd s)" for s l k
    using that by (auto simp: page_separated ends_number_def neq_Nil_conv)
  have breaks: "list_select_tail \<noteq> [] \<and> \<not> is_digit (hd list_select_tail)" "current_select_tail \<noteq> [] \<and> \<not> is_digit (hd current_select_tail)"
    by (simp_all add: list_select_tail_def current_select_tail_def is_digit_def)
  have "well_separated (where_pieces cs)" if "list_all well_separated cs" for cs
    using where_separated [OF that, of "[]"] by (simp add: ends_number_def)
  note whole = this [OF clauses] this [OF current_separated]
  show "well_separated (list_count_pieces p)" "well_separated (current_count_pieces q)"
    using whole by (simp_all add: list_count_pieces_def current_count_pieces_def constants_plain plain_parts)
  show "well_separated (list_pieces p)"
    unfolding list_pieces_def well_separated.simps
    by (intro conjI constants_plain where_separated clauses tail) (use breaks in simp_all)
  show "well_separated (current_pieces q)"
    unfolding current_pieces_def well_separated.simps
    by (intro conjI constants_plain where_separated current_separated tail) (use breaks in simp_all)
qed

subsection \<open>The text does not depend on the values\<close>

fun blank :: "sql_piece \<Rightarrow> sql_piece" where
  "blank (Sql t) = Sql t"
| "blank (Arg x) = Arg (IntArg 0)"

lemma render_blank: "render_text n (map blank ps) = render_text n ps"
  by (induction n ps rule: render_text.induct) simp_all

lemma render_text_cong: "map blank ps = map blank qs \<Longrightarrow> render_text n ps = render_text n qs"
  by (metis render_blank)

lemma blank_join: "map blank (join_pieces sep cs) = join_pieces sep (map (map blank) cs)"
  by (induction sep cs rule: join_pieces.induct) simp_all

lemma blank_where: "map (map blank) cs = map (map blank) ds \<Longrightarrow> map blank (where_pieces cs) = map blank (where_pieces ds)"
  by (auto simp: where_pieces_def blank_join)

text \<open>The kind of a clause: the clause without its values.\<close>

fun clause_kind :: "where_clause \<Rightarrow> where_clause" where
  "clause_kind (ParentIs i) = ParentIs []"
| "clause_kind (TimestampFrom t) = TimestampFrom 0"
| "clause_kind (TimestampBefore t) = TimestampBefore 0"
| "clause_kind (UserNameIs u) = UserNameIs []"
| "clause_kind (EventTypeIs t) = EventTypeIs []"
| "clause_kind ParentIsNull = ParentIsNull"
| "clause_kind HasActiveAlert = HasActiveAlert"
| "clause_kind (HasTags tags n) = HasTags (map (\<lambda>kv. ([], [])) tags) 0"

definition current_kind :: "current_params \<Rightarrow> bool \<times> nat \<times> nat \<times> bool \<times> bool \<times> bool" where
  "current_kind q = (cp_for_team q = [], length (cp_scopes q), length (cp_severities q), cp_event_type q = [],
     cp_correlation_key q = [], cp_correlation_value q = [])"

lemma blank_kind: "map blank (clause_pieces (clause_kind c)) = map blank (clause_pieces c)"
  by (cases c) (simp_all add: blank_join comp_def tag_pieces_def)

lemma blank_clauses:
  assumes "map clause_kind cs = map clause_kind ds"
  shows "map (map blank) (map clause_pieces cs) = map (map blank) (map clause_pieces ds)"
proof -
  have each: "map (map blank) (map clause_pieces cs) = map (\<lambda>c. map blank (clause_pieces c)) (map clause_kind cs)" for cs
    by (induction cs) (simp_all only: list.map blank_kind)
  show ?thesis unfolding each assms ..
qed

lemma blank_values: "length xs = length ys \<Longrightarrow> map blank (values_pieces before xs) = map blank (values_pieces before ys)"
  by (simp add: values_pieces_def blank_join comp_def map_replicate_const)

lemma blank_current: "current_kind q = current_kind q' \<Longrightarrow> map (map blank) (current_clauses q) = map (map blank) (current_clauses q')"
proof -
  assume kind: "current_kind q = current_kind q'"
  then have "(cp_for_team q = []) = (cp_for_team q' = [])" "length (cp_scopes q) = length (cp_scopes q')"
    "length (cp_severities q) = length (cp_severities q')" "(cp_event_type q = []) = (cp_event_type q' = [])"
    "(cp_correlation_key q = []) = (cp_correlation_key q' = [])" "(cp_correlation_value q = []) = (cp_correlation_value q' = [])"
    by (simp_all add: current_kind_def)
  moreover from this have "(cp_scopes q = []) = (cp_scopes q' = [])" "(cp_severities q = []) = (cp_severities q' = [])" by auto
  moreover have "map blank (values_pieces before (map f (cp_scopes q))) = map blank (values_pieces before (map f (cp_scopes q')))"
    "map blank (values_pieces before (map f (cp_severities q))) = map blank (values_pieces before (map f (cp_severities q')))" for before f
    using calculation by (intro blank_values; simp)+
  ultimately show ?thesis unfolding current_clauses_def by simp
qed

text \<open>
  C40: no SQL injection. The text of the four filtered queries is the rendering of the clauses that List
  and ListCurrent evaluate, each clause with the placeholders of its own values; the placeholders of a text
  are \<^verbatim>\<open>$1\<close>, \<^verbatim>\<open>$2\<close>, ... in order, exactly as many as arguments are bound; and two requests that use
  the same filters, with the same number of tags, scopes and severities, are sent with the same text,
  whatever users, types, tags or teams they ask for.
\<close>

theorem queries_parameterised:
  assumes "map clause_kind (build_where_clause p) = map clause_kind (build_where_clause p')" and "current_kind q = current_kind q'"
  shows "list_count_query p = render (list_count_pieces p) \<and> list_select_query p = render (list_pieces p)
    \<and> current_count_query q = render (current_count_pieces q) \<and> current_select_query q = render (current_pieces q)
    \<and> list_all (\<lambda>(sent, args). placeholders sent = map (\<lambda>k. itoa (int k)) [1..<length args + 1])
        [list_count_query p, list_select_query p, current_count_query q, current_select_query q]
    \<and> fst (list_count_query p) = fst (list_count_query p') \<and> fst (list_select_query p) = fst (list_select_query p')
    \<and> fst (current_count_query q) = fst (current_count_query q') \<and> fst (current_select_query q) = fst (current_select_query q')"
proof -
  note L = blank_where [OF blank_clauses [OF assms(1)]] and C = blank_where [OF blank_current [OF assms(2)]]
  have "placeholders (render_text 0 ps) = map (\<lambda>k. itoa (int k)) [1..<length (piece_args ps) + 1]" if "well_separated ps" for ps
    using placeholders_render [OF that, of 0] by simp
  note P = this [OF queries_separated(1)] this [OF queries_separated(2)] this [OF queries_separated(3)] this [OF queries_separated(4)]
  have "render_text 0 (list_count_pieces p) = render_text 0 (list_count_pieces p')" "render_text 0 (list_pieces p) = render_text 0 (list_pieces p')"
    "render_text 0 (current_count_pieces q) = render_text 0 (current_count_pieces q')" "render_text 0 (current_pieces q) = render_text 0 (current_pieces q')"
    using L C by (intro render_text_cong; simp add: list_count_pieces_def list_pieces_def current_count_pieces_def current_pieces_def page_pieces_def)+
  then show ?thesis unfolding queries_rendered render_def list.pred_inject prod.case fst_conv by (intro conjI P refl TrueI list.pred_inject(1))
qed

text \<open>A user and a tag that quote: the text is that of the harmless request, and the values are only arguments.\<close>

definition hostile_params :: list_params where
  "hostile_params = zero_list_params\<lparr>lp_user_name := quotes 1 @ '' OR 1=1 --'', lp_tags := [(quotes 1, ''$9'')]\<rparr>"

definition harmless_params :: list_params where
  "harmless_params = zero_list_params\<lparr>lp_user_name := ''ada'', lp_tags := [(''team'', ''core'')]\<rparr>"

theorem queries_parameterised_witness:
  "fst (list_select_query hostile_params) = fst (list_select_query harmless_params)
    \<and> placeholders (fst (list_select_query hostile_params)) = [''1'', ''2'', ''3'', ''4'', ''5'', ''6'']
    \<and> take 2 (snd (list_select_query hostile_params)) = [TextArg (quotes 1 @ '' OR 1=1 --''), TextArg (quotes 1)]"
proof -
  have clauses: "build_where_clause hostile_params = [UserNameIs (quotes 1 @ '' OR 1=1 --''), HasTags [(quotes 1, ''$9'')] 1]"
    "build_where_clause harmless_params = [UserNameIs ''ada'', HasTags [(''team'', ''core'')] 1]"
    by (simp_all add: build_where_clause_def hostile_params_def harmless_params_def zero_list_params_def quotes_def)
  then have kinds: "map clause_kind (build_where_clause hostile_params) = map clause_kind (build_where_clause harmless_params)" by simp
  note Q = queries_parameterised [OF kinds, of zero_current_params, OF refl]
  have args: "snd (list_select_query hostile_params) = [TextArg (quotes 1 @ '' OR 1=1 --''), TextArg (quotes 1), TextArg ''$9'', IntArg 1,
      IntArg 50, IntArg 0]"
    by (simp add: queries_rendered render_def list_pieces_def where_pieces_def clauses tag_pieces_def page_pieces_def)
      (simp add: hostile_params_def zero_list_params_def effective_limit_def default_limit_def)
  have count: "length (snd (list_select_query hostile_params)) + 1 = 7" by (simp add: args)
  have "map (\<lambda>k. itoa (int k)) [1..<7] = [''1'', ''2'', ''3'', ''4'', ''5'', ''6'']"
    by (simp add: upt_conv_Cons itoa_def nat_digits.simps char_of_def bit_0)
  moreover have "placeholders (fst (list_select_query hostile_params)) = map (\<lambda>k. itoa (int k)) [1..<7]"
    using Q unfolding list.pred_inject case_prod_beta count by blast
  moreover have "fst (list_select_query hostile_params) = fst (list_select_query harmless_params)" using Q by blast
  ultimately show ?thesis by (simp add: args del: upt_Suc)
qed

end
