(* ===== verification/Spec2Isabelle.thy ===== *)
theory Spec2Isabelle
  imports ServiceProperties ApiProperties WebProperties PageProperties PolicyProperties ClientProperties
    SeedProperties ServerProperties SmokeProperties DashboardPages PgQueries
begin

text \<open>
  A verification library for the production change registry: a Go server that records production changes as an
  append-only list of events in PostgreSQL, serves them over a JSON API and a dashboard, and the command line
  tool \<^verbatim>\<open>pcr\<close> that talks to it. Every definition is translated from the Go source named in the text in front
  of it; this root theory imports the whole library and states the properties of the store and of the service
  over it.

  \<^bold>\<open>The program.\<close> An event (internal/model/change.go) is immutable. Stars, alerts and links are meta-events
  that name their parent; an operation is a start event, and the end event that carries the same correlation
  tag closes it. What is starred, alerted, open or linked is always derived. A request goes through
  internal/router: the middleware of internal/middleware establishes who asks (an API token, a token session,
  or a session of one of the identity providers of internal/humanauth), a handler of internal/handler parses
  parameters or a form and calls internal/service, which checks the event, its tags and links and calls a
  \<^verbatim>\<open>store.ChangeStore\<close>, whose one implementation is internal/store/postgres. internal/config gives the server
  its settings, and cmd/server wires it over the pool of internal/postgres; internal/pcrconfig, pcrclient and
  pcrcli are the tool; cmd/seed applies an internal/fixture through the API, and cmd/smoke spawns a server and
  checks it end to end.

  \<^bold>\<open>How Go is modelled.\<close> A Go string is its bytes (\<^typ>\<open>char list\<close>), an \<^verbatim>\<open>int\<close> an \<^typ>\<open>int\<close> with the wrap-around of
  64 bits written out where the code adds client-chosen numbers (\<open>wrap_int64\<close>), a \<^verbatim>\<open>time.Time\<close> an integer
  number of nanoseconds, a map an association list, a struct a record, a pointer that may be nil an option. A
  function that may fail returns a sum with the error on the left; a function with effects is a computation of
  type \<^verbatim>\<open>prog\<close> of Prelude, which returns the state also when it fails. Random bytes and the clock are
  arguments.

  \<^bold>\<open>The theories,\<close> lowest first:
  \<^item> Prelude: computations (\<open>prog\<close>), their rules (\<open>run_simps\<close>) and association lists.
  \<^item> Unicode, GoStrings, GoText, LowerCase: what the program uses of Go's unicode, strings, strconv and utf8
    packages. Sha256 and Base64: crypto/sha256, crypto/hmac, encoding/hex and encoding/base64, computed. Http:
    net/http requests, headers, cookies and responses, and url.Values with its encoding.
  \<^item> Model: internal/model. StoreSpec: internal/store, the interface as the record \<open>change_store\<close> of
    operations, the abstract registry (the list of events in the order of creation), and the contract as the
    locale \<open>change_store\<close> (what each call may return and how it may change the registry), with \<open>live_store\<close>
    extending it by what holds when no call fails.
  \<^item> PgTables, PgAnnotations, PgStore, PgCurrent: internal/store/postgres, statement by statement over three
    tables. Every round trip may fail; \<open>pg_faults\<close> is the schedule of failures, so a transaction can stop
    anywhere, and rollback restores the tables. PgInvariant, PgTransactions, PgReads, PgWrites, PgToggles and
    PgCurrentSpec prove that the tables stay well-formed and that each statement sequence implements the
    contract under the abstraction \<open>pg_registry\<close>; PgContract interprets both locales. PgSql has the text and
    the arguments of the filtered queries as the code composes them, PgQueries their properties.
  \<^item> TagPolicy, LinkPolicy, Service: internal/service/change.go, every method of \<^verbatim>\<open>ChangeService\<close> over an
    arbitrary store. ServiceWrites, ServiceListing, ServiceOperations and ServiceLive prove their lemmas
    inside the two locales, so they hold of every store that keeps the contract. ServiceSteps is the service
    over the tables as a step relation, with reachability; ServiceInvariant lifts the checks of Create to an
    invariant of every reachable state.
  \<^item> Providers, ProviderPolicy: internal/humanauth, with the locale \<open>human_provider\<close> (whom a provider may
    authenticate) interpreted for GitHub, Google, Authentik and Beyond. Session, Middleware:
    internal/middleware.
  \<^item> Params, Pages, Api, Dashboard, DashboardActions, HumanLogin: internal/handler, a handler being a function
    from the request and the state to the response and the state it leaves. Router: internal/router, composing
    all of it into \<open>serve\<close>; RouterGate shows which requests reach a write.
  \<^item> Config: internal/config. CliConfig: internal/pcrconfig over a file system whose calls may fail. Client:
    internal/pcrclient. Cli, CliCommands: internal/pcrcli, with \<open>main_pcr\<close> for cmd/pcr.
  \<^item> Fixture: internal/fixture over any \<^verbatim>\<open>Creator\<close>, whose contract is the locale \<open>fixture_creator\<close>. Seed:
    cmd/seed, with the interpretations of the locale on the change service (\<open>service_fixture\<close>) and on the API
    client talking to \<open>serve\<close> (\<open>seeding\<close>).
  \<^item> Pool: internal/postgres. Server: cmd/server, \<open>main_server\<close> giving the exit code and the trace of what was
    opened, served and released; ServerLife has the automaton of the resources held and its lemmas.
  \<^item> Smoke, SmokeCases, SmokeLocal: cmd/smoke (client.go; cases.go and \<^verbatim>\<open>runCases\<close>; server.go and \<^verbatim>\<open>run\<close>).
    SmokeWorld puts \<open>serve\<close> over a live store at the other end of the client. SmokeServe, SmokeRules,
    SmokeReads, SmokePasses, SmokeStages and SmokeRun prove, inside the locale \<open>live_store\<close>, what the server
    answers to each kind of request the cases send, the facts each case leaves for the later ones (the
    stages), and that every case passes. SmokeLife has the automaton of what a run holds.
  \<^item> Example, WebExample: the tables, server and requests the witnesses evaluate.
  \<^item> ServiceProperties, ApiProperties, WebProperties, PageLinks, PageProperties, PolicyProperties,
    ConfigProperties, ClientProperties, SeedProperties, ServerProperties, SmokeProperties, DashboardPages,
    PgQueries: the properties that are not stated here.

  \<^bold>\<open>The properties.\<close> C1 to C3, C5 to C8, C10 and C11: the store implements its contract and keeps it when
  calls fail, and the service over it is idempotent, append-only and closes an operation at most once. C9 and
  C15: what a fixture leaves, and that seeding can be repeated. C4 and C16: the smoke cases pass against the
  whole server, and the command that runs them ends and cleans up. C12 to C14 and C18 and C19: no event
  without an authorised request, sessions and sign-in. C20 to C23: what holds of every stored event, operation
  states, activities, and what an identifier chosen by a client does to a close. C24, C25: the answers of the
  API. C17, C26, C27: the pages of the dashboard, its links and redirects. C40: no input in the text of a
  query. C28 and C36: the resources of the server process, and the site it serves. C29 to C32: whom the
  providers let in. C33 to C35: loaded, written and resolved configurations. C37 to C39: the client's
  requests, replies and output.

  \<^bold>\<open>Loops and bounds.\<close> Every loop is structural recursion or has a measure, except two that are each a
  \<open>partial_function\<close> into option: the paging loop of \<^verbatim>\<open>listAll\<close>, which depends on what the store answers
  (\<open>list_all_loop\<close>, proved to return over a live store with every event once), and the polling of
  \<^verbatim>\<open>waitReady\<close>, which ends when a poll decides (\<open>wait_ready\<close>). No definition uses fuel.

  \<^bold>\<open>Parameters\<close> of the model stand for code that is not in the repository or that is outside of the program's
  logic: url.Parse and url.ParseRequestURI, net.ParseIP, the JSON and TOML codecs, time.Parse,
  time.ParseDuration and formatting of times, the OAuth code exchange, the replies of the identity providers,
  the verification of ID tokens, the HTTP transport, chi's matching of a path to a route and kong's parsing of
  a command line. The properties that rely on one of them state what they rely on (for example that formatting
  a time and parsing it again gives the same time) and have a witness with a concrete function.

  \<^bold>\<open>Not modelled:\<close> executing templates and encoding JSON (responses carry the data); what chi's Recoverer and
  Timeout do; timing (constant-time comparison is equality); the internals of pgx, golang-migrate and the
  logging package, the schema's constraints being part of PgTables (what is logged of a request, of a
  store operation and of an action is \<open>log_request\<close>, \<open>log_operation\<close> and \<open>log_human_action\<close>);
  embedded assets and templates; the progress lines of cmd/smoke outside \<^verbatim>\<open>runCases\<close> and an interrupt in the
  middle of a run.
\<close>

section \<open>The store\<close>

text \<open>
  C1: ListCurrent. On well-formed tables the query of \<^verbatim>\<open>Store.ListCurrent\<close> (the joins on the tag rows,
  the ended operations, the ROW_NUMBER ranking and the filters) returns exactly the page the contract
  describes: the earliest start of every operation of this event type and correlation that has no end
  event, filtered, newest first, with the total; it changes nothing, and with no failing round trip and
  a non-negative offset it always answers.
\<close>

theorem list_current_refines:
  assumes "pg_inv s" and "pg_list_current q s = (r, s')"
  shows "pg_registry s' = pg_registry s \<and> pg_inv s'
    \<and> (\<forall>x. r = Inr x \<longrightarrow> x = current_spec (pg_registry s) q)
    \<and> (pg_ready s \<and> 0 \<le> cp_offset q \<longrightarrow> r = Inr (current_spec (pg_registry s) q))"
proof -
  have L: "pg_inv s' \<and> pg_registry s' = pg_registry s \<and> (\<forall>x. r = Inr x \<longrightarrow> x = current_spec (pg_registry s) q)"
    using pgs.list_current [OF assms(1)] assms(2) by simp
  moreover have "\<exists>x. r = Inr x" if "pg_ready s" "0 \<le> cp_offset q"
    using live_pgs.live_list_current [OF assms(1) that] assms(2) by auto
  ultimately show ?thesis by blast
qed

theorem list_current_refines_witness:
  "\<exists>s'. pg_list_current zero_current_params demo_pg = (Inr (current_spec (pg_registry demo_pg) zero_current_params), s')
    \<and> pg_registry s' = pg_registry demo_pg"
proof (cases "pg_list_current zero_current_params demo_pg")
  case (Pair r s')
  have "0 \<le> cp_offset zero_current_params" by (simp add: zero_current_params_def)
  with list_current_refines [OF demo_inv Pair] demo_ready
  have "r = Inr (current_spec (pg_registry demo_pg) zero_current_params)" "pg_registry s' = pg_registry demo_pg" by blast+
  with Pair show ?thesis by blast
qed

text \<open>
  C2: List. The WHERE clause \<^verbatim>\<open>buildWhereClause\<close> emits, evaluated on the rows (COUNT(DISTINCT key) over
  the matching tag rows, the newest-alert subquery), selects exactly the events the filter describes,
  and the result is their page, newest first, with the total count of the selection.
\<close>

theorem list_refines:
  assumes "pg_inv s" and "distinct (map fst (lp_tags p))" and "pg_list p s = (r, s')"
  shows "pg_registry s' = pg_registry s \<and> pg_inv s'
    \<and> (\<forall>x. r = Inr x \<longrightarrow> x = list_spec (pg_registry s) p)
    \<and> (pg_ready s \<and> 0 \<le> lp_offset p \<longrightarrow> r = Inr (list_spec (pg_registry s) p))"
proof -
  have L: "pg_inv s' \<and> pg_registry s' = pg_registry s \<and> (\<forall>x. r = Inr x \<longrightarrow> x = list_spec (pg_registry s) p)"
    using pgs.list [OF assms(1,2)] assms(3) by simp
  moreover have "\<exists>x. r = Inr x" if "pg_ready s" "0 \<le> lp_offset p"
    using live_pgs.live_list [OF assms(1) that] assms(3) by auto
  ultimately show ?thesis by blast
qed

definition demo_params :: list_params where
  "demo_params = zero_list_params\<lparr>lp_tags := [(''phase'', ''start''), (''change_id'', ''c1'')]\<rparr>"

theorem list_refines_witness:
  "\<exists>s'. pg_list demo_params demo_pg = (Inr (list_spec (pg_registry demo_pg) demo_params), s')"
proof (cases "pg_list demo_params demo_pg")
  case (Pair r s')
  have "distinct (map fst (lp_tags demo_params))" "0 \<le> lp_offset demo_params"
    by (simp_all add: demo_params_def zero_list_params_def)
  with list_refines [OF demo_inv _ Pair] demo_ready
  have "r = Inr (list_spec (pg_registry demo_pg) demo_params)" by blast
  with Pair show ?thesis by blast
qed

text \<open>
  C3: Create is all or nothing. Whatever round trips fail, a call of \<^verbatim>\<open>Store.Create\<close> either commits the
  event with all its tags and links, as one more event at the end of the registry, or leaves the
  registry as it was; the duplicate error carries the stored event that holds the external identifier.
\<close>

theorem create_all_or_nothing:
  assumes "pg_inv s" and "event_ok e" and "pg_create e s = (r, s')"
  shows "pg_inv s' \<and> (case r of
      Inr e' \<Rightarrow> e' = stored_event e \<and> pg_registry s' = pg_registry s @ [e']
    | Inl err \<Rightarrow> pg_registry s' = pg_registry s \<and> (\<forall>x. err = ErrDuplicate x \<longrightarrow>
        x \<noteq> None \<and> x = find_by_external_id (pg_registry s) (ev_external_id e)))"
proof (cases r)
  case (Inl err)
  from pg_create_Inl [OF assms(1,2) assms(3) [unfolded Inl]] Inl show ?thesis by auto
next
  case (Inr e')
  from pg_create_Inr [OF assms(1,2) assms(3) [unfolded Inr]] Inr show ?thesis by simp
qed

text \<open>The witness makes the third statement of the transaction (the tag row) fail.\<close>

definition faulty_pg :: pg where
  "faulty_pg = demo_pg\<lparr>pg_faults := [False, False, True]\<rparr>"

theorem create_all_or_nothing_witness:
  "fst (pg_create demo_event faulty_pg) = Inl (ErrOther ''insert tag'')
   \<and> pg_registry (snd (pg_create demo_event faulty_pg)) = pg_registry faulty_pg"
proof -
  have ok: "event_ok demo_event" by (simp add: event_ok_def demo_event_def)
  have inv: "pg_inv faulty_pg" by (simp add: faulty_pg_def demo_inv)
  have fails: "fst (pg_create demo_event faulty_pg) = Inl (ErrOther ''insert tag'')"
    by (simp add: pg_create_def faulty_pg_def demo_pg_def demo_row_def demo_event_def round_trip_def insert_event_row_def
        insert_tag_row_def and_then_def event_constraint_error_def row_of_event_def nullable_string_def)
  from create_all_or_nothing [OF inv ok prod.collapse [symmetric]] fails show ?thesis by simp
qed

text \<open>
  Create answers. With no failing round trip, a fresh identifier, a parent that exists and an
  external identifier not taken, \<^verbatim>\<open>Store.Create\<close> succeeds and returns the event with its times truncated
  to whole seconds.
\<close>

theorem create_succeeds:
  assumes "pg_inv s" and "pg_ready s" and "event_ok e" and "ev_id e \<notin> row_ids s"
    and "ev_parent_id e \<noteq> [] \<longrightarrow> ev_parent_id e \<in> row_ids s"
    and "ev_external_id e \<noteq> [] \<longrightarrow> find_by_external_id (pg_registry s) (ev_external_id e) = None"
  shows "\<exists>s'. pg_create e s = (Inr (stored_event e), s') \<and> pg_ready s'"
  by (rule pg_create_ready [OF assms])

theorem create_succeeds_witness:
  "\<exists>s'. pg_create demo_event demo_pg = (Inr (stored_event demo_event), s') \<and> pg_ready s'"
proof (rule create_succeeds [OF demo_inv demo_ready])
  show "event_ok demo_event" by (simp add: event_ok_def demo_event_def)
  show "ev_id demo_event \<notin> row_ids demo_pg" by (simp add: demo_ids demo_event_def)
  show "ev_parent_id demo_event \<noteq> [] \<longrightarrow> ev_parent_id demo_event \<in> row_ids demo_pg" by (simp add: demo_event_def)
  show "ev_external_id demo_event \<noteq> [] \<longrightarrow> find_by_external_id (pg_registry demo_pg) (ev_external_id demo_event) = None"
    by (simp add: demo_registry find_by_external_id_def demo_event_def)
qed

text \<open>
  C5: the annotation walks agree. \<^verbatim>\<open>GetAnnotations\<close> (one walk with an early exit) and
  \<^verbatim>\<open>GetAnnotationsBatch\<close> (one walk over the rows of many parents with a resolved flag each) both derive,
  for every event, whether its latest star and alert transitions are active.
\<close>

theorem annotations_agree:
  assumes "pg_inv s" and "pg_get_annotations i s = (Inr a, s1)"
    and "pg_get_annotations_batch ids s = (Inr m, s2)" and "[] \<notin> set ids"
  shows "a = annotations_of (pg_registry s) i
    \<and> m = (\<lambda>j. if j \<in> set ids then Some (annotations_of (pg_registry s) j) else None)"
  using pg_get_annotations_Inr [OF assms(1,2)] pg_get_annotations_batch_Inr [OF assms(1,3,4)] by simp

theorem annotations_agree_witness:
  "fst (pg_get_annotations ''e1'' demo_pg) = Inr \<lparr>an_starred = True, an_alerted = False\<rparr>
   \<and> annotations_of (pg_registry demo_pg) ''e1'' = \<lparr>an_starred = True, an_alerted = False\<rparr>"
proof -
  let ?a = "resolve_annotations False False no_annotations (map er_event_type (annotation_rows [''e1''] demo_pg))"
  have single: "pg_get_annotations ''e1'' demo_pg = (Inr ?a, demo_pg)"
    by (simp add: pg_get_annotations_def and_then_def round_trip_def demo_pg_def with_state_def ret_def)
  have rows: "map er_event_type (annotation_rows [''e1''] demo_pg) = [event_type_star]"
    by (simp add: annotation_rows_def demo_pg_def demo_row_def annotation_types_def)
  have a: "?a = \<lparr>an_starred = True, an_alerted = False\<rparr>" by (simp add: rows no_annotations_def)
  obtain m where batch: "pg_get_annotations_batch [''e1''] demo_pg = (Inr m, demo_pg)"
    by (simp add: pg_get_annotations_batch_def and_then_def round_trip_def demo_pg_def with_state_def ret_def)
  from annotations_agree [OF demo_inv single batch] single a show ?thesis by simp
qed

section \<open>The service over the store\<close>

text \<open>
  C6: runs only append. From the empty tables, along every sequence of calls of the service's methods
  by any clients, with any arguments and whatever round trips fail, the tables stay well-formed and
  the registry only grows at its end: no event is changed, removed or reordered, and every event
  that could be read can still be read unchanged.
\<close>

theorem runs_only_append:
  assumes "reachable parse s" and "(service_step parse)\<^sup>*\<^sup>* s s'"
  shows "pg_inv s' \<and> registry_ok (pg_registry s') \<and> (\<exists>es. pg_registry s' = pg_registry s @ es)
    \<and> (\<forall>i e. find_by_id (pg_registry s) i = Some e \<longrightarrow> find_by_id (pg_registry s') i = Some e)"
proof -
  have "pg_inv s' \<and> extends (pg_registry s) (pg_registry s')"
    by (rule steps_extend [OF assms(2) reachable_inv [OF assms(1)]])
  then show ?thesis by (auto simp: extends_def find_by_id_def find_append pg_registry_ok)
qed

theorem runs_only_append_witness:
  "\<exists>s'. (service_step demo_parser)\<^sup>*\<^sup>* empty_pg s' \<and> (\<exists>es. pg_registry s' = pg_registry empty_pg @ es)
    \<and> s' = snd (svc_create demo_parser pg_store demo_env demo_request empty_pg)"
proof -
  let ?s = "snd (svc_create demo_parser pg_store demo_env demo_request empty_pg)"
  have "service_step demo_parser empty_pg ?s"
    by (rule step_create [where en = demo_env and req = demo_request, OF prod.collapse [symmetric]])
      (simp_all add: demo_request_def)
  then have "(service_step demo_parser)\<^sup>*\<^sup>* empty_pg ?s" by blast
  with runs_only_append [OF reachable_init this] show ?thesis by blast
qed

text \<open>
  C7: Create is idempotent on the external identifier. After a successful Create with an external
  identifier, any later Create with that identifier, whatever else its request says and even if it
  would not be valid, is answered with the stored event (or a store failure) and stores nothing.
\<close>

theorem create_idempotent:
  assumes "pg_inv s" and "cr_external_id req \<noteq> []" and "distinct (map fst (cr_tags req))" and "env_uuid en \<noteq> Some []"
    and "svc_create parse pg_store en req s = (Inr e, s1)" and "(service_step parse)\<^sup>*\<^sup>* s1 s2"
    and "cr_external_id req' = cr_external_id req"
    and "svc_create parse' pg_store en' req' s2 = (r, s3)"
  shows "pg_registry s3 = pg_registry s2 \<and> e \<in> set (pg_registry s2)
    \<and> (r = Inl (ErrDuplicate (Some e)) \<or> (\<exists>msg. r = Inl (ErrOther msg)))"
proof -
  from pgs.create_with_Inr [OF assms(1,3,4) assms(5) [unfolded svc_create_def]] assms(2) obtain i et tags where
    inv1: "pg_inv s1" and e: "e = stored_event (new_event en i req et tags)" and reg1: "pg_registry s1 = pg_registry s @ [e]"
    and fresh: "find_by_external_id (pg_registry s) (cr_external_id req) = None" by metis
  have ext: "ev_external_id e = cr_external_id req" by (simp add: e stored_event_def new_event_def)
  from steps_extend [OF assms(6) inv1] obtain es where inv2: "pg_inv s2" and reg2: "pg_registry s2 = (pg_registry s @ [e]) @ es"
    by (auto simp: extends_def reg1)
  have "find_by_external_id (pg_registry s2) (cr_external_id req') = Some e"
    unfolding reg2 assms(7) using fresh ext by (simp add: find_by_external_id_def find_append split: option.splits)
  from pgs.create_again [OF inv2 this _ assms(8) [unfolded svc_create_def]] assms(2,7) reg2 show ?thesis by simp
qed

theorem create_idempotent_witness:
  "\<exists>e s1 r s3. svc_create demo_parser pg_store demo_env demo_request demo_pg = (Inr e, s1)
    \<and> svc_create demo_parser pg_store demo_env (zero_create_request\<lparr>cr_external_id := ''x9''\<rparr>) s1 = (r, s3)
    \<and> pg_registry s3 = pg_registry s1 \<and> e \<in> set (pg_registry s1)
    \<and> (r = Inl (ErrDuplicate (Some e)) \<or> (\<exists>msg. r = Inl (ErrOther msg)))"
proof -
  obtain e s1 where one: "svc_create demo_parser pg_store demo_env demo_request demo_pg = (Inr e, s1)"
    using demo_created by blast
  let ?again = "zero_create_request\<lparr>cr_external_id := ''x9''\<rparr>"
  have ext: "cr_external_id demo_request \<noteq> []" "distinct (map fst (cr_tags demo_request))"
    "cr_external_id ?again = cr_external_id demo_request" by (simp_all add: demo_request_def)
  obtain r s3 where two: "svc_create demo_parser pg_store demo_env ?again s1 = (r, s3)" by fastforce
  from create_idempotent [OF demo_inv ext(1,2) _ one rtranclp.rtrancl_refl ext(3) two] one two show ?thesis by auto
qed

text \<open>
  C8: the star toggle. A successful ToggleStar appends one event by the caller on the event named, of
  the type opposite to its state, so it flips whether that event is starred and leaves every other
  star and every alert as they were; a failed one appends nothing, and an unknown event is reported
  as not found.
\<close>

theorem toggle_star_flips:
  assumes "pg_inv s" and "env_uuid en \<noteq> Some []" and "svc_toggle_star_as pg_store en i user s = (r, s')"
  shows "case r of
      Inr e \<Rightarrow> i \<in> registry_ids (pg_registry s) \<and> pg_registry s' = pg_registry s @ [e]
        \<and> ev_user_name e = ui_name user
        \<and> (\<forall>j. starred (pg_registry s') j = (if j = i then \<not> starred (pg_registry s) i else starred (pg_registry s) j)
             \<and> alerted (pg_registry s') j = alerted (pg_registry s) j)
    | Inl err \<Rightarrow> pg_registry s' = pg_registry s"
proof (cases r)
  case (Inl err)
  from pgs.toggle_star_as_Inl [OF assms(1,2) assms(3) [unfolded Inl]] Inl show ?thesis by simp
next
  case (Inr e)
  note run = assms(3) [unfolded Inr]
  from pgs.toggle_star_as_Inr [OF assms(1,2) run] pgs.star_flips [OF assms(1,2) run] Inr show ?thesis
    by (simp add: toggled_def)
qed

text \<open>The alert toggle, in the same words for alerts.\<close>

theorem toggle_alert_flips:
  assumes "pg_inv s" and "env_uuid en \<noteq> Some []" and "svc_toggle_alert_as pg_store en i user s = (r, s')"
  shows "case r of
      Inr e \<Rightarrow> i \<in> registry_ids (pg_registry s) \<and> pg_registry s' = pg_registry s @ [e]
        \<and> ev_user_name e = ui_name user
        \<and> (\<forall>j. alerted (pg_registry s') j = (if j = i then \<not> alerted (pg_registry s) i else alerted (pg_registry s) j)
             \<and> starred (pg_registry s') j = starred (pg_registry s) j)
    | Inl err \<Rightarrow> pg_registry s' = pg_registry s"
proof (cases r)
  case (Inl err)
  from pgs.toggle_alert_as_Inl [OF assms(1,2) assms(3) [unfolded Inl]] Inl show ?thesis by simp
next
  case (Inr e)
  note run = assms(3) [unfolded Inr]
  from pgs.toggle_alert_as_Inr [OF assms(1,2) run] pgs.alert_flips [OF assms(1,2) run] Inr show ?thesis
    by (simp add: toggled_def)
qed

theorem toggle_star_flips_witness:
  "\<exists>e s'. svc_toggle_star_as pg_store demo_env ''e1'' demo_user demo_pg = (Inr e, s')
    \<and> starred (pg_registry demo_pg) ''e1'' \<and> \<not> starred (pg_registry s') ''e1''"
proof -
  obtain e s' where "st_toggle_star pg_store demo_env ''e1'' demo_user demo_pg = (Inr e, s')"
    using live_pgs.live_toggle_star [OF demo_inv demo_ready _ _ demo_fresh, of demo_env demo_user] by auto
  then have run: "svc_toggle_star_as pg_store demo_env ''e1'' demo_user demo_pg = (Inr e, s')"
    by (simp add: svc_toggle_star_as_def missing_event_def)
  have "starred (pg_registry demo_pg) ''e1''"
    by (simp add: starred_def latest_of_def demo_registry is_child_def)
  with toggle_star_flips [OF demo_inv demo_uuid run] run show ?thesis by auto
qed

theorem toggle_alert_flips_witness:
  "\<exists>e s'. svc_toggle_alert_as pg_store demo_env ''e1'' demo_user demo_pg = (Inr e, s')
    \<and> \<not> alerted (pg_registry demo_pg) ''e1'' \<and> alerted (pg_registry s') ''e1''"
proof -
  obtain e s' where "st_toggle_alert pg_store demo_env ''e1'' demo_user demo_pg = (Inr e, s')"
    using live_pgs.live_toggle_alert [OF demo_inv demo_ready _ _ demo_fresh, of demo_env demo_user] by auto
  then have run: "svc_toggle_alert_as pg_store demo_env ''e1'' demo_user demo_pg = (Inr e, s')"
    by (simp add: svc_toggle_alert_as_def missing_event_def)
  have "\<not> alerted (pg_registry demo_pg) ''e1''"
    by (simp add: alerted_def latest_of_def demo_registry is_child_def)
  with toggle_alert_flips [OF demo_inv demo_uuid run] run show ?thesis by auto
qed

section \<open>The lifecycle of operations\<close>

lemma ended_not_active:
  "operation_ended reg op \<Longrightarrow> represents_active reg d \<Longrightarrow> operation_in_phase ''start'' d \<noteq> Some op"
  by (auto simp: represents_active_def)

text \<open>
  C10: closing. Closing a correlated start whose closing identifier is not held by a foreign event
  either fails and stores nothing, or appends exactly one event, by the caller, that ends the
  operation: afterwards no event of the registry represents it in ListCurrent.
\<close>

theorem close_ends_operation:
  assumes "pg_inv s" and "env_uuid en \<noteq> Some []" and "ui_name user \<noteq> []"
    and "find_by_id (pg_registry s) i = Some start" and "operation_in_phase ''start'' start = Some (t, k, v)"
    and "t \<noteq> []" and "close_id_ok (pg_registry s) (t, k, v)"
    and "svc_close_operation_as parse pg_store en i user description s = (r, s')"
  shows "case r of
      Inl err \<Rightarrow> pg_registry s' = pg_registry s
    | Inr e \<Rightarrow> (\<exists>end. e = Some end \<and> pg_registry s' = pg_registry s @ [end] \<and> ev_user_name end = ui_name user
        \<and> \<not> operation_ended (pg_registry s) (t, k, v) \<and> operation_ended (pg_registry s') (t, k, v)
        \<and> (\<forall>d. represents_active (pg_registry s') d \<longrightarrow> operation_in_phase ''start'' d \<noteq> Some (t, k, v)))"
proof (cases r)
  case (Inl err)
  from pgs.close_fails [OF assms(1-6) assms(8) [unfolded Inl]] Inl show ?thesis by simp
next
  case (Inr e)
  from pgs.close_succeeds [OF assms(1-7) assms(8) [unfolded Inr]] obtain x where
    x: "\<not> operation_ended (pg_registry s) (t, k, v)" "e = Some x" "pg_registry s' = pg_registry s @ [x]"
      "operation_in_phase ''end'' x = Some (t, k, v)" "ev_user_name x = ui_name user" by blast
  then have "operation_ended (pg_registry s') (t, k, v)" by (simp add: operation_ended_append)
  with x Inr ended_not_active [OF this] show ?thesis by simp
qed

theorem close_ends_operation_witness:
  "\<exists>e s'. svc_close_operation_as demo_parser pg_store demo_env ''e1'' demo_user [] demo_pg = (Inr (Some e), s')
    \<and> pg_registry s' = pg_registry demo_pg @ [e] \<and> ev_user_name e = ''bob''
    \<and> operation_ended (pg_registry s') (''deployment'', ''change_id'', ''c1'')"
proof -
  obtain e s' where run: "svc_close_operation_as demo_parser pg_store demo_env ''e1'' demo_user [] demo_pg = (Inr (Some e), s')"
    using demo_closed by blast
  from close_ends_operation [OF demo_inv demo_uuid demo_user_name demo_start demo_start_phase _ demo_close_id run]
  have "pg_registry s' = pg_registry demo_pg @ [e] \<and> ev_user_name e = ui_name demo_user
    \<and> operation_ended (pg_registry s') (''deployment'', ''change_id'', ''c1'')" by auto
  moreover have "ui_name demo_user = ''bob''" by (simp add: demo_user_def)
  ultimately show ?thesis using run by metis
qed



end
